(* ===== verification/Prelude.thy ===== *)
theory Prelude
  imports Main "HOL-Library.Sublist"
begin

text \<open>
  Shared vocabulary of the development. Go values are modelled as follows.
  \<^item> A Go \<open>string\<close> is a list of bytes, the HOL type \<open>string\<close> (one \<open>char\<close> per byte).
  \<^item> A Go \<open>map\<close> is a partial function. A \<open>for range\<close> over a map visits the keys in an order
    the language leaves open, so every operation that ranges over a map takes that order as
    an argument, and \<open>range_order\<close> says which lists are orders of a given map.
  \<^item> A Go \<open>error\<close> is its message; a fallible function returns \<open>gerr + 'a\<close>, \<open>Inl\<close> for a
    non-nil error.
  \<^item> A Go \<open>map[k]v\<close> read of a missing key gives the zero value: \<open>get0\<close>.
\<close>

named_theorems go_simps \<open>unfolding rules of the small Go library functions\<close>

type_synonym gerr = string

declare Let_def [simp]

text \<open>The errors of the cluster that the program tells apart, and the outcome of code that may panic.\<close>

datatype apierr = NotFound string | AlreadyExists string | OtherErr string

fun apiMsg :: "apierr \<Rightarrow> string" where
  "apiMsg (NotFound m) = m" | "apiMsg (AlreadyExists m) = m" | "apiMsg (OtherErr m) = m"

datatype 'a outcome = Ret 'a | Panic string

text \<open>A config map of the cluster: its name, namespace and data, which may be a nil map.\<close>

record ConfigMap =
  cfm_Name :: string
  cfm_Namespace :: string
  cfm_Data :: "(string \<rightharpoonup> string) option"

text \<open>\<open>errors.Wrap\<close> of the errors package.\<close>

definition wrap :: "string \<Rightarrow> string \<Rightarrow> string" where
  "wrap msg err = msg @ '': '' @ err"

definition range_order :: "('k \<rightharpoonup> 'v) \<Rightarrow> 'k list \<Rightarrow> bool" where
  "range_order m ks \<longleftrightarrow> distinct ks \<and> set ks = dom m"

definition get0 :: "'v \<Rightarrow> ('k \<rightharpoonup> 'v) \<Rightarrow> 'k \<Rightarrow> 'v" where
  "get0 z m k = (case m k of None \<Rightarrow> z | Some v \<Rightarrow> v)"

abbreviation get_str :: "('k \<rightharpoonup> string) \<Rightarrow> 'k \<Rightarrow> string" where
  "get_str \<equiv> get0 []"

definition map_delete :: "'k \<Rightarrow> ('k \<rightharpoonup> 'v) \<Rightarrow> ('k \<rightharpoonup> 'v)" where
  "map_delete k m = m(k := None)"

lemma get0_Some [simp]: "m k = Some v \<Longrightarrow> get0 z m k = v"
  and get0_None [simp]: "m k = None \<Longrightarrow> get0 z m k = z"
  by (simp_all add: get0_def)

lemma map_delete_apply [simp]: "map_delete k m j = (if j = k then None else m j)"
  by (simp add: map_delete_def)

lemma dom_map_delete [simp]: "dom (map_delete k m) = dom m - {k}"
  by (auto simp: map_delete_def)

lemma range_orderD: "range_order m ks \<Longrightarrow> k \<in> set ks \<Longrightarrow> \<exists>v. m k = Some v"
  by (auto simp: range_order_def)

lemma range_order_member: "range_order m ks \<Longrightarrow> k \<in> set ks \<longleftrightarrow> m k \<noteq> None"
  by (auto simp: range_order_def)

lemma range_order_empty [simp]: "range_order Map.empty ks \<longleftrightarrow> ks = []"
  by (auto simp: range_order_def)

text \<open>The state left by a loop that folds over the visited keys.\<close>

lemma fold_invariant_set:
  assumes "P s" and "\<And>x s. x \<in> set xs \<Longrightarrow> P s \<Longrightarrow> P (f x s)"
  shows "P (fold f xs s)"
  using assms by (induction xs arbitrary: s) auto

text \<open>Storing a list of entries in a map, one after the other: the last one wins.\<close>

lemma fold_upd_lookup:
  "fold (\<lambda>(k, v) m. m(k \<mapsto> v)) xs m j =
     (case map_of (rev xs) j of Some v \<Rightarrow> Some v | None \<Rightarrow> m j)"
  by (induction xs arbitrary: m) (auto simp: map_add_def split: option.splits)

text \<open>
  An interface for the printers and parsers of the program: a printer is undone by its
  parser on the well-formed values. Everything a client may use follows from that law.
\<close>

locale codec =
  fixes enc :: "'a \<Rightarrow> 'b"
    and dec :: "'b \<Rightarrow> 'a option"
    and wf :: "'a \<Rightarrow> bool"
  assumes dec_enc: "wf x \<Longrightarrow> dec (enc x) = Some x"
begin

lemma enc_inj: "wf x \<Longrightarrow> wf y \<Longrightarrow> enc x = enc y \<Longrightarrow> x = y"
  using dec_enc by (metis option.inject)

lemma enc_inj_on: "inj_on enc {x. wf x}"
  by (auto intro!: inj_onI enc_inj)

lemma dec_image: "wf x \<Longrightarrow> y = enc x \<Longrightarrow> dec y = Some x"
  by (simp add: dec_enc)

lemma map_dec_enc: "\<forall>x\<in>set xs. wf x \<Longrightarrow> map (dec \<circ> enc) xs = map Some xs"
  by (induction xs) (auto simp: dec_enc)

end

text \<open>
  An interface for the tables the components keep: a store that is read by key and
  written by key, where \<open>ok\<close> says which writes are accepted. A client that writes a list of
  entries reads back the last one written under each key.
\<close>

locale keyed_store =
  fixes get :: "'s \<Rightarrow> 'k \<Rightarrow> 'v option"
    and put :: "'k \<Rightarrow> 'v \<Rightarrow> 's \<Rightarrow> 's"
    and ok :: "'k \<Rightarrow> 'v \<Rightarrow> bool"
  assumes get_put_same: "ok k v \<Longrightarrow> get (put k v s) k = Some v"
    and get_put_other: "ok k v \<Longrightarrow> j \<noteq> k \<Longrightarrow> get (put k v s) j = get s j"
begin

lemma get_put: "ok k v \<Longrightarrow> get (put k v s) j = (if j = k then Some v else get s j)"
  by (simp add: get_put_same get_put_other)

lemma get_put_twice:
  "ok k v \<Longrightarrow> ok k w \<Longrightarrow> get (put k w (put k v s)) = get (put k w s)"
  by (rule ext) (simp add: get_put)

lemma get_put_commute:
  "ok k v \<Longrightarrow> ok j w \<Longrightarrow> j \<noteq> k \<Longrightarrow> get (put j w (put k v s)) = get (put k v (put j w s))"
  by (rule ext) (auto simp: get_put)

lemma get_puts:
  assumes "\<forall>(k, v)\<in>set kvs. ok k v"
  shows "get (fold (\<lambda>(k, v). put k v) kvs s) j =
           (case map_of (rev kvs) j of Some v \<Rightarrow> Some v | None \<Rightarrow> get s j)"
  using assms
proof (induction kvs arbitrary: s)
  case Nil
  then show ?case by simp
next
  case (Cons kv kvs)
  obtain k v where kv: "kv = (k, v)" by force
  with Cons show ?case
    by (auto simp: get_put map_add_def split: option.splits)
qed

lemma get_puts_distinct:
  assumes "\<forall>(k, v)\<in>set kvs. ok k v" and "distinct (map fst kvs)" and "(k, v) \<in> set kvs"
  shows "get (fold (\<lambda>(k, v). put k v) kvs s) k = Some v"
proof -
  have "distinct (map fst (rev kvs))" using assms(2) by (simp add: rev_map [symmetric])
  then have "map_of (rev kvs) k = Some v" using assms(3) by simp
  then show ?thesis by (simp add: get_puts [OF assms(1)])
qed

end

end
