(* ===== verification/GoStrings.thy ===== *)
theory GoStrings
  imports Prelude "HOL-Library.Word"
begin

text \<open>
  The functions of Go's packages \<open>strings\<close> and \<open>strconv\<close> that the program calls, as total
  functions on byte strings, with the laws the components use: splitting a joined list at
  a separator none of the parts contains, and reading back a printed integer.
  Positions that Go reports as \<open>-1\<close> are \<open>None\<close>.
\<close>

abbreviation newline :: string where "newline \<equiv> [CHR 0x0A]"

definition hasPrefix :: "string \<Rightarrow> string \<Rightarrow> bool" where
  "hasPrefix s p \<longleftrightarrow> take (length p) s = p"

definition hasSuffix :: "string \<Rightarrow> string \<Rightarrow> bool" where
  "hasSuffix s p \<longleftrightarrow> length p \<le> length s \<and> drop (length s - length p) s = p"

definition trimPrefix :: "string \<Rightarrow> string \<Rightarrow> string" where
  "trimPrefix s p = (if hasPrefix s p then drop (length p) s else s)"

fun index :: "string \<Rightarrow> string \<Rightarrow> nat option" where
  "index [] sub = (if sub = [] then Some 0 else None)"
| "index (c # cs) sub =
     (if hasPrefix (c # cs) sub then Some 0 else map_option Suc (index cs sub))"

fun lastIndex :: "string \<Rightarrow> string \<Rightarrow> nat option" where
  "lastIndex [] sub = (if sub = [] then Some 0 else None)"
| "lastIndex (c # cs) sub =
     (case lastIndex cs sub of
        Some i \<Rightarrow> Some (Suc i)
      | None \<Rightarrow> if hasPrefix (c # cs) sub then Some 0 else None)"

definition contains :: "string \<Rightarrow> string \<Rightarrow> bool" where
  "contains s sub \<longleftrightarrow> index s sub \<noteq> None"

definition containsAny :: "string \<Rightarrow> string \<Rightarrow> bool" where
  "containsAny s chars \<longleftrightarrow> (\<exists>c \<in> set s. c \<in> set chars)"

text \<open>\<open>strings.Split\<close> for a non-empty separator: \<open>acc\<close> is the piece read so far, reversed.\<close>

fun splitAux :: "string \<Rightarrow> string \<Rightarrow> string \<Rightarrow> string list" where
  "splitAux sep acc [] = [rev acc]"
| "splitAux sep acc (c # cs) =
     (if hasPrefix (c # cs) sep then rev acc # splitAux sep [] (drop (length sep - 1) cs)
      else splitAux sep (c # acc) cs)"

definition split :: "string \<Rightarrow> string \<Rightarrow> string list" where
  "split s sep = splitAux sep [] s"

fun join :: "string list \<Rightarrow> string \<Rightarrow> string" where
  "join [] sep = []"
| "join [x] sep = x"
| "join (x # y # ys) sep = x @ sep @ join (y # ys) sep"

definition replaceAll :: "string \<Rightarrow> string \<Rightarrow> string \<Rightarrow> string" where
  "replaceAll s old new = join (split s old) new"

definition isSpaceByte :: "char \<Rightarrow> bool" where
  "isSpaceByte c \<longleftrightarrow> c = CHR '' '' \<or> of_char c \<in> {9 :: nat, 10, 11, 12, 13}"

definition trimSpace :: "string \<Rightarrow> string" where
  "trimSpace s = rev (dropWhile isSpaceByte (rev (dropWhile isSpaceByte s)))"

definition toLowerByte :: "char \<Rightarrow> char" where
  "toLowerByte c = (if 65 \<le> (of_char c :: nat) \<and> (of_char c :: nat) \<le> 90
                    then char_of ((of_char c :: nat) + 32) else c)"

definition toLower :: "string \<Rightarrow> string" where
  "toLower s = map toLowerByte s"

text \<open>\<open>strconv.Itoa\<close> and \<open>strconv.Atoi\<close>; Go's \<open>int\<close> has 64 bits here.\<close>

definition digitChar :: "nat \<Rightarrow> char" where
  "digitChar d = char_of (48 + d)"

definition isDigitByte :: "char \<Rightarrow> bool" where
  "isDigitByte c \<longleftrightarrow> 48 \<le> (of_char c :: nat) \<and> (of_char c :: nat) \<le> 57"

definition digitVal :: "char \<Rightarrow> nat" where
  "digitVal c = of_char c - 48"

fun natDec :: "nat \<Rightarrow> string" where
  "natDec n = (if n < 10 then [digitChar n] else natDec (n div 10) @ [digitChar (n mod 10)])"

definition itoa :: "int \<Rightarrow> string" where
  "itoa i = (if i < 0 then CHR ''-'' # natDec (nat (- i)) else natDec (nat i))"

definition decVal :: "string \<Rightarrow> nat" where
  "decVal s = foldl (\<lambda>n c. 10 * n + digitVal c) 0 s"

definition readDec :: "string \<Rightarrow> nat option" where
  "readDec s = (if s \<noteq> [] \<and> list_all isDigitByte s then Some (decVal s) else None)"

definition int64_range :: "int \<Rightarrow> bool" where
  "int64_range i \<longleftrightarrow> - (2 ^ 63) \<le> i \<and> i < 2 ^ 63"

definition atoi :: "string \<Rightarrow> int option" where
  "atoi s =
     (case (case s of
              [] \<Rightarrow> None
            | c # cs \<Rightarrow>
                if c = CHR ''-'' then map_option (\<lambda>n. - int n) (readDec cs)
                else if c = CHR ''+'' then map_option int (readDec cs)
                else map_option int (readDec (c # cs))) of
        None \<Rightarrow> None
      | Some i \<Rightarrow> if int64_range i then Some i else None)"

declare natDec.simps [simp del]

lemmas [go_simps] = hasPrefix_def hasSuffix_def trimPrefix_def contains_def containsAny_def
  split_def replaceAll_def trimSpace_def isSpaceByte_def toLower_def toLowerByte_def

subsection \<open>Prefixes and positions\<close>

lemma hasPrefix_iff: "hasPrefix s p \<longleftrightarrow> (\<exists>t. s = p @ t)"
proof
  assume "hasPrefix s p"
  then have "s = p @ drop (length p) s"
    by (metis append_take_drop_id hasPrefix_def)
  then show "\<exists>t. s = p @ t" ..
qed (auto simp: hasPrefix_def)

lemma hasPrefix_append [simp]: "hasPrefix (p @ t) p"
  by (auto simp: hasPrefix_iff)

lemma hasPrefix_Nil [simp]: "hasPrefix s []"
  by (simp add: hasPrefix_def)

lemma hasPrefix_Nil_left [simp]: "hasPrefix [] p \<longleftrightarrow> p = []"
  by (auto simp: hasPrefix_def)

lemma hasPrefix_Cons [simp]: "hasPrefix (c # s) (d # p) \<longleftrightarrow> c = d \<and> hasPrefix s p"
  by (auto simp: hasPrefix_def)

lemma trimPrefix_append [simp]: "trimPrefix (p @ t) p = t"
  by (simp add: trimPrefix_def)

lemma hasSuffix_iff: "hasSuffix s p \<longleftrightarrow> (\<exists>t. s = t @ p)"
proof
  assume a: "hasSuffix s p"
  then have "s = take (length s - length p) s @ p"
    by (metis append_take_drop_id hasSuffix_def)
  then show "\<exists>t. s = t @ p" ..
qed (auto simp: hasSuffix_def)

lemma hasPrefix_char: "c \<in> set sub \<Longrightarrow> hasPrefix s sub \<Longrightarrow> c \<in> set s"
  by (auto simp: hasPrefix_iff)

lemma index_None_char: "c \<in> set sub \<Longrightarrow> c \<notin> set s \<Longrightarrow> index s sub = None"
  by (induction s) (auto dest: hasPrefix_char)

lemma index_SomeD: "index s sub = Some i \<Longrightarrow> \<exists>a b. s = a @ sub @ b \<and> length a = i"
proof (induction s arbitrary: i)
  case Nil
  then show ?case by (auto split: if_splits)
next
  case (Cons c cs)
  show ?case
  proof (cases "hasPrefix (c # cs) sub")
    case True
    then obtain b where "c # cs = [] @ sub @ b" by (auto simp: hasPrefix_iff)
    moreover from Cons.prems True have "i = 0" by simp
    ultimately show ?thesis by (metis list.size(3))
  next
    case False
    with Cons.prems obtain j where "index cs sub = Some j" "i = Suc j" by auto
    with Cons.IH obtain a b where "cs = a @ sub @ b" "length a = j" by blast
    with \<open>i = Suc j\<close> have "c # cs = (c # a) @ sub @ b \<and> length (c # a) = i" by simp
    then show ?thesis by blast
  qed
qed

lemma lastIndex_SomeD: "lastIndex s sub = Some i \<Longrightarrow> \<exists>a b. s = a @ sub @ b \<and> length a = i"
proof (induction s arbitrary: i)
  case Nil
  then show ?case by (auto split: if_splits)
next
  case (Cons c cs)
  show ?case
  proof (cases "lastIndex cs sub")
    case None
    with Cons.prems have "hasPrefix (c # cs) sub" "i = 0" by (auto split: if_splits)
    then obtain b where "c # cs = [] @ sub @ b \<and> length ([] :: string) = i"
      by (auto simp: hasPrefix_iff)
    then show ?thesis by blast
  next
    case (Some j)
    with Cons.IH obtain a b where "cs = a @ sub @ b" "length a = j" by blast
    moreover from Some Cons.prems have "i = Suc j" by simp
    ultimately have "c # cs = (c # a) @ sub @ b \<and> length (c # a) = i" by simp
    then show ?thesis by blast
  qed
qed

subsection \<open>Splitting and joining\<close>

text \<open>
  A separator cannot start inside a part that lacks one of the separator's characters:
  the first such character of the separator would have to lie in the part, or in the
  next separator before its own first position.
\<close>

lemma sep_not_inside:
  assumes c: "c \<in> set sep" and y: "c \<notin> set y" and ne: "y \<noteq> []"
  shows "\<not> hasPrefix (y @ sep @ rest) sep"
proof
  assume "hasPrefix (y @ sep @ rest) sep"
  then obtain t where eq: "y @ sep @ rest = sep @ t" by (auto simp: hasPrefix_iff)
  from c obtain u v where sep: "sep = u @ c # v" and cu: "c \<notin> set u"
    by (meson split_list_first)
  have "(y @ u) @ c # (v @ rest) = u @ c # (v @ t)"
    using eq by (simp add: sep)
  then have "takeWhile (\<lambda>z. z \<noteq> c) ((y @ u) @ c # (v @ rest)) = takeWhile (\<lambda>z. z \<noteq> c) (u @ c # (v @ t))"
    by simp
  moreover have "takeWhile (\<lambda>z. z \<noteq> c) ((y @ u) @ c # (v @ rest)) = y @ u"
    using y cu by (subst takeWhile_append2) auto
  moreover have "takeWhile (\<lambda>z. z \<noteq> c) (u @ c # (v @ t)) = u"
    using cu by (subst takeWhile_append2) auto
  ultimately have "y @ u = u" by simp
  with ne show False by simp
qed

lemma splitAux_no_sep:
  assumes "c \<in> set sep" and "c \<notin> set y"
  shows "splitAux sep acc y = [rev acc @ y]"
  using assms(2)
proof (induction y arbitrary: acc)
  case Nil
  then show ?case by simp
next
  case (Cons a y)
  then have "\<not> hasPrefix (a # y) sep"
    using hasPrefix_char [OF assms(1), of "a # y"] by auto
  with Cons show ?case by simp
qed

lemma splitAux_sep:
  assumes "c \<in> set sep" and "c \<notin> set y"
  shows "splitAux sep acc (y @ sep @ rest) = (rev acc @ y) # splitAux sep [] rest"
  using assms(2)
proof (induction y arbitrary: acc)
  case Nil
  from assms(1) obtain a sep' where "sep = a # sep'" by (cases sep) auto
  then show ?case by simp
next
  case (Cons a y)
  then have "\<not> hasPrefix ((a # y) @ sep @ rest) sep"
    using sep_not_inside [OF assms(1), of "a # y" rest] by simp
  with Cons show ?case by simp
qed

lemma split_join:
  assumes "c \<in> set sep" and "xs \<noteq> []" and "\<forall>x\<in>set xs. c \<notin> set x"
  shows "split (join xs sep) sep = xs"
  using assms(2,3)
proof (induction xs rule: induct_list012)
  case (3 x y zs)
  then show ?case
    using splitAux_sep [OF assms(1), of x "[]"] by (simp add: split_def)
qed (simp_all add: split_def splitAux_no_sep [OF assms(1)])

lemma splitAux_nonempty [simp]: "splitAux sep acc s \<noteq> []"
  by (induction sep acc s rule: splitAux.induct) auto

lemma split_nonempty [simp]: "split s sep \<noteq> []"
  by (simp add: split_def)

lemma split_no_sep: "c \<in> set sep \<Longrightarrow> c \<notin> set s \<Longrightarrow> split s sep = [s]"
  by (simp add: split_def splitAux_no_sep)

text \<open>Joining the pieces of a split gives the string back.\<close>

lemma join_Cons: "xs \<noteq> [] \<Longrightarrow> join (x # xs) sep = x @ sep @ join xs sep"
  by (cases xs) auto

lemma join_splitAux: "sep \<noteq> [] \<Longrightarrow> join (splitAux sep acc s) sep = rev acc @ s"
proof (induction sep acc s rule: splitAux.induct)
  case (2 sep acc c cs)
  show ?case
  proof (cases "hasPrefix (c # cs) sep")
    case True
    then obtain t where t: "c # cs = sep @ t" by (auto simp: hasPrefix_iff)
    with 2 have d: "drop (length sep - 1) cs = t" by (cases sep) auto
    with 2 True have "join (splitAux sep acc (c # cs)) sep = rev acc @ sep @ t"
      by (simp add: join_Cons)
    with t show ?thesis by simp
  next
    case False
    with 2 show ?thesis by simp
  qed
qed simp

lemma join_split: "sep \<noteq> [] \<Longrightarrow> join (split s sep) sep = s"
  by (simp add: split_def join_splitAux)

lemma length_splitAux_ge: "sep \<noteq> [] \<Longrightarrow> length (splitAux sep acc (y @ sep @ r)) \<ge> 2"
proof (induction y arbitrary: acc)
  case Nil
  then obtain a sep' where "sep = a # sep'" by (cases sep) auto
  moreover have "length (splitAux sep [] r) \<ge> 1" by (simp add: Suc_le_eq)
  ultimately show ?case by simp
next
  case (Cons a y)
  moreover have "length (splitAux sep [] z) \<ge> 1" for z by (simp add: Suc_le_eq)
  ultimately show ?case by simp
qed

text \<open>Splitting at a single character.\<close>

lemma splitAux_char_parts:
  "p \<in> set (splitAux [c] acc s) \<Longrightarrow> c \<notin> set acc \<Longrightarrow> c \<notin> set p \<and> set p \<subseteq> set acc \<union> set s"
  by (induction "[c]" acc s rule: splitAux.induct) (force split: if_splits)+

lemma split_char_parts: "p \<in> set (split s [c]) \<Longrightarrow> c \<notin> set p \<and> set p \<subseteq> set s"
  using splitAux_char_parts [of p c "[]" s] by (simp add: split_def)

lemma length_split_char: "length (split s [c]) = Suc (count_list s c)"
proof -
  have "length (splitAux [c] acc s) = Suc (count_list s c)" for acc
    by (induction s arbitrary: acc) simp_all
  then show ?thesis by (simp add: split_def)
qed

text \<open>A text whose lines all end in the separator has one more, empty, piece.\<close>

lemma split_lines:
  assumes "\<forall>l\<in>set ls. c \<notin> set l"
  shows "split (concat (map (\<lambda>l. l @ [c]) ls)) [c] = ls @ [[]]"
proof -
  have "concat (map (\<lambda>l. l @ [c]) ls) = join (ls @ [[]]) [c]"
    by (induction ls) (simp_all add: join_Cons)
  then show ?thesis using split_join [of c "[c]" "ls @ [[]]"] assms by simp
qed

subsection \<open>Decimal numbers\<close>

lemma digitChar_props [simp]:
  "d < 10 \<Longrightarrow> isDigitByte (digitChar d)" "d < 10 \<Longrightarrow> digitVal (digitChar d) = d"
  by (simp_all add: isDigitByte_def digitChar_def digitVal_def of_char_of)

lemma decVal_snoc [simp]: "decVal (s @ [c]) = 10 * decVal s + digitVal c"
  by (simp add: decVal_def)

lemma decVal_single [simp]: "decVal [c] = digitVal c"
  by (simp add: decVal_def)

lemma natDec_digits: "natDec n \<noteq> [] \<and> list_all isDigitByte (natDec n) \<and> decVal (natDec n) = n"
proof (induction n rule: natDec.induct)
  case (1 n)
  show ?case
  proof (cases "n < 10")
    case True
    then show ?thesis by (subst (1 2 3) natDec.simps) simp
  next
    case False
    with 1 have IH: "natDec (n div 10) \<noteq> []" "list_all isDigitByte (natDec (n div 10))"
      "decVal (natDec (n div 10)) = n div 10" by auto
    have "natDec n = natDec (n div 10) @ [digitChar (n mod 10)]"
      using False by (subst natDec.simps) simp
    with IH show ?thesis by simp
  qed
qed

lemma readDec_natDec [simp]: "readDec (natDec n) = Some n"
  using natDec_digits [of n] by (simp add: readDec_def)

lemma natDec_hd: "natDec n = c # cs \<Longrightarrow> c \<noteq> CHR ''-'' \<and> c \<noteq> CHR ''+''"
  using natDec_digits [of n] by (auto simp: isDigitByte_def)

lemma atoi_itoa:
  assumes "int64_range i"
  shows "atoi (itoa i) = Some i"
proof (cases "i < 0")
  case True
  with assms show ?thesis by (simp add: itoa_def atoi_def)
next
  case False
  obtain c cs where c: "natDec (nat i) = c # cs"
    using natDec_digits [of "nat i"] by (cases "natDec (nat i)") auto
  have "readDec (c # cs) = Some (nat i)" using readDec_natDec [of "nat i"] c by simp
  with False assms c natDec_hd [OF c] show ?thesis by (simp add: itoa_def atoi_def)
qed

lemma atoi_range: "atoi s = Some i \<Longrightarrow> int64_range i"
  by (auto simp: atoi_def split: option.splits if_splits)

lemma isDigitByte_itoa_chars:
  "c \<in> set (itoa i) \<Longrightarrow> c = CHR ''-'' \<or> isDigitByte c"
  using natDec_digits [of "nat i"] natDec_digits [of "nat (- i)"]
  by (auto simp: itoa_def list_all_iff split: if_splits)

lemma itoa_nonempty [simp]: "itoa i \<noteq> []"
  using natDec_digits by (simp add: itoa_def)

interpretation itoa_codec: codec itoa atoi int64_range
  by unfold_locales (rule atoi_itoa)

lemmas itoa_inj = itoa_codec.enc_inj

end
