(* ===== verification/SvcTypes.thy ===== *)
theory SvcTypes
  imports GoStrings
begin

text \<open>
  Workload types and what dev mode does to each of them: \<open>internal/nhctl/common/base\<close> and
  \<open>internal/nhctl/nocalhost/svc_type.go\<close>, and the dev-mode kinds of
  \<open>internal/nhctl/profile/profile_v2.go\<close>. The table of supported types is built by the
  package's \<open>init\<close>, which then lets the entries of the user's configuration file override
  it; the content of that file, already decoded, is the argument of \<open>initSupported\<close>.
\<close>

type_synonym SvcType = string

definition Deployment :: SvcType where "Deployment = ''deployment''"
definition StatefulSet :: SvcType where "StatefulSet = ''statefulset''"
definition DaemonSet :: SvcType where "DaemonSet = ''daemonset''"
definition Job :: SvcType where "Job = ''job''"
definition CronJob :: SvcType where "CronJob = ''cronjob''"
definition Pod :: SvcType where "Pod = ''pod''"
definition DEPLOYMENT :: SvcType where "DEPLOYMENT = ''D''"

lemmas svc_type_defs = Deployment_def StatefulSet_def DaemonSet_def Job_def CronJob_def
  Pod_def DEPLOYMENT_def

definition Alias :: "SvcType \<Rightarrow> SvcType" where
  "Alias s = (if s = Deployment then DEPLOYMENT else s)"

definition Origin :: "SvcType \<Rightarrow> SvcType" where
  "Origin s = (if s = DEPLOYMENT then Deployment else s)"

type_synonym DevModeType = string

definition DuplicateDevMode :: DevModeType where "DuplicateDevMode = ''duplicate''"
definition ReplaceDevMode :: DevModeType where "ReplaceDevMode = ''replace''"
definition NoneDevMode :: DevModeType where "NoneDevMode = ''''"

lemmas dev_mode_defs = DuplicateDevMode_def ReplaceDevMode_def NoneDevMode_def

definition IsReplaceDevMode :: "DevModeType \<Rightarrow> bool" where
  "IsReplaceDevMode d = (if d = ReplaceDevMode \<or> d = [] then True else False)"

definition IsDuplicateDevMode :: "DevModeType \<Rightarrow> bool" where
  "IsDuplicateDevMode d \<longleftrightarrow> d = DuplicateDevMode"

definition DevModeType_ToString :: "DevModeType \<Rightarrow> string" where
  "DevModeType_ToString d = (if d = [] then ReplaceDevMode else d)"

record PatchItem =
  pi_Patch :: string
  pi_Type :: string

record DevModeAction =
  ScalePatches :: "PatchItem list"
  PodTemplatePath :: string
  Create :: bool

definition DefaultDevModeAction :: DevModeAction where
  \<open>DefaultDevModeAction =
     \<lparr>ScalePatches = [\<lparr>pi_Patch = ''[{"op":"replace","path":"/spec/replicas","value":1}]'', pi_Type = ''json''\<rparr>],
      PodTemplatePath = ''/spec/template'', Create = False\<rparr>\<close>

definition PodDevModeAction :: DevModeAction where
  "PodDevModeAction = \<lparr>ScalePatches = [], PodTemplatePath = '''', Create = False\<rparr>"

definition DaemonSetDevModeAction :: DevModeAction where
  \<open>DaemonSetDevModeAction =
     \<lparr>ScalePatches = [\<lparr>pi_Patch = ''[{"op":"replace","path": "/spec/template/spec/nodeName", "value": "nocalhost.unreachable"}]'', pi_Type = ''json''\<rparr>],
      PodTemplatePath = ''/spec/template'', Create = True\<rparr>\<close>

definition JobDevModeAction :: DevModeAction where
  "JobDevModeAction = \<lparr>ScalePatches = [], PodTemplatePath = ''/spec/template'', Create = True\<rparr>"

definition CronJobDevModeAction :: DevModeAction where
  \<open>CronJobDevModeAction =
     \<lparr>ScalePatches = [\<lparr>pi_Patch = ''{"spec":{"suspend": true}}'', pi_Type = ''strategic''\<rparr>],
      PodTemplatePath = ''/spec/jobTemplate/spec/template'', Create = True\<rparr>\<close>

definition KruiseCronJobDevModeAction :: DevModeAction where
  \<open>KruiseCronJobDevModeAction =
     \<lparr>ScalePatches = [\<lparr>pi_Patch = ''[{"op":"replace","path": "/spec/suspend", "value": true}]'', pi_Type = ''json''\<rparr>],
      PodTemplatePath = ''/spec/template/broadcastJobTemplate/spec/template'', Create = True\<rparr>\<close>

definition builtinSvcTypes :: "(SvcType \<times> DevModeAction) list" where
  "builtinSvcTypes =
     [(Deployment, DefaultDevModeAction),
      (''deployments.v1.apps'', DefaultDevModeAction),
      (''deployments.v1beta1.apps'', DefaultDevModeAction),
      (''deployments.v1beta2.apps'', DefaultDevModeAction),
      (''deployments.v1beta1.extensions'', DefaultDevModeAction),
      (StatefulSet, DefaultDevModeAction),
      (''statefulsets.v1.apps'', DefaultDevModeAction),
      (''statefulsets.v1beta1.apps'', DefaultDevModeAction),
      (''statefulsets.v1beta2.apps'', DefaultDevModeAction),
      (''statefulsets.v1beta1.extensions'', DefaultDevModeAction),
      (DaemonSet, DaemonSetDevModeAction),
      (Job, JobDevModeAction),
      (CronJob, CronJobDevModeAction),
      (CronJob, CronJobDevModeAction),
      (Pod, PodDevModeAction),
      (''pods.v1.'', PodDevModeAction),
      (''clonesets.v1alpha1.apps.kruise.io'', DefaultDevModeAction),
      (''statefulsets.v1beta1.apps.kruise.io'', DefaultDevModeAction),
      (''daemonsets.v1alpha1.apps.kruise.io'', DaemonSetDevModeAction),
      (''advancedcronjobs.v1alpha1.apps.kruise.io'', KruiseCronJobDevModeAction),
      (''broadcastjobs.v1alpha1.apps.kruise.io'', JobDevModeAction)]"

text \<open>The annotations that name the application of an object, and the application of all others.\<close>

definition NocalhostApplicationName :: string where
  "NocalhostApplicationName = ''dev.nocalhost/application-name''"

definition HelmReleaseName :: string where
  "HelmReleaseName = ''meta.helm.sh/release-name''"

definition DefaultNocalhostApplication :: string where
  "DefaultNocalhostApplication = ''default.application''"

text \<open>The label that hides the copies of a workload.\<close>

definition DevWorkloadIgnored :: string where "DevWorkloadIgnored = ''nocalhost.dev.workload.ignored''"

record GroupVersionKind =
  gvk_Group :: string
  gvk_Version :: string
  gvk_Kind :: string

definition buildInGvkList :: "GroupVersionKind list" where
  "buildInGvkList =
     [\<lparr>gvk_Group = ''apps'', gvk_Version = ''v1'', gvk_Kind = ''Deployment''\<rparr>,
      \<lparr>gvk_Group = ''apps'', gvk_Version = ''v1'', gvk_Kind = ''StatefulSet''\<rparr>,
      \<lparr>gvk_Group = ''apps'', gvk_Version = ''v1'', gvk_Kind = ''DaemonSet''\<rparr>,
      \<lparr>gvk_Group = ''batch'', gvk_Version = ''v1'', gvk_Kind = ''Job''\<rparr>,
      \<lparr>gvk_Group = ''batch'', gvk_Version = ''v1'', gvk_Kind = ''CronJob''\<rparr>,
      \<lparr>gvk_Group = ''batch'', gvk_Version = ''v1beta1'', gvk_Kind = ''CronJob''\<rparr>,
      \<lparr>gvk_Group = '''', gvk_Version = ''v1'', gvk_Kind = ''Pod''\<rparr>]"

definition IsBuildInGvk :: "GroupVersionKind \<Rightarrow> bool" where
  "IsBuildInGvk g \<longleftrightarrow>
     list_ex (\<lambda>k. gvk_Kind g = gvk_Kind k \<and> gvk_Version g = gvk_Version k \<and> gvk_Group g = gvk_Group k)
       buildInGvkList"

text \<open>
  One loop of \<open>init\<close> stores the built-in entries, the next one the entries of the
  configuration file that name a type and carry an action (a nil pointer is \<open>None\<close>).
\<close>

fun applyCrdActions ::
  "(SvcType \<times> DevModeAction option) list \<Rightarrow> (SvcType \<rightharpoonup> DevModeAction) \<Rightarrow> (SvcType \<rightharpoonup> DevModeAction)" where
  "applyCrdActions [] m = m"
| "applyCrdActions ((t, act) # as) m =
     applyCrdActions as
       (case act of
          Some da \<Rightarrow> if t \<noteq> [] then m(t \<mapsto> da) else m
        | None \<Rightarrow> m)"

definition initSupported :: "(SvcType \<times> DevModeAction option) list \<Rightarrow> (SvcType \<rightharpoonup> DevModeAction)" where
  "initSupported crd =
     applyCrdActions crd (fold (\<lambda>(t, da) m. m(t \<mapsto> da)) builtinSvcTypes Map.empty)"

definition GetDevModeActionBySvcType ::
  "(SvcType \<rightharpoonup> DevModeAction) \<Rightarrow> SvcType \<Rightarrow> gerr + DevModeAction" where
  "GetDevModeActionBySvcType supported t =
     (case supported t of
        Some da \<Rightarrow> Inr da
      | None \<Rightarrow> Inl (''Workload Type '' @ t @ '' is unsupported''))"

definition CheckIfResourceTypeIsSupported :: "(SvcType \<rightharpoonup> DevModeAction) \<Rightarrow> SvcType \<Rightarrow> bool" where
  "CheckIfResourceTypeIsSupported supported t =
     (case supported t of Some _ \<Rightarrow> True | None \<Rightarrow> False)"

definition SvcTypeOfMutate ::
  "(SvcType \<rightharpoonup> DevModeAction) \<Rightarrow> string \<Rightarrow> SvcType \<times> gerr option" where
  "SvcTypeOfMutate supported t =
     (t, case GetDevModeActionBySvcType supported t of Inl e \<Rightarrow> Some e | Inr _ \<Rightarrow> None)"

subsection \<open>Lemmas\<close>

lemma Origin_Alias: "s \<noteq> DEPLOYMENT \<Longrightarrow> Origin (Alias s) = s"
  by (auto simp: Origin_def Alias_def)

lemma Alias_idem [simp]: "Alias (Alias s) = Alias s"
  by (auto simp: Alias_def svc_type_defs)

lemma Alias_Origin: "s \<noteq> Deployment \<Longrightarrow> Alias (Origin s) = s"
  by (auto simp: Origin_def Alias_def svc_type_defs)

lemma applyCrdActions_apply:
  "applyCrdActions as m t =
     (case find (\<lambda>(u, act). u = t \<and> u \<noteq> [] \<and> act \<noteq> None) (rev as) of
        Some (_, act) \<Rightarrow> act
      | None \<Rightarrow> m t)"
proof (induction as arbitrary: m)
  case Nil
  then show ?case by simp
next
  case (Cons a as)
  have snoc: "find P (xs @ [x]) = (case find P xs of Some y \<Rightarrow> Some y | None \<Rightarrow> if P x then Some x else None)"
    for P :: "'b \<Rightarrow> bool" and xs x
    by (induction xs) auto
  obtain u act where a: "a = (u, act)" by force
  show ?case
    by (auto simp: a Cons.IH snoc split: option.splits)
qed

lemma initSupported_apply:
  "initSupported crd t =
     (case find (\<lambda>(u, act). u = t \<and> u \<noteq> [] \<and> act \<noteq> None) (rev crd) of
        Some (_, act) \<Rightarrow> act
      | None \<Rightarrow> map_of (rev builtinSvcTypes) t)"
  by (auto simp: initSupported_def applyCrdActions_apply fold_upd_lookup split: option.splits)

lemma supported_iff_action:
  "CheckIfResourceTypeIsSupported m t \<longleftrightarrow> (\<exists>da. GetDevModeActionBySvcType m t = Inr da)"
  by (auto simp: CheckIfResourceTypeIsSupported_def GetDevModeActionBySvcType_def split: option.splits)

end
