(* ===== verification/Profile.thy ===== *)
theory Profile
  imports SvcTypes "HOL-Library.Multiset"
begin

text \<open>
  The configuration of an application: the structs and operations of
  \<open>internal/nhctl/profile\<close> (\<open>config_v1.go\<close>, \<open>config_v2.go\<close>, \<open>svc_config.go\<close>, the service
  profiles of \<open>profile_v2.go\<close>) and the conversion of the old format,
  \<open>internal/nhctl/app/config_converter.go\<close>. A pointer that may be nil is an \<open>option\<close>. The
  Go slices here are only ranged over and measured, so nil and empty are both \<open>[]\<close>.
\<close>

record Env =
  env_Name :: string
  env_Value :: string

record PersistentVolumeDir =
  pvd_Path :: string
  pvd_Capacity :: string
  pvd_WaitForFirstConsumer :: bool

record QuotaList =
  ql_Memory :: string
  ql_Cpu :: string

record ResourceQuota =
  rq_Limits :: "QuotaList option"
  rq_Requests :: "QuotaList option"

record WeightablePath =
  wp_Path :: string
  wp_Weight :: string

record DevCommands =
  dc_Build :: "string list"
  dc_Run :: "string list"
  dc_Debug :: "string list"
  dc_HotReloadRun :: "string list"
  dc_HotReloadDebug :: "string list"

record SyncConfig =
  sc_Type :: string
  sc_Mode :: string
  sc_DeleteProtection :: "bool option"
  sc_FilePattern :: "string list"
  sc_IgnoreFilePattern :: "string list"

record DebugConfig =
  dbg_RemoteDebugPort :: int
  dbg_Language :: string

record DependLabelSelector =
  dls_Pods :: "string list"
  dls_Jobs :: "string list"
  dls_TCP :: "string list"
  dls_HTTP :: "string list"

record ContainerInstallConfig =
  ci_Env :: "Env list"
  ci_EnvFrom :: "string list"
  ci_PortForward :: "string list"

record ContainerDevConfig =
  cd_GitUrl :: string
  cd_Image :: string
  cd_ImagePullPolicy :: string
  cd_Shell :: string
  cd_WorkDir :: string
  cd_StorageClass :: string
  cd_DevContainerName :: string
  cd_DevContainerResources :: "ResourceQuota option"
  cd_PersistentVolumeDirs :: "PersistentVolumeDir list"
  cd_Command :: "DevCommands option"
  cd_DebugConfig :: "DebugConfig option"
  cd_HotReload :: bool
  cd_UseDevContainer :: bool
  cd_Sync :: "SyncConfig option"
  cd_Env :: "Env list"
  cd_EnvFrom :: "string list option"
  cd_PortForward :: "string list"
  cd_SidecarImage :: string
  cd_Patches :: "PatchItem list"

record ContainerConfig =
  cc_Name :: string
  cc_Hub :: "string option"
  cc_Install :: "ContainerInstallConfig option"
  cc_Dev :: "ContainerDevConfig option"

record ServiceConfigV2 =
  svc_Name :: string
  svc_Type :: string
  svc_PriorityClass :: string
  svc_DependLabelSelector :: "DependLabelSelector option"
  svc_ContainerConfigs :: "ContainerConfig list"

record ApplicationConfig =
  ac_Name :: string
  ac_Type :: string
  ac_ResourcePath :: "string list"
  ac_IgnoredPath :: "string list"
  ac_PreInstall :: "WeightablePath list"
  ac_PostInstall :: "WeightablePath list"
  ac_PreUpgrade :: "WeightablePath list"
  ac_PostUpgrade :: "WeightablePath list"
  ac_PreDelete :: "WeightablePath list"
  ac_PostDelete :: "WeightablePath list"
  ac_HelmValues :: "(string \<times> string) list"
  ac_HelmVersion :: string
  ac_Env :: "Env list"
  ac_EnvFrom :: "string list"
  ac_ServiceConfigs :: "ServiceConfigV2 list"

record NocalHostAppConfigV2 =
  cp_Version :: string
  cp_EnvFile :: string
  cfg_Migrated :: bool
  cfg_ApplicationConfig :: ApplicationConfig

definition emptyApplicationConfig :: ApplicationConfig where
  "emptyApplicationConfig =
     \<lparr>ac_Name = [], ac_Type = [], ac_ResourcePath = [], ac_IgnoredPath = [], ac_PreInstall = [],
      ac_PostInstall = [], ac_PreUpgrade = [], ac_PostUpgrade = [], ac_PreDelete = [],
      ac_PostDelete = [], ac_HelmValues = [], ac_HelmVersion = [], ac_Env = [], ac_EnvFrom = [],
      ac_ServiceConfigs = []\<rparr>"

definition emptyConfigV2 :: NocalHostAppConfigV2 where
  "emptyConfigV2 =
     \<lparr>cp_Version = [], cp_EnvFile = [], cfg_Migrated = False,
      cfg_ApplicationConfig = emptyApplicationConfig\<rparr>"

subsection \<open>Service configurations\<close>

definition svcMatch :: "string \<Rightarrow> SvcType \<Rightarrow> ServiceConfigV2 \<Rightarrow> bool" where
  "svcMatch n t c \<longleftrightarrow> svc_Name c = n \<and> svc_Type c = t"

definition GetSvcConfigV2 ::
  "NocalHostAppConfigV2 option \<Rightarrow> string \<Rightarrow> SvcType \<Rightarrow> ServiceConfigV2 option" where
  "GetSvcConfigV2 n name t =
     (case n of
        None \<Rightarrow> None
      | Some cfg \<Rightarrow> find (svcMatch name t) (ac_ServiceConfigs (cfg_ApplicationConfig cfg)))"

definition newServiceConfig :: "string \<Rightarrow> SvcType \<Rightarrow> ServiceConfigV2" where
  "newServiceConfig name t =
     \<lparr>svc_Name = name, svc_Type = t, svc_PriorityClass = [], svc_DependLabelSelector = None,
      svc_ContainerConfigs = []\<rparr>"

definition GetSvcConfigS :: "NocalHostAppConfigV2 \<Rightarrow> string \<Rightarrow> SvcType \<Rightarrow> ServiceConfigV2" where
  "GetSvcConfigS n name t =
     (case find (svcMatch name t) (ac_ServiceConfigs (cfg_ApplicationConfig n)) of
        Some c \<Rightarrow> c
      | None \<Rightarrow> newServiceConfig name t)"

fun findIndex :: "('a \<Rightarrow> bool) \<Rightarrow> 'a list \<Rightarrow> nat option" where
  "findIndex P [] = None"
| "findIndex P (x # xs) = (if P x then Some 0 else map_option Suc (findIndex P xs))"

definition SetSvcConfigV2 :: "NocalHostAppConfigV2 \<Rightarrow> ServiceConfigV2 \<Rightarrow> NocalHostAppConfigV2" where
  "SetSvcConfigV2 n c =
     (if svc_Name c = [] \<or> svc_Type c = [] then n
      else let app = cfg_ApplicationConfig n; cs = ac_ServiceConfigs app in
        case findIndex (svcMatch (svc_Name c) (svc_Type c)) cs of
          Some i \<Rightarrow> n\<lparr>cfg_ApplicationConfig := app\<lparr>ac_ServiceConfigs := cs[i := c]\<rparr>\<rparr>
        | None \<Rightarrow> n\<lparr>cfg_ApplicationConfig := app\<lparr>ac_ServiceConfigs := cs @ [c]\<rparr>\<rparr>)"

fun hubMatchLoop :: "ContainerConfig list \<Rightarrow> string \<Rightarrow> string \<Rightarrow> bool" where
  "hubMatchLoop [] container img = False"
| "hubMatchLoop (c # cs) container img =
     (if cc_Name c = container
      then (case cc_Hub c of
              None \<Rightarrow> False
            | Some hubImage \<Rightarrow> if \<not> contains img hubImage then False else True)
      else hubMatchLoop cs container img)"

definition isSvcConfigInHubMatch :: "ServiceConfigV2 option \<Rightarrow> string \<Rightarrow> string \<Rightarrow> bool" where
  "isSvcConfigInHubMatch s container img =
     (case s of None \<Rightarrow> False | Some c \<Rightarrow> hubMatchLoop (svc_ContainerConfigs c) container img)"

definition FindSvcConfigInHub ::
  "NocalHostAppConfigV2 \<Rightarrow> string \<Rightarrow> SvcType \<Rightarrow> string \<Rightarrow> string \<Rightarrow> ServiceConfigV2 option" where
  "FindSvcConfigInHub n name t container img =
     (let c = GetSvcConfigS n name t in
      if isSvcConfigInHubMatch (Some c) container img then Some c else None)"

definition GetContainerConfig :: "ServiceConfigV2 option \<Rightarrow> string \<Rightarrow> ContainerConfig option" where
  "GetContainerConfig s container =
     (case s of
        None \<Rightarrow> None
      | Some c \<Rightarrow> find (\<lambda>cc. cc_Name cc = container) (svc_ContainerConfigs c))"

definition GetDefaultContainerDevConfig :: "ServiceConfigV2 \<Rightarrow> ContainerDevConfig option" where
  "GetDefaultContainerDevConfig s =
     (case svc_ContainerConfigs s of [] \<Rightarrow> None | c # _ \<Rightarrow> cc_Dev c)"

definition GetContainerDevConfig :: "ServiceConfigV2 \<Rightarrow> string \<Rightarrow> ContainerDevConfig option" where
  "GetContainerDevConfig s container =
     (case find (\<lambda>cc. cc_Name cc = container) (svc_ContainerConfigs s) of
        Some cc \<Rightarrow> cc_Dev cc
      | None \<Rightarrow> None)"

definition GetContainerDevConfigOrDefault :: "ServiceConfigV2 \<Rightarrow> string \<Rightarrow> ContainerDevConfig option" where
  "GetContainerDevConfigOrDefault s container =
     (if container = [] then GetDefaultContainerDevConfig s
      else case GetContainerDevConfig s container of
        None \<Rightarrow> GetDefaultContainerDevConfig s
      | Some c \<Rightarrow> Some c)"

subsection \<open>The old format\<close>

record ServiceDevOptions =
  v1_Name :: string
  v1_Type :: string
  v1_GitUrl :: string
  v1_DevImage :: string
  v1_WorkDir :: string
  v1_Sync :: "string list"
  v1_PriorityClass :: string
  v1_PersistentVolumeDirs :: "PersistentVolumeDir list"
  v1_BuildCommand :: "string list"
  v1_RunCommand :: "string list"
  v1_DebugCommand :: "string list"
  v1_HotReloadRunCommand :: "string list"
  v1_HotReloadDebugCommand :: "string list"
  v1_DevContainerShell :: string
  v1_DevContainerResources :: "ResourceQuota option"
  v1_DevPort :: "string list"
  v1_Jobs :: "string list"
  v1_Pods :: "string list"
  v1_SyncedPattern :: "string list"
  v1_IgnoredPattern :: "string list"

record NocalHostAppConfig =
  v1c_PreInstall :: "WeightablePath list"
  v1c_ResourcePath :: "string list"
  v1c_SvcConfigs :: "ServiceDevOptions list"
  v1c_Name :: string
  v1c_Type :: string
  v1c_IgnoredPath :: "string list"

definition convertServiceConfigV1ToV2 :: "ServiceDevOptions \<Rightarrow> ServiceConfigV2" where
  "convertServiceConfigV1ToV2 s =
     \<lparr>svc_Name = v1_Name s, svc_Type = v1_Type s, svc_PriorityClass = v1_PriorityClass s,
      svc_DependLabelSelector =
        (if v1_Jobs s \<noteq> [] \<or> v1_Pods s \<noteq> []
         then Some \<lparr>dls_Pods = v1_Pods s, dls_Jobs = v1_Jobs s, dls_TCP = [], dls_HTTP = []\<rparr>
         else None),
      svc_ContainerConfigs =
        [\<lparr>cc_Name = [], cc_Hub = None, cc_Install = None,
          cc_Dev = Some
            \<lparr>cd_GitUrl = v1_GitUrl s, cd_Image = v1_DevImage s, cd_ImagePullPolicy = [],
             cd_Shell = v1_DevContainerShell s, cd_WorkDir = v1_WorkDir s, cd_StorageClass = [],
             cd_DevContainerName = [], cd_DevContainerResources = v1_DevContainerResources s,
             cd_PersistentVolumeDirs = v1_PersistentVolumeDirs s,
             cd_Command = Some \<lparr>dc_Build = v1_BuildCommand s, dc_Run = v1_RunCommand s,
                dc_Debug = v1_DebugCommand s, dc_HotReloadRun = v1_HotReloadRunCommand s,
                dc_HotReloadDebug = v1_HotReloadDebugCommand s\<rparr>,
             cd_DebugConfig = None, cd_HotReload = False, cd_UseDevContainer = False,
             cd_Sync = Some \<lparr>sc_Type = [], sc_Mode = [], sc_DeleteProtection = None,
                sc_FilePattern = v1_SyncedPattern s, sc_IgnoreFilePattern = v1_IgnoredPattern s\<rparr>,
             cd_Env = [], cd_EnvFrom = None, cd_PortForward = v1_DevPort s,
             cd_SidecarImage = [], cd_Patches = []\<rparr>\<rparr>]\<rparr>"

definition convertConfigV1ToV2 :: "NocalHostAppConfig option \<Rightarrow> gerr + NocalHostAppConfigV2" where
  "convertConfigV1ToV2 v1 =
     (case v1 of
        None \<Rightarrow> Inl ''V1 config can not be nil''
      | Some c \<Rightarrow>
          Inr \<lparr>cp_Version = ''v2'', cp_EnvFile = [], cfg_Migrated = False,
               cfg_ApplicationConfig = emptyApplicationConfig
                 \<lparr>ac_Name := v1c_Name c, ac_Type := v1c_Type c,
                  ac_ResourcePath := v1c_ResourcePath c, ac_IgnoredPath := v1c_IgnoredPath c,
                  ac_PreInstall := v1c_PreInstall c,
                  ac_ServiceConfigs := map convertServiceConfigV1ToV2 (v1c_SvcConfigs c)\<rparr>\<rparr>)"

text \<open>\<open>checkConfigVersion\<close> reads the version of an already decoded configuration.\<close>

definition checkConfigVersion :: "(string \<Rightarrow> NocalHostAppConfigV2) \<Rightarrow> string \<Rightarrow> gerr + string" where
  "checkConfigVersion unmarshal content =
     (let cfg = unmarshal content in
      if cp_Version cfg = [] then Inr ''v1'' else Inr (cp_Version cfg))"

subsection \<open>Weighted paths\<close>

definition weight :: "WeightablePath \<Rightarrow> int" where
  "weight p = (case atoi (wp_Weight p) of None \<Rightarrow> 0 | Some w \<Rightarrow> w)"

definition SortedRelPath_Less :: "WeightablePath list \<Rightarrow> nat \<Rightarrow> nat \<Rightarrow> bool" where
  "SortedRelPath_Less a i j \<longleftrightarrow> weight (a ! i) < weight (a ! j)"

text \<open>
  \<open>Load\<close> sorts, then keeps the paths whose file exists. \<open>sort.Sort\<close> is not stable, so the
  sorted list is the result of a parameter \<open>srt\<close>; \<open>go_sort\<close> is what the package documents.
\<close>

definition go_sort :: "('a \<Rightarrow> int) \<Rightarrow> ('a list \<Rightarrow> 'a list) \<Rightarrow> bool" where
  "go_sort f srt \<longleftrightarrow> (\<forall>xs. mset (srt xs) = mset xs \<and> sorted (map f (srt xs)))"

fun loadExisting :: "(string \<Rightarrow> string) \<Rightarrow> (string \<Rightarrow> bool) \<Rightarrow> string list \<Rightarrow> string list" where
  "loadExisting relOrAbs exists [] = []"
| "loadExisting relOrAbs exists (p # ps) =
     (let file = relOrAbs p in
      if exists file then file # loadExisting relOrAbs exists ps
      else loadExisting relOrAbs exists ps)"

definition SortedRelPath_Load ::
  "(WeightablePath list \<Rightarrow> WeightablePath list) \<Rightarrow> (string \<Rightarrow> string) \<Rightarrow> (string \<Rightarrow> bool) \<Rightarrow>
     WeightablePath list option \<Rightarrow> string list" where
  "SortedRelPath_Load srt relOrAbs exists c =
     (case c of None \<Rightarrow> [] | Some ps \<Rightarrow> loadExisting relOrAbs exists (map wp_Path (srt ps)))"

definition RelPath_Load ::
  "(string \<Rightarrow> string) \<Rightarrow> (string \<Rightarrow> bool) \<Rightarrow> string list option \<Rightarrow> string list" where
  "RelPath_Load relOrAbs exists c =
     (case c of None \<Rightarrow> [] | Some ps \<Rightarrow> loadExisting relOrAbs exists ps)"

subsection \<open>Service profiles\<close>

record DevPortForward =
  pf_LocalPort :: int
  pf_RemotePort :: int
  pf_Role :: string
  pf_Status :: string
  pf_Reason :: string
  pf_PodName :: string
  pf_Labels :: "(string \<times> string) list"
  pf_OwnerKind :: string
  pf_OwnerApiVersion :: string
  pf_OwnerName :: string
  pf_Updated :: string
  pf_Sudo :: bool
  pf_DaemonServerPid :: int
  pf_ServiceType :: string

record SvcProfileV2 =
  prof_ActualName :: string
  prof_Name :: string
  prof_Type :: string
  prof_PortForwarded :: bool
  prof_Syncing :: bool
  prof_SyncDirs :: "string list"
  prof_RemoteSyncthingPort :: int
  prof_RemoteSyncthingGUIPort :: int
  prof_LocalSyncthingPort :: int
  prof_LocalSyncthingGUIPort :: int
  prof_LocalAbsoluteSyncDir :: "string list"
  prof_DevPortForwardList :: "DevPortForward list"
  prof_LocalConfigLoaded :: bool
  prof_AnnotationsConfigLoaded :: bool
  prof_CmConfigLoaded :: bool
  prof_Associate :: string
  prof_Developing :: bool
  prof_DevelopStatus :: string
  prof_Possess :: bool
  prof_DevModeType :: DevModeType
  prof_OriginDevContainer :: string

text \<open>\<open>GetName\<close> repairs an empty name from the actual name before it returns it.\<close>

definition fixName :: "SvcProfileV2 \<Rightarrow> SvcProfileV2" where
  "fixName s = (if prof_Name s = [] then
                  if prof_ActualName s \<noteq> [] then s\<lparr>prof_Name := prof_ActualName s\<rparr> else s
                else s)"

definition GetName :: "SvcProfileV2 \<Rightarrow> string \<times> SvcProfileV2" where
  "GetName s = (let s' = fixName s in (prof_Name s', s'))"

definition newSvcProfile :: "string \<Rightarrow> string \<Rightarrow> SvcProfileV2" where
  "newSvcProfile name t =
     \<lparr>prof_ActualName = [], prof_Name = name, prof_Type = t, prof_PortForwarded = False,
      prof_Syncing = False, prof_SyncDirs = [], prof_RemoteSyncthingPort = 0,
      prof_RemoteSyncthingGUIPort = 0, prof_LocalSyncthingPort = 0, prof_LocalSyncthingGUIPort = 0,
      prof_LocalAbsoluteSyncDir = [], prof_DevPortForwardList = [], prof_LocalConfigLoaded = False,
      prof_AnnotationsConfigLoaded = False, prof_CmConfigLoaded = False, prof_Associate = [],
      prof_Developing = False, prof_DevelopStatus = [], prof_Possess = False,
      prof_DevModeType = [], prof_OriginDevContainer = []\<rparr>"

text \<open>
  The lookup of a service profile walks the slice, repairing names on its way, and appends
  a fresh profile when it finds none. The result is the index of the profile in the
  updated slice (Go returns the pointer to it).
\<close>

fun svcProfileLoop :: "string \<Rightarrow> string \<Rightarrow> SvcProfileV2 list \<Rightarrow> nat option \<times> SvcProfileV2 list" where
  "svcProfileLoop name t [] = (None, [])"
| "svcProfileLoop name t (s # ss) =
     (case GetName s of (n, s') \<Rightarrow>
        if n = name \<and> prof_Type s' = t then (Some 0, s' # ss)
        else case svcProfileLoop name t ss of (i, ss') \<Rightarrow> (map_option Suc i, s' # ss'))"

definition SvcProfileV2_lookup ::
  "SvcProfileV2 list \<Rightarrow> string \<Rightarrow> string \<Rightarrow> nat \<times> SvcProfileV2 list" where
  "SvcProfileV2_lookup ps name t =
     (case svcProfileLoop name t ps of
        (Some i, ps') \<Rightarrow> (i, ps')
      | (None, ps') \<Rightarrow> (length ps', ps' @ [newSvcProfile name t]))"

text \<open>
  \<open>GenerateIdentifierIfNeeded\<close>: the MAC address, a UUID or the clock, whichever the machine
  has, read by the caller.
\<close>

definition GenerateIdentifierIfNeeded ::
  "string option \<Rightarrow> string option \<Rightarrow> int \<Rightarrow> string \<Rightarrow> string" where
  "GenerateIdentifierIfNeeded mac uuid nanos identifier =
     (if identifier = [] then
        (let s = (case mac of
                    Some a \<Rightarrow> a
                  | None \<Rightarrow> (case uuid of Some u \<Rightarrow> u | None \<Rightarrow> itoa nanos))
         in CHR ''i'' # replaceAll s '':'' ''-'')
      else identifier)"

subsection \<open>Lemmas on service configurations\<close>

lemma findIndex_Some:
  "findIndex P xs = Some i \<Longrightarrow> i < length xs \<and> P (xs ! i) \<and> find P xs = Some (xs ! i)"
  by (induction xs arbitrary: i) (auto split: if_splits)

lemma findIndex_None: "findIndex P xs = None \<longleftrightarrow> find P xs = None"
  by (induction xs) auto

lemma find_update_same: "findIndex P xs = Some i \<Longrightarrow> P v \<Longrightarrow> find P (xs[i := v]) = Some v"
  by (induction xs arbitrary: i) (auto split: if_splits)

lemma find_update_other:
  "\<not> Q v \<Longrightarrow> (\<And>x. P x \<Longrightarrow> \<not> Q x) \<Longrightarrow> findIndex P xs = Some i \<Longrightarrow> find Q (xs[i := v]) = find Q xs"
  by (induction xs arbitrary: i) (auto split: if_splits)

lemma find_snoc: "find P (xs @ [v]) = (case find P xs of Some x \<Rightarrow> Some x | None \<Rightarrow> if P v then Some v else None)"
  by (induction xs) auto

abbreviation svcKeyOk :: "string \<times> SvcType \<Rightarrow> ServiceConfigV2 \<Rightarrow> bool" where
  "svcKeyOk k c \<equiv> k = (svc_Name c, svc_Type c) \<and> svc_Name c \<noteq> [] \<and> svc_Type c \<noteq> []"

lemma svcMatch_self [simp]: "svcMatch (svc_Name c) (svc_Type c) c"
  by (simp add: svcMatch_def)

lemma GetSvcConfigV2_Set:
  assumes "svc_Name c \<noteq> []" and "svc_Type c \<noteq> []"
  shows "GetSvcConfigV2 (Some (SetSvcConfigV2 n c)) name t =
    (if name = svc_Name c \<and> t = svc_Type c then Some c else GetSvcConfigV2 (Some n) name t)"
proof -
  let ?cs = "ac_ServiceConfigs (cfg_ApplicationConfig n)"
  let ?P = "svcMatch (svc_Name c) (svc_Type c)"
  have other: "?P x \<Longrightarrow> \<not> svcMatch name t x" if "\<not> (name = svc_Name c \<and> t = svc_Type c)" for x
    using that by (auto simp: svcMatch_def)
  show ?thesis
  proof (cases "findIndex ?P ?cs")
    case None
    then have "find ?P ?cs = None" by (simp add: findIndex_None)
    with None assms show ?thesis
      by (auto simp: SetSvcConfigV2_def GetSvcConfigV2_def find_snoc svcMatch_def split: option.splits)
  next
    case (Some i)
    show ?thesis
    proof (cases "name = svc_Name c \<and> t = svc_Type c")
      case True
      with Some assms show ?thesis
        by (simp add: SetSvcConfigV2_def GetSvcConfigV2_def find_update_same)
    next
      case False
      have "find (svcMatch name t) (?cs[i := c]) = find (svcMatch name t) ?cs"
        using False by (intro find_update_other [OF _ other Some]) (auto simp: svcMatch_def)
      with False Some assms show ?thesis
        by (auto simp: SetSvcConfigV2_def GetSvcConfigV2_def)
    qed
  qed
qed

interpretation svc_store: keyed_store
  "\<lambda>n (name, t). GetSvcConfigV2 (Some n) name t"
  "\<lambda>_ c n. SetSvcConfigV2 n c"
  svcKeyOk
  by unfold_locales (auto simp: GetSvcConfigV2_Set split: if_splits)

definition svcKeysDistinct :: "NocalHostAppConfigV2 \<Rightarrow> bool" where
  "svcKeysDistinct n \<longleftrightarrow>
     distinct (map (\<lambda>c. (svc_Name c, svc_Type c)) (ac_ServiceConfigs (cfg_ApplicationConfig n)))"

lemma SetSvcConfigV2_distinct:
  assumes "svcKeysDistinct n"
  shows "svcKeysDistinct (SetSvcConfigV2 n c)"
proof -
  let ?cs = "ac_ServiceConfigs (cfg_ApplicationConfig n)"
  let ?key = "\<lambda>c. (svc_Name c, svc_Type c)"
  let ?P = "svcMatch (svc_Name c) (svc_Type c)"
  show ?thesis
  proof (cases "findIndex ?P ?cs")
    case None
    then have "\<forall>x\<in>set ?cs. \<not> ?P x" by (simp add: findIndex_None find_None_iff)
    then have "?key c \<notin> ?key ` set ?cs" by (auto simp: svcMatch_def)
    with None assms show ?thesis by (simp add: SetSvcConfigV2_def svcKeysDistinct_def)
  next
    case (Some i)
    then have i: "i < length ?cs" "?key (?cs ! i) = ?key c"
      using findIndex_Some by (fastforce simp: svcMatch_def)+
    then have "map ?key (?cs[i := c]) = map ?key ?cs"
      using list_update_id [of "map ?key ?cs" i] by (simp add: map_update)
    with Some assms show ?thesis by (simp add: SetSvcConfigV2_def svcKeysDistinct_def)
  qed
qed

lemma GetSvcConfigS_eq:
  "GetSvcConfigS n name t =
     (case GetSvcConfigV2 (Some n) name t of Some c \<Rightarrow> c | None \<Rightarrow> newServiceConfig name t)"
  by (simp add: GetSvcConfigS_def GetSvcConfigV2_def)

subsection \<open>Lemmas on conversion, paths and profiles\<close>

lemma find_map_comp: "find P (map f xs) = map_option f (find (P \<circ> f) xs)"
  by (induction xs) auto

lemma convert_keys [simp]:
  "svc_Name (convertServiceConfigV1ToV2 s) = v1_Name s"
  "svc_Type (convertServiceConfigV1ToV2 s) = v1_Type s"
  by (simp_all add: convertServiceConfigV1ToV2_def)

lemma loadExisting_filter: "loadExisting r ex ps = filter ex (map r ps)"
  by (induction ps) (auto simp: Let_def)

lemma fixName_idem [simp]: "fixName (fixName s) = fixName s"
  by (simp add: fixName_def)

lemma fixName_type [simp]: "prof_Type (fixName s) = prof_Type s"
  by (simp add: fixName_def)

lemma svcProfileLoop_None:
  "svcProfileLoop name t ps = (None, ps') \<Longrightarrow>
     ps' = map fixName ps \<and> (\<forall>s\<in>set ps'. \<not> (prof_Name s = name \<and> prof_Type s = t))"
proof (induction ps arbitrary: ps')
  case (Cons s ps)
  from Cons.prems obtain qs where q: "svcProfileLoop name t ps = (None, qs)" "ps' = fixName s # qs"
    "\<not> (prof_Name (fixName s) = name \<and> prof_Type (fixName s) = t)"
    by (auto simp: GetName_def split: if_splits prod.splits)
  with Cons.IH [OF q(1)] show ?case by auto
qed simp

lemma svcProfileLoop_Some:
  "svcProfileLoop name t ps = (Some i, ps') \<Longrightarrow>
     i < length ps \<and> ps' = map fixName (take (Suc i) ps) @ drop (Suc i) ps \<and>
     prof_Name (ps' ! i) = name \<and> prof_Type (ps' ! i) = t"
proof (induction ps arbitrary: i ps')
  case Nil
  then show ?case by simp
next
  case (Cons s ps)
  show ?case
  proof (cases "prof_Name (fixName s) = name \<and> prof_Type s = t")
    case True
    with Cons.prems show ?thesis by (auto simp: GetName_def Let_def)
  next
    case False
    with Cons.prems obtain k qs where q: "svcProfileLoop name t ps = (Some k, qs)"
      "i = Suc k" "ps' = fixName s # qs"
      by (auto simp: GetName_def Let_def split: prod.splits)
    from Cons.IH [OF q(1)] have k: "k < length ps"
      and qs: "qs = map fixName (take (Suc k) ps) @ drop (Suc k) ps"
      and nm: "prof_Name (qs ! k) = name" "prof_Type (qs ! k) = t" by auto
    have "ps' ! i = qs ! k" using q(2,3) by simp
    then show ?thesis using k nm q(2,3) qs by simp
  qed
qed

end
