(* ===== verification/DevMeta.thy ===== *)
theory DevMeta
  imports SvcTypes
begin

text \<open>
  Who develops what: \<open>internal/nhctl/appmeta/application_dev_meta.go\<close> and the dev-mode
  bookkeeping of \<open>application_meta.go\<close>. The table maps a workload type to a map from
  resource names to the identifier of the developer; a resource that is only starting is
  recorded under its name with the suffix \<open>>...Starting\<close>.

  \<open>Events\<close> compares two tables and reports which resources entered and left dev mode. It
  ranges over four Go maps, whose orders are its first arguments.
\<close>

type_synonym ApplicationDevMeta = "SvcType \<rightharpoonup> (string \<rightharpoonup> string)"

datatype EVENT = DEV_STA | DEV_END

datatype DevStartStatus = STARTING | STARTED | NONE

definition DevStartStatus_string :: "DevStartStatus \<Rightarrow> string" where
  "DevStartStatus_string s =
     (case s of STARTING \<Rightarrow> ''STARTING'' | STARTED \<Rightarrow> ''STARTED'' | NONE \<Rightarrow> ''NONE'')"

record ApplicationEvent =
  ev_Identifier :: string
  ev_ResourceName :: string
  ev_EventType :: EVENT
  ev_DevType :: SvcType

definition mkEvent :: "EVENT \<Rightarrow> SvcType \<Rightarrow> string \<Rightarrow> string \<Rightarrow> ApplicationEvent" where
  "mkEvent e t r i = \<lparr>ev_Identifier = i, ev_ResourceName = r, ev_EventType = e, ev_DevType = t\<rparr>"

text \<open>
  The comparison of the two JSON texts. \<open>json.Marshal\<close> writes the keys of a map in sorted
  order, so the texts are equal exactly when the tables are.
\<close>

definition sameDevMeta ::
  "SvcType list \<Rightarrow> (SvcType \<Rightarrow> string list) \<Rightarrow> SvcType list \<Rightarrow> (SvcType \<Rightarrow> string list) \<Rightarrow>
     ApplicationDevMeta \<Rightarrow> ApplicationDevMeta \<Rightarrow> bool" where
  "sameDevMeta o1 i1 o2 i2 from to \<longleftrightarrow>
     list_all (\<lambda>t. case (from t, to t) of
         (Some fm, Some tm) \<Rightarrow> list_all (\<lambda>r. fm r = tm r) (i1 t @ i2 t)
       | (None, None) \<Rightarrow> True
       | _ \<Rightarrow> False) (o1 @ o2)"

text \<open>
  The loop over the resources of one type of the old table. The map of the new table for
  this type, \<open>None\<close> when there is none, loses every resource the loop has seen.
\<close>

fun fromInner ::
  "SvcType \<Rightarrow> string list \<Rightarrow> (string \<rightharpoonup> string) \<Rightarrow> (string \<rightharpoonup> string) option \<Rightarrow>
     ApplicationEvent list \<times> (string \<rightharpoonup> string) option" where
  "fromInner t [] fm tm = ([], tm)"
| "fromInner t (r # rs) fm tm =
     (case fm r of
        None \<Rightarrow> fromInner t rs fm tm
      | Some ident \<Rightarrow>
          (case tm of
             None \<Rightarrow> (case fromInner t rs fm None of (es, tm') \<Rightarrow> (mkEvent DEV_END t r ident # es, tm'))
           | Some m \<Rightarrow>
               (let now = (case m r of
                             Some toIdent \<Rightarrow>
                               if ident \<noteq> toIdent
                               then [mkEvent DEV_END t r ident, mkEvent DEV_STA t r toIdent]
                               else []
                           | None \<Rightarrow> [mkEvent DEV_END t r ident])
                in case fromInner t rs fm (Some (map_delete r m)) of (es, tm') \<Rightarrow> (now @ es, tm'))))"

fun fromLoop ::
  "SvcType list \<Rightarrow> (SvcType \<Rightarrow> string list) \<Rightarrow> ApplicationDevMeta \<Rightarrow> ApplicationDevMeta \<Rightarrow>
     ApplicationEvent list \<times> ApplicationDevMeta" where
  "fromLoop [] i1 from to = ([], to)"
| "fromLoop (t # ts) i1 from to =
     (case from t of
        None \<Rightarrow> fromLoop ts i1 from to
      | Some fm \<Rightarrow>
          (case fromInner t (i1 t) fm (to t) of (es, tm') \<Rightarrow>
           (case fromLoop ts i1 from (case tm' of None \<Rightarrow> to | Some m \<Rightarrow> to(t \<mapsto> m)) of
              (es', to') \<Rightarrow> (es @ es', to'))))"

definition startInner :: "SvcType \<Rightarrow> (string \<rightharpoonup> string) \<Rightarrow> string list \<Rightarrow> ApplicationEvent list" where
  "startInner t m rs =
     concat (map (\<lambda>r. case m r of None \<Rightarrow> [] | Some i \<Rightarrow> [mkEvent DEV_STA t r i]) rs)"

definition startLoop ::
  "SvcType list \<Rightarrow> (SvcType \<Rightarrow> string list) \<Rightarrow> ApplicationDevMeta \<Rightarrow> ApplicationEvent list" where
  "startLoop o2 i2 to =
     concat (map (\<lambda>t. case to t of None \<Rightarrow> [] | Some m \<Rightarrow> startInner t m (i2 t)) o2)"

definition Events ::
  "SvcType list \<Rightarrow> (SvcType \<Rightarrow> string list) \<Rightarrow> SvcType list \<Rightarrow> (SvcType \<Rightarrow> string list) \<Rightarrow>
     ApplicationDevMeta \<Rightarrow> ApplicationDevMeta \<Rightarrow> ApplicationEvent list" where
  "Events o1 i1 o2 i2 from to =
     (if sameDevMeta o1 i1 o2 i2 from to then []
      else case fromLoop o1 i1 from to of (es, to') \<Rightarrow> es @ startLoop o2 i2 to')"

subsection \<open>Dev-mode bookkeeping\<close>

definition DEV_STARTING_SUFFIX :: string where
  "DEV_STARTING_SUFFIX = ''>...Starting''"

definition HasDevStartingSuffix :: "string \<Rightarrow> bool" where
  "HasDevStartingSuffix name \<longleftrightarrow> hasSuffix name DEV_STARTING_SUFFIX"

definition devStartMarkSign :: "string \<Rightarrow> string" where
  "devStartMarkSign name = name @ DEV_STARTING_SUFFIX"

definition devModeName :: "string \<Rightarrow> string \<Rightarrow> DevModeType \<Rightarrow> string" where
  "devModeName name identifier mode =
     (if \<not> IsReplaceDevMode mode then name @ ''-'' @ mode @ ''-'' @ identifier else name)"

text \<open>
  The opening lines of every operation below: allocate the table and the map of the
  workload type if they are missing.
\<close>

definition openDevMeta :: "ApplicationDevMeta option \<Rightarrow> SvcType \<Rightarrow> ApplicationDevMeta \<times> (string \<rightharpoonup> string)" where
  "openDevMeta dm svcType =
     (let d = (case dm of None \<Rightarrow> Map.empty | Some d \<Rightarrow> d);
          d' = (case d (Alias svcType) of None \<Rightarrow> d(Alias svcType \<mapsto> Map.empty) | Some _ \<Rightarrow> d)
      in (d', case d' (Alias svcType) of None \<Rightarrow> Map.empty | Some m \<Rightarrow> m))"

datatype dev_result = DevOk ApplicationDevMeta | ErrAlreadyDev ApplicationDevMeta

definition svcDevStarting ::
  "ApplicationDevMeta option \<Rightarrow> string \<Rightarrow> SvcType \<Rightarrow> string \<Rightarrow> DevModeType \<Rightarrow> dev_result" where
  "svcDevStarting dm name0 svcType identifier mode =
     (let name = devModeName name0 identifier mode in
      case openDevMeta dm svcType of (d, m) \<Rightarrow>
        if m name \<noteq> None then ErrAlreadyDev d
        else let mark = devStartMarkSign name in
          if m mark \<noteq> None then ErrAlreadyDev d
          else DevOk (d(Alias svcType \<mapsto> m(mark \<mapsto> identifier))))"

definition svcDevStartComplete ::
  "ApplicationDevMeta option \<Rightarrow> string \<Rightarrow> SvcType \<Rightarrow> string \<Rightarrow> DevModeType \<Rightarrow> dev_result" where
  "svcDevStartComplete dm name0 svcType identifier mode =
     (let name = devModeName name0 identifier mode in
      case openDevMeta dm svcType of (d, m) \<Rightarrow>
        if m name \<noteq> None then ErrAlreadyDev d
        else DevOk (d(Alias svcType \<mapsto> map_delete (devStartMarkSign name) (m(name \<mapsto> identifier)))))"

definition svcDevEnd ::
  "ApplicationDevMeta option \<Rightarrow> string \<Rightarrow> string \<Rightarrow> SvcType \<Rightarrow> DevModeType \<Rightarrow> ApplicationDevMeta" where
  "svcDevEnd dm name0 identifier svcType mode =
     (let name = devModeName name0 identifier mode in
      case openDevMeta dm svcType of (d, m) \<Rightarrow>
        d(Alias svcType \<mapsto> map_delete name (map_delete (devStartMarkSign name) m)))"

definition checkIfSvcDeveloping ::
  "ApplicationDevMeta option \<Rightarrow> string \<Rightarrow> string \<Rightarrow> SvcType \<Rightarrow> DevModeType \<Rightarrow>
     DevStartStatus \<times> ApplicationDevMeta" where
  "checkIfSvcDeveloping dm name0 identifier svcType mode =
     (let name = devModeName name0 identifier mode in
      case openDevMeta dm svcType of (d, m) \<Rightarrow>
        (if m name \<noteq> None then STARTED
         else if m (devStartMarkSign name) \<noteq> None then STARTING
         else NONE, d))"

definition svcDevModePossessor ::
  "ApplicationDevMeta option \<Rightarrow> string \<Rightarrow> SvcType \<Rightarrow> string \<Rightarrow> DevModeType \<Rightarrow>
     bool \<times> ApplicationDevMeta" where
  "svcDevModePossessor dm name0 svcType identifier mode =
     (let name = devModeName name0 identifier mode in
      case openDevMeta dm svcType of (d, m) \<Rightarrow>
        (get_str m name = identifier \<and> identifier \<noteq> [], d))"

definition getCurrentDevModeTypeOfWorkload ::
  "ApplicationDevMeta option \<Rightarrow> string \<Rightarrow> SvcType \<Rightarrow> string \<Rightarrow> DevModeType" where
  "getCurrentDevModeTypeOfWorkload dm workload t identifier =
     (case checkIfSvcDeveloping dm workload identifier t DuplicateDevMode of (s, d) \<Rightarrow>
        if s \<noteq> NONE then DuplicateDevMode
        else case checkIfSvcDeveloping (Some d) workload identifier t ReplaceDevMode of (s', _) \<Rightarrow>
          if s' \<noteq> NONE then ReplaceDevMode else NoneDevMode)"

subsection \<open>The difference of two tables\<close>

definition entries :: "ApplicationDevMeta \<Rightarrow> (SvcType \<times> string \<rightharpoonup> string)" where
  "entries m = (\<lambda>(t, r). case m t of None \<Rightarrow> None | Some rm \<Rightarrow> rm r)"

definition applyEvent ::
  "ApplicationEvent \<Rightarrow> (SvcType \<times> string \<rightharpoonup> string) \<Rightarrow> (SvcType \<times> string \<rightharpoonup> string)" where
  "applyEvent e s =
     (case ev_EventType e of
        DEV_END \<Rightarrow> s((ev_DevType e, ev_ResourceName e) := None)
      | DEV_STA \<Rightarrow> s((ev_DevType e, ev_ResourceName e) \<mapsto> ev_Identifier e))"

definition devMetaOrder :: "ApplicationDevMeta \<Rightarrow> SvcType list \<Rightarrow> (SvcType \<Rightarrow> string list) \<Rightarrow> bool" where
  "devMetaOrder m ts rs \<longleftrightarrow> range_order m ts \<and> (\<forall>t rm. m t = Some rm \<longrightarrow> range_order rm (rs t))"

lemma applyEvent_mk [simp]:
  "applyEvent (mkEvent DEV_END t r i) s = s((t, r) := None)"
  "applyEvent (mkEvent DEV_STA t r i) s = s((t, r) \<mapsto> i)"
  by (simp_all add: applyEvent_def mkEvent_def)

lemma entries_apply [simp]: "entries m (t, r) = (case m t of None \<Rightarrow> None | Some rm \<Rightarrow> rm r)"
  by (simp add: entries_def)

definition unseen :: "(string \<rightharpoonup> string) \<Rightarrow> string list \<Rightarrow> (string \<rightharpoonup> string) \<Rightarrow> (string \<rightharpoonup> string)" where
  "unseen fm rs m = (\<lambda>r. if r \<in> set rs \<and> fm r \<noteq> None then None else m r)"

lemma unseen_simps [simp]:
  "unseen fm [] m = m"
  "fm r = None \<Longrightarrow> unseen fm (r # rs) m = unseen fm rs m"
  "fm r = Some i \<Longrightarrow> unseen fm rs (map_delete r m) = unseen fm (r # rs) m"
  by (auto simp: unseen_def fun_eq_iff)

lemma fromInner_rest_None [simp]: "snd (fromInner t rs fm None) = None"
  by (induction rs) (auto simp: case_prod_beta split: option.splits)

lemma fromInner_rest_Some [simp]: "snd (fromInner t rs fm (Some m)) = Some (unseen fm rs m)"
  by (induction rs arbitrary: m) (auto simp: case_prod_beta split: option.splits)

lemma fromInner_replay_None:
  "fold applyEvent (fst (fromInner t rs fm None)) s =
     (\<lambda>(u, q). if u = t \<and> q \<in> set rs \<and> fm q \<noteq> None then None else s (u, q))"
  by (induction rs arbitrary: s) (auto simp: case_prod_beta fun_eq_iff split: option.splits)

lemma fromInner_replay_Some:
  assumes "distinct rs" and "\<forall>q\<in>set rs. s (t, q) = fm q"
  shows "fold applyEvent (fst (fromInner t rs fm (Some m))) s =
     (\<lambda>(u, q). if u = t \<and> q \<in> set rs \<and> fm q \<noteq> None then m q else s (u, q))"
  using assms
proof (induction rs arbitrary: s m)
  case Nil
  then show ?case by simp
next
  case (Cons r rs)
  show ?case
  proof (cases "fm r")
    case None
    with Cons show ?thesis by (auto simp: fun_eq_iff)
  next
    case (Some ident)
    define now where "now = (case m r of
        Some toIdent \<Rightarrow> if ident \<noteq> toIdent then [mkEvent DEV_END t r ident, mkEvent DEV_STA t r toIdent] else []
      | None \<Rightarrow> [mkEvent DEV_END t r ident])"
    have s': "fold applyEvent now s = s((t, r) := m r)"
      using Cons.prems Some by (auto simp: now_def fun_eq_iff split: option.splits)
    have "fold applyEvent (fst (fromInner t (r # rs) fm (Some m))) s =
          fold applyEvent (fst (fromInner t rs fm (Some (map_delete r m)))) (s((t, r) := m r))"
      using Some s' by (simp add: case_prod_beta now_def)
    also have "\<dots> = (\<lambda>(u, q). if u = t \<and> q \<in> set rs \<and> fm q \<noteq> None then map_delete r m q
                      else (s((t, r) := m r)) (u, q))"
      using Cons.prems by (intro Cons.IH) auto
    also have "\<dots> = (\<lambda>(u, q). if u = t \<and> q \<in> set (r # rs) \<and> fm q \<noteq> None then m q else s (u, q))"
      using Cons.prems Some by (auto simp: fun_eq_iff)
    finally show ?thesis .
  qed
qed

lemma fromInner_replay:
  assumes "distinct rs" and "\<forall>q\<in>set rs. s (t, q) = fm q"
  shows "fold applyEvent (fst (fromInner t rs fm tm)) s =
     (\<lambda>(u, q). if u = t \<and> q \<in> set rs \<and> fm q \<noteq> None then (case tm of None \<Rightarrow> None | Some m \<Rightarrow> m q)
               else s (u, q))"
  using fromInner_replay_None [of t rs fm s] fromInner_replay_Some [OF assms]
  by (cases tm) (auto simp: fun_eq_iff)

lemma fromLoop_rest:
  assumes "distinct ts"
  shows "snd (fromLoop ts i1 from to) u =
     (case (from u, to u) of
        (Some fm, Some m) \<Rightarrow> if u \<in> set ts then Some (unseen fm (i1 u) m) else Some m
      | _ \<Rightarrow> to u)"
  using assms
proof (induction ts arbitrary: to)
  case Nil
  then show ?case by (auto split: option.splits)
next
  case (Cons t ts)
  then show ?case
    by (cases "from t"; cases "to t")
      (auto simp: case_prod_beta split: option.splits)
qed

text \<open>
  Replaying the events of the first loop on a state that still agrees with the old table
  on the types to visit: what was in the old table becomes what the new one says.
\<close>

lemma fromLoop_replay:
  assumes "distinct ts"
    and "\<And>t fm. t \<in> set ts \<Longrightarrow> from t = Some fm \<Longrightarrow> range_order fm (i1 t)"
    and "\<And>t r. t \<in> set ts \<Longrightarrow> s (t, r) = entries from (t, r)"
  shows "fold applyEvent (fst (fromLoop ts i1 from to)) s =
     (\<lambda>(u, q). if u \<in> set ts \<and> entries from (u, q) \<noteq> None then entries to (u, q) else s (u, q))"
  using assms
proof (induction ts arbitrary: s to)
  case Nil
  then show ?case by (simp add: fun_eq_iff)
next
  case (Cons t ts)
  show ?case
  proof (cases "from t")
    case None
    with Cons.IH [of s to] Cons.prems show ?thesis by (auto simp: fun_eq_iff)
  next
    case (Some fm)
    let ?tm' = "snd (fromInner t (i1 t) fm (to t))"
    define to' where "to' = (case ?tm' of None \<Rightarrow> to | Some m \<Rightarrow> to(t \<mapsto> m))"
    define s' where "s' = fold applyEvent (fst (fromInner t (i1 t) fm (to t))) s"
    have ord: "distinct (i1 t)" "set (i1 t) = dom fm"
      using Cons.prems(2) [of t fm] Some by (auto simp: range_order_def)
    have st: "s (t, q) = fm q" for q using Cons.prems(3) [of t q] Some by simp
    have s'_eq: "s' (u, q) = (if u = t \<and> fm q \<noteq> None then entries to (t, q) else s (u, q))" for u q
      using fromInner_replay [OF ord(1), of s t fm "to t"] ord(2) st
      by (auto simp: s'_def split: option.splits)
    have ts: "t \<notin> set ts" "distinct ts" using Cons.prems(1) by auto
    have to'_other: "u \<in> set ts \<Longrightarrow> to' u = to u" for u
      using ts by (auto simp: to'_def split: option.splits)
    have "fold applyEvent (fst (fromLoop (t # ts) i1 from to)) s =
          fold applyEvent (fst (fromLoop ts i1 from to')) s'"
      using Some by (simp add: case_prod_beta to'_def s'_def)
    also have "\<dots> = (\<lambda>(u, q). if u \<in> set ts \<and> entries from (u, q) \<noteq> None then entries to' (u, q) else s' (u, q))"
      using Cons.prems ts by (intro Cons.IH) (auto simp: s'_eq)
    also have "\<dots> = (\<lambda>(u, q). if u \<in> set (t # ts) \<and> entries from (u, q) \<noteq> None then entries to (u, q) else s (u, q))"
      using ts Some to'_other by (auto simp: fun_eq_iff s'_eq)
    finally show ?thesis .
  qed
qed

lemma startInner_replay:
  "fold applyEvent (startInner t m rs) s =
     (\<lambda>(u, q). if u = t \<and> q \<in> set rs \<and> m q \<noteq> None then m q else s (u, q))"
  by (induction rs arbitrary: s) (auto simp: startInner_def fun_eq_iff split: option.splits)

lemma startLoop_replay:
  assumes "\<And>t m r. to t = Some m \<Longrightarrow> m r \<noteq> None \<Longrightarrow> r \<in> set (i2 t)"
  shows "fold applyEvent (startLoop ts i2 to) s =
     (\<lambda>(u, q). if u \<in> set ts \<and> entries to (u, q) \<noteq> None then entries to (u, q) else s (u, q))"
proof (induction ts arbitrary: s)
  case Nil
  then show ?case by (simp add: startLoop_def fun_eq_iff)
next
  case (Cons t ts)
  define s' where "s' = (case to t of None \<Rightarrow> s | Some m \<Rightarrow> fold applyEvent (startInner t m (i2 t)) s)"
  have s': "s' (u, q) = (if u = t \<and> entries to (u, q) \<noteq> None then entries to (u, q) else s (u, q))" for u q
    using assms [of t] by (auto simp: s'_def startInner_replay split: option.splits)
  have "fold applyEvent (startLoop (t # ts) i2 to) s = fold applyEvent (startLoop ts i2 to) s'"
    by (simp add: startLoop_def s'_def split: option.splits)
  then show ?case by (auto simp: Cons.IH s' fun_eq_iff)
qed

lemma sameDevMeta_iff:
  assumes "devMetaOrder from o1 i1" and "devMetaOrder to o2 i2"
  shows "sameDevMeta o1 i1 o2 i2 from to \<longleftrightarrow> from = to"
proof
  assume same: "sameDevMeta o1 i1 o2 i2 from to"
  show "from = to"
  proof
    fix t
    show "from t = to t"
    proof (cases "t \<in> set o1 \<union> set o2")
      case False
      with assms show ?thesis by (auto simp: devMetaOrder_def range_order_def)
    next
      case True
      with same have t: "case (from t, to t) of
         (Some fm, Some tm) \<Rightarrow> list_all (\<lambda>r. fm r = tm r) (i1 t @ i2 t)
       | (None, None) \<Rightarrow> True | _ \<Rightarrow> False"
        by (auto simp: sameDevMeta_def list_all_iff)
      show ?thesis
      proof (cases "from t")
        case None
        with t show ?thesis by (auto split: option.splits)
      next
        case (Some fm)
        with t obtain tm where tm: "to t = Some tm" by (auto split: option.splits)
        have "fm r = tm r" for r
        proof (cases "r \<in> set (i1 t @ i2 t)")
          case True
          with t Some tm show ?thesis by (simp add: list_all_iff)
        next
          case False
          with assms Some tm show ?thesis
            unfolding devMetaOrder_def range_order_def
            by (metis UnCI domIff set_append)
        qed
        with Some tm show ?thesis by auto
      qed
    qed
  qed
next
  assume "from = to"
  then show "sameDevMeta o1 i1 o2 i2 from to"
    by (auto simp: sameDevMeta_def list_all_iff split: option.splits)
qed

lemma Events_replay:
  assumes "devMetaOrder from o1 i1" and "devMetaOrder to o2 i2"
  shows "fold applyEvent (Events o1 i1 o2 i2 from to) (entries from) = entries to"
proof (cases "from = to")
  case True
  with sameDevMeta_iff [OF assms] show ?thesis by (simp add: Events_def)
next
  case False
  let ?to' = "snd (fromLoop o1 i1 from to)"
  have o1: "distinct o1" "set o1 = dom from" and o2: "set o2 = dom to"
    using assms by (auto simp: devMetaOrder_def range_order_def)
  have i1: "range_order fm (i1 t)" if "from t = Some fm" for t fm
    using assms(1) that by (simp add: devMetaOrder_def)
  have i2: "range_order m (i2 t)" if "to t = Some m" for t m
    using assms(2) that by (simp add: devMetaOrder_def)
  have to': "?to' t = (case (from t, to t) of
      (Some fm, Some m) \<Rightarrow> Some (unseen fm (i1 t) m) | _ \<Rightarrow> to t)" for t
    using fromLoop_rest [OF o1(1), of i1 "from" to t] o1(2) by (auto split: option.splits)
  have first: "fold applyEvent (fst (fromLoop o1 i1 from to)) (entries from) =
     (\<lambda>(u, q). if entries from (u, q) \<noteq> None then entries to (u, q) else None)"
    using fromLoop_replay [OF o1(1), where s = "entries from" and to = to] i1 o1(2)
    by (auto simp: fun_eq_iff split: option.splits)
  have left: "r \<in> set (i2 t)" if "?to' t = Some m" "m r \<noteq> None" for t m r
    using that i2 [of t] by (auto simp: to' unseen_def range_order_def split: option.splits if_splits)
  have ent: "entries ?to' (u, q) = (if entries from (u, q) \<noteq> None then None else entries to (u, q))" for u q
    using i1 [of u] by (auto simp: to' unseen_def range_order_def split: option.splits)
  have dom': "entries ?to' (u, q) \<noteq> None \<Longrightarrow> u \<in> set o2" for u q
    using o2 by (auto simp: to' split: option.splits)
  have "fold applyEvent (Events o1 i1 o2 i2 from to) (entries from) =
        fold applyEvent (startLoop o2 i2 ?to')
          (\<lambda>(u, q). if entries from (u, q) \<noteq> None then entries to (u, q) else None)"
    using False sameDevMeta_iff [OF assms] by (simp add: Events_def case_prod_beta first)
  also have "\<dots> = (\<lambda>(u, q). if u \<in> set o2 \<and> entries ?to' (u, q) \<noteq> None then entries ?to' (u, q)
      else (\<lambda>(u, q). if entries from (u, q) \<noteq> None then entries to (u, q) else None) (u, q))"
    by (rule startLoop_replay) (rule left)
  also have "\<dots> = entries to"
  proof
    fix x :: "SvcType \<times> string"
    obtain u q where x: "x = (u, q)" by force
    from dom' [of u q] show "(case x of (u, q) \<Rightarrow> if u \<in> set o2 \<and> entries ?to' (u, q) \<noteq> None then entries ?to' (u, q)
      else (\<lambda>(u, q). if entries from (u, q) \<noteq> None then entries to (u, q) else None) (u, q)) = entries to x"
      by (cases "entries to (u, q)") (auto simp: x ent simp del: entries_apply)
  qed
  finally show ?thesis .
qed

subsection \<open>The life of one entry\<close>

text \<open>
  What the table promises about one resource: it is idle, being started by somebody, or
  developed by somebody. The interface a caller relies on is stated once, over any
  table with these phases; \<open>dev_exec\<close> runs an operation and leaves the table alone when
  the operation is refused.
\<close>

datatype 'i phase = Idle | Starting 'i | Started 'i

datatype ('k, 'i) dev_op = Start 'k 'i | Complete 'k 'i | Stop 'k 'i

fun dev_exec ::
  "('k \<Rightarrow> 'i \<Rightarrow> 's \<Rightarrow> 's option) \<Rightarrow> ('k \<Rightarrow> 'i \<Rightarrow> 's \<Rightarrow> 's option) \<Rightarrow> ('k \<Rightarrow> 'i \<Rightarrow> 's \<Rightarrow> 's) \<Rightarrow>
     ('k, 'i) dev_op \<Rightarrow> 's \<Rightarrow> 's" where
  "dev_exec start complete stop (Start k i) s = (case start k i s of Some s' \<Rightarrow> s' | None \<Rightarrow> s)"
| "dev_exec start complete stop (Complete k i) s = (case complete k i s of Some s' \<Rightarrow> s' | None \<Rightarrow> s)"
| "dev_exec start complete stop (Stop k i) s = stop k i s"

fun op_key :: "('k, 'i) dev_op \<Rightarrow> 'k" where
  "op_key (Start k i) = k" | "op_key (Complete k i) = k" | "op_key (Stop k i) = k"

fun phase_step :: "'i phase \<Rightarrow> ('k, 'i) dev_op \<Rightarrow> 'i phase" where
  "phase_step Idle (Start k i) = Starting i"
| "phase_step (Starting j) (Start k i) = Starting j"
| "phase_step (Started j) (Start k i) = Started j"
| "phase_step (Started j) (Complete k i) = Started j"
| "phase_step p (Complete k i) = Started i"
| "phase_step p (Stop k i) = Idle"

locale dev_table =
  fixes phase :: "'s \<Rightarrow> 'k \<Rightarrow> 'i phase"
    and start complete :: "'k \<Rightarrow> 'i \<Rightarrow> 's \<Rightarrow> 's option"
    and stop :: "'k \<Rightarrow> 'i \<Rightarrow> 's \<Rightarrow> 's"
    and wfk :: "'k \<Rightarrow> bool"
  assumes start_refused: "wfk k \<Longrightarrow> start k i s = None \<longleftrightarrow> phase s k \<noteq> Idle"
    and complete_refused: "wfk k \<Longrightarrow> complete k i s = None \<longleftrightarrow> (\<exists>j. phase s k = Started j)"
    and phase_start: "wfk k \<Longrightarrow> wfk j \<Longrightarrow> start k i s = Some s' \<Longrightarrow>
      phase s' j = (if j = k then Starting i else phase s j)"
    and phase_complete: "wfk k \<Longrightarrow> wfk j \<Longrightarrow> complete k i s = Some s' \<Longrightarrow>
      phase s' j = (if j = k then Started i else phase s j)"
    and phase_stop: "wfk k \<Longrightarrow> wfk j \<Longrightarrow> phase (stop k i s) j = (if j = k then Idle else phase s j)"
begin

lemma phase_exec:
  assumes "wfk (op_key op)" and "wfk j"
  shows "phase (dev_exec start complete stop op s) j =
    (if j = op_key op then phase_step (phase s j) op else phase s j)"
proof (cases op)
  case (Start k i)
  with assms start_refused [of k i s] show ?thesis
    by (cases "start k i s"; cases "phase s k") (auto simp: phase_start)
next
  case (Complete k i)
  with assms complete_refused [of k i s] show ?thesis
    by (cases "complete k i s"; cases "phase s k") (auto simp: phase_complete)
next
  case (Stop k i)
  with assms show ?thesis by (cases "phase s k") (auto simp: phase_stop)
qed

text \<open>The phases of a run are the run of the phases: every table refines the life cycle.\<close>

lemma phase_run:
  assumes "\<forall>op\<in>set ops. wfk (op_key op)" and "wfk k"
  shows "phase (fold (dev_exec start complete stop) ops s) k =
    fold (\<lambda>op p. phase_step p op) (filter (\<lambda>op. op_key op = k) ops) (phase s k)"
  using assms(1)
proof (induction ops arbitrary: s)
  case (Cons op ops)
  then show ?case using phase_exec [of op k s] assms(2) by auto
qed simp

lemma owner_kept:
  assumes "\<forall>op\<in>set ops. wfk (op_key op)" and "wfk k"
    and "\<forall>i. Stop k i \<notin> set ops" and "phase s k = Started i"
  shows "phase (fold (dev_exec start complete stop) ops s) k = Started i"
  using assms(1,3,4)
proof (induction ops arbitrary: s)
  case (Cons op ops)
  have "phase (dev_exec start complete stop op s) k = Started i"
    using phase_exec [of op k s] Cons.prems assms(2) by (cases op) auto
  with Cons show ?case by simp
qed simp

end

subsection \<open>The table of the application meta implements it\<close>

definition devPhase :: "ApplicationDevMeta \<Rightarrow> SvcType \<Rightarrow> string \<Rightarrow> string phase" where
  "devPhase d t name =
     (case d (Alias t) of
        None \<Rightarrow> Idle
      | Some m \<Rightarrow>
          (case m name of
             Some i \<Rightarrow> Started i
           | None \<Rightarrow> (case m (devStartMarkSign name) of Some i \<Rightarrow> Starting i | None \<Rightarrow> Idle)))"

lemma openDevMeta_Some:
  "openDevMeta (Some d) t =
     (case d (Alias t) of None \<Rightarrow> (d(Alias t \<mapsto> Map.empty), Map.empty) | Some m \<Rightarrow> (d, m))"
  by (simp add: openDevMeta_def split: option.splits)

lemma openDevMeta_None: "openDevMeta None t = openDevMeta (Some Map.empty) t"
  by (simp add: openDevMeta_def)

lemma mark_neq [simp]: "devStartMarkSign n \<noteq> n" "n \<noteq> devStartMarkSign n"
  by (simp_all add: devStartMarkSign_def DEV_STARTING_SUFFIX_def)

lemma mark_inj [simp]: "devStartMarkSign a = devStartMarkSign b \<longleftrightarrow> a = b"
  by (simp add: devStartMarkSign_def)

lemma mark_suffix [simp]: "HasDevStartingSuffix (devStartMarkSign n)"
  by (auto simp: HasDevStartingSuffix_def devStartMarkSign_def hasSuffix_iff)

lemma plain_neq_mark: "\<not> HasDevStartingSuffix a \<Longrightarrow> a \<noteq> devStartMarkSign b"
  by auto

lemma devModeName_replace [simp]: "devModeName n i ReplaceDevMode = n"
  by (simp add: devModeName_def IsReplaceDevMode_def)

abbreviation devKeyOk :: "SvcType \<times> string \<Rightarrow> bool" where
  "devKeyOk k \<equiv> fst k \<noteq> DEPLOYMENT \<and> \<not> HasDevStartingSuffix (snd k)"

fun dev_ok :: "dev_result \<Rightarrow> ApplicationDevMeta option" where
  "dev_ok (DevOk d) = Some d"
| "dev_ok (ErrAlreadyDev d) = None"

lemma Alias_eq: "s \<noteq> DEPLOYMENT \<Longrightarrow> t \<noteq> DEPLOYMENT \<Longrightarrow> Alias s = Alias t \<longleftrightarrow> s = t"
  by (auto simp: Alias_def)

text \<open>The three updates, on any mode: only the phase of the resolved name changes.\<close>

lemma devPhase_set_mark:
  assumes "\<not> HasDevStartingSuffix n'" and "d (Alias t) = Some m \<or> d (Alias t) = None \<and> m = Map.empty"
    and "m n = None"
  shows "devPhase (d(Alias t \<mapsto> m(devStartMarkSign n \<mapsto> i))) t' n' =
    (if Alias t' = Alias t \<and> n' = n then Starting i else devPhase d t' n')"
  using assms plain_neq_mark [OF assms(1), of n]
  by (auto simp: devPhase_def split: option.splits)

lemma devPhase_set_name:
  assumes "\<not> HasDevStartingSuffix n'" and "d (Alias t) = Some m \<or> d (Alias t) = None \<and> m = Map.empty"
    and "\<not> HasDevStartingSuffix n"
  shows "devPhase (d(Alias t \<mapsto> map_delete (devStartMarkSign n) (m(n \<mapsto> i)))) t' n' =
    (if Alias t' = Alias t \<and> n' = n then Started i else devPhase d t' n')"
  using assms plain_neq_mark [OF assms(1)] plain_neq_mark [OF assms(3), of n']
  by (auto simp: devPhase_def split: option.splits)

lemma devPhase_clear:
  assumes "\<not> HasDevStartingSuffix n'" and "d (Alias t) = Some m \<or> d (Alias t) = None \<and> m = Map.empty"
    and "\<not> HasDevStartingSuffix n"
  shows "devPhase (d(Alias t \<mapsto> map_delete n (map_delete (devStartMarkSign n) m))) t' n' =
    (if Alias t' = Alias t \<and> n' = n then Idle else devPhase d t' n')"
  using assms plain_neq_mark [OF assms(1)] plain_neq_mark [OF assms(3), of n']
  by (auto simp: devPhase_def split: option.splits)

lemmas dev_op_defs = svcDevStarting_def svcDevStartComplete_def svcDevEnd_def openDevMeta_Some

interpretation replace_mode: dev_table
  "\<lambda>d (t, n). devPhase d t n"
  "\<lambda>(t, n) i d. dev_ok (svcDevStarting (Some d) n t i ReplaceDevMode)"
  "\<lambda>(t, n) i d. dev_ok (svcDevStartComplete (Some d) n t i ReplaceDevMode)"
  "\<lambda>(t, n) i d. svcDevEnd (Some d) n i t ReplaceDevMode"
  devKeyOk
proof (unfold_locales, goal_cases)
  case (1 k i s)
  then show ?case
    by (cases k) (auto simp: dev_op_defs devPhase_def split: option.splits)
next
  case (2 k i s)
  then show ?case
    by (cases k) (auto simp: dev_op_defs devPhase_def split: option.splits)
next
  case (3 k j i s s')
  then show ?case
    by (cases k; cases j)
      (auto simp: dev_op_defs devPhase_set_mark Alias_eq split: option.splits if_splits)
next
  case (4 k j i s s')
  then show ?case
    by (cases k; cases j)
      (auto simp: dev_op_defs devPhase_set_name Alias_eq split: option.splits if_splits)
next
  case (5 k j i s)
  then show ?case
    by (cases k; cases j)
      (auto simp: dev_op_defs devPhase_clear Alias_eq split: option.splits if_splits)
qed

end
