(* ===== verification/AppMeta.thy ===== *)
theory AppMeta
  imports Profile DevMeta
begin

text \<open>
  The application meta, \<open>internal/nhctl/appmeta/application_meta.go\<close>: the record kept for one
  application, its encoding into a Kubernetes secret and back, the retry loop that stores
  it, and the operations that install, develop and remove an application.

  Outside the repository and so parameters: the cluster (\<open>api\<close>, every call reads and returns
  a world \<open>'w\<close>), and the libraries for xz and YAML (\<open>codecs\<close>).
\<close>

subsection \<open>Names\<close>

definition SecretType :: string where "SecretType = ''dev.nocalhost/application.meta''"
definition SecretNamePrefix :: string where "SecretNamePrefix = ''dev.nocalhost.application.''"
definition CmNamePrefix :: string where "CmNamePrefix = ''dev.nocalhost.config.''"
definition DependenceConfigMapPrefix :: string where
  "DependenceConfigMapPrefix = ''nocalhost-depends-do-not-overwrite''"

definition HasConfigMapPrefix :: "string \<Rightarrow> bool" where
  "HasConfigMapPrefix key \<longleftrightarrow> hasPrefix key CmNamePrefix"

definition GetAppNameFromConfigMapName :: "string \<Rightarrow> string" where
  "GetAppNameFromConfigMapName cmName =
     (if HasConfigMapPrefix cmName then trimPrefix cmName CmNamePrefix else [])"

definition ConfigMapName :: "string \<Rightarrow> string" where
  "ConfigMapName appName = CmNamePrefix @ appName"

definition GetApplicationName :: "string \<Rightarrow> gerr + string" where
  "GetApplicationName secretName0 =
     (let secretName =
        (case index secretName0 ''/'' of
           Some idx \<Rightarrow> if 0 < idx then
                         (if length secretName0 > idx + 1 then drop (idx + 1) secretName0 else secretName0)
                       else secretName0
         | None \<Rightarrow> secretName0)
      in if \<not> hasPrefix secretName SecretNamePrefix
         then Inl (''Error while decode Secret, Secret name '' @ secretName @ '' is illegal,'' @
                   '' must start with '' @ SecretNamePrefix @ ''. '')
         else Inr (drop (length SecretNamePrefix) secretName))"

type_synonym AppType = string

definition Helm :: AppType where "Helm = ''helmGit''"
definition HelmRepo :: AppType where "HelmRepo = ''helmRepo''"
definition Manifest :: AppType where "Manifest = ''rawManifest''"
definition ManifestGit :: AppType where "ManifestGit = ''rawManifestGit''"
definition ManifestLocal :: AppType where "ManifestLocal = ''rawManifestLocal''"
definition HelmLocal :: AppType where "HelmLocal = ''helmLocal''"
definition KustomizeGit :: AppType where "KustomizeGit = ''kustomizeGit''"
definition KustomizeLocal :: AppType where "KustomizeLocal = ''kustomizeLocal''"

lemmas app_type_defs = Helm_def HelmRepo_def Manifest_def ManifestGit_def ManifestLocal_def
  HelmLocal_def KustomizeGit_def KustomizeLocal_def

definition AppTypeOf :: "string \<Rightarrow> AppType" where
  "AppTypeOf s =
     (if s = Helm then Helm
      else if s = HelmRepo then HelmRepo
      else if s = HelmLocal then HelmLocal
      else if s = Manifest then Manifest
      else if s = ManifestGit then ManifestGit
      else if s = ManifestLocal then ManifestLocal
      else if s = KustomizeGit then KustomizeGit
      else Manifest)"

definition AppType_IsHelm :: "AppType \<Rightarrow> bool" where
  "AppType_IsHelm a \<longleftrightarrow> a = Helm \<or> a = HelmRepo \<or> a = HelmLocal"

type_synonym ApplicationState = string

definition UNINSTALLED :: ApplicationState where "UNINSTALLED = ''UNINSTALLED''"
definition INSTALLING :: ApplicationState where "INSTALLING = ''INSTALLING''"
definition INSTALLED :: ApplicationState where "INSTALLED = ''INSTALLED''"
definition UNKNOWN :: ApplicationState where "UNKNOWN = ''UNKNOWN''"

lemmas app_state_defs = UNINSTALLED_def INSTALLING_def INSTALLED_def UNKNOWN_def

definition ApplicationStateOf :: "string \<Rightarrow> ApplicationState" where
  "ApplicationStateOf s =
     (if s = INSTALLING then INSTALLING
      else if s = INSTALLED then INSTALLED
      else if s = UNKNOWN then UNKNOWN
      else UNINSTALLED)"

subsection \<open>State\<close>

record Secret =
  s_Name :: string
  s_Namespace :: string
  s_Type :: string
  s_Data :: "(string \<rightharpoonup> string) option"

record ApplicationMeta =
  am_Application :: string
  am_HelmReleaseName :: string
  am_Ns :: string
  am_ApplicationType :: AppType
  am_ApplicationState :: ApplicationState
  am_DepConfigName :: string
  am_PreInstallManifest :: string
  am_PostInstallManifest :: string
  am_PreUpgradeManifest :: string
  am_PostUpgradeManifest :: string
  am_PreDeleteManifest :: string
  am_PostDeleteManifest :: string
  am_Manifest :: string
  am_UninstallBackOff :: int
  am_DevMeta :: "ApplicationDevMeta option"
  am_Config :: "NocalHostAppConfigV2 option"
  am_Secret :: "Secret option"
  am_NamespaceId :: string

definition emptyMeta :: ApplicationMeta where
  "emptyMeta =
     \<lparr>am_Application = [], am_HelmReleaseName = [], am_Ns = [], am_ApplicationType = [],
      am_ApplicationState = [], am_DepConfigName = [], am_PreInstallManifest = [],
      am_PostInstallManifest = [], am_PreUpgradeManifest = [], am_PostUpgradeManifest = [],
      am_PreDeleteManifest = [], am_PostDeleteManifest = [], am_Manifest = [],
      am_UninstallBackOff = 0, am_DevMeta = None, am_Config = None, am_Secret = None,
      am_NamespaceId = []\<rparr>"

definition FakeAppMeta :: "string \<Rightarrow> string \<Rightarrow> ApplicationMeta" where
  "FakeAppMeta ns application =
     emptyMeta\<lparr>am_ApplicationState := INSTALLED, am_Ns := ns, am_Application := application,
       am_DevMeta := Some Map.empty, am_Config := Some (emptyConfigV2\<lparr>cfg_Migrated := True\<rparr>),
       am_NamespaceId := ''fakedNid''\<rparr>"

record ApplicationMetaSimple =
  ams_Application :: string
  ams_Ns :: string
  ams_ApplicationState :: ApplicationState
  ams_DevMeta :: "ApplicationDevMeta option"
  ams_Manifest :: string
  ams_PreInstallManifest :: string

definition Desc :: "ApplicationMeta list \<Rightarrow> ApplicationMetaSimple list" where
  "Desc as = map (\<lambda>meta.
     \<lparr>ams_Application = am_Application meta, ams_Ns = am_Ns meta,
      ams_ApplicationState = am_ApplicationState meta, ams_DevMeta = am_DevMeta meta,
      ams_Manifest = am_Manifest meta, ams_PreInstallManifest = am_PreInstallManifest meta\<rparr>) as"

definition IsInstalled :: "ApplicationMeta \<Rightarrow> bool" where
  "IsInstalled a \<longleftrightarrow> am_ApplicationState a = INSTALLED"

definition IsUnknown :: "ApplicationMeta \<Rightarrow> bool" where
  "IsUnknown a \<longleftrightarrow> am_ApplicationState a = UNKNOWN"

definition IsInstalling :: "ApplicationMeta \<Rightarrow> bool" where
  "IsInstalling a \<longleftrightarrow> am_ApplicationState a = INSTALLING"

definition IsNotInstall :: "ApplicationMeta \<Rightarrow> bool" where
  "IsNotInstall a \<longleftrightarrow> am_ApplicationState a = UNINSTALLED"

definition ProtectedFromReInstall :: "int \<Rightarrow> ApplicationMeta \<Rightarrow> bool" where
  "ProtectedFromReInstall nowUnixNano a \<longleftrightarrow> am_UninstallBackOff a > nowUnixNano"

definition IsHelm :: "ApplicationMeta \<Rightarrow> bool" where
  "IsHelm a \<longleftrightarrow> am_ApplicationType a = Helm \<or> am_ApplicationType a = HelmRepo \<or>
     am_ApplicationType a = HelmLocal"

definition GetApplicationConfig :: "ApplicationMeta option \<Rightarrow> ApplicationConfig" where
  "GetApplicationConfig a =
     (case a of
        None \<Rightarrow> emptyApplicationConfig
      | Some m \<Rightarrow> (case am_Config m of None \<Rightarrow> emptyApplicationConfig | Some c \<Rightarrow> cfg_ApplicationConfig c))"

definition GetApplicationDevMeta :: "ApplicationMeta \<Rightarrow> ApplicationDevMeta" where
  "GetApplicationDevMeta a = (case am_DevMeta a of None \<Rightarrow> Map.empty | Some d \<Rightarrow> d)"

subsection \<open>Encoding\<close>

text \<open>
  \<open>xzWriter\<close> is the compressed stream, \<open>None\<close> when the writer fails; \<open>xzReader\<close> is what can
  be read from a stream, \<open>None\<close> when its header is refused. \<open>yamlCfgInto\<close> decodes into a
  given value and also returns the error, which the caller may drop.
\<close>

record codecs =
  xzWriter :: "string \<Rightarrow> string option"
  xzReader :: "string \<Rightarrow> string option"
  yamlCfg :: "NocalHostAppConfigV2 option \<Rightarrow> string"
  yamlCfgInto :: "NocalHostAppConfigV2 \<Rightarrow> string \<Rightarrow> NocalHostAppConfigV2 \<times> gerr option"
  yamlDev :: "ApplicationDevMeta option \<Rightarrow> string"
  yamlDevInto :: "string \<Rightarrow> ApplicationDevMeta option"

definition compress :: "codecs \<Rightarrow> string \<Rightarrow> string" where
  "compress cx input = (case xzWriter cx input of None \<Rightarrow> [] | Some b \<Rightarrow> b)"

definition decompress :: "codecs \<Rightarrow> string \<Rightarrow> string" where
  "decompress cx input =
     (if input = [] then input
      else case xzReader cx input of None \<Rightarrow> [] | Some t \<Rightarrow> t)"

text \<open>
  The regular expression \<open>remoteDebugPort: "[0-9]*"\<close>, every leftmost match replaced by
  nothing; a match starts with \<open>key\<close>, then digits, then a quote.
\<close>

definition remoteDebugPortKey :: string where
  \<open>remoteDebugPortKey = ''remoteDebugPort: "''\<close>

function stripRemoteDebugPort :: "string \<Rightarrow> string" where
  "stripRemoteDebugPort [] = []"
| "stripRemoteDebugPort (c # cs) =
     (if hasPrefix (c # cs) remoteDebugPortKey then
        (case dropWhile isDigitByte (drop (length remoteDebugPortKey - 1) cs) of
           q # rest \<Rightarrow> if q = CHR 0x22 then stripRemoteDebugPort rest else c # stripRemoteDebugPort cs
         | [] \<Rightarrow> c # stripRemoteDebugPort cs)
      else c # stripRemoteDebugPort cs)"
  by pat_completeness auto
termination
proof (relation "measure length", goal_cases)
  case (3 c cs q rest)
  then have "Suc (length rest) = length (dropWhile isDigitByte (drop (length remoteDebugPortKey - 1) cs))"
    by simp
  also have "\<dots> \<le> length (drop (length remoteDebugPortKey - 1) cs)"
    by (rule length_dropWhile_le)
  finally show ?case by simp
qed auto

definition unmarshalConfigUnStrict :: "codecs \<Rightarrow> string \<Rightarrow> NocalHostAppConfigV2 \<times> gerr option" where
  "unmarshalConfigUnStrict cx cfg =
     (case yamlCfgInto cx emptyConfigV2 cfg of (result, err) \<Rightarrow>
        if err \<noteq> None then yamlCfgInto cx result (stripRemoteDebugPort cfg) else (result, err))"

abbreviation "SecretUninstallBackOffKey \<equiv> ''time''"
abbreviation "SecretHelmReleaseNameKey \<equiv> ''r''"
abbreviation "SecretNamespaceIdKey \<equiv> ''nid''"
abbreviation "SecretPostInstallKey \<equiv> ''po''"
abbreviation "SecretPostUpgradeKey \<equiv> ''pou''"
abbreviation "SecretPostDeleteKey \<equiv> ''pod''"
abbreviation "SecretPreInstallKey \<equiv> ''p''"
abbreviation "SecretPreUpgradeKey \<equiv> ''pu''"
abbreviation "SecretPreDeleteKey \<equiv> ''pd''"
abbreviation "SecretManifestKey \<equiv> ''m''"
abbreviation "SecretDevMetaKey \<equiv> ''v''"
abbreviation "SecretAppTypeKey \<equiv> ''t''"
abbreviation "SecretConfigKey \<equiv> ''c''"
abbreviation "SecretStateKey \<equiv> ''s''"
abbreviation "SecretDepKey \<equiv> ''d''"

text \<open>The fields of the secret that \<open>prepare\<close> writes, in its order.\<close>

definition preparedEntries :: "codecs \<Rightarrow> ApplicationMeta \<Rightarrow> (string \<times> string) list" where
  "preparedEntries cx a =
     [(SecretUninstallBackOffKey, itoa (am_UninstallBackOff a)),
      (SecretPreInstallKey, compress cx (am_PreInstallManifest a)),
      (SecretPreUpgradeKey, compress cx (am_PreUpgradeManifest a)),
      (SecretPreDeleteKey, compress cx (am_PreDeleteManifest a)),
      (SecretPostInstallKey, compress cx (am_PostInstallManifest a)),
      (SecretPostUpgradeKey, compress cx (am_PostUpgradeManifest a)),
      (SecretPostDeleteKey, compress cx (am_PostDeleteManifest a)),
      (SecretNamespaceIdKey, am_NamespaceId a),
      (SecretManifestKey, compress cx (am_Manifest a)),
      (SecretConfigKey, compress cx (yamlCfg cx (am_Config a))),
      (SecretStateKey, am_ApplicationState a),
      (SecretDepKey, am_DepConfigName a),
      (SecretAppTypeKey, am_ApplicationType a),
      (SecretHelmReleaseNameKey, am_HelmReleaseName a),
      (SecretDevMetaKey, yamlDev cx (am_DevMeta a))]"

text \<open>\<open>prepare\<close> is only called when the secret and its data are there.\<close>

definition prepare :: "codecs \<Rightarrow> ApplicationMeta \<Rightarrow> ApplicationMeta" where
  "prepare cx a =
     (case am_Secret a of
        None \<Rightarrow> a
      | Some s \<Rightarrow>
          (case s_Data s of
             None \<Rightarrow> a
           | Some d \<Rightarrow>
               a\<lparr>am_Secret := Some (s\<lparr>s_Data := Some (fold (\<lambda>(k, v) m. m(k \<mapsto> v)) (preparedEntries cx a) d)\<rparr>)\<rparr>))"

definition getKey :: "(string \<rightharpoonup> string) option \<Rightarrow> string \<Rightarrow> string option" where
  "getKey d k = (case d of None \<Rightarrow> None | Some m \<Rightarrow> m k)"

definition onKey :: "(string \<rightharpoonup> string) option \<Rightarrow> string \<Rightarrow> (string \<Rightarrow> 'a \<Rightarrow> 'a) \<Rightarrow> 'a \<Rightarrow> 'a" where
  "onKey d k f a = (case getKey d k of None \<Rightarrow> a | Some bs \<Rightarrow> f bs a)"

text \<open>
  The tail of \<open>ReAssignmentBySecret\<close>: every field is read only if its key is there, so a
  missing key keeps what the record already had.
\<close>

definition readFields :: "codecs \<Rightarrow> (string \<rightharpoonup> string) option \<Rightarrow> ApplicationMeta \<Rightarrow> ApplicationMeta" where
  "readFields cx d a0 =
     (let a1 = onKey d SecretUninstallBackOffKey
                 (\<lambda>bs a. a\<lparr>am_UninstallBackOff := (case atoi bs of None \<Rightarrow> 0 | Some v \<Rightarrow> v)\<rparr>) a0;
          a2 = onKey d SecretPreInstallKey (\<lambda>bs a. a\<lparr>am_PreInstallManifest := decompress cx bs\<rparr>) a1;
          a3 = onKey d SecretPreUpgradeKey (\<lambda>bs a. a\<lparr>am_PreUpgradeManifest := decompress cx bs\<rparr>) a2;
          a4 = onKey d SecretPreDeleteKey (\<lambda>bs a. a\<lparr>am_PreDeleteManifest := decompress cx bs\<rparr>) a3;
          a5 = onKey d SecretPostInstallKey (\<lambda>bs a. a\<lparr>am_PostInstallManifest := decompress cx bs\<rparr>) a4;
          a6 = onKey d SecretPostUpgradeKey (\<lambda>bs a. a\<lparr>am_PostUpgradeManifest := decompress cx bs\<rparr>) a5;
          a7 = onKey d SecretPostDeleteKey (\<lambda>bs a. a\<lparr>am_PostDeleteManifest := decompress cx bs\<rparr>) a6;
          a8 = onKey d SecretManifestKey (\<lambda>bs a. a\<lparr>am_Manifest := decompress cx bs\<rparr>) a7;
          a9 = onKey d SecretAppTypeKey (\<lambda>bs a. a\<lparr>am_ApplicationType := bs\<rparr>) a8;
          a10 = onKey d SecretDevMetaKey (\<lambda>bs a. a\<lparr>am_DevMeta := yamlDevInto cx bs\<rparr>) a9;
          a11 = onKey d SecretConfigKey
                  (\<lambda>bs a. a\<lparr>am_Config := Some (fst (unmarshalConfigUnStrict cx (decompress cx bs)))\<rparr>) a10;
          a12 = (if am_Config a11 = None then a11\<lparr>am_Config := Some emptyConfigV2\<rparr> else a11);
          a13 = onKey d SecretHelmReleaseNameKey (\<lambda>bs a. a\<lparr>am_HelmReleaseName := bs\<rparr>) a12
      in onKey d SecretNamespaceIdKey (\<lambda>bs a. a\<lparr>am_NamespaceId := bs\<rparr>) a13)"

definition ReAssignmentBySecret ::
  "codecs \<Rightarrow> ApplicationMeta \<Rightarrow> Secret option \<Rightarrow> gerr option \<times> ApplicationMeta" where
  "ReAssignmentBySecret cx a secret =
     (let a0 = a\<lparr>am_Secret := secret\<rparr> in
      case secret of
        None \<Rightarrow> (Some ''Error while decode Secret, Secret is null. '', a0)
      | Some sec \<Rightarrow>
          (case GetApplicationName (s_Name sec) of
             Inl err \<Rightarrow> (Some err, a0)
           | Inr appName \<Rightarrow>
               (case getKey (s_Data sec) SecretStateKey of
                  None \<Rightarrow> (Some (''Error while decode Secret, Secret '' @ s_Name sec @ '' is illegal,'' @
                              '' must contain with data key '' @ SecretStateKey @ ''. ''), a0)
                | Some bs \<Rightarrow>
                    (None, readFields cx (s_Data sec)
                       (a0\<lparr>am_Application := appName, am_Ns := s_Namespace sec,
                           am_ApplicationState := ApplicationStateOf bs\<rparr>)))))"

definition Decode :: "codecs \<Rightarrow> Secret option \<Rightarrow> gerr + ApplicationMeta" where
  "Decode cx secret =
     (case ReAssignmentBySecret cx emptyMeta secret of
        (Some err, _) \<Rightarrow> Inl err
      | (None, a) \<Rightarrow> Inr a)"

subsection \<open>The cluster\<close>

record 'w api =
  opGet :: "string \<Rightarrow> string \<Rightarrow> 'w \<Rightarrow> (Secret option \<times> apierr option) \<times> 'w"
  opUpdate :: "string \<Rightarrow> Secret \<Rightarrow> 'w \<Rightarrow> (Secret option \<times> apierr option) \<times> 'w"
  opCreate :: "string \<Rightarrow> Secret \<Rightarrow> 'w \<Rightarrow> (Secret option \<times> apierr option) \<times> 'w"
  notifyDaemon :: "string \<Rightarrow> Secret option \<Rightarrow> 'w \<Rightarrow> 'w"
  execHook :: "string \<Rightarrow> string \<Rightarrow> string \<Rightarrow> 'w \<Rightarrow> gerr option \<times> 'w"
  resourceInfos :: "string \<Rightarrow> 'w \<Rightarrow> string list \<times> 'w"
  deleteResource :: "string \<Rightarrow> 'w \<Rightarrow> 'w"
  cleanCustomResource :: "string \<Rightarrow> string \<Rightarrow> 'w \<Rightarrow> 'w"
  deleteConfigMap :: "string \<Rightarrow> 'w \<Rightarrow> gerr option \<times> 'w"
  listConfigMaps :: "'w \<Rightarrow> (gerr + string list) \<times> 'w"
  helmCommand :: "string list \<Rightarrow> 'w \<Rightarrow> gerr option \<times> 'w"
  kubeConfigFilePath :: string
  nowNano :: "'w \<Rightarrow> int"
  shortUuid :: "'w \<Rightarrow> (gerr + string) \<times> 'w"

text \<open>
  One attempt of \<open>Update\<close>, and what its retry condition does after a failed one: it takes
  over whatever secret the cluster returns, and always asks for another attempt.
\<close>

definition updateOnce ::
  "codecs \<Rightarrow> 'w api \<Rightarrow> ApplicationMeta \<Rightarrow> 'w \<Rightarrow> gerr option \<times> ApplicationMeta \<times> 'w" where
  "updateOnce cx op a w =
     (case am_Secret a of
        None \<Rightarrow> (Some ''secret not found'', a, w)
      | Some s \<Rightarrow>
          if s_Data s = None then (Some ''secret data is nil'', a, w)
          else let a1 = prepare cx a in
            (case opUpdate op (am_Ns a1) (the (am_Secret a1)) w of ((secret, err), w1) \<Rightarrow>
               (case err of
                  Some e \<Rightarrow> (Some (wrap ''Error while update Application meta '' (apiMsg e)), a1, w1)
                | None \<Rightarrow>
                    let a2 = a1\<lparr>am_Secret := secret\<rparr>
                    in (None, a2, notifyDaemon op (am_Ns a2) secret w1))))"

definition refreshSecret :: "'w api \<Rightarrow> ApplicationMeta \<Rightarrow> 'w \<Rightarrow> ApplicationMeta \<times> 'w" where
  "refreshSecret op a w =
     (case opGet op (am_Ns a) (SecretNamePrefix @ am_Application a) w of ((secret, _), w1) \<Rightarrow>
        (if secret \<noteq> None then a\<lparr>am_Secret := secret\<rparr> else a, w1))"

fun retryUpdate ::
  "codecs \<Rightarrow> 'w api \<Rightarrow> nat \<Rightarrow> gerr option \<Rightarrow> ApplicationMeta \<Rightarrow> 'w \<Rightarrow> gerr option \<times> ApplicationMeta \<times> 'w" where
  "retryUpdate cx op 0 lastErr a w = (lastErr, a, w)"
| "retryUpdate cx op (Suc steps) lastErr a w =
     (case updateOnce cx op a w of
        (None, a1, w1) \<Rightarrow> (None, a1, w1)
      | (Some err, a1, w1) \<Rightarrow>
          (case refreshSecret op a1 w1 of (a2, w2) \<Rightarrow> retryUpdate cx op steps (Some err) a2 w2))"

definition DefaultRetrySteps :: nat where "DefaultRetrySteps = 5"

definition Update :: "codecs \<Rightarrow> 'w api \<Rightarrow> ApplicationMeta \<Rightarrow> 'w \<Rightarrow> gerr option \<times> ApplicationMeta \<times> 'w" where
  "Update cx op a w = retryUpdate cx op DefaultRetrySteps None a w"

subsection \<open>Operations\<close>

type_synonym 'w step = "gerr option \<times> ApplicationMeta \<times> 'w"

definition GenerateNidINE :: "codecs \<Rightarrow> 'w api \<Rightarrow> ApplicationMeta \<Rightarrow> 'w \<Rightarrow> 'w step" where
  "GenerateNidINE cx op a w =
     (if am_NamespaceId a = [] then
        (case shortUuid op w of
           (Inl err, w1) \<Rightarrow> (Some err, a, w1)
         | (Inr nid, w1) \<Rightarrow> Update cx op (a\<lparr>am_NamespaceId := nid\<rparr>) w1)
      else (None, a, w))"

definition initialFreshSecret :: "'w api \<Rightarrow> ApplicationMeta \<Rightarrow> 'w \<Rightarrow> (gerr + Secret) \<times> ApplicationMeta \<times> 'w" where
  "initialFreshSecret op a w =
     (let secret = \<lparr>s_Name = SecretNamePrefix @ am_Application a, s_Namespace = am_Ns a,
                    s_Type = SecretType, s_Data = Some [SecretStateKey \<mapsto> INSTALLING]\<rparr>
      in case shortUuid op w of
           (Inl err, w1) \<Rightarrow> (Inl err, a, w1)
         | (Inr nid, w1) \<Rightarrow> (Inr secret, a\<lparr>am_NamespaceId := nid\<rparr>, w1))"

definition createAndReassign :: "codecs \<Rightarrow> 'w api \<Rightarrow> ApplicationMeta \<Rightarrow> Secret \<Rightarrow> 'w \<Rightarrow> 'w step" where
  "createAndReassign cx op a secret w =
     (case opCreate op (am_Ns a) secret w of
        ((_, Some (AlreadyExists m)), w1) \<Rightarrow> (Some m, a, w1)
      | ((_, Some e), w1) \<Rightarrow>
          (Some (wrap ''Error while Initial Application meta, fail to create secret '' (apiMsg e)), a, w1)
      | ((created, None), w1) \<Rightarrow>
          (case ReAssignmentBySecret cx a created of
             (Some err, a1) \<Rightarrow>
               (Some (wrap ''Error while Initial Application meta, fail to decode secret '' err), a1, w1)
           | (None, a1) \<Rightarrow> (None, a1, w1)))"

definition doPreCheckThen ::
  "codecs \<Rightarrow> 'w api \<Rightarrow> (bool \<Rightarrow> ApplicationMeta \<Rightarrow> 'w \<Rightarrow> 'w step) \<Rightarrow> bool \<Rightarrow> ApplicationMeta \<Rightarrow> 'w \<Rightarrow> 'w step" where
  "doPreCheckThen cx op howToInitialMeta skipProtectedCheck a w =
     (case opGet op (am_Ns a) (SecretNamePrefix @ am_Application a) w of
        ((_, Some (NotFound _)), w1) \<Rightarrow> howToInitialMeta False a w1
      | ((_, Some e), w1) \<Rightarrow>
          (Some (wrap (''Error while Initial Application meta, fail to get secret , error: '' @ apiMsg e @ ''\<newline>'')
                  (apiMsg e)), a, w1)
      | ((get, None), w1) \<Rightarrow>
          (case ReAssignmentBySecret cx a get of
             (Some err, a1) \<Rightarrow>
               (Some (wrap ''Error while Initial Application meta, fail to decode secret '' err), a1, w1)
           | (None, a1) \<Rightarrow>
               if skipProtectedCheck then howToInitialMeta True a1 w1
               else if IsNotInstall a1 \<and> ProtectedFromReInstall (nowNano op w1) a1
               then (Some (''Application may uninstalling, '' @
                       ''the secret is protected to re initial, please try again later ''), a1, w1)
               else howToInitialMeta True a1 w1))"

definition Initial :: "codecs \<Rightarrow> 'w api \<Rightarrow> bool \<Rightarrow> ApplicationMeta \<Rightarrow> 'w \<Rightarrow> 'w step" where
  "Initial cx op force a w =
     doPreCheckThen cx op
       (\<lambda>exists a w.
          if exists then Update cx op (a\<lparr>am_ApplicationState := INSTALLING\<rparr>) w
          else (case initialFreshSecret op a w of
                  (Inl err, a1, w1) \<Rightarrow> (Some err, a1, w1)
                | (Inr secret, a1, w1) \<Rightarrow> createAndReassign cx op a1 secret w1))
       force a w"

definition OneTimesInitial ::
  "codecs \<Rightarrow> 'w api \<Rightarrow> (ApplicationMeta \<Rightarrow> ApplicationMeta) \<Rightarrow> bool \<Rightarrow> ApplicationMeta \<Rightarrow> 'w \<Rightarrow> 'w step" where
  "OneTimesInitial cx op f force a w =
     doPreCheckThen cx op
       (\<lambda>exists a w.
          if exists then Update cx op (f (a\<lparr>am_ApplicationState := INSTALLED\<rparr>)) w
          else (case initialFreshSecret op a w of
                  (Inl err, a1, w1) \<Rightarrow> (Some err, a1, w1)
                | (Inr secret, a1, w1) \<Rightarrow>
                    let a2 = prepare cx (f (a1\<lparr>am_ApplicationState := INSTALLED, am_Secret := Some secret\<rparr>))
                    in (case am_Secret a2 of
                          None \<Rightarrow> createAndReassign cx op a2 secret w1
                        | Some s2 \<Rightarrow> createAndReassign cx op a2 s2 w1)))
       force a w"

definition storeDev ::
  "codecs \<Rightarrow> 'w api \<Rightarrow> ApplicationMeta \<Rightarrow> dev_result \<Rightarrow> 'w \<Rightarrow> 'w step" where
  "storeDev cx op a r w =
     (case r of
        ErrAlreadyDev d \<Rightarrow> (Some ''Svc already in dev mode'', a\<lparr>am_DevMeta := Some d\<rparr>, w)
      | DevOk d \<Rightarrow> Update cx op (a\<lparr>am_DevMeta := Some d\<rparr>) w)"

definition SvcDevStarting ::
  "codecs \<Rightarrow> 'w api \<Rightarrow> ApplicationMeta \<Rightarrow> string \<Rightarrow> SvcType \<Rightarrow> string \<Rightarrow> DevModeType \<Rightarrow> 'w \<Rightarrow> 'w step" where
  "SvcDevStarting cx op a name svcType identifier mode w =
     storeDev cx op a (svcDevStarting (am_DevMeta a) name svcType identifier mode) w"

definition SvcDevStartComplete ::
  "codecs \<Rightarrow> 'w api \<Rightarrow> ApplicationMeta \<Rightarrow> string \<Rightarrow> SvcType \<Rightarrow> string \<Rightarrow> DevModeType \<Rightarrow> 'w \<Rightarrow> 'w step" where
  "SvcDevStartComplete cx op a name svcType identifier mode w =
     storeDev cx op a (svcDevStartComplete (am_DevMeta a) name svcType identifier mode) w"

definition SvcDevEnd ::
  "codecs \<Rightarrow> 'w api \<Rightarrow> ApplicationMeta \<Rightarrow> string \<Rightarrow> string \<Rightarrow> SvcType \<Rightarrow> DevModeType \<Rightarrow> 'w \<Rightarrow> 'w step" where
  "SvcDevEnd cx op a name identifier svcType mode w =
     Update cx op (a\<lparr>am_DevMeta := Some (svcDevEnd (am_DevMeta a) name identifier svcType mode)\<rparr>) w"

definition CheckIfSvcDeveloping ::
  "ApplicationMeta \<Rightarrow> string \<Rightarrow> string \<Rightarrow> SvcType \<Rightarrow> DevModeType \<Rightarrow> DevStartStatus \<times> ApplicationMeta" where
  "CheckIfSvcDeveloping a name identifier svcType mode =
     (case checkIfSvcDeveloping (am_DevMeta a) name identifier svcType mode of
        (s, d) \<Rightarrow> (s, a\<lparr>am_DevMeta := Some d\<rparr>))"

definition SvcDevModePossessor ::
  "ApplicationMeta \<Rightarrow> string \<Rightarrow> SvcType \<Rightarrow> string \<Rightarrow> DevModeType \<Rightarrow> bool \<times> ApplicationMeta" where
  "SvcDevModePossessor a name svcType identifier mode =
     (case svcDevModePossessor (am_DevMeta a) name svcType identifier mode of
        (b, d) \<Rightarrow> (b, a\<lparr>am_DevMeta := Some d\<rparr>))"

definition GetCurrentDevModeTypeOfWorkload :: "ApplicationMeta \<Rightarrow> string \<Rightarrow> SvcType \<Rightarrow> string \<Rightarrow> DevModeType" where
  "GetCurrentDevModeTypeOfWorkload a workload t identifier =
     getCurrentDevModeTypeOfWorkload (am_DevMeta a) workload t identifier"

text \<open>Ten seconds, in the nanoseconds of \<open>time.Duration\<close>.\<close>

definition reInstallProtection :: int where "reInstallProtection = 10 * 1000000000"

definition Delete :: "codecs \<Rightarrow> 'w api \<Rightarrow> ApplicationMeta \<Rightarrow> 'w \<Rightarrow> 'w step" where
  "Delete cx op a w =
     Update cx op
       (a\<lparr>am_HelmReleaseName := [], am_ApplicationType := [], am_ApplicationState := UNINSTALLED,
          am_DepConfigName := [], am_PreInstallManifest := [], am_PostInstallManifest := [],
          am_PreUpgradeManifest := [], am_PostUpgradeManifest := [], am_PreDeleteManifest := [],
          am_PostDeleteManifest := [], am_Manifest := [], am_DevMeta := Some Map.empty,
          am_UninstallBackOff := nowNano op w + reInstallProtection\<rparr>) w"

definition CleanManifest :: "'w api \<Rightarrow> string \<Rightarrow> 'w \<Rightarrow> 'w" where
  "CleanManifest op manifests w =
     (case resourceInfos op manifests w of (infos, w1) \<Rightarrow> fold (deleteResource op) infos w1)"

definition cleanManifest :: "'w api \<Rightarrow> ApplicationMeta \<Rightarrow> 'w \<Rightarrow> 'w" where
  "cleanManifest op a w =
     (case resourceInfos op (am_Manifest a) w of (infos, w1) \<Rightarrow> fold (deleteResource op) infos w1)"

definition cleanUpDepConfigMap :: "'w api \<Rightarrow> ApplicationMeta \<Rightarrow> 'w \<Rightarrow> 'w step" where
  "cleanUpDepConfigMap op a w =
     (let (err, a1, w1) =
        (if am_DepConfigName a \<noteq> [] then
           (case deleteConfigMap op (am_DepConfigName a) w of
              (Some err, w1) \<Rightarrow> (Some err, a, w1)
            | (None, w1) \<Rightarrow> (None, a\<lparr>am_DepConfigName := []\<rparr>, w1))
         else (None, a, w))
      in if err \<noteq> None then (err, a1, w1)
         else (case listConfigMaps op w1 of
                 (Inl err, w2) \<Rightarrow> (Some err, a1, w2)
               | (Inr names, w2) \<Rightarrow>
                   (None, a1,
                    fold (\<lambda>n w. if hasPrefix n DependenceConfigMapPrefix
                                then snd (deleteConfigMap op n w) else w) names w2)))"

definition helmUninstallArgs :: "'w api \<Rightarrow> ApplicationMeta \<Rightarrow> string list" where
  "helmUninstallArgs op a =
     (let commonParams = (if am_Ns a \<noteq> [] then [''--namespace'', am_Ns a] else []) @
            (if kubeConfigFilePath op \<noteq> [] then [''--kubeconfig'', kubeConfigFilePath op] else [])
      in [''uninstall''] @
         (if am_HelmReleaseName a \<noteq> [] then [am_HelmReleaseName a] else [am_Application a]) @
         commonParams)"

definition Uninstall :: "codecs \<Rightarrow> 'w api \<Rightarrow> bool \<Rightarrow> ApplicationMeta \<Rightarrow> 'w \<Rightarrow> 'w step" where
  "Uninstall cx op force a w =
     (let preDelete = am_PreDeleteManifest a; postDelete = am_PostDeleteManifest a;
          (err0, w0) = (if preDelete \<noteq> [] then execHook op (am_Application a) (am_Ns a) preDelete w
                        else (None, w))
      in case err0 of
           Some e \<Rightarrow> (Some (wrap ''Error while exec pre-delete hook '' e), a, w0)
         | None \<Rightarrow>
             (let (_, a1, w1) = cleanUpDepConfigMap op a w0;
                  w2 = CleanManifest op (am_PreInstallManifest a1) w1;
                  w3 = CleanManifest op (am_PostInstallManifest a1) w2;
                  w4 = CleanManifest op (am_PreUpgradeManifest a1) w3;
                  w5 = CleanManifest op (am_PostUpgradeManifest a1) w4;
                  w6 = CleanManifest op (am_PreDeleteManifest a1) w5;
                  w7 = cleanManifest op a1 w6;
                  (helmErr, w8) = (if IsHelm a1 then helmCommand op (helmUninstallArgs op a1) w7
                                   else (None, w7))
              in if helmErr \<noteq> None \<and> \<not> force then (helmErr, a1, w8)
                 else let w9 = cleanCustomResource op (am_Application a1) (am_Ns a1) w8 in
                   (case Delete cx op a1 w9 of
                      (Some err, a2, w10) \<Rightarrow> (Some err, a2, w10)
                    | (None, a2, w10) \<Rightarrow>
                        (let (err3, w11) =
                           (if postDelete \<noteq> [] then execHook op (am_Application a2) (am_Ns a2) postDelete w10
                            else (None, w10))
                         in case err3 of
                              Some e \<Rightarrow> (Some (wrap ''Error while exec post-delete hook '' e), a2, w11)
                            | None \<Rightarrow> (None, a2, CleanManifest op (am_PostDeleteManifest a2) w11)))))"

subsection \<open>Encoding and decoding\<close>

definition xzRoundTrip :: "codecs \<Rightarrow> bool" where
  "xzRoundTrip cx \<longleftrightarrow> (\<forall>s. \<exists>b. xzWriter cx s = Some b \<and> b \<noteq> [] \<and> xzReader cx b = Some s)"

lemma decompress_compress: "xzRoundTrip cx \<Longrightarrow> decompress cx (compress cx s) = s"
  unfolding xzRoundTrip_def by (erule allE [of _ s]) (auto simp: compress_def decompress_def)

lemma prepare_Some:
  assumes "am_Secret a = Some s" and "s_Data s = Some d"
  shows "prepare cx a = a\<lparr>am_Secret := Some (s\<lparr>s_Data := Some (fold (\<lambda>(k, v) m. m(k \<mapsto> v)) (preparedEntries cx a) d)\<rparr>)\<rparr>"
  using assms by (simp add: prepare_def)

lemma preparedEntries_distinct: "distinct (map fst (preparedEntries cx a))"
  by (simp add: preparedEntries_def)

lemma prepared_lookup:
  assumes "(k, v) \<in> set (preparedEntries cx a)"
  shows "fold (\<lambda>(k, v) m. m(k \<mapsto> v)) (preparedEntries cx a) d k = Some v"
proof -
  have "distinct (map fst (rev (preparedEntries cx a)))"
    using preparedEntries_distinct by (simp add: rev_map [symmetric])
  with assms have "map_of (rev (preparedEntries cx a)) k = Some v" by simp
  then show ?thesis by (simp add: fold_upd_lookup)
qed

lemma GetApplicationName_prefix:
  assumes "CHR ''/'' \<notin> set app"
  shows "GetApplicationName (SecretNamePrefix @ app) = Inr app"
proof -
  have "CHR ''/'' \<notin> set (SecretNamePrefix @ app)"
    using assms by (simp add: SecretNamePrefix_def)
  then have "index (SecretNamePrefix @ app) ''/'' = None"
    by (intro index_None_char [of "CHR ''/''"]) simp_all
  then show ?thesis by (simp add: GetApplicationName_def)
qed

definition validState :: "ApplicationState \<Rightarrow> bool" where
  "validState s \<longleftrightarrow> s = UNINSTALLED \<or> s = INSTALLING \<or> s = INSTALLED \<or> s = UNKNOWN"

lemma ApplicationStateOf_valid: "validState s \<Longrightarrow> ApplicationStateOf s = s"
  by (auto simp: validState_def ApplicationStateOf_def)

lemma validState_of [simp]: "validState (ApplicationStateOf s)"
  by (simp add: validState_def ApplicationStateOf_def)

definition namedSecret :: "ApplicationMeta \<Rightarrow> Secret \<Rightarrow> bool" where
  "namedSecret a s \<longleftrightarrow> s_Name s = SecretNamePrefix @ am_Application a \<and> s_Namespace s = am_Ns a \<and>
     CHR ''/'' \<notin> set (am_Application a)"

text \<open>The record a reader rebuilds from a map that holds every prepared entry.\<close>

lemma readFields_prepared:
  assumes keys: "\<And>k v. (k, v) \<in> set (preparedEntries cx a) \<Longrightarrow> m k = Some v"
    and xz: "xzRoundTrip cx" and bko: "int64_range (am_UninstallBackOff a)"
    and cfg: "am_Config a = Some c" "yamlCfgInto cx emptyConfigV2 (yamlCfg cx (Some c)) = (c, None)"
    and dev: "yamlDevInto cx (yamlDev cx (am_DevMeta a)) = am_DevMeta a"
  shows "readFields cx (Some m) b =
    a\<lparr>am_Application := am_Application b, am_Ns := am_Ns b, am_ApplicationState := am_ApplicationState b,
      am_DepConfigName := am_DepConfigName b, am_Secret := am_Secret b\<rparr>"
proof -
  have key: "getKey (Some m) k = Some v" if "(k, v) \<in> set (preparedEntries cx a)" for k v
    using keys [OF that] by (simp add: getKey_def)
  note vals = key [unfolded preparedEntries_def, simplified]
  have cfg': "unmarshalConfigUnStrict cx (yamlCfg cx (Some c)) = (c, None)"
    using cfg by (simp add: unmarshalConfigUnStrict_def)
  show ?thesis
    unfolding readFields_def onKey_def Let_def
    by (rule ApplicationMeta.equality)
      (simp_all add: vals decompress_compress [OF xz] atoi_itoa [OF bko] cfg' cfg dev)
qed

lemma ReAssignment_prepared:
  assumes "am_Secret a = Some s" and "s_Data s = Some d" and "namedSecret a s"
    and "validState (am_ApplicationState a)"
    and "xzRoundTrip cx" and "int64_range (am_UninstallBackOff a)"
    and "am_Config a = Some c" and "yamlCfgInto cx emptyConfigV2 (yamlCfg cx (Some c)) = (c, None)"
    and "yamlDevInto cx (yamlDev cx (am_DevMeta a)) = am_DevMeta a"
  shows "ReAssignmentBySecret cx b (am_Secret (prepare cx a)) =
    (None, (prepare cx a)\<lparr>am_DepConfigName := am_DepConfigName b\<rparr>)"
proof -
  let ?m = "fold (\<lambda>(k, v) m. m(k \<mapsto> v)) (preparedEntries cx a) d"
  have name: "GetApplicationName (s_Name s) = Inr (am_Application a)" "s_Namespace s = am_Ns a"
    using assms(3) by (simp_all add: namedSecret_def GetApplicationName_prefix)
  have st: "?m SecretStateKey = Some (am_ApplicationState a)"
    by (rule prepared_lookup) (simp add: preparedEntries_def)
  note fields = readFields_prepared [where m = ?m, OF _ assms(5-9), OF prepared_lookup]
  show ?thesis
    using name
    by (simp add: fields ReAssignmentBySecret_def prepare_Some [OF assms(1,2)] getKey_def st
        ApplicationStateOf_valid [OF assms(4)])
qed

subsection \<open>Storing\<close>

definition sameButSecret :: "ApplicationMeta \<Rightarrow> ApplicationMeta \<Rightarrow> bool" where
  "sameButSecret a b \<longleftrightarrow> a\<lparr>am_Secret := None\<rparr> = b\<lparr>am_Secret := None\<rparr>"

lemma sameButSecret_refl [simp]: "sameButSecret a a"
  by (simp add: sameButSecret_def)

lemma sameButSecret_set [simp]: "sameButSecret a (b\<lparr>am_Secret := s\<rparr>) \<longleftrightarrow> sameButSecret a b"
  by (simp add: sameButSecret_def)

lemma sameButSecret_trans: "sameButSecret a b \<Longrightarrow> sameButSecret b c \<Longrightarrow> sameButSecret a c"
  by (simp add: sameButSecret_def)

lemma sameButSecretD: "sameButSecret a b \<Longrightarrow> b = a\<lparr>am_Secret := am_Secret b\<rparr>"
  by (cases a; cases b) (simp add: sameButSecret_def)

lemma prepare_frame: "sameButSecret a (prepare cx a)"
  by (auto simp: prepare_def split: option.splits)

lemma preparedEntries_frame: "sameButSecret a b \<Longrightarrow> preparedEntries cx b = preparedEntries cx a"
  by (drule sameButSecretD, erule ssubst) (simp add: preparedEntries_def)

lemma updateOnce_frame: "updateOnce cx op a w = (e, b, w') \<Longrightarrow> sameButSecret a b"
  using prepare_frame [of a cx]
  by (auto simp: updateOnce_def split: option.splits if_splits prod.splits)

lemma refreshSecret_frame: "refreshSecret op a w = (b, w') \<Longrightarrow> sameButSecret a b"
  by (auto simp: refreshSecret_def split: prod.splits if_splits)

lemma retryUpdate_frame: "retryUpdate cx op n l a w = (e, b, w') \<Longrightarrow> sameButSecret a b"
proof (induction n arbitrary: l a w)
  case (Suc n)
  then show ?case
    by (auto split: prod.splits option.splits dest!: updateOnce_frame refreshSecret_frame
        intro: sameButSecret_trans)
qed simp

text \<open>
  What Kubernetes documents for an update that is accepted: the stored object has the
  name and the data that were sent.
\<close>

definition updateEchoes :: "'w api \<Rightarrow> bool" where
  "updateEchoes op \<longleftrightarrow>
     (\<forall>ns s w r w'. opUpdate op ns s w = ((r, None), w') \<longrightarrow>
        (\<exists>t. r = Some t \<and> s_Data t = s_Data s \<and> s_Name t = s_Name s \<and> s_Namespace t = s_Namespace s))"

definition storesAll :: "codecs \<Rightarrow> ApplicationMeta \<Rightarrow> Secret option \<Rightarrow> bool" where
  "storesAll cx a r \<longleftrightarrow>
     (case r of None \<Rightarrow> False
      | Some t \<Rightarrow> list_all (\<lambda>(k, v). getKey (s_Data t) k = Some v) (preparedEntries cx a))"

lemma updateOnce_success:
  assumes "updateEchoes op" and "updateOnce cx op a w = (None, b, w')"
  shows "storesAll cx a (am_Secret b)"
proof -
  from assms(2) obtain s d where s: "am_Secret a = Some s" "s_Data s = Some d"
    by (auto simp: updateOnce_def split: option.splits if_splits)
  let ?m = "fold (\<lambda>(k, v) m. m(k \<mapsto> v)) (preparedEntries cx a) d"
  obtain r e w1 where u: "opUpdate op (am_Ns a) (s\<lparr>s_Data := Some ?m\<rparr>) w = ((r, e), w1)"
    by (metis prod.exhaust)
  with assms(2) s have e: "e = None" and b: "am_Secret b = r"
    by (auto simp: updateOnce_def prepare_Some split: option.splits)
  from assms(1) u e obtain t where "r = Some t" "s_Data t = Some ?m"
    unfolding updateEchoes_def by fastforce
  with b show ?thesis
    by (auto simp: storesAll_def list_all_iff getKey_def prepared_lookup)
qed

lemma retryUpdate_success:
  assumes "updateEchoes op" and "retryUpdate cx op n (Some l) a w = (None, b, w')"
  shows "storesAll cx a (am_Secret b)"
  using assms(2)
proof (induction n arbitrary: l a w)
  case (Suc n)
  obtain e a1 w1 where u: "updateOnce cx op a w = (e, a1, w1)" by (metis prod.exhaust)
  show ?case
  proof (cases e)
    case None
    with u Suc.prems updateOnce_success [OF assms(1)] show ?thesis by auto
  next
    case (Some err)
    obtain a2 w2 where r: "refreshSecret op a1 w1 = (a2, w2)" by force
    from Suc.prems u Some r have "retryUpdate cx op n (Some err) a2 w2 = (None, b, w')" by simp
    then have "storesAll cx a2 (am_Secret b)" by (rule Suc.IH)
    moreover have "sameButSecret a a2"
      using updateOnce_frame [OF u] refreshSecret_frame [OF r] by (rule sameButSecret_trans)
    ultimately show ?thesis by (simp add: storesAll_def preparedEntries_frame split: option.splits)
  qed
qed simp

lemma Update_frame: "Update cx op a w = (e, b, w') \<Longrightarrow> sameButSecret a b"
  unfolding Update_def by (rule retryUpdate_frame)

lemma retryUpdate_last: "0 < n \<Longrightarrow> retryUpdate cx op n l a w = retryUpdate cx op n (Some l') a w"
  by (cases n) simp_all

lemma Update_success:
  assumes "updateEchoes op" and "Update cx op a w = (None, b, w')"
  shows "storesAll cx a (am_Secret b)"
proof -
  have "retryUpdate cx op DefaultRetrySteps (Some []) a w = (None, b, w')"
    using assms(2) retryUpdate_last [of DefaultRetrySteps cx op None a w "[]"]
    by (simp add: Update_def DefaultRetrySteps_def)
  then show ?thesis by (rule retryUpdate_success [OF assms(1)])
qed

text \<open>Every attempt fails: the error of the fifth one is what the caller sees.\<close>

lemma retryUpdate_all_fail:
  assumes "\<And>a w. \<exists>e a' w'. updateOnce cx op a w = (Some e, a', w')" and "0 < n"
  shows "\<exists>e a' w'. retryUpdate cx op n l a w = (Some e, a', w')"
  using assms(2)
proof (induction n arbitrary: l a w)
  case (Suc n)
  obtain e a1 w1 where u: "updateOnce cx op a w = (Some e, a1, w1)" using assms(1) by blast
  obtain a2 w2 where r: "refreshSecret op a1 w1 = (a2, w2)" by force
  show ?case
  proof (cases n)
    case 0
    with u r show ?thesis by simp
  next
    case (Suc m)
    with Suc.IH [of "Some e" a2 w2] u r show ?thesis by simp
  qed
qed simp

end
