(* ===== verification/AppMetaProps.thy ===== *)
theory AppMetaProps
  imports AppMeta
begin

text \<open>
  The properties of the application meta: the secret is a faithful copy of the record but
  for one field, a successful update stores the writer's own view, the dev-mode table runs
  the life cycle of every resource, the reported events are the difference of two tables,
  and what installing and removing an application do. A small cluster kept in memory
  serves the witnesses.
\<close>

record mem =
  mem_secrets :: "string \<rightharpoonup> Secret"
  mem_now :: int
  mem_log :: "string list"

definition memGet :: "string \<Rightarrow> mem \<Rightarrow> (Secret option \<times> apierr option) \<times> mem" where
  "memGet n w = (case mem_secrets w n of
       Some s \<Rightarrow> ((Some s, None), w)
     | None \<Rightarrow> ((None, Some (NotFound ''not found'')), w))"

definition memPut :: "Secret \<Rightarrow> mem \<Rightarrow> (Secret option \<times> apierr option) \<times> mem" where
  "memPut s w = ((Some s, None), w\<lparr>mem_secrets := (mem_secrets w)(s_Name s \<mapsto> s)\<rparr>)"

definition memLog :: "string \<Rightarrow> mem \<Rightarrow> mem" where
  "memLog m w = w\<lparr>mem_log := mem_log w @ [m]\<rparr>"

definition memApi :: "mem api" where
  "memApi =
     \<lparr>opGet = \<lambda>_ n w. memGet n w, opUpdate = \<lambda>_ s w. memPut s w, opCreate = \<lambda>_ s w. memPut s w,
      notifyDaemon = \<lambda>_ _ w. w, execHook = \<lambda>_ _ m w. (None, memLog (''hook '' @ m) w),
      resourceInfos = \<lambda>m w. (if m = [] then [] else [m], w),
      deleteResource = \<lambda>r w. memLog (''delete '' @ r) w, cleanCustomResource = \<lambda>_ _ w. w,
      deleteConfigMap = \<lambda>_ w. (None, w), listConfigMaps = \<lambda>w. (Inr [], w),
      helmCommand = \<lambda>_ w. (None, memLog ''helm'' w), kubeConfigFilePath = [],
      nowNano = mem_now, shortUuid = \<lambda>w. (Inr ''1f0a'', w)\<rparr>"

definition plainCodecs :: codecs where
  "plainCodecs =
     \<lparr>xzWriter = \<lambda>s. Some (CHR ''x'' # s), xzReader = \<lambda>b. (case b of [] \<Rightarrow> None | _ # s \<Rightarrow> Some s),
      yamlCfg = \<lambda>_. ''cfg'', yamlCfgInto = \<lambda>_ _. (emptyConfigV2, None),
      yamlDev = \<lambda>_. ''{}'', yamlDevInto = \<lambda>_. Some Map.empty\<rparr>"

definition demoSecret :: Secret where
  "demoSecret = \<lparr>s_Name = SecretNamePrefix @ ''shop'', s_Namespace = ''dev'', s_Type = SecretType,
     s_Data = Some [''s'' \<mapsto> INSTALLED]\<rparr>"

definition demoMeta :: ApplicationMeta where
  "demoMeta = emptyMeta\<lparr>am_Application := ''shop'', am_Ns := ''dev'', am_ApplicationState := INSTALLED,
     am_ApplicationType := ''helmGit'', am_DepConfigName := ''cm'', am_Manifest := ''m'',
     am_PostDeleteManifest := ''after'', am_DevMeta := Some Map.empty,
     am_Config := Some emptyConfigV2, am_Secret := Some demoSecret\<rparr>"

definition demoWorld :: mem where
  "demoWorld = \<lparr>mem_secrets = [s_Name demoSecret \<mapsto> demoSecret], mem_now = 5, mem_log = []\<rparr>"

lemma plainCodecs_xz: "xzRoundTrip plainCodecs"
  by (simp add: xzRoundTrip_def plainCodecs_def)

lemma memApi_echoes: "updateEchoes memApi"
  by (simp add: updateEchoes_def memApi_def memPut_def)

lemma demo_named: "namedSecret demoMeta demoSecret"
  by (simp add: namedSecret_def demoMeta_def demoSecret_def)

lemma demo_facts:
  "am_Secret demoMeta = Some demoSecret" "s_Data demoSecret = Some [''s'' \<mapsto> INSTALLED]"
  "validState (am_ApplicationState demoMeta)" "int64_range (am_UninstallBackOff demoMeta)"
  "am_Config demoMeta = Some emptyConfigV2"
  "yamlCfgInto plainCodecs emptyConfigV2 (yamlCfg plainCodecs (Some emptyConfigV2)) = (emptyConfigV2, None)"
  "yamlDevInto plainCodecs (yamlDev plainCodecs (am_DevMeta demoMeta)) = am_DevMeta demoMeta"
  by (simp_all add: demoMeta_def demoSecret_def emptyMeta_def validState_def int64_range_def plainCodecs_def)

text \<open>C1: Encoding an application meta into its secret and decoding the secret again gives back
  every field but the name of the dependency config map, which the decoder never reads. It
  holds for a secret that carries the application's name, when xz and YAML give back what
  they were given.\<close>

theorem prepare_decode_roundtrip:
  assumes "am_Secret a = Some s" and "s_Data s = Some d" and "namedSecret a s"
    and "validState (am_ApplicationState a)" and "xzRoundTrip cx"
    and "int64_range (am_UninstallBackOff a)" and "am_Config a = Some c"
    and "yamlCfgInto cx emptyConfigV2 (yamlCfg cx (Some c)) = (c, None)"
    and "yamlDevInto cx (yamlDev cx (am_DevMeta a)) = am_DevMeta a"
  shows "Decode cx (am_Secret (prepare cx a)) = Inr ((prepare cx a)\<lparr>am_DepConfigName := []\<rparr>)"
  by (simp add: Decode_def ReAssignment_prepared [OF assms] emptyMeta_def)

theorem prepare_decode_roundtrip_witness:
  "Decode plainCodecs (am_Secret (prepare plainCodecs demoMeta)) =
     Inr ((prepare plainCodecs demoMeta)\<lparr>am_DepConfigName := []\<rparr>)"
  by (rule prepare_decode_roundtrip [OF demo_facts(1,2) demo_named demo_facts(3) plainCodecs_xz demo_facts(4-7)])

text \<open>
  The secrets of the cluster, \<open>look\<close>: an update that is accepted is stored under the name of the
  secret and returned; a secret that is read has the name it was asked for; telling the daemon
  changes no secret. What happens to other secrets, and when an update is refused, is left open.
\<close>

definition secretStore :: "'w api \<Rightarrow> ('w \<Rightarrow> string \<Rightarrow> string \<Rightarrow> Secret option) \<Rightarrow> bool" where
  "secretStore op look \<longleftrightarrow>
     (\<forall>ns s w r w'. opUpdate op ns s w = ((r, None), w') \<longrightarrow>
        (\<exists>t. r = Some t \<and> s_Data t = s_Data s \<and> s_Name t = s_Name s \<and> s_Namespace t = s_Namespace s \<and>
             look w' ns (s_Name s) = Some t)) \<and>
     (\<forall>ns n w t e w'. opGet op ns n w = ((Some t, e), w') \<longrightarrow> s_Name t = n) \<and>
     (\<forall>ns r w. look (notifyDaemon op ns r w) = look w)"

lemma secretStore_echoes: "secretStore op look \<Longrightarrow> updateEchoes op"
  unfolding secretStore_def updateEchoes_def by meson

lemma secretStoreD:
  assumes "secretStore op look"
  shows "opUpdate op ns s w = ((r, None), w') \<Longrightarrow> \<exists>t. r = Some t \<and> s_Name t = s_Name s \<and> look w' ns (s_Name s) = Some t"
    and "opGet op ns n w = ((Some t, e), w') \<Longrightarrow> s_Name t = n"
    and "look (notifyDaemon op ns r w) = look w"
  using assms unfolding secretStore_def by (elim conjE, metis)+

definition ownSecret :: "ApplicationMeta \<Rightarrow> bool" where
  "ownSecret a \<longleftrightarrow> (\<forall>s. am_Secret a = Some s \<longrightarrow> s_Name s = SecretNamePrefix @ am_Application a)"

lemma updateOnce_stored:
  assumes store: "secretStore op look" and own: "ownSecret a" and run: "updateOnce cx op a w = (e, b, w')"
  shows "ownSecret b" and "e = None \<Longrightarrow> look w' (am_Ns a) (SecretNamePrefix @ am_Application a) = am_Secret b"
proof -
  have "ownSecret b \<and> (e = None \<longrightarrow> look w' (am_Ns a) (SecretNamePrefix @ am_Application a) = am_Secret b)"
  proof (cases "\<exists>s d. am_Secret a = Some s \<and> s_Data s = Some d")
    case True
    then obtain s d where s: "am_Secret a = Some s" "s_Data s = Some d" by blast
    let ?s = "s\<lparr>s_Data := Some (fold (\<lambda>(k, v) m. m(k \<mapsto> v)) (preparedEntries cx a) d)\<rparr>"
    have name: "s_Name ?s = SecretNamePrefix @ am_Application a" using own s by (simp add: ownSecret_def)
    obtain r f w1 where u: "opUpdate op (am_Ns a) ?s w = ((r, f), w1)" by (metis prod.exhaust)
    show ?thesis
    proof (cases f)
      case None
      with secretStoreD(1) [OF store, of "am_Ns a" ?s w r w1] u obtain t
        where t: "r = Some t" "s_Name t = s_Name ?s" "look w1 (am_Ns a) (s_Name ?s) = Some t" by blast
      from run s u None have b: "b = a\<lparr>am_Secret := r\<rparr>" and w': "w' = notifyDaemon op (am_Ns a) r w1"
        by (auto simp: updateOnce_def prepare_Some [OF s])
      show ?thesis using t name secretStoreD(3) [OF store] by (simp add: b w' ownSecret_def)
    next
      case (Some g)
      with run s u name show ?thesis by (auto simp: updateOnce_def prepare_Some [OF s] ownSecret_def)
    qed
  next
    case False
    with run own show ?thesis by (auto simp: updateOnce_def split: option.splits if_splits)
  qed
  then show "ownSecret b" and "e = None \<Longrightarrow> look w' (am_Ns a) (SecretNamePrefix @ am_Application a) = am_Secret b"
    by blast+
qed

lemma refreshSecret_own:
  "secretStore op look \<Longrightarrow> ownSecret a \<Longrightarrow> refreshSecret op a w = (b, w') \<Longrightarrow> ownSecret b"
  by (auto simp: refreshSecret_def ownSecret_def split: prod.splits if_splits dest: secretStoreD(2))

lemma retryUpdate_stored:
  assumes store: "secretStore op look"
  shows "ownSecret a \<Longrightarrow> retryUpdate cx op n (Some l) a w = (None, b, w') \<Longrightarrow>
    look w' (am_Ns a) (SecretNamePrefix @ am_Application a) = am_Secret b"
proof (induction n arbitrary: l a w)
  case (Suc n)
  obtain e a1 w1 where u: "updateOnce cx op a w = (e, a1, w1)" by (metis prod.exhaust)
  note once = updateOnce_stored [OF store Suc.prems(1) u]
  show ?case
  proof (cases e)
    case None
    with once u Suc.prems(2) show ?thesis by simp
  next
    case (Some err)
    obtain a2 w2 where r: "refreshSecret op a1 w1 = (a2, w2)" by force
    have "sameButSecret a a2"
      using updateOnce_frame [OF u] refreshSecret_frame [OF r] by (rule sameButSecret_trans)
    then have same: "am_Ns a2 = am_Ns a" "am_Application a2 = am_Application a"
      by (subst sameButSecretD, assumption, simp)+
    from Suc.prems(2) u Some r have "retryUpdate cx op n (Some err) a2 w2 = (None, b, w')" by simp
    from Suc.IH [OF refreshSecret_own [OF store once(1) r] this] same show ?thesis by simp
  qed
qed simp

text \<open>C21: When \<open>Update\<close> reports success, however many of its five attempts failed before, the secret
  that the cluster then holds under the name of the application is the one in the record, and it
  holds the encoding of every field of the record as the caller had it, whatever secret the retries
  took over from the cluster in between: the last writer's view replaces a concurrent writer's.
  Nothing but the secret changes in the record. The cluster stores a secret whose update it accepts,
  under its name.\<close>

theorem Update_stores_own_view:
  assumes "secretStore op look" and "ownSecret a" and "Update cx op a w = (None, b, w')"
  shows "look w' (am_Ns a) (SecretNamePrefix @ am_Application a) = am_Secret b \<and>
    storesAll cx a (look w' (am_Ns a) (SecretNamePrefix @ am_Application a)) \<and> b = a\<lparr>am_Secret := am_Secret b\<rparr>"
proof -
  have "retryUpdate cx op DefaultRetrySteps (Some []) a w = (None, b, w')"
    using assms(3) retryUpdate_last [of DefaultRetrySteps cx op None a w "[]"]
    by (simp add: Update_def DefaultRetrySteps_def)
  from retryUpdate_stored [OF assms(1,2) this]
    Update_success [OF secretStore_echoes [OF assms(1)] assms(3)] sameButSecretD [OF Update_frame [OF assms(3)]]
  show ?thesis by simp
qed

text \<open>
  A cluster in which the first update fails, because another writer was faster, and a second one
  succeeds.
\<close>

definition theirSecret :: Secret where
  "theirSecret = demoSecret\<lparr>s_Data := Some [''s'' \<mapsto> INSTALLED, SecretDevMetaKey \<mapsto> ''theirs'']\<rparr>"

definition busyApi :: "mem api" where
  "busyApi = memApi\<lparr>opUpdate := \<lambda>_ s w.
     if mem_log w = [] then
       ((None, Some (OtherErr ''conflict'')),
        w\<lparr>mem_secrets := (mem_secrets w)(s_Name theirSecret \<mapsto> theirSecret), mem_log := [''conflict'']\<rparr>)
     else memPut s w,
     opGet := \<lambda>_ n w. (case mem_secrets w n of
       Some s \<Rightarrow> ((Some (s\<lparr>s_Name := n\<rparr>), None), w)
     | None \<Rightarrow> ((None, Some (NotFound ''not found'')), w))\<rparr>"

lemma busyApi_store: "secretStore busyApi (\<lambda>w ns. mem_secrets w)"
  by (auto simp: secretStore_def busyApi_def memApi_def memPut_def split: if_splits option.splits)

theorem Update_stores_own_view_witness:
  "\<exists>b w'. Update plainCodecs busyApi demoMeta demoWorld = (None, b, w') \<and> mem_log w' = [''conflict''] \<and>
     storesAll plainCodecs demoMeta (mem_secrets w' (SecretNamePrefix @ ''shop'')) \<and>
     mem_secrets w' (SecretNamePrefix @ ''shop'') = am_Secret b"
proof -
  have name: "s_Name theirSecret = SecretNamePrefix @ ''shop''" "am_Application demoMeta = ''shop''"
    by (simp_all add: theirSecret_def demoSecret_def demoMeta_def)
  let ?w1 = "demoWorld\<lparr>mem_secrets := (mem_secrets demoWorld)(s_Name theirSecret \<mapsto> theirSecret), mem_log := [''conflict'']\<rparr>"
  let ?a1 = "demoMeta\<lparr>am_Secret := Some theirSecret\<rparr>"
  have first: "\<exists>e. updateOnce plainCodecs busyApi demoMeta demoWorld = (Some e, prepare plainCodecs demoMeta, ?w1)"
    by (simp add: updateOnce_def demo_facts(1,2) busyApi_def demoWorld_def)
  have fresh: "refreshSecret busyApi (prepare plainCodecs demoMeta) ?w1 = (?a1, ?w1)"
    by (simp add: refreshSecret_def prepare_Some [OF demo_facts(1,2)] busyApi_def name)
  have second: "\<exists>b w'. updateOnce plainCodecs busyApi ?a1 ?w1 = (None, b, w') \<and> mem_log w' = [''conflict'']"
    by (simp add: updateOnce_def busyApi_def memPut_def) (simp add: theirSecret_def memApi_def)
  obtain b w' where u: "Update plainCodecs busyApi demoMeta demoWorld = (None, b, w')" "mem_log w' = [''conflict'']"
    using first fresh second by (auto simp: Update_def DefaultRetrySteps_def eval_nat_numeral)
  have own: "ownSecret demoMeta" by (simp add: ownSecret_def demoMeta_def demoSecret_def)
  from Update_stores_own_view [OF busyApi_store own u(1)] u name(2) show ?thesis by auto
qed

text \<open>C3: In replace mode the dev-mode table runs the life cycle of each resource: the phase of a
  resource after any sequence of starts, completions and ends is the phase reached by the
  operations on that resource alone, each of which either takes effect or is refused.\<close>

theorem replace_mode_life_cycle:
  assumes "\<forall>op\<in>set ops. devKeyOk (op_key op)" and "devKeyOk (t, n)"
  shows "devPhase (fold (dev_exec
        (\<lambda>(t, n) i d. dev_ok (svcDevStarting (Some d) n t i ReplaceDevMode))
        (\<lambda>(t, n) i d. dev_ok (svcDevStartComplete (Some d) n t i ReplaceDevMode))
        (\<lambda>(t, n) i d. svcDevEnd (Some d) n i t ReplaceDevMode)) ops d) t n =
      fold (\<lambda>op p. phase_step p op) (filter (\<lambda>op. op_key op = (t, n)) ops) (devPhase d t n)"
  using replace_mode.phase_run [OF assms, of d] by simp

theorem replace_mode_life_cycle_witness:
  "devPhase (fold (dev_exec
        (\<lambda>(t, n) i d. dev_ok (svcDevStarting (Some d) n t i ReplaceDevMode))
        (\<lambda>(t, n) i d. dev_ok (svcDevStartComplete (Some d) n t i ReplaceDevMode))
        (\<lambda>(t, n) i d. svcDevEnd (Some d) n i t ReplaceDevMode))
      [Start (''deployment'', ''web'') ''i1'', Start (''deployment'', ''web'') ''i2'',
       Complete (''deployment'', ''web'') ''i1'', Start (''job'', ''web'') ''i2''] Map.empty)
      ''deployment'' ''web'' = Started ''i1''"
  by (subst replace_mode_life_cycle)
    (simp_all add: HasDevStartingSuffix_def hasSuffix_def DEV_STARTING_SUFFIX_def svc_type_defs devPhase_def)

text \<open>Once a developer holds a resource in replace mode, no sequence of starts and completions by
  anybody takes it away: the holder stays recorded until the resource is ended.\<close>

theorem replace_mode_owner_kept:
  assumes "\<forall>op\<in>set ops. devKeyOk (op_key op)" and "devKeyOk (t, n)"
    and "\<forall>j. Stop (t, n) j \<notin> set ops" and "devPhase d t n = Started i"
  shows "devPhase (fold (dev_exec
        (\<lambda>(t, n) i d. dev_ok (svcDevStarting (Some d) n t i ReplaceDevMode))
        (\<lambda>(t, n) i d. dev_ok (svcDevStartComplete (Some d) n t i ReplaceDevMode))
        (\<lambda>(t, n) i d. svcDevEnd (Some d) n i t ReplaceDevMode)) ops d) t n = Started i"
  using replace_mode.owner_kept [OF assms(1,2,3), of d i] assms(4) by simp

theorem replace_mode_owner_kept_witness:
  "devPhase (fold (dev_exec
        (\<lambda>(t, n) i d. dev_ok (svcDevStarting (Some d) n t i ReplaceDevMode))
        (\<lambda>(t, n) i d. dev_ok (svcDevStartComplete (Some d) n t i ReplaceDevMode))
        (\<lambda>(t, n) i d. svcDevEnd (Some d) n i t ReplaceDevMode))
      [Start (''job'', ''web'') ''i2'', Complete (''job'', ''web'') ''i2'', Stop (''pod'', ''web'') ''i2'']
      [''job'' \<mapsto> [''web'' \<mapsto> ''i1'']]) ''job'' ''web'' = Started ''i1''"
  by (rule replace_mode_owner_kept)
    (auto simp: HasDevStartingSuffix_def hasSuffix_def DEV_STARTING_SUFFIX_def svc_type_defs devPhase_def
      Alias_def)

text \<open>C22: The events computed from two dev-mode tables are their difference: replaying them on the
  entries of the old table gives the entries of the new one, in whatever order Go ranges
  over the maps.\<close>

theorem Events_difference:
  assumes "devMetaOrder from o1 i1" and "devMetaOrder to o2 i2"
  shows "fold applyEvent (Events o1 i1 o2 i2 from to) (entries from) = entries to"
  by (rule Events_replay [OF assms])

theorem Events_difference_witness:
  "fold applyEvent
     (Events [''D''] (\<lambda>_. [''web'', ''api'']) [''D'', ''job''] (\<lambda>t. if t = ''D'' then [''web''] else [''run''])
        [''D'' \<mapsto> [''web'' \<mapsto> ''i1'', ''api'' \<mapsto> ''i1'']]
        [''D'' \<mapsto> [''web'' \<mapsto> ''i2''], ''job'' \<mapsto> [''run'' \<mapsto> ''i1'']])
     (entries [''D'' \<mapsto> [''web'' \<mapsto> ''i1'', ''api'' \<mapsto> ''i1'']]) =
   entries [''D'' \<mapsto> [''web'' \<mapsto> ''i2''], ''job'' \<mapsto> [''run'' \<mapsto> ''i1'']]"
  by (rule Events_difference) (auto simp: devMetaOrder_def range_order_def split: if_splits)

subsection \<open>Installing and removing\<close>

definition protectedMsg :: gerr where
  "protectedMsg = ''Application may uninstalling, '' @
     ''the secret is protected to re initial, please try again later ''"

lemma onKey_field: "(\<And>bs a. g (f bs a) = g a) \<Longrightarrow> g (onKey d k f a) = g a"
  by (simp add: onKey_def split: option.splits)

lemma readFields_state: "am_ApplicationState (readFields cx d a) = am_ApplicationState a"
proof -
  have cfg: "am_ApplicationState (if P then b\<lparr>am_Config := c\<rparr> else b) = am_ApplicationState b" for P b c
    by simp
  note keep = onKey_field [where g = am_ApplicationState]
  show ?thesis
    unfolding readFields_def Let_def
    by ((rule trans [OF keep], (simp; fail))+, subst cfg, (rule trans [OF keep], (simp; fail))+) simp
qed

lemma readFields_backoff:
  "am_UninstallBackOff (readFields cx d a) =
     (case getKey d SecretUninstallBackOffKey of
        None \<Rightarrow> am_UninstallBackOff a
      | Some bs \<Rightarrow> (case atoi bs of None \<Rightarrow> 0 | Some v \<Rightarrow> v))"
proof -
  have cfg: "am_UninstallBackOff (if P then b\<lparr>am_Config := c\<rparr> else b) = am_UninstallBackOff b" for P b c
    by simp
  note keep = onKey_field [where g = am_UninstallBackOff]
  show ?thesis
    unfolding readFields_def Let_def
    by ((rule trans [OF keep], (simp; fail))+, subst cfg, (rule trans [OF keep], (simp; fail))+)
      (simp add: onKey_def split: option.splits)
qed

lemma Delete_secret:
  assumes "updateEchoes op" and "Delete cx op a w = (None, b, w1)" and "am_Secret b = Some t"
  shows "getKey (s_Data t) SecretStateKey = Some UNINSTALLED"
    and "getKey (s_Data t) SecretUninstallBackOffKey = Some (itoa (nowNano op w + reInstallProtection))"
  using Update_success [OF assms(1) assms(2) [unfolded Delete_def]] assms(3)
  by (simp_all add: storesAll_def preparedEntries_def)

text \<open>C27: For ten seconds after an application was deleted, an installation that is not forced is
  refused and writes nothing: the world is the one the read returned.\<close>

theorem deleted_app_is_protected:
  assumes "updateEchoes op" and "Delete cx op a w = (None, b, w1)" and "am_Secret b = Some t"
    and "namedSecret a t" and "int64_range (nowNano op w + reInstallProtection)"
    and "opGet op (am_Ns c) (SecretNamePrefix @ am_Application c) w2 = ((Some t, None), w3)"
    and "nowNano op w3 < nowNano op w + reInstallProtection"
  shows "\<exists>c'. Initial cx op False c w2 = (Some protectedMsg, c', w3)"
proof -
  note keys = Delete_secret [OF assms(1-3)]
  have name: "GetApplicationName (s_Name t) = Inr (am_Application a)"
    using assms(4) by (simp add: namedSecret_def GetApplicationName_prefix)
  define c0 where "c0 = c\<lparr>am_Secret := Some t, am_Application := am_Application a,
    am_Ns := s_Namespace t, am_ApplicationState := UNINSTALLED\<rparr>"
  let ?c = "readFields cx (s_Data t) c0"
  have "ReAssignmentBySecret cx c (Some t) = (None, ?c)"
    using name keys(1) by (simp add: ReAssignmentBySecret_def c0_def ApplicationStateOf_def app_state_defs)
  moreover have "IsNotInstall ?c" "ProtectedFromReInstall (nowNano op w3) ?c"
    using keys(2) assms(5,7)
    by (simp_all add: IsNotInstall_def ProtectedFromReInstall_def readFields_state readFields_backoff
        atoi_itoa c0_def)
  ultimately show ?thesis
    using assms(6) by (simp add: Initial_def doPreCheckThen_def protectedMsg_def)
qed

definition demoDeleted :: "gerr option \<times> ApplicationMeta \<times> mem" where
  "demoDeleted = Delete plainCodecs memApi demoMeta demoWorld"

lemma demoDeleted_eq:
  "\<exists>t. demoDeleted = (None, fst (snd demoDeleted), snd (snd demoDeleted)) \<and>
     am_Secret (fst (snd demoDeleted)) = Some t \<and> namedSecret demoMeta t \<and>
     mem_secrets (snd (snd demoDeleted)) (SecretNamePrefix @ ''shop'') = Some t \<and>
     mem_now (snd (snd demoDeleted)) = 5"
  by (simp add: demoDeleted_def Delete_def Update_def DefaultRetrySteps_def eval_nat_numeral updateOnce_def
      memApi_def memPut_def prepare_def namedSecret_def demoMeta_def demoSecret_def demoWorld_def)

theorem deleted_app_is_protected_witness:
  "\<exists>c'. Initial plainCodecs memApi False demoMeta (snd (snd demoDeleted)) =
     (Some protectedMsg, c', snd (snd demoDeleted))"
proof -
  from demoDeleted_eq obtain t where t: "demoDeleted = (None, fst (snd demoDeleted), snd (snd demoDeleted))"
    "am_Secret (fst (snd demoDeleted)) = Some t" "namedSecret demoMeta t"
    "mem_secrets (snd (snd demoDeleted)) (SecretNamePrefix @ ''shop'') = Some t"
    "mem_now (snd (snd demoDeleted)) = 5" by blast
  have now: "nowNano memApi demoWorld = 5" "nowNano memApi (snd (snd demoDeleted)) = 5"
    using t(5) by (simp_all add: memApi_def demoWorld_def)
  have get: "opGet memApi (am_Ns demoMeta) (SecretNamePrefix @ am_Application demoMeta) (snd (snd demoDeleted)) =
      ((Some t, None), snd (snd demoDeleted))"
    using t(4) by (simp add: memApi_def memGet_def demoMeta_def)
  show ?thesis
    by (rule deleted_app_is_protected [OF memApi_echoes t(1) [unfolded demoDeleted_def] t(2) [unfolded demoDeleted_def]
          t(3) _ get [unfolded demoDeleted_def], folded demoDeleted_def])
      (simp_all add: now reInstallProtection_def int64_range_def)
qed

text \<open>Installing over an application that is already installed is not refused: the record read
  from the cluster is turned back to the state installing and stored, forced or not.\<close>

theorem Initial_on_installed_app:
  assumes "opGet op (am_Ns a) (SecretNamePrefix @ am_Application a) w = ((Some t, None), w1)"
    and "ReAssignmentBySecret cx a (Some t) = (None, a1)" and "IsInstalled a1"
  shows "Initial cx op force a w = Update cx op (a1\<lparr>am_ApplicationState := INSTALLING\<rparr>) w1"
  using assms by (simp add: Initial_def doPreCheckThen_def IsInstalled_def IsNotInstall_def app_state_defs)

theorem Initial_on_installed_app_witness:
  "\<exists>a1. Initial plainCodecs memApi False demoMeta demoWorld =
     Update plainCodecs memApi (a1\<lparr>am_ApplicationState := INSTALLING\<rparr>) demoWorld"
proof -
  let ?a1 = "snd (ReAssignmentBySecret plainCodecs demoMeta (Some demoSecret))"
  have name: "GetApplicationName (SecretNamePrefix @ ''shop'') = Inr ''shop''"
    by (rule GetApplicationName_prefix) simp
  have get: "opGet memApi (am_Ns demoMeta) (SecretNamePrefix @ am_Application demoMeta) demoWorld =
      ((Some demoSecret, None), demoWorld)"
    by (simp add: memApi_def memGet_def demoMeta_def demoWorld_def demoSecret_def)
  have "ReAssignmentBySecret plainCodecs demoMeta (Some demoSecret) = (None, ?a1)" "IsInstalled ?a1"
    using name by (simp_all add: ReAssignmentBySecret_def demoSecret_def getKey_def IsInstalled_def readFields_state
        ApplicationStateOf_def app_state_defs)
  from Initial_on_installed_app [OF get this, of False] show ?thesis by blast
qed

lemma cleanUpDepConfigMap_frame:
  "cleanUpDepConfigMap op a w = (e, b, w') \<Longrightarrow> b = a \<or> b = a\<lparr>am_DepConfigName := []\<rparr>"
  by (auto simp: cleanUpDepConfigMap_def split: if_splits option.splits prod.splits sum.splits)

text \<open>A removal that succeeds leaves the record uninstalled, and its last step cleans the empty
  manifest: the record's post-delete manifest was cleared by the deletion before, so the
  resources of the post-delete hook are never removed.\<close>

theorem Uninstall_success:
  assumes "Uninstall cx op force a w = (None, b, w')"
  shows "am_ApplicationState b = UNINSTALLED \<and> am_Manifest b = [] \<and> am_DevMeta b = Some Map.empty \<and>
    (\<exists>w''. w' = CleanManifest op [] w'')"
proof -
  obtain a1 w9 a2 w10 w11 where del: "Delete cx op a1 w9 = (None, a2, w10)" and b: "b = a2"
    and w': "w' = CleanManifest op (am_PostDeleteManifest a2) w11"
    using assms unfolding Uninstall_def Let_def by (auto split: prod.splits option.splits if_splits)
  from Update_frame [OF del [unfolded Delete_def]] have "b = b" and
    "am_ApplicationState a2 = UNINSTALLED" "am_Manifest a2 = []" "am_DevMeta a2 = Some Map.empty"
    "am_PostDeleteManifest a2 = []"
    by (auto dest!: sameButSecretD elim!: ssubst)
  then show ?thesis using b w' by auto
qed

theorem Uninstall_success_witness:
  "\<exists>b w'. Uninstall plainCodecs memApi False demoMeta demoWorld = (None, b, w') \<and>
     am_ApplicationState b = UNINSTALLED \<and> ''delete after'' \<notin> set (mem_log w') \<and> ''hook after'' \<in> set (mem_log w')"
proof -
  obtain b w' where u: "Uninstall plainCodecs memApi False demoMeta demoWorld = (None, b, w')"
    and l: "mem_log w' = [''delete m'', ''helm'', ''hook after'']"
    by (simp add: Uninstall_def Delete_def Update_def DefaultRetrySteps_def eval_nat_numeral updateOnce_def
      cleanUpDepConfigMap_def CleanManifest_def cleanManifest_def IsHelm_def app_type_defs
      memApi_def memPut_def memLog_def prepare_def demoMeta_def demoSecret_def demoWorld_def emptyMeta_def)
  from Uninstall_success [OF u] u l show ?thesis by auto
qed

end
