(* ===== verification/ConfigProps.thy ===== *)
theory ConfigProps
  imports Profile
begin

text \<open>
  Properties of the configuration components (theories \<open>SvcTypes\<close> and \<open>Profile\<close>): the table
  of supported workload types, the store of service configurations, the conversion of the
  old configuration format, weighted paths and service profiles.
\<close>

subsection \<open>The store of service configurations\<close>

definition svcKey :: "ServiceConfigV2 \<Rightarrow> string \<times> SvcType" where
  "svcKey c = (svc_Name c, svc_Type c)"

definition setAll :: "NocalHostAppConfigV2 \<Rightarrow> ServiceConfigV2 list \<Rightarrow> NocalHostAppConfigV2" where
  "setAll n cs = fold (\<lambda>c n. SetSvcConfigV2 n c) cs n"

lemma setAll_puts: "setAll n cs = fold (\<lambda>(k, c) n. SetSvcConfigV2 n c) (map (\<lambda>c. (svcKey c, c)) cs) n"
  by (induction cs arbitrary: n) (simp_all add: setAll_def)

lemma setAll_distinct: "svcKeysDistinct n \<Longrightarrow> svcKeysDistinct (setAll n cs)"
  by (induction cs arbitrary: n) (simp_all add: setAll_def SetSvcConfigV2_distinct)

text \<open>C28: Storing any number of named service configurations keeps at most one configuration per
  name and type; afterwards a lookup by name and type returns the last configuration stored
  under them, and what the application had before when none was.\<close>

theorem stored_configs_are_found:
  assumes "svcKeysDistinct n" and "\<forall>c\<in>set cs. svc_Name c \<noteq> [] \<and> svc_Type c \<noteq> []"
  shows "svcKeysDistinct (setAll n cs) \<and>
    GetSvcConfigV2 (Some (setAll n cs)) name t =
      (case find (svcMatch name t) (rev cs) of
         Some c \<Rightarrow> Some c
       | None \<Rightarrow> GetSvcConfigV2 (Some n) name t)"
proof
  have "map_of (map (\<lambda>c. (svcKey c, c)) ds) (name, t) = find (svcMatch name t) ds" for ds
    by (induction ds) (auto simp: svcKey_def svcMatch_def)
  moreover have "\<forall>(k, c)\<in>set (map (\<lambda>c. (svcKey c, c)) cs). svcKeyOk k c"
    using assms(2) by (auto simp: svcKey_def)
  ultimately show "GetSvcConfigV2 (Some (setAll n cs)) name t =
      (case find (svcMatch name t) (rev cs) of
         Some c \<Rightarrow> Some c
       | None \<Rightarrow> GetSvcConfigV2 (Some n) name t)"
    using svc_store.get_puts [of "map (\<lambda>c. (svcKey c, c)) cs" n "(name, t)"]
    by (simp add: setAll_puts rev_map split: option.splits)
qed (use assms(1) in \<open>rule setAll_distinct\<close>)

theorem stored_configs_are_found_witness:
  "GetSvcConfigV2 (Some (setAll emptyConfigV2
      [newServiceConfig ''web'' Deployment, newServiceConfig ''db'' StatefulSet,
       (newServiceConfig ''web'' Deployment)\<lparr>svc_PriorityClass := ''high''\<rparr>])) ''web'' Deployment =
     Some ((newServiceConfig ''web'' Deployment)\<lparr>svc_PriorityClass := ''high''\<rparr>)"
proof -
  let ?cs = "[newServiceConfig ''web'' Deployment, newServiceConfig ''db'' StatefulSet,
       (newServiceConfig ''web'' Deployment)\<lparr>svc_PriorityClass := ''high''\<rparr>]"
  have "svcKeysDistinct emptyConfigV2"
    by (simp add: svcKeysDistinct_def emptyConfigV2_def emptyApplicationConfig_def)
  moreover have "\<forall>c\<in>set ?cs. svc_Name c \<noteq> [] \<and> svc_Type c \<noteq> []"
    by (simp add: newServiceConfig_def svc_type_defs)
  ultimately show ?thesis
    using stored_configs_are_found [of emptyConfigV2 ?cs "''web''" Deployment]
    by (simp add: svcMatch_def newServiceConfig_def)
qed

subsection \<open>The old configuration format\<close>

text \<open>C29: Converting an application from the first configuration format keeps its services: the
  service found under a name and a type is the conversion of the one the old file had there,
  and the developer of any container of it, named or not, gets the image, the shell, the
  directory and the port list of the old service.\<close>

theorem conversion_keeps_services:
  assumes "convertConfigV1ToV2 (Some v1) = Inr v2"
  shows "GetSvcConfigV2 (Some v2) name t =
      map_option convertServiceConfigV1ToV2
        (find (\<lambda>s. v1_Name s = name \<and> v1_Type s = t) (v1c_SvcConfigs v1)) \<and>
    (\<forall>s \<in> set (v1c_SvcConfigs v1). \<forall>container. \<exists>dev.
       GetContainerDevConfigOrDefault (convertServiceConfigV1ToV2 s) container = Some dev \<and>
       cd_Image dev = v1_DevImage s \<and> cd_Shell dev = v1_DevContainerShell s \<and>
       cd_WorkDir dev = v1_WorkDir s \<and> cd_PortForward dev = v1_DevPort s)"
proof (intro conjI ballI allI)
  have "svcMatch name t \<circ> convertServiceConfigV1ToV2 = (\<lambda>s. v1_Name s = name \<and> v1_Type s = t)"
    by (simp add: fun_eq_iff svcMatch_def)
  then show "GetSvcConfigV2 (Some v2) name t =
      map_option convertServiceConfigV1ToV2
        (find (\<lambda>s. v1_Name s = name \<and> v1_Type s = t) (v1c_SvcConfigs v1))"
    using assms by (auto simp: convertConfigV1ToV2_def GetSvcConfigV2_def find_map_comp)
next
  fix s container
  show "\<exists>dev. GetContainerDevConfigOrDefault (convertServiceConfigV1ToV2 s) container = Some dev \<and>
       cd_Image dev = v1_DevImage s \<and> cd_Shell dev = v1_DevContainerShell s \<and>
       cd_WorkDir dev = v1_WorkDir s \<and> cd_PortForward dev = v1_DevPort s"
    by (simp add: GetContainerDevConfigOrDefault_def GetContainerDevConfig_def
        GetDefaultContainerDevConfig_def convertServiceConfigV1ToV2_def)
qed

definition demoV1Service :: ServiceDevOptions where
  "demoV1Service =
     \<lparr>v1_Name = ''web'', v1_Type = ''deployment'', v1_GitUrl = [], v1_DevImage = ''go:1.16'',
      v1_WorkDir = ''/home'', v1_Sync = [], v1_PriorityClass = [], v1_PersistentVolumeDirs = [],
      v1_BuildCommand = [], v1_RunCommand = [], v1_DebugCommand = [], v1_HotReloadRunCommand = [],
      v1_HotReloadDebugCommand = [], v1_DevContainerShell = ''bash'', v1_DevContainerResources = None,
      v1_DevPort = [''8080:80''], v1_Jobs = [], v1_Pods = [], v1_SyncedPattern = [], v1_IgnoredPattern = []\<rparr>"

definition demoV1 :: NocalHostAppConfig where
  "demoV1 = \<lparr>v1c_PreInstall = [], v1c_ResourcePath = [], v1c_SvcConfigs = [demoV1Service],
     v1c_Name = ''shop'', v1c_Type = ''rawManifest'', v1c_IgnoredPath = []\<rparr>"

theorem conversion_keeps_services_witness:
  "\<exists>v2. convertConfigV1ToV2 (Some demoV1) = Inr v2 \<and>
     GetSvcConfigV2 (Some v2) ''web'' ''deployment'' = Some (convertServiceConfigV1ToV2 demoV1Service)"
proof -
  obtain v2 where v2: "convertConfigV1ToV2 (Some demoV1) = Inr v2"
    by (simp add: convertConfigV1ToV2_def)
  then show ?thesis
    using conversion_keeps_services [OF v2, of "''web''" "''deployment''"]
    by (simp add: demoV1_def demoV1Service_def)
qed

subsection \<open>Weighted paths\<close>

text \<open>Loading a weighted list of paths returns exactly the listed files that exist, in ascending
  order of the weights read from the configuration, where a weight that is not a number counts
  as zero.\<close>

theorem weighted_paths_in_order:
  assumes "go_sort weight srt"
  shows "\<exists>qs. SortedRelPath_Load srt relOrAbs exists (Some ps) = map (relOrAbs \<circ> wp_Path) qs \<and>
      mset qs = {#p \<in># mset ps. exists (relOrAbs (wp_Path p))#} \<and>
      sorted (map weight qs)"
proof -
  let ?qs = "filter (exists \<circ> relOrAbs \<circ> wp_Path) (srt ps)"
  have "mset (srt ps) = mset ps" "sorted (map weight (srt ps))"
    using assms by (auto simp: go_sort_def)
  then have "mset ?qs = {#p \<in># mset ps. exists (relOrAbs (wp_Path p))#}" "sorted (map weight ?qs)"
    by (simp_all add: sorted_filter)
  moreover have "SortedRelPath_Load srt relOrAbs exists (Some ps) = map (relOrAbs \<circ> wp_Path) ?qs"
    by (simp add: SortedRelPath_Load_def loadExisting_filter filter_map o_assoc)
  ultimately show ?thesis by blast
qed

lemma sort_key_go_sort: "go_sort weight (sort_key weight)"
  by (simp add: go_sort_def)

theorem weighted_paths_in_order_witness:
  "\<exists>qs. SortedRelPath_Load (sort_key weight) id (\<lambda>_. True)
      (Some [\<lparr>wp_Path = ''b'', wp_Weight = ''7''\<rparr>, \<lparr>wp_Path = ''a'', wp_Weight = ''x''\<rparr>]) =
      map (id \<circ> wp_Path) qs \<and> sorted (map weight qs)"
  using weighted_paths_in_order [OF sort_key_go_sort, of id "\<lambda>_. True"
      "[\<lparr>wp_Path = ''b'', wp_Weight = ''7''\<rparr>, \<lparr>wp_Path = ''a'', wp_Weight = ''x''\<rparr>]"] by blast

subsection \<open>Service profiles\<close>

lemma svcProfileLoop_hit:
  assumes "i < length ps" and "\<forall>j\<le>i. fixName (ps ! j) = ps ! j"
    and "prof_Name (ps ! i) = name" and "prof_Type (ps ! i) = t"
    and "\<forall>j<i. \<not> (prof_Name (ps ! j) = name \<and> prof_Type (ps ! j) = t)"
  shows "svcProfileLoop name t ps = (Some i, ps)"
  using assms
proof (induction ps arbitrary: i)
  case (Cons s ps)
  have s: "fixName s = s" using Cons.prems(2) by fastforce
  show ?case
  proof (cases i)
    case 0
    with Cons.prems s show ?thesis by (simp add: GetName_def)
  next
    case (Suc k)
    have "\<not> (prof_Name s = name \<and> prof_Type s = t)" using Cons.prems(5) Suc by fastforce
    moreover have "svcProfileLoop name t ps = (Some k, ps)"
      using Cons.prems Suc by (intro Cons.IH) (auto dest: spec [of _ "Suc _"])
    ultimately show ?thesis using s Suc by (simp add: GetName_def)
  qed
qed simp

lemma svcProfileLoop_first:
  "svcProfileLoop name t ps = (Some i, ps') \<Longrightarrow> j < i \<Longrightarrow>
     \<not> (prof_Name (ps' ! j) = name \<and> prof_Type (ps' ! j) = t)"
proof (induction ps arbitrary: i j ps')
  case (Cons s ps)
  from Cons.prems show ?case
    by (auto simp: GetName_def split: if_splits prod.splits) (cases j; use Cons.IH in fastforce)+
qed simp

lemma lookup_hit:
  assumes "SvcProfileV2_lookup ps name t = (i, ps')" and "name \<noteq> []"
  shows "i < length ps' \<and> (\<forall>j\<le>i. fixName (ps' ! j) = ps' ! j) \<and>
    prof_Name (ps' ! i) = name \<and> prof_Type (ps' ! i) = t \<and>
    (\<forall>j<i. \<not> (prof_Name (ps' ! j) = name \<and> prof_Type (ps' ! j) = t))"
proof (cases "fst (svcProfileLoop name t ps)")
  case None
  then obtain qs where q: "svcProfileLoop name t ps = (None, qs)" by (cases "svcProfileLoop name t ps") auto
  note qs = svcProfileLoop_None [OF q]
  from q assms(1) have r: "i = length qs" "ps' = qs @ [newSvcProfile name t]"
    by (auto simp: SvcProfileV2_lookup_def)
  have "fixName (ps' ! j) = ps' ! j" if "j \<le> i" for j
  proof (cases "j < length qs")
    case True
    have "qs = map fixName ps" using qs by blast
    with True r show ?thesis by (simp add: nth_append)
  next
    case False
    with that r assms(2) show ?thesis by (simp add: nth_append newSvcProfile_def fixName_def)
  qed
  with r qs show ?thesis by (auto simp: nth_append newSvcProfile_def)
next
  case (Some k)
  then obtain qs where q: "svcProfileLoop name t ps = (Some k, qs)" by (cases "svcProfileLoop name t ps") auto
  note qs = svcProfileLoop_Some [OF q]
  from q assms(1) have r: "i = k" "ps' = qs" by (auto simp: SvcProfileV2_lookup_def)
  show ?thesis using qs r svcProfileLoop_first [OF q] by (auto simp: nth_append min_def)
qed

text \<open>The lookup finds the profile again, also when it was changed in the meantime under the same name and type.\<close>

lemma lookup_again:
  assumes "SvcProfileV2_lookup ps name t = (i, ps')" and "name \<noteq> []"
    and "prof_Name s = name" and "prof_Type s = t"
  shows "SvcProfileV2_lookup (ps'[i := s]) name t = (i, ps'[i := s])"
proof -
  have "fixName s = s" using assms by (simp add: fixName_def)
  then have "svcProfileLoop name t (ps'[i := s]) = (Some i, ps'[i := s])"
    using lookup_hit [OF assms(1,2)] assms(3,4) by (intro svcProfileLoop_hit) (auto simp: nth_list_update)
  then show ?thesis by (simp add: SvcProfileV2_lookup_def)
qed

text \<open>A lookup of a service profile always returns one with the name and the type asked for,
  creating it at the end of the list when there is none; asking again returns the same profile
  and changes nothing.\<close>

theorem profile_lookup_total:
  assumes "SvcProfileV2_lookup ps name t = (i, ps')" and "name \<noteq> []"
  shows "i < length ps' \<and> prof_Name (ps' ! i) = name \<and> prof_Type (ps' ! i) = t \<and>
    SvcProfileV2_lookup ps' name t = (i, ps')"
  using lookup_hit [OF assms] lookup_again [OF assms, of "ps' ! i"] by simp

theorem profile_lookup_total_witness:
  "SvcProfileV2_lookup (snd (SvcProfileV2_lookup [] ''web'' ''deployment'')) ''web'' ''deployment'' =
     SvcProfileV2_lookup [] ''web'' ''deployment''"
  using profile_lookup_total [of "[]" "''web''" "''deployment''"
      "fst (SvcProfileV2_lookup [] ''web'' ''deployment'')"
      "snd (SvcProfileV2_lookup [] ''web'' ''deployment'')"] by simp

subsection \<open>Supported workload types\<close>

definition carries :: "SvcType \<Rightarrow> SvcType \<times> DevModeAction option \<Rightarrow> bool" where
  "carries t = (\<lambda>(u, act). u = t \<and> u \<noteq> [] \<and> act \<noteq> None)"

lemma initSupported_carries:
  "initSupported crd t =
     (case find (carries t) (rev crd) of
        Some (_, act) \<Rightarrow> act
      | None \<Rightarrow> map_of (rev builtinSvcTypes) t)"
  unfolding carries_def by (rule initSupported_apply)

text \<open>A workload type can be developed exactly if it is built in or the user's configuration
  file carries an action for it; the action used is the last one the file gives for the type,
  or else the built-in one, or else an error.\<close>

theorem supported_types:
  "GetDevModeActionBySvcType (initSupported crd) t =
     (case find (carries t) (rev crd) of
        Some (_, act) \<Rightarrow> Inr (the act)
      | None \<Rightarrow>
          (case map_of (rev builtinSvcTypes) t of
             Some da \<Rightarrow> Inr da
           | None \<Rightarrow> Inl (''Workload Type '' @ t @ '' is unsupported''))) \<and>
   (CheckIfResourceTypeIsSupported (initSupported crd) t \<longleftrightarrow>
     t \<in> fst ` set builtinSvcTypes \<or> (t \<noteq> [] \<and> (\<exists>da. (t, Some da) \<in> set crd)))"
proof (cases "find (carries t) (rev crd)")
  case None
  then have "\<not> (t \<noteq> [] \<and> (\<exists>da. (t, Some da) \<in> set crd))"
    by (auto simp: find_None_iff carries_def)
  moreover have "map_of (rev builtinSvcTypes) t \<noteq> None \<longleftrightarrow> t \<in> fst ` set builtinSvcTypes"
    by (simp add: map_of_eq_None_iff)
  ultimately show ?thesis
    by (auto simp: initSupported_carries None GetDevModeActionBySvcType_def
        CheckIfResourceTypeIsSupported_def split: option.splits)
next
  case (Some p)
  then have "p \<in> set crd" "carries t p"
    by (simp_all add: find_Some_iff) (metis nth_mem length_rev set_rev)+
  then obtain da where "p = (t, Some da)" "t \<noteq> []" "(t, Some da) \<in> set crd"
    by (auto simp: carries_def)
  with Some show ?thesis
    by (auto simp: initSupported_carries GetDevModeActionBySvcType_def CheckIfResourceTypeIsSupported_def)
qed

end
