(* ===== verification/Dhcp.thy ===== *)
theory Dhcp
  imports GoStrings "HOL-Library.List_Lexorder" "HOL-Library.Char_ord" "HOL-Library.Word"
begin

text \<open>
  Address allocation of the VPN (\<open>vpn/remote/dhcp.go\<close>). The table of rented addresses, a map
  from MAC addresses to sets of numbers, is kept as text in a config map of the cluster:
  it is read, changed and written back by every operation. \<open>sets.Int\<close> is \<open>int set\<close>, and the
  order a Go map is walked in is an argument.
\<close>

definition Splitter :: string where "Splitter = ''#''"
definition DHCP :: string where "DHCP = ''DHCP''"
definition TrafficManager :: string where "TrafficManager = ''kubevpn.traffic.manager''"

text \<open>The two characters backslash and n, which the Go literal with two backslashes stands for.\<close>

abbreviation escapedNewline :: string where "escapedNewline \<equiv> [CHR 0x5C, CHR ''n'']"

type_synonym leases = "string \<rightharpoonup> int set"

subsection \<open>The text of the table\<close>

definition stringSetList :: "string list \<Rightarrow> string list" where
  "stringSetList xs = sort (remdups xs)"

definition ipsText :: "int set \<Rightarrow> string" where
  "ipsText ips = join (stringSetList (map itoa (sorted_list_of_set ips))) '',''"

definition ToString :: "string list \<Rightarrow> leases \<Rightarrow> string" where
  "ToString macs m = concat (map (\<lambda>mac. mac @ Splitter @ ipsText (get0 {} m mac) @ escapedNewline) macs)"

fun readInts :: "string list \<Rightarrow> int set \<Rightarrow> int set" where
  "readInts [] ints = ints"
| "readInts (s # ss) ints =
     readInts ss (case atoi s of Some i \<Rightarrow> insert i ints | None \<Rightarrow> ints)"

fun readLines :: "string list \<Rightarrow> leases \<Rightarrow> leases" where
  "readLines [] result = result"
| "readLines (line # ls) result =
     readLines ls
       (case split line Splitter of
          [k, v] \<Rightarrow> result(k \<mapsto> readInts (split v '','') {})
        | _ \<Rightarrow> result)"

definition FromStringToDHCP :: "string \<Rightarrow> leases" where
  "FromStringToDHCP str = readLines (split str newline) Map.empty"

subsection \<open>Choosing an address\<close>

definition usedIPs :: "string list \<Rightarrow> leases \<Rightarrow> int set" where
  "usedIPs macs m = fold (\<lambda>mac used. used \<union> get0 {} m mac) macs {}"

definition GetAvailableIPs :: "string list \<Rightarrow> leases \<Rightarrow> int set" where
  "GetAvailableIPs macs m = set (filter (\<lambda>i. i \<notin> usedIPs macs m \<and> i \<noteq> 100) [2..253])"

text \<open>\<open>BytesToInt\<close> reads the first four bytes in big-endian order, and gives 0 for fewer.\<close>

definition BytesToInt :: "8 word list \<Rightarrow> 32 word" where
  "BytesToInt b =
     (case b of
        b0 # b1 # b2 # b3 # _ \<Rightarrow> ucast b0 * 2 ^ 24 + ucast b1 * 2 ^ 16 + ucast b2 * 2 ^ 8 + ucast b3
      | _ \<Rightarrow> 0)"

text \<open>
  The loop counts \<open>retry\<close> from 1 to 254, and \<open>v\<close> wraps around at 32 bits.
\<close>

fun probe :: "nat \<Rightarrow> int set \<Rightarrow> 32 word \<Rightarrow> int option" where
  "probe 0 available v = None"
| "probe (Suc n) available v =
     (let i = int (unat (v mod 255)) in
      if i \<in> available then Some i else probe n available (v + 1))"

definition getIP :: "(string \<Rightarrow> 8 word list) \<Rightarrow> string \<Rightarrow> int set \<Rightarrow> int" where
  "getIP md5 mac available =
     (let sum = md5 mac; v = BytesToInt sum in
      case probe 254 available v of
        Some i \<Rightarrow> i
      | None \<Rightarrow> int (unat (BytesToInt sum mod 255)))"

subsection \<open>Operations on the cluster\<close>

record 'w cmApi =
  cmGet :: "string \<Rightarrow> string \<Rightarrow> 'w \<Rightarrow> (apierr + ConfigMap) \<times> 'w"
  cmCreate :: "string \<Rightarrow> ConfigMap \<Rightarrow> 'w \<Rightarrow> (apierr + ConfigMap) \<times> 'w"
  cmMergePatch :: "string \<Rightarrow> string \<Rightarrow> string \<Rightarrow> 'w \<Rightarrow> apierr option \<times> 'w"
  cmUpdate :: "string \<Rightarrow> ConfigMap \<Rightarrow> 'w \<Rightarrow> apierr option \<times> 'w"

text \<open>
  What the machine brings: its MAC address, the MD5 digest, what \<open>PopAny\<close> takes out of a
  set, and the order maps are walked in.
\<close>

record machine =
  m_mac :: string
  m_md5 :: "string \<Rightarrow> 8 word list"
  m_popAny :: "int set \<Rightarrow> int"
  m_order :: "leases \<Rightarrow> string list"

record IPNet =
  net_IP :: "8 word list"
  net_Mask :: "8 word list"

text \<open>An empty config map is what a failed \<open>Create\<close> returns beside its error.\<close>

definition InitDHCPIfNecessary ::
  "'w cmApi \<Rightarrow> machine \<Rightarrow> string \<Rightarrow> 'w \<Rightarrow> (apierr + ConfigMap) \<times> 'w" where
  "InitDHCPIfNecessary api mc ns w =
     (case cmGet api ns TrafficManager w of
        (Inr cm, w1) \<Rightarrow> (Inr cm, w1)
      | (Inl _, w1) \<Rightarrow>
          (let result = \<lparr>cfm_Name = TrafficManager, cfm_Namespace = ns,
                 cfm_Data = Some [DHCP \<mapsto> ToString [m_mac mc] [m_mac mc \<mapsto> {100}]]\<rparr>
           in case cmCreate api ns result w1 of
                (Inr cm, w2) \<Rightarrow> (Inr cm, w2)
              | (Inl (AlreadyExists _), w2) \<Rightarrow>
                  (Inr \<lparr>cfm_Name = [], cfm_Namespace = [], cfm_Data = None\<rparr>, w2)
              | (Inl e, w2) \<Rightarrow> (Inl e, w2)))"

definition dataOf :: "ConfigMap \<Rightarrow> string \<Rightarrow> string" where
  "dataOf cm k = (case cfm_Data cm of None \<Rightarrow> [] | Some d \<Rightarrow> get_str d k)"

text \<open>The body of the merge patch puts the text of the table between the quotes of a JSON string.\<close>

definition patchBody :: "string \<Rightarrow> string \<Rightarrow> string" where
  \<open>patchBody k v = ''{"data":{"'' @ k @ ''":"'' @ v @ ''"}}''\<close>

definition chooseIP :: "machine \<Rightarrow> bool \<Rightarrow> leases \<Rightarrow> int" where
  "chooseIP mc random used =
     (let ps = GetAvailableIPs (m_order mc used) used in
      if random then (if ps = {} then 0 else m_popAny mc ps)
      else getIP (m_md5 mc) (m_mac mc) (GetAvailableIPs (m_order mc used) used))"

definition lease :: "string \<Rightarrow> int \<Rightarrow> leases \<Rightarrow> leases" where
  "lease mac ip used =
     (case used mac of
        Some v \<Rightarrow> used(mac \<mapsto> insert ip v)
      | None \<Rightarrow> used(mac \<mapsto> {ip}))"

text \<open>
  Renting reads the table and patches it in two requests; between them other machines can do the
  same. \<open>rd_map\<close> is the name of the config map that was read.
\<close>

record rentDraft =
  rd_map :: string
  rd_ip :: int
  rd_used :: leases

definition rentRead :: "'w cmApi \<Rightarrow> machine \<Rightarrow> string \<Rightarrow> bool \<Rightarrow> 'w \<Rightarrow> (apierr + rentDraft) \<times> 'w" where
  "rentRead api mc ns random w =
     (case cmGet api ns TrafficManager w of
        (Inl e, w1) \<Rightarrow> (Inl e, w1)
      | (Inr cm, w1) \<Rightarrow>
          (let used = FromStringToDHCP (dataOf cm DHCP);
               ip = chooseIP mc random used
           in (Inr \<lparr>rd_map = cfm_Name cm, rd_ip = ip, rd_used = lease (m_mac mc) ip used\<rparr>, w1)))"

definition rentPatch :: "'w cmApi \<Rightarrow> machine \<Rightarrow> string \<Rightarrow> rentDraft \<Rightarrow> 'w \<Rightarrow> (apierr + IPNet) \<times> 'w" where
  "rentPatch api mc ns draft w =
     (case cmMergePatch api ns (rd_map draft)
             (patchBody DHCP (ToString (m_order mc (rd_used draft)) (rd_used draft))) w of
        (Some e, w1) \<Rightarrow> (Inl e, w1)
      | (None, w1) \<Rightarrow>
          (Inr \<lparr>net_IP = [223, 254, 254, word_of_int (rd_ip draft)], net_Mask = [255, 255, 255, 0]\<rparr>, w1))"

definition RentIP ::
  "'w cmApi \<Rightarrow> machine \<Rightarrow> string \<Rightarrow> bool \<Rightarrow> 'w \<Rightarrow> (apierr + IPNet) \<times> 'w" where
  "RentIP api mc ns random w =
     (case rentRead api mc ns random w of
        (Inl e, w1) \<Rightarrow> (Inl e, w1)
      | (Inr draft, w1) \<Rightarrow> rentPatch api mc ns draft w1)"

definition releaseAll :: "int list \<Rightarrow> leases \<Rightarrow> leases" where
  "releaseAll ips used = (\<lambda>mac. map_option (\<lambda>s. s - set ips) (used mac))"

text \<open>Storing into the data of a config map that has none is an assignment to a nil map.\<close>

definition ReleaseIP ::
  "'w cmApi \<Rightarrow> machine \<Rightarrow> string \<Rightarrow> int list \<Rightarrow> 'w \<Rightarrow> apierr option outcome \<times> 'w" where
  "ReleaseIP api mc ns ips w =
     (case cmGet api ns TrafficManager w of
        (Inl e, w1) \<Rightarrow> (Ret (Some e), w1)
      | (Inr cm, w1) \<Rightarrow>
          (let used = releaseAll ips (FromStringToDHCP (dataOf cm DHCP)) in
           case cfm_Data cm of
             None \<Rightarrow> (Panic ''assignment to entry in nil map'', w1)
           | Some d \<Rightarrow>
               (case cmUpdate api ns (cm\<lparr>cfm_Data := Some (d(DHCP \<mapsto> ToString (m_order mc used) used))\<rparr>) w1 of
                  (err, w2) \<Rightarrow> (Ret err, w2))))"

subsection \<open>Records with a deadline\<close>

record DHCPRecord =
  rec_Mac :: string
  rec_IP :: string
  rec_Deadline :: int

type_synonym DHCPRecordMap = "string \<rightharpoonup> DHCPRecord"

fun readRecords :: "(string \<Rightarrow> int option) \<Rightarrow> int \<Rightarrow> string list \<Rightarrow> DHCPRecordMap \<Rightarrow> DHCPRecordMap" where
  "readRecords parse now [] result = result"
| "readRecords parse now (s # ss) result =
     readRecords parse now ss
       (case split s ''#'' of
          [mac, ip, t] \<Rightarrow>
            result(mac \<mapsto> \<lparr>rec_Mac = mac, rec_IP = ip,
              rec_Deadline = (case parse t of Some d \<Rightarrow> d | None \<Rightarrow> now + 30 * 60)\<rparr>)
        | _ \<Rightarrow> result)"

definition FromStringToMac2IP :: "(string \<Rightarrow> int option) \<Rightarrow> int \<Rightarrow> string \<Rightarrow> DHCPRecordMap" where
  "FromStringToMac2IP parse now str = readRecords parse now (split str newline) Map.empty"

definition DHCPRecordMap_ToString :: "(int \<Rightarrow> string) \<Rightarrow> string list \<Rightarrow> DHCPRecordMap \<Rightarrow> string" where
  "DHCPRecordMap_ToString format macs m =
     concat (map (\<lambda>mac. case m mac of
         None \<Rightarrow> []
       | Some v \<Rightarrow> join [rec_Mac v, rec_IP v, format (rec_Deadline v)] Splitter @ escapedNewline) macs)"

definition ToMac2IPMap :: "string list \<Rightarrow> DHCPRecordMap \<Rightarrow> (string \<rightharpoonup> string)" where
  "ToMac2IPMap macs m =
     fold (\<lambda>mac r. case m mac of None \<Rightarrow> r | Some v \<Rightarrow> r(rec_Mac v \<mapsto> rec_IP v)) macs Map.empty"

definition GetIPByMac :: "DHCPRecordMap \<Rightarrow> string \<Rightarrow> string" where
  "GetIPByMac m mac = (case m mac of Some r \<Rightarrow> rec_IP r | None \<Rightarrow> [])"

definition AddMacToIPRecord :: "int \<Rightarrow> string \<Rightarrow> string \<Rightarrow> DHCPRecordMap \<Rightarrow> DHCPRecordMap" where
  "AddMacToIPRecord now mac ip m =
     m(mac \<mapsto> \<lparr>rec_Mac = mac, rec_IP = ip, rec_Deadline = now + 30\<rparr>)"

text \<open>The unused helpers that print sorted numbers.\<close>

definition sortString :: "string list \<Rightarrow> string list" where
  "sortString m = map itoa (sort (List.map_filter (\<lambda>v. if v \<noteq> [] then atoi v else None) m))"

definition getValueFromMap :: "int list \<Rightarrow> (int \<rightharpoonup> int) \<Rightarrow> string list" where
  "getValueFromMap ks m = map itoa (sort (List.map_filter m ks))"

end
