(* ===== verification/DhcpProps.thy ===== *)
theory DhcpProps
  imports Dhcp
begin

text \<open>
  Properties of the address allocation: what a rented address is, what the text of the table
  keeps, and what happens to it when an address is released.
\<close>

subsection \<open>Probing\<close>

lemma probe_None_iff:
  "probe n avail v = None \<longleftrightarrow> (\<forall>k<n. int (unat ((v + of_nat k) mod 255)) \<notin> avail)"
proof (induction n arbitrary: v)
  case (Suc n)
  have "(\<forall>k<Suc n. int (unat ((v + of_nat k) mod 255)) \<notin> avail) \<longleftrightarrow>
      int (unat (v mod 255)) \<notin> avail \<and> (\<forall>k<n. int (unat ((v + 1 + of_nat k) mod 255)) \<notin> avail)"
    by (simp add: All_less_Suc2 add.assoc)
  with Suc show ?case by simp
qed simp

lemma probe_Some: "probe n avail v = Some i \<Longrightarrow> i \<in> avail"
  by (induction n arbitrary: v) (auto split: if_splits)

lemma unat_mod_255: "unat ((w :: 32 word) mod 255) = unat w mod 255"
  by (simp add: unat_mod)

text \<open>Stepping over the end of the 32-bit range repeats one residue, because 2 to the 32 is 1 modulo 255.\<close>

lemma probed_residues:
  assumes "j < 253"
  shows "\<exists>k<254. unat ((v + of_nat k :: 32 word) mod 255) = (unat v + j) mod 255"
proof (cases "unat v + j < 2 ^ 32")
  case True
  then have "unat (v + of_nat j) = unat v + j"
    using assms by (simp add: unat_word_ariths unat_of_nat)
  then show ?thesis using assms by (intro exI [of _ j]) (simp add: unat_mod_255)
next
  case False
  have v: "unat v < 2 ^ 32" using unsigned_less [of v] by simp
  have "unat (v + of_nat (Suc j)) = (unat v + Suc j) mod 2 ^ 32"
    using assms by (simp add: unat_word_ariths unat_of_nat)
  also have "\<dots> = unat v + Suc j - 2 ^ 32"
    using False v assms by (simp add: mod_if)
  finally have "unat (v + of_nat (Suc j)) = unat v + Suc j - 2 ^ 32" .
  moreover have "(unat v + Suc j - 2 ^ 32) mod 255 = (unat v + j) mod (255 :: nat)"
  proof -
    have "unat v + j = (unat v + Suc j - 2 ^ 32) + 255 * 16843009" using False by simp
    then show ?thesis by (metis mod_mult_self2)
  qed
  ultimately show ?thesis using assms by (intro exI [of _ "Suc j"]) (simp add: unat_mod_255)
qed

lemma mod_shift_inj:
  fixes a :: nat
  assumes "x < m" and "y < m" and "(a + x) mod m = (a + y) mod m"
  shows "x = y"
proof -
  have "u = v" if "u \<le> v" "v < m" "(a + v) mod m = (a + u) mod m" for u v
  proof -
    have "m dvd (a + v) - (a + u)" using that by (subst (asm) mod_eq_dvd_iff_nat) simp_all
    with that show ?thesis by (auto dest: dvd_imp_le)
  qed
  with assms show ?thesis by (metis nat_le_linear)
qed

lemma card_residues: "card ((\<lambda>j. (a + j) mod 255) ` {..<253 :: nat}) = 253"
proof -
  have "inj_on (\<lambda>j. (a + j) mod 255) {..<253 :: nat}"
  proof (rule inj_onI)
    fix x y assume "x \<in> {..<253 :: nat}" "y \<in> {..<253}" and eq: "(a + x) mod 255 = (a + y) mod 255"
    then have "x < 255" "y < 255" by auto
    with eq show "x = y" by (metis mod_shift_inj)
  qed
  then show ?thesis by (simp add: card_image)
qed

lemma probe_finds:
  assumes "avail \<subseteq> {0..254}" and "3 \<le> card avail"
  shows "\<exists>i. probe 254 avail v = Some i"
proof (rule ccontr)
  let ?R = "int ` ((\<lambda>j. (unat v + j) mod 255) ` {..<253})"
  assume "\<nexists>i. probe 254 avail v = Some i"
  then have "probe 254 avail v = None" by (cases "probe 254 avail v") simp_all
  then have miss: "\<forall>k<254. int (unat ((v + of_nat k) mod 255)) \<notin> avail"
    by (simp only: probe_None_iff)
  have "?R \<inter> avail = {}"
  proof (rule ccontr)
    assume "?R \<inter> avail \<noteq> {}"
    then obtain j where "j < 253" "int ((unat v + j) mod 255) \<in> avail" by auto
    with probed_residues [of j v] miss show False by metis
  qed
  moreover have "?R \<subseteq> {0..254}" by auto
  moreover have "card ?R = 253"
    by (subst card_image) (auto simp only: card_residues intro: inj_onI int_int_eq [THEN iffD1])
  moreover have "finite avail" using assms(1) by (rule finite_subset) simp
  moreover have "card (?R \<union> avail) \<le> card {0..254 :: int}"
    using assms(1) \<open>?R \<subseteq> {0..254}\<close> by (intro card_mono) blast+
  ultimately have "card ?R + card avail \<le> card {0..254 :: int}"
    by (simp only: card_Un_disjoint finite_imageI finite_lessThan)
  with \<open>card ?R = 253\<close> assms(2) show False by simp
qed

subsection \<open>The text of the table\<close>

lemma readInts_set: "readInts ss ints = ints \<union> {i. \<exists>s\<in>set ss. atoi s = Some i}"
  by (induction ss arbitrary: ints) (auto split: option.splits)

lemma readInts_int64: "i \<in> readInts ss {} \<Longrightarrow> int64_range i"
  by (auto simp: readInts_set dest: atoi_range)

lemma finite_readInts: "finite (readInts ss {})"
proof -
  have "readInts ss {} \<subseteq> (\<lambda>s. the (atoi s)) ` set ss" by (force simp: readInts_set)
  then show ?thesis by (rule finite_subset) simp
qed

definition leaseOk :: "string \<Rightarrow> int set \<Rightarrow> bool" where
  "leaseOk mac ips \<longleftrightarrow>
     CHR ''#'' \<notin> set mac \<and> CHR 0x0A \<notin> set mac \<and> finite ips \<and> (\<forall>i\<in>ips. int64_range i)"

definition tableOk :: "leases \<Rightarrow> bool" where
  "tableOk m \<longleftrightarrow> (\<forall>mac ips. m mac = Some ips \<longrightarrow> leaseOk mac ips)"

lemma readLines_ok:
  "\<lbrakk>tableOk result; \<forall>l\<in>set ls. CHR 0x0A \<notin> set l\<rbrakk> \<Longrightarrow> tableOk (readLines ls result)"
proof (induction ls arbitrary: result)
  case (Cons l ls)
  let ?r = "case split l Splitter of [k, v] \<Rightarrow> result(k \<mapsto> readInts (split v '','') {}) | _ \<Rightarrow> result"
  have "leaseOk k (readInts (split v '','') {})" if "split l Splitter = [k, v]" for k v
    using split_char_parts [of k l "CHR ''#''"] that Cons.prems(2) readInts_int64 finite_readInts
    by (auto simp: leaseOk_def Splitter_def)
  then have "tableOk ?r"
    using Cons.prems(1) by (auto simp: tableOk_def split: list.splits)
  with Cons show ?case by simp
qed simp

lemma FromStringToDHCP_ok: "tableOk (FromStringToDHCP str)"
  unfolding FromStringToDHCP_def
  by (rule readLines_ok) (use split_char_parts in \<open>auto simp: tableOk_def\<close>)

lemma ipsText_chars: "c \<in> set (ipsText ips) \<Longrightarrow> c = CHR '','' \<or> c = CHR ''-'' \<or> isDigitByte c"
proof -
  have "c \<in> set (join xs '','') \<Longrightarrow> c = CHR '','' \<or> (\<exists>x\<in>set xs. c \<in> set x)" for xs
    by (induction xs rule: induct_list012) auto
  then show "c \<in> set (ipsText ips) \<Longrightarrow> c = CHR '','' \<or> c = CHR ''-'' \<or> isDigitByte c"
    using isDigitByte_itoa_chars by (fastforce simp: ipsText_def stringSetList_def)
qed

lemma ipsText_no:
  "CHR ''#'' \<notin> set (ipsText ips)" "CHR 0x0A \<notin> set (ipsText ips)"
  using ipsText_chars [of _ ips] by (force simp: isDigitByte_def)+

lemma readInts_ipsText:
  assumes "finite ips" and "\<forall>i\<in>ips. int64_range i"
  shows "readInts (split (ipsText ips) '','') {} = ips"
proof -
  let ?xs = "stringSetList (map itoa (sorted_list_of_set ips))"
  have xs: "set ?xs = itoa ` ips" using assms(1) by (simp add: stringSetList_def)
  show ?thesis
  proof (cases "?xs = []")
    case True
    with xs show ?thesis by (simp add: ipsText_def split_def readInts_set atoi_def)
  next
    case False
    have "CHR '','' \<notin> set (itoa i)" for i
      using isDigitByte_itoa_chars [of "CHR '',''" i] by (auto simp: isDigitByte_def)
    then have "split (ipsText ips) '','' = ?xs"
      unfolding ipsText_def using False xs by (intro split_join [of "CHR '',''"]) auto
    then show ?thesis using assms(2) by (auto simp: readInts_set xs atoi_itoa)
  qed
qed

lemma readLines_append: "readLines (xs @ ys) r = readLines ys (readLines xs r)"
  by (induction xs arbitrary: r) simp_all

definition leaseLine :: "leases \<Rightarrow> string \<Rightarrow> string" where
  "leaseLine m mac = mac @ Splitter @ ipsText (get0 {} m mac)"

lemma split_leaseLine:
  assumes "CHR ''#'' \<notin> set mac"
  shows "split (leaseLine m mac) Splitter = [mac, ipsText (get0 {} m mac)]"
  using split_join [of "CHR ''#''" Splitter "[mac, ipsText (get0 {} m mac)]"] assms ipsText_no(1)
  by (simp add: leaseLine_def Splitter_def)

lemma readLines_leaseLines:
  assumes "tableOk m" and "\<forall>mac\<in>set macs. m mac \<noteq> None"
  shows "readLines (map (leaseLine m) macs) r = (\<lambda>mac. if mac \<in> set macs then m mac else r mac)"
  using assms(2)
proof (induction macs arbitrary: r)
  case (Cons mac macs)
  then obtain ips where m: "m mac = Some ips" by auto
  with assms(1) have ok: "leaseOk mac ips" by (auto simp: tableOk_def)
  then have "readInts (split (ipsText (get0 {} m mac)) '','') {} = ips"
    using readInts_ipsText m by (simp add: leaseOk_def)
  with Cons m ok show ?case by (auto simp: split_leaseLine leaseOk_def)
qed simp

text \<open>The table the cluster decodes from the patch is the one that was encoded.\<close>

definition decodedText :: "string list \<Rightarrow> leases \<Rightarrow> string" where
  "decodedText macs m = concat (map (\<lambda>l. l @ newline) (map (leaseLine m) macs))"

lemma FromStringToDHCP_decodedText:
  assumes "tableOk m" and "range_order m macs"
  shows "FromStringToDHCP (decodedText macs m) = m"
proof -
  have in_dom: "\<forall>mac\<in>set macs. m mac \<noteq> None" using assms(2) by (simp add: range_order_member)
  then have "CHR 0x0A \<notin> set (leaseLine m mac)" if "mac \<in> set macs" for mac
    using that assms(1) ipsText_no(2)
    by (fastforce simp: leaseLine_def Splitter_def tableOk_def leaseOk_def)
  then have "split (decodedText macs m) newline = map (leaseLine m) macs @ [[]]"
    unfolding decodedText_def by (intro split_lines) auto
  then have "FromStringToDHCP (decodedText macs m) = readLines (map (leaseLine m) macs) Map.empty"
    by (simp add: FromStringToDHCP_def readLines_append Splitter_def split_def)
  also have "\<dots> = m"
    using assms by (auto simp: readLines_leaseLines in_dom range_order_def fun_eq_iff dom_def)
  finally show ?thesis .
qed

subsection \<open>Renting\<close>

text \<open>
  What is relied on of the cluster and the machine. A merge patch whose value is JSON text
  without quotes and control characters, and whose only escapes are newlines, stores the
  decoded value, which the next read returns; an update stores what it is given. A Go map is
  walked once over each key, and \<open>PopAny\<close> takes an element of a non-empty set.
\<close>

definition plainText :: "string \<Rightarrow> bool" where
  "plainText s \<longleftrightarrow>
     list_all (\<lambda>c. c \<noteq> CHR 0x22 \<and> c \<noteq> CHR 0x5C \<and> 32 \<le> (of_char c :: nat) \<and> (of_char c :: nat) < 128) s"

definition patchStores :: "'w cmApi \<Rightarrow> bool" where
  "patchStores api \<longleftrightarrow>
     (\<forall>ns name ls w w'. (\<forall>l\<in>set ls. plainText l) \<longrightarrow>
        cmMergePatch api ns name (patchBody DHCP (concat (map (\<lambda>l. l @ escapedNewline) ls))) w = (None, w') \<longrightarrow>
        (\<exists>cm. cmGet api ns name w' = (Inr cm, w') \<and> cfm_Name cm = name \<and>
              dataOf cm DHCP = concat (map (\<lambda>l. l @ newline) ls)))"

definition updateStores :: "'w cmApi \<Rightarrow> bool" where
  "updateStores api \<longleftrightarrow>
     (\<forall>ns cm w w'. cmUpdate api ns cm w = (None, w') \<longrightarrow> cmGet api ns (cfm_Name cm) w' = (Inr cm, w'))"

definition machineOk :: "machine \<Rightarrow> bool" where
  "machineOk mc \<longleftrightarrow>
     (\<forall>m. finite (dom m) \<longrightarrow> range_order m (m_order mc m)) \<and>
     (\<forall>S. finite S \<longrightarrow> S \<noteq> {} \<longrightarrow> m_popAny mc S \<in> S) \<and> plainText (m_mac mc) \<and> CHR ''#'' \<notin> set (m_mac mc)"

definition plainTable :: "leases \<Rightarrow> bool" where
  "plainTable m \<longleftrightarrow> (\<forall>mac\<in>dom m. plainText mac)"

definition disjointLeases :: "leases \<Rightarrow> bool" where
  "disjointLeases m \<longleftrightarrow>
     (\<forall>a b s t. m a = Some s \<longrightarrow> m b = Some t \<longrightarrow> a \<noteq> b \<longrightarrow> s \<inter> t = {})"

lemma finite_dom_readLines: "finite (dom r) \<Longrightarrow> finite (dom (readLines ls r))"
  by (induction ls arbitrary: r) (auto split: list.splits)

lemma finite_dom_FromString: "finite (dom (FromStringToDHCP str))"
  by (simp add: FromStringToDHCP_def finite_dom_readLines)

lemma usedIPs_eq: "usedIPs macs m = (\<Union>mac\<in>set macs. get0 {} m mac)"
proof -
  have "fold (\<lambda>mac used. used \<union> get0 {} m mac) macs u = u \<union> (\<Union>mac\<in>set macs. get0 {} m mac)" for u
    by (induction macs arbitrary: u) auto
  then show ?thesis by (simp add: usedIPs_def)
qed

lemma GetAvailableIPs_eq: "GetAvailableIPs macs m = {i \<in> {2..253}. i \<notin> usedIPs macs m \<and> i \<noteq> 100}"
  by (simp only: GetAvailableIPs_def set_filter set_upto)

lemma GetAvailableIPs_iff:
  assumes "range_order m macs"
  shows "i \<in> GetAvailableIPs macs m \<longleftrightarrow>
    2 \<le> i \<and> i < 254 \<and> i \<noteq> 100 \<and> (\<forall>mac ips. m mac = Some ips \<longrightarrow> i \<notin> ips)"
  using assms by (auto simp: GetAvailableIPs_eq usedIPs_eq range_order_def get0_def dom_def split: option.splits)

lemma getIP_available:
  assumes "avail \<subseteq> {0..254}" and "3 \<le> card avail"
  shows "getIP md5 mac avail \<in> avail"
proof -
  obtain i where "probe 254 avail (BytesToInt (md5 mac)) = Some i" using probe_finds [OF assms] by blast
  then show ?thesis using probe_Some by (simp add: getIP_def)
qed

lemma chooseIP_available:
  assumes "machineOk mc" and "finite (dom used)"
    and "3 \<le> card (GetAvailableIPs (m_order mc used) used)"
  shows "chooseIP mc random used \<in> GetAvailableIPs (m_order mc used) used"
proof -
  have ne: "GetAvailableIPs (m_order mc used) used \<noteq> {}" using assms(3) by auto
  have "GetAvailableIPs (m_order mc used) used \<subseteq> {0..254}" by (auto simp: GetAvailableIPs_eq)
  moreover have "finite (GetAvailableIPs (m_order mc used) used)" by (simp only: GetAvailableIPs_def finite_set)
  ultimately show ?thesis
    using getIP_available [OF _ assms(3)] ne assms(1) by (simp add: chooseIP_def machineOk_def)
qed

lemma lease_ok:
  assumes "tableOk m" and "machineOk mc" and "int64_range ip"
  shows "tableOk (lease (m_mac mc) ip m)"
proof -
  have "CHR 0x0A \<notin> set (m_mac mc)"
    using assms(2) by (auto simp: machineOk_def plainText_def list_all_iff)
  with assms show ?thesis
    by (auto simp: tableOk_def lease_def leaseOk_def machineOk_def split: option.splits if_splits)
qed

lemma leaseLine_plain:
  assumes "plainText mac"
  shows "plainText (leaseLine m mac)"
proof -
  have "plainText (ipsText ips)" for ips
    unfolding plainText_def list_all_iff using ipsText_chars [of _ ips] by (force simp: isDigitByte_def)
  with assms show ?thesis by (simp add: leaseLine_def plainText_def Splitter_def)
qed

lemma ToString_lines: "ToString macs m = concat (map (\<lambda>l. l @ escapedNewline) (map (leaseLine m) macs))"
  by (simp add: ToString_def leaseLine_def o_def)

text \<open>A cluster with one config map, and a machine, for the examples.\<close>

fun unescapeNewlines :: "string \<Rightarrow> string" where
  "unescapeNewlines (c # d # cs) =
     (if c = CHR 0x5C \<and> d = CHR ''n'' then CHR 0x0A # unescapeNewlines cs
      else c # unescapeNewlines (d # cs))"
| "unescapeNewlines cs = cs"

definition memCm :: "ConfigMap cmApi" where
  "memCm =
     \<lparr>cmGet = (\<lambda>ns name w. (if name = cfm_Name w then Inr w else Inl (NotFound name), w)),
      cmCreate = (\<lambda>ns cm w. (Inr cm, cm)),
      cmMergePatch = (\<lambda>ns name body w.
        (None, \<lparr>cfm_Name = name, cfm_Namespace = ns,
           cfm_Data = Some [DHCP \<mapsto> unescapeNewlines (take (length body - 20) (drop 17 body))]\<rparr>)),
      cmUpdate = (\<lambda>ns cm w. (None, cm))\<rparr>"

lemma unescape_plain: "plainText l \<Longrightarrow> unescapeNewlines (l @ escapedNewline @ r) = l @ newline @ unescapeNewlines r"
proof (induction l)
  case (Cons c l)
  then show ?case by (cases l) (auto simp: plainText_def)
qed simp

lemma unescape_lines:
  "\<forall>l\<in>set ls. plainText l \<Longrightarrow>
     unescapeNewlines (concat (map (\<lambda>l. l @ escapedNewline) ls)) = concat (map (\<lambda>l. l @ newline) ls)"
  using unescape_plain by (induction ls) simp_all

lemma memCm_stores: "patchStores memCm" "updateStores memCm"
  by (auto simp: patchStores_def updateStores_def memCm_def patchBody_def DHCP_def dataOf_def unescape_lines)

definition demoMachine :: machine where
  "demoMachine = \<lparr>m_mac = ''b'', m_md5 = (\<lambda>_. [0, 0, 0, 7]), m_popAny = Min,
     m_order = (\<lambda>m. sorted_list_of_set (dom m))\<rparr>"

lemma demoMachine_ok: "machineOk demoMachine"
  by (auto simp: machineOk_def demoMachine_def range_order_def plainText_def)

definition demoTable :: "string \<Rightarrow> ConfigMap" where
  "demoTable text = \<lparr>cfm_Name = TrafficManager, cfm_Namespace = ''ns'', cfm_Data = Some [DHCP \<mapsto> text]\<rparr>"

lemma demoTable_get:
  "cmGet memCm ns TrafficManager (demoTable text) = (Inr (demoTable text), demoTable text)"
  by (simp add: memCm_def demoTable_def)

lemma read_one: "FromStringToDHCP (''a#5'' @ newline) = [''a'' \<mapsto> {5}]"
  by (simp add: FromStringToDHCP_def split_def Splitter_def atoi_def readDec_def decVal_def digitVal_def
      isDigitByte_def int64_range_def)

lemma read_two: "FromStringToDHCP (''a#5'' @ newline @ ''c#6'' @ newline) = [''a'' \<mapsto> {5}, ''c'' \<mapsto> {6}]"
  by (simp add: FromStringToDHCP_def split_def Splitter_def atoi_def readDec_def decVal_def digitVal_def
      isDigitByte_def int64_range_def)

text \<open>C10: Renting reads the table in one request and patches it in another, between which other
  machines may change it (the patch is sent in any later world \<open>v\<close>). If at least three addresses are
  free in the table that was read, a machine that rents gets an address of that table's free ones, in
  the range from 2 to 253 and not the reserved 100. The table the cluster then holds is the one
  that was read with this address added for the machine: if that had no address leased to two
  machines, neither has this one, but whatever was leased between the read and the patch is
  overwritten. Without a change in between this is what \<open>RentIP\<close> does.\<close>

theorem rented_address_is_free:
  assumes "patchStores api" and "machineOk mc"
    and "cmGet api ns TrafficManager w = (Inr cm, w1)"
    and "used = FromStringToDHCP (dataOf cm DHCP)" and "plainTable used"
    and "3 \<le> card (GetAvailableIPs (m_order mc used) used)"
    and "rentRead api mc ns random w = (Inr draft, w1)" and "rentPatch api mc ns draft v = (Inr net, w2)"
  shows "\<exists>ip cm'. net_IP net = [223, 254, 254, word_of_int ip] \<and> 2 \<le> ip \<and> ip < 254 \<and> ip \<noteq> 100 \<and>
    (\<forall>mac ips. used mac = Some ips \<longrightarrow> ip \<notin> ips) \<and>
    cmGet api ns (cfm_Name cm) w2 = (Inr cm', w2) \<and>
    FromStringToDHCP (dataOf cm' DHCP) = lease (m_mac mc) ip used \<and>
    (disjointLeases used \<longrightarrow> disjointLeases (lease (m_mac mc) ip used)) \<and>
    (v = w1 \<longrightarrow> RentIP api mc ns random w = (Inr net, w2))"
proof -
  define ip where "ip = chooseIP mc random used"
  define used' where "used' = lease (m_mac mc) ip used"
  have draft: "draft = \<lparr>rd_map = cfm_Name cm, rd_ip = ip, rd_used = used'\<rparr>"
    using assms(3,4,7) by (simp add: rentRead_def ip_def used'_def)
  have fin: "finite (dom used)" using assms(4) by (simp add: finite_dom_FromString)
  then have fin': "finite (dom used')" by (auto simp: used'_def lease_def split: option.splits)
  have order: "range_order used (m_order mc used)" "range_order used' (m_order mc used')"
    using assms(2) fin fin' by (auto simp: machineOk_def)
  have "ip \<in> GetAvailableIPs (m_order mc used) used"
    unfolding ip_def using assms(2,6) fin by (intro chooseIP_available)
  then have ip: "2 \<le> ip" "ip < 254" "ip \<noteq> 100" "\<forall>mac ips. used mac = Some ips \<longrightarrow> ip \<notin> ips"
    using GetAvailableIPs_iff [OF order(1)] by auto
  have "plainText mac" if "mac \<in> dom used'" for mac
    using that assms(2,5) by (auto simp: used'_def lease_def machineOk_def plainTable_def split: option.splits if_splits)
  then have plain: "\<forall>l\<in>set (map (leaseLine used') (m_order mc used')). plainText l"
    using order(2) leaseLine_plain by (auto simp: range_order_def)
  have patch: "cmMergePatch api ns (cfm_Name cm)
      (patchBody DHCP (ToString (m_order mc used') used')) v = (None, w2)"
    and net: "net_IP net = [223, 254, 254, word_of_int ip]"
    using assms(8) by (auto simp: rentPatch_def draft split: prod.splits option.splits)
  from assms(1) plain patch obtain cm' where cm': "cmGet api ns (cfm_Name cm) w2 = (Inr cm', w2)"
    "dataOf cm' DHCP = decodedText (m_order mc used') used'"
    unfolding patchStores_def ToString_lines decodedText_def by blast
  have "tableOk used'"
    unfolding used'_def using ip assms(4) FromStringToDHCP_ok
    by (intro lease_ok [OF _ assms(2)]) (auto simp: int64_range_def)
  then have "FromStringToDHCP (dataOf cm' DHCP) = used'"
    using cm'(2) FromStringToDHCP_decodedText [OF _ order(2)] by simp
  moreover have "disjointLeases used \<longrightarrow> disjointLeases used'"
    using ip(4) by (auto simp: disjointLeases_def used'_def lease_def split: option.splits if_splits; blast)
  moreover have "v = w1 \<longrightarrow> RentIP api mc ns random w = (Inr net, w2)" using assms(7,8) by (auto simp: RentIP_def)
  ultimately show ?thesis using net ip cm'(1) unfolding used'_def by blast
qed

text \<open>
  The witness: machine b reads a table in which a holds 5, machine c rents 6 in the meantime, and
  the patch of b is applied after that; the lease of c is gone.
\<close>

theorem rented_address_is_free_witness:
  "\<exists>draft net w2 ip cm'. rentRead memCm demoMachine ''ns'' False (demoTable (''a#5'' @ newline)) =
       (Inr draft, demoTable (''a#5'' @ newline)) \<and>
     rentPatch memCm demoMachine ''ns'' draft (demoTable (''a#5'' @ newline @ ''c#6'' @ newline)) = (Inr net, w2) \<and>
     net_IP net = [223, 254, 254, word_of_int ip] \<and> 2 \<le> ip \<and> ip < 254 \<and> ip \<noteq> 5 \<and> ip \<noteq> 100 \<and>
     cmGet memCm ''ns'' TrafficManager w2 = (Inr cm', w2) \<and> FromStringToDHCP (dataOf cm' DHCP) ''c'' = None"
proof -
  let ?u = "[''a'' \<mapsto> {5}] :: leases"
  let ?w = "demoTable (''a#5'' @ newline)"
  obtain draft where rd: "rentRead memCm demoMachine ''ns'' False ?w = (Inr draft, ?w)"
    by (simp add: rentRead_def demoTable_get)
  obtain net w2 where r: "rentPatch memCm demoMachine ''ns'' draft (demoTable (''a#5'' @ newline @ ''c#6'' @ newline)) = (Inr net, w2)"
    by (simp add: rentPatch_def memCm_def)
  have u: "?u = FromStringToDHCP (dataOf ?w DHCP)"
    using read_one by (simp add: dataOf_def demoTable_def)
  have plain: "plainTable ?u" by (simp add: plainTable_def plainText_def)
  have order: "range_order ?u (m_order demoMachine ?u)" by (simp add: range_order_def demoMachine_def)
  have "{2, 3, 4} \<subseteq> GetAvailableIPs (m_order demoMachine ?u) ?u"
    by (auto simp: GetAvailableIPs_iff [OF order] split: if_splits)
  then have "card {2, 3, 4 :: int} \<le> card (GetAvailableIPs (m_order demoMachine ?u) ?u)"
    by (intro card_mono) (simp_all only: GetAvailableIPs_def finite_set)
  then have card: "3 \<le> card (GetAvailableIPs (m_order demoMachine ?u) ?u)" by simp
  from rented_address_is_free [OF memCm_stores(1) demoMachine_ok demoTable_get u plain card rd r] obtain ip cm' where
    ip: "net_IP net = [223, 254, 254, word_of_int ip]" "2 \<le> ip" "ip < 254" "ip \<noteq> 100"
    "\<forall>mac ips. ?u mac = Some ips \<longrightarrow> ip \<notin> ips" "cmGet memCm ''ns'' (cfm_Name ?w) w2 = (Inr cm', w2)"
    "FromStringToDHCP (dataOf cm' DHCP) = lease (m_mac demoMachine) ip ?u" by blast
  from ip(5) have "ip \<noteq> 5" by (auto dest: spec [of _ "''a''"])
  moreover have "FromStringToDHCP (dataOf cm' DHCP) ''c'' = None"
    by (simp add: ip(7) lease_def demoMachine_def)
  moreover have "cfm_Name ?w = TrafficManager" by (simp add: demoTable_def)
  ultimately show ?thesis using rd r ip(1-4,6) by metis
qed

text \<open>The search for an address from the hash of the MAC address skips one of the 255
  remainders. When the only free address is the one just below the hash, the machine is given
  the address of the hash itself, although it is not free.\<close>

theorem getIP_skips_predecessor:
  assumes "unat (BytesToInt (md5 mac)) + 254 \<le> 2 ^ 32"
    and "int (unat (BytesToInt (md5 mac) mod 255)) = i + 1"
  shows "getIP md5 mac {i} = i + 1"
proof -
  let ?v = "BytesToInt (md5 mac)"
  have "int (unat ((?v + of_nat k) mod 255)) \<noteq> i" if "k < 254" for k
  proof
    assume eq: "int (unat ((?v + of_nat k) mod 255)) = i"
    have "unat (?v + of_nat k) = unat ?v + k"
      using that assms(1) by (simp add: unat_word_ariths unat_of_nat)
    then have "int ((unat ?v + k) mod 255) = i" using eq by (simp only: unat_mod_255)
    then have "(unat ?v + k) mod 255 + 1 = unat ?v mod 255"
      using assms(2) unfolding unat_mod_255 by linarith
    then have "(unat ?v + (k + 1)) mod 255 = (unat ?v + 0) mod 255"
      by (metis add.assoc add_0_right mod_add_left_eq mod_mod_trivial)
    then show False using mod_shift_inj [of "k + 1" 255 0] that by simp
  qed
  then have "probe 254 {i} ?v = None" by (simp only: probe_None_iff singleton_iff) blast
  with assms(2) show ?thesis by (simp add: getIP_def)
qed

theorem getIP_skips_predecessor_witness:
  "getIP (\<lambda>_. [0, 0, 0, 4]) ''02:00'' {3} = 4"
proof -
  have "BytesToInt [0, 0, 0, 4] = 4" by (simp add: BytesToInt_def)
  then show ?thesis using getIP_skips_predecessor [of "\<lambda>_. [0, 0, 0, 4]" "''02:00''" 3] by simp
qed

subsection \<open>Releasing\<close>

lemma count_list_concat: "count_list (concat xss) c = sum_list (map (\<lambda>xs. count_list xs c) xss)"
  by (induction xss) (simp_all add: count_list_append)

lemma ToString_hashes:
  assumes "\<forall>mac\<in>set macs. CHR ''#'' \<notin> set mac"
  shows "count_list (ToString macs m) CHR ''#'' = length macs"
  using assms ipsText_no(1)
  by (induction macs) (simp_all add: ToString_def count_list_append Splitter_def count_notin)

lemma ToString_no_newline:
  assumes "\<forall>mac\<in>set macs. CHR 0x0A \<notin> set mac"
  shows "CHR 0x0A \<notin> set (ToString macs m)"
  using assms ipsText_no(2) by (auto simp: ToString_def Splitter_def)

lemma FromString_ToString:
  assumes "tableOk m" and "range_order m macs" and "2 \<le> length macs"
  shows "FromStringToDHCP (ToString macs m) = Map.empty"
proof -
  have macs: "\<forall>mac\<in>set macs. CHR ''#'' \<notin> set mac \<and> CHR 0x0A \<notin> set mac"
    using assms(1,2) by (auto simp: tableOk_def leaseOk_def range_order_def dom_def)
  then have "split (ToString macs m) newline = [ToString macs m]"
    using ToString_no_newline by (intro split_no_sep [of "CHR 0x0A"]) auto
  moreover have "length (split (ToString macs m) Splitter) = Suc (length macs)"
    using macs ToString_hashes by (simp add: Splitter_def length_split_char)
  ultimately show ?thesis
    using assms(3) by (auto simp: FromStringToDHCP_def split: list.splits)
qed

lemma releaseAll_ok: "tableOk m \<Longrightarrow> tableOk (releaseAll ips m)"
  by (auto simp: tableOk_def leaseOk_def releaseAll_def)

lemma dom_releaseAll [simp]: "dom (releaseAll ips m) = dom m"
  by (auto simp: releaseAll_def)

text \<open>Releasing an address writes the table back as raw text, in which the line ends are the
  two characters backslash and n. When two or more machines hold leases the next reader
  therefore finds an empty table: every lease is forgotten, and every address of the range
  counts as free again.\<close>

theorem release_forgets_all_leases:
  assumes "updateStores api" and "machineOk mc"
    and "cmGet api ns TrafficManager w = (Inr cm, w1)"
    and "2 \<le> card (dom (FromStringToDHCP (dataOf cm DHCP)))"
    and "ReleaseIP api mc ns ips w = (Ret None, w2)"
  shows "\<exists>cm'. cmGet api ns (cfm_Name cm) w2 = (Inr cm', w2) \<and>
    FromStringToDHCP (dataOf cm' DHCP) = Map.empty \<and>
    GetAvailableIPs [] (FromStringToDHCP (dataOf cm' DHCP)) = {2..253} - {100}"
proof -
  let ?used = "releaseAll ips (FromStringToDHCP (dataOf cm DHCP))"
  from assms(3,5) obtain d where d: "cfm_Data cm = Some d"
    "cmUpdate api ns (cm\<lparr>cfm_Data := Some (d(DHCP \<mapsto> ToString (m_order mc ?used) ?used))\<rparr>) w1 = (None, w2)"
    by (auto simp: ReleaseIP_def split: option.splits prod.splits)
  let ?cm = "cm\<lparr>cfm_Data := Some (d(DHCP \<mapsto> ToString (m_order mc ?used) ?used))\<rparr>"
  have "cmGet api ns (cfm_Name cm) w2 = (Inr ?cm, w2)"
    using assms(1) d(2) by (force simp: updateStores_def)
  moreover have order: "range_order ?used (m_order mc ?used)"
    using assms(2) finite_dom_FromString by (auto simp: machineOk_def)
  moreover have "2 \<le> length (m_order mc ?used)"
    using assms(4) order by (metis distinct_card range_order_def dom_releaseAll)
  ultimately have "FromStringToDHCP (dataOf ?cm DHCP) = Map.empty"
    using FromString_ToString [OF releaseAll_ok [OF FromStringToDHCP_ok]] by (simp add: dataOf_def)
  moreover have "GetAvailableIPs [] Map.empty = {2..253} - {100}"
    by (auto simp: GetAvailableIPs_eq usedIPs_eq)
  ultimately show ?thesis
    using \<open>cmGet api ns (cfm_Name cm) w2 = (Inr ?cm, w2)\<close> by metis
qed

theorem release_forgets_all_leases_witness:
  "\<exists>w2 cm'. ReleaseIP memCm demoMachine ''ns'' [7] (demoTable (''a#5'' @ newline @ ''c#6'' @ newline)) = (Ret None, w2) \<and>
     cmGet memCm ''ns'' TrafficManager w2 = (Inr cm', w2) \<and> FromStringToDHCP (dataOf cm' DHCP) = Map.empty"
proof -
  let ?w = "demoTable (''a#5'' @ newline @ ''c#6'' @ newline)"
  obtain w2 where r: "ReleaseIP memCm demoMachine ''ns'' [7] ?w = (Ret None, w2)"
    by (simp add: ReleaseIP_def demoTable_get) (simp add: memCm_def demoTable_def)
  have "dataOf ?w DHCP = ''a#5'' @ newline @ ''c#6'' @ newline" by (simp add: dataOf_def demoTable_def)
  then have two: "2 \<le> card (dom (FromStringToDHCP (dataOf ?w DHCP)))"
    using read_two by simp
  have "cfm_Name ?w = TrafficManager" by (simp add: demoTable_def)
  with release_forgets_all_leases [OF memCm_stores(2) demoMachine_ok demoTable_get two r] r show ?thesis
    by auto
qed

end
