(* ===== verification/DevDir.thy ===== *)
theory DevDir
  imports SvcTypes
begin

text \<open>
  The directories developers work in and the services they are associated with
  (\<open>dev_dir/dev_dir_mapping.go\<close> and \<open>dev_dir_mapping_db.go\<close>). The mapping is one YAML value in
  a LevelDB, read, changed and stored again by every operation; the database, the YAML codec,
  the file system and the kubeconfig loader are arguments (record \<open>dirEnv\<close>).
\<close>

type_synonym SvcPackKey = string
type_synonym DevPath = string

subsection \<open>Keys\<close>

record SvcPack =
  pk_Ns :: string
  pk_Nid :: string
  pk_App :: string
  pk_SvcType :: SvcType
  pk_Svc :: string
  pk_Container :: string

definition NewSvcPack :: "string \<Rightarrow> string \<Rightarrow> string \<Rightarrow> SvcType \<Rightarrow> string \<Rightarrow> string \<Rightarrow> SvcPack" where
  "NewSvcPack ns nid app svcType svc container =
     \<lparr>pk_Ns = ns, pk_Nid = nid, pk_App = app, pk_SvcType = svcType, pk_Svc = svc,
      pk_Container = container\<rparr>"

definition splitter :: string where "splitter = ''-/-''"

definition DefaultKey :: string where "DefaultKey = ''DefaultKey''"

definition toPack :: "SvcPackKey \<Rightarrow> SvcPack option" where
  "toPack key =
     (let array = split key splitter in
      if length array < 5 then None
      else let nid = (if length array > 5 then array ! 5 else []) in
        Some \<lparr>pk_Ns = array ! 0, pk_Nid = nid, pk_App = array ! 1, pk_SvcType = array ! 2,
              pk_Svc = array ! 3, pk_Container = array ! 4\<rparr>)"

definition WithoutNid :: "SvcPackKey \<Rightarrow> SvcPackKey" where
  "WithoutNid key =
     (if length (split key splitter) > 5
      then (case lastIndex key splitter of Some i \<Rightarrow> take i key | None \<Rightarrow> key)
      else key)"

definition KeyWithoutContainer :: "SvcPack \<Rightarrow> SvcPackKey" where
  "KeyWithoutContainer p =
     pk_Ns p @ splitter @ pk_App p @ splitter @ pk_SvcType p @ splitter @ pk_Svc p @ splitter @
     [] @ splitter @ pk_Nid p"

definition Key :: "SvcPack \<Rightarrow> SvcPackKey" where
  "Key p =
     (if pk_Container p = [] then KeyWithoutContainer p
      else pk_Ns p @ splitter @ pk_App p @ splitter @ pk_SvcType p @ splitter @ pk_Svc p @ splitter @
           pk_Container p @ splitter @ pk_Nid p)"

definition valid :: "SvcPack option \<Rightarrow> bool" where
  "valid sp \<longleftrightarrow>
     (case sp of
        None \<Rightarrow> False
      | Some p \<Rightarrow> pk_Ns p \<noteq> [] \<and> pk_App p \<noteq> [] \<and> pk_SvcType p \<noteq> [] \<and> pk_Svc p \<noteq> [])"

subsection \<open>The mapping and its database\<close>

record DevDirMapping =
  PathToDefaultPackKey :: "DevPath \<rightharpoonup> SvcPackKey"
  PackToPath :: "SvcPackKey \<rightharpoonup> DevPath"
  PackToKubeConfigBytes :: "SvcPackKey \<rightharpoonup> string"
  PackToKubeConfigServer :: "SvcPackKey \<rightharpoonup> string"

text \<open>What YAML decodes, where each map may be missing.\<close>

record RawMapping =
  raw_PathToDefaultPackKey :: "(DevPath \<rightharpoonup> SvcPackKey) option"
  raw_PackToPath :: "(SvcPackKey \<rightharpoonup> DevPath) option"
  raw_PackToKubeConfigBytes :: "(SvcPackKey \<rightharpoonup> string) option"
  raw_PackToKubeConfigServer :: "(SvcPackKey \<rightharpoonup> string) option"

datatype dberr = ErrNotFound | DbErr gerr

record 'w dirEnv =
  dbCreate :: "string \<Rightarrow> 'w \<Rightarrow> 'w"
  dbOpen :: "string \<Rightarrow> bool \<Rightarrow> 'w \<Rightarrow> gerr option"
  dbGet :: "string \<Rightarrow> string \<Rightarrow> 'w \<Rightarrow> dberr + string"
  dbListAll :: "string \<Rightarrow> 'w \<Rightarrow> gerr + (string \<times> string) list"
  dbPut :: "string \<Rightarrow> string \<Rightarrow> string \<Rightarrow> 'w \<Rightarrow> gerr option \<times> 'w"
  unmarshalMapping :: "string \<Rightarrow> gerr + RawMapping"
  marshalMapping :: "DevDirMapping \<Rightarrow> gerr + string"
  mappingPath :: string
  packOrder :: "(SvcPackKey \<rightharpoonup> DevPath) \<Rightarrow> SvcPackKey list"
  packsOrder :: "(SvcPackKey \<rightharpoonup> SvcPack) \<Rightarrow> SvcPackKey list"
  readFile :: "string \<Rightarrow> string"
  rawKubeConfig :: "string \<Rightarrow> gerr + string \<times> (string \<rightharpoonup> string)"

definition orEmpty :: "('k \<rightharpoonup> 'v) option \<Rightarrow> ('k \<rightharpoonup> 'v)" where
  "orEmpty m = (case m of None \<Rightarrow> Map.empty | Some x \<Rightarrow> x)"

definition fillMapping :: "RawMapping \<Rightarrow> DevDirMapping" where
  "fillMapping r =
     \<lparr>PathToDefaultPackKey = orEmpty (raw_PathToDefaultPackKey r),
      PackToPath = orEmpty (raw_PackToPath r),
      PackToKubeConfigBytes = orEmpty (raw_PackToKubeConfigBytes r),
      PackToKubeConfigServer = orEmpty (raw_PackToKubeConfigServer r)\<rparr>"

definition emptyRaw :: RawMapping where
  "emptyRaw = \<lparr>raw_PathToDefaultPackKey = None, raw_PackToPath = None,
     raw_PackToKubeConfigBytes = None, raw_PackToKubeConfigServer = None\<rparr>"

text \<open>
  The value stored under the default key, or, when there is none, the first value whose key
  contains the name of the default key.
\<close>

definition loadBytes :: "'w dirEnv \<Rightarrow> 'w \<Rightarrow> gerr + string" where
  "loadBytes env w =
     (case dbGet env (mappingPath env) DefaultKey w of
        Inr bys \<Rightarrow> Inr bys
      | Inl ErrNotFound \<Rightarrow>
          (case dbListAll env (mappingPath env) w of
             Inl e \<Rightarrow> Inl e
           | Inr kvs \<Rightarrow>
               (case find (\<lambda>(k, v). contains k DefaultKey) kvs of
                  Some (k, v) \<Rightarrow> Inr v
                | None \<Rightarrow> Inr []))
      | Inl (DbErr e) \<Rightarrow> Inl e)"

definition loadMapping :: "'w dirEnv \<Rightarrow> bool \<Rightarrow> 'w \<Rightarrow> gerr + DevDirMapping" where
  "loadMapping env readOnly w =
     (case dbOpen env (mappingPath env) readOnly w of
        Some e \<Rightarrow> Inl e
      | None \<Rightarrow>
          (case loadBytes env w of
             Inl e \<Rightarrow> Inl e
           | Inr bys \<Rightarrow>
               if bys = [] then Inr (fillMapping emptyRaw)
               else (case unmarshalMapping env bys of
                       Inl e \<Rightarrow> Inl e
                     | Inr r \<Rightarrow> Inr (fillMapping r))))"

text \<open>
  One round of \<open>genPathToPackMap\<close> makes the list of the path, then appends the pack when the
  key can be read.
\<close>

definition addPack ::
  "(SvcPackKey \<rightharpoonup> DevPath) \<Rightarrow> SvcPackKey \<Rightarrow> (DevPath \<rightharpoonup> SvcPack list) \<Rightarrow> (DevPath \<rightharpoonup> SvcPack list)" where
  "addPack m k acc =
     (case m k of
        None \<Rightarrow> acc
      | Some path \<Rightarrow>
          (let acc1 = (case acc path of None \<Rightarrow> acc(path \<mapsto> []) | Some _ \<Rightarrow> acc) in
           case toPack k of
             None \<Rightarrow> acc1
           | Some p \<Rightarrow> acc1(path \<mapsto> get0 [] acc1 path @ [p])))"

definition genPathToPackMap ::
  "((SvcPackKey \<rightharpoonup> DevPath) \<Rightarrow> SvcPackKey list) \<Rightarrow> DevDirMapping \<Rightarrow> (DevPath \<rightharpoonup> SvcPack list)" where
  "genPathToPackMap order m = fold (addPack (PackToPath m)) (order (PackToPath m)) Map.empty"

type_synonym 'r dirFun = "DevDirMapping \<Rightarrow> (DevPath \<rightharpoonup> SvcPack list) \<Rightarrow> gerr + 'r \<times> DevDirMapping"

definition doGetOrModify :: "'w dirEnv \<Rightarrow> 'r dirFun \<Rightarrow> bool \<Rightarrow> 'w \<Rightarrow> (gerr + 'r) \<times> 'w" where
  "doGetOrModify env f readOnly w =
     (let w1 = dbCreate env (mappingPath env) w in
      case loadMapping env readOnly w1 of
        Inl e \<Rightarrow> (Inl e, w1)
      | Inr m \<Rightarrow>
          (case f m (genPathToPackMap (packOrder env) m) of
             Inl e \<Rightarrow> (Inl e, w1)
           | Inr (r, m') \<Rightarrow>
               if readOnly then (Inr r, w1)
               else (case marshalMapping env m' of
                       Inl e \<Rightarrow> (Inl e, w1)
                     | Inr bys \<Rightarrow>
                         (case dbPut env (mappingPath env) DefaultKey bys w1 of
                            (Some e, w2) \<Rightarrow> (Inl e, w2)
                          | (None, w2) \<Rightarrow> (Inr r, w2)))))"

definition Update_dir :: "'w dirEnv \<Rightarrow> 'r dirFun \<Rightarrow> 'w \<Rightarrow> (gerr + 'r) \<times> 'w" where
  "Update_dir env f w = doGetOrModify env f False w"

definition Get_dir :: "'w dirEnv \<Rightarrow> 'r dirFun \<Rightarrow> 'w \<Rightarrow> (gerr + 'r) \<times> 'w" where
  "Get_dir env f w = doGetOrModify env f True w"

definition ClearAllData :: "'w dirEnv \<Rightarrow> 'w \<Rightarrow> 'w" where
  "ClearAllData env w =
     snd (doGetOrModify env
       (\<lambda>m _. Inr ((), m\<lparr>PathToDefaultPackKey := Map.empty, PackToPath := Map.empty\<rparr>)) False w)"

subsection \<open>Looking a service up\<close>

definition associatePathIn :: "SvcPack \<Rightarrow> DevDirMapping \<Rightarrow> DevPath" where
  "associatePathIn p m =
     (case PackToPath m (Key p) of
        Some d \<Rightarrow> d
      | None \<Rightarrow>
          (case PackToPath m (KeyWithoutContainer p) of
             Some d \<Rightarrow> d
           | None \<Rightarrow>
               (case PackToPath m (WithoutNid (Key p)) of
                  Some d \<Rightarrow> d
                | None \<Rightarrow> get_str (PackToPath m) (WithoutNid (KeyWithoutContainer p)))))"

definition GetAssociatePath :: "'w dirEnv \<Rightarrow> SvcPack option \<Rightarrow> 'w \<Rightarrow> DevPath \<times> 'w" where
  "GetAssociatePath env sp w =
     (if \<not> valid sp then ([], w)
      else case Get_dir env (\<lambda>m _. Inr (associatePathIn (the sp) m, m)) w of
        (Inl _, w1) \<Rightarrow> ([], w1)
      | (Inr path, w1) \<Rightarrow> (path, w1))"

text \<open>\<open>FlushCache\<close> keeps the old cache when the database cannot be read.\<close>

definition FlushCache :: "'w dirEnv \<Rightarrow> DevDirMapping option \<Rightarrow> 'w \<Rightarrow> DevDirMapping option \<times> 'w" where
  "FlushCache env cache w =
     (case Get_dir env (\<lambda>m _. Inr (m, m)) w of
        (Inl _, w1) \<Rightarrow> (cache, w1)
      | (Inr m, w1) \<Rightarrow> (Some m, w1))"

definition GetAssociatePathCache ::
  "'w dirEnv \<Rightarrow> SvcPack option \<Rightarrow> DevDirMapping option \<Rightarrow> 'w \<Rightarrow> DevPath outcome \<times> DevDirMapping option \<times> 'w" where
  "GetAssociatePathCache env sp cache w =
     (if \<not> valid sp then (Ret [], cache, w)
      else let p = the sp in
        case (if cache = None then FlushCache env cache w else (cache, w)) of
          (None, w1) \<Rightarrow> (Panic ''nil pointer dereference'', None, w1)
        | (Some m, w1) \<Rightarrow>
            (Ret (case PackToPath m (Key p) of
                    Some d \<Rightarrow> d
                  | None \<Rightarrow> get_str (PackToPath m) (KeyWithoutContainer p)), Some m, w1))"

text \<open>The second branch of the source repeats the test of the first, and is never taken.\<close>

definition kubeConfigIn :: "SvcPack \<Rightarrow> DevDirMapping \<Rightarrow> string \<times> string" where
  "kubeConfigIn p m =
     (let at = (\<lambda>k. (get_str (PackToKubeConfigBytes m) k, get_str (PackToKubeConfigServer m) k)) in
      if PackToPath m (Key p) \<noteq> None then at (Key p)
      else if PackToPath m (Key p) \<noteq> None then at (KeyWithoutContainer p)
      else if PackToPath m (WithoutNid (Key p)) \<noteq> None then at (WithoutNid (Key p))
      else at (WithoutNid (KeyWithoutContainer p)))"

definition GetKubeConfigBytesAndServer ::
  "'w dirEnv \<Rightarrow> SvcPack option \<Rightarrow> 'w \<Rightarrow> (string \<times> string) \<times> 'w" where
  "GetKubeConfigBytesAndServer env sp w =
     (if \<not> valid sp then (([], []), w)
      else case Get_dir env (\<lambda>m _. Inr (kubeConfigIn (the sp) m, m)) w of
        (Inl _, w1) \<Rightarrow> (([], []), w1)
      | (Inr r, w1) \<Rightarrow> (r, w1))"

subsection \<open>The services of a path\<close>

record AllSvcPackAssociateByPath =
  all_Packs :: "SvcPackKey \<rightharpoonup> SvcPack"
  all_Kubeconfigs :: "SvcPackKey \<rightharpoonup> string"
  all_ServerMapping :: "SvcPackKey \<rightharpoonup> string"
  all_DefaultSvcPackKey :: SvcPackKey

definition doGetAllPacks ::
  "DevPath \<Rightarrow> DevDirMapping \<Rightarrow> (DevPath \<rightharpoonup> SvcPack list) \<Rightarrow> AllSvcPackAssociateByPath" where
  "doGetAllPacks path m pathToPack =
     (let packs = (case pathToPack path of None \<Rightarrow> [] | Some ps \<Rightarrow> ps) in
      \<lparr>all_Packs = fold (\<lambda>p acc. acc(Key p \<mapsto> p)) packs Map.empty,
       all_Kubeconfigs =
         fold (\<lambda>p acc. acc(Key p \<mapsto> get_str (PackToKubeConfigBytes m) (Key p))) packs Map.empty,
       all_ServerMapping =
         fold (\<lambda>p acc. acc(Key p \<mapsto> get_str (PackToKubeConfigServer m) (Key p))) packs Map.empty,
       all_DefaultSvcPackKey = get_str (PathToDefaultPackKey m) path\<rparr>)"

definition getAllPacks :: "'w dirEnv \<Rightarrow> DevPath \<Rightarrow> 'w \<Rightarrow> AllSvcPackAssociateByPath option \<times> 'w" where
  "getAllPacks env path w =
     (case Get_dir env (\<lambda>m ptp. Inr (doGetAllPacks path m ptp, m)) w of
        (Inl _, w1) \<Rightarrow> (None, w1)
      | (Inr r, w1) \<Rightarrow> (Some r, w1))"

definition NO_DEFAULT_PACK :: gerr where "NO_DEFAULT_PACK = ''Current Svc pack not found ''"

definition defaultPackOf ::
  "((SvcPackKey \<rightharpoonup> SvcPack) \<Rightarrow> SvcPackKey list) \<Rightarrow> AllSvcPackAssociateByPath \<Rightarrow> gerr + SvcPack" where
  "defaultPackOf order packs =
     (case all_Packs packs (all_DefaultSvcPackKey packs) of
        Some pack \<Rightarrow> Inr pack
      | None \<Rightarrow>
          (case find (\<lambda>p. Key p \<noteq> KeyWithoutContainer p)
                  (List.map_filter (all_Packs packs) (order (all_Packs packs))) of
             Some pack \<Rightarrow> Inr pack
           | None \<Rightarrow> Inl NO_DEFAULT_PACK))"

definition getDefaultPack :: "'w dirEnv \<Rightarrow> DevPath \<Rightarrow> 'w \<Rightarrow> (gerr + SvcPack) \<times> 'w" where
  "getDefaultPack env path w =
     (case getAllPacks env path w of
        (None, w1) \<Rightarrow> (Inl NO_DEFAULT_PACK, w1)
      | (Some packs, w1) \<Rightarrow> (defaultPackOf (packsOrder env) packs, w1))"

definition AlreadyAssociate ::
  "'w dirEnv \<Rightarrow> DevPath \<Rightarrow> SvcPack \<Rightarrow> 'w \<Rightarrow> bool outcome \<times> 'w" where
  "AlreadyAssociate env d p w =
     (case getAllPacks env d w of
        (None, w1) \<Rightarrow> (Panic ''nil pointer dereference'', w1)
      | (Some packs, w1) \<Rightarrow> (Ret (all_Packs packs (Key p) \<noteq> None), w1))"

subsection \<open>Changing the mapping\<close>

text \<open>The first step of \<open>removePackAndThen\<close>: repair the default service of the path of the pack.\<close>

definition repairDefault ::
  "((SvcPackKey \<rightharpoonup> SvcPack) \<Rightarrow> SvcPackKey list) \<Rightarrow> DevPath \<Rightarrow> SvcPackKey \<Rightarrow> DevPath \<Rightarrow>
     AllSvcPackAssociateByPath \<Rightarrow> DevDirMapping \<Rightarrow> DevDirMapping" where
  "repairDefault order d key before packs m =
     (if length (order (all_Packs packs)) = 1
      then m\<lparr>PathToDefaultPackKey := map_delete d (PathToDefaultPackKey m)\<rparr>
      else if all_DefaultSvcPackKey packs = key
      then m\<lparr>PathToDefaultPackKey :=
             fold (\<lambda>random acc. if random \<noteq> key then acc(before \<mapsto> random) else acc)
               (order (all_Packs packs)) (PathToDefaultPackKey m)\<rparr>
      else m)"

definition removePack ::
  "((SvcPackKey \<rightharpoonup> SvcPack) \<Rightarrow> SvcPackKey list) \<Rightarrow> DevPath \<Rightarrow> SvcPack \<Rightarrow>
     DevDirMapping \<Rightarrow> (DevPath \<rightharpoonup> SvcPack list) \<Rightarrow> DevDirMapping" where
  "removePack order d p m ptp =
     (let before = get_str (PackToPath m) (Key p);
          m1 = repairDefault order d (Key p) before (doGetAllPacks before m ptp) m
      in m1\<lparr>PackToPath := map_delete (Key p) (PackToPath m1)\<rparr>)"

definition removePackAndThen ::
  "'w dirEnv \<Rightarrow> DevPath \<Rightarrow> SvcPack option \<Rightarrow> unit dirFun option \<Rightarrow> 'w \<Rightarrow> gerr option \<times> 'w" where
  "removePackAndThen env d sp f w =
     (if \<not> valid sp then (Some ''Svc pack is invalid'', w)
      else case Update_dir env (\<lambda>m ptp.
             let m1 = removePack (packsOrder env) d (the sp) m ptp in
             case f of None \<Rightarrow> Inr ((), m1) | Some g \<Rightarrow> g m1 ptp) w of
        (Inl e, w1) \<Rightarrow> (Some e, w1)
      | (Inr _, w1) \<Rightarrow> (None, w1))"

definition RemovePack :: "'w dirEnv \<Rightarrow> DevPath \<Rightarrow> SvcPack option \<Rightarrow> 'w \<Rightarrow> gerr option \<times> 'w" where
  "RemovePack env d sp w = removePackAndThen env d sp None w"

definition getKubeConfigServer :: "(string \<Rightarrow> gerr + string \<times> (string \<rightharpoonup> string)) \<Rightarrow> string \<Rightarrow> string" where
  "getKubeConfigServer loader kubeConfig =
     (case loader kubeConfig of
        Inl _ \<Rightarrow> []
      | Inr (current, contexts) \<Rightarrow>
          if current = [] then []
          else (case contexts current of Some cluster \<Rightarrow> cluster | None \<Rightarrow> []))"

definition setPack :: "SvcPackKey \<Rightarrow> DevPath \<Rightarrow> string \<Rightarrow> string \<Rightarrow> DevDirMapping \<Rightarrow> DevDirMapping" where
  "setPack k d content server m =
     m\<lparr>PackToPath := (PackToPath m)(k \<mapsto> d),
       PackToKubeConfigBytes := (PackToKubeConfigBytes m)(k \<mapsto> content),
       PackToKubeConfigServer := (PackToKubeConfigServer m)(k \<mapsto> server)\<rparr>"

definition coverPacks ::
  "((SvcPackKey \<rightharpoonup> DevPath) \<Rightarrow> SvcPackKey list) \<Rightarrow> SvcPackKey \<Rightarrow> DevPath \<Rightarrow> string \<Rightarrow> string \<Rightarrow>
     DevDirMapping \<Rightarrow> DevDirMapping" where
  "coverPacks order key d content server m =
     fold (\<lambda>k acc. if hasPrefix k key then setPack k d content server acc else acc)
       (order (PackToPath m)) m"

definition associateFun ::
  "'w dirEnv \<Rightarrow> DevPath \<Rightarrow> SvcPack \<Rightarrow> string \<Rightarrow> bool \<Rightarrow> unit dirFun" where
  "associateFun env d p kubeconfig setAsDefaultSvc m ptp =
     (let content = readFile env kubeconfig;
          server = getKubeConfigServer (rawKubeConfig env) kubeconfig
      in if content = [] then Inr ((), m)
         else let m1 = setPack (Key p) d content server m;
                  m2 = (if pk_Container p = [] then coverPacks (packOrder env) (Key p) d content server m1
                        else setPack (KeyWithoutContainer p) d content server m1);
                  m3 = (if setAsDefaultSvc \<or> PathToDefaultPackKey m2 d = None
                        then m2\<lparr>PathToDefaultPackKey := (PathToDefaultPackKey m2)(d \<mapsto> Key p)\<rparr>
                        else m2)
              in Inr ((), m3))"

definition Associate ::
  "'w dirEnv \<Rightarrow> DevPath \<Rightarrow> SvcPack option \<Rightarrow> string \<Rightarrow> bool \<Rightarrow> 'w \<Rightarrow> gerr option \<times> 'w" where
  "Associate env d sp kubeconfig setAsDefaultSvc w =
     (if \<not> valid sp then (Some ''Svc pack is invalid'', w)
      else removePackAndThen env d sp (Some (associateFun env d (the sp) kubeconfig setAsDefaultSvc)) w)"

definition unassociateIn :: "SvcPack \<Rightarrow> DevDirMapping \<Rightarrow> DevDirMapping" where
  "unassociateIn p m =
     m\<lparr>PackToPath := fold map_delete
         [Key p, KeyWithoutContainer p, WithoutNid (Key p), WithoutNid (KeyWithoutContainer p)]
         (PackToPath m)\<rparr>"

text \<open>An invalid pack is only reported; a missing one is dereferenced by the callback.\<close>

definition UnAssociatePath :: "'w dirEnv \<Rightarrow> SvcPack option \<Rightarrow> 'w \<Rightarrow> unit outcome \<times> 'w" where
  "UnAssociatePath env sp w =
     (case sp of
        None \<Rightarrow>
          (let w1 = dbCreate env (mappingPath env) w in
           case loadMapping env False w1 of
             Inl _ \<Rightarrow> (Ret (), w1)
           | Inr _ \<Rightarrow> (Panic ''nil pointer dereference'', w1))
      | Some p \<Rightarrow> (Ret (), snd (Update_dir env (\<lambda>m _. Inr ((), unassociateIn p m)) w)))"

end
