(* ===== verification/DevDirProps.thy ===== *)
theory DevDirProps
  imports DevDir "HOL-Library.List_Lexorder" "HOL-Library.Char_ord"
begin

text \<open>
  Properties of the association of directories with services: the keys, and what lookups
  return after \<open>Associate\<close> and \<open>UnAssociatePath\<close>.
\<close>

subsection \<open>Keys\<close>

text \<open>Names of the cluster's objects have no slash.\<close>

definition packOk :: "SvcPack \<Rightarrow> bool" where
  "packOk p \<longleftrightarrow>
     list_all (\<lambda>s. CHR ''/'' \<notin> set s)
       [pk_Ns p, pk_App p, pk_SvcType p, pk_Svc p, pk_Container p, pk_Nid p]"

lemma Key_join:
  "Key p = join [pk_Ns p, pk_App p, pk_SvcType p, pk_Svc p, pk_Container p, pk_Nid p] splitter"
  "KeyWithoutContainer p = join [pk_Ns p, pk_App p, pk_SvcType p, pk_Svc p, [], pk_Nid p] splitter"
  by (simp_all add: Key_def KeyWithoutContainer_def)

lemma KeyWithoutContainer_eq: "KeyWithoutContainer p = Key (p\<lparr>pk_Container := []\<rparr>)"
  by (simp add: Key_join)

lemma split_pack:
  "list_all (\<lambda>s. CHR ''/'' \<notin> set s) xs \<Longrightarrow> xs \<noteq> [] \<Longrightarrow> split (join xs splitter) splitter = xs"
  by (rule split_join [of "CHR ''/''"]) (auto simp: splitter_def list_all_iff)

lemma split_Key:
  "packOk p \<Longrightarrow> split (Key p) splitter =
     [pk_Ns p, pk_App p, pk_SvcType p, pk_Svc p, pk_Container p, pk_Nid p]"
  unfolding Key_join packOk_def by (rule split_pack) simp_all

lemma toPack_Key: "packOk p \<Longrightarrow> toPack (Key p) = Some p"
  by (simp add: toPack_def split_Key)

interpretation pack_codec: codec Key toPack packOk
  by unfold_locales (rule toPack_Key)

lemma lastIndex_None_char: "c \<in> set sub \<Longrightarrow> c \<notin> set s \<Longrightarrow> lastIndex s sub = None"
  by (induction s) (auto dest: hasPrefix_char)

lemma lastIndex_splitter:
  assumes "CHR ''/'' \<notin> set n"
  shows "lastIndex (x @ splitter @ n) splitter = Some (length x)"
proof (induction x)
  case Nil
  have "lastIndex (CHR ''-'' # n) ''-/-'' = None"
    using assms by (intro lastIndex_None_char [of "CHR ''/''"]) auto
  then show ?case by (simp add: splitter_def)
qed simp

lemma WithoutNid_Key:
  assumes "packOk p"
  shows "WithoutNid (Key p) = join [pk_Ns p, pk_App p, pk_SvcType p, pk_Svc p, pk_Container p] splitter"
proof -
  let ?x = "join [pk_Ns p, pk_App p, pk_SvcType p, pk_Svc p, pk_Container p] splitter"
  have k: "Key p = ?x @ splitter @ pk_Nid p" by (simp add: Key_join)
  have "lastIndex (Key p) splitter = Some (length ?x)"
    unfolding k using assms by (intro lastIndex_splitter) (simp add: packOk_def)
  then show ?thesis by (simp add: WithoutNid_def split_Key [OF assms]) (simp add: k)
qed

lemma toPack_WithoutNid:
  assumes "packOk p"
  shows "toPack (WithoutNid (Key p)) = Some (p\<lparr>pk_Nid := []\<rparr>)"
proof -
  have "split (WithoutNid (Key p)) splitter = [pk_Ns p, pk_App p, pk_SvcType p, pk_Svc p, pk_Container p]"
    unfolding WithoutNid_Key [OF assms] using assms by (intro split_pack) (simp_all add: packOk_def)
  then show ?thesis by (simp add: toPack_def)
qed

text \<open>The key of a service reads back as the service, different services have different keys,
  and the key without the namespace id, which older versions stored, reads back as the service
  with an empty namespace id.\<close>

theorem pack_keys:
  assumes "packOk p" and "packOk q"
  shows "toPack (Key p) = Some p \<and> (Key p = Key q \<longleftrightarrow> p = q) \<and>
    toPack (WithoutNid (Key p)) = Some (p\<lparr>pk_Nid := []\<rparr>)"
  using pack_codec.dec_enc [OF assms(1)] pack_codec.enc_inj [OF assms] toPack_WithoutNid [OF assms(1)]
  by blast

theorem pack_keys_witness:
  "toPack (WithoutNid (Key (NewSvcPack ''ns'' ''n1'' ''shop'' ''deployment'' ''web'' ''c''))) =
     Some (NewSvcPack ''ns'' [] ''shop'' ''deployment'' ''web'' ''c'')"
  using pack_keys [of "NewSvcPack ''ns'' ''n1'' ''shop'' ''deployment'' ''web'' ''c''"
      "NewSvcPack ''ns'' ''n1'' ''shop'' ''deployment'' ''web'' ''c''"]
  by (simp add: packOk_def NewSvcPack_def)

subsection \<open>The database\<close>

text \<open>
  What is relied on of the database, the codec and the language: the database can be opened,
  creating it loses nothing, a stored value is read back, an encoded mapping decodes to the
  same mapping, the maps are finite and walked once over each key.
\<close>

definition dirOk :: "'w dirEnv \<Rightarrow> bool" where
  "dirOk env \<longleftrightarrow>
     (\<forall>ro w. dbOpen env (mappingPath env) ro w = None) \<and>
     (\<forall>k w. dbGet env (mappingPath env) k (dbCreate env (mappingPath env) w) = dbGet env (mappingPath env) k w) \<and>
     (\<forall>k v w w'. dbPut env (mappingPath env) k v w = (None, w') \<longrightarrow> dbGet env (mappingPath env) k w' = Inr v) \<and>
     (\<forall>m t. marshalMapping env m = Inr t \<longrightarrow>
        t \<noteq> [] \<and> (\<exists>r. unmarshalMapping env t = Inr r \<and> fillMapping r = m)) \<and>
     (\<forall>t r. unmarshalMapping env t = Inr r \<longrightarrow> finite (dom (PackToPath (fillMapping r)))) \<and>
     (\<forall>m. finite (dom m) \<longrightarrow> range_order m (packOrder env m)) \<and>
     (\<forall>m. finite (dom m) \<longrightarrow> range_order m (packsOrder env m))"

lemma loadMapping_finite:
  "dirOk env \<Longrightarrow> loadMapping env ro w = Inr m \<Longrightarrow> finite (dom (PackToPath m))"
  by (auto simp: dirOk_def loadMapping_def fillMapping_def emptyRaw_def orEmpty_def
      split: option.splits sum.splits if_splits)

lemma loadMapping_stored:
  assumes "dirOk env" and "marshalMapping env m = Inr t"
    and "dbPut env (mappingPath env) DefaultKey t w = (None, w')"
  shows "loadMapping env ro (dbCreate env (mappingPath env) w') = Inr m"
proof -
  obtain r where "t \<noteq> []" "unmarshalMapping env t = Inr r" "fillMapping r = m"
    using assms(1,2) unfolding dirOk_def by blast
  with assms show ?thesis by (simp add: dirOk_def loadMapping_def loadBytes_def)
qed

text \<open>A successful change stores what the callback returned, and every later reader sees it.\<close>

lemma Update_dir_stored:
  assumes "dirOk env" and "Update_dir env f w = (Inr r, w')"
  obtains m m' where "loadMapping env False (dbCreate env (mappingPath env) w) = Inr m"
    and "f m (genPathToPackMap (packOrder env) m) = Inr (r, m')"
    and "\<And>ro. loadMapping env ro (dbCreate env (mappingPath env) w') = Inr m'"
  using assms loadMapping_stored [OF assms(1)]
  by (force simp: Update_dir_def doGetOrModify_def split: sum.splits option.splits prod.splits if_splits)

lemma Get_dir_eq:
  "loadMapping env True (dbCreate env (mappingPath env) w) = Inr m \<Longrightarrow>
     f m (genPathToPackMap (packOrder env) m) = Inr (r, m') \<Longrightarrow>
     Get_dir env f w = (Inr r, dbCreate env (mappingPath env) w)"
  by (simp add: Get_dir_def doGetOrModify_def)

lemma GetAssociatePath_eq:
  assumes "valid (Some p)" and "loadMapping env True (dbCreate env (mappingPath env) w) = Inr m"
  shows "fst (GetAssociatePath env (Some p) w) = associatePathIn p m"
  using assms Get_dir_eq [OF assms(2), of "\<lambda>m _. Inr (associatePathIn p m, m)"]
  by (simp add: GetAssociatePath_def)

subsection \<open>The services of a path\<close>

lemma addPack_get:
  "addPack m k acc path =
     (if m k = Some path then Some (get0 [] acc path @ (case toPack k of None \<Rightarrow> [] | Some p \<Rightarrow> [p]))
      else acc path)"
  by (auto simp: addPack_def get0_def split: option.splits)

lemma genPathToPackMap_get:
  "get0 [] (genPathToPackMap order m) path =
    List.map_filter toPack (filter (\<lambda>k. PackToPath m k = Some path) (order (PackToPath m)))"
proof -
  have "get0 [] (fold (addPack (PackToPath m)) ks acc) path =
      get0 [] acc path @ List.map_filter toPack (filter (\<lambda>k. PackToPath m k = Some path) ks)" for ks acc
  proof (induction ks arbitrary: acc)
    case (Cons k ks)
    have "get0 [] (addPack (PackToPath m) k acc) path =
        get0 [] acc path @ List.map_filter toPack (filter (\<lambda>k. PackToPath m k = Some path) [k])"
      by (auto simp: addPack_get get0_def List.map_filter_def split: option.splits)
    then show ?case using Cons by (simp add: List.map_filter_def)
  qed (simp add: List.map_filter_def)
  from this [of "order (PackToPath m)" Map.empty] show ?thesis
    by (simp add: genPathToPackMap_def get0_def)
qed

lemma all_Packs_fold: "all_Packs (doGetAllPacks path m ptp) = map_of (rev (map (\<lambda>p. (Key p, p)) (get0 [] ptp path)))"
proof -
  have "fold (\<lambda>p acc. acc(Key p \<mapsto> p)) ps acc = acc ++ map_of (rev (map (\<lambda>p. (Key p, p)) ps))" for ps acc
    by (induction ps arbitrary: acc) simp_all
  then show ?thesis by (auto simp: doGetAllPacks_def get0_def split: option.splits)
qed

lemma all_Packs_key: "all_Packs (doGetAllPacks path m ptp) k = Some p \<Longrightarrow> Key p = k"
  by (auto simp: all_Packs_fold dest!: map_of_SomeD)


lemma doGetAllPacks_after:
  assumes "range_order (PackToPath m) (order (PackToPath m))"
    and "PackToPath m (Key p) = Some d" and "packOk p"
  shows "\<exists>p'. all_Packs (doGetAllPacks d m (genPathToPackMap order m)) (Key p) = Some p'"
proof -
  have "Key p \<in> set (filter (\<lambda>k. PackToPath m k = Some d) (order (PackToPath m)))"
    using assms(1,2) by (simp add: range_order_member)
  then have "p \<in> set (get0 [] (genPathToPackMap order m) d)"
    unfolding genPathToPackMap_get List.map_filter_def
    using toPack_Key [OF assms(3)] by force
  then have "Key p \<in> fst ` set (map (\<lambda>p. (Key p, p)) (get0 [] (genPathToPackMap order m) d))" by force
  then show ?thesis unfolding all_Packs_fold by (metis dom_map_of_conv_image_fst domD set_rev)
qed

subsection \<open>Associating\<close>

lemma setPack_sel [simp]:
  "PackToPath (setPack k d c s m) = (PackToPath m)(k \<mapsto> d)"
  "PathToDefaultPackKey (setPack k d c s m) = PathToDefaultPackKey m"
  by (simp_all add: setPack_def)

lemma coverPacks_sel:
  "PathToDefaultPackKey (coverPacks order key d c s m) = PathToDefaultPackKey m"
  "PackToPath (coverPacks order key d c s m) k =
     (if k \<in> set (order (PackToPath m)) \<and> hasPrefix k key then Some d else PackToPath m k)"
proof -
  have "PathToDefaultPackKey (fold (\<lambda>k acc. if hasPrefix k key then setPack k d c s acc else acc) ks m) =
      PathToDefaultPackKey m" for ks and m :: DevDirMapping
    by (induction ks arbitrary: m) simp_all
  then show "PathToDefaultPackKey (coverPacks order key d c s m) = PathToDefaultPackKey m"
    by (simp add: coverPacks_def)
  have "PackToPath (fold (\<lambda>k acc. if hasPrefix k key then setPack k d c s acc else acc) ks m) k =
      (if k \<in> set ks \<and> hasPrefix k key then Some d else PackToPath m k)" for ks and m :: DevDirMapping
    by (induction ks arbitrary: m) auto
  then show "PackToPath (coverPacks order key d c s m) k =
     (if k \<in> set (order (PackToPath m)) \<and> hasPrefix k key then Some d else PackToPath m k)"
    by (simp add: coverPacks_def)
qed

lemma removePack_sel [simp]: "PackToPath (removePack order d p m ptp) = map_delete (Key p) (PackToPath m)"
  by (simp add: removePack_def repairDefault_def)

lemma hasPrefix_refl [simp]: "hasPrefix s s"
  using hasPrefix_append [of s "[]"] by simp

text \<open>The mapping after a successful \<open>Associate\<close> with a readable kubeconfig.\<close>

lemma Associate_stored:
  assumes "dirOk env" and "Associate env d (Some p) kc sd w = (None, w')"
  obtains m m' where "loadMapping env False (dbCreate env (mappingPath env) w) = Inr m"
    and "associateFun env d p kc sd (removePack (packsOrder env) d p m (genPathToPackMap (packOrder env) m))
           (genPathToPackMap (packOrder env) m) = Inr ((), m')"
    and "\<And>ro. loadMapping env ro (dbCreate env (mappingPath env) w') = Inr m'"
    and "valid (Some p)"
proof -
  have v: "valid (Some p)"
    and "\<exists>r. Update_dir env (\<lambda>m ptp. associateFun env d p kc sd (removePack (packsOrder env) d p m ptp) ptp) w = (Inr r, w')"
    using assms(2) by (auto simp: Associate_def removePackAndThen_def split: if_splits sum.splits prod.splits)
  then show ?thesis by (auto elim!: Update_dir_stored [OF assms(1)] intro: that)
qed

lemma associateFun_sel:
  assumes "associateFun env d p kc sd m ptp = Inr ((), m')" and "readFile env kc \<noteq> []"
  shows "PackToPath m' (Key p) = Some d"
    and "PackToPath m' (KeyWithoutContainer p) = Some d"
    and "sd \<or> PathToDefaultPackKey m d = None \<Longrightarrow> PathToDefaultPackKey m' d = Some (Key p)"
    and "\<not> hasPrefix k (Key p) \<Longrightarrow> k \<noteq> KeyWithoutContainer p \<Longrightarrow> PackToPath m' k = PackToPath m k"
    and "PackToPath m k = None \<Longrightarrow> PackToPath m' k \<in> {None, Some d}"
  using assms by (auto simp: associateFun_def coverPacks_sel Key_def split: if_splits)

lemma associateFun_unreadable:
  "readFile env kc = [] \<Longrightarrow> associateFun env d p kc sd m ptp = Inr ((), m)"
  by (simp add: associateFun_def)

lemma removePack_path: "PackToPath (removePack order d p m ptp) = map_delete (Key p) (PackToPath m)"
  by (simp add: removePack_def repairDefault_def)

lemma associatePathIn_path: "PackToPath m = PackToPath m' \<Longrightarrow> associatePathIn p m = associatePathIn p m'"
  by (simp add: associatePathIn_def cong: option.case_cong)

lemma getDefaultPack_found:
  assumes "dirOk env" and "packOk p" and "\<And>ro. loadMapping env ro (dbCreate env (mappingPath env) w) = Inr m"
    and "PackToPath m (Key p) = Some d" and "PathToDefaultPackKey m d = Some (Key p)"
  shows "\<exists>p'. fst (getDefaultPack env d w) = Inr p' \<and> Key p' = Key p"
proof -
  have "range_order (PackToPath m) (packOrder env (PackToPath m))"
    using assms(1) loadMapping_finite [OF assms(1,3)] by (simp add: dirOk_def)
  then obtain p' where p': "all_Packs (doGetAllPacks d m (genPathToPackMap (packOrder env) m)) (Key p) = Some p'"
    using doGetAllPacks_after assms(2,4) by blast
  have "fst (getDefaultPack env d w) = Inr p'"
    using p' assms(5) Get_dir_eq [OF assms(3), of "\<lambda>m ptp. Inr (doGetAllPacks d m ptp, m)"]
    by (simp add: getDefaultPack_def getAllPacks_def defaultPackOf_def)
      (simp add: doGetAllPacks_def)
  with all_Packs_key [OF p'] show ?thesis by blast
qed

text \<open>C30: After an association that returns no error: when the file of the kubeconfig can be read
  and is not empty, the service is found at the directory, so is every other container of it that
  was not associated on its own, and when the service was to become the default one of the
  directory it is. When it cannot be read or is empty, nothing is associated although no error is
  returned: the entry of the service under its own key is removed, and it is looked up in what
  is left.\<close>

theorem associate_then_lookup:
  assumes "dirOk env" and "packOk p" and "Associate env d (Some p) kc sd w = (None, w')"
    and "loadMapping env False (dbCreate env (mappingPath env) w) = Inr m"
  shows "(readFile env kc \<noteq> [] \<longrightarrow>
      fst (GetAssociatePath env (Some p) w') = d \<and>
      (\<forall>c. PackToPath m (Key (p\<lparr>pk_Container := c\<rparr>)) = None \<longrightarrow>
           fst (GetAssociatePath env (Some (p\<lparr>pk_Container := c\<rparr>)) w') = d) \<and>
      (sd \<longrightarrow> (\<exists>p'. fst (getDefaultPack env d w') = Inr p' \<and> Key p' = Key p))) \<and>
    (readFile env kc = [] \<longrightarrow>
      fst (GetAssociatePath env (Some p) w') =
        associatePathIn p (m\<lparr>PackToPath := map_delete (Key p) (PackToPath m)\<rparr>))"
proof -
  let ?ptp = "genPathToPackMap (packOrder env) m" and ?rm = "removePack (packsOrder env) d p m (genPathToPackMap (packOrder env) m)"
  from Associate_stored [OF assms(1,3)] assms(4) obtain m' where
    f: "associateFun env d p kc sd ?rm ?ptp = Inr ((), m')"
    and m': "\<And>ro. loadMapping env ro (dbCreate env (mappingPath env) w') = Inr m'"
    and v: "valid (Some p)" by (metis Inr_inject)
  show ?thesis
  proof (intro conjI impI allI)
    assume "readFile env kc = []"
    then have "m' = ?rm" using f by (simp add: associateFun_unreadable)
    then have "PackToPath m' = PackToPath (m\<lparr>PackToPath := map_delete (Key p) (PackToPath m)\<rparr>)"
      by (simp add: removePack_path)
    from associatePathIn_path [OF this] show "fst (GetAssociatePath env (Some p) w') =
        associatePathIn p (m\<lparr>PackToPath := map_delete (Key p) (PackToPath m)\<rparr>)"
      by (simp add: GetAssociatePath_eq [OF v m'])
  next
    assume "readFile env kc \<noteq> []"
    note sel = associateFun_sel [OF f this]
    show "fst (GetAssociatePath env (Some p) w') = d"
      using GetAssociatePath_eq [OF v m'] sel(1) by (simp add: associatePathIn_def)
    show "fst (GetAssociatePath env (Some (p\<lparr>pk_Container := c\<rparr>)) w') = d"
      if c: "PackToPath m (Key (p\<lparr>pk_Container := c\<rparr>)) = None" for c
    proof -
      have "KeyWithoutContainer (p\<lparr>pk_Container := c\<rparr>) = KeyWithoutContainer p" by (simp add: Key_join)
      moreover have "PackToPath m' (Key (p\<lparr>pk_Container := c\<rparr>)) \<in> {None, Some d}"
        using c by (intro sel(5)) (simp add: removePack_path map_delete_def)
      ultimately show ?thesis
        using GetAssociatePath_eq [OF _ m', of "p\<lparr>pk_Container := c\<rparr>"] v sel(2)
        by (auto simp: associatePathIn_def valid_def)
    qed
    show "\<exists>p'. fst (getDefaultPack env d w') = Inr p' \<and> Key p' = Key p" if sd
      using getDefaultPack_found [OF assms(1,2) m' sel(1)] sel(3) that by blast
  qed
qed

subsection \<open>An example database\<close>

text \<open>A database that holds one value and knows the encodings of a list of mappings.\<close>

definition rawOf :: "DevDirMapping \<Rightarrow> RawMapping" where
  "rawOf m = \<lparr>raw_PathToDefaultPackKey = Some (PathToDefaultPackKey m), raw_PackToPath = Some (PackToPath m),
     raw_PackToKubeConfigBytes = Some (PackToKubeConfigBytes m),
     raw_PackToKubeConfigServer = Some (PackToKubeConfigServer m)\<rparr>"

lemma fill_rawOf [simp]: "fillMapping (rawOf m) = m"
  by (simp add: fillMapping_def rawOf_def orEmpty_def)

fun codeOf :: "DevDirMapping list \<Rightarrow> string \<Rightarrow> DevDirMapping \<Rightarrow> gerr + string" where
  "codeOf [] t m = Inl ''unknown mapping''"
| "codeOf (x # xs) t m = (if m = x then Inr t else codeOf xs (CHR ''x'' # t) m)"

fun decodeOf :: "DevDirMapping list \<Rightarrow> string \<Rightarrow> string \<Rightarrow> gerr + RawMapping" where
  "decodeOf [] t s = Inl ''unknown text''"
| "decodeOf (x # xs) t s = (if s = t then Inr (rawOf x) else decodeOf xs (CHR ''x'' # t) s)"

lemma codeOf_length: "codeOf ms t m = Inr u \<Longrightarrow> length t \<le> length u"
  by (induction ms t m rule: codeOf.induct) (auto split: if_splits)

lemma decode_codeOf: "codeOf ms t m = Inr u \<Longrightarrow> decodeOf ms t u = Inr (rawOf m)"
  by (induction ms t m rule: codeOf.induct) (auto split: if_splits dest: codeOf_length)

lemma decodeOf_mem: "decodeOf ms t s = Inr r \<Longrightarrow> \<exists>m\<in>set ms. r = rawOf m"
  by (induction ms t s rule: decodeOf.induct) (auto split: if_splits)

definition demoDir :: "DevDirMapping list \<Rightarrow> string option dirEnv" where
  "demoDir ms =
     \<lparr>dbCreate = (\<lambda>_ w. w), dbOpen = (\<lambda>_ _ _. None),
      dbGet = (\<lambda>_ k w. if k = DefaultKey then (case w of None \<Rightarrow> Inl ErrNotFound | Some v \<Rightarrow> Inr v) else Inl ErrNotFound),
      dbListAll = (\<lambda>_ _. Inr []), dbPut = (\<lambda>_ k v w. if k = DefaultKey then (None, Some v) else (Some ''key'', w)),
      unmarshalMapping = decodeOf ms ''x'', marshalMapping = codeOf ms ''x'', mappingPath = ''db'',
      packOrder = (\<lambda>m. sorted_list_of_set (dom m)), packsOrder = (\<lambda>m. sorted_list_of_set (dom m)),
      readFile = (\<lambda>_. ''kube''), rawKubeConfig = (\<lambda>_. Inl ''no config'')\<rparr>"

lemma demoDir_ok:
  assumes "\<forall>m\<in>set ms. finite (dom (PackToPath m))"
  shows "dirOk (demoDir ms)"
  using assms codeOf_length [of ms "''x''"] decode_codeOf [of ms "''x''"] decodeOf_mem [of ms "''x''"]
  by (fastforce simp: dirOk_def demoDir_def range_order_def split: if_splits option.splits)

lemma demoDir_load_empty [simp]:
  "loadMapping (demoDir ms) ro (dbCreate (demoDir ms) (mappingPath (demoDir ms)) None) = Inr (fillMapping emptyRaw)"
  by (simp add: loadMapping_def loadBytes_def demoDir_def)

lemma demoDir_load:
  "codeOf ms ''x'' m = Inr t \<Longrightarrow>
     loadMapping (demoDir ms) ro (dbCreate (demoDir ms) (mappingPath (demoDir ms)) (Some t)) = Inr m"
  using codeOf_length [of ms "''x''" m t] decode_codeOf [of ms "''x''" m t]
  by (auto simp: loadMapping_def loadBytes_def demoDir_def)

definition demoPack :: SvcPack where
  "demoPack = NewSvcPack ''ns'' ''n1'' ''shop'' ''deployment'' ''web'' ''c''"

definition demoMapping :: DevDirMapping where
  "demoMapping =
     \<lparr>PathToDefaultPackKey = [''/web'' \<mapsto> Key demoPack],
      PackToPath = [Key demoPack \<mapsto> ''/web'', KeyWithoutContainer demoPack \<mapsto> ''/web''],
      PackToKubeConfigBytes = [Key demoPack \<mapsto> ''kube'', KeyWithoutContainer demoPack \<mapsto> ''kube''],
      PackToKubeConfigServer = [Key demoPack \<mapsto> [], KeyWithoutContainer demoPack \<mapsto> []]\<rparr>"

lemma demo_associate: "Associate (demoDir [demoMapping]) ''/web'' (Some demoPack) ''cfg'' True None = (None, Some ''x'')"
proof -
  have e: "fillMapping emptyRaw = \<lparr>PathToDefaultPackKey = Map.empty, PackToPath = Map.empty,
      PackToKubeConfigBytes = Map.empty, PackToKubeConfigServer = Map.empty\<rparr>"
    by (simp add: fillMapping_def emptyRaw_def orEmpty_def)
  have r: "removePack (packsOrder (demoDir [demoMapping])) ''/web'' demoPack (fillMapping emptyRaw)
      (genPathToPackMap (packOrder (demoDir [demoMapping])) (fillMapping emptyRaw)) = fillMapping emptyRaw"
    by (simp add: e removePack_def repairDefault_def doGetAllPacks_def genPathToPackMap_def demoDir_def map_delete_def)
  have a: "associateFun (demoDir [demoMapping]) ''/web'' demoPack ''cfg'' True (fillMapping emptyRaw) ptp =
      Inr ((), demoMapping)" for ptp
    by (simp add: associateFun_def e demoDir_def getKubeConfigServer_def setPack_def demoMapping_def
        demoPack_def NewSvcPack_def)
  have v: "valid (Some demoPack)" by (simp add: valid_def demoPack_def NewSvcPack_def)
  show ?thesis
    by (simp add: Associate_def removePackAndThen_def Update_dir_def doGetOrModify_def v r a)
      (simp add: demoDir_def)
qed

theorem associate_then_lookup_witness:
  "fst (GetAssociatePath (demoDir [demoMapping]) (Some demoPack) (Some ''x'')) = ''/web''"
proof -
  have "dirOk (demoDir [demoMapping])" by (rule demoDir_ok) (simp add: demoMapping_def)
  moreover have "packOk demoPack" by (simp add: packOk_def demoPack_def NewSvcPack_def)
  moreover have "readFile (demoDir [demoMapping]) ''cfg'' \<noteq> []" by (simp add: demoDir_def)
  ultimately show ?thesis using associate_then_lookup [OF _ _ demo_associate demoDir_load_empty] by blast
qed

subsection \<open>Removing an association\<close>

definition keysOf :: "SvcPack \<Rightarrow> SvcPackKey list" where
  "keysOf p = [Key p, KeyWithoutContainer p, WithoutNid (Key p), WithoutNid (KeyWithoutContainer p)]"

definition serviceOf :: "SvcPack \<Rightarrow> string list" where
  "serviceOf p = [pk_Ns p, pk_App p, pk_SvcType p, pk_Svc p]"

lemma keysOf_service:
  assumes "packOk p" and "k \<in> set (keysOf p)"
  shows "take 4 (split k splitter) = serviceOf p"
proof -
  have q: "packOk (p\<lparr>pk_Container := []\<rparr>)" using assms(1) by (simp add: packOk_def)
  have nid: "take 4 (split (WithoutNid (Key x)) splitter) = serviceOf x" if "packOk x" for x
  proof -
    have "split (WithoutNid (Key x)) splitter = [pk_Ns x, pk_App x, pk_SvcType x, pk_Svc x, pk_Container x]"
      unfolding WithoutNid_Key [OF that] using that by (intro split_pack) (simp_all add: packOk_def)
    then show ?thesis by (simp add: serviceOf_def)
  qed
  have full: "take 4 (split (Key x) splitter) = serviceOf x" if "packOk x" for x
    using split_Key [OF that] by (simp add: serviceOf_def)
  have "serviceOf (p\<lparr>pk_Container := []\<rparr>) = serviceOf p" by (simp add: serviceOf_def)
  with assms(2) nid full assms(1) q show ?thesis
    by (fastforce simp: keysOf_def KeyWithoutContainer_eq)
qed

lemma fold_map_delete: "fold map_delete ks m k = (if k \<in> set ks then None else m k)"
  by (induction ks arbitrary: m) auto

lemma associatePathIn_cong:
  "\<forall>k\<in>set (keysOf p). PackToPath m k = PackToPath m' k \<Longrightarrow>
     associatePathIn p m = associatePathIn p m'"
  by (auto simp: associatePathIn_def keysOf_def get0_def split: option.splits)

text \<open>After the association of a service was removed, no lookup finds a directory for it, and
  the directories of all services of another name, type, application or namespace are unchanged.\<close>

theorem unassociate_then_lookup:
  assumes "dirOk env" and "valid (Some p)" and "packOk p"
    and "loadMapping env False (dbCreate env (mappingPath env) w) = Inr m"
    and "marshalMapping env (unassociateIn p m) = Inr t"
    and "dbPut env (mappingPath env) DefaultKey t (dbCreate env (mappingPath env) w) = (None, w')"
  shows "UnAssociatePath env (Some p) w = (Ret (), w') \<and>
    fst (GetAssociatePath env (Some p) w') = [] \<and>
    (\<forall>q. valid (Some q) \<and> packOk q \<and> serviceOf q \<noteq> serviceOf p \<longrightarrow>
         fst (GetAssociatePath env (Some q) w') = associatePathIn q m)"
proof (intro conjI allI impI)
  show "UnAssociatePath env (Some p) w = (Ret (), w')"
    using assms(4-6) by (simp add: UnAssociatePath_def Update_dir_def doGetOrModify_def)
  have m': "loadMapping env True (dbCreate env (mappingPath env) w') = Inr (unassociateIn p m)"
    using assms(1,5,6) by (rule loadMapping_stored)
  have sel: "PackToPath (unassociateIn p m) k = (if k \<in> set (keysOf p) then None else PackToPath m k)" for k
    by (simp add: unassociateIn_def keysOf_def fold_map_delete del: fold_simps)
  show "fst (GetAssociatePath env (Some p) w') = []"
    unfolding GetAssociatePath_eq [OF assms(2) m'] by (simp add: associatePathIn_def sel get0_def keysOf_def)
  fix q assume q: "valid (Some q) \<and> packOk q \<and> serviceOf q \<noteq> serviceOf p"
  have "k \<notin> set (keysOf p)" if "k \<in> set (keysOf q)" for k
    using keysOf_service [OF assms(3)] keysOf_service [of q, OF _ that] q by auto
  then have "associatePathIn q (unassociateIn p m) = associatePathIn q m"
    by (intro associatePathIn_cong) (simp add: sel)
  with q show "fst (GetAssociatePath env (Some q) w') = associatePathIn q m"
    using GetAssociatePath_eq [OF _ m', of q] by simp
qed

definition demoRemoved :: DevDirMapping where
  "demoRemoved = demoMapping\<lparr>PackToPath := Map.empty\<rparr>"

theorem unassociate_then_lookup_witness:
  "fst (GetAssociatePath (demoDir [demoMapping, demoRemoved]) (Some demoPack)
     (snd (UnAssociatePath (demoDir [demoMapping, demoRemoved]) (Some demoPack) (Some ''x'')))) = []"
proof -
  let ?env = "demoDir [demoMapping, demoRemoved]"
  have ok: "dirOk ?env" by (rule demoDir_ok) (simp add: demoMapping_def demoRemoved_def)
  have v: "valid (Some demoPack)" "packOk demoPack"
    by (simp_all add: valid_def packOk_def demoPack_def NewSvcPack_def)
  have load: "loadMapping ?env False (dbCreate ?env (mappingPath ?env) (Some ''x'')) = Inr demoMapping"
    by (rule demoDir_load) simp
  have "PackToPath (unassociateIn demoPack demoMapping) = Map.empty"
    by (rule ext) (simp add: unassociateIn_def demoMapping_def)
  then have un: "unassociateIn demoPack demoMapping = demoRemoved"
    by (simp add: unassociateIn_def demoRemoved_def)
  have "PackToPath demoMapping (Key demoPack) \<noteq> None" "PackToPath demoRemoved (Key demoPack) = None"
    by (simp_all add: demoMapping_def demoRemoved_def)
  then have "demoRemoved \<noteq> demoMapping" by metis
  then have enc: "marshalMapping ?env (unassociateIn demoPack demoMapping) = Inr ''xx''"
    unfolding un by (simp add: demoDir_def)
  have put: "dbPut ?env (mappingPath ?env) DefaultKey ''xx'' (dbCreate ?env (mappingPath ?env) (Some ''x'')) = (None, Some ''xx'')"
    by (simp add: demoDir_def)
  from unassociate_then_lookup [OF ok v load enc put] show ?thesis by simp
qed

subsection \<open>Where the code departs from its comments\<close>

lemma Key_no_prefix:
  assumes "pk_Container p = []" and "c \<noteq> []" and "CHR ''/'' \<notin> set c"
  shows "\<not> hasPrefix (Key (p\<lparr>pk_Container := c\<rparr>)) (Key p)"
proof
  assume "hasPrefix (Key (p\<lparr>pk_Container := c\<rparr>)) (Key p)"
  then obtain t where "c @ splitter @ pk_Nid p = splitter @ pk_Nid p @ t"
    using assms(1) by (auto simp: hasPrefix_iff Key_join)
  with assms(2,3) show False by (cases c; cases "tl c") (auto simp: splitter_def)
qed

text \<open>Associating a service without naming a container does not cover its containers, against
  what the comment in \<open>Associate\<close> says: a container that was associated with another directory
  keeps it.\<close>

theorem associate_without_container_covers_nothing:
  assumes "dirOk env" and "readFile env kc \<noteq> []" and "pk_Container p = []"
    and "c \<noteq> []" and "CHR ''/'' \<notin> set c"
    and "loadMapping env False (dbCreate env (mappingPath env) w) = Inr m"
    and "PackToPath m (Key (p\<lparr>pk_Container := c\<rparr>)) = Some d'"
    and "Associate env d (Some p) kc sd w = (None, w')"
  shows "fst (GetAssociatePath env (Some (p\<lparr>pk_Container := c\<rparr>)) w') = d'"
proof -
  let ?q = "p\<lparr>pk_Container := c\<rparr>"
  from Associate_stored [OF assms(1,8)] assms(6) obtain m' where
    f: "associateFun env d p kc sd (removePack (packsOrder env) d p m (genPathToPackMap (packOrder env) m))
           (genPathToPackMap (packOrder env) m) = Inr ((), m')"
    and m': "loadMapping env True (dbCreate env (mappingPath env) w') = Inr m'"
    and v: "valid (Some p)" by (metis sum.inject(2))
  note np = Key_no_prefix [OF assms(3-5)]
  have kw: "KeyWithoutContainer p = Key p" using assms(3) by (simp add: Key_def)
  have "Key ?q \<noteq> Key p" using np by auto
  then have "PackToPath m' (Key ?q) = Some d'"
    using associateFun_sel(4) [OF f assms(2) np] assms(7) kw by simp
  moreover have "valid (Some ?q)" using v by (simp add: valid_def)
  ultimately show ?thesis using GetAssociatePath_eq [OF _ m'] by (simp add: associatePathIn_def)
qed

text \<open>The mapping the example database holds after an association.\<close>

definition demoResult :: "DevDirMapping \<Rightarrow> DevPath \<Rightarrow> SvcPack \<Rightarrow> bool \<Rightarrow> DevDirMapping" where
  "demoResult m d p sd =
     snd (projr (associateFun (demoDir []) d p ''cfg'' sd
       (removePack (packsOrder (demoDir [])) d p m (genPathToPackMap (packOrder (demoDir [])) m)) Map.empty))"

lemma demoDir_files [simp]: "readFile (demoDir ms) = (\<lambda>_. ''kube'')" "rawKubeConfig (demoDir ms) = (\<lambda>_. Inl ''no config'')"
  by (simp_all add: demoDir_def)

lemma demoDir_orders [simp]:
  "packOrder (demoDir ms) = (\<lambda>m. sorted_list_of_set (dom m))"
  "packsOrder (demoDir ms) = (\<lambda>m. sorted_list_of_set (dom m))"
  by (simp_all add: demoDir_def)

lemma demoResult_eq:
  "associateFun (demoDir ms) d p ''cfg'' sd
     (removePack (packsOrder (demoDir ms)) d p m (genPathToPackMap (packOrder (demoDir ms)) m)) ptp =
   Inr ((), demoResult m d p sd)"
  unfolding demoResult_def associateFun_def demoDir_orders demoDir_files by simp

lemma demoResult_finite:
  assumes "finite (dom (PackToPath m))"
  shows "finite (dom (PackToPath (demoResult m d p sd)))"
proof -
  let ?r = "removePack (packsOrder (demoDir [])) d p m (genPathToPackMap (packOrder (demoDir [])) m)"
  have "dom (PackToPath (demoResult m d p sd)) \<subseteq> insert (Key p) (insert (KeyWithoutContainer p) (dom (PackToPath ?r)))"
    using assms unfolding demoResult_def
    by (auto simp: associateFun_def coverPacks_sel demoDir_def set_insort_key split: if_splits)
  then show ?thesis by (rule finite_subset) (use assms in simp)
qed

lemma demo_associate_result:
  assumes "valid (Some p)"
  shows "Associate (demoDir [m, demoResult m d p sd]) d (Some p) ''cfg'' sd (Some ''x'') =
    (None, Some (if demoResult m d p sd = m then ''x'' else ''xx''))"
proof -
  let ?env = "demoDir [m, demoResult m d p sd]"
  have load: "loadMapping ?env False (dbCreate ?env (mappingPath ?env) (Some ''x'')) = Inr m"
    by (rule demoDir_load) simp
  show ?thesis
    by (simp add: Associate_def removePackAndThen_def Update_dir_def doGetOrModify_def assms load
        demoResult_eq del: demoDir_orders)
      (simp add: demoDir_def)
qed

definition demoService :: SvcPack where
  "demoService = NewSvcPack ''ns'' ''n1'' ''shop'' ''deployment'' ''web'' []"

theorem associate_without_container_covers_nothing_witness:
  "\<exists>ms w'. Associate (demoDir ms) ''/new'' (Some demoService) ''cfg'' True (Some ''x'') = (None, w') \<and>
     fst (GetAssociatePath (demoDir ms) (Some (demoService\<lparr>pk_Container := ''c''\<rparr>)) w') = ''/web''"
proof -
  let ?m = "demoMapping" and ?p = demoService
  let ?env = "demoDir [?m, demoResult ?m ''/new'' ?p True]"
  have "finite (dom (PackToPath ?m))" by (simp add: demoMapping_def)
  then have ok: "dirOk ?env" by (intro demoDir_ok) (simp add: demoResult_finite)
  have v: "valid (Some ?p)" by (simp add: valid_def demoService_def NewSvcPack_def)
  have load: "loadMapping ?env False (dbCreate ?env (mappingPath ?env) (Some ''x'')) = Inr ?m"
    by (rule demoDir_load) simp
  have "?p\<lparr>pk_Container := ''c''\<rparr> = demoPack" by (simp add: demoService_def demoPack_def NewSvcPack_def)
  then have path: "PackToPath ?m (Key (?p\<lparr>pk_Container := ''c''\<rparr>)) = Some ''/web''"
    by (simp add: demoMapping_def)
  have "readFile ?env ''cfg'' \<noteq> []" "pk_Container ?p = []" "''c'' \<noteq> []" "CHR ''/'' \<notin> set ''c''"
    by (simp_all add: demoDir_def demoService_def NewSvcPack_def)
  from associate_without_container_covers_nothing [OF ok this load path demo_associate_result [OF v]]
    demo_associate_result [OF v] show ?thesis by blast
qed

lemma filter_single: "distinct xs \<Longrightarrow> x \<in> set xs \<Longrightarrow> filter (\<lambda>k. k = x) xs = [x]"
  by (induction xs) (auto simp: filter_empty_conv)

text \<open>Moving the only service of one directory to another directory makes it the default service
  of that directory even when the caller asked not to change the default: the record of the
  wrong directory is deleted on the way.\<close>

theorem moving_a_service_takes_the_default:
  assumes "dirOk env" and "packOk p" and "readFile env kc \<noteq> []"
    and "loadMapping env False (dbCreate env (mappingPath env) w) = Inr m"
    and "\<forall>k. PackToPath m k = Some before \<longleftrightarrow> k = Key p"
    and "Associate env d (Some p) kc False w = (None, w')"
  shows "\<exists>p'. fst (getDefaultPack env d w') = Inr p' \<and> Key p' = Key p"
proof -
  let ?ptp = "genPathToPackMap (packOrder env) m"
  from Associate_stored [OF assms(1,6)] assms(4) obtain m' where
    f: "associateFun env d p kc False (removePack (packsOrder env) d p m ?ptp) ?ptp = Inr ((), m')"
    and m': "loadMapping env True (dbCreate env (mappingPath env) w') = Inr m'"
    and v: "valid (Some p)" by (metis sum.inject(2))
  have before: "get_str (PackToPath m) (Key p) = before" using assms(5) by simp
  have fin: "finite (dom (PackToPath m))" by (rule loadMapping_finite [OF assms(1,4)])
  then have "range_order (PackToPath m) (packOrder env (PackToPath m))" using assms(1) by (simp add: dirOk_def)
  then have "filter (\<lambda>k. k = Key p) (packOrder env (PackToPath m)) = [Key p]"
    using assms(5) by (intro filter_single) (auto simp: range_order_def)
  then have "all_Packs (doGetAllPacks before m ?ptp) = [Key p \<mapsto> p]"
    using assms(2,5) by (simp add: all_Packs_fold genPathToPackMap_get List.map_filter_def toPack_Key)
  moreover have "length (packsOrder env [Key p \<mapsto> p]) = 1"
    using assms(1) distinct_card [of "packsOrder env [Key p \<mapsto> p]"] by (auto simp: dirOk_def range_order_def)
  ultimately have "PathToDefaultPackKey (removePack (packsOrder env) d p m ?ptp) d = None"
    by (simp add: removePack_def before repairDefault_def)
  note sel = associateFun_sel(1,3) [OF f assms(3)] this
  have "range_order (PackToPath m') (packOrder env (PackToPath m'))"
    using assms(1) loadMapping_finite [OF assms(1) m'] by (simp add: dirOk_def)
  then obtain p' where p': "all_Packs (doGetAllPacks d m' (genPathToPackMap (packOrder env) m')) (Key p) = Some p'"
    using doGetAllPacks_after sel(1) assms(2) by blast
  then have "fst (getDefaultPack env d w') = Inr p'"
    using sel(2,3) Get_dir_eq [OF m', of "\<lambda>m ptp. Inr (doGetAllPacks d m ptp, m)"]
    by (simp add: getDefaultPack_def getAllPacks_def defaultPackOf_def) (simp add: doGetAllPacks_def)
  with all_Packs_key [OF p'] show ?thesis by blast
qed

definition demoMoved :: DevDirMapping where
  "demoMoved =
     \<lparr>PathToDefaultPackKey = [''/new'' \<mapsto> Key demoPack], PackToPath = [Key demoService \<mapsto> ''/old''],
      PackToKubeConfigBytes = Map.empty, PackToKubeConfigServer = Map.empty\<rparr>"

theorem moving_a_service_takes_the_default_witness:
  "\<exists>ms w' p'. Associate (demoDir ms) ''/new'' (Some demoService) ''cfg'' False (Some ''x'') = (None, w') \<and>
     fst (getDefaultPack (demoDir ms) ''/new'' w') = Inr p' \<and> Key p' = Key demoService"
proof -
  let ?m = demoMoved and ?p = demoService
  let ?env = "demoDir [?m, demoResult ?m ''/new'' ?p False]"
  have "finite (dom (PackToPath ?m))" by (simp add: demoMoved_def)
  then have ok: "dirOk ?env" by (intro demoDir_ok) (simp add: demoResult_finite)
  have v: "valid (Some ?p)" and p: "packOk ?p"
    by (simp_all add: valid_def packOk_def demoService_def NewSvcPack_def)
  have load: "loadMapping ?env False (dbCreate ?env (mappingPath ?env) (Some ''x'')) = Inr ?m"
    by (rule demoDir_load) simp
  have only: "\<forall>k. PackToPath ?m k = Some ''/old'' \<longleftrightarrow> k = Key ?p" by (simp add: demoMoved_def)
  have "readFile ?env ''cfg'' \<noteq> []" by simp
  from moving_a_service_takes_the_default [OF ok p this load only demo_associate_result [OF v]]
    demo_associate_result [OF v] show ?thesis by blast
qed

end
