(* ===== verification/EnvLex.thy ===== *)
theory EnvLex
  imports GoStrings
begin

text \<open>
  The lexer of the template language (\<open>envsubst/parse/lex.go\<close>). Input is a string of bytes,
  read rune by rune; the lexer is a state machine that sends items into a channel, here the
  list of the items it sends. A rune is an \<open>int\<close>, \<open>eof\<close> is -1. Which runes outside ASCII are
  letters or digits is the argument \<open>uni\<close> (the tables of the package \<open>unicode\<close>).
\<close>

type_synonym rune = int

definition eof :: rune where "eof = -1"

subsection \<open>UTF-8\<close>

definition byteAt :: "string \<Rightarrow> nat \<Rightarrow> int" where
  "byteAt s i = (if i < length s then int (of_char (s ! i)) else -1)"

definition isCont :: "int \<Rightarrow> bool" where
  "isCont b \<longleftrightarrow> 0x80 \<le> b \<and> b \<le> 0xBF"

text \<open>The well-formed sequences of two, three and four bytes at the start of a string.\<close>

definition utf8_2 :: "string \<Rightarrow> bool" where
  "utf8_2 s \<longleftrightarrow> 0xC2 \<le> byteAt s 0 \<and> byteAt s 0 \<le> 0xDF \<and> isCont (byteAt s 1)"

definition utf8_3 :: "string \<Rightarrow> bool" where
  "utf8_3 s \<longleftrightarrow> 0xE0 \<le> byteAt s 0 \<and> byteAt s 0 \<le> 0xEF \<and> isCont (byteAt s 1) \<and>
     (byteAt s 0 = 0xE0 \<longrightarrow> 0xA0 \<le> byteAt s 1) \<and> (byteAt s 0 = 0xED \<longrightarrow> byteAt s 1 \<le> 0x9F) \<and>
     isCont (byteAt s 2)"

definition utf8_4 :: "string \<Rightarrow> bool" where
  "utf8_4 s \<longleftrightarrow> 0xF0 \<le> byteAt s 0 \<and> byteAt s 0 \<le> 0xF4 \<and> isCont (byteAt s 1) \<and>
     (byteAt s 0 = 0xF0 \<longrightarrow> 0x90 \<le> byteAt s 1) \<and> (byteAt s 0 = 0xF4 \<longrightarrow> byteAt s 1 \<le> 0x8F) \<and>
     isCont (byteAt s 2) \<and> isCont (byteAt s 3)"

text \<open>\<open>utf8.DecodeRuneInString\<close> on a non-empty string: an invalid byte is U+FFFD of width 1.\<close>

definition decodeRune :: "string \<Rightarrow> rune \<times> nat" where
  "decodeRune s =
     (if byteAt s 0 < 0x80 then (byteAt s 0, 1)
      else if utf8_2 s then ((byteAt s 0 - 0xC0) * 64 + (byteAt s 1 - 0x80), 2)
      else if utf8_3 s then
        ((byteAt s 0 - 0xE0) * 4096 + (byteAt s 1 - 0x80) * 64 + (byteAt s 2 - 0x80), 3)
      else if utf8_4 s then
        ((byteAt s 0 - 0xF0) * 262144 + (byteAt s 1 - 0x80) * 4096 + (byteAt s 2 - 0x80) * 64 +
         (byteAt s 3 - 0x80), 4)
      else (0xFFFD, 1))"

definition isAlphaNumeric :: "(rune \<Rightarrow> bool) \<Rightarrow> rune \<Rightarrow> bool" where
  "isAlphaNumeric uni r \<longleftrightarrow>
     r = 95 \<or> (65 \<le> r \<and> r \<le> 90) \<or> (97 \<le> r \<and> r \<le> 122) \<or> (48 \<le> r \<and> r \<le> 57) \<or> (128 \<le> r \<and> uni r)"

subsection \<open>Items and the lexer\<close>

text \<open>\<open>itemZero\<close> is the zero value of the type, which a closed channel delivers.\<close>

datatype itemType =
  itemZero | itemError | itemEOF | itemText | itemPlus | itemDash | itemEquals | itemColonEquals
| itemColonDash | itemColonPlus | itemVariable | itemLeftDelim | itemRightDelim

fun itemCode :: "itemType \<Rightarrow> nat" where
  "itemCode itemZero = 0" | "itemCode itemError = 1" | "itemCode itemEOF = 2" | "itemCode itemText = 3"
| "itemCode itemPlus = 4" | "itemCode itemDash = 5" | "itemCode itemEquals = 6"
| "itemCode itemColonEquals = 7" | "itemCode itemColonDash = 8" | "itemCode itemColonPlus = 9"
| "itemCode itemVariable = 10" | "itemCode itemLeftDelim = 11" | "itemCode itemRightDelim = 12"

record item =
  i_typ :: itemType
  i_pos :: nat
  i_val :: string

definition mkItem :: "itemType \<Rightarrow> nat \<Rightarrow> string \<Rightarrow> item" where
  "mkItem t p v = \<lparr>i_typ = t, i_pos = p, i_val = v\<rparr>"

datatype stateFn = LexText | LexVariable | LexSubstitution

record lexer =
  l_input :: string
  l_pos :: nat
  l_start :: nat
  l_width :: nat
  l_lastPos :: nat
  l_items :: "item list"
  l_subsDepth :: int

definition l_next :: "lexer \<Rightarrow> rune \<times> lexer" where
  "l_next l =
     (if l_pos l \<ge> length (l_input l) then (eof, l\<lparr>l_width := 0\<rparr>)
      else case decodeRune (drop (l_pos l) (l_input l)) of
             (r, w) \<Rightarrow> (r, l\<lparr>l_width := w, l_pos := l_pos l + w\<rparr>))"

definition l_backup :: "lexer \<Rightarrow> lexer" where
  "l_backup l = l\<lparr>l_pos := l_pos l - l_width l\<rparr>"

definition l_peek :: "lexer \<Rightarrow> rune \<times> lexer" where
  "l_peek l = (case l_next l of (r, l1) \<Rightarrow> (r, l_backup l1))"

definition slice :: "string \<Rightarrow> nat \<Rightarrow> nat \<Rightarrow> string" where
  "slice s i j = take (j - i) (drop i s)"

definition l_emit :: "itemType \<Rightarrow> lexer \<Rightarrow> lexer" where
  "l_emit t l =
     l\<lparr>l_items := l_items l @ [mkItem t (l_start l) (slice (l_input l) (l_start l) (l_pos l))],
       l_lastPos := l_start l, l_start := l_pos l\<rparr>"

definition l_ignore :: "lexer \<Rightarrow> lexer" where
  "l_ignore l = l\<lparr>l_start := l_pos l\<rparr>"

definition l_errorf :: "string \<Rightarrow> lexer \<Rightarrow> stateFn option \<times> lexer" where
  "l_errorf msg l = (None, l\<lparr>l_items := l_items l @ [mkItem itemError (l_start l) msg]\<rparr>)"

definition newLexer :: "string \<Rightarrow> lexer" where
  "newLexer input =
     \<lparr>l_input = input, l_pos = 0, l_start = 0, l_width = 0, l_lastPos = 0, l_items = [], l_subsDepth = 0\<rparr>"

subsection \<open>Facts about reading\<close>

lemma isCont_length: "isCont (byteAt s i) \<Longrightarrow> i < length s"
  by (simp add: isCont_def byteAt_def split: if_splits)

lemma utf8_length:
  "utf8_2 s \<Longrightarrow> 2 \<le> length s" "utf8_3 s \<Longrightarrow> 3 \<le> length s" "utf8_4 s \<Longrightarrow> 4 \<le> length s"
proof -
  show "utf8_2 s \<Longrightarrow> 2 \<le> length s" using isCont_length [of s 1] by (simp add: utf8_2_def)
  show "utf8_3 s \<Longrightarrow> 3 \<le> length s" using isCont_length [of s 2] by (simp add: utf8_3_def)
  show "utf8_4 s \<Longrightarrow> 4 \<le> length s" using isCont_length [of s 3] by (simp add: utf8_4_def)
qed

lemma decodeRune_width:
  assumes "s \<noteq> []"
  shows "1 \<le> snd (decodeRune s)" and "snd (decodeRune s) \<le> length s"
  using assms utf8_length [of s] by (simp_all add: decodeRune_def Suc_le_eq)

lemma decodeRune_multi:
  "utf8_2 s \<Longrightarrow> 0x80 \<le> fst (decodeRune s)"
  "utf8_3 s \<Longrightarrow> 0x80 \<le> fst (decodeRune s)"
  "utf8_4 s \<Longrightarrow> 0x80 \<le> fst (decodeRune s)"
proof -
  show "utf8_2 s \<Longrightarrow> 0x80 \<le> fst (decodeRune s)"
    by (simp add: decodeRune_def) (simp add: utf8_2_def isCont_def)
  show "utf8_3 s \<Longrightarrow> 0x80 \<le> fst (decodeRune s)"
    by (simp add: decodeRune_def utf8_2_def) (simp add: utf8_3_def isCont_def, linarith)
  show "utf8_4 s \<Longrightarrow> 0x80 \<le> fst (decodeRune s)"
    by (simp add: decodeRune_def utf8_2_def utf8_3_def) (simp add: utf8_4_def isCont_def, linarith)
qed

text \<open>A rune below 128 is one byte; every other rune is 128 or more.\<close>

lemma decodeRune_high:
  assumes "\<not> byteAt s 0 < 0x80"
  shows "0x80 \<le> fst (decodeRune s)"
  using decodeRune_multi [of s] assms by (cases "utf8_2 s \<or> utf8_3 s \<or> utf8_4 s") (auto simp: decodeRune_def)

lemma decodeRune_ascii:
  assumes "of_char c < (128 :: nat)"
  shows "decodeRune (c # cs) = (int (of_char c), 1)"
  using assms by (simp add: decodeRune_def byteAt_def)

lemma l_next_less:
  "l_pos l < length (l_input l) \<Longrightarrow>
     l_pos l < l_pos (snd (l_next l)) \<and> l_pos (snd (l_next l)) \<le> length (l_input l)"
  using decodeRune_width [of "drop (l_pos l) (l_input l)"]
  by (auto simp: l_next_def split: prod.splits)

lemma l_next_input [simp]: "l_input (snd (l_next l)) = l_input l"
  by (auto simp: l_next_def split: prod.splits)

lemma decodeRune_nonneg: "s \<noteq> [] \<Longrightarrow> 0 \<le> fst (decodeRune s)"
proof (cases "byteAt s 0 < 0x80")
  case True
  assume "s \<noteq> []"
  with True show ?thesis by (simp add: decodeRune_def) (simp add: byteAt_def)
next
  case False
  with decodeRune_high [OF False] show ?thesis by simp
qed

lemma l_next_eof [simp]: "fst (l_next l) = eof \<longleftrightarrow> length (l_input l) \<le> l_pos l"
  using decodeRune_nonneg [of "drop (l_pos l) (l_input l)"]
  by (auto simp: l_next_def eof_def split: prod.splits)

lemma l_peek_pos [simp]: "l_pos (snd (l_peek l)) = l_pos l" "l_input (snd (l_peek l)) = l_input l"
  by (auto simp: l_peek_def l_next_def l_backup_def split: prod.splits)

lemma l_ignore_sel [simp]: "l_pos (l_ignore l) = l_pos l" "l_input (l_ignore l) = l_input l"
  by (simp_all add: l_ignore_def)

lemma l_emit_sel [simp]: "l_pos (l_emit t l) = l_pos l" "l_input (l_emit t l) = l_input l"
  by (simp_all add: l_emit_def)

subsection \<open>The states\<close>

text \<open>The body of \<open>case '$'\<close>: what was read up to the dollar sign is emitted.\<close>

definition atDollar :: "lexer \<Rightarrow> lexer" where
  "atDollar l1 =
     (let l2 = l1\<lparr>l_pos := l_pos l1 - 1\<rparr>;
          l3 = (if l_pos l2 > l_start l2 then l_emit itemText l2 else l2)
      in l3\<lparr>l_pos := l_pos l3 + 1\<rparr>)"

lemma atDollar_sel [simp]: "0 < l_pos l \<Longrightarrow> l_pos (atDollar l) = l_pos l" "l_input (atDollar l) = l_input l"
  by (simp_all add: atDollar_def)

function lexText :: "(rune \<Rightarrow> bool) \<Rightarrow> lexer \<Rightarrow> stateFn option \<times> lexer" where
  "lexText uni l =
     (let r = fst (l_next l); l1 = snd (l_next l) in
      if r = 36 then
        (let l4 = atDollar l1; r2 = fst (l_peek l4); l5 = snd (l_peek l4) in
         if r2 = 36 then lexText uni (l_emit itemText (snd (l_next (l_ignore l5))))
         else if r2 = 123 then
           (let l6 = snd (l_next l5)
            in (Some LexSubstitution, l_emit itemLeftDelim (l6\<lparr>l_subsDepth := l_subsDepth l6 + 1\<rparr>)))
         else if isAlphaNumeric uni r2 then (Some LexVariable, l5)
         else lexText uni l5)
      else if r = eof then
        (None, l_emit itemEOF (if l_pos l1 > l_start l1 then l_emit itemText l1 else l1))
      else lexText uni l1)"
  by pat_completeness auto

lemma l_next_monotone: "l_pos l \<le> l_pos (snd (l_next l))"
  using l_next_less [of l] by (cases "l_pos l < length (l_input l)") (auto simp: l_next_def)

lemma l_next_not_eof: "fst (l_next l) \<noteq> eof \<Longrightarrow> length (l_input l) - l_pos (snd (l_next l)) < length (l_input l) - l_pos l"
  using l_next_less [of l] by auto

lemma l_next_pos_pos: "fst (l_next l) \<noteq> eof \<Longrightarrow> 0 < l_pos (snd (l_next l))"
  using l_next_less [of l] by auto

termination lexText
proof (relation "measure (\<lambda>(uni, l). length (l_input l) - l_pos l)", goal_cases)
  case 1
  then show ?case by simp
next
  case (2 uni l x xa xb xc xd)
  then have ne: "fst (l_next l) \<noteq> eof" by (simp add: eof_def)
  have "l_pos (snd (l_next l)) \<le> l_pos (snd (l_next (l_ignore xd)))"
    using l_next_monotone [of "l_ignore xd"] 2 l_next_pos_pos [OF ne] by simp
  with 2 l_next_not_eof [OF ne] show ?case by simp
next
  case (3 uni l x xa xb xc xd)
  then have ne: "fst (l_next l) \<noteq> eof" by (simp add: eof_def)
  with 3 l_next_not_eof [OF ne] l_next_pos_pos [OF ne] show ?case by simp
next
  case (4 uni l x xa)
  then show ?case using l_next_not_eof [of l] by simp
qed

declare lexText.simps [simp del]

text \<open>The loop of \<open>lexVariable\<close>, which ends with a step back.\<close>

function scanVariable :: "(rune \<Rightarrow> bool) \<Rightarrow> lexer \<Rightarrow> lexer" where
  "scanVariable uni l =
     (if isAlphaNumeric uni (fst (l_next l)) then scanVariable uni (snd (l_next l))
      else l_backup (snd (l_next l)))"
  by pat_completeness auto

lemma eof_not_alnum [simp]: "\<not> isAlphaNumeric uni eof"
  by (simp add: isAlphaNumeric_def eof_def)

termination scanVariable
  by (relation "measure (\<lambda>(uni, l). length (l_input l) - l_pos l)")
    (use l_next_not_eof eof_not_alnum in \<open>auto simp: in_measure\<close>, metis eof_not_alnum l_next_not_eof)

declare scanVariable.simps [simp del]

definition lexVariable :: "(rune \<Rightarrow> bool) \<Rightarrow> lexer \<Rightarrow> stateFn option \<times> lexer" where
  "lexVariable uni l =
     (let l1 = scanVariable uni l; v = slice (l_input l1) (l_start l1) (l_pos l1) in
      if v = ''_'' \<or> v = ''$_'' then (Some LexText, l1)
      else let l2 = l_emit itemVariable l1 in
        if l_subsDepth l2 > 0 then (Some LexSubstitution, l2) else (Some LexText, l2))"

definition lexSubstitution :: "(rune \<Rightarrow> bool) \<Rightarrow> lexer \<Rightarrow> stateFn option \<times> lexer" where
  "lexSubstitution uni l =
     (let r = fst (l_next l); l1 = snd (l_next l) in
      if r = 125 then (Some LexText, l_emit itemRightDelim (l1\<lparr>l_subsDepth := l_subsDepth l1 - 1\<rparr>))
      else if r = eof then l_errorf ''closing brace expected'' l1
      else if isAlphaNumeric uni r \<and> hasPrefix (drop (l_lastPos l1) (l_input l1)) ''${''
        then (Some LexVariable, l1)
      else if r = 36 then (Some LexVariable, l1)
      else (Some LexSubstitution,
        if r = 43 then l_emit itemPlus l1
        else if r = 45 then l_emit itemDash l1
        else if r = 61 then l_emit itemEquals l1
        else if r = 58 then
          (let r2 = fst (l_next l1); l2 = snd (l_next l1) in
           if r2 = 45 then l_emit itemColonDash l2
           else if r2 = 61 then l_emit itemColonEquals l2
           else if r2 = 43 then l_emit itemColonPlus l2
           else l_emit itemText l2)
        else l_emit itemText l1))"

definition lexState :: "(rune \<Rightarrow> bool) \<Rightarrow> stateFn \<Rightarrow> lexer \<Rightarrow> stateFn option \<times> lexer" where
  "lexState uni st =
     (case st of LexText \<Rightarrow> lexText uni | LexVariable \<Rightarrow> lexVariable uni | LexSubstitution \<Rightarrow> lexSubstitution uni)"

subsection \<open>The invariant of the lexer and the main loop\<close>

definition lexOk :: "lexer \<Rightarrow> bool" where
  "lexOk l \<longleftrightarrow> l_lastPos l \<le> l_start l \<and> l_start l \<le> l_pos l \<and> l_pos l \<le> length (l_input l)"

lemma l_next_sel [simp]:
  "l_start (snd (l_next l)) = l_start l" "l_lastPos (snd (l_next l)) = l_lastPos l"
  "l_items (snd (l_next l)) = l_items l" "l_subsDepth (snd (l_next l)) = l_subsDepth l"
  by (auto simp: l_next_def split: prod.splits)

lemma l_peek_sel [simp]:
  "l_start (snd (l_peek l)) = l_start l" "l_lastPos (snd (l_peek l)) = l_lastPos l"
  "l_items (snd (l_peek l)) = l_items l" "l_subsDepth (snd (l_peek l)) = l_subsDepth l"
  by (auto simp: l_peek_def l_next_def l_backup_def split: prod.splits)

lemma l_peek_rune: "fst (l_peek l) = fst (l_next l)"
  by (simp add: l_peek_def split: prod.splits)

lemma l_next_ok: "lexOk l \<Longrightarrow> lexOk (snd (l_next l))"
proof (cases "l_pos l < length (l_input l)")
  case True
  then show "lexOk l \<Longrightarrow> lexOk (snd (l_next l))" using l_next_less [of l] by (simp add: lexOk_def)
next
  case False
  then show "lexOk l \<Longrightarrow> lexOk (snd (l_next l))" by (simp add: lexOk_def l_next_def)
qed

lemma l_emit_ok: "lexOk l \<Longrightarrow> lexOk (l_emit t l)"
  by (simp add: lexOk_def l_emit_def)

lemma l_backup_next: "l_backup (snd (l_next l)) = l\<lparr>l_width := l_width (snd (l_next l))\<rparr>"
  by (auto simp: l_backup_def l_next_def split: prod.splits)

lemma l_next_width_upd [simp]: "fst (l_next (l\<lparr>l_width := w\<rparr>)) = fst (l_next l)"
  "snd (l_next (l\<lparr>l_width := w\<rparr>)) = snd (l_next l)"
  by (auto simp: l_next_def split: prod.splits)

lemma dollar_pos:
  assumes "fst (l_next l) = 36"
  shows "l_pos (snd (l_next l)) = l_pos l + 1" and "l_pos l < length (l_input l)"
    and "l_input l ! l_pos l = CHR ''$''"
proof -
  have ne: "l_pos l < length (l_input l)" using assms l_next_eof [of l] by (force simp: eof_def)
  let ?s = "drop (l_pos l) (l_input l)"
  have r: "fst (decodeRune ?s) = 36" using assms ne by (simp add: l_next_def split: prod.splits)
  then have low: "byteAt ?s 0 < 0x80" using decodeRune_high [of ?s] by force
  with r have "byteAt ?s 0 = 36" by (simp add: decodeRune_def)
  then have "of_char (l_input l ! l_pos l) = (36 :: nat)" using ne by (simp add: byteAt_def)
  then have "of_char (l_input l ! l_pos l) = (of_char CHR ''$'' :: nat)" by simp
  then show "l_input l ! l_pos l = CHR ''$''" by (simp only: of_char_eq_iff)
  show "l_pos (snd (l_next l)) = l_pos l + 1" using ne low by (simp add: l_next_def decodeRune_def)
qed (use assms l_next_eof [of l] in \<open>force simp: eof_def\<close>)

lemma atDollar_ok:
  assumes "lexOk l" and "fst (l_next l) = 36"
  shows "lexOk (atDollar (snd (l_next l)))" and "l_start (atDollar (snd (l_next l))) = l_pos l"
    and "l_pos (atDollar (snd (l_next l))) = l_pos l + 1"
    and "l_subsDepth (atDollar (snd (l_next l))) = l_subsDepth l"
  using assms dollar_pos [OF assms(2)] by (auto simp: atDollar_def lexOk_def l_emit_def)

lemma lexOk_ignore [simp]: "lexOk l \<Longrightarrow> lexOk (l_ignore l)"
  by (simp add: lexOk_def l_ignore_def)

lemma lexOk_peek [simp]: "lexOk (snd (l_peek l)) \<longleftrightarrow> lexOk l"
  by (simp add: lexOk_def)

lemma lexOk_depth [simp]: "lexOk (l\<lparr>l_subsDepth := d\<rparr>) \<longleftrightarrow> lexOk l"
  by (simp add: lexOk_def)

text \<open>
  What \<open>lexText\<close> guarantees: the invariant is kept, input is consumed, the next state is one of
  the other two, and the scan ends only after the end item was sent.
\<close>

definition endsWith :: "itemType \<Rightarrow> lexer \<Rightarrow> bool" where
  "endsWith t l \<longleftrightarrow> (\<exists>is i. l_items l = is @ [i] \<and> i_typ i = t)"

lemma endsWith_emit [simp]: "endsWith t (l_emit t l)"
  by (simp add: endsWith_def l_emit_def mkItem_def)

lemma lexText_step:
  assumes "lexOk l" and "lexText uni l = (st, l')"
  shows "lexOk l' \<and> l_input l' = l_input l \<and> l_pos l \<le> l_pos l' \<and>
    (case st of None \<Rightarrow> endsWith itemEOF l'
     | Some s \<Rightarrow> l_pos l < l_pos l' \<and> s \<noteq> LexText)"
  using assms
proof (induction uni l rule: lexText.induct)
  case (1 uni l)
  let ?l1 = "snd (l_next l)" and ?l5 = "snd (l_peek (atDollar (snd (l_next l))))"
  consider (dollar) "fst (l_next l) = 36" | (eof) "fst (l_next l) = eof"
    | (other) "fst (l_next l) \<noteq> 36" "fst (l_next l) \<noteq> eof" by blast
  then show ?case
  proof cases
    case dollar
    note d = atDollar_ok [OF 1(4) dollar]
    then have pos: "l_pos ?l5 = l_pos l + 1" "l_input ?l5 = l_input l" "lexOk ?l5" by simp_all
    have nextpos: "l_pos l + 1 \<le> l_pos (snd (l_next x))" if "l_pos x = l_pos l + 1" for x
      using l_next_monotone [of x] that by simp
    show ?thesis
    proof (cases "fst (l_peek (atDollar ?l1)) = 36 \<or>
        (fst (l_peek (atDollar ?l1)) \<noteq> 123 \<and> \<not> isAlphaNumeric uni (fst (l_peek (atDollar ?l1))))")
      case True
      define x where "x = (if fst (l_peek (atDollar ?l1)) = 36
        then l_emit itemText (snd (l_next (l_ignore ?l5))) else ?l5)"
      have x: "lexOk x" "l_input x = l_input l" "l_pos l + 1 \<le> l_pos x"
        using pos nextpos [of "l_ignore ?l5"] by (auto simp: x_def intro!: l_emit_ok l_next_ok)
      have "lexText uni x = (st, l')"
        using 1(5) dollar True by (subst (asm) lexText.simps) (auto simp: x_def split: if_splits)
      then have "lexOk l' \<and> l_input l' = l_input x \<and> l_pos x \<le> l_pos l' \<and>
          (case st of None \<Rightarrow> endsWith itemEOF l' | Some s \<Rightarrow> l_pos x < l_pos l' \<and> s \<noteq> LexText)"
        using 1(1,2) dollar True x(1) unfolding x_def by (auto split: if_splits)
      with x show ?thesis by (auto split: option.splits)
    next
      case False
      with 1(5) dollar pos nextpos [of ?l5] show ?thesis
        by (subst (asm) lexText.simps) (auto intro!: l_emit_ok l_next_ok split: if_splits)
    qed
  next
    case eof
    with 1(4,5) show ?thesis
      by (subst (asm) lexText.simps) (auto simp: eof_def l_next_monotone intro!: l_emit_ok l_next_ok)
  next
    case other
    then have "lexText uni ?l1 = (st, l')" using 1(5) by (subst (asm) lexText.simps) simp
    with 1(3) [OF refl refl other] l_next_ok [OF 1(4)] have "lexOk l' \<and> l_input l' = l_input l \<and>
        l_pos ?l1 \<le> l_pos l' \<and>
        (case st of None \<Rightarrow> endsWith itemEOF l' | Some s \<Rightarrow> l_pos ?l1 < l_pos l' \<and> s \<noteq> LexText)" by simp
    with l_next_monotone [of l] show ?thesis by (cases st) auto
  qed
qed

lemma scanVariable_sel:
  assumes "lexOk l"
  shows "lexOk (scanVariable uni l) \<and> l_input (scanVariable uni l) = l_input l \<and>
    l_start (scanVariable uni l) = l_start l \<and> l_lastPos (scanVariable uni l) = l_lastPos l \<and>
    l_items (scanVariable uni l) = l_items l \<and> l_subsDepth (scanVariable uni l) = l_subsDepth l \<and>
    l_pos l \<le> l_pos (scanVariable uni l) \<and>
    \<not> isAlphaNumeric uni (fst (l_next (scanVariable uni l)))"
  using assms
proof (induction uni l rule: scanVariable.induct)
  case (1 uni l)
  show ?case
  proof (cases "isAlphaNumeric uni (fst (l_next l))")
    case True
    with 1 l_next_ok [of l] l_next_monotone [of l] show ?thesis
      by (subst (1 2 3 4 5 6 7 8) scanVariable.simps) auto
  next
    case False
    then have "scanVariable uni l = l\<lparr>l_width := l_width (snd (l_next l))\<rparr>"
      by (subst scanVariable.simps) (simp add: l_backup_next)
    with 1(2) False show ?thesis by (simp add: lexOk_def)
  qed
qed

lemma lexVariable_step:
  assumes "lexOk l" and "lexVariable uni l = (st, l')"
  shows "lexOk l' \<and> l_input l' = l_input l \<and> l_pos l \<le> l_pos l' \<and> st \<noteq> None \<and> st \<noteq> Some LexVariable"
  using assms scanVariable_sel [OF assms(1), of uni]
  by (auto simp: lexVariable_def l_emit_ok split: if_splits)

lemma lexSubstitution_step:
  assumes "lexOk l" and "lexSubstitution uni l = (st, l')"
  shows "lexOk l' \<and> l_input l' = l_input l \<and> l_pos l \<le> l_pos l' \<and>
    (case st of None \<Rightarrow> endsWith itemError l' | Some s \<Rightarrow> l_pos l < l_pos l')"
proof (cases "fst (l_next l) = eof")
  case True
  with assms l_next_ok [OF assms(1)] l_next_monotone [of l] show ?thesis
    by (auto simp: lexSubstitution_def l_errorf_def endsWith_def mkItem_def eof_def lexOk_def)
next
  case False
  then have lt: "l_pos l < l_pos (snd (l_next l))" using l_next_less [of l] by simp
  have ok: "lexOk (snd (l_next l))" "lexOk (snd (l_next (snd (l_next l))))"
    using assms(1) by (simp_all add: l_next_ok)
  have le: "l_pos (snd (l_next l)) \<le> l_pos (snd (l_next (snd (l_next l))))" by (rule l_next_monotone)
  from assms(2) False lt ok le show ?thesis
    by (auto simp: lexSubstitution_def l_emit_ok split: if_splits)
qed

lemma lexState_step:
  assumes "lexOk l" and "lexState uni s l = (st, l')"
  shows "lexOk l'" and "l_input l' = l_input l" and "l_pos l \<le> l_pos l'"
    and "st = None \<Longrightarrow> endsWith itemEOF l' \<or> endsWith itemError l'"
    and "st = Some s' \<Longrightarrow> (if s = LexVariable then s' \<noteq> LexVariable else l_pos l < l_pos l')"
  using assms lexText_step [of l uni st l'] lexVariable_step [of l uni st l'] lexSubstitution_step [of l uni st l']
  by (auto simp: lexState_def split: stateFn.splits option.splits)

text \<open>
  The loop of \<open>run\<close>. The test of the invariant, which always holds, is there for termination only.
\<close>

function runLexer :: "(rune \<Rightarrow> bool) \<Rightarrow> stateFn \<Rightarrow> lexer \<Rightarrow> lexer" where
  "runLexer uni s l =
     (if \<not> lexOk l then l
      else case lexState uni s l of
             (None, l') \<Rightarrow> l'
           | (Some s', l') \<Rightarrow> runLexer uni s' l')"
  by pat_completeness auto

termination runLexer
proof (relation "measure (\<lambda>(uni, s, l). 2 * (length (l_input l) - l_pos l) + (if s = LexVariable then 1 else 0))", goal_cases)
  case (2 uni s l x y s')
  then have "lexOk l" and step: "lexState uni s l = (Some s', y)" by auto
  note st = lexState_step [OF this] 
  have "l_pos y \<le> length (l_input l)" using st(1,2) by (simp add: lexOk_def)
  with st(2,3) st(5) [of s'] show ?case by (cases "s = LexVariable") auto
qed simp

declare runLexer.simps [simp del]

definition lex :: "(rune \<Rightarrow> bool) \<Rightarrow> string \<Rightarrow> item list" where
  "lex uni input = l_items (runLexer uni LexText (newLexer input))"

lemma newLexer_ok [simp]: "lexOk (newLexer input)"
  by (simp add: lexOk_def newLexer_def)

lemma runLexer_ok: "lexOk l \<Longrightarrow> lexOk (runLexer uni s l) \<and> l_input (runLexer uni s l) = l_input l \<and>
    (endsWith itemEOF (runLexer uni s l) \<or> endsWith itemError (runLexer uni s l))"
proof (induction uni s l rule: runLexer.induct)
  case (1 uni s l)
  obtain st l' where step: "lexState uni s l = (st, l')" by force
  note st = lexState_step [OF 1(2) step]
  show ?case
  proof (cases st)
    case None
    with 1(2) step st show ?thesis by (subst (1 2 3 4) runLexer.simps) simp
  next
    case (Some s')
    with 1 step st show ?thesis by (subst (1 2 3 4) runLexer.simps) simp
  qed
qed

end
