(* ===== verification/FilePath.thy ===== *)
theory FilePath
  imports GoStrings
begin

text \<open>
  Paths and files (\<open>fp/filepath.go\<close>) on a system whose separator is the slash. The machine is
  a record of what the code asks of it: the home directory, the working directory and the
  files. A handle remembers the content it has read.
\<close>

record machineFs =
  fs_home :: "string option"
  fs_cwd :: "string option"
  fs_read :: "string \<Rightarrow> gerr + string"
  fs_stat :: "string \<Rightarrow> apierr option"

subsection \<open>The package path/filepath\<close>

definition isAbs :: "string \<Rightarrow> bool" where
  "isAbs p \<longleftrightarrow> hasPrefix p ''/''"

text \<open>\<open>filepath.Clean\<close>: \<open>acc\<close> holds the elements kept so far, the last one first.\<close>

fun cleanElems :: "bool \<Rightarrow> string list \<Rightarrow> string list \<Rightarrow> string list" where
  "cleanElems rooted acc [] = rev acc"
| "cleanElems rooted acc (e # es) =
     (if e = [] \<or> e = ''.'' then cleanElems rooted acc es
      else if e = ''..'' then
        (if acc \<noteq> [] \<and> hd acc \<noteq> ''..'' then cleanElems rooted (tl acc) es
         else if rooted then cleanElems rooted acc es
         else cleanElems rooted (e # acc) es)
      else cleanElems rooted (e # acc) es)"

definition pathClean :: "string \<Rightarrow> string" where
  "pathClean p =
     (let es = cleanElems (isAbs p) [] (split p ''/'') in
      if isAbs p then ''/'' @ join es ''/''
      else if es = [] then ''.'' else join es ''/'')"

definition pathAbs :: "machineFs \<Rightarrow> string \<Rightarrow> string" where
  "pathAbs fs p =
     (if isAbs p then pathClean p
      else case fs_cwd fs of None \<Rightarrow> [] | Some wd \<Rightarrow> pathClean (wd @ ''/'' @ p))"

subsection \<open>Handles\<close>

record FilePathEnhance =
  fp_Path :: string
  fp_absPath :: string
  fp_cached :: bool
  fp_content :: string

definition NewFilePath :: "machineFs \<Rightarrow> string \<Rightarrow> FilePathEnhance" where
  "NewFilePath fs path0 =
     (let path = (if hasPrefix path0 ''~''
                  then (case fs_home fs of Some home \<Rightarrow> home @ drop 1 path0 | None \<Rightarrow> path0)
                  else path0)
      in \<lparr>fp_Path = path, fp_absPath = pathAbs fs path, fp_cached = False, fp_content = []\<rparr>)"

definition Abs :: "FilePathEnhance \<Rightarrow> string" where
  "Abs f = fp_absPath f"

text \<open>The loop of \<open>RelOrAbs\<close> over the elements of the relative path.\<close>

fun relElems :: "string list \<Rightarrow> string list \<Rightarrow> string list" where
  "relElems base [] = base"
| "relElems base (e # es) =
     (if e = [] then relElems base es
      else if e = ''.'' then relElems base es
      else if e = ''..'' then
        (if base = [] then relElems base es else relElems (butlast base) es)
      else relElems (base @ [e]) es)"

definition RelOrAbs :: "machineFs \<Rightarrow> FilePathEnhance \<Rightarrow> string \<Rightarrow> FilePathEnhance" where
  "RelOrAbs fs f path =
     (if isAbs path then NewFilePath fs path
      else NewFilePath fs (join (relElems (split (fp_absPath f) ''/'') (split path ''/'')) ''/''))"

definition ReadFile :: "machineFs \<Rightarrow> FilePathEnhance \<Rightarrow> string \<times> FilePathEnhance" where
  "ReadFile fs f =
     (let f1 = (if \<not> fp_cached f
                then (case fs_read fs (fp_absPath f) of Inl _ \<Rightarrow> f | Inr b \<Rightarrow> f\<lparr>fp_content := b\<rparr>)
                else f)
      in (fp_content f1, f1\<lparr>fp_cached := True\<rparr>))"

definition ReadFileCompel :: "machineFs \<Rightarrow> FilePathEnhance \<Rightarrow> (gerr + string) \<times> FilePathEnhance" where
  "ReadFileCompel fs f =
     (if \<not> fp_cached f
      then (case fs_read fs (fp_absPath f) of
              Inl e \<Rightarrow> (Inl e, f\<lparr>fp_cached := True\<rparr>)
            | Inr b \<Rightarrow> (Inr b, f\<lparr>fp_content := b, fp_cached := True\<rparr>))
      else (Inr (fp_content f), f\<lparr>fp_cached := True\<rparr>))"

definition CheckExist :: "machineFs \<Rightarrow> FilePathEnhance \<Rightarrow> gerr option" where
  "CheckExist fs f =
     (case fs_stat fs (fp_absPath f) of
        None \<Rightarrow> None
      | Some (NotFound _) \<Rightarrow> Some (''File '' @ fp_absPath f @ '' not found.'')
      | Some e \<Rightarrow> Some (wrap [] (apiMsg e)))"

subsection \<open>Environment files\<close>

text \<open>
  \<open>bufio.ScanLines\<close>: lines without their end, a final carriage return is dropped, and so is an
  empty last line; a line of 64 KiB or more ends the scan.
\<close>

definition dropCR :: "string \<Rightarrow> string" where
  "dropCR l = (if l \<noteq> [] \<and> last l = CHR 0x0D then butlast l else l)"

definition scanLines :: "string \<Rightarrow> string list" where
  "scanLines s =
     (let ls = split s [CHR 0x0A]; ls' = (if last ls = [] then butlast ls else ls)
      in map dropCR (takeWhile (\<lambda>l. length l < 65536) ls'))"

definition isEnvLine :: "string \<Rightarrow> bool" where
  "isEnvLine text \<longleftrightarrow> \<not> (\<not> containsAny text ''='' \<or> hasPrefix text ''#'')"

definition fileLines :: "machineFs \<Rightarrow> FilePathEnhance \<Rightarrow> string list" where
  "fileLines fs f = (case fs_read fs (fp_absPath f) of Inl _ \<Rightarrow> [] | Inr b \<Rightarrow> scanLines b)"

definition ReadEnvFile :: "machineFs \<Rightarrow> FilePathEnhance option \<Rightarrow> string list" where
  "ReadEnvFile fs fo =
     (case fo of
        None \<Rightarrow> []
      | Some f \<Rightarrow> if CheckExist fs f \<noteq> None then [] else filter isEnvLine (fileLines fs f))"

text \<open>A line that ends in its equals sign makes the whole result nil.\<close>

fun envKVLoop :: "string list \<Rightarrow> (string \<rightharpoonup> string) \<Rightarrow> (string \<rightharpoonup> string) option" where
  "envKVLoop [] m = Some m"
| "envKVLoop (text # ls) m =
     (if \<not> isEnvLine text then envKVLoop ls m
      else case index text ''='' of
        None \<Rightarrow> envKVLoop ls m
      | Some i \<Rightarrow> if length text - 1 = i then None
                  else envKVLoop ls (m(take i text \<mapsto> drop (i + 1) text)))"

definition ReadEnvFileKV :: "machineFs \<Rightarrow> FilePathEnhance option \<Rightarrow> (string \<rightharpoonup> string) option" where
  "ReadEnvFileKV fs fo =
     (case fo of
        None \<Rightarrow> Some Map.empty
      | Some f \<Rightarrow> if CheckExist fs f \<noteq> None then Some Map.empty else envKVLoop (fileLines fs f) Map.empty)"

subsection \<open>Relative paths\<close>

definition plainElem :: "string \<Rightarrow> bool" where
  "plainElem e \<longleftrightarrow> e \<noteq> [] \<and> e \<noteq> ''.'' \<and> e \<noteq> ''..'' \<and> CHR ''/'' \<notin> set e"

text \<open>The relative path never climbs above the elements that are there.\<close>

fun staysBelow :: "nat \<Rightarrow> string list \<Rightarrow> bool" where
  "staysBelow n [] \<longleftrightarrow> 0 < n"
| "staysBelow n (e # es) \<longleftrightarrow>
     (if e = [] \<or> e = ''.'' then staysBelow n es
      else if e = ''..'' then 0 < n \<and> staysBelow (n - 1) es
      else staysBelow (Suc n) es)"

lemma relElems_clean:
  assumes "staysBelow (length acc) es" and "list_all plainElem acc"
    and "\<forall>e\<in>set es. CHR ''/'' \<notin> set e"
  shows "relElems ([] # rev acc) es = [] # cleanElems True acc es \<and>
    list_all plainElem (cleanElems True acc es) \<and> cleanElems True acc es \<noteq> []"
  using assms
proof (induction es arbitrary: acc)
  case Nil
  then show ?case by simp
next
  case (Cons e es)
  consider (skip) "e = [] \<or> e = ''.''" | (up) "e = ''..''" | (down) "plainElem e"
    using Cons.prems(3) by (auto simp: plainElem_def)
  then show ?case
  proof cases
    case skip
    with Cons.IH [of acc] Cons.prems show ?thesis by auto
  next
    case up
    with Cons.prems(1) have "acc \<noteq> []" by auto
    then obtain x xs where acc: "acc = x # xs" by (cases acc) blast+
    with Cons.prems(2) have "plainElem x" and x2: "list_all plainElem xs" by simp_all
    then have x: "x \<noteq> ''..''" by (simp add: plainElem_def)
    with Cons.IH [of xs] Cons.prems(1,3) up acc x2 show ?thesis by (simp add: butlast_append)
  next
    case down
    then have ne: "e \<noteq> []" "e \<noteq> ''.''" "e \<noteq> ''..''" by (simp_all add: plainElem_def)
    with Cons.IH [of "e # acc"] Cons.prems down show ?thesis by simp
  qed
qed

lemma cleanElems_plain: "list_all plainElem es \<Longrightarrow> cleanElems rooted acc es = rev acc @ es"
  by (induction es arbitrary: acc) (auto simp: plainElem_def)

lemma split_plain:
  "list_all plainElem es \<Longrightarrow> es \<noteq> [] \<Longrightarrow> split (join ([] # es) ''/'') ''/'' = [] # es"
  by (rule split_join [of "CHR ''/''"]) (auto simp: plainElem_def list_all_iff)

lemma pathClean_plain:
  assumes "list_all plainElem es" and "es \<noteq> []"
  shows "pathClean (''/'' @ join es ''/'') = ''/'' @ join es ''/''"
proof -
  have "''/'' @ join es ''/'' = join ([] # es) ''/''" using assms(2) by (simp add: join_Cons)
  then have "split (''/'' @ join es ''/'') ''/'' = [] # es" using split_plain [OF assms] by simp
  then show ?thesis using assms by (simp add: pathClean_def isAbs_def cleanElems_plain)
qed

lemma splitAux_append_sep:
  "splitAux [c] acc (s @ c # t) = splitAux [c] acc s @ splitAux [c] [] t"
  by (induction s arbitrary: acc) simp_all

lemma split_append_sep: "split (s @ c # t) [c] = split s [c] @ split t [c]"
  by (simp add: split_def splitAux_append_sep)

lemma cleanElems_prefix: "list_all plainElem bs \<Longrightarrow> cleanElems r [] (bs @ es) = cleanElems r (rev bs) es"
proof -
  have "list_all plainElem bs \<Longrightarrow> cleanElems r acc (bs @ es) = cleanElems r (rev bs @ acc) es" for acc
    by (induction bs arbitrary: acc) (auto simp: plainElem_def)
  then show "list_all plainElem bs \<Longrightarrow> cleanElems r [] (bs @ es) = cleanElems r (rev bs) es" by simp
qed

text \<open>Resolving a relative path against a directory gives what the standard library's cleaning
  of the joined path gives, as long as the path does not climb to the root or above it.\<close>

theorem RelOrAbs_joins:
  assumes "fp_absPath f = ''/'' @ join bs ''/''" and "list_all plainElem bs" and "bs \<noteq> []"
    and "\<not> isAbs path" and "staysBelow (length bs) (split path ''/'')"
  shows "fp_absPath (RelOrAbs fs f path) = pathClean (fp_absPath f @ ''/'' @ path)"
proof -
  let ?cs = "cleanElems True (rev bs) (split path ''/'')"
  have no: "\<forall>e\<in>set (split path ''/''). CHR ''/'' \<notin> set e" using split_char_parts by blast
  have base: "fp_absPath f = join ([] # bs) ''/''" using assms(1,3) by (simp add: join_Cons)
  then have sb: "split (fp_absPath f) ''/'' = [] # bs" using split_plain [OF assms(2,3)] by simp
  have rel: "relElems ([] # bs) (split path ''/'') = [] # ?cs" "list_all plainElem ?cs" "?cs \<noteq> []"
    using relElems_clean [of "rev bs" "split path ''/''"] assms(2,5) no by simp_all
  have "join ([] # ?cs) ''/'' = ''/'' @ join ?cs ''/''" using rel(3) by (simp add: join_Cons)
  then have "fp_absPath (RelOrAbs fs f path) = ''/'' @ join ?cs ''/''"
    using assms(4) rel pathClean_plain [OF rel(2,3)]
    by (simp add: RelOrAbs_def sb NewFilePath_def pathAbs_def isAbs_def)
  moreover have "split (fp_absPath f @ ''/'' @ path) ''/'' = [] # bs @ split path ''/''"
    using split_append_sep [of "fp_absPath f" "CHR ''/''" path] sb by simp
  ultimately show ?thesis
    using assms(1) cleanElems_prefix [OF assms(2)] by (simp add: pathClean_def isAbs_def)
qed

theorem RelOrAbs_joins_witness:
  "\<forall>fs. fp_absPath (RelOrAbs fs \<lparr>fp_Path = [], fp_absPath = ''/etc/app'', fp_cached = False, fp_content = []\<rparr> ''../x.yaml'')
     = pathClean ''/etc/app/../x.yaml''"
proof
  fix fs
  let ?f = "\<lparr>fp_Path = [], fp_absPath = ''/etc/app'', fp_cached = False, fp_content = []\<rparr>"
  have "fp_absPath ?f = ''/'' @ join [''etc'', ''app''] ''/''" by simp
  moreover have "list_all plainElem [''etc'', ''app'']" by (simp add: plainElem_def)
  moreover have "\<not> isAbs ''../x.yaml''" by (simp add: isAbs_def)
  moreover have "staysBelow (length [''etc'', ''app'']) (split ''../x.yaml'' ''/'')" by (simp add: split_def)
  ultimately have "fp_absPath (RelOrAbs fs ?f ''../x.yaml'') = pathClean (fp_absPath ?f @ ''/'' @ ''../x.yaml'')"
    by (intro RelOrAbs_joins [where bs = "[''etc'', ''app'']"]) simp_all
  then show "fp_absPath (RelOrAbs fs ?f ''../x.yaml'') = pathClean ''/etc/app/../x.yaml''" by simp
qed

text \<open>The parent of a directory directly below the root is not the root but the working
  directory of the process, because the empty first element is all that is left of the path.\<close>

theorem parent_of_top_level_directory:
  assumes "fp_absPath f = ''/'' @ d" and "plainElem d" and "fs_cwd fs = Some wd"
  shows "fp_absPath (RelOrAbs fs f ''../'') = pathClean (wd @ ''/'')"
proof -
  have "split (fp_absPath f) ''/'' = [[], d]" using split_plain [of "[d]"] assms(1,2) by simp
  moreover have "split ''../'' ''/'' = [''..'', []]" by (simp add: split_def)
  ultimately show ?thesis
    using assms(3) by (simp add: RelOrAbs_def NewFilePath_def pathAbs_def isAbs_def)
qed

theorem parent_of_top_level_directory_witness:
  "fp_absPath (RelOrAbs \<lparr>fs_home = None, fs_cwd = Some ''/work/dir'', fs_read = (\<lambda>_. Inl []), fs_stat = (\<lambda>_. None)\<rparr>
     \<lparr>fp_Path = [], fp_absPath = ''/a'', fp_cached = False, fp_content = []\<rparr> ''../'') = pathClean ''/work/dir/''"
proof -
  let ?fs = "\<lparr>fs_home = None, fs_cwd = Some ''/work/dir'', fs_read = (\<lambda>_. Inl []), fs_stat = (\<lambda>_. None)\<rparr>"
  let ?f = "\<lparr>fp_Path = [], fp_absPath = ''/a'', fp_cached = False, fp_content = []\<rparr>"
  have "fp_absPath ?f = ''/'' @ ''a''" "plainElem ''a''" "fs_cwd ?fs = Some ''/work/dir''"
    by (simp_all add: plainElem_def)
  from parent_of_top_level_directory [OF this] show ?thesis by simp
qed

subsection \<open>Reading twice\<close>

text \<open>A read that must succeed reports an error the first time the file is missing, but the
  handle is then marked as cached: the second read of the same handle succeeds with the old
  content, which is empty for a fresh handle.\<close>

theorem second_read_hides_the_error:
  assumes "fs_read fs (fp_absPath f) = Inl e" and "\<not> fp_cached f"
  shows "fst (ReadFileCompel fs f) = Inl e \<and>
    fst (ReadFileCompel fs (snd (ReadFileCompel fs f))) = Inr (fp_content f)"
  using assms by (simp add: ReadFileCompel_def)

theorem second_read_hides_the_error_witness:
  "\<exists>fs f. fst (ReadFileCompel fs f) = Inl ''missing'' \<and>
     fst (ReadFileCompel fs (snd (ReadFileCompel fs f))) = Inr []"
proof -
  let ?fs = "\<lparr>fs_home = None, fs_cwd = None, fs_read = (\<lambda>_. Inl ''missing''), fs_stat = (\<lambda>_. None)\<rparr>"
  let ?f = "\<lparr>fp_Path = [], fp_absPath = ''/a'', fp_cached = False, fp_content = []\<rparr>"
  have "fs_read ?fs (fp_absPath ?f) = Inl ''missing''" "\<not> fp_cached ?f" by simp_all
  from second_read_hides_the_error [OF this] show ?thesis by (metis FilePathEnhance.select_convs(4))
qed

end
