(* ===== verification/EnvParse.thy ===== *)
theory EnvParse
  imports EnvLex FilePath
begin

text \<open>
  The template engine (\<open>envsubst/parse/env.go\<close>, \<open>node.go\<close>, \<open>parse.go\<close> and \<open>envsubst.go\<close>):
  variable lookup, the nodes and their values, the parser over the items of the lexer, the
  include statement, and \<open>Render\<close>. Loops that need not end are \<open>partial_function\<close>s into
  \<open>option\<close>, where \<open>None\<close> means that the code does not return.
\<close>

subsection \<open>Variables\<close>

type_synonym Env = "string list"

definition Lookup :: "Env \<Rightarrow> string \<Rightarrow> string option" where
  "Lookup e name =
     (let prefix = name @ ''='' in
      map_option (drop (length prefix)) (find (\<lambda>pair. hasPrefix pair prefix) e))"

definition Env_Get :: "Env \<Rightarrow> string \<Rightarrow> string option" where
  "Env_Get e name = Lookup e name"

definition Env_Has :: "Env \<Rightarrow> string \<Rightarrow> bool" where
  "Env_Has e name \<longleftrightarrow> Lookup e name \<noteq> None"

record Restrictions =
  r_NoUnset :: bool
  r_NoEmpty :: bool

record VariableNode =
  vn_Ident :: string
  vn_Env :: "Env list"
  vn_Restrict :: Restrictions

datatype Node =
  TextNode string
| VarNode VariableNode
| SubstitutionNode itemType VariableNode "Node option"

definition NewVariable :: "string \<Rightarrow> Env list \<Rightarrow> Restrictions \<Rightarrow> VariableNode" where
  "NewVariable ident env restrict = \<lparr>vn_Ident = ident, vn_Env = env, vn_Restrict = restrict\<rparr>"

definition isSet :: "VariableNode \<Rightarrow> bool" where
  "isSet t \<longleftrightarrow> list_ex (\<lambda>env. Env_Has env (vn_Ident t)) (vn_Env t)"

definition validateNoUnset :: "VariableNode \<Rightarrow> gerr option" where
  "validateNoUnset t =
     (if r_NoUnset (vn_Restrict t) \<and> \<not> isSet t
      then Some (''variable ${'' @ vn_Ident t @ ''} not set'') else None)"

definition validateNoEmpty :: "VariableNode \<Rightarrow> string \<Rightarrow> gerr option" where
  "validateNoEmpty t value =
     (if r_NoEmpty (vn_Restrict t) \<and> value = [] \<and> isSet t
      then Some (''variable ${'' @ vn_Ident t @ ''} set but empty'') else None)"

text \<open>The first environment that has the variable wins.\<close>

fun firstValue :: "string \<Rightarrow> Env list \<Rightarrow> string option" where
  "firstValue ident [] = None"
| "firstValue ident (env # envs) =
     (case Env_Get env ident of Some v \<Rightarrow> Some v | None \<Rightarrow> firstValue ident envs)"

definition VariableNode_String :: "VariableNode \<Rightarrow> string \<times> string \<times> gerr option" where
  "VariableNode_String t =
     (case validateNoUnset t of
        Some err \<Rightarrow> (vn_Ident t, [], Some err)
      | None \<Rightarrow>
          (let result = (case firstValue (vn_Ident t) (vn_Env t) of None \<Rightarrow> [] | Some v \<Rightarrow> v) in
           case validateNoEmpty t result of
             Some err \<Rightarrow> (vn_Ident t, [], Some (wrap [] err))
           | None \<Rightarrow> (vn_Ident t, result, None)))"

text \<open>
  The value of a node: a key, a text and an error. The parser gives a substitution only a text
  or a variable as its default.
\<close>

fun Node_String :: "Node \<Rightarrow> string \<times> string \<times> gerr option" where
  "Node_String (TextNode t) = ([], t, None)"
| "Node_String (VarNode v) = VariableNode_String v"
| "Node_String (SubstitutionNode expType v dflt) =
     (case dflt of
        None \<Rightarrow> VariableNode_String v
      | Some d \<Rightarrow>
          (let withDefault = (case Node_String d of (_, dv, derr) \<Rightarrow> (fst (VariableNode_String v), dv, derr)) in
           if itemCode expType \<ge> itemCode itemPlus then
             (if expType = itemColonDash \<or> expType = itemColonEquals then
                (case VariableNode_String v of (k, value, _) \<Rightarrow>
                   if value \<noteq> [] then (k, value, None) else withDefault)
              else if expType = itemPlus \<or> expType = itemColonPlus then
                (if isSet v then withDefault else (vn_Ident v, [], None))
              else if \<not> isSet v then withDefault
              else VariableNode_String v)
           else VariableNode_String v))"

subsection \<open>The parser\<close>

datatype Mode = Quick | AllErrors

record Parser =
  p_Name :: string
  p_Env :: "Env list"
  p_Restrict :: Restrictions
  p_Mode :: Mode

definition New :: "string \<Rightarrow> Env list \<Rightarrow> Restrictions \<Rightarrow> Parser" where
  "New name envs r = \<lparr>p_Name = name, p_Env = envs, p_Restrict = r, p_Mode = Quick\<rparr>"

text \<open>The items not yet received, the three tokens of lookahead and their count.\<close>

record tokens =
  t_items :: "item list"
  t_token :: "item list"
  t_peekCount :: nat

definition zeroItem :: item where
  "zeroItem = mkItem itemZero 0 []"

definition nextItem :: "tokens \<Rightarrow> item \<times> tokens" where
  "nextItem s = (case t_items s of [] \<Rightarrow> (zeroItem, s) | i # is \<Rightarrow> (i, s\<lparr>t_items := is\<rparr>))"

definition p_next :: "tokens \<Rightarrow> item \<times> tokens" where
  "p_next s =
     (let s1 = (if t_peekCount s > 0 then s\<lparr>t_peekCount := t_peekCount s - 1\<rparr>
                else case nextItem s of (i, s') \<Rightarrow> s'\<lparr>t_token := (t_token s')[0 := i]\<rparr>)
      in (t_token s1 ! t_peekCount s1, s1))"

definition p_peek :: "tokens \<Rightarrow> item \<times> tokens" where
  "p_peek s =
     (if t_peekCount s > 0 then (t_token s ! (t_peekCount s - 1), s)
      else case nextItem (s\<lparr>t_peekCount := 1\<rparr>) of
             (i, s') \<Rightarrow> (let s1 = s'\<lparr>t_token := (t_token s')[0 := i]\<rparr> in (t_token s1 ! 0, s1)))"

definition startTokens :: "item list \<Rightarrow> tokens" where
  "startTokens is = \<lparr>t_items = is, t_token = [zeroItem, zeroItem, zeroItem], t_peekCount = 0\<rparr>"

text \<open>The inner loop of \<open>action\<close>, which takes everything up to the end of the substitution.\<close>

partial_function (option) textLoop :: "tokens \<Rightarrow> string \<Rightarrow> (string \<times> tokens) option" where
  "textLoop s n =
     (let t = fst (p_peek s); s1 = snd (p_peek s) in
      if i_typ t = itemRightDelim \<or> i_typ t = itemError \<or> i_typ t = itemEOF then Some (n, s1)
      else textLoop (snd (p_next s1)) (n @ i_val (fst (p_next s1))))"

definition trimDollar :: "string \<Rightarrow> string" where
  "trimDollar v = trimPrefix v ''$''"

partial_function (option) actionLoop ::
  "Parser \<Rightarrow> VariableNode \<Rightarrow> itemType \<Rightarrow> Node option \<Rightarrow> tokens \<Rightarrow> ((gerr + Node) \<times> tokens) option" where
  "actionLoop p v expType dflt s =
     (let t = fst (p_next s); s1 = snd (p_next s) in
      if i_typ t = itemRightDelim then Some (Inr (SubstitutionNode expType v dflt), s1)
      else if i_typ t = itemError then Some (Inl (i_val t), s1)
      else if i_typ t = itemVariable then
        actionLoop p v expType (Some (VarNode (NewVariable (trimDollar (i_val t)) (p_Env p) (p_Restrict p)))) s1
      else if i_typ t = itemText then
        Option.bind (textLoop s1 (i_val t))
          (\<lambda>r. actionLoop p v expType (Some (TextNode (fst r))) (snd r))
      else actionLoop p v (i_typ t) dflt s1)"

definition action :: "Parser \<Rightarrow> tokens \<Rightarrow> ((gerr + Node) \<times> tokens) option" where
  "action p s =
     (let t = fst (p_next s); s1 = snd (p_next s)
      in actionLoop p (NewVariable (i_val t) (p_Env p) (p_Restrict p)) itemZero None s1)"

text \<open>The loop of \<open>parse\<close>: an error and the nodes read before it.\<close>

partial_function (option) parseLoop :: "Parser \<Rightarrow> Node list \<Rightarrow> tokens \<Rightarrow> (gerr option \<times> Node list) option" where
  "parseLoop p nodes s =
     (let t = fst (p_next s); s1 = snd (p_next s) in
      if i_typ t = itemEOF then Some (None, nodes)
      else if i_typ t = itemError then Some (Some (i_val t), nodes)
      else if i_typ t = itemVariable then
        parseLoop p (nodes @ [VarNode (NewVariable (trimDollar (i_val t)) (p_Env p) (p_Restrict p))]) s1
      else if i_typ t = itemLeftDelim \<and> i_typ (fst (p_peek s1)) = itemVariable then
        Option.bind (action p (snd (p_peek s1)))
          (\<lambda>r. case fst r of
                 Inl err \<Rightarrow> Some (Some err, nodes)
               | Inr n \<Rightarrow> parseLoop p (nodes @ [n]) (snd r))
      else parseLoop p (nodes @ [TextNode (i_val t)])
             (if i_typ t = itemLeftDelim then snd (p_peek s1) else s1))"

definition parse :: "(rune \<Rightarrow> bool) \<Rightarrow> Parser \<Rightarrow> string \<Rightarrow> (gerr option \<times> Node list) option" where
  "parse uni p text = parseLoop p [] (startTokens (lex uni text))"

subsection \<open>Includes\<close>

definition nl :: string where "nl = [CHR 0x0A]"
definition IncludeSensitive :: string where "IncludeSensitive = [CHR 0x5C, CHR ''|'']"
definition IncludeSeparator :: string where "IncludeSeparator = ''|''"
definition Include :: string where "Include = ''_INCLUDE_''"
definition Indent :: string where "Indent = ''nindent''"
definition AbsSign :: string where "AbsSign = ''#/---//---//Nocalhost//---//---/''"

definition ErrTmpl :: "string \<Rightarrow> string \<Rightarrow> string \<Rightarrow> string \<Rightarrow> string" where
  "ErrTmpl err file statement route =
     nl @ ''#  ======    WARN    ======'' @ nl @
     ''#  Error occur while resolve following includation:'' @ nl @
     ''#  Err       :  '' @ err @ nl @
     ''#  File      :  '' @ file @ nl @
     ''#  Statement :  '' @ statement @ nl @
     ''#  Route     :  '' @ route @ nl @
     ''#  ======    WARN    ======'' @ nl"

record Includation =
  inc_include :: string
  inc_filePath :: "FilePathEnhance option"
  inc_indent :: int
  inc_err :: "gerr option"

definition okIncludation :: "machineFs \<Rightarrow> string \<Rightarrow> string \<Rightarrow> string \<Rightarrow> int \<Rightarrow> Includation" where
  "okIncludation fs basePath include path indent =
     \<lparr>inc_include = include,
      inc_filePath = Some (RelOrAbs fs (RelOrAbs fs (NewFilePath fs basePath) ''../'') path),
      inc_indent = indent, inc_err = None\<rparr>"

definition badIncludation :: "string \<Rightarrow> gerr \<Rightarrow> Includation" where
  "badIncludation include err =
     \<lparr>inc_include = include, inc_filePath = None, inc_indent = 0, inc_err = Some err\<rparr>"

text \<open>The message of the last case of the source contains backquotes, a backslash and a bar.\<close>

definition multiBarMsg :: string where
  "multiBarMsg = ''Can not resolve the include syntax '' @
     ''(may contains multi '' @ [CHR 0x27, CHR ''|'', CHR 0x27] @ '', if your path sensitive character contains '' @
     [CHR 0x27, CHR ''|'', CHR 0x27] @ '', use '' @ [CHR 0x60, CHR 0x5C, CHR ''|'', CHR 0x60] @ '' to replace it): ''"

definition parseIncludation :: "machineFs \<Rightarrow> string \<Rightarrow> string \<Rightarrow> Includation" where
  "parseIncludation fs basePath include =
     (let start = (case lastIndex include IncludeSensitive of None \<Rightarrow> 0 | Some i \<Rightarrow> i + 2);
          pathPrefix = replaceAll (take start include) IncludeSensitive IncludeSeparator;
          pathAndOper = split (drop start include) IncludeSeparator
      in case pathAndOper of
           [_] \<Rightarrow> okIncludation fs basePath (trimSpace include) (trimSpace include) 0
         | [a, oper] \<Rightarrow>
             (let path = trimSpace (pathPrefix @ a);
                  operations = filter (\<lambda>x. x \<noteq> []) (split oper '' '')
              in case operations of
                   [] \<Rightarrow> okIncludation fs basePath include path 0
                 | [op, arg] \<Rightarrow>
                     if op = Indent then
                       (case atoi arg of
                          None \<Rightarrow> badIncludation include
                            (''Can not parse the indent, please make sure it'' @ [CHR 0x27] @ ''s a positive integer: '' @ oper)
                        | Some n \<Rightarrow>
                            if n < 0 then badIncludation include
                              (''Can not parse the indent, please make sure it'' @ [CHR 0x27] @ ''s a positive integer: '' @ oper)
                            else okIncludation fs basePath include path n)
                     else badIncludation include (''Do not support such syntax yet: '' @ oper)
                 | _ \<Rightarrow> badIncludation include (''Can not resolve the include syntax: '' @ oper))
         | _ \<Rightarrow> badIncludation include (multiBarMsg @ include))"

text \<open>The arrows of the route, in UTF-8.\<close>

definition arrowDown :: string where "arrowDown = [CHR 0xE2, CHR 0x86, CHR 0x93]"
definition cornerTop :: string where "cornerTop = [CHR 0xE2, CHR 0x94, CHR 0x8C]"
definition cornerBottom :: string where "cornerBottom = [CHR 0xE2, CHR 0x94, CHR 0x94]"

fun routeLoop :: "string \<Rightarrow> string list \<Rightarrow> bool \<Rightarrow> string \<Rightarrow> bool \<times> string" where
  "routeLoop cur [] circ route = (circ, route)"
| "routeLoop cur (a # as) circ route =
     (if a = cur then
        routeLoop cur as True (route @ ''# '' @ cornerTop @ ''-->  '' @ a @ nl @ ''# |        '' @ arrowDown @ '' [Include]'' @ nl)
      else if circ then
        routeLoop cur as circ (route @ ''# |     '' @ a @ nl @ ''# |        '' @ arrowDown @ '' [Include]'' @ nl)
      else
        routeLoop cur as circ (route @ ''#       '' @ a @ nl @ ''#          '' @ arrowDown @ '' [Include]'' @ nl))"

definition circularDependency :: "string \<Rightarrow> string list \<Rightarrow> bool \<times> string" where
  "circularDependency cur hasBeenInclude =
     (case routeLoop cur hasBeenInclude False nl of
        (circ, route) \<Rightarrow>
          (circ, if circ then route @ ''# '' @ cornerBottom @ ''--- '' @ cur else route @ ''#      '' @ cur))"

definition insertIndent :: "int \<Rightarrow> string \<Rightarrow> string" where
  "insertIndent indent text =
     (let text1 = (if contains text nl then nl @ text else text) in
      if indent > 0 then replaceAll text1 nl (nl @ replicate (nat indent) CHR '' '') else text1)"

subsection \<open>Rendering\<close>

text \<open>
  The value of an include statement. \<open>rec\<close> is the recursive call of \<open>Parse\<close>. The path of a
  malformed statement is nil and is dereferenced before the error is looked at.
\<close>

definition includeValue ::
  "machineFs \<Rightarrow> (string \<Rightarrow> string \<Rightarrow> string list \<Rightarrow> (gerr + string) outcome option) \<Rightarrow>
     string \<Rightarrow> string list \<Rightarrow> string \<Rightarrow> string outcome option" where
  "includeValue fs rec absPath hasBeen v =
     (let inc = parseIncludation fs absPath v in
      case inc_filePath inc of
        None \<Rightarrow> Some (Panic ''nil pointer dereference'')
      | Some f \<Rightarrow>
          (let cur = Abs f in
           case circularDependency cur hasBeen of (circ, route) \<Rightarrow>
             if circ then Some (Ret (ErrTmpl ''circular dependency found'' cur v route))
             else case inc_err inc of
               Some e \<Rightarrow> Some (Ret (ErrTmpl e cur v route))
             | None \<Rightarrow>
                 (case fst (ReadFileCompel fs f) of
                    Inl e \<Rightarrow> Some (Ret (ErrTmpl e cur v route))
                  | Inr content \<Rightarrow>
                      (case rec content cur hasBeen of
                         None \<Rightarrow> None
                       | Some (Panic m) \<Rightarrow> Some (Panic m)
                       | Some (Ret (Inl e)) \<Rightarrow> Some (Ret (ErrTmpl e cur v route))
                       | Some (Ret (Inr out)) \<Rightarrow>
                           Some (Ret (insertIndent (inc_indent inc) out @ nl @ AbsSign @ absPath @ nl))))))"

text \<open>The loop over the nodes: the text so far and the errors collected.\<close>

fun renderNodes ::
  "machineFs \<Rightarrow> (string \<Rightarrow> string \<Rightarrow> string list \<Rightarrow> (gerr + string) outcome option) \<Rightarrow> Mode \<Rightarrow>
     string \<Rightarrow> string list \<Rightarrow> Node list \<Rightarrow> string \<Rightarrow> gerr list \<Rightarrow>
     (gerr + string \<times> gerr list) outcome option" where
  "renderNodes fs rec mode absPath hasBeen [] out errs = Some (Ret (Inr (out, errs)))"
| "renderNodes fs rec mode absPath hasBeen (n # ns) out errs =
     (case Node_String n of (k, v, err) \<Rightarrow>
        (case (err, mode) of
           (Some e, Quick) \<Rightarrow> Some (Ret (Inl (wrap [] e)))
         | _ \<Rightarrow>
             (let errs1 = (case err of None \<Rightarrow> errs | Some e \<Rightarrow> errs @ [e]) in
              if k = Include then
                (case includeValue fs rec absPath hasBeen v of
                   None \<Rightarrow> None
                 | Some (Panic m) \<Rightarrow> Some (Panic m)
                 | Some (Ret text) \<Rightarrow> renderNodes fs rec mode absPath hasBeen ns (out @ text) errs1)
              else renderNodes fs rec mode absPath hasBeen ns (out @ v) errs1)))"

text \<open>
  \<open>Parse\<close>. The first argument bounds the depth of nested includes; theorem
  \<open>rendering_terminates\<close> shows that the number of readable files is enough.
\<close>

primrec Parse ::
  "nat \<Rightarrow> (rune \<Rightarrow> bool) \<Rightarrow> machineFs \<Rightarrow> Parser \<Rightarrow> string \<Rightarrow> string \<Rightarrow> string list \<Rightarrow> (gerr + string) outcome option" where
  "Parse 0 uni fs p text absPath hasBeen = None"
| "Parse (Suc depth) uni fs p text absPath hasBeen =
     (let hasBeen1 = hasBeen @ [absPath] in
      case parse uni p text of
        None \<Rightarrow> None
      | Some (perr, nodes) \<Rightarrow>
          (case (perr, p_Mode p) of
             (Some e, Quick) \<Rightarrow> Some (Ret (Inl e))
           | _ \<Rightarrow>
               (case renderNodes fs (Parse depth uni fs p) (p_Mode p) absPath hasBeen1 nodes
                       (AbsSign @ absPath @ nl) (case perr of None \<Rightarrow> [] | Some e \<Rightarrow> [e]) of
                  None \<Rightarrow> None
                | Some (Panic m) \<Rightarrow> Some (Panic m)
                | Some (Ret (Inl e)) \<Rightarrow> Some (Ret (Inl e))
                | Some (Ret (Inr (out, errs))) \<Rightarrow>
                    Some (Ret (if errs \<noteq> [] then Inl (join errs nl) else Inr out)))))"

definition ParseWithoutIncludation ::
  "nat \<Rightarrow> (rune \<Rightarrow> bool) \<Rightarrow> machineFs \<Rightarrow> Parser \<Rightarrow> string \<Rightarrow> (gerr + string) outcome option" where
  "ParseWithoutIncludation depth uni fs p text = Parse depth uni fs p text [] []"

datatype RenderItem = LocalFileRenderItem FilePathEnhance | TextRenderItem string

fun GetContent :: "machineFs \<Rightarrow> RenderItem \<Rightarrow> string" where
  "GetContent fs (LocalFileRenderItem f) = fst (ReadFile fs f)"
| "GetContent fs (TextRenderItem t) = t"

fun GetLocation :: "RenderItem \<Rightarrow> string" where
  "GetLocation (LocalFileRenderItem f) = Abs f"
| "GetLocation (TextRenderItem t) = []"

definition Render ::
  "nat \<Rightarrow> (rune \<Rightarrow> bool) \<Rightarrow> machineFs \<Rightarrow> string list \<Rightarrow> RenderItem \<Rightarrow> FilePathEnhance option \<Rightarrow>
     (gerr + string) outcome option" where
  "Render depth uni fs environ item envFile =
     Parse depth uni fs
       (New ''string'' [environ, ReadEnvFile fs envFile] \<lparr>r_NoUnset = False, r_NoEmpty = False\<rparr>)
       (GetContent fs item) (GetLocation item) []"

end
