(* ===== verification/EnvProps.thy ===== *)
theory EnvProps
  imports EnvParse
begin

text \<open>
  Properties of the template engine. The first part shows when lexing and parsing end, the
  second what a rendered template is.
\<close>

subsection \<open>The tokens still to come\<close>

definition tokensOk :: "tokens \<Rightarrow> bool" where
  "tokensOk s \<longleftrightarrow> length (t_token s) = 3 \<and> t_peekCount s \<le> 1"

definition remaining :: "tokens \<Rightarrow> item list" where
  "remaining s = (if t_peekCount s = 0 then t_items s else t_token s ! 0 # t_items s)"

lemma startTokens_ok [simp]: "tokensOk (startTokens its)" "remaining (startTokens its) = its"
  by (simp_all add: tokensOk_def remaining_def startTokens_def)

lemma p_next_Cons:
  assumes "tokensOk s" and "remaining s = i # its"
  shows "fst (p_next s) = i" and "tokensOk (snd (p_next s))" and "remaining (snd (p_next s)) = its"
  using assms by (auto simp: p_next_def nextItem_def tokensOk_def remaining_def split: if_splits)

lemma p_peek_Cons:
  assumes "tokensOk s" and "remaining s = i # its"
  shows "fst (p_peek s) = i" and "tokensOk (snd (p_peek s))" and "remaining (snd (p_peek s)) = i # its"
  using assms by (auto simp: p_peek_def nextItem_def tokensOk_def remaining_def split: if_splits)

abbreviation isStop :: "item \<Rightarrow> bool" where
  "isStop i \<equiv> i_typ i = itemRightDelim \<or> i_typ i = itemError \<or> i_typ i = itemEOF"

abbreviation isClose :: "item \<Rightarrow> bool" where
  "isClose i \<equiv> i_typ i = itemRightDelim \<or> i_typ i = itemError"

lemma textLoop_returns:
  assumes "tokensOk s" and "\<exists>i\<in>set (remaining s). isStop i"
  shows "\<exists>s'. textLoop s n = Some (n @ concat (map i_val (takeWhile (\<lambda>i. \<not> isStop i) (remaining s))), s') \<and>
    tokensOk s' \<and> remaining s' = dropWhile (\<lambda>i. \<not> isStop i) (remaining s)"
  using assms
proof (induction "length (remaining s)" arbitrary: s n rule: less_induct)
  case less
  from less.prems obtain i its where its: "remaining s = i # its" by (cases "remaining s") auto
  note pk = p_peek_Cons [OF less.prems(1) its]
  note nx = p_next_Cons [OF pk(2,3)]
  show ?case
  proof (cases "isStop i")
    case True
    with pk its show ?thesis by (subst textLoop.simps) auto
  next
    case False
    with less.prems(2) its nx(3) have stop: "\<exists>j\<in>set (remaining (snd (p_next (snd (p_peek s))))). isStop j" by auto
    have lt: "length (remaining (snd (p_next (snd (p_peek s))))) < length (remaining s)" using its nx(3) by simp
    have "textLoop s n = textLoop (snd (p_next (snd (p_peek s)))) (n @ i_val i)"
      using False pk(1) nx(1) by (subst textLoop.simps) simp
    with less.hyps [OF lt nx(2) stop, of "n @ i_val i"] False its nx(3) show ?thesis by simp
  qed
qed

text \<open>
  A substitution is read up to the first closing brace or error, whatever stands before it.
\<close>

lemma dropWhile_stop_close:
  "\<exists>j\<in>set xs. isClose j \<Longrightarrow>
     \<exists>j\<in>set (dropWhile (\<lambda>i. \<not> isStop i) xs). isClose j \<and>
       dropWhile (\<lambda>i. \<not> isClose i) (dropWhile (\<lambda>i. \<not> isStop i) xs) = dropWhile (\<lambda>i. \<not> isClose i) xs"
  by (induction xs) auto

lemma actionLoop_returns:
  assumes "tokensOk s" and "\<exists>i\<in>set (remaining s). isClose i"
  shows "\<exists>r s' i. actionLoop p v e d s = Some (r, s') \<and> tokensOk s' \<and>
    dropWhile (\<lambda>i. \<not> isClose i) (remaining s) = i # remaining s' \<and>
    (i_typ i = itemRightDelim \<longrightarrow> (\<exists>n. r = Inr n)) \<and> (i_typ i = itemError \<longrightarrow> (\<exists>m. r = Inl m))"
  using assms
proof (induction "length (remaining s)" arbitrary: s e d rule: less_induct)
  case less
  from less.prems obtain i its where its: "remaining s = i # its" by (cases "remaining s") auto
  note nx = p_next_Cons [OF less.prems(1) its]
  show ?case
  proof (cases "isClose i")
    case True
    with nx its show ?thesis by (subst actionLoop.simps) auto
  next
    case False
    with less.prems(2) its have close: "\<exists>j\<in>set its. isClose j" by auto
    show ?thesis
    proof (cases "i_typ i = itemText")
      case True
      have "\<exists>j\<in>set (remaining (snd (p_next s))). isStop j" using close nx(3) by auto
      from textLoop_returns [OF nx(2) this, of "i_val i"] obtain s1 t where
        t: "textLoop (snd (p_next s)) (i_val i) = Some (t, s1)" "tokensOk s1"
           "remaining s1 = dropWhile (\<lambda>i. \<not> isStop i) its" using nx(3) by auto
      from dropWhile_stop_close [OF close] t(3)
      have c1: "\<exists>j\<in>set (remaining s1). isClose j"
        and eq: "dropWhile (\<lambda>i. \<not> isClose i) (remaining s1) = dropWhile (\<lambda>i. \<not> isClose i) its" by auto
      have "length (remaining s1) < length (remaining s)"
        using t(3) its length_dropWhile_le [of "\<lambda>i. \<not> isStop i" "its"] by simp
      from less.hyps [OF this t(2) c1, of e "Some (TextNode t)"] t(1) True nx False its eq show ?thesis
        by (subst actionLoop.simps) auto
    next
      case notText: False
      have lt: "length (remaining (snd (p_next s))) < length (remaining s)" using its nx(3) by simp
      have c1: "\<exists>j\<in>set (remaining (snd (p_next s))). isClose j" using close nx(3) by simp
      note IH = less.hyps [OF lt nx(2) c1]
      show ?thesis
      proof (cases "i_typ i = itemVariable")
        case True
        with IH [of e "Some (VarNode (NewVariable (trimDollar (i_val i)) (p_Env p) (p_Restrict p)))"]
          notText nx False its show ?thesis by (subst actionLoop.simps) auto
      next
        case False
        with IH [of "i_typ i" d] notText nx \<open>\<not> isClose i\<close> its show ?thesis by (subst actionLoop.simps) auto
      qed
    qed
  qed
qed

lemma action_returns:
  assumes "tokensOk s" and "remaining s = v # vs" and "\<exists>i\<in>set vs. isClose i"
  shows "\<exists>r s' j. action p s = Some (r, s') \<and> tokensOk s' \<and>
    dropWhile (\<lambda>i. \<not> isClose i) vs = j # remaining s' \<and>
    (i_typ j = itemRightDelim \<longrightarrow> (\<exists>n. r = Inr n)) \<and> (i_typ j = itemError \<longrightarrow> (\<exists>m. r = Inl m))"
proof -
  note nx = p_next_Cons [OF assms(1,2)]
  from actionLoop_returns [OF nx(2), unfolded nx(3), OF assms(3)] show ?thesis
    unfolding action_def Let_def by blast
qed

subsection \<open>When parsing ends\<close>

definition properEnd :: "item list \<Rightarrow> bool" where
  "properEnd its \<longleftrightarrow>
     (\<exists>xs i. its = xs @ [i] \<and> (i_typ i = itemEOF \<or> i_typ i = itemError) \<and>
        (\<forall>j\<in>set xs. i_typ j \<noteq> itemEOF \<and> i_typ j \<noteq> itemError))"

text \<open>Every left delimiter that a variable follows has a closing brace or an error after it.\<close>

fun actionsEnd :: "item list \<Rightarrow> bool" where
  "actionsEnd [] \<longleftrightarrow> True"
| "actionsEnd (i # its) \<longleftrightarrow>
     (i_typ i = itemLeftDelim \<and> its \<noteq> [] \<and> i_typ (hd its) = itemVariable \<longrightarrow> list_ex isClose (tl its)) \<and>
     actionsEnd its"

lemma properEnd_suffix:
  assumes "properEnd (xs @ ys)" and "ys \<noteq> []"
  shows "properEnd ys"
proof -
  from assms obtain us i where u: "xs @ ys = us @ [i]" "i_typ i = itemEOF \<or> i_typ i = itemError"
    "\<forall>j\<in>set us. i_typ j \<noteq> itemEOF \<and> i_typ j \<noteq> itemError" unfolding properEnd_def by blast
  from assms(2) u(1) have "ys = butlast ys @ [i]" "us = xs @ butlast ys"
    by (metis append_butlast_last_id last_appendR last_snoc, metis assms(2) butlast_append butlast_snoc)
  with u show ?thesis unfolding properEnd_def by (metis Un_iff set_append)
qed

lemma properEnd_tl:
  assumes "properEnd (i # its)" and "i_typ i \<noteq> itemEOF" and "i_typ i \<noteq> itemError"
  shows "properEnd its"
proof (cases "its = []")
  case True
  with assms show ?thesis by (auto simp: properEnd_def Cons_eq_append_conv)
next
  case False
  with properEnd_suffix [of "[i]" its] assms(1) show ?thesis by simp
qed

lemma properEnd_last: "properEnd xs \<Longrightarrow> i_typ (last xs) = itemEOF \<or> i_typ (last xs) = itemError"
  by (auto simp: properEnd_def)

lemma actionsEnd_suffix: "actionsEnd (xs @ ys) \<Longrightarrow> actionsEnd ys"
  by (induction xs) auto

lemma parseLoop_returns:
  assumes "tokensOk s" and "properEnd (remaining s)" and "actionsEnd (remaining s)"
  shows "\<exists>r. parseLoop p nodes s = Some r"
  using assms
proof (induction "length (remaining s)" arbitrary: s nodes rule: less_induct)
  case less
  from less.prems(2) obtain i its where its: "remaining s = i # its"
    by (cases "remaining s") (auto simp: properEnd_def)
  note nx = p_next_Cons [OF less.prems(1) its]
  have lt: "length (remaining (snd (p_next s))) < length (remaining s)" using its nx(3) by simp
  consider (stop) "i_typ i = itemEOF \<or> i_typ i = itemError" | (var) "i_typ i = itemVariable"
    | (act) "i_typ i = itemLeftDelim" "its \<noteq> []" "i_typ (hd its) = itemVariable"
    | (left) "i_typ i = itemLeftDelim" "its = [] \<or> i_typ (hd its) \<noteq> itemVariable"
    | (other) "i_typ i \<notin> {itemEOF, itemError, itemVariable, itemLeftDelim}" by blast
  then show ?case
  proof cases
    case stop
    with nx show ?thesis by (subst parseLoop.simps) auto
  next
    case var
    with less.prems its nx(3) have "properEnd (remaining (snd (p_next s)))" "actionsEnd (remaining (snd (p_next s)))"
      by (auto dest: properEnd_tl)
    from less.hyps [OF lt nx(2) this] var nx(1) show ?thesis by (subst parseLoop.simps) auto
  next
    case act
    then obtain v vs where vs: "its = v # vs" "i_typ v = itemVariable" by (cases "its") auto
    note pk = p_peek_Cons [OF nx(2), unfolded nx(3), OF vs(1)]
    have close: "\<exists>j\<in>set vs. isClose j" using less.prems(3) its act vs by (auto simp: list_ex_iff)
    obtain r s' j where
      a: "action p (snd (p_peek (snd (p_next s)))) = Some (r, s')" "tokensOk s'"
        "dropWhile (\<lambda>i. \<not> isClose i) vs = j # remaining s'"
        "i_typ j = itemRightDelim \<longrightarrow> (\<exists>n. r = Inr n)" "i_typ j = itemError \<longrightarrow> (\<exists>m. r = Inl m)"
      using action_returns [OF pk(2,3) close] by blast
    have j: "isClose j" using a(3) hd_dropWhile [of "\<lambda>i. \<not> isClose i" vs] by auto
    define pre where "pre = i # v # takeWhile (\<lambda>i. \<not> isClose i) vs @ [j]"
    have split: "remaining s = pre @ remaining s'"
      using its vs(1) a(3) takeWhile_dropWhile_id [of "\<lambda>i. \<not> isClose i" vs] by (simp add: pre_def)
    have body: "parseLoop p nodes s = (case r of Inl err \<Rightarrow> Some (Some err, nodes) | Inr n \<Rightarrow> parseLoop p (nodes @ [n]) s')"
      using act vs nx(1) pk(1) a(1) by (subst parseLoop.simps) (simp split: sum.splits)
    show ?thesis
    proof (cases "i_typ j = itemRightDelim")
      case True
      have last: "last pre = j" "pre \<noteq> []" by (simp_all add: pre_def)
      have ne: "remaining s' \<noteq> []"
      proof
        assume "remaining s' = []"
        then have "last (remaining s) = j" using split last by simp
        with properEnd_last [OF less.prems(2)] True show False by simp
      qed
      have pe: "properEnd (remaining s')"
        using less.prems(2) unfolding split by (rule properEnd_suffix [OF _ ne])
      have ae: "actionsEnd (remaining s')"
        using less.prems(3) unfolding split by (rule actionsEnd_suffix)
      have lt': "length (remaining s') < length (remaining s)"
        unfolding split using last(2) by simp
      from less.hyps [OF lt' a(2) pe ae] have "\<exists>r. parseLoop p ns s' = Some r" for ns by blast
      with body a(4) True show ?thesis by auto
    next
      case False
      with j a(5) body show ?thesis by auto
    qed
  next
    case left
    have ne: "its \<noteq> []" using less.prems(2) its left(1) by (auto simp: properEnd_def Cons_eq_append_conv)
    then obtain v vs where vs: "its = v # vs" "i_typ v \<noteq> itemVariable" using left by (cases "its") auto
    note pk = p_peek_Cons [OF nx(2), unfolded nx(3), OF vs(1)]
    have "properEnd (remaining (snd (p_peek (snd (p_next s)))))" "actionsEnd (remaining (snd (p_peek (snd (p_next s)))))"
      "length (remaining (snd (p_peek (snd (p_next s))))) < length (remaining s)"
      using less.prems(2,3) its left(1) pk(3) vs(1) by (auto dest: properEnd_tl)
    with less.hyps [OF _ pk(2)] left vs nx(1) pk(1) show ?thesis by (subst parseLoop.simps) auto
  next
    case other
    with less.prems its nx(3) have "properEnd (remaining (snd (p_next s)))" "actionsEnd (remaining (snd (p_next s)))"
      by (auto dest: properEnd_tl)
    from less.hyps [OF lt nx(2) this] other nx(1) show ?thesis by (subst parseLoop.simps) auto
  qed
qed

subsection \<open>What the lexer sends\<close>

definition isText :: "item \<Rightarrow> bool" where
  "isText i \<longleftrightarrow> i_typ i = itemText"

lemma emit_items [simp]:
  "l_items (l_emit t l) = l_items l @ [mkItem t (l_start l) (slice (l_input l) (l_start l) (l_pos l))]"
  "l_start (l_emit t l) = l_pos l" "l_lastPos (l_emit t l) = l_start l" "l_subsDepth (l_emit t l) = l_subsDepth l"
  by (simp_all add: l_emit_def)

lemma ignore_items [simp]:
  "l_items (l_ignore l) = l_items l" "l_start (l_ignore l) = l_pos l" "l_subsDepth (l_ignore l) = l_subsDepth l"
  by (simp_all add: l_ignore_def)

lemma mkItem_typ [simp]: "i_typ (mkItem t p v) = t"
  by (simp add: mkItem_def)

lemma atDollar_items:
  assumes "lexOk l" and "fst (l_next l) = 36"
  shows "\<exists>ts. l_items (atDollar (snd (l_next l))) = l_items l @ ts \<and> list_all isText ts \<and>
    (l_start l < l_pos l \<longrightarrow> ts \<noteq> [])"
  using assms dollar_pos [OF assms(2)] by (auto simp: atDollar_def isText_def)

text \<open>
  What one run of \<open>lexText\<close> sends: plain text, and then what belongs to the state it goes to.
  Text that was pending is sent first.
\<close>

definition textStep :: "lexer \<Rightarrow> stateFn option \<Rightarrow> lexer \<Rightarrow> bool" where
  "textStep l st l' \<longleftrightarrow>
     (\<exists>ts tail. l_items l' = l_items l @ ts @ tail \<and> list_all isText ts \<and>
        (l_start l < l_pos l \<longrightarrow> ts \<noteq> []) \<and>
        (case st of
           None \<Rightarrow> map i_typ tail = [itemEOF]
         | Some LexText \<Rightarrow> False
         | Some LexVariable \<Rightarrow> tail = [] \<and> l_start l' < l_pos l' \<and> l_subsDepth l' = l_subsDepth l
         | Some LexSubstitution \<Rightarrow>
             map i_typ tail = [itemLeftDelim] \<and> l_start l' = l_pos l' \<and> l_subsDepth l' = l_subsDepth l + 1))"

lemma textStep_prepend:
  assumes "textStep x st l'" and "l_items x = l_items l @ us" and "list_all isText us"
    and "l_start l < l_pos l \<longrightarrow> us \<noteq> [] \<or> l_start x < l_pos x" and "l_subsDepth x = l_subsDepth l"
  shows "textStep l st l'"
proof -
  from assms(1) obtain ts tail where t: "l_items l' = l_items x @ ts @ tail" "list_all isText ts"
    "l_start x < l_pos x \<longrightarrow> ts \<noteq> []"
    "case st of None \<Rightarrow> map i_typ tail = [itemEOF] | Some LexText \<Rightarrow> False
     | Some LexVariable \<Rightarrow> tail = [] \<and> l_start l' < l_pos l' \<and> l_subsDepth l' = l_subsDepth x
     | Some LexSubstitution \<Rightarrow>
         map i_typ tail = [itemLeftDelim] \<and> l_start l' = l_pos l' \<and> l_subsDepth l' = l_subsDepth x + 1"
    unfolding textStep_def by blast
  show ?thesis
    unfolding textStep_def using t [unfolded assms(5)] assms(2-4)
    by (rule_tac exI [of _ "us @ ts"], rule_tac exI [of _ tail]) auto
qed

lemma lexText_sends:
  assumes "lexOk l" and "lexText uni l = (st, l')"
  shows "textStep l st l'"
  using assms
proof (induction uni l rule: lexText.induct)
  case (1 uni l)
  let ?l1 = "snd (l_next l)" and ?l4 = "atDollar (snd (l_next l))"
  let ?l5 = "snd (l_peek ?l4)"
  consider (dollar) "fst (l_next l) = 36" | (eof) "fst (l_next l) = eof"
    | (other) "fst (l_next l) \<noteq> 36" "fst (l_next l) \<noteq> eof" by blast
  then show ?case
  proof cases
    case dollar
    note d = atDollar_ok [OF 1(4) dollar]
    obtain ts where ts: "l_items ?l4 = l_items l @ ts" "list_all isText ts" "l_start l < l_pos l \<longrightarrow> ts \<noteq> []"
      using atDollar_items [OF 1(4) dollar] by blast
    consider (esc) "fst (l_peek ?l4) = 36" | (brace) "fst (l_peek ?l4) = 123"
      | (var) "fst (l_peek ?l4) \<noteq> 36" "fst (l_peek ?l4) \<noteq> 123" "isAlphaNumeric uni (fst (l_peek ?l4))"
      | (plain) "fst (l_peek ?l4) \<noteq> 36" "fst (l_peek ?l4) \<noteq> 123" "\<not> isAlphaNumeric uni (fst (l_peek ?l4))" by blast
    then show ?thesis
    proof cases
      case esc
      let ?x = "l_emit itemText (snd (l_next (l_ignore ?l5)))"
      have run: "lexText uni ?x = (st, l')" using 1(5) dollar esc by (subst (asm) lexText.simps) simp
      have "lexOk ?x" using d(1) by (auto intro!: l_emit_ok l_next_ok)
      from 1(1) [OF refl refl dollar refl refl refl esc this run] have "textStep ?x st l'" .
      then show ?thesis
        by (rule textStep_prepend [where us = "ts @ [last (l_items ?x)]"])
          (use ts d in \<open>simp_all add: isText_def\<close>)
    next
      case brace
      with 1(5) dollar have st: "st = Some LexSubstitution" and
        l': "l' = l_emit itemLeftDelim ((snd (l_next ?l5))\<lparr>l_subsDepth := l_subsDepth (snd (l_next ?l5)) + 1\<rparr>)"
        by (subst (asm) lexText.simps, simp)+
      show ?thesis unfolding textStep_def st l'
        by (rule exI [of _ ts], rule exI [of _ "[last (l_items l')]"]) (use ts d in \<open>simp add: l'\<close>)
    next
      case var
      with 1(5) dollar have "st = Some LexVariable" "l' = ?l5" by (subst (asm) lexText.simps, simp)+
      with ts d show ?thesis by (auto simp: textStep_def)
    next
      case plain
      have run: "lexText uni ?l5 = (st, l')" using 1(5) dollar plain by (subst (asm) lexText.simps) simp
      have "lexOk ?l5" using d(1) by simp
      from 1(2) [OF refl refl dollar refl refl refl plain this run] have "textStep ?l5 st l'" .
      then show ?thesis by (rule textStep_prepend [where us = ts]) (use ts d in simp_all)
    qed
  next
    case eof
    have pos: "l_pos l \<le> l_pos ?l1" by (rule l_next_monotone)
    have st: "st = None" and l': "l' = l_emit itemEOF (if l_pos ?l1 > l_start ?l1 then l_emit itemText ?l1 else ?l1)"
      using 1(5) eof by (subst (asm) lexText.simps, simp add: eof_def)+
    show ?thesis
    proof (cases "l_start l < l_pos ?l1")
      case True
      then show ?thesis unfolding textStep_def st l'
        by (rule_tac exI [of _ "[mkItem itemText (l_start l) (slice (l_input l) (l_start l) (l_pos ?l1))]"],
            rule_tac exI [of _ "[last (l_items l')]"]) (simp add: l' isText_def)
    next
      case False
      with pos show ?thesis unfolding textStep_def st l'
        by (rule_tac exI [of _ "[]"], rule_tac exI [of _ "[last (l_items l')]"]) (simp add: l')
    qed
  next
    case other
    then have run: "lexText uni ?l1 = (st, l')" using 1(5) by (subst (asm) lexText.simps) simp
    from 1(3) [OF refl refl other l_next_ok [OF 1(4)] run] have "textStep ?l1 st l'" .
    then show ?thesis
      by (rule textStep_prepend [where us = "[]"]) (use l_next_monotone [of l] in auto)
  qed
qed

text \<open>
  Inside a substitution the lexer is in the middle when a letter would not start its first variable.
\<close>

definition midSubst :: "(rune \<Rightarrow> bool) \<Rightarrow> lexer \<Rightarrow> bool" where
  "midSubst uni l \<longleftrightarrow>
     \<not> (hasPrefix (drop (l_lastPos l) (l_input l)) ''${'' \<and> isAlphaNumeric uni (fst (l_next l)))"

lemma not_dollar_byte:
  assumes "fst (l_next l) \<noteq> 36"
  shows "\<not> hasPrefix (drop (l_pos l) (l_input l)) ''${''"
proof
  assume "hasPrefix (drop (l_pos l) (l_input l)) ''${''"
  then obtain cs where d: "drop (l_pos l) (l_input l) = CHR ''$'' # cs" by (auto simp: hasPrefix_iff)
  then have "l_pos l < length (l_input l)" by (metis drop_all linorder_not_less list.distinct(1))
  with d have "fst (l_next l) = 36" by (simp add: l_next_def decodeRune_ascii)
  with assms show False ..
qed

abbreviation isOperator :: "itemType \<Rightarrow> bool" where
  "isOperator t \<equiv> t \<notin> {itemZero, itemError, itemEOF, itemVariable, itemLeftDelim, itemRightDelim}"

lemma lexSubstitution_cases:
  assumes "lexSubstitution uni l = (st, l')" and "l_start l = l_pos l"
  obtains (close) i where "st = Some LexText" "l_items l' = l_items l @ [i]" "i_typ i = itemRightDelim"
      "l_subsDepth l' = l_subsDepth l - 1"
  | (err) i where "st = None" "l_items l' = l_items l @ [i]" "i_typ i = itemError"
  | (first) "st = Some LexVariable" "\<not> midSubst uni l" "l' = snd (l_next l)" "l_start l' < l_pos l'"
  | (dollar) "st = Some LexVariable" "l_input l ! l_start l = CHR ''$''" "l' = snd (l_next l)"
      "l_start l' < l_pos l'" "l_start l < length (l_input l)"
  | (operator) i where "st = Some LexSubstitution" "l_items l' = l_items l @ [i]" "isOperator (i_typ i)"
      "l_start l' = l_pos l'" "l_subsDepth l' = l_subsDepth l" "midSubst uni l'"
proof -
  let ?r = "fst (l_next l)" and ?l1 = "snd (l_next l)"
  consider (a) "?r = 125" | (b) "?r = eof" | (c) "?r \<noteq> eof" "?r \<noteq> 125" "\<not> midSubst uni l"
    | (d) "?r = 36" "midSubst uni l" | (e) "?r \<notin> {125, eof, 36}" "midSubst uni l" by blast
  then show thesis
  proof cases
    case a
    with assms show thesis by (intro close) (auto simp: lexSubstitution_def)
  next
    case b
    with assms show thesis by (intro err) (auto simp: lexSubstitution_def l_errorf_def eof_def)
  next
    case c
    with assms l_next_less [of l] show thesis
      by (intro first) (auto simp: lexSubstitution_def midSubst_def)
  next
    case d
    with assms l_next_less [of l] dollar_pos [of l] show thesis
      by (intro dollar) (auto simp: lexSubstitution_def midSubst_def eof_def)
  next
    case e
    have np: "\<not> hasPrefix (drop (l_pos l) (l_input l)) ''${''" using e(1) not_dollar_byte by simp
    obtain t x where tx: "l' = l_emit t x" "isOperator t" "x = ?l1 \<or> x = snd (l_next ?l1)" and st: "st = Some LexSubstitution"
      using assms(1) e by (auto simp: lexSubstitution_def midSubst_def split: if_splits)
    then have items: "l_items l' = l_items l @ [mkItem t (l_start x) (slice (l_input x) (l_start x) (l_pos x))]"
      and sel: "l_lastPos l' = l_pos l" "l_input l' = l_input l" "l_subsDepth l' = l_subsDepth l" "l_start l' = l_pos l'"
      using assms(2) by auto
    show thesis by (rule operator [OF st items]) (use tx(2) sel np in \<open>simp_all add: midSubst_def\<close>)
  qed
qed

lemma properEnd_append: "properEnd xs \<Longrightarrow> \<forall>j\<in>set ts. i_typ j \<noteq> itemEOF \<and> i_typ j \<noteq> itemError \<Longrightarrow> properEnd (ts @ xs)"
proof -
  assume "properEnd xs" and ts: "\<forall>j\<in>set ts. i_typ j \<noteq> itemEOF \<and> i_typ j \<noteq> itemError"
  then obtain us i where "xs = us @ [i]" "i_typ i = itemEOF \<or> i_typ i = itemError"
    "\<forall>j\<in>set us. i_typ j \<noteq> itemEOF \<and> i_typ j \<noteq> itemError" unfolding properEnd_def by blast
  with ts show "properEnd (ts @ xs)"
    unfolding properEnd_def by (intro exI [of _ "ts @ us"] exI [of _ i]) auto
qed

lemma properEnd_Cons: "properEnd xs \<Longrightarrow> i_typ i \<noteq> itemEOF \<Longrightarrow> i_typ i \<noteq> itemError \<Longrightarrow> properEnd (i # xs)"
  using properEnd_append [of xs "[i]"] by simp

lemma properEnd_single: "i_typ i = itemEOF \<or> i_typ i = itemError \<Longrightarrow> properEnd [i]"
  by (simp add: properEnd_def)

lemma texts_append:
  assumes "list_all isText ts" and "properEnd xs" and "actionsEnd xs"
  shows "properEnd (ts @ xs)" and "actionsEnd (ts @ xs)"
proof -
  show "properEnd (ts @ xs)" using assms(1,2) by (intro properEnd_append) (auto simp: isText_def list_all_iff)
  show "actionsEnd (ts @ xs)" using assms(1,3) by (induction ts) (auto simp: isText_def)
qed

lemma contains_iff: "contains s sub \<longleftrightarrow> (\<exists>a b. s = a @ sub @ b)"
proof
  show "contains s sub \<Longrightarrow> \<exists>a b. s = a @ sub @ b" unfolding contains_def using index_SomeD [of s sub] by blast
  have "index (a @ sub @ b) sub \<noteq> None" for a b
  proof (induction a)
    case Nil
    then show ?case by (cases "sub @ b") (auto, metis hasPrefix_append)
  qed auto
  then show "\<exists>a b. s = a @ sub @ b \<Longrightarrow> contains s sub" by (auto simp: contains_def)
qed

lemma list_ex_tl: "list_ex P (tl xs) \<Longrightarrow> list_ex P xs"
  by (cases xs) simp_all

lemma slice_hd: "slice s i j = c # cs \<Longrightarrow> s ! i = c"
  by (cases "drop i s"; cases "j - i") (auto simp: slice_def nth_via_drop)

lemma slice_contains: "slice s i j = sub \<Longrightarrow> contains s sub"
  unfolding contains_iff slice_def by (metis append_take_drop_id)

text \<open>
  The invariant of the whole run. \<open>sends\<close> says what the rest of the run adds to the items when
  the lexer is in a given state.
\<close>

definition runPre :: "stateFn \<Rightarrow> lexer \<Rightarrow> bool" where
  "runPre st l \<longleftrightarrow>
     (case st of
        LexText \<Rightarrow> 0 \<le> l_subsDepth l
      | LexVariable \<Rightarrow> l_start l < l_pos l \<and> 0 \<le> l_subsDepth l
      | LexSubstitution \<Rightarrow> l_start l = l_pos l \<and> 0 < l_subsDepth l)"

definition runPost :: "(rune \<Rightarrow> bool) \<Rightarrow> stateFn \<Rightarrow> lexer \<Rightarrow> item list \<Rightarrow> bool" where
  "runPost uni st l new \<longleftrightarrow>
     properEnd new \<and> actionsEnd new \<and>
     (case st of
        LexText \<Rightarrow> l_start l < l_pos l \<longrightarrow> i_typ (hd new) = itemText
      | LexVariable \<Rightarrow>
          (if slice (l_input l) (l_start l) (l_pos (scanVariable uni l)) = ''_''
           then i_typ (hd new) = itemText
           else i_typ (hd new) = itemVariable \<and> (0 < l_subsDepth l \<longrightarrow> list_ex isClose (tl new)))
      | LexSubstitution \<Rightarrow>
          (midSubst uni l \<longrightarrow> list_ex isClose new) \<and>
          (i_typ (hd new) = itemVariable \<longrightarrow> list_ex isClose (tl new)))"

definition sends :: "(rune \<Rightarrow> bool) \<Rightarrow> stateFn \<Rightarrow> lexer \<Rightarrow> bool" where
  "sends uni st l \<longleftrightarrow> (\<exists>new. l_items (runLexer uni st l) = l_items l @ new \<and> runPost uni st l new)"

lemma runPost_nonempty: "runPost uni st l new \<Longrightarrow> new \<noteq> []"
  by (auto simp: runPost_def properEnd_def)

lemma sends_text:
  assumes "lexOk l" and "lexText uni l = (st, l')"
    and "st = None \<Longrightarrow> l_items (runLexer uni LexText l) = l_items l'"
    and "\<And>s'. st = Some s' \<Longrightarrow> runPre s' l' \<Longrightarrow>
      \<exists>new. l_items (runLexer uni LexText l) = l_items l' @ new \<and> runPost uni s' l' new"
    and "runPre LexText l"
  shows "sends uni LexText l"
proof -
  from lexText_sends [OF assms(1,2)] obtain ts tail where
    ts: "l_items l' = l_items l @ ts @ tail" "list_all isText ts" "l_start l < l_pos l \<longrightarrow> ts \<noteq> []"
    and c: "case st of None \<Rightarrow> map i_typ tail = [itemEOF] | Some LexText \<Rightarrow> False
     | Some LexVariable \<Rightarrow> tail = [] \<and> l_start l' < l_pos l' \<and> l_subsDepth l' = l_subsDepth l
     | Some LexSubstitution \<Rightarrow>
         map i_typ tail = [itemLeftDelim] \<and> l_start l' = l_pos l' \<and> l_subsDepth l' = l_subsDepth l + 1"
    unfolding textStep_def by blast
  have hd: "l_start l < l_pos l \<Longrightarrow> i_typ (hd (ts @ zs)) = itemText" for zs
    using ts(2,3) by (cases ts) (auto simp: isText_def)
  have post: "runPost uni LexText l (ts @ zs)" if "properEnd zs" "actionsEnd zs" for zs
    using texts_append [OF ts(2) that] hd by (simp add: runPost_def)
  show ?thesis
  proof (cases st)
    case None
    with c obtain i where "tail = [i]" "i_typ i = itemEOF" by auto
    with post [of "[i]"] ts(1) assms(3) None properEnd_single [of i] show ?thesis
      unfolding sends_def by (intro exI [of _ "ts @ [i]"]) simp
  next
    case (Some s')
    have "runPre s' l'" using c Some assms(5) by (auto simp: runPre_def split: stateFn.splits)
    from assms(4) [OF Some this] obtain new where
      new: "l_items (runLexer uni LexText l) = l_items l' @ new" "runPost uni s' l' new" by blast
    have ne: "new \<noteq> []" by (rule runPost_nonempty [OF new(2)])
    have "properEnd (tail @ new) \<and> actionsEnd (tail @ new)"
    proof (cases s')
      case LexSubstitution
      with c Some obtain i where "tail = [i]" "i_typ i = itemLeftDelim" by auto
      with new(2) ne LexSubstitution show ?thesis by (auto simp: runPost_def intro!: properEnd_Cons)
    qed (use c Some new(2) in \<open>auto simp: runPost_def\<close>)
    with post [of "tail @ new"] new(1) ts(1) show ?thesis
      unfolding sends_def by (intro exI [of _ "ts @ tail @ new"]) simp
  qed
qed

lemma sends_variable:
  assumes "lexOk l" and "lexVariable uni l = (st, l')" and "\<not> contains (l_input l) ''$_''"
    and "\<And>s'. st = Some s' \<Longrightarrow> runPre s' l' \<Longrightarrow>
      \<exists>new. l_items (runLexer uni LexVariable l) = l_items l' @ new \<and> runPost uni s' l' new"
    and "runPre LexVariable l"
  shows "sends uni LexVariable l"
proof -
  let ?l1 = "scanVariable uni l"
  note sv = scanVariable_sel [OF assms(1), of uni]
  let ?v = "slice (l_input l) (l_start l) (l_pos ?l1)"
  have nd: "?v \<noteq> ''$_''" using slice_contains assms(3) by blast
  have start: "l_start ?l1 < l_pos ?l1" using sv assms(5) by (auto simp: runPre_def)
  show ?thesis
  proof (cases "?v = ''_''")
    case True
    with assms(2) sv have st: "st = Some LexText" "l' = ?l1" by (auto simp: lexVariable_def)
    have "runPre LexText l'" using sv st assms(5) by (simp add: runPre_def)
    from assms(4) [OF st(1) this] obtain new where
      "l_items (runLexer uni LexVariable l) = l_items l' @ new" "runPost uni LexText l' new" by blast
    with True st sv start show ?thesis unfolding sends_def by (intro exI [of _ new]) (simp add: runPost_def)
  next
    case False
    with assms(2) sv nd have l': "l' = l_emit itemVariable ?l1"
      and st: "st = Some (if 0 < l_subsDepth l then LexSubstitution else LexText)"
      by (auto simp: lexVariable_def split: if_splits)
    have mid: "midSubst uni l'" using sv l' by (simp add: midSubst_def l_next_def l_emit_def split: if_splits prod.splits)
    have "runPre (if 0 < l_subsDepth l then LexSubstitution else LexText) l'"
      using sv l' assms(5) by (auto simp: runPre_def)
    from assms(4) [OF st this] obtain new where
      new: "l_items (runLexer uni LexVariable l) = l_items l' @ new"
      "runPost uni (if 0 < l_subsDepth l then LexSubstitution else LexText) l' new" by blast
    let ?i = "mkItem itemVariable (l_start ?l1) (slice (l_input ?l1) (l_start ?l1) (l_pos ?l1))"
    have "runPost uni LexVariable l (?i # new)"
      using new(2) False mid by (auto simp: runPost_def intro!: properEnd_Cons split: if_splits)
    with new(1) l' sv show ?thesis unfolding sends_def by (intro exI [of _ "?i # new"]) simp
  qed
qed

lemma sends_substitution:
  assumes "lexOk l" and "lexSubstitution uni l = (st, l')"
    and "st = None \<Longrightarrow> l_items (runLexer uni LexSubstitution l) = l_items l'"
    and "\<And>s'. st = Some s' \<Longrightarrow> runPre s' l' \<Longrightarrow>
      \<exists>new. l_items (runLexer uni LexSubstitution l) = l_items l' @ new \<and> runPost uni s' l' new"
    and "runPre LexSubstitution l"
  shows "sends uni LexSubstitution l"
proof -
  have pre: "l_start l = l_pos l" "0 < l_subsDepth l" using assms(5) by (simp_all add: runPre_def)
  from assms(2) pre(1) show ?thesis
  proof (cases rule: lexSubstitution_cases)
    case (close i)
    have "runPre LexText l'" using close pre by (simp add: runPre_def)
    from assms(4) [OF close(1) this] obtain new where
      new: "l_items (runLexer uni LexSubstitution l) = l_items l' @ new" "runPost uni LexText l' new" by blast
    with close show ?thesis unfolding sends_def
      by (intro exI [of _ "i # new"]) (auto simp: runPost_def intro!: properEnd_Cons)
  next
    case (err i)
    with assms(3) show ?thesis unfolding sends_def
      by (intro exI [of _ "[i]"]) (auto simp: runPost_def intro!: properEnd_single)
  next
    case first
    have "runPre LexVariable l'" using first pre by (simp add: runPre_def)
    from assms(4) [OF first(1) this] obtain new where
      new: "l_items (runLexer uni LexSubstitution l) = l_items l' @ new" "runPost uni LexVariable l' new" by blast
    with first pre show ?thesis unfolding sends_def
      by (intro exI [of _ new]) (auto simp: runPost_def split: if_splits)
  next
    case dollar
    have "runPre LexVariable l'" using dollar pre by (simp add: runPre_def)
    from assms(4) [OF dollar(1) this] obtain new where
      new: "l_items (runLexer uni LexSubstitution l) = l_items l' @ new" "runPost uni LexVariable l' new" by blast
    have "slice (l_input l') (l_start l') (l_pos (scanVariable uni l')) \<noteq> ''_''"
    proof
      assume "slice (l_input l') (l_start l') (l_pos (scanVariable uni l')) = ''_''"
      then have "l_input l ! l_start l = CHR ''_''" using dollar(3) by (simp add: slice_hd)
      with dollar(2) show False by simp
    qed
    with new dollar pre show ?thesis unfolding sends_def
      by (intro exI [of _ new]) (auto simp: runPost_def dest: list_ex_tl)
  next
    case (operator i)
    have "runPre LexSubstitution l'" using operator pre by (simp add: runPre_def)
    from assms(4) [OF operator(1) this] obtain new where
      new: "l_items (runLexer uni LexSubstitution l) = l_items l' @ new" "runPost uni LexSubstitution l' new" by blast
    with operator show ?thesis unfolding sends_def
      by (intro exI [of _ "i # new"]) (auto simp: runPost_def intro!: properEnd_Cons)
  qed
qed

lemma run_sends:
  assumes "lexOk l" and "runPre st l" and "\<not> contains (l_input l) ''$_''"
  shows "sends uni st l"
  using assms
proof (induction uni st l rule: runLexer.induct)
  case (1 uni st l)
  obtain res l' where step: "lexState uni st l = (res, l')" by force
  note ls = lexState_step [OF 1(2) step]
  have none: "res = None \<Longrightarrow> l_items (runLexer uni st l) = l_items l'"
    using 1(2) step by (subst runLexer.simps) simp
  have some: "\<exists>new. l_items (runLexer uni st l) = l_items l' @ new \<and> runPost uni s' l' new"
    if "res = Some s'" "runPre s' l'" for s'
  proof -
    have "sends uni s' l'"
      using 1(1) [of res l' s'] 1(2,4) step that ls(1,2) by simp
    moreover have "runLexer uni st l = runLexer uni s' l'"
      using 1(2) step that(1) by (subst runLexer.simps) simp
    ultimately show ?thesis by (simp add: sends_def)
  qed
  show ?case
  proof (cases st)
    case LexText
    have "lexText uni l = (res, l')" using step LexText by (simp add: lexState_def)
    then show ?thesis unfolding LexText
      by (rule sends_text [OF 1(2)]) (use LexText 1(3) none some in auto)
  next
    case LexVariable
    have "lexVariable uni l = (res, l')" using step LexVariable by (simp add: lexState_def)
    then show ?thesis unfolding LexVariable
      by (rule sends_variable [OF 1(2)]) (use LexVariable 1(3,4) some in auto)
  next
    case LexSubstitution
    have "lexSubstitution uni l = (res, l')" using step LexSubstitution by (simp add: lexState_def)
    then show ?thesis unfolding LexSubstitution
      by (rule sends_substitution [OF 1(2)]) (use LexSubstitution 1(3) none some in auto)
  qed
qed

lemma lex_good:
  assumes "\<not> contains text ''$_''"
  shows "properEnd (lex uni text)" and "actionsEnd (lex uni text)"
proof -
  have "sends uni LexText (newLexer text)"
    using assms by (intro run_sends) (simp_all add: runPre_def, simp_all add: newLexer_def)
  then show "properEnd (lex uni text)" "actionsEnd (lex uni text)"
    by (auto simp: sends_def runPost_def lex_def newLexer_def)
qed

text \<open>C31: Parsing returns for every text that does not contain a dollar sign followed by an
  underscore, whatever the text is: lexing ends in an end or error item, and every
  substitution that was begun with a variable is closed by a brace or an error.\<close>

theorem parse_returns:
  assumes "\<not> contains text ''$_''"
  shows "\<exists>r. parse uni p text = Some r"
  unfolding parse_def using lex_good [OF assms] by (intro parseLoop_returns) simp_all

theorem parse_returns_witness:
  "\<exists>r. parse (\<lambda>_. False) (New [] [] \<lparr>r_NoUnset = False, r_NoEmpty = False\<rparr>) ''a ${B:-$c} $$ ${'' = Some r"
  by (rule parse_returns) (simp add: contains_def)

end
