(* ===== verification/EnvRender.thy ===== *)
theory EnvRender
  imports EnvProps
begin

text \<open>
  Properties of rendering: where parsing hangs, how escaped texts are rendered, the operators
  compared with those of the shell, and nested includes.
\<close>

subsection \<open>A text that is never parsed\<close>

lemma p_next_ok: "tokensOk s \<Longrightarrow> tokensOk (snd (p_next s))"
  by (auto simp: p_next_def nextItem_def tokensOk_def split: list.splits)

lemma p_next_remaining:
  assumes "tokensOk s"
  shows "set (remaining (snd (p_next s))) \<subseteq> set (remaining s)"
    and "fst (p_next s) \<in> insert zeroItem (set (remaining s))"
  using assms by (auto simp: p_next_def nextItem_def tokensOk_def remaining_def split: list.splits)

lemma p_peek_ok: "tokensOk s \<Longrightarrow> tokensOk (snd (p_peek s))"
  by (auto simp: p_peek_def nextItem_def tokensOk_def split: list.splits)

lemma p_peek_remaining: "tokensOk s \<Longrightarrow> set (remaining (snd (p_peek s))) \<subseteq> insert zeroItem (set (remaining s))"
  by (auto simp: p_peek_def nextItem_def tokensOk_def remaining_def split: list.splits)

definition noClose :: "tokens \<Rightarrow> bool" where
  "noClose s \<longleftrightarrow> tokensOk s \<and> (\<forall>i\<in>set (remaining s). \<not> isClose i)"

lemma noClose_next: "noClose s \<Longrightarrow> noClose (snd (p_next s))" "noClose s \<Longrightarrow> \<not> isClose (fst (p_next s))"
  using p_next_ok [of s] p_next_remaining [of s] by (auto simp: noClose_def zeroItem_def)

lemma noClose_peek: "noClose s \<Longrightarrow> noClose (snd (p_peek s))"
  using p_peek_ok [of s] p_peek_remaining [of s] by (auto simp: noClose_def zeroItem_def)

lemma noClose_textLoop:
  assumes "textLoop s n = Some r"
  shows "noClose s \<longrightarrow> noClose (snd r)"
  by (rule textLoop.raw_induct [of "\<lambda>s n r. noClose s \<longrightarrow> noClose (snd r)", OF _ assms])
    (auto simp: noClose_peek noClose_next split: if_splits)

text \<open>With no brace and no error to come, the loop of \<open>action\<close> goes on for ever on zero items.\<close>

lemma actionLoop_hangs:
  assumes "noClose s"
  shows "actionLoop p v e d s = None"
proof (rule ccontr)
  have "\<not> noClose s" if "actionLoop p v e d s = Some r" for r
  proof (rule actionLoop.raw_induct [of "\<lambda>p v e d s r. \<not> noClose s", OF _ that], rule notI)
    fix f p v e d s r
    assume IH: "\<And>p v e d s y. f p v e d s = Some y \<Longrightarrow> \<not> noClose s" and nc: "noClose s"
      and body: "(let t = fst (p_next s); s1 = snd (p_next s)
         in if i_typ t = itemRightDelim then Some (Inr (SubstitutionNode e v d), s1)
            else if i_typ t = itemError then Some (Inl (i_val t), s1)
            else if i_typ t = itemVariable
            then f p v e (Some (VarNode (NewVariable (trimDollar (i_val t)) (p_Env p) (p_Restrict p)))) s1
            else if i_typ t = itemText
            then Option.bind (textLoop s1 (i_val t)) (\<lambda>r. f p v e (Some (TextNode (fst r))) (snd r))
            else f p v (i_typ t) d s1) = Some r"
    note nx = noClose_next [OF nc]
    from body nx(2) consider
      e' d' where "f p v e' d' (snd (p_next s)) = Some r"
    | t d' where "textLoop (snd (p_next s)) (i_val (fst (p_next s))) = Some t" "f p v e d' (snd t) = Some r"
      by (auto split: if_splits simp: bind_eq_Some_conv)
    then show False
      by cases (use nx(1) noClose_textLoop IH in blast)+
  qed
  moreover assume "actionLoop p v e d s \<noteq> None"
  ultimately show False using assms by auto
qed

lemma parse_hangs:
  assumes "lex uni text = i # v # its" and "i_typ i = itemLeftDelim" and "i_typ v = itemVariable"
    and "\<not> list_ex isClose its"
  shows "parse uni p text = None"
proof -
  let ?s = "startTokens (lex uni text)"
  note nx = p_next_Cons [of ?s i "v # its"]
  note pk = p_peek_Cons [of "snd (p_next ?s)" v its]
  note nv = p_next_Cons [of "snd (p_peek (snd (p_next ?s)))" v its]
  have n: "fst (p_next ?s) = i" "tokensOk (snd (p_next ?s))" "remaining (snd (p_next ?s)) = v # its"
    using nx assms(1) by simp_all
  have k: "fst (p_peek (snd (p_next ?s))) = v" "tokensOk (snd (p_peek (snd (p_next ?s))))"
    "remaining (snd (p_peek (snd (p_next ?s)))) = v # its" using pk n by simp_all
  have "noClose (snd (p_next (snd (p_peek (snd (p_next ?s))))))"
    using nv k assms(4) by (auto simp: noClose_def list_ex_iff)
  then have "action p (snd (p_peek (snd (p_next ?s)))) = None"
    by (simp add: action_def actionLoop_hangs)
  with n(1) k(1) assms(2,3) show ?thesis
    unfolding parse_def by (subst parseLoop.simps) simp
qed

definition hangText :: string where
  "hangText = ''${FOO$_''"

lemma lex_hangText:
  "lex uni hangText =
     [mkItem itemLeftDelim 0 ''${'', mkItem itemVariable 2 ''FOO'', mkItem itemText 5 ''$_'', mkItem itemEOF 7 []]"
  by (simp add: lex_def hangText_def newLexer_def runLexer.simps lexState_def lexText.simps lexSubstitution_def
      lexVariable_def scanVariable.simps l_next_def decodeRune_def byteAt_def atDollar_def l_peek_def l_backup_def
      l_emit_def isAlphaNumeric_def slice_def lexOk_def eof_def mkItem_def)

text \<open>The parser does not return on the seven characters of \<open>hangText\<close>, for any environment: an
  unfinished substitution that ends in a dollar sign and an underscore makes it read the
  closed channel for ever.\<close>

theorem parse_hangs_on_unfinished_substitution:
  "parse uni p hangText = None"
  by (rule parse_hangs [OF lex_hangText]) simp_all

subsection \<open>Escaped texts\<close>

definition escapeDollars :: "string \<Rightarrow> string" where
  "escapeDollars t = concat (map (\<lambda>c. if c = CHR ''$'' then ''$$'' else [c]) t)"

lemma escapeDollars_Nil [simp]: "escapeDollars [] = []" "escapeDollars t = [] \<longleftrightarrow> t = []"
  by (simp add: escapeDollars_def) (cases t; simp add: escapeDollars_def)

lemma escapeDollars_Cons: "escapeDollars (c # t) = (if c = CHR ''$'' then ''$$'' else [c]) @ escapeDollars t"
  by (simp add: escapeDollars_def)

lemma escapeDollars_take:
  "CHR ''$'' \<notin> set (take w (escapeDollars t)) \<Longrightarrow> w \<le> length (escapeDollars t) \<Longrightarrow>
     take w (escapeDollars t) = take w t \<and> drop w (escapeDollars t) = escapeDollars (drop w t)"
proof (induction w arbitrary: t)
  case (Suc w)
  show ?case
  proof (cases t)
    case (Cons c cs)
    have c: "c \<noteq> CHR ''$''" using Suc.prems(1) Cons by (auto simp: escapeDollars_Cons)
    then have e: "escapeDollars t = c # escapeDollars cs" using Cons by (simp add: escapeDollars_Cons)
    show ?thesis using Suc.IH [of cs] Suc.prems Cons e by simp
  qed (use Suc.prems in simp)
qed simp

lemma byteAt_not_dollar:
  assumes "byteAt s i \<noteq> 36" and "i < length s"
  shows "s ! i \<noteq> CHR ''$''"
  using assms by (auto simp: byteAt_def)

lemma take_not_dollar:
  assumes "w \<le> length s" and "\<And>i. i < w \<Longrightarrow> byteAt s i \<noteq> 36"
  shows "CHR ''$'' \<notin> set (take w s)"
proof
  assume "CHR ''$'' \<in> set (take w s)"
  then obtain i where "i < w" "i < length s" "s ! i = CHR ''$''" by (auto simp: in_set_conv_nth)
  with assms byteAt_not_dollar [of s i] show False by blast
qed

lemma decodeRune_no_dollar:
  assumes "s \<noteq> []" and "fst (decodeRune s) \<noteq> 36"
  shows "CHR ''$'' \<notin> set (take (snd (decodeRune s)) s)"
proof (rule take_not_dollar [OF decodeRune_width(2) [OF assms(1)]])
  fix i assume i: "i < snd (decodeRune s)"
  consider (ascii) "byteAt s 0 < 0x80" | (two) "\<not> byteAt s 0 < 0x80" "utf8_2 s"
    | (three) "\<not> byteAt s 0 < 0x80" "\<not> utf8_2 s" "utf8_3 s"
    | (four) "\<not> byteAt s 0 < 0x80" "\<not> utf8_2 s" "\<not> utf8_3 s" "utf8_4 s"
    | (bad) "\<not> byteAt s 0 < 0x80" "\<not> utf8_2 s" "\<not> utf8_3 s" "\<not> utf8_4 s" by blast
  then show "byteAt s i \<noteq> 36"
  proof cases
    case ascii
    with i assms(2) show ?thesis by (simp add: decodeRune_def)
  next
    case two
    with i have "i = 0 \<or> i = 1" by (auto simp: decodeRune_def)
    with two show ?thesis by (auto simp: utf8_2_def isCont_def)
  next
    case three
    with i have "i = 0 \<or> i = 1 \<or> i = 2" by (auto simp: decodeRune_def)
    with three show ?thesis by (auto simp: utf8_3_def isCont_def)
  next
    case four
    with i have "i = 0 \<or> i = 1 \<or> i = 2 \<or> i = 3" by (auto simp: decodeRune_def)
    with four show ?thesis by (auto simp: utf8_4_def isCont_def)
  next
    case bad
    with i show ?thesis by (simp add: decodeRune_def)
  qed
qed

definition pending :: "lexer \<Rightarrow> string" where
  "pending l = slice (l_input l) (l_start l) (l_pos l)"

lemma slice_append:
  "i \<le> j \<Longrightarrow> j \<le> k \<Longrightarrow> slice s i k = slice s i j @ take (k - j) (drop j s)"
proof -
  assume "i \<le> j" "j \<le> k"
  then have "k - i = (j - i) + (k - j)" "drop j s = drop (j - i) (drop i s)" by simp_all
  then show ?thesis by (simp only: slice_def take_add)
qed

lemma l_next_ascii:
  assumes "drop (l_pos l) (l_input l) = c # cs" and "of_char c < (128 :: nat)"
  shows "l_next l = (int (of_char c), l\<lparr>l_width := 1, l_pos := l_pos l + 1\<rparr>)"
proof -
  have "l_pos l < length (l_input l)" using assms(1) by (metis drop_all linorder_not_less list.distinct(1))
  with assms show ?thesis by (simp add: l_next_def decodeRune_ascii)
qed

text \<open>Lexing an escaped text sends its characters as text items, and then the end.\<close>

definition sendsText :: "lexer \<Rightarrow> string \<Rightarrow> stateFn option \<times> lexer \<Rightarrow> bool" where
  "sendsText l t r \<longleftrightarrow>
     (\<exists>ts e. fst r = None \<and> l_items (snd r) = l_items l @ ts @ [e] \<and> list_all isText ts \<and>
        concat (map i_val ts) = t \<and> i_typ e = itemEOF)"

lemma sendsText_prepend:
  assumes "sendsText x t r" and "l_items x = l_items l @ us" and "list_all isText us"
  shows "sendsText l (concat (map i_val us) @ t) r"
proof -
  from assms(1) obtain ts e where "fst r = None" "l_items (snd r) = l_items x @ ts @ [e]"
    "list_all isText ts" "concat (map i_val ts) = t" "i_typ e = itemEOF" unfolding sendsText_def by blast
  with assms(2,3) show ?thesis unfolding sendsText_def
    by (rule_tac exI [of _ "us @ ts"], rule_tac exI [of _ e]) simp
qed

lemma mkItem_val [simp]: "i_val (mkItem t p v) = v"
  by (simp add: mkItem_def)

lemma lexText_escaped:
  assumes "lexOk l" and "drop (l_pos l) (l_input l) = escapeDollars t"
  shows "sendsText l (pending l @ t) (lexText uni l)"
  using assms
proof (induction "length t" arbitrary: l t rule: less_induct)
  case less
  let ?l1 = "snd (l_next l)"
  show ?case
  proof (cases t)
    case Nil
    with less.prems have len: "length (l_input l) \<le> l_pos l" by simp
    then have n: "l_next l = (eof, l\<lparr>l_width := 0\<rparr>)" by (simp add: l_next_def)
    show ?thesis
    proof (cases "l_start l < l_pos l")
      case True
      then show ?thesis unfolding sendsText_def
        by (rule_tac exI [of _ "[mkItem itemText (l_start l) (pending l)]"],
            rule_tac exI [of _ "mkItem itemEOF (l_pos l) (slice (l_input l) (l_pos l) (l_pos l))"])
          (subst (1 2) lexText.simps, simp add: n eof_def l_emit_def Nil pending_def isText_def)
    next
      case False
      with less.prems(1) have "l_start l = l_pos l" by (simp add: lexOk_def)
      then show ?thesis unfolding sendsText_def
        by (rule_tac exI [of _ "[]"], rule_tac exI [of _ "mkItem itemEOF (l_pos l) (slice (l_input l) (l_pos l) (l_pos l))"])
          (subst (1 2) lexText.simps, simp add: n eof_def l_emit_def Nil pending_def slice_def)
    qed
  next
    case (Cons c cs)
    then have ne: "escapeDollars t \<noteq> []" by simp
    with less.prems(2) have pos: "l_pos l < length (l_input l)" by (metis drop_all linorder_not_less)
    show ?thesis
    proof (cases "fst (l_next l) = 36")
      case False
      let ?s = "escapeDollars t" and ?w = "snd (decodeRune (escapeDollars t))"
      have n: "l_next l = (fst (decodeRune ?s), l\<lparr>l_width := ?w, l_pos := l_pos l + ?w\<rparr>)"
        using pos less.prems(2) by (simp add: l_next_def split: prod.splits)
      have w: "1 \<le> ?w" "?w \<le> length ?s" using decodeRune_width [OF ne] by simp_all
      have "CHR ''$'' \<notin> set (take ?w ?s)" using decodeRune_no_dollar [OF ne] False n by simp
      from escapeDollars_take [OF this w(2)]
      have tk: "take ?w ?s = take ?w t" "drop ?w ?s = escapeDollars (drop ?w t)" by simp_all
      have "drop (l_pos l + ?w) (l_input l) = drop ?w (drop (l_pos l) (l_input l))" by (simp add: add.commute)
      then have "drop (l_pos ?l1) (l_input ?l1) = escapeDollars (drop ?w t)"
        using tk(2) n less.prems(2) by simp
      moreover have "length (drop ?w t) < length t" using w(1) Cons by simp
      ultimately have IH: "sendsText ?l1 (pending ?l1 @ drop ?w t) (lexText uni ?l1)"
        using less.hyps l_next_ok [OF less.prems(1)] by blast
      have "pending ?l1 = pending l @ take ?w t"
        using slice_append [of "l_start l" "l_pos l" "l_pos l + ?w" "l_input l"] less.prems n tk(1)
        by (simp add: pending_def lexOk_def)
      moreover have "lexText uni l = lexText uni ?l1"
        using False pos by (subst lexText.simps) simp
      ultimately show ?thesis using sendsText_prepend [OF IH, of l "[]"] by simp
    next
      case True
      note d = atDollar_ok [OF less.prems(1) True] and dp = dollar_pos [OF True]
      have hd: "hd (escapeDollars t) = CHR ''$''" using dp(2,3) less.prems(2) by (metis hd_drop_conv_nth)
      with Cons have c: "c = CHR ''$''" by (auto simp: escapeDollars_Cons split: if_splits)
      let ?l4 = "atDollar ?l1"
      have "drop (l_pos l + 1) (l_input l) = drop 1 (drop (l_pos l) (l_input l))" by simp
      then have rest: "drop (l_pos l + 1) (l_input l) = CHR ''$'' # escapeDollars cs"
        unfolding less.prems(2) Cons c escapeDollars_Cons by simp
      then have pos1: "l_pos l + 1 < length (l_input l)" by (metis drop_all linorder_not_less list.distinct(1))
      define x where "x = l_emit itemText (snd (l_next (l_ignore (snd (l_peek ?l4)))))"
      have nx: "l_next (l_ignore (snd (l_peek ?l4))) =
          (36, (l_ignore (snd (l_peek ?l4)))\<lparr>l_width := 1, l_pos := l_pos l + 2\<rparr>)"
        using l_next_ascii [of "l_ignore (snd (l_peek ?l4))" "CHR ''$''" "escapeDollars cs"] d(3) rest by simp
      have peek: "fst (l_peek ?l4) = 36"
        using l_next_ascii [of ?l4 "CHR ''$''" "escapeDollars cs"] d(3) rest by (simp add: l_peek_rune)
      have "lexText uni l = lexText uni x"
        using True peek by (subst lexText.simps) (simp add: x_def)
      moreover have "drop (l_pos x) (l_input x) = escapeDollars cs"
      proof -
        have "drop (l_pos l + 2) (l_input l) = drop 1 (drop (l_pos l + 1) (l_input l))" by simp
        then show ?thesis unfolding rest using nx by (simp add: x_def)
      qed
      moreover have "lexOk x" using d(1) by (auto simp: x_def intro!: l_emit_ok l_next_ok)
      ultimately have IH: "sendsText x (pending x @ cs) (lexText uni l)"
        using less.hyps [of cs x] Cons by simp
      have px: "pending x = []" by (simp add: pending_def x_def slice_def)
      have four: "l_items ?l4 = l_items l @ (if l_start l < l_pos l then [mkItem itemText (l_start l) (pending l)] else [])"
        using dp(1) by (simp add: atDollar_def l_emit_def pending_def)
      have "l_items x = l_items ?l4 @ [mkItem itemText (l_pos l + 1) ''$'']"
        using nx d(3) rest by (simp add: x_def slice_def)
      with four have items: "l_items x = l_items l @
          ((if l_start l < l_pos l then [mkItem itemText (l_start l) (pending l)] else []) @ [mkItem itemText (l_pos l + 1) ''$''])"
        by simp
      have "l_start l = l_pos l \<Longrightarrow> pending l = []" by (simp add: pending_def slice_def)
      then have "concat (map i_val ((if l_start l < l_pos l then [mkItem itemText (l_start l) (pending l)] else []) @
          [mkItem itemText (l_pos l + 1) ''$''])) = pending l @ ''$''"
        using less.prems(1) by (auto simp: lexOk_def)
      with sendsText_prepend [OF IH items] px Cons c show ?thesis by (simp add: isText_def)
    qed
  qed
qed

lemma lex_escaped:
  "\<exists>ts e. lex uni (escapeDollars t) = ts @ [e] \<and> list_all isText ts \<and> concat (map i_val ts) = t \<and> i_typ e = itemEOF"
proof -
  let ?l = "newLexer (escapeDollars t)"
  have "sendsText ?l (pending ?l @ t) (lexText uni ?l)"
    by (rule lexText_escaped) (simp, simp add: newLexer_def)
  moreover have "fst (lexText uni ?l) = None \<Longrightarrow> runLexer uni LexText ?l = snd (lexText uni ?l)"
    by (subst runLexer.simps) (auto simp: lexState_def split: prod.splits)
  ultimately show ?thesis
    by (auto simp: sendsText_def lex_def pending_def newLexer_def slice_def)
qed

lemma parseLoop_texts:
  assumes "tokensOk s" and "remaining s = ts @ [e]" and "list_all isText ts" and "i_typ e = itemEOF"
  shows "parseLoop p nodes s = Some (None, nodes @ map (TextNode \<circ> i_val) ts)"
  using assms
proof (induction ts arbitrary: s nodes)
  case Nil
  with p_next_Cons [of s e "[]"] show ?case by (subst parseLoop.simps) simp
next
  case (Cons i ts)
  note nx = p_next_Cons [OF Cons.prems(1), of i "ts @ [e]"]
  have "i_typ i = itemText" using Cons.prems(3) by (simp add: isText_def)
  then have "parseLoop p nodes s = parseLoop p (nodes @ [TextNode (i_val i)]) (snd (p_next s))"
    using nx Cons.prems(2) by (subst parseLoop.simps) simp
  with Cons nx show ?case by simp
qed

lemma renderNodes_texts:
  "renderNodes fs rec mode a h (map (TextNode \<circ> i_val) ts) out errs =
     Some (Ret (Inr (out @ concat (map i_val ts), errs)))"
  by (induction ts arbitrary: out) (simp_all add: Include_def)

lemma Parse_escaped:
  "Parse (Suc depth) uni fs p (escapeDollars t) absPath hasBeen = Some (Ret (Inr (AbsSign @ absPath @ nl @ t)))"
proof -
  obtain ts e where ts: "lex uni (escapeDollars t) = ts @ [e]" "list_all isText ts"
    "concat (map i_val ts) = t" "i_typ e = itemEOF" using lex_escaped by blast
  have "parse uni p (escapeDollars t) = Some (None, map (TextNode \<circ> i_val) ts)"
    unfolding parse_def using parseLoop_texts [of "startTokens (ts @ [e])" ts e p "[]"] ts by simp
  with ts(3) show ?thesis by (simp add: renderNodes_texts)
qed

text \<open>C32: Doubling every dollar sign of a text makes a template whose rendering, in every
  environment and whatever the encoding of the text, is the line that names the file (the sign and
  the path) followed by the text, byte for byte. The line is there without includes, too, and with no
  file to name.\<close>

theorem escaped_text_renders_after_sign:
  "Parse (Suc depth) uni fs p (escapeDollars t) absPath hasBeen = Some (Ret (Inr (AbsSign @ absPath @ nl @ t))) \<and>
   ParseWithoutIncludation (Suc depth) uni fs p (escapeDollars t) = Some (Ret (Inr (AbsSign @ nl @ t)))"
  using Parse_escaped [of depth uni fs p t "[]" "[]"] by (simp add: Parse_escaped ParseWithoutIncludation_def del: Parse.simps)

subsection \<open>The operators\<close>

definition relaxed :: "VariableNode \<Rightarrow> bool" where
  "relaxed v \<longleftrightarrow> \<not> r_NoUnset (vn_Restrict v) \<and> \<not> r_NoEmpty (vn_Restrict v)"

lemma isSet_firstValue: "isSet v \<longleftrightarrow> firstValue (vn_Ident v) (vn_Env v) \<noteq> None"
proof -
  have "list_ex (\<lambda>env. Env_Has env x) es \<longleftrightarrow> firstValue x es \<noteq> None" for x es
    by (induction es) (auto simp: Env_Has_def Env_Get_def split: option.splits)
  then show ?thesis by (simp add: isSet_def)
qed

lemma VariableNode_String_relaxed:
  "relaxed v \<Longrightarrow> VariableNode_String v =
     (vn_Ident v, case firstValue (vn_Ident v) (vn_Env v) of None \<Rightarrow> [] | Some x \<Rightarrow> x, None)"
  by (simp add: relaxed_def VariableNode_String_def validateNoUnset_def validateNoEmpty_def)

text \<open>
  The six operators in the shell (POSIX, parameter expansion), for the value of the variable and
  the word: what the expansion gives, and the value of the variable afterwards. The forms with a
  colon treat an empty variable like an unset one.
\<close>

fun shellExpand :: "itemType \<Rightarrow> string option \<Rightarrow> string \<Rightarrow> string \<times> string option" where
  "shellExpand itemDash v d = (case v of None \<Rightarrow> d | Some x \<Rightarrow> x, v)"
| "shellExpand itemColonDash v d = (case v of None \<Rightarrow> d | Some x \<Rightarrow> if x = [] then d else x, v)"
| "shellExpand itemEquals v d = (case v of None \<Rightarrow> (d, Some d) | Some x \<Rightarrow> (x, v))"
| "shellExpand itemColonEquals v d = (case v of None \<Rightarrow> (d, Some d) | Some x \<Rightarrow> if x = [] then (d, Some d) else (x, v))"
| "shellExpand itemPlus v d = (case v of None \<Rightarrow> [] | Some x \<Rightarrow> d, v)"
| "shellExpand itemColonPlus v d = (case v of None \<Rightarrow> [] | Some x \<Rightarrow> if x = [] then [] else d, v)"
| "shellExpand t v d = (case v of None \<Rightarrow> [] | Some x \<Rightarrow> x, v)"

definition operators :: "itemType set" where
  "operators = {itemColonDash, itemColonEquals, itemDash, itemEquals, itemPlus, itemColonPlus}"

definition valueOf :: "string option \<Rightarrow> string" where
  "valueOf v = (case v of None \<Rightarrow> [] | Some x \<Rightarrow> x)"

lemma substitution_value:
  assumes "relaxed v" and "op \<in> operators" and "Node_String n = (k, d, None)"
  shows "Node_String (SubstitutionNode op v (Some n)) =
    (vn_Ident v, if op = itemColonPlus \<and> firstValue (vn_Ident v) (vn_Env v) = Some [] then d
                 else fst (shellExpand op (firstValue (vn_Ident v) (vn_Env v)) d), None)"
  using assms(2,3)
  by (auto simp: operators_def VariableNode_String_relaxed [OF assms(1)] isSet_firstValue split: option.splits)

text \<open>C33: Without restrictions a substitution with one of the six operators, and a default text or
  variable of value \<open>d\<close>, never fails and gives what the shell gives, with one exception:
  colon-plus on a variable that is set but empty gives the default, where the shell gives nothing.
  And where the shell assigns the default to the variable, for equals and colon-equals, nothing is
  assigned here: the variable rendered right after the substitution still has its old value.\<close>

theorem substitution_versus_shell:
  assumes "relaxed v" and "op \<in> operators" and "Node_String n = (k, d, None)"
  shows "Node_String (SubstitutionNode op v (Some n)) =
      (vn_Ident v, if op = itemColonPlus \<and> firstValue (vn_Ident v) (vn_Env v) = Some [] then d
                   else fst (shellExpand op (firstValue (vn_Ident v) (vn_Env v)) d), None) \<and>
    shellExpand itemColonPlus (Some []) d = ([], Some []) \<and>
    (vn_Ident v \<noteq> Include \<longrightarrow>
      (\<exists>value. Node_String (SubstitutionNode op v (Some n)) = (vn_Ident v, value, None) \<and>
         renderNodes fs rec mode absPath hasBeen [SubstitutionNode op v (Some n), VarNode v] out errs =
           Some (Ret (Inr (out @ value @ valueOf (firstValue (vn_Ident v) (vn_Env v)), errs))))) \<and>
    (snd (shellExpand op (firstValue (vn_Ident v) (vn_Env v)) d) \<noteq> firstValue (vn_Ident v) (vn_Env v) \<longrightarrow>
      op \<in> {itemEquals, itemColonEquals} \<and> snd (shellExpand op (firstValue (vn_Ident v) (vn_Env v)) d) = Some d \<and>
      valueOf (firstValue (vn_Ident v) (vn_Env v)) = [])"
proof (intro conjI impI)
  show "Node_String (SubstitutionNode op v (Some n)) =
      (vn_Ident v, if op = itemColonPlus \<and> firstValue (vn_Ident v) (vn_Env v) = Some [] then d
                   else fst (shellExpand op (firstValue (vn_Ident v) (vn_Env v)) d), None)"
    by (rule substitution_value [OF assms])
  then show "\<exists>value. Node_String (SubstitutionNode op v (Some n)) = (vn_Ident v, value, None) \<and>
       renderNodes fs rec mode absPath hasBeen [SubstitutionNode op v (Some n), VarNode v] out errs =
         Some (Ret (Inr (out @ value @ valueOf (firstValue (vn_Ident v) (vn_Env v)), errs)))" if "vn_Ident v \<noteq> Include"
    using that by (intro exI conjI) (assumption, simp add: VariableNode_String_relaxed [OF assms(1)] valueOf_def
        del: Node_String.simps(3))
qed (use assms(2) in \<open>auto simp: operators_def valueOf_def split: option.splits if_splits\<close>)

text \<open>A file that includes itself.\<close>

definition loopFs :: machineFs where
  "loopFs = \<lparr>fs_home = None, fs_cwd = Some ''/'',
     fs_read = (\<lambda>path. if path = ''/d/a'' then Inr ''${_INCLUDE_:-a}'' else Inl ''missing''),
     fs_stat = (\<lambda>_. None)\<rparr>"

text \<open>Colon-plus on an empty variable, and colon-equals on an unset one that is rendered again.\<close>

theorem substitution_versus_shell_witness:
  "Node_String (SubstitutionNode itemColonPlus (NewVariable ''A'' [[''A=''], [''A=x'']] \<lparr>r_NoUnset = False, r_NoEmpty = False\<rparr>)
     (Some (TextNode ''word''))) = (''A'', ''word'', None) \<and>
   renderNodes loopFs (\<lambda>_ _ _. None) Quick [] [] [SubstitutionNode itemColonEquals (NewVariable ''B'' [[''A='']] \<lparr>r_NoUnset = False, r_NoEmpty = False\<rparr>)
     (Some (TextNode ''word'')), VarNode (NewVariable ''B'' [[''A='']] \<lparr>r_NoUnset = False, r_NoEmpty = False\<rparr>)] [] [] =
     Some (Ret (Inr (''word'', [])))"
proof
  let ?a = "NewVariable ''A'' [[''A=''], [''A=x'']] \<lparr>r_NoUnset = False, r_NoEmpty = False\<rparr>"
  and ?b = "NewVariable ''B'' [[''A='']] \<lparr>r_NoUnset = False, r_NoEmpty = False\<rparr>"
  have relaxed: "relaxed ?a" "relaxed ?b" by (simp_all add: relaxed_def NewVariable_def)
  have ops: "itemColonPlus \<in> operators" "itemColonEquals \<in> operators" by (simp_all add: operators_def)
  have vals: "firstValue (vn_Ident ?a) (vn_Env ?a) = Some []" "firstValue (vn_Ident ?b) (vn_Env ?b) = None"
    by (simp_all add: NewVariable_def Env_Get_def Lookup_def)
  from substitution_versus_shell [OF relaxed(1) ops(1), of "TextNode ''word''" "[]" "''word''"] vals(1)
  show "Node_String (SubstitutionNode itemColonPlus ?a (Some (TextNode ''word''))) = (''A'', ''word'', None)"
    by (simp add: NewVariable_def del: Node_String.simps(3))
  from substitution_versus_shell [OF relaxed(2) ops(2), of "TextNode ''word''" "[]" "''word''" loopFs "\<lambda>_ _ _. None" Quick "[]" "[]" "[]" "[]"] vals(2)
  show "renderNodes loopFs (\<lambda>_ _ _. None) Quick [] [] [SubstitutionNode itemColonEquals ?b (Some (TextNode ''word'')), VarNode ?b] [] [] =
      Some (Ret (Inr (''word'', [])))"
    by (auto simp add: NewVariable_def Include_def valueOf_def del: Node_String.simps(3) renderNodes.simps)
qed

subsection \<open>Includes\<close>

lemma routeLoop_circular: "fst (routeLoop cur has circ route) \<longleftrightarrow> circ \<or> cur \<in> set has"
  by (induction has arbitrary: circ route) auto

lemma circularDependency_iff: "fst (circularDependency cur has) \<longleftrightarrow> cur \<in> set has"
  using routeLoop_circular [of cur has False nl] by (auto simp: circularDependency_def split: prod.splits)

lemma RelOrAbs_uncached [simp]: "\<not> fp_cached (RelOrAbs fs f path)"
  by (simp add: RelOrAbs_def NewFilePath_def)

lemma parseIncludation_cases:
  obtains (ok) f where "inc_filePath (parseIncludation fs base v) = Some f" "\<not> fp_cached f"
      "inc_err (parseIncludation fs base v) = None"
  | (bad) e where "inc_filePath (parseIncludation fs base v) = None" "inc_err (parseIncludation fs base v) = Some e"
  by (cases "inc_filePath (parseIncludation fs base v)")
    (auto simp: parseIncludation_def okIncludation_def badIncludation_def split: list.splits option.splits if_splits)

text \<open>
  The recursive call of an include happens only for a readable file that is not already being
  included.
\<close>

lemma includeValue_returns:
  assumes "\<And>content cur. fs_read fs cur = Inr content \<Longrightarrow> cur \<notin> set has \<Longrightarrow>
      \<exists>r. rec content cur has = Some r"
  shows "\<exists>r. includeValue fs rec base has v = Some r"
proof (cases rule: parseIncludation_cases [of fs base v])
  case (bad e)
  then show ?thesis by (simp add: includeValue_def)
next
  case (ok f)
  obtain circ route where c: "circularDependency (Abs f) has = (circ, route)" by force
  show ?thesis
  proof (cases circ)
    case True
    with ok c show ?thesis by (simp add: includeValue_def)
  next
    case False
    then have nin: "Abs f \<notin> set has" using circularDependency_iff [of "Abs f" has] c by simp
    show ?thesis
    proof (cases "fs_read fs (fp_absPath f)")
      case (Inl e)
      with ok c False show ?thesis by (simp add: includeValue_def ReadFileCompel_def)
    next
      case (Inr content)
      then obtain r where r: "rec content (Abs f) has = Some r" using assms [of "Abs f" content] nin by (auto simp: Abs_def)
      have "fst (ReadFileCompel fs f) = Inr content" using Inr ok(2) by (simp add: ReadFileCompel_def)
      with ok c False r show ?thesis
        by (cases r rule: outcome.exhaust) (auto simp: includeValue_def split: sum.splits)
    qed
  qed
qed

lemma renderNodes_returns:
  assumes "\<And>content cur. fs_read fs cur = Inr content \<Longrightarrow> cur \<notin> set has \<Longrightarrow>
      \<exists>r. rec content cur has = Some r"
  shows "\<exists>r. renderNodes fs rec mode base has ns out errs = Some r"
proof (induction ns arbitrary: out errs)
  case (Cons n ns)
  obtain k v err where n: "Node_String n = (k, v, err)" by (cases "Node_String n") auto
  obtain r where r: "includeValue fs rec base has v = Some r" using includeValue_returns [where fs = fs and has = has and rec = rec, OF assms] by blast
  show ?case
  proof (cases "err \<noteq> None \<and> mode = Quick")
    case True
    with n show ?thesis by auto
  next
    case False
    with n r Cons show ?thesis
      by (cases err; cases mode; cases r rule: outcome.exhaust) auto
  qed
qed simp

text \<open>C34: Rendering returns, however the files include each other, as long as neither the template
  nor any readable file contains a dollar sign followed by an underscore and the readable files
  are finitely many: one more than their number is enough as the bound on the depth, because a
  file that is being included is not entered again.\<close>

theorem rendering_terminates:
  assumes "finite R" and "\<forall>path content. fs_read fs path = Inr content \<longrightarrow>
      path \<in> R \<and> \<not> contains content ''$_''"
    and "\<not> contains tmpl ''$_''" and "card (R - set has - {absPath}) < depth"
  shows "\<exists>r. Parse depth uni fs p tmpl absPath has = Some r"
  using assms(3,4)
proof (induction depth arbitrary: tmpl absPath has)
  case (Suc depth)
  have rec: "\<exists>r. Parse depth uni fs p content cur (has @ [absPath]) = Some r"
    if read: "fs_read fs cur = Inr content" and new: "cur \<notin> set (has @ [absPath])" for content cur
  proof (rule Suc.IH)
    show "\<not> contains content ''$_''" using assms(2) read by blast
    have "R - set (has @ [absPath]) - {cur} \<subset> R - set has - {absPath}"
      using assms(2) read new by auto
    then have "card (R - set (has @ [absPath]) - {cur}) < card (R - set has - {absPath})"
      using assms(1) by (intro psubset_card_mono) auto
    with Suc.prems(2) show "card (R - set (has @ [absPath]) - {cur}) < depth" by simp
  qed
  obtain perr nodes where parse: "parse uni p tmpl = Some (perr, nodes)"
    using parseLoop_returns [of "startTokens (lex uni tmpl)" p "[]"] lex_good [OF Suc.prems(1), of uni]
    by (auto simp: parse_def)
  obtain r where "renderNodes fs (Parse depth uni fs p) (p_Mode p) absPath (has @ [absPath]) nodes
      (AbsSign @ absPath @ nl) (case perr of None \<Rightarrow> [] | Some e \<Rightarrow> [e]) = Some r"
    using renderNodes_returns [where fs = fs and rec = "Parse depth uni fs p" and has = "has @ [absPath]", OF rec] by blast
  with parse show ?case
    by (cases r rule: outcome.exhaust) (auto split: option.splits Mode.splits sum.splits)
qed simp

theorem rendering_terminates_witness:
  "\<exists>r. Parse 2 (\<lambda>_. False) loopFs (New [] [] \<lparr>r_NoUnset = False, r_NoEmpty = False\<rparr>)
     ''${_INCLUDE_:-a}'' ''/d/b'' [] = Some r"
proof (rule rendering_terminates)
  show "finite {''/d/a''}" by simp
  show "\<forall>path content. fs_read loopFs path = Inr content \<longrightarrow>
      path \<in> {''/d/a''} \<and> \<not> contains content ''$_''"
    by (auto simp: loopFs_def contains_def split: if_splits)
  show "\<not> contains ''${_INCLUDE_:-a}'' ''$_''" by (simp add: contains_def)
  show "card ({''/d/a''} - set [] - {''/d/b''}) < 2" by simp
qed

text \<open>A malformed include statement ends the program: its path is nil and is dereferenced before
  the message that was prepared for the user is looked at.\<close>

theorem malformed_include_panics:
  assumes "inc_err (parseIncludation fs base v) = Some e"
  shows "includeValue fs rec base has v = Some (Panic ''nil pointer dereference'')"
proof (cases rule: parseIncludation_cases [of fs base v])
  case (ok f)
  with assms show ?thesis by simp
next
  case (bad e)
  then show ?thesis by (simp add: includeValue_def)
qed

theorem malformed_include_panics_witness:
  "includeValue loopFs (\<lambda>_ _ _. None) ''/d/b'' [] ''a | indent 4'' = Some (Panic ''nil pointer dereference'')"
proof (rule malformed_include_panics)
  show "inc_err (parseIncludation loopFs ''/d/b'' ''a | indent 4'') = Some (''Do not support such syntax yet: '' @ '' indent 4'')"
    by (simp add: parseIncludation_def IncludeSensitive_def IncludeSeparator_def split_def badIncludation_def Indent_def)
qed

text \<open>A bar in the path of an include can be escaped by a backslash only when an operation
  follows. Without one the whole statement, backslashes included, is taken as the path.\<close>

theorem escaped_bar_without_operation:
  assumes "CHR ''|'' \<notin> set a" and "CHR ''|'' \<notin> set b"
  shows "parseIncludation fs base (a @ IncludeSensitive @ b) =
    okIncludation fs base (trimSpace (a @ IncludeSensitive @ b)) (trimSpace (a @ IncludeSensitive @ b)) 0"
proof -
  have "lastIndex (a @ IncludeSensitive @ b) IncludeSensitive = Some (length a)"
  proof (induction a)
    case Nil
    have "lastIndex (CHR ''|'' # b) IncludeSensitive = None"
    proof -
      have "lastIndex b IncludeSensitive = None"
        using assms(2) by (induction b) (auto simp: IncludeSensitive_def dest: hasPrefix_char [of "CHR ''|''", rotated])
      then show ?thesis by (simp add: IncludeSensitive_def)
    qed
    then show ?case by (simp add: IncludeSensitive_def)
  qed simp
  moreover have "split b IncludeSeparator = [b]"
    using assms(2) by (intro split_no_sep [of "CHR ''|''"]) (simp_all add: IncludeSeparator_def)
  moreover have "drop (length a + 2) (a @ IncludeSensitive @ b) = b"
    by (simp add: IncludeSensitive_def)
  ultimately show ?thesis by (simp add: parseIncludation_def)
qed

theorem escaped_bar_without_operation_witness:
  "parseIncludation loopFs ''/d/b'' (''x'' @ IncludeSensitive @ ''y'') =
     okIncludation loopFs ''/d/b'' (trimSpace (''x'' @ IncludeSensitive @ ''y'')) (trimSpace (''x'' @ IncludeSensitive @ ''y'')) 0"
  by (rule escaped_bar_without_operation) simp_all

end
