(* ===== verification/Watch.thy ===== *)
theory Watch
  imports AppMeta
begin

text \<open>
  Watching the cluster: the work queue (\<open>vendor/k8s.io/client-go/util/workqueue\<close>), the
  controller of \<open>internal/nhctl/watcher/commonWatcher.go\<close>, and the two watchers of the webhook,
  \<open>internal/nocalhost-dep/cm/cm_watcher.go\<close> and
  \<open>internal/nocalhost-dep/serviceaccount/service_account_watcher.go\<close>.

  An informer keeps the objects of the cluster in an index and puts the key of every object
  that changes into the queue. A worker takes a key, looks the object up and tells the
  watcher, which keeps a cache of its own. The relation \<open>ctl_step\<close> interleaves the changes of
  the index, the delivery of the keys, the three parts of \<open>processNextItem\<close> and the timer of
  the delayed retries.
\<close>

subsection \<open>The work queue\<close>

record workqueue =
  wq_queue :: "string list"
  wq_dirty :: "string set"
  wq_processing :: "string set"
  wq_shuttingDown :: bool
  wq_failures :: "string \<rightharpoonup> nat"
  wq_waiting :: "string set"

definition newQueue :: workqueue where
  "newQueue = \<lparr>wq_queue = [], wq_dirty = {}, wq_processing = {}, wq_shuttingDown = False,
     wq_failures = Map.empty, wq_waiting = {}\<rparr>"

definition wq_Add :: "string \<Rightarrow> workqueue \<Rightarrow> workqueue" where
  "wq_Add item q =
     (if wq_shuttingDown q then q
      else if item \<in> wq_dirty q then q
      else let q1 = q\<lparr>wq_dirty := insert item (wq_dirty q)\<rparr> in
        if item \<in> wq_processing q1 then q1
        else q1\<lparr>wq_queue := wq_queue q1 @ [item]\<rparr>)"

text \<open>\<open>None\<close> says that \<open>Get\<close> waits; the item is \<open>None\<close> when the queue is shut down and drained.\<close>

definition wq_Get :: "workqueue \<Rightarrow> (string option \<times> workqueue) option" where
  "wq_Get q =
     (case wq_queue q of
        [] \<Rightarrow> if wq_shuttingDown q then Some (None, q) else None
      | item # rest \<Rightarrow>
          Some (Some item, q\<lparr>wq_queue := rest, wq_processing := insert item (wq_processing q),
                             wq_dirty := wq_dirty q - {item}\<rparr>))"

definition wq_Done :: "string \<Rightarrow> workqueue \<Rightarrow> workqueue" where
  "wq_Done item q =
     (let q1 = q\<lparr>wq_processing := wq_processing q - {item}\<rparr> in
      if item \<in> wq_dirty q1 then q1\<lparr>wq_queue := wq_queue q1 @ [item]\<rparr> else q1)"

definition wq_ShutDown :: "workqueue \<Rightarrow> workqueue" where
  "wq_ShutDown q = q\<lparr>wq_shuttingDown := True\<rparr>"

definition NumRequeues :: "string \<Rightarrow> workqueue \<Rightarrow> nat" where
  "NumRequeues item q = get0 0 (wq_failures q) item"

text \<open>
  The delay is always positive, so the item first waits. An item that waits already is not
  put there twice.
\<close>

definition AddRateLimited :: "string \<Rightarrow> workqueue \<Rightarrow> workqueue" where
  "AddRateLimited item q =
     (let q1 = q\<lparr>wq_failures := (wq_failures q)(item \<mapsto> get0 0 (wq_failures q) item + 1)\<rparr> in
      if wq_shuttingDown q1 then q1
      else q1\<lparr>wq_waiting := insert item (wq_waiting q1)\<rparr>)"

definition Forget :: "string \<Rightarrow> workqueue \<Rightarrow> workqueue" where
  "Forget item q = q\<lparr>wq_failures := map_delete item (wq_failures q)\<rparr>"

text \<open>The delay of a waiting item is over.\<close>

definition wq_ready :: "string \<Rightarrow> workqueue \<Rightarrow> workqueue" where
  "wq_ready item q = wq_Add item (q\<lparr>wq_waiting := wq_waiting q - {item}\<rparr>)"

subsection \<open>The controller\<close>

record ('o, 's) Watcher =
  CreateOrUpdate :: "string \<Rightarrow> 'o \<Rightarrow> 's \<Rightarrow> gerr option \<times> 's"
  Delete_key :: "string \<Rightarrow> 's \<Rightarrow> gerr option \<times> 's"

record ('o, 's) Controller =
  ct_indexer :: "string \<rightharpoonup> 'o"
  ct_queue :: workqueue
  ct_watcher :: 's

definition invoke ::
  "('o, 's) Watcher \<Rightarrow> string \<Rightarrow> ('o, 's) Controller \<Rightarrow> gerr option \<times> ('o, 's) Controller" where
  "invoke W key c =
     (case (case ct_indexer c key of
              Some obj \<Rightarrow> CreateOrUpdate W key obj (ct_watcher c)
            | None \<Rightarrow> Delete_key W key (ct_watcher c)) of
        (err, s) \<Rightarrow> (err, c\<lparr>ct_watcher := s\<rparr>))"

definition handleErr :: "gerr option \<Rightarrow> string \<Rightarrow> ('o, 's) Controller \<Rightarrow> ('o, 's) Controller" where
  "handleErr err key c =
     (let q = ct_queue c in
      if err = None then c\<lparr>ct_queue := Forget key q\<rparr>
      else if NumRequeues key q < 5 then c\<lparr>ct_queue := AddRateLimited key q\<rparr>
      else c\<lparr>ct_queue := Forget key q\<rparr>)"

definition processNextItem ::
  "('o, 's) Watcher \<Rightarrow> ('o, 's) Controller \<Rightarrow> (bool \<times> ('o, 's) Controller) option" where
  "processNextItem W c =
     (case wq_Get (ct_queue c) of
        None \<Rightarrow> None
      | Some (None, q) \<Rightarrow> Some (False, c\<lparr>ct_queue := q\<rparr>)
      | Some (Some key, q) \<Rightarrow>
          (case invoke W key (c\<lparr>ct_queue := q\<rparr>) of (err, c1) \<Rightarrow>
             let c2 = handleErr err key c1 in
             Some (True, c2\<lparr>ct_queue := wq_Done key (ct_queue c2)\<rparr>)))"

text \<open>The three event handlers of \<open>NewController\<close> do the same with the key of the object.\<close>

definition eventHandler :: "string \<Rightarrow> ('o, 's) Controller \<Rightarrow> ('o, 's) Controller" where
  "eventHandler key c = c\<lparr>ct_queue := wq_Add key (ct_queue c)\<rparr>"

subsection \<open>The config map watcher\<close>

record CmWatcher =
  cmw_namespace :: string
  cmw_cache :: "string \<rightharpoonup> ConfigMap"

definition cm_join :: "string \<Rightarrow> ConfigMap \<Rightarrow> CmWatcher \<Rightarrow> gerr option \<times> CmWatcher" where
  "cm_join app cm w = (None, w\<lparr>cmw_cache := (cmw_cache w)(app \<mapsto> cm)\<rparr>)"

definition cm_left :: "string \<Rightarrow> CmWatcher \<Rightarrow> CmWatcher" where
  "cm_left app w = w\<lparr>cmw_cache := map_delete app (cmw_cache w)\<rparr>"

definition cm_CreateOrUpdate :: "string \<Rightarrow> ConfigMap \<Rightarrow> CmWatcher \<Rightarrow> gerr option \<times> CmWatcher" where
  "cm_CreateOrUpdate key cm w =
     (let appName = GetAppNameFromConfigMapName (cfm_Name cm) in
      if appName = [] then (None, w) else cm_join appName cm w)"

definition cm_Delete :: "string \<Rightarrow> CmWatcher \<Rightarrow> gerr option \<times> CmWatcher" where
  "cm_Delete key w =
     (let (namespace, appName) =
        (case index key ''/'' of
           None \<Rightarrow> ([], [])
         | Some idx \<Rightarrow>
             if 0 < idx \<and> idx + 1 < length key
             then (take idx key, GetAppNameFromConfigMapName (drop (idx + 1) key))
             else ([], []))
      in if appName \<noteq> [] \<and> namespace \<noteq> [] then (None, cm_left appName w) else (None, w))"

definition cmWatcher :: "(ConfigMap, CmWatcher) Watcher" where
  "cmWatcher = \<lparr>CreateOrUpdate = cm_CreateOrUpdate, Delete_key = cm_Delete\<rparr>"

definition NewCmWatcher :: CmWatcher where
  "NewCmWatcher = \<lparr>cmw_namespace = [], cmw_cache = Map.empty\<rparr>"

text \<open>
  \<open>listed\<close> is what listing the labelled config maps of the namespace returned. The loop stores the
  address of its variable, which Go 1.16 has once for the whole loop: every entry ends up pointing to
  the config map that was listed last.
\<close>

definition cm_Prepare :: "gerr + ConfigMap list \<Rightarrow> string \<Rightarrow> CmWatcher \<Rightarrow> CmWatcher" where
  "cm_Prepare listed namespace w =
     (let w1 = w\<lparr>cmw_namespace := namespace\<rparr> in
      case listed of
        Inl _ \<Rightarrow> w1
      | Inr items \<Rightarrow>
          fold (\<lambda>item w.
            let appName = GetAppNameFromConfigMapName (cfm_Name item) in
            if appName = [] then w else snd (cm_join appName (last items) w)) items w1)"

subsection \<open>The service account watcher\<close>

record saSet =
  sa_inner :: "string \<rightharpoonup> bool"
  sa_helper :: "string \<rightharpoonup> string"

record ServiceAccount =
  sa_Name :: string
  sa_Namespace :: string
  sa_UID :: string
  sa_Secrets :: "string list"

definition newSet :: saSet where
  "newSet = \<lparr>sa_inner = Map.empty, sa_helper = Map.empty\<rparr>"

definition sa_record :: "string \<Rightarrow> bool \<Rightarrow> string \<Rightarrow> saSet \<Rightarrow> saSet" where
  "sa_record key isClusterAdmin saName s =
     s\<lparr>sa_inner := (sa_inner s)(key \<mapsto> isClusterAdmin), sa_helper := (sa_helper s)(saName \<mapsto> key)\<rparr>"

definition removeByServiceAccountName :: "string \<Rightarrow> saSet \<Rightarrow> saSet" where
  "removeByServiceAccountName saName s =
     (case sa_helper s saName of
        None \<Rightarrow> s
      | Some uid \<Rightarrow> s\<lparr>sa_inner := map_delete uid (sa_inner s), sa_helper := map_delete saName (sa_helper s)\<rparr>)"

text \<open>
  The kubeconfig of a service account, read from its secret by
  \<open>pkg/nocalhost-api/pkg/setupcluster/reader.go\<close>. The last missing key is reported.
\<close>

record devKubeConfigReader =
  kr_inServer :: string
  kr_inNameSpace :: string
  kr_secret :: Secret
  kr_token :: string
  kr_ca :: string
  kr_err :: "gerr option"

definition NewDevKubeConfigReader :: "Secret \<Rightarrow> string \<Rightarrow> string \<Rightarrow> devKubeConfigReader" where
  "NewDevKubeConfigReader s server namespace =
     \<lparr>kr_inServer = server, kr_inNameSpace = namespace, kr_secret = s, kr_token = [], kr_ca = [], kr_err = None\<rparr>"

definition secretValue :: "Secret \<Rightarrow> string \<Rightarrow> string" where
  "secretValue s k = (case s_Data s of None \<Rightarrow> [] | Some d \<Rightarrow> get_str d k)"

definition GetToken :: "devKubeConfigReader \<Rightarrow> devKubeConfigReader" where
  "GetToken d =
     (let d1 = d\<lparr>kr_token := secretValue (kr_secret d) ''token''\<rparr> in
      if kr_token d1 = [] then d1\<lparr>kr_err := Some ''get dev serviceAccount token err''\<rparr> else d1)"

definition GetCA :: "devKubeConfigReader \<Rightarrow> devKubeConfigReader" where
  "GetCA d =
     (let d1 = d\<lparr>kr_ca := secretValue (kr_secret d) ''ca.crt''\<rparr> in
      if kr_ca d1 = [] then d1\<lparr>kr_err := Some ''get dev serviceAccount ca err''\<rparr> else d1)"

text \<open>The parts of the kubeconfig: server, certificate, token and the name of cluster and context.\<close>

record kubeConfigStruct =
  kc_Server :: string
  kc_CA :: string
  kc_Token :: string
  kc_Name :: string

definition AssembleDevKubeConfig :: "devKubeConfigReader \<Rightarrow> kubeConfigStruct" where
  "AssembleDevKubeConfig d =
     \<lparr>kc_Server = kr_inServer d, kc_CA = kr_ca d, kc_Token = kr_token d, kc_Name = kr_inNameSpace d\<rparr>"

text \<open>
  What the watcher asks of the cluster. \<open>sa_restConfig\<close> stands for encoding the kubeconfig and
  reading it back as a client, \<open>sa_accessReview\<close> for the review of all verbs on everything.
\<close>

record 'w saApi =
  sa_getSecret :: "string \<Rightarrow> string \<Rightarrow> 'w \<Rightarrow> (gerr + Secret) \<times> 'w"
  sa_inClusterHost :: "gerr + string"
  sa_restConfig :: "kubeConfigStruct \<Rightarrow> gerr option"
  sa_accessReview :: "kubeConfigStruct \<Rightarrow> 'w \<Rightarrow> (gerr + bool) \<times> 'w"

definition isClusterAdmin_of :: "'w saApi \<Rightarrow> ServiceAccount \<Rightarrow> 'w \<Rightarrow> (bool \<times> gerr option) \<times> 'w" where
  "isClusterAdmin_of api sa w =
     (case sa_Secrets sa of
        [] \<Rightarrow> ((False, None), w)
      | name # _ \<Rightarrow>
          (case sa_getSecret api (sa_Namespace sa) name w of
             (Inl err, w1) \<Rightarrow> ((False, Some err), w1)
           | (Inr secret, w1) \<Rightarrow>
               (case sa_inClusterHost api of
                  Inl err \<Rightarrow> ((False, Some err), w1)
                | Inr host \<Rightarrow>
                    (let d = GetToken (GetCA (NewDevKubeConfigReader secret host (sa_Namespace sa)));
                         cfg = AssembleDevKubeConfig d
                     in case kr_err d of
                          Some err \<Rightarrow> ((False, Some err), w1)
                        | None \<Rightarrow>
                            (case sa_restConfig api cfg of
                               Some _ \<Rightarrow> ((False, None), w1)
                             | None \<Rightarrow>
                                 (case sa_accessReview api cfg w1 of
                                    (Inl err, w2) \<Rightarrow> ((False, Some err), w2)
                                  | (Inr allowed, w2) \<Rightarrow> ((allowed, None), w2)))))))"

definition sa_join :: "'w saApi \<Rightarrow> ServiceAccount \<Rightarrow> saSet \<times> 'w \<Rightarrow> gerr option \<times> saSet \<times> 'w" where
  "sa_join api sa s =
     (case isClusterAdmin_of api sa (snd s) of
        ((admin, _), w) \<Rightarrow> (None, sa_record (sa_UID sa) admin (sa_Name sa) (fst s), w))"

definition sa_left :: "string \<Rightarrow> saSet \<Rightarrow> saSet" where
  "sa_left saName s =
     (case index saName ''/'' of
        None \<Rightarrow> s
      | Some idx \<Rightarrow>
          if 0 < idx \<and> idx + 1 < length saName then removeByServiceAccountName (drop (idx + 1) saName) s
          else s)"

definition sa_Delete :: "string \<Rightarrow> saSet \<times> 'w \<Rightarrow> gerr option \<times> saSet \<times> 'w" where
  "sa_Delete key s =
     (case GetApplicationName key of
        Inl err \<Rightarrow> (Some err, s)
      | Inr appName \<Rightarrow> (None, sa_left appName (fst s), snd s))"

definition saWatcher :: "'w saApi \<Rightarrow> (ServiceAccount, saSet \<times> 'w) Watcher" where
  "saWatcher api = \<lparr>CreateOrUpdate = \<lambda>_. sa_join api, Delete_key = sa_Delete\<rparr>"

definition IsClusterAdmin :: "string \<Rightarrow> saSet \<Rightarrow> bool option" where
  "IsClusterAdmin uid s = sa_inner s uid"

definition sa_Prepare :: "'w saApi \<Rightarrow> gerr + ServiceAccount list \<Rightarrow> saSet \<times> 'w \<Rightarrow> saSet \<times> 'w" where
  "sa_Prepare api listed s =
     (case listed of
        Inl _ \<Rightarrow> s
      | Inr items \<Rightarrow>
          fold (\<lambda>item (c, w). case isClusterAdmin_of api item w of
              ((admin, _), w1) \<Rightarrow> (sa_record (sa_UID item) admin (sa_Name item) c, w1)) items s)"

end
