(* ===== verification/CfgRender.thy ===== *)
theory CfgRender
  imports Profile EnvParse
begin

text \<open>
  From a configuration text to the configuration: \<open>internal/nhctl/app/build.go\<close> from
  \<open>RenderConfigForSvc\<close> on, \<open>ConvertConfigFileV1ToV2\<close> of \<open>config_converter.go\<close>, and the loaders
  of \<open>application.go\<close>. A text is rendered by the template engine, read as a YAML tree, the
  paths of environment files in the tree are made absolute, the files are read into the
  environment lists, and duplicate services are removed.

  Parameters: the YAML libraries, the machine, the process environment, the temporary
  directory, and the order of the walks over two maps. \<open>None\<close> means that the template engine
  does not return.
\<close>

text \<open>A node of the YAML tree (\<open>pkg/nhctl/utils/custom_yaml_v3/yaml.go\<close>).\<close>

datatype ynode =
  YNode (y_Tag: string) (y_Value: string) (y_HeadComment: string) (y_FootComment: string)
    (y_Content: "ynode list")

record renderEnv =
  re_fs :: machineFs
  re_environ :: "string list"
  re_unicode :: "rune \<Rightarrow> bool"
  re_depth :: nat
  re_tmpDir :: string
  re_mkdir :: "gerr option"
  re_write :: "string \<Rightarrow> string \<Rightarrow> gerr option"
  re_envOrder :: "(string \<rightharpoonup> string) \<Rightarrow> string list"
  re_svcOrder :: "(string \<rightharpoonup> nat) \<Rightarrow> string list"
  re_yamlSvcs :: "string \<Rightarrow> ServiceConfigV2 list \<times> gerr option"
  re_yamlSvc :: "string \<Rightarrow> gerr + ServiceConfigV2"
  re_yamlV1 :: "string \<Rightarrow> gerr + NocalHostAppConfig"
  re_yamlV2 :: "string \<Rightarrow> NocalHostAppConfigV2"
  re_yamlOfV2 :: "NocalHostAppConfigV2 \<Rightarrow> gerr + string"
  re_yamlTree :: "string \<Rightarrow> gerr + ynode"
  re_decode :: "ynode \<Rightarrow> NocalHostAppConfigV2"

subsection \<open>Paths of environment files in the tree\<close>

fun includeLoop :: "machineFs \<Rightarrow> string list \<Rightarrow> FilePathEnhance option \<Rightarrow> FilePathEnhance option" where
  "includeLoop fs [] lastFp = lastFp"
| "includeLoop fs (t # ts) lastFp =
     includeLoop fs ts
       (if hasPrefix t AbsSign then Some (NewFilePath fs (trimSpace (trimPrefix t AbsSign))) else lastFp)"

definition includeComment :: "machineFs \<Rightarrow> string \<Rightarrow> FilePathEnhance option" where
  "includeComment fs comment = includeLoop fs (split comment nl) None"

definition orPath :: "FilePathEnhance option \<Rightarrow> FilePathEnhance \<Rightarrow> FilePathEnhance" where
  "orPath cm current = (case cm of Some f \<Rightarrow> f | None \<Rightarrow> current)"

definition nextDepth :: "string \<Rightarrow> int \<Rightarrow> int" where
  "nextDepth tag d =
     (if d = 1 \<and> tag = ''!!seq'' then d + 1
      else if d = 2 \<and> tag = ''!!map'' then d + 1
      else max (d - 1) 0)"

text \<open>
  \<open>doParseNode\<close> changes the values of the tree in place and returns the file the text after
  the node comes from. \<open>doParseContent\<close> is its loop over the children, whose variables are
  the current file, the depth and whether the next child is a path.
\<close>

fun doParseNode :: "machineFs \<Rightarrow> ynode \<Rightarrow> FilePathEnhance \<Rightarrow> int \<Rightarrow> bool \<Rightarrow> ynode \<times> FilePathEnhance"
  and doParseContent ::
    "machineFs \<Rightarrow> ynode list \<Rightarrow> FilePathEnhance \<Rightarrow> int \<Rightarrow> bool \<Rightarrow> ynode list \<times> FilePathEnhance" where
  "doParseNode fs (YNode tag v hc fc ns) currentPath d nowHit =
     (let current = orPath (includeComment fs hc) currentPath;
          v' = (if nowHit then Abs (RelOrAbs fs (RelOrAbs fs current ''../'') v) else v)
      in case doParseContent fs ns current (nextDepth tag d) False of (ns', current') \<Rightarrow>
           (YNode tag v' hc fc ns', orPath (includeComment fs fc) current'))"
| "doParseContent fs [] currentPath d hit = ([], currentPath)"
| "doParseContent fs (n # ns) currentPath d hit =
     (case doParseNode fs n currentPath d hit of (n', current) \<Rightarrow>
        let d' = (if y_Value n' = ''envFile'' then 1 else d) in
        case doParseContent fs ns current d' (d' = 3 \<and> y_Value n' = ''path'') of (ns', current') \<Rightarrow>
          (n' # ns', current'))"

definition parseNocalhostConfigEnvFile ::
  "renderEnv \<Rightarrow> string \<Rightarrow> FilePathEnhance \<Rightarrow> gerr + ynode" where
  "parseNocalhostConfigEnvFile re yAml currentPath =
     (case re_yamlTree re yAml of
        Inl err \<Rightarrow> Inl err
      | Inr n \<Rightarrow> Inr (fst (doParseNode (re_fs re) n currentPath 0 False)))"

subsection \<open>Environment files into environments\<close>

definition mergeMap :: "(string \<rightharpoonup> string) \<Rightarrow> (string \<rightharpoonup> string) option \<Rightarrow> (string \<rightharpoonup> string)" where
  "mergeMap front back = (case back of None \<Rightarrow> front | Some b \<Rightarrow> front ++ b)"

definition getEnvFromEnvFileArr :: "machineFs \<Rightarrow> string list \<Rightarrow> (string \<rightharpoonup> string)" where
  "getEnvFromEnvFileArr fs envFiles =
     fold (\<lambda>path envs. mergeMap envs (ReadEnvFileKV fs (Some (NewFilePath fs path)))) envFiles Map.empty"

text \<open>The list both functions below build: what the files say, then the explicit entries.\<close>

definition envArr :: "renderEnv \<Rightarrow> string list \<Rightarrow> Profile.Env list \<Rightarrow> Profile.Env list" where
  "envArr re envFiles env =
     (let m = getEnvFromEnvFileArr (re_fs re) envFiles in
      map (\<lambda>k. \<lparr>env_Name = k, env_Value = get_str m k\<rparr>) (re_envOrder re m) @ env)"

definition envFromOfContainer :: "renderEnv \<Rightarrow> ContainerConfig \<Rightarrow> ContainerConfig" where
  "envFromOfContainer re c =
     (let c1 = (case cc_Dev c of
                  None \<Rightarrow> c
                | Some d \<Rightarrow>
                    (case cd_EnvFrom d of
                       None \<Rightarrow> c
                     | Some files \<Rightarrow>
                         c\<lparr>cc_Dev := Some (d\<lparr>cd_Env := envArr re files (cd_Env d), cd_EnvFrom := None\<rparr>)\<rparr>))
      in case cc_Install c1 of
           None \<Rightarrow> c1
         | Some i \<Rightarrow>
             if ci_EnvFrom i = [] then c1
             else c1\<lparr>cc_Install := Some (i\<lparr>ci_Env := envArr re (ci_EnvFrom i) (ci_Env i), ci_EnvFrom := []\<rparr>)\<rparr>)"

definition parseEnvFromIntoEnvForSvcConfig :: "renderEnv \<Rightarrow> ServiceConfigV2 \<Rightarrow> ServiceConfigV2" where
  "parseEnvFromIntoEnvForSvcConfig re svc =
     svc\<lparr>svc_ContainerConfigs := map (envFromOfContainer re) (svc_ContainerConfigs svc)\<rparr>"

definition parseEnvFromIntoEnv :: "renderEnv \<Rightarrow> NocalHostAppConfigV2 \<Rightarrow> NocalHostAppConfigV2" where
  "parseEnvFromIntoEnv re config =
     (let app = cfg_ApplicationConfig config in
      config\<lparr>cfg_ApplicationConfig := app
        \<lparr>ac_Env := envArr re (ac_EnvFrom app) (ac_Env app),
         ac_ServiceConfigs := map (parseEnvFromIntoEnvForSvcConfig re) (ac_ServiceConfigs app),
         ac_EnvFrom := []\<rparr>\<rparr>)"

subsection \<open>Rendering\<close>

text \<open>Every service name with the position of the last service of that name.\<close>

fun lastIndexes :: "nat \<Rightarrow> ServiceConfigV2 list \<Rightarrow> (string \<rightharpoonup> nat) \<Rightarrow> (string \<rightharpoonup> nat)" where
  "lastIndexes i [] maps = maps"
| "lastIndexes i (c # cs) maps = lastIndexes (Suc i) cs (maps(svc_Name c \<mapsto> i))"

definition dedupServices :: "renderEnv \<Rightarrow> ServiceConfigV2 list \<Rightarrow> ServiceConfigV2 list" where
  "dedupServices re cs =
     (let maps = lastIndexes 0 cs Map.empty in
      map (\<lambda>name. cs ! get0 0 maps name) (re_svcOrder re maps))"

definition unquote :: "string \<Rightarrow> string" where
  "unquote value =
     (if 2 \<le> length value \<and> hd value \<in> {CHR 0x22, CHR 0x27} \<and> last value \<in> {CHR 0x22, CHR 0x27}
      then butlast (tl value) else value)"

fun envFileLoop :: "string list \<Rightarrow> bool \<Rightarrow> string" where
  "envFileLoop [] startMatch = []"
| "envFileLoop (line # ls) startMatch =
     (let pureText = trimSpace line in
      if hasPrefix line ''configProperties:'' then envFileLoop ls True
      else if startMatch \<and> hasPrefix line '' '' then
        (if hasPrefix pureText ''envFile: '' then unquote (trimSpace (drop 11 line))
         else envFileLoop ls startMatch)
      else if pureText = [] then envFileLoop ls startMatch
      else if hasPrefix pureText ''#'' then envFileLoop ls startMatch
      else envFileLoop ls False)"

text \<open>A file that cannot be opened ends the process.\<close>

definition gettingRenderEnvFile :: "machineFs \<Rightarrow> string \<Rightarrow> string outcome" where
  "gettingRenderEnvFile fs path =
     (case fs_read fs path of
        Inl err \<Rightarrow> Panic err
      | Inr content \<Rightarrow> Ret (envFileLoop (scanLines content) False))"

definition renderWith :: "renderEnv \<Rightarrow> machineFs \<Rightarrow> RenderItem \<Rightarrow> FilePathEnhance option \<Rightarrow>
    (gerr + string) outcome option" where
  "renderWith re fs item envFile = Render (re_depth re) (re_unicode re) fs (re_environ re) item envFile"

definition ConvertConfigFileV1ToV2 :: "renderEnv \<Rightarrow> string \<Rightarrow> string \<Rightarrow> gerr + machineFs" where
  "ConvertConfigFileV1ToV2 re srcFile destFile =
     (case fs_read (re_fs re) srcFile of
        Inl err \<Rightarrow> Inl (wrap [] err)
      | Inr bytes \<Rightarrow>
          (case re_yamlV1 re bytes of
             Inl err \<Rightarrow> Inl (wrap [] err)
           | Inr config \<Rightarrow>
               (case convertConfigV1ToV2 (Some config) of
                  Inl err \<Rightarrow> Inl err
                | Inr configV2 \<Rightarrow>
                    (case re_yamlOfV2 re configV2 of
                       Inl err \<Rightarrow> Inl (wrap [] err)
                     | Inr v2Bytes \<Rightarrow>
                         (case re_write re destFile v2Bytes of
                            Some err \<Rightarrow> Inl (wrap [] err)
                          | None \<Rightarrow> Inr ((re_fs re)\<lparr>fs_read := (fs_read (re_fs re))(destFile := Inr v2Bytes)\<rparr>))))))"

text \<open>The first half of \<open>RenderConfig\<close>: the text of the configuration of a local file, converted if it is version 1.\<close>

definition renderLocal :: "renderEnv \<Rightarrow> RenderItem \<Rightarrow> string \<Rightarrow> (gerr + string) outcome option" where
  "renderLocal re item location =
     (let fs = re_fs re; configFile = NewFilePath fs location in
      case gettingRenderEnvFile fs location of
        Panic m \<Rightarrow> Some (Panic m)
      | Ret relPath \<Rightarrow>
          (let envFile = (if relPath \<noteq> [] then Some (RelOrAbs fs (RelOrAbs fs configFile ''../'') relPath) else None) in
           case renderWith re fs item envFile of
             None \<Rightarrow> None
           | Some (Panic m) \<Rightarrow> Some (Panic m)
           | Some (Ret (Inl err)) \<Rightarrow> Some (Ret (Inl err))
           | Some (Ret (Inr renderedStr)) \<Rightarrow>
               (case checkConfigVersion (re_yamlV2 re) renderedStr of
                  Inl err \<Rightarrow> Some (Ret (Inl err))
                | Inr configVersion \<Rightarrow>
                    if configVersion = ''v1'' then
                      (case re_mkdir re of
                         Some err \<Rightarrow> Some (Ret (Inl (wrap ''Fail to create tmp dir'' err)))
                       | None \<Rightarrow>
                           (let v2Path = re_tmpDir re @ ''/.config_v2.yaml'' in
                            case ConvertConfigFileV1ToV2 re location v2Path of
                              Inl err \<Rightarrow> Some (Ret (Inl err))
                            | Inr fs' \<Rightarrow>
                                renderWith re fs' (LocalFileRenderItem (NewFilePath fs' v2Path)) envFile))
                    else Some (Ret (Inr renderedStr)))))"

definition RenderConfig :: "renderEnv \<Rightarrow> RenderItem \<Rightarrow> (gerr + NocalHostAppConfigV2) outcome option" where
  "RenderConfig re item =
     (let location = GetLocation item in
      case (if location \<noteq> [] then renderLocal re item location else renderWith re (re_fs re) item None) of
        None \<Rightarrow> None
      | Some (Panic m) \<Rightarrow> Some (Panic m)
      | Some (Ret (Inl err)) \<Rightarrow> Some (Ret (Inl err))
      | Some (Ret (Inr renderedStr)) \<Rightarrow>
          (case parseNocalhostConfigEnvFile re renderedStr (NewFilePath (re_fs re) location) of
             Inl err \<Rightarrow> Some (Ret (Inl (wrap [] err)))
           | Inr node \<Rightarrow>
               (let config = parseEnvFromIntoEnv re (re_decode re node);
                    app = cfg_ApplicationConfig config
                in Some (Ret (Inr (config\<lparr>cfg_ApplicationConfig :=
                     app\<lparr>ac_ServiceConfigs := dedupServices re (ac_ServiceConfigs app)\<rparr>\<rparr>))))))"

definition RenderConfigForSvc :: "renderEnv \<Rightarrow> RenderItem \<Rightarrow> (gerr + ServiceConfigV2 list) outcome option" where
  "RenderConfigForSvc re item =
     (case renderWith re (re_fs re) item None of
        None \<Rightarrow> None
      | Some (Panic m) \<Rightarrow> Some (Panic m)
      | Some (Ret (Inl err)) \<Rightarrow> Some (Ret (Inl err))
      | Some (Ret (Inr renderedStr)) \<Rightarrow>
          (case re_yamlSvcs re renderedStr of
             (cfgs, None) \<Rightarrow> Some (Ret (Inr cfgs))
           | (cfgs, Some _) \<Rightarrow>
               (case re_yamlSvc re renderedStr of
                  Inl _ \<Rightarrow> Some (Ret (Inr cfgs))
                | Inr single \<Rightarrow>
                    Some (Ret (Inr (if svc_ContainerConfigs single \<noteq> [] \<or> svc_DependLabelSelector single \<noteq> None
                                    then cfgs @ [single] else cfgs))))))"

subsection \<open>Loading the configuration of a service\<close>

definition doLoadProfileFromSvcConfig ::
  "renderEnv \<Rightarrow> RenderItem \<Rightarrow> string \<Rightarrow> SvcType \<Rightarrow> (gerr + ServiceConfigV2) outcome option" where
  "doLoadProfileFromSvcConfig re item svcName svcType =
     (case RenderConfigForSvc re item of
        None \<Rightarrow> None
      | Some (Panic m) \<Rightarrow> Some (Panic m)
      | Some (Ret (Inl err)) \<Rightarrow> Some (Ret (Inl err))
      | Some (Ret (Inr config)) \<Rightarrow>
          Some (Ret
            (case config of
               [c] \<Rightarrow> if svc_Name c = [] then Inr (c\<lparr>svc_Name := svcName, svc_Type := svcType\<rparr>)
                      else if svcMatch svcName svcType c then Inr c
                      else Inl ''Local config loaded, but no valid config found''
             | _ \<Rightarrow> (case find (svcMatch svcName svcType) config of
                       Some c \<Rightarrow> Inr c
                     | None \<Rightarrow> Inl ''Local config loaded, but no valid config found''))))"

definition doLoadProfileFromAppConfig ::
  "renderEnv \<Rightarrow> RenderItem \<Rightarrow> string \<Rightarrow> SvcType \<Rightarrow>
     (gerr + NocalHostAppConfigV2 \<times> ServiceConfigV2 option) outcome option" where
  "doLoadProfileFromAppConfig re item svcName svcType =
     (case RenderConfig re item of
        None \<Rightarrow> None
      | Some (Panic m) \<Rightarrow> Some (Panic m)
      | Some (Ret (Inl err)) \<Rightarrow> Some (Ret (Inl err))
      | Some (Ret (Inr appConfig)) \<Rightarrow>
          Some (Ret (Inr (appConfig, GetSvcConfigV2 (Some appConfig) svcName svcType))))"

definition LoadSvcCfgFromStrIfValid ::
  "renderEnv \<Rightarrow> string \<Rightarrow> string \<Rightarrow> SvcType \<Rightarrow>
     (gerr + NocalHostAppConfigV2 option \<times> ServiceConfigV2 option) outcome option" where
  "LoadSvcCfgFromStrIfValid re config svcName svcType =
     (case doLoadProfileFromSvcConfig re (TextRenderItem config) svcName svcType of
        None \<Rightarrow> None
      | Some (Panic m) \<Rightarrow> Some (Panic m)
      | Some (Ret (Inr svcCfg)) \<Rightarrow> Some (Ret (Inr (None, Some svcCfg)))
      | Some (Ret (Inl _)) \<Rightarrow>
          (case doLoadProfileFromAppConfig re (TextRenderItem config) svcName svcType of
             None \<Rightarrow> None
           | Some (Panic m) \<Rightarrow> Some (Panic m)
           | Some (Ret (Inl _)) \<Rightarrow>
               Some (Ret (Inl (''can not load cfg, may has syntax error, Content: '' @ config)))
           | Some (Ret (Inr (appCfg, svcCfg))) \<Rightarrow> Some (Ret (Inr (Some appCfg, svcCfg)))))"

end
