(* ===== verification/Webhook.thy ===== *)
theory Webhook
  imports Watch CfgRender
begin

text \<open>
  The admission webhook of \<open>internal/nocalhost-dep/webhook\<close> (\<open>webhook.go\<close>, \<open>patcher.go\<close>,
  \<open>annotation.go\<close>). For a request of the API server it decides whether to admit the object
  and which JSON patch to apply: an annotation naming the application, init containers that
  wait for the dependencies of a workload, and environment variables of its containers.

  Parameters, the fields of \<open>whEnv\<close>: the decoders of JSON and YAML, what listing objects in
  the cluster returns, the annotations of the owners of an object in the order in which
  they are found, and the walk over a map. A fatal log message ends the process, as a
  panic does.
\<close>

record EnvVar =
  evar_Name :: string
  evar_Value :: string

record Container =
  ctr_Name :: string
  ctr_Image :: string
  ctr_ImagePullPolicy :: string
  ctr_Command :: "string list"
  ctr_Env :: "EnvVar list"

datatype patchValue =
  EnvValue EnvVar | EnvListValue "EnvVar list" | ContainerValue Container
| ContainerListValue "Container list" | AnnotationsValue "string \<rightharpoonup> string"

record patchOperation =
  po_Op :: string
  po_Path :: string
  po_Value :: patchValue

record envVar =
  xv_EnvVar :: "EnvVar list"
  xv_ContainerIndex :: nat

text \<open>The dependency description; \<open>pods\<close> and \<open>jobs\<close> distinguish an absent list from an empty one.\<close>

record installEnv =
  ie_Name :: string
  ie_Value :: string

record containerList =
  cl_Name :: string
  cl_InstallEnv :: "installEnv list"

record envList =
  el_Name :: string
  el_Type :: string
  el_Container :: "containerList list"

record globalEnv =
  ge_Global :: "installEnv list"
  ge_Service :: "envList list"

record depApp =
  dep_Name :: string
  dep_Type :: string
  dep_Pods :: "string list option"
  dep_Jobs :: "string list option"

record mainDep =
  md_Env :: globalEnv
  md_Dependency :: "depApp list"
  md_ReleaseName :: string

subsection \<open>The patch\<close>

fun addInitLoop :: "bool \<Rightarrow> string \<Rightarrow> Container list \<Rightarrow> patchOperation list" where
  "addInitLoop first path [] = []"
| "addInitLoop first path (add # rest) =
     (if first then \<lparr>po_Op = ''add'', po_Path = path, po_Value = ContainerListValue [add]\<rparr>
      else \<lparr>po_Op = ''add'', po_Path = path @ ''/-'', po_Value = ContainerValue add\<rparr>)
     # addInitLoop False path rest"

definition addInitContainer :: "Container list \<Rightarrow> Container list \<Rightarrow> string \<Rightarrow> patchOperation list" where
  "addInitContainer objectMeta initContainers path = addInitLoop (objectMeta = []) path initContainers"

text \<open>The loop that deletes from the slice while it walks over it removes the containers whose name is taken.\<close>

definition patchInitContainer ::
  "Container list \<Rightarrow> Container list \<Rightarrow> patchOperation list \<Rightarrow> patchOperation list" where
  "patchInitContainer objectInitContainer initContainers patch =
     (let names = set (map ctr_Name objectInitContainer);
          fresh = filter (\<lambda>c. ctr_Name c \<notin> names) initContainers
      in if fresh \<noteq> []
         then patch @ addInitContainer objectInitContainer fresh ''/spec/template/spec/initContainers''
         else patch)"

fun addEnvLoop :: "nat \<Rightarrow> bool \<Rightarrow> EnvVar list \<Rightarrow> patchOperation list" where
  "addEnvLoop k first [] = []"
| "addEnvLoop k first (env # rest) =
     (let path = ''/spec/template/spec/containers/'' @ itoa (int k) @ ''/env'' in
      (if first then \<lparr>po_Op = ''add'', po_Path = path, po_Value = EnvListValue [env]\<rparr>
       else \<lparr>po_Op = ''add'', po_Path = path @ ''/-'', po_Value = EnvValue env\<rparr>))
     # addEnvLoop k False rest"

definition addContainerEnvVar :: "nat \<Rightarrow> EnvVar list \<Rightarrow> envVar list \<Rightarrow> patchOperation list" where
  "addContainerEnvVar k target envVars =
     addEnvLoop k (target = [])
       (concat (map (\<lambda>add. filter (\<lambda>_. xv_ContainerIndex add = k) (xv_EnvVar add)) envVars))"

definition patchEnv :: "Container list \<Rightarrow> envVar list \<Rightarrow> patchOperation list \<Rightarrow> patchOperation list" where
  "patchEnv objContainers envVars patch =
     (if envVars \<noteq> []
      then patch @ concat (map (\<lambda>(k, v). addContainerEnvVar k (ctr_Env v) envVars)
                             (enumerate 0 objContainers))
      else patch)"

text \<open>The pair is absent when the slice is empty.\<close>

definition patchAnnotations ::
  "(string \<rightharpoonup> string) \<Rightarrow> (string \<times> string) option \<Rightarrow> patchOperation list \<Rightarrow> patchOperation list" where
  "patchAnnotations currentAnnos kvPair patch =
     (case kvPair of
        None \<Rightarrow> patch
      | Some (k, v) \<Rightarrow>
          if currentAnnos k = Some v then patch
          else patch @ [\<lparr>po_Op = ''add'', po_Path = ''/metadata/annotations'',
                         po_Value = AnnotationsValue (currentAnnos(k \<mapsto> v))\<rparr>])"

subsection \<open>Waiting for dependencies\<close>

definition labelArg :: "string \<Rightarrow> string" where
  "labelArg pod = (if containsAny pod ''='' then ''-l'' @ pod else ''-lapp='' @ pod)"

fun waitArgs :: "(string \<Rightarrow> string list) \<Rightarrow> string list \<Rightarrow> bool \<Rightarrow> string list" where
  "waitArgs f [] first = []"
| "waitArgs f (x # xs) first = (if first then [] else [''&&'']) @ f x @ waitArgs f xs False"

definition waitForPodArgs :: "string list \<Rightarrow> string list" where
  "waitForPodArgs pods = waitArgs (\<lambda>pod. [''wait_for.sh'', ''pod'', labelArg pod]) pods True"

definition waitForJobArgs :: "string list \<Rightarrow> string list" where
  "waitForJobArgs jobs = waitArgs (\<lambda>job. [''wait_for.sh'', ''job'', labelArg job]) jobs True"

definition waitForTCPArgs :: "string list \<Rightarrow> string list" where
  "waitForTCPArgs tcp = waitArgs (\<lambda>t. [''wait_for.sh'', ''tcp'', t]) tcp True"

definition waitForHTTPArgs :: "string list \<Rightarrow> string list" where
  "waitForHTTPArgs http = waitArgs (\<lambda>h. [''wait_for.sh'', ''http'', h]) http True"

definition addWait :: "string list \<Rightarrow> string \<Rightarrow> string" where
  "addWait args waitCmd = (if waitCmd \<noteq> [] then waitCmd @ '' && '' else waitCmd) @ join args '' ''"

definition waitImages :: string where
  "waitImages = ''nocalhost-docker.pkg.coding.net/nocalhost/public/nocalhost-wait:latest''"

definition waitingJob :: "string \<Rightarrow> Container" where
  "waitingJob waitCmd =
     \<lparr>ctr_Name = ''nocalhost-dependency-waiting-job'', ctr_Image = waitImages,
      ctr_ImagePullPolicy = ''IfNotPresent'', ctr_Command = [''sh'', ''-c'', waitCmd], ctr_Env = []\<rparr>"

subsection \<open>What to inject, from a configuration\<close>

definition envAt :: "nat \<Rightarrow> Profile.Env \<Rightarrow> envVar" where
  "envAt k e = \<lparr>xv_EnvVar = [\<lparr>evar_Name = env_Name e, evar_Value = env_Value e\<rparr>], xv_ContainerIndex = k\<rparr>"

definition globalEnvs :: "NocalHostAppConfigV2 option \<Rightarrow> Container list \<Rightarrow> envVar list" where
  "globalEnvs appConfig containers =
     (case appConfig of
        None \<Rightarrow> []
      | Some cfg \<Rightarrow>
          concat (map (\<lambda>env. map (\<lambda>k. envAt k env) [0..<length containers]) (ac_Env (cfg_ApplicationConfig cfg))))"

text \<open>
  The special case of a single container and a single configuration without name; one
  without install section is dereferenced all the same.
\<close>

definition unnamedEnvs :: "ContainerConfig list \<Rightarrow> Container list \<Rightarrow> nat \<Rightarrow> envVar list outcome" where
  "unnamedEnvs cfgs containers k =
     (case (containers, cfgs) of
        ([_], [c]) \<Rightarrow>
          if cc_Name c = [] then
            (case cc_Install c of
               None \<Rightarrow> Panic ''nil pointer dereference''
             | Some ins \<Rightarrow> Ret (map (envAt k) (ci_Env ins)))
          else Ret []
      | _ \<Rightarrow> Ret [])"

definition containerEnvs ::
  "ContainerConfig list \<Rightarrow> Container list \<Rightarrow> nat \<Rightarrow> Container \<Rightarrow> envVar list outcome" where
  "containerEnvs cfgs containers k container =
     (case find (\<lambda>c. cc_Name c = ctr_Name container) (rev cfgs) of
        None \<Rightarrow> unnamedEnvs cfgs containers k
      | Some c \<Rightarrow>
          (case cc_Install c of
             None \<Rightarrow> unnamedEnvs cfgs containers k
           | Some ins \<Rightarrow> Ret (map (envAt k) (ci_Env ins))))"

fun containersEnvs ::
  "ContainerConfig list \<Rightarrow> Container list \<Rightarrow> (nat \<times> Container) list \<Rightarrow> envVar list outcome" where
  "containersEnvs cfgs containers [] = Ret []"
| "containersEnvs cfgs containers ((i, c) # ics) =
     (case containerEnvs cfgs containers i c of
        Panic m \<Rightarrow> Panic m
      | Ret es \<Rightarrow>
          (case containersEnvs cfgs containers ics of
             Panic m \<Rightarrow> Panic m
           | Ret rest \<Rightarrow> Ret (es @ rest)))"

definition selectorWait :: "DependLabelSelector option \<Rightarrow> string" where
  "selectorWait sel =
     (case sel of
        None \<Rightarrow> []
      | Some d \<Rightarrow>
          (let w1 = (if dls_Pods d \<noteq> [] then addWait (waitForPodArgs (dls_Pods d)) [] else []);
               w2 = (if dls_Jobs d \<noteq> [] then addWait (waitForJobArgs (dls_Jobs d)) w1 else w1);
               w3 = (if dls_TCP d \<noteq> [] then addWait (waitForTCPArgs (dls_TCP d)) w2 else w2)
           in if dls_HTTP d \<noteq> [] then addWait (waitForHTTPArgs (dls_HTTP d)) w3 else w3))"

definition nocalhostDepConfigmapCustom ::
  "gerr + NocalHostAppConfigV2 option \<times> ServiceConfigV2 option \<Rightarrow> Container list \<Rightarrow>
     (gerr + Container list \<times> envVar list) outcome" where
  "nocalhostDepConfigmapCustom supplied containers =
     (case supplied of
        Inl err \<Rightarrow> Ret (Inl err)
      | Inr (_, None) \<Rightarrow> Ret (Inr ([], []))
      | Inr (appConfig, Some svcConfig) \<Rightarrow>
          (case containersEnvs (svc_ContainerConfigs svcConfig) containers (enumerate 0 containers) of
             Panic m \<Rightarrow> Panic m
           | Ret es \<Rightarrow>
               (let waitCmd = selectorWait (svc_DependLabelSelector svcConfig) in
                Ret (Inr (if waitCmd \<noteq> [] then [waitingJob waitCmd] else [],
                          globalEnvs appConfig containers @ es)))))"

subsection \<open>What to inject, from the dependency config maps\<close>

definition installEnvVar :: "installEnv \<Rightarrow> EnvVar" where
  "installEnvVar e = \<lparr>evar_Name = ie_Name e, evar_Value = ie_Value e\<rparr>"

definition depGlobalEnvs :: "mainDep \<Rightarrow> Container list \<Rightarrow> envVar list" where
  "depGlobalEnvs dep containers =
     concat (map (\<lambda>env. map (\<lambda>k. \<lparr>xv_EnvVar = [installEnvVar env], xv_ContainerIndex = k\<rparr>) [0..<length containers])
               (ge_Global (md_Env dep)))"

definition depMatches :: "mainDep \<Rightarrow> string \<Rightarrow> string \<Rightarrow> string \<Rightarrow> string \<Rightarrow> bool" where
  "depMatches dep name type resourceName resourceType \<longleftrightarrow>
     name = resourceName \<and>
     (toLower type = toLower resourceType \<or> md_ReleaseName dep @ ''-'' @ name = resourceName)"

definition depServiceEnvs :: "mainDep \<Rightarrow> string \<Rightarrow> string \<Rightarrow> Container list \<Rightarrow> envVar list" where
  "depServiceEnvs dep resourceName resourceType containers =
     concat (map (\<lambda>env.
       if depMatches dep (el_Name env) (el_Type env) resourceName resourceType
       then concat (map (\<lambda>container. concat (map (\<lambda>(k, obj).
              if cl_Name container = ctr_Name obj \<or> cl_Name container = []
              then [\<lparr>xv_EnvVar = map installEnvVar (cl_InstallEnv container), xv_ContainerIndex = k\<rparr>]
              else []) (enumerate 0 containers))) (el_Container env))
       else []) (ge_Service (md_Env dep)))"

definition depWait :: "mainDep \<Rightarrow> string \<Rightarrow> string \<Rightarrow> string \<Rightarrow> string" where
  "depWait dep resourceName resourceType waitCmd =
     fold (\<lambda>d cmd.
       if depMatches dep (dep_Name d) (dep_Type d) resourceName resourceType
       then (let c1 = (case dep_Pods d of None \<Rightarrow> cmd | Some pods \<Rightarrow> addWait (waitForPodArgs pods) cmd)
             in case dep_Jobs d of None \<Rightarrow> c1 | Some jobs \<Rightarrow> addWait (waitForJobArgs jobs) c1)
       else cmd) (md_Dependency dep) waitCmd"

text \<open>The loop over the config maps; \<open>waitCmd\<close> is not reset between them.\<close>

fun depLoop ::
  "(string \<Rightarrow> gerr + mainDep) \<Rightarrow> string \<Rightarrow> string \<Rightarrow> Container list \<Rightarrow> ConfigMap list \<Rightarrow> string \<Rightarrow>
     (Container list \<times> envVar list) outcome" where
  "depLoop yaml resourceName resourceType containers [] waitCmd = Ret ([], [])"
| "depLoop yaml resourceName resourceType containers (cm # cms) waitCmd =
     (if contains (cfm_Name cm) DependenceConfigMapPrefix then
        (case (case cfm_Data cm of None \<Rightarrow> None | Some d \<Rightarrow> d ''nocalhost'') of
           None \<Rightarrow>
             (case depLoop yaml resourceName resourceType containers cms waitCmd of
                Panic m \<Rightarrow> Panic m
              | Ret (cs, es) \<Rightarrow> Ret ((if waitCmd \<noteq> [] then [waitingJob waitCmd] else []) @ cs, es))
         | Some text \<Rightarrow>
             (case yaml text of
                Inl _ \<Rightarrow> Panic (''failed to unmarshal configmap: '' @ cfm_Name cm)
              | Inr dep \<Rightarrow>
                  (let waitCmd' = depWait dep resourceName resourceType waitCmd in
                   case depLoop yaml resourceName resourceType containers cms waitCmd' of
                     Panic m \<Rightarrow> Panic m
                   | Ret (cs, es) \<Rightarrow>
                       Ret ((if waitCmd' \<noteq> [] then [waitingJob waitCmd'] else []) @ cs,
                            depGlobalEnvs dep containers @
                            depServiceEnvs dep resourceName resourceType containers @ es))))
      else depLoop yaml resourceName resourceType containers cms waitCmd)"

definition nocalhostDepConfigmap ::
  "(string \<Rightarrow> gerr + mainDep) \<Rightarrow> gerr + ConfigMap list \<Rightarrow> string \<Rightarrow> string \<Rightarrow> Container list \<Rightarrow>
     (Container list \<times> envVar list) outcome" where
  "nocalhostDepConfigmap yaml listed resourceName resourceType containers =
     (case listed of
        Inl err \<Rightarrow> Panic (''failed to get config map:'' @ err)
      | Inr cms \<Rightarrow> depLoop yaml resourceName resourceType containers cms [])"

subsection \<open>The request\<close>

record ObjectMeta =
  om_Name :: string
  om_Namespace :: string
  om_Annotations :: "string \<rightharpoonup> string"
  om_OwnerReferences :: "string list"

record workload =
  wl_Name :: string
  wl_InitContainers :: "Container list"
  wl_Containers :: "Container list"

record admissionRequest =
  rq_Kind :: string
  rq_Operation :: string
  rq_Namespace :: string
  rq_Name :: string
  rq_UserUID :: string
  rq_Raw :: string

text \<open>The patch is kept as the list of its operations; its JSON text is what is sent.\<close>

record admissionResponse =
  ar_Allowed :: bool
  ar_Message :: "gerr option"
  ar_Patch :: "patchOperation list option"

definition allowed :: admissionResponse where
  "allowed = \<lparr>ar_Allowed = True, ar_Message = None, ar_Patch = None\<rparr>"

definition denied :: admissionResponse where
  "denied = \<lparr>ar_Allowed = False, ar_Message = None, ar_Patch = None\<rparr>"

definition failedResponse :: "gerr \<Rightarrow> admissionResponse" where
  "failedResponse err = \<lparr>ar_Allowed = False, ar_Message = Some err, ar_Patch = None\<rparr>"

record 'w whEnv =
  we_matchNamespace :: string
  we_meta :: "string \<Rightarrow> gerr + ObjectMeta"
  we_workload :: "string \<Rightarrow> string \<Rightarrow> gerr + workload"
  we_saApi :: "'w saApi"
  we_listSa :: "string \<Rightarrow> 'w \<Rightarrow> (gerr + ServiceAccount list) \<times> 'w"
  we_listCm :: "string \<Rightarrow> 'w \<Rightarrow> (gerr + ConfigMap list) \<times> 'w"
  we_listDep :: "string \<Rightarrow> 'w \<Rightarrow> (gerr + ConfigMap list) \<times> 'w"
  we_depYaml :: "string \<Rightarrow> gerr + mainDep"
  we_render :: renderEnv
  we_inCluster :: bool
  we_ownerAnnos :: "string list \<Rightarrow> string \<Rightarrow> (string \<rightharpoonup> string) list"
  we_timesOut :: "string list \<Rightarrow> string \<Rightarrow> bool"
  we_lateSend :: "string list \<Rightarrow> string \<Rightarrow> bool"
  we_annoOrder :: "(string \<rightharpoonup> string) \<Rightarrow> string list"

text \<open>The package variables of the webhook, and the world.\<close>

record 'w whState =
  wh_namespace :: string
  wh_watchers :: "string \<rightharpoonup> saSet"
  wh_cmWatchers :: "string \<rightharpoonup> CmWatcher"
  wh_world :: 'w

definition ignoredNamespaces :: "string list" where
  "ignoredNamespaces = [''kube-system'', ''kube-public'']"

definition mutationRequired :: "string \<Rightarrow> string list \<Rightarrow> ObjectMeta \<Rightarrow> bool" where
  "mutationRequired matchNamespace ignoredList metadata \<longleftrightarrow>
     \<not> (matchNamespace \<noteq> [] \<and> om_Namespace metadata \<notin> set (split (replaceAll matchNamespace '' '' []) '','')) \<and>
     \<not> list_ex (\<lambda>namespace. om_Namespace metadata = namespace) ignoredList \<and>
     get_str (om_Annotations metadata) ''nocalhost-dep-ignore'' \<noteq> ''true''"

definition getWatcher :: "'w whEnv \<Rightarrow> string \<Rightarrow> 'w whState \<Rightarrow> saSet \<times> 'w whState" where
  "getWatcher we ns st =
     (case wh_watchers st ns of
        Some watcher \<Rightarrow> (watcher, st)
      | None \<Rightarrow>
          (case we_listSa we ns (wh_world st) of (listed, w1) \<Rightarrow>
           (case sa_Prepare (we_saApi we) listed (newSet, w1) of (watcher, w2) \<Rightarrow>
              (watcher, st\<lparr>wh_watchers := (wh_watchers st)(ns \<mapsto> watcher), wh_world := w2\<rparr>))))"

definition getCmWatcher :: "'w whEnv \<Rightarrow> string \<Rightarrow> 'w whState \<Rightarrow> CmWatcher \<times> 'w whState" where
  "getCmWatcher we ns st =
     (case wh_cmWatchers st ns of
        Some watcher \<Rightarrow> (watcher, st)
      | None \<Rightarrow>
          (case we_listCm we ns (wh_world st) of (listed, w1) \<Rightarrow>
             let watcher = cm_Prepare listed ns NewCmWatcher in
             (watcher, st\<lparr>wh_cmWatchers := (wh_cmWatchers st)(ns \<mapsto> watcher), wh_world := w1\<rparr>)))"

definition GetNocalhostConfig ::
  "renderEnv \<Rightarrow> CmWatcher \<Rightarrow> string \<Rightarrow> string \<Rightarrow> string \<Rightarrow>
     (gerr + NocalHostAppConfigV2 option \<times> ServiceConfigV2 option) outcome option" where
  "GetNocalhostConfig re w application svcType svcName =
     (case cmw_cache w application of
        None \<Rightarrow> Some (Ret (Inl ''Not found''))
      | Some cm \<Rightarrow>
          (let cfgStr = (case cfm_Data cm of None \<Rightarrow> [] | Some d \<Rightarrow> get_str d ''config'') in
           if cfgStr = [] then
             Some (Ret (Inl (''Nocalhost cm '' @ cmw_namespace w @ ''-'' @ application @
               '' found, but do not contain config key in field [Data]'')))
           else LoadSvcCfgFromStrIfValid re cfgStr svcName (toLower svcType)))"

subsection \<open>The application of an object\<close>

definition containsAnnotationSign ::
  "((string \<rightharpoonup> string) \<Rightarrow> string list) \<Rightarrow> (string \<rightharpoonup> string) \<Rightarrow> (string \<times> string) option" where
  "containsAnnotationSign order annos =
     (case find (\<lambda>k. k = NocalhostApplicationName \<or> k = HelmReleaseName) (order annos) of
        None \<Rightarrow> None
      | Some k \<Rightarrow> Some (k, get_str annos k))"

text \<open>
  The owners are looked up concurrently, each in the namespace and in the cluster scope, and every
  lookup that finds a signed owner sends its pair into an unbuffered channel: \<open>we_ownerAnnos\<close> has
  the annotations of the owners found, in the order in which their lookups answer. The first pair
  is taken, unless the five seconds are up before it is sent (\<open>we_timesOut\<close>), and the channel is
  closed. A send after that panics, and the \<open>recover()\<close> behind the send is never reached. Whether a
  lookup that is left still sends, or is cancelled or waits until the request is answered, is a
  race: \<open>we_lateSend\<close> says how it ends. (A panic after the answer ends the process too, but not
  this request.)
\<close>

definition getOwnRefSignedAnnotation ::
  "'w whEnv \<Rightarrow> ObjectMeta \<Rightarrow> string \<Rightarrow> (string \<times> string) option outcome" where
  "getOwnRefSignedAnnotation we o1 ns =
     (if om_OwnerReferences o1 \<noteq> [] then
        (if \<not> we_inCluster we then Ret None
         else
           let refs = om_OwnerReferences o1;
               signed = List.map_filter (containsAnnotationSign (we_annoOrder we)) (we_ownerAnnos we refs ns);
               taken = (if we_timesOut we refs ns then 0 else 1)
           in if drop taken signed \<noteq> [] \<and> we_lateSend we refs ns then Panic ''send on closed channel''
              else case take taken signed of
                     pair # _ \<Rightarrow> Ret (Some pair)
                   | [] \<Rightarrow> Ret (containsAnnotationSign (we_annoOrder we) (om_Annotations o1)))
      else Ret (containsAnnotationSign (we_annoOrder we) (om_Annotations o1)))"

subsection \<open>The decision\<close>

definition mutateQuota ::
  "'w whEnv \<Rightarrow> admissionRequest \<Rightarrow> ObjectMeta \<Rightarrow> 'w whState \<Rightarrow> admissionResponse \<times> 'w whState" where
  "mutateQuota we req omh st =
     (let namespace = rq_Namespace req; uid = rq_UserUID req in
      if uid = [] \<or> (om_Name omh \<noteq> ''rq-'' @ namespace \<and> rq_Name req \<noteq> ''rq-'' @ namespace) then (allowed, st)
      else
        (case getWatcher we namespace st of (watcher, st1) \<Rightarrow>
           let (isAdmin, st2) =
             (case IsClusterAdmin uid watcher of
                Some b \<Rightarrow> (Some b, st1)
              | None \<Rightarrow> (case getWatcher we ''default'' st1 of (dflt, st2) \<Rightarrow> (IsClusterAdmin uid dflt, st2)))
           in (case isAdmin of None \<Rightarrow> allowed | Some b \<Rightarrow> if b then allowed else denied, st2)))"

definition workloadKinds :: "string list" where
  "workloadKinds = [''Deployment'', ''DaemonSet'', ''ReplicaSet'', ''StatefulSet'', ''Job'', ''CronJob'']"

definition noWorkload :: workload where
  "noWorkload = \<lparr>wl_Name = [], wl_InitContainers = [], wl_Containers = []\<rparr>"

text \<open>The three sources of what to inject, in their order; the next one is asked after an error.\<close>

definition fromAnnotation ::
  "'w whEnv \<Rightarrow> admissionRequest \<Rightarrow> ObjectMeta \<Rightarrow> workload \<Rightarrow>
     (Container list \<times> envVar list) option outcome option" where
  "fromAnnotation we req omh wl =
     (case om_Annotations omh ''dev.nocalhost'' of
        None \<Rightarrow> Some (Ret None)
      | Some v \<Rightarrow>
          if v \<noteq> [] \<and> wl_Name wl \<noteq> [] then
            (case LoadSvcCfgFromStrIfValid (we_render we) v (wl_Name wl) (rq_Kind req) of
               None \<Rightarrow> None
             | Some (Panic m) \<Rightarrow> Some (Panic m)
             | Some (Ret supplied) \<Rightarrow>
                 (case nocalhostDepConfigmapCustom supplied (wl_Containers wl) of
                    Panic m \<Rightarrow> Some (Panic m)
                  | Ret (Inl _) \<Rightarrow> Some (Ret None)
                  | Ret (Inr r) \<Rightarrow> Some (Ret (Some r))))
          else Some (Ret None))"

definition fromConfigMap ::
  "'w whEnv \<Rightarrow> admissionRequest \<Rightarrow> string \<Rightarrow> workload \<Rightarrow> 'w whState \<Rightarrow>
     ((Container list \<times> envVar list) option outcome \<times> 'w whState) option" where
  "fromConfigMap we req appName wl st =
     (if wl_Name wl = [] then Some (Ret None, st)
      else (case getCmWatcher we (rq_Namespace req) st of (watcher, st1) \<Rightarrow>
        (case GetNocalhostConfig (we_render we) watcher appName (rq_Kind req) (wl_Name wl) of
           None \<Rightarrow> None
         | Some (Panic m) \<Rightarrow> Some (Panic m, st1)
         | Some (Ret (Inl _)) \<Rightarrow> Some (Ret None, st1)
         | Some (Ret (Inr cfg)) \<Rightarrow>
             (case nocalhostDepConfigmapCustom (Inr cfg) (wl_Containers wl) of
                Panic m \<Rightarrow> Some (Panic m, st1)
              | Ret (Inl _) \<Rightarrow> Some (Ret None, st1)
              | Ret (Inr r) \<Rightarrow> Some (Ret (Some r), st1)))))"

definition injection ::
  "'w whEnv \<Rightarrow> admissionRequest \<Rightarrow> ObjectMeta \<Rightarrow> string \<Rightarrow> workload \<Rightarrow> 'w whState \<Rightarrow>
     ((Container list \<times> envVar list) outcome \<times> 'w whState) option" where
  "injection we req omh appName wl st =
     (case fromAnnotation we req omh wl of
        None \<Rightarrow> None
      | Some (Panic m) \<Rightarrow> Some (Panic m, st)
      | Some (Ret (Some r)) \<Rightarrow> Some (Ret r, st)
      | Some (Ret None) \<Rightarrow>
          (case fromConfigMap we req appName wl st of
             None \<Rightarrow> None
           | Some (Panic m, st1) \<Rightarrow> Some (Panic m, st1)
           | Some (Ret (Some r), st1) \<Rightarrow> Some (Ret r, st1)
           | Some (Ret None, st1) \<Rightarrow>
               (case we_listDep we (wh_namespace st1) (wh_world st1) of (listed, w2) \<Rightarrow>
                  Some (nocalhostDepConfigmap (we_depYaml we) listed (wl_Name wl) (rq_Kind req) (wl_Containers wl),
                        st1\<lparr>wh_world := w2\<rparr>))))"

definition patchFor ::
  "ObjectMeta \<Rightarrow> workload \<Rightarrow> string \<times> string \<Rightarrow> Container list \<Rightarrow> envVar list \<Rightarrow> patchOperation list" where
  "patchFor omh wl ap inits envs =
     patchEnv (wl_Containers wl) envs
       (patchInitContainer (wl_InitContainers wl) inits
         (patchAnnotations (om_Annotations omh) (Some ap) []))"

definition mutateWorkload ::
  "'w whEnv \<Rightarrow> admissionRequest \<Rightarrow> ObjectMeta \<Rightarrow> workload \<Rightarrow> 'w whState \<Rightarrow>
     (admissionResponse outcome \<times> 'w whState) option" where
  "mutateWorkload we req omh wl st =
     (case getOwnRefSignedAnnotation we omh (rq_Namespace req) of
        Panic m \<Rightarrow> Some (Panic m, st)
      | Ret pair \<Rightarrow>
          (let ap = (case pair of Some p \<Rightarrow> p | None \<Rightarrow> (NocalhostApplicationName, DefaultNocalhostApplication)) in
           case injection we req omh (snd ap) wl st of
             None \<Rightarrow> None
           | Some (Panic m, st1) \<Rightarrow> Some (Panic m, st1)
           | Some (Ret (inits, envs), st1) \<Rightarrow>
               Some (Ret \<lparr>ar_Allowed = True, ar_Message = None, ar_Patch = Some (patchFor omh wl ap inits envs)\<rparr>, st1)))"

text \<open>
  An object that is deleted is not decoded, its metadata stay empty. The request of a
  resource quota does not wait for the owners.
\<close>

definition emptyObjectMeta :: ObjectMeta where
  "emptyObjectMeta = \<lparr>om_Name = [], om_Namespace = [], om_Annotations = Map.empty, om_OwnerReferences = []\<rparr>"

definition admittedMeta :: "'w whEnv \<Rightarrow> admissionRequest \<Rightarrow> admissionResponse + ObjectMeta" where
  "admittedMeta we req =
     (if rq_Operation req = ''DELETE'' then
        (if rq_Kind req \<noteq> ''ResourceQuota'' then Inl allowed else Inr emptyObjectMeta)
      else if rq_Operation req = ''CONNECT'' then Inl allowed
      else (case we_meta we (rq_Raw req) of
              Inl err \<Rightarrow> Inl (failedResponse err)
            | Inr omh \<Rightarrow>
                if \<not> mutationRequired (we_matchNamespace we) ignoredNamespaces omh then Inl allowed
                else Inr omh))"

definition mutate ::
  "'w whEnv \<Rightarrow> admissionRequest \<Rightarrow> 'w whState \<Rightarrow> (admissionResponse outcome \<times> 'w whState) option" where
  "mutate we req st =
     (case admittedMeta we req of
        Inl resp \<Rightarrow> Some (Ret resp, st)
      | Inr omh \<Rightarrow>
          (let st1 = st\<lparr>wh_namespace := rq_Namespace req\<rparr>; kind = rq_Kind req in
           if kind \<in> set workloadKinds then
             (case we_workload we kind (rq_Raw req) of
                Inl err \<Rightarrow> Some (Ret (failedResponse err), st1)
              | Inr wl \<Rightarrow> mutateWorkload we req omh wl st1)
           else if kind = ''ResourceQuota'' then
             (case mutateQuota we req omh st1 of (resp, st2) \<Rightarrow> Some (Ret resp, st2))
           else mutateWorkload we req omh noWorkload st1))"

end
