(* ===== verification/RenderProps.thy ===== *)
theory RenderProps
  imports CfgRender "HOL-Library.Char_ord" "HOL-Library.List_Lexorder"
begin

text \<open>
  Properties of the loading of configurations: explicit variables win over environment
  files, of services with the same name the last one stays, only the paths of environment
  files are rewritten in the tree, and where the name of the environment file is found.
\<close>

subsection \<open>Environments\<close>

text \<open>In an environment list the last entry of a name counts, as it does in a container.\<close>

definition envLookup :: "Profile.Env list \<Rightarrow> string \<Rightarrow> string option" where
  "envLookup es = map_of (rev (map (\<lambda>e. (env_Name e, env_Value e)) es))"

lemma envLookup_append:
  "envLookup (as @ bs) x = (case envLookup bs x of Some v \<Rightarrow> Some v | None \<Rightarrow> envLookup as x)"
  by (simp add: envLookup_def map_add_def split: option.splits)

lemma map_of_keys:
  "set ks = dom m \<Longrightarrow> map_of (rev (map (\<lambda>k. (k, get_str m k)) ks)) x = m x"
proof -
  have "map_of (map (\<lambda>k. (k, get_str m k)) (rev ks)) x = (if x \<in> set ks then Some (get_str m x) else None)"
    by (induction ks rule: rev_induct) auto
  then show "set ks = dom m \<Longrightarrow> ?thesis" by (auto simp: rev_map dom_def)
qed

lemma envLookup_files:
  assumes "range_order m ks"
  shows "envLookup (map (\<lambda>k. \<lparr>env_Name = k, env_Value = get_str m k\<rparr>) ks) x = m x"
  using assms map_of_keys [of ks m x] by (simp add: envLookup_def range_order_def o_def)

lemma envLookup_envArr:
  assumes "\<forall>m. finite (dom m) \<longrightarrow> range_order m (re_envOrder re m)"
    and "finite (dom (getEnvFromEnvFileArr (re_fs re) files))"
  shows "envLookup (envArr re files env) x =
    (case envLookup env x of Some v \<Rightarrow> Some v | None \<Rightarrow> getEnvFromEnvFileArr (re_fs re) files x)"
  using assms by (simp add: envArr_def envLookup_append envLookup_files split: option.splits)

lemma envKVLoop_finite: "envKVLoop ls m = Some m' \<Longrightarrow> finite (dom m) \<Longrightarrow> finite (dom m')"
  by (induction ls m rule: envKVLoop.induct) (auto split: if_splits option.splits)

lemma ReadEnvFileKV_finite: "ReadEnvFileKV fs f = Some m \<Longrightarrow> finite (dom m)"
  by (auto simp: ReadEnvFileKV_def dest: envKVLoop_finite split: option.splits if_splits)

lemma mergeMap_finite: "finite (dom a) \<Longrightarrow> (\<And>m. b = Some m \<Longrightarrow> finite (dom m)) \<Longrightarrow> finite (dom (mergeMap a b))"
  by (auto simp: mergeMap_def split: option.splits)

lemma getEnvFromEnvFileArr_finite: "finite (dom (getEnvFromEnvFileArr fs files))"
proof -
  let ?f = "\<lambda>path envs. mergeMap envs (ReadEnvFileKV fs (Some (NewFilePath fs path)))"
  have "finite (dom (fold ?f files m))" if "finite (dom m)" for m
    using that by (rule fold_invariant_set [where P = "\<lambda>m. finite (dom m)"])
      (blast intro: mergeMap_finite ReadEnvFileKV_finite)
  then show ?thesis by (simp add: getEnvFromEnvFileArr_def)
qed

text \<open>After the environment files have been read into the configuration, the value of a variable
  is the explicit one if there is one, else what the environment files say, for the
  application and for the installation of every container; the references to the files are gone.\<close>

theorem explicit_env_wins:
  assumes "\<forall>m. finite (dom m) \<longrightarrow> range_order m (re_envOrder re m)"
  shows "envLookup (ac_Env (cfg_ApplicationConfig (parseEnvFromIntoEnv re cfg))) x =
      (case envLookup (ac_Env (cfg_ApplicationConfig cfg)) x of
         Some v \<Rightarrow> Some v
       | None \<Rightarrow> getEnvFromEnvFileArr (re_fs re) (ac_EnvFrom (cfg_ApplicationConfig cfg)) x) \<and>
    (\<forall>c i. cc_Install c = Some i \<longrightarrow>
       (\<exists>i'. cc_Install (envFromOfContainer re c) = Some i' \<and> ci_EnvFrom i' = [] \<and>
          envLookup (ci_Env i') x =
            (case envLookup (ci_Env i) x of
               Some v \<Rightarrow> Some v
             | None \<Rightarrow> getEnvFromEnvFileArr (re_fs re) (ci_EnvFrom i) x)))"
proof -
  note arr = envLookup_envArr [OF assms getEnvFromEnvFileArr_finite]
  have "\<exists>i'. cc_Install (envFromOfContainer re c) = Some i' \<and> ci_EnvFrom i' = [] \<and>
      envLookup (ci_Env i') x = (case envLookup (ci_Env i) x of
          Some v \<Rightarrow> Some v | None \<Rightarrow> getEnvFromEnvFileArr (re_fs re) (ci_EnvFrom i) x)"
    if "cc_Install c = Some i" for c i
  proof (cases "ci_EnvFrom i = []")
    case True
    with that show ?thesis
      by (auto simp: envFromOfContainer_def getEnvFromEnvFileArr_def split: option.splits)
  next
    case False
    with that show ?thesis by (auto simp: envFromOfContainer_def arr split: option.splits)
  qed
  moreover have "ac_Env (cfg_ApplicationConfig (parseEnvFromIntoEnv re cfg)) =
      envArr re (ac_EnvFrom (cfg_ApplicationConfig cfg)) (ac_Env (cfg_ApplicationConfig cfg))"
    by (simp add: parseEnvFromIntoEnv_def)
  ultimately show ?thesis by (simp add: arr)
qed

subsection \<open>Duplicate services\<close>

lemma lastIndexes_snoc:
  "lastIndexes i (cs @ [c]) maps = (lastIndexes i cs maps)(svc_Name c \<mapsto> i + length cs)"
  by (induction cs arbitrary: i maps) auto

lemma lastIndexes_bound: "lastIndexes 0 cs Map.empty n = Some j \<Longrightarrow> j < length cs"
  by (induction cs rule: rev_induct) (auto simp: lastIndexes_snoc split: if_splits)

lemma lastIndexes_last:
  "map_option ((!) cs) (lastIndexes 0 cs Map.empty n) = find (\<lambda>c. svc_Name c = n) (rev cs)"
proof (induction cs rule: rev_induct)
  case (snoc c cs)
  then show ?case
    by (cases "lastIndexes 0 cs Map.empty n")
      (auto simp: lastIndexes_snoc nth_append dest: lastIndexes_bound)
qed simp

lemma find_distinct_key:
  assumes "distinct ks" and "\<And>k. k \<in> set ks \<Longrightarrow> key (f k) = k"
  shows "find (\<lambda>c. key c = n \<and> Q c) (map f ks) = (if n \<in> set ks \<and> Q (f n) then Some (f n) else None)"
  using assms by (induction ks) auto

text \<open>Of the services with one name in a configuration the last one stays, whatever their types: a
  lookup by name and type finds it exactly when its type is the one asked for, so a deployment
  and a stateful set of the same name cannot both be configured.\<close>

theorem last_service_of_a_name_stays:
  assumes "\<forall>m. finite (dom m) \<longrightarrow> range_order m (re_svcOrder re m)"
  shows "find (svcMatch n t) (dedupServices re cs) =
    (case find (\<lambda>c. svc_Name c = n) (rev cs) of
       Some c \<Rightarrow> if svc_Type c = t then Some c else None
     | None \<Rightarrow> None)"
proof -
  let ?m = "lastIndexes 0 cs Map.empty" and ?f = "\<lambda>name. cs ! get0 0 (lastIndexes 0 cs Map.empty) name"
  have last: "?m k = Some j \<Longrightarrow> find (\<lambda>c. svc_Name c = k) (rev cs) = Some (cs ! j)" for k j
    using lastIndexes_last [of cs k] by simp
  have name: "find (\<lambda>c. svc_Name c = k) (rev cs) = Some c \<Longrightarrow> svc_Name c = k" for k c
    by (auto simp: find_Some_iff)
  have "k \<in> svc_Name ` set cs" if "?m k = Some j" for k j
    using name [OF last [OF that]] nth_mem [OF lastIndexes_bound [OF that]] by blast
  then have "dom ?m \<subseteq> svc_Name ` set cs" by auto
  then have "finite (dom ?m)" by (rule finite_subset) simp
  with assms have ord: "range_order ?m (re_svcOrder re ?m)" by blast
  have "find (\<lambda>c. svc_Name c = n \<and> svc_Type c = t) (map ?f (re_svcOrder re ?m)) =
      (if n \<in> set (re_svcOrder re ?m) \<and> svc_Type (?f n) = t then Some (?f n) else None)"
  proof (rule find_distinct_key)
    show "distinct (re_svcOrder re ?m)" using ord by (simp add: range_order_def)
    show "svc_Name (?f k) = k" if "k \<in> set (re_svcOrder re ?m)" for k
    proof -
      obtain j where "?m k = Some j" using range_orderD [OF ord \<open>k \<in> set (re_svcOrder re ?m)\<close>] by blast
      with name [OF last] show ?thesis by simp
    qed
  qed
  then show ?thesis
    using last [of n] lastIndexes_last [of cs n] range_order_member [OF ord, of n]
    by (cases "?m n") (simp_all add: dedupServices_def svcMatch_def [abs_def])
qed

subsection \<open>The tree\<close>

fun noEnvFile :: "ynode \<Rightarrow> bool" where
  "noEnvFile (YNode tag v hc fc ns) \<longleftrightarrow> v \<noteq> ''envFile'' \<and> list_all noEnvFile ns"

lemma noEnvFile_value: "noEnvFile n \<Longrightarrow> y_Value n \<noteq> ''envFile''"
  by (cases n) simp

lemma doParse_untouched:
  "noEnvFile n \<Longrightarrow> d = 0 \<Longrightarrow> \<not> hit \<Longrightarrow> fst (doParseNode fs n cur d hit) = n"
  "list_all noEnvFile ns \<Longrightarrow> d = 0 \<Longrightarrow> \<not> hit \<Longrightarrow> fst (doParseContent fs ns cur d hit) = ns"
proof (induction fs n cur d hit and fs ns cur d hit rule: doParseNode_doParseContent.induct)
  case (3 fs n ns cur d hit)
  obtain n' cur' where n': "doParseNode fs n cur d hit = (n', cur')" by force
  with 3 have "n' = n" by simp
  with 3 n' noEnvFile_value [of n] show ?case by (auto simp: case_prod_beta)
qed (auto simp: case_prod_beta nextDepth_def)

definition scalar :: "string \<Rightarrow> ynode" where
  "scalar v = YNode ''!!str'' v [] [] []"

definition envFileItem :: "string \<Rightarrow> ynode" where
  "envFileItem p = YNode ''!!map'' [] [] [] [scalar ''path'', scalar p]"

definition envFileMap :: "string list \<Rightarrow> ynode" where
  "envFileMap ps = YNode ''!!map'' [] [] [] [scalar ''envFile'', YNode ''!!seq'' [] [] [] (map envFileItem ps)]"

lemma includeComment_Nil [simp]: "includeComment fs [] = None"
  by (simp add: includeComment_def split_def AbsSign_def hasPrefix_def)

lemma orPath_None [simp]: "orPath None f = f"
  by (simp add: orPath_def)

lemma doParse_scalar: "doParseNode fs (scalar v) cur d hit =
    (scalar (if hit then Abs (RelOrAbs fs (RelOrAbs fs cur ''../'') v) else v), cur)"
  by (simp add: scalar_def)

lemma doParse_items:
  "doParseContent fs (map envFileItem ps) cur 2 False =
     (map (\<lambda>p. envFileItem (Abs (RelOrAbs fs (RelOrAbs fs cur ''../'') p))) ps, cur)"
proof (induction ps)
  case Nil
  then show ?case by simp
next
  case (Cons p ps)
  have "doParseNode fs (envFileItem p) cur 2 False =
      (envFileItem (Abs (RelOrAbs fs (RelOrAbs fs cur ''../'') p)), cur)"
    by (simp add: envFileItem_def nextDepth_def doParse_scalar) (simp add: scalar_def)
  moreover have "y_Value (envFileItem q) = []" for q by (simp add: envFileItem_def)
  ultimately show ?case using Cons by simp
qed

text \<open>A configuration tree in which nothing is called \<open>envFile\<close> is left as it is. In a map with an
  \<open>envFile\<close> list every path of the list becomes absolute, resolved against the directory of the
  file the map comes from.\<close>

theorem env_file_paths_resolved:
  shows "(noEnvFile n \<longrightarrow> fst (doParseNode fs n cur 0 False) = n) \<and>
    doParseNode fs (envFileMap ps) cur 0 False =
      (envFileMap (map (\<lambda>p. Abs (RelOrAbs fs (RelOrAbs fs cur ''../'') p)) ps), cur)"
proof -
  have seq: "doParseNode fs (YNode ''!!seq'' [] [] [] (map envFileItem ps)) cur 1 False =
      (YNode ''!!seq'' [] [] [] (map envFileItem (map (\<lambda>p. Abs (RelOrAbs fs (RelOrAbs fs cur ''../'') p)) ps)), cur)"
    by (simp add: nextDepth_def doParse_items o_def)
  have "doParseNode fs (envFileMap ps) cur 0 False =
      (envFileMap (map (\<lambda>p. Abs (RelOrAbs fs (RelOrAbs fs cur ''../'') p)) ps), cur)"
    by (simp add: envFileMap_def nextDepth_def doParse_scalar seq del: doParseNode.simps(1))
      (simp add: nextDepth_def doParse_items o_def scalar_def)
  then show ?thesis using doParse_untouched(1) by blast
qed


text \<open>A machine with one environment file, and a decoder for the witnesses.\<close>

definition demoEnvFs :: machineFs where
  "demoEnvFs = \<lparr>fs_home = None, fs_cwd = Some ''/'',
     fs_read = (\<lambda>p. if p = ''/a.env'' then Inr ''A=1'' else Inl ''missing''), fs_stat = (\<lambda>_. None)\<rparr>"

definition demoRenderEnv :: renderEnv where
  "demoRenderEnv = \<lparr>re_fs = demoEnvFs, re_environ = [], re_unicode = (\<lambda>_. False), re_depth = 1,
     re_tmpDir = ''/tmp'', re_mkdir = None, re_write = (\<lambda>_ _. None),
     re_envOrder = (\<lambda>m. sorted_list_of_set (dom m)), re_svcOrder = (\<lambda>m. sorted_list_of_set (dom m)),
     re_yamlSvcs = (\<lambda>_. ([], Some ''no list'')), re_yamlSvc = (\<lambda>_. Inl ''no service''),
     re_yamlV1 = (\<lambda>_. Inl ''no v1''), re_yamlV2 = (\<lambda>_. emptyConfigV2), re_yamlOfV2 = (\<lambda>_. Inl ''no''),
     re_yamlTree = (\<lambda>t. Inr (scalar t)), re_decode = (\<lambda>_. emptyConfigV2)\<rparr>"

lemma demo_orders:
  "\<forall>m. finite (dom m) \<longrightarrow> range_order m (re_envOrder demoRenderEnv m)"
  "\<forall>m. finite (dom m) \<longrightarrow> range_order m (re_svcOrder demoRenderEnv m)"
  by (simp_all add: demoRenderEnv_def range_order_def)

theorem explicit_env_wins_witness:
  "envLookup (ac_Env (cfg_ApplicationConfig (parseEnvFromIntoEnv demoRenderEnv
      (emptyConfigV2\<lparr>cfg_ApplicationConfig := emptyApplicationConfig
        \<lparr>ac_EnvFrom := [''/a.env''], ac_Env := [\<lparr>env_Name = ''B'', env_Value = ''2''\<rparr>]\<rparr>\<rparr>)))) ''A'' = Some ''1''"
proof -
  let ?cfg = "emptyConfigV2\<lparr>cfg_ApplicationConfig := emptyApplicationConfig
        \<lparr>ac_EnvFrom := [''/a.env''], ac_Env := [\<lparr>env_Name = ''B'', env_Value = ''2''\<rparr>]\<rparr>\<rparr>"
  have "getEnvFromEnvFileArr (re_fs demoRenderEnv) [''/a.env''] ''A'' = Some ''1''"
    by (simp add: getEnvFromEnvFileArr_def demoRenderEnv_def demoEnvFs_def ReadEnvFileKV_def NewFilePath_def
        pathAbs_def isAbs_def pathClean_def CheckExist_def fileLines_def scanLines_def dropCR_def
        mergeMap_def isEnvLine_def go_simps)
  then show ?thesis
    using explicit_env_wins [OF demo_orders(1), of ?cfg "''A''"] by (simp add: envLookup_def)
qed

theorem last_service_of_a_name_stays_witness:
  "find (svcMatch ''web'' ''deployment'')
     (dedupServices demoRenderEnv [newServiceConfig ''web'' ''deployment'', newServiceConfig ''web'' ''statefulset'']) = None"
  using last_service_of_a_name_stays [OF demo_orders(2)] by (simp add: newServiceConfig_def)

theorem env_file_paths_resolved_witness:
  "fst (doParseNode demoEnvFs (envFileItem ''x'') (NewFilePath demoEnvFs ''/c/config.yaml'') 0 False) = envFileItem ''x''"
proof -
  have "noEnvFile (envFileItem ''x'')" by (simp add: envFileItem_def scalar_def)
  with env_file_paths_resolved [of "envFileItem ''x''" demoEnvFs] show ?thesis by blast
qed

subsection \<open>The name of the environment file\<close>

text \<open>The two lines of a configuration file that name its environment file, with the given indentation.\<close>

definition envFileLines :: "nat \<Rightarrow> string \<Rightarrow> string list" where
  "envFileLines n v = [''configProperties:'', replicate n CHR '' '' @ ''envFile: '' @ v]"

definition plainValue :: "string \<Rightarrow> bool" where
  "plainValue v \<longleftrightarrow> v \<noteq> [] \<and> \<not> isSpaceByte (hd v) \<and> \<not> isSpaceByte (last v) \<and>
     hd v \<notin> {CHR 0x22, CHR 0x27}"

lemma trimSpace_id:
  "s \<noteq> [] \<Longrightarrow> \<not> isSpaceByte (hd s) \<Longrightarrow> \<not> isSpaceByte (last s) \<Longrightarrow> trimSpace s = s"
proof -
  assume s: "s \<noteq> []" "\<not> isSpaceByte (hd s)" "\<not> isSpaceByte (last s)"
  have id: "dropWhile isSpaceByte xs = xs" if "xs \<noteq> []" "\<not> isSpaceByte (hd xs)" for xs
    using that by (cases xs) auto
  from s show ?thesis by (simp add: trimSpace_def id hd_rev)
qed

lemma trimSpace_indent: "trimSpace (replicate n CHR '' '' @ s) = trimSpace s"
  by (induction n) (simp_all add: trimSpace_def isSpaceByte_def)

lemma plain_trim:
  assumes "plainValue v" and "p \<noteq> []" and "\<not> isSpaceByte (hd p)"
  shows "trimSpace (p @ v) = p @ v"
  using assms by (intro trimSpace_id) (auto simp: plainValue_def)

text \<open>The environment file is found when its line is indented by two spaces, the value being taken
  as it is; with four spaces, which is the same YAML, a colon and a space are taken for the
  first characters of the name.\<close>

theorem env_file_indentation:
  assumes "plainValue v"
  shows "envFileLoop (envFileLines 2 v) False = v \<and> envFileLoop (envFileLines 4 v) False = '': '' @ v"
proof -
  have trim: "trimSpace (replicate n CHR '' '' @ ''envFile: '' @ v) = ''envFile: '' @ v" for n
    unfolding trimSpace_indent using assms by (rule plain_trim) (simp_all add: isSpaceByte_def)
  have loop: "envFileLoop (envFileLines n v) False = unquote (trimSpace (drop 11 (replicate n CHR '' '' @ ''envFile: '' @ v)))"
    if "0 < n" for n
  proof -
    have "hasPrefix (replicate n CHR '' '' @ ''envFile: '' @ v) '' ''"
      "\<not> hasPrefix (replicate n CHR '' '' @ ''envFile: '' @ v) ''configProperties:''"
      using that by (cases n; simp)+
    then show ?thesis using trim [of n] by (simp add: envFileLines_def)
  qed
  have "trimSpace v = v" using assms by (intro trimSpace_id) (auto simp: plainValue_def)
  moreover have "trimSpace ('': '' @ v) = '': '' @ v" using assms by (rule plain_trim) (simp_all add: isSpaceByte_def)
  moreover have "unquote v = v" "unquote ('': '' @ v) = '': '' @ v"
    using assms by (auto simp: unquote_def plainValue_def)
  ultimately show ?thesis using loop [of 2] loop [of 4] by (simp add: numeral_eq_Suc)
qed

theorem env_file_indentation_witness:
  "envFileLoop (envFileLines 2 ''./envs/env'') False = ''./envs/env'' \<and>
   envFileLoop (envFileLines 4 ''./envs/env'') False = '': ./envs/env''"
  using env_file_indentation [of "''./envs/env''"] by (simp add: plainValue_def isSpaceByte_def)

end
