(* ===== verification/WebhookProps.thy ===== *)
theory WebhookProps
  imports Webhook RenderProps EnvRender
begin

text \<open>
  Properties of the admission webhook. The meaning of a patch is the \<open>add\<close> operation of
  RFC 6902 on a JSON document, \<open>json_add\<close>; the document of a workload is \<open>docJson\<close>.
\<close>

subsection \<open>JSON documents and the add operation\<close>

datatype json = JS string | JO "string \<Rightarrow> json option" | JA "json list"

text \<open>The elements of a JSON pointer after its leading slash.\<close>

definition pointer :: "string \<Rightarrow> string list" where
  "pointer path = tl (split path ''/'')"

definition arrayIndex :: "string \<Rightarrow> nat option" where
  "arrayIndex t = (case atoi t of None \<Rightarrow> None | Some i \<Rightarrow> if 0 \<le> i then Some (nat i) else None)"

fun json_add :: "string list \<Rightarrow> json \<Rightarrow> json \<Rightarrow> json option" where
  "json_add [] v d = Some v"
| "json_add (t # ts) v (JS s) = None"
| "json_add (t # ts) v (JO m) =
     (if ts = [] then Some (JO (m(t \<mapsto> v)))
      else case m t of
        None \<Rightarrow> None
      | Some d \<Rightarrow> map_option (\<lambda>d'. JO (m(t \<mapsto> d'))) (json_add ts v d))"
| "json_add (t # ts) v (JA ds) =
     (if ts = [] \<and> t = ''-'' then Some (JA (ds @ [v]))
      else case arrayIndex t of
        None \<Rightarrow> None
      | Some i \<Rightarrow>
          if ts = [] then (if i \<le> length ds then Some (JA (take i ds @ v # drop i ds)) else None)
          else if i < length ds then map_option (\<lambda>d'. JA (ds[i := d'])) (json_add ts v (ds ! i))
          else None)"

definition envJson :: "EnvVar \<Rightarrow> json" where
  "envJson e = JO [''name'' \<mapsto> JS (evar_Name e), ''value'' \<mapsto> JS (evar_Value e)]"

text \<open>Empty lists are left out of the document.\<close>

definition listField :: "('a \<Rightarrow> json) \<Rightarrow> 'a list \<Rightarrow> json option" where
  "listField f xs = (if xs = [] then None else Some (JA (map f xs)))"

definition containerJson :: "Container \<Rightarrow> json" where
  "containerJson c =
     JO ([''name'' \<mapsto> JS (ctr_Name c), ''image'' \<mapsto> JS (ctr_Image c),
          ''imagePullPolicy'' \<mapsto> JS (ctr_ImagePullPolicy c)]
        (''command'' := listField JS (ctr_Command c), ''env'' := listField envJson (ctr_Env c)))"

definition annosJson :: "(string \<rightharpoonup> string) \<Rightarrow> json" where
  "annosJson annos = JO (\<lambda>k. map_option JS (annos k))"

fun valueJson :: "patchValue \<Rightarrow> json" where
  "valueJson (EnvValue e) = envJson e"
| "valueJson (EnvListValue es) = JA (map envJson es)"
| "valueJson (ContainerValue c) = containerJson c"
| "valueJson (ContainerListValue cs) = JA (map containerJson cs)"
| "valueJson (AnnotationsValue annos) = annosJson annos"

definition podJson :: "workload \<Rightarrow> json" where
  "podJson w = JO [''spec'' \<mapsto> JO ([''containers'' \<mapsto> JA (map containerJson (wl_Containers w))]
      (''initContainers'' := listField containerJson (wl_InitContainers w)))]"

definition docJson :: "(json \<Rightarrow> json) \<Rightarrow> (string \<rightharpoonup> string) \<Rightarrow> workload \<Rightarrow> json" where
  "docJson spec annos w =
     JO [''metadata'' \<mapsto> JO ([''name'' \<mapsto> JS (wl_Name w)](''annotations'' \<mapsto> annosJson annos)), ''spec'' \<mapsto> spec (podJson w)]"

text \<open>Where the pod template is: in most workloads directly in the spec, in a cron job below the job template.\<close>

definition templateSpec :: "json \<Rightarrow> json" where
  "templateSpec pod = JO [''template'' \<mapsto> pod]"

definition cronJobSpec :: "json \<Rightarrow> json" where
  "cronJobSpec pod = JO [''jobTemplate'' \<mapsto> JO [''spec'' \<mapsto> JO [''template'' \<mapsto> pod]]]"

definition applyOp :: "patchOperation \<Rightarrow> json \<Rightarrow> json option" where
  "applyOp p d = (if po_Op p = ''add'' then json_add (pointer (po_Path p)) (valueJson (po_Value p)) d else None)"

fun applyPatch :: "patchOperation list \<Rightarrow> json \<Rightarrow> json option" where
  "applyPatch [] d = Some d"
| "applyPatch (p # ps) d = (case applyOp p d of None \<Rightarrow> None | Some d' \<Rightarrow> applyPatch ps d')"

lemma applyPatch_append:
  "applyPatch (ps @ qs) d = (case applyPatch ps d of None \<Rightarrow> None | Some d' \<Rightarrow> applyPatch qs d')"
  by (induction ps arbitrary: d) (auto split: option.splits)

subsection \<open>The effect of the patch\<close>

lemma pointer_initContainers:
  "pointer ''/spec/template/spec/initContainers'' = [''spec'', ''template'', ''spec'', ''initContainers'']"
  "pointer (''/spec/template/spec/initContainers'' @ ''/-'') = [''spec'', ''template'', ''spec'', ''initContainers'', ''-'']"
  "pointer ''/metadata/annotations'' = [''metadata'', ''annotations'']"
  by (simp_all add: pointer_def split_def hasPrefix_def)

lemma natDec_no_slash: "CHR ''/'' \<notin> set (natDec n)"
proof -
  have "list_all isDigitByte (natDec n)" by (simp add: natDec_digits)
  then show ?thesis by (auto simp: list_all_iff isDigitByte_def)
qed

lemma itoa_no_slash: "CHR ''/'' \<notin> set (itoa (int k))"
  by (simp add: itoa_def natDec_no_slash)

lemma splitAux_part:
  "CHR ''/'' \<notin> set s \<Longrightarrow> splitAux ''/'' acc (s @ CHR ''/'' # t) = (rev acc @ s) # splitAux ''/'' [] t"
  by (induction s arbitrary: acc) (auto simp: hasPrefix_def)

lemma pointer_env:
  "pointer (''/spec/template/spec/containers/'' @ itoa (int k) @ ''/env'') =
     [''spec'', ''template'', ''spec'', ''containers'', itoa (int k), ''env'']"
  "pointer (''/spec/template/spec/containers/'' @ itoa (int k) @ ''/env/-'') =
     [''spec'', ''template'', ''spec'', ''containers'', itoa (int k), ''env'', ''-'']"
  by (simp_all add: pointer_def split_def hasPrefix_def splitAux_part itoa_no_slash)

abbreviation tdoc :: "(string \<rightharpoonup> string) \<Rightarrow> workload \<Rightarrow> json" where
  "tdoc \<equiv> docJson templateSpec"

lemmas doc_defs = docJson_def templateSpec_def podJson_def

lemma add_to_initContainers:
  "json_add [''spec'', ''template'', ''spec'', ''initContainers''] (JA [containerJson c]) (tdoc a w) =
     Some (tdoc a (w\<lparr>wl_InitContainers := [c]\<rparr>))"
  by (simp add: doc_defs listField_def)

lemma append_to_initContainers:
  "wl_InitContainers w \<noteq> [] \<Longrightarrow>
   json_add [''spec'', ''template'', ''spec'', ''initContainers'', ''-''] (containerJson c) (tdoc a w) =
     Some (tdoc a (w\<lparr>wl_InitContainers := wl_InitContainers w @ [c]\<rparr>))"
  by (simp add: doc_defs listField_def)

lemma addInitLoop_effect:
  "applyPatch (addInitLoop (wl_InitContainers w = []) ''/spec/template/spec/initContainers'' cs) (tdoc a w) =
     Some (tdoc a (w\<lparr>wl_InitContainers := wl_InitContainers w @ cs\<rparr>))"
proof (induction cs arbitrary: w)
  case Nil
  then show ?case by simp
next
  case (Cons c cs)
  note ptr = pointer_initContainers
  show ?case
    using Cons.IH [of "w\<lparr>wl_InitContainers := wl_InitContainers w @ [c]\<rparr>"]
      add_to_initContainers [of c a w] append_to_initContainers [of w c a]
    by (cases "wl_InitContainers w = []") (simp_all add: applyOp_def ptr [simplified])
qed

definition addedInits :: "Container list \<Rightarrow> Container list \<Rightarrow> Container list" where
  "addedInits have new = filter (\<lambda>c. ctr_Name c \<notin> set (map ctr_Name have)) new"

lemma patchInit_effect:
  "applyPatch (patchInitContainer (wl_InitContainers w) new ps) d =
     (case applyPatch ps d of
        None \<Rightarrow> None
      | Some d' \<Rightarrow> applyPatch (addInitLoop (wl_InitContainers w = []) ''/spec/template/spec/initContainers''
                    (addedInits (wl_InitContainers w) new)) d')"
  by (auto simp: patchInitContainer_def addedInits_def addInitContainer_def applyPatch_append split: option.splits)

definition addedEnv :: "envVar list \<Rightarrow> nat \<Rightarrow> EnvVar list" where
  "addedEnv envVars k = concat (map xv_EnvVar (filter (\<lambda>add. xv_ContainerIndex add = k) envVars))"

definition withEnv :: "envVar list \<Rightarrow> nat \<times> Container \<Rightarrow> Container" where
  "withEnv envVars kc = (snd kc)\<lparr>ctr_Env := ctr_Env (snd kc) @ addedEnv envVars (fst kc)\<rparr>"

lemma addContainerEnvVar_eq: "addContainerEnvVar k target envVars = addEnvLoop k (target = []) (addedEnv envVars k)"
proof -
  have "concat (map (\<lambda>add. filter (\<lambda>_. xv_ContainerIndex add = k) (xv_EnvVar add)) envVars) = addedEnv envVars k"
    by (induction envVars) (auto simp: addedEnv_def)
  then show ?thesis by (simp add: addContainerEnvVar_def)
qed

lemma arrayIndex_itoa: "int k < 2 ^ 63 \<Longrightarrow> arrayIndex (itoa (int k)) = Some k"
  by (simp add: arrayIndex_def atoi_itoa int64_range_def)

lemma itoa_not_dash: "itoa (int k) \<noteq> ''-''"
  using atoi_itoa natDec_hd by (auto simp: itoa_def)

lemma containerJson_env:
  "(case containerJson c of JO m \<Rightarrow> JO (m(''env'' \<mapsto> JA (map envJson es)))) =
     containerJson (c\<lparr>ctr_Env := es\<rparr>)" if "es \<noteq> []"
  using that by (simp add: containerJson_def listField_def)

lemma json_add_env:
  assumes "k < length (wl_Containers w)" and "int k < 2 ^ 63"
    and "json_add ts v (containerJson (wl_Containers w ! k)) = Some (containerJson c)" and "ts \<noteq> []"
  shows "json_add ([''spec'', ''template'', ''spec'', ''containers'', itoa (int k)] @ ts) v (tdoc a w) =
    Some (tdoc a (w\<lparr>wl_Containers := (wl_Containers w)[k := c]\<rparr>))"
proof -
  have m: "(Map.empty(x \<mapsto> p))(y := q, x \<mapsto> r) = (Map.empty(x \<mapsto> r))(y := q)" if "x \<noteq> y" for x y :: string and p q r
    using that by (simp add: fun_upd_twist)
  show ?thesis
    using assms by (simp add: doc_defs arrayIndex_itoa map_update m)
qed

lemma addEnvLoop_effect:
  assumes "k < length (wl_Containers w)" and "int k < 2 ^ 63"
  shows "applyPatch (addEnvLoop k (ctr_Env (wl_Containers w ! k) = []) es) (tdoc a w) =
    Some (tdoc a (w\<lparr>wl_Containers := (wl_Containers w)
      [k := (wl_Containers w ! k)\<lparr>ctr_Env := ctr_Env (wl_Containers w ! k) @ es\<rparr>]\<rparr>))"
  using assms(1)
proof (induction es arbitrary: w)
  case Nil
  then show ?case by simp
next
  case (Cons e es)
  let ?c = "wl_Containers w ! k"
  let ?w = "w\<lparr>wl_Containers := (wl_Containers w)[k := ?c\<lparr>ctr_Env := ctr_Env ?c @ [e]\<rparr>]\<rparr>"
  have first: "json_add [''env''] (JA [envJson e]) (containerJson ?c) = Some (containerJson (?c\<lparr>ctr_Env := [e]\<rparr>))"
    by (simp add: containerJson_def listField_def)
  have further: "json_add [''env'', ''-''] (envJson e) (containerJson ?c) =
      Some (containerJson (?c\<lparr>ctr_Env := ctr_Env ?c @ [e]\<rparr>))" if "ctr_Env ?c \<noteq> []"
    using that by (simp add: containerJson_def listField_def)
  have "applyOp (hd (addEnvLoop k (ctr_Env ?c = []) (e # es))) (tdoc a w) = Some (tdoc a ?w)"
  proof (cases "ctr_Env ?c = []")
    case True
    with json_add_env [OF Cons.prems assms(2) first] show ?thesis
      by (simp add: applyOp_def pointer_env(1) [simplified])
  next
    case False
    with json_add_env [OF Cons.prems assms(2) further] show ?thesis
      by (simp add: applyOp_def pointer_env(2) [simplified])
  qed
  moreover have "applyPatch (addEnvLoop k False es) (tdoc a ?w) =
      Some (tdoc a (w\<lparr>wl_Containers := (wl_Containers w)[k := ?c\<lparr>ctr_Env := ctr_Env ?c @ e # es\<rparr>]\<rparr>))"
    using Cons.IH [of ?w] Cons.prems by simp
  ultimately show ?case by simp
qed

lemma patchEnv_loop:
  assumes "int (length pre + length rest) \<le> 2 ^ 63" and "wl_Containers w = pre @ rest"
  shows "applyPatch (concat (map (\<lambda>(k, v). addContainerEnvVar k (ctr_Env v) envs) (enumerate (length pre) rest)))
      (tdoc a w) =
    Some (tdoc a (w\<lparr>wl_Containers := pre @ map (withEnv envs) (enumerate (length pre) rest)\<rparr>))"
  using assms
proof (induction rest arbitrary: pre w)
  case Nil
  then show ?case by (cases w) simp
next
  case (Cons c rest)
  let ?c = "withEnv envs (length pre, c)"
  let ?w = "w\<lparr>wl_Containers := (pre @ [?c]) @ rest\<rparr>"
  have "applyPatch (addContainerEnvVar (length pre) (ctr_Env c) envs) (tdoc a w) = Some (tdoc a ?w)"
    using addEnvLoop_effect [of "length pre" w "addedEnv envs (length pre)" a] Cons.prems
    by (simp add: addContainerEnvVar_eq withEnv_def nth_append)
  moreover have "applyPatch (concat (map (\<lambda>(k, v). addContainerEnvVar k (ctr_Env v) envs)
        (enumerate (Suc (length pre)) rest))) (tdoc a ?w) =
      Some (tdoc a (?w\<lparr>wl_Containers := (pre @ [?c]) @ map (withEnv envs) (enumerate (Suc (length pre)) rest)\<rparr>))"
    using Cons.IH [of "pre @ [?c]" ?w] Cons.prems(1) by simp
  ultimately show ?case by (simp add: applyPatch_append)
qed

lemma template_patch:
  assumes "int (length (wl_Containers w)) \<le> 2 ^ 63"
  shows "applyPatch (patchFor omh w (k, v) inits envs) (docJson templateSpec (om_Annotations omh) w) =
    Some (docJson templateSpec ((om_Annotations omh)(k \<mapsto> v))
      (w\<lparr>wl_InitContainers := wl_InitContainers w @ addedInits (wl_InitContainers w) inits,
         wl_Containers := map (withEnv envs) (enumerate 0 (wl_Containers w))\<rparr>))"
proof -
  let ?annos = "(om_Annotations omh)(k \<mapsto> v)"
  let ?w = "w\<lparr>wl_InitContainers := wl_InitContainers w @ addedInits (wl_InitContainers w) inits\<rparr>"
  have "applyPatch (patchAnnotations (om_Annotations omh) (Some (k, v)) []) (tdoc (om_Annotations omh) w) =
      Some (tdoc ?annos w)"
    by (auto simp: patchAnnotations_def applyOp_def pointer_initContainers doc_defs fun_upd_idem)
  then have inits: "applyPatch (patchInitContainer (wl_InitContainers w) inits
        (patchAnnotations (om_Annotations omh) (Some (k, v)) [])) (tdoc (om_Annotations omh) w) = Some (tdoc ?annos ?w)"
    by (simp add: patchInit_effect addInitLoop_effect)
  have none: "map (withEnv []) (enumerate n cs) = cs" for n cs
    by (induction cs arbitrary: n) (simp_all add: withEnv_def addedEnv_def)
  have "applyPatch (concat (map (\<lambda>(k, v). addContainerEnvVar k (ctr_Env v) envs) (enumerate 0 (wl_Containers w))))
      (tdoc ?annos ?w) = Some (tdoc ?annos (?w\<lparr>wl_Containers := map (withEnv envs) (enumerate 0 (wl_Containers w))\<rparr>))"
    using patchEnv_loop [of "[]" "wl_Containers w" ?w envs ?annos] assms by simp
  with inits show ?thesis by (simp add: patchFor_def patchEnv_def applyPatch_append none)
qed

definition demoContainer :: "string \<Rightarrow> EnvVar list \<Rightarrow> Container" where
  "demoContainer n es = \<lparr>ctr_Name = n, ctr_Image = ''img'', ctr_ImagePullPolicy = ''Always'', ctr_Command = [], ctr_Env = es\<rparr>"

definition demoWorkload :: workload where
  "demoWorkload = \<lparr>wl_Name = ''web'', wl_InitContainers = [], wl_Containers = [demoContainer ''c'' []]\<rparr>"

definition demoInject :: "envVar list" where
  "demoInject = [\<lparr>xv_EnvVar = [\<lparr>evar_Name = ''A'', evar_Value = ''1''\<rparr>], xv_ContainerIndex = 0\<rparr>]"

subsection \<open>Cron jobs\<close>

lemma cron_op_fails:
  assumes "po_Op p = ''add''" and "pointer (po_Path p) = ''spec'' # ''template'' # t # ts"
  shows "applyOp p (docJson cronJobSpec a w) = None"
  using assms by (simp add: applyOp_def docJson_def cronJobSpec_def)

lemma addInitLoop_hd:
  "cs \<noteq> [] \<Longrightarrow> applyPatch (addInitLoop first ''/spec/template/spec/initContainers'' cs) (docJson cronJobSpec a w) = None"
  by (cases cs) (auto simp: cron_op_fails pointer_initContainers [simplified])

lemma addEnvLoop_hd:
  "es \<noteq> [] \<Longrightarrow> applyPatch (addEnvLoop k first es) (docJson cronJobSpec a w) = None"
  by (cases es) (auto simp: cron_op_fails pointer_env [simplified])

lemma addEnvLoop_Nil: "applyPatch (addEnvLoop k first []) d = Some d"
  by simp

lemma cron_env_fails:
  assumes "k < length cs" and "addedEnv envs (n + k) \<noteq> []"
  shows "applyPatch (concat (map (\<lambda>(k, v). addContainerEnvVar k (ctr_Env v) envs) (enumerate n cs)))
    (docJson cronJobSpec a w) = None"
  using assms
proof (induction cs arbitrary: n k)
  case Nil
  then show ?case by simp
next
  case (Cons c cs)
  show ?case
  proof (cases "addedEnv envs n = []")
    case True
    with Cons.prems obtain j where "k = Suc j" by (cases k) auto
    with Cons.prems Cons.IH [of j "Suc n"] True show ?thesis by (simp add: addContainerEnvVar_eq)
  next
    case False
    then show ?thesis by (simp add: addContainerEnvVar_eq applyPatch_append addEnvLoop_hd)
  qed
qed

text \<open>Whether there is anything to inject besides the annotation.\<close>

definition injects :: "workload \<Rightarrow> Container list \<Rightarrow> envVar list \<Rightarrow> bool" where
  "injects w inits envs \<longleftrightarrow> addedInits (wl_InitContainers w) inits \<noteq> [] \<or>
     list_ex (\<lambda>k. addedEnv envs k \<noteq> []) [0..<length (wl_Containers w)]"

lemma cron_job_patch_fails:
  assumes "injects w inits envs"
  shows "applyPatch (patchFor omh w ap inits envs) (docJson cronJobSpec (om_Annotations omh) w) = None"
proof -
  obtain k v where ap: "ap = (k, v)" by force
  let ?annos = "(om_Annotations omh)(k \<mapsto> v)"
  have annos: "applyPatch (patchAnnotations (om_Annotations omh) (Some ap) []) (docJson cronJobSpec (om_Annotations omh) w) =
      Some (docJson cronJobSpec ?annos w)"
    by (auto simp: ap patchAnnotations_def applyOp_def pointer_initContainers docJson_def cronJobSpec_def fun_upd_idem)
  show ?thesis
  proof (cases "addedInits (wl_InitContainers w) inits = []")
    case False
    then show ?thesis
      by (simp add: patchFor_def patchEnv_def applyPatch_append patchInit_effect annos addInitLoop_hd)
  next
    case True
    with assms obtain k where k: "k < length (wl_Containers w)" "addedEnv envs k \<noteq> []"
      by (auto simp: injects_def list_ex_iff)
    then have "envs \<noteq> []" by (auto simp: addedEnv_def)
    with True cron_env_fails [OF k(1), of envs 0] k(2) show ?thesis
      by (simp add: patchFor_def patchEnv_def applyPatch_append patchInit_effect annos)
  qed
qed

lemma nothing_to_inject:
  assumes "\<not> injects w inits envs"
  shows "addedInits (wl_InitContainers w) inits = []" and "map (withEnv envs) (enumerate 0 (wl_Containers w)) = wl_Containers w"
    and "applyPatch (patchFor omh w (k, v) inits envs) (docJson cronJobSpec (om_Annotations omh) w) =
      Some (docJson cronJobSpec ((om_Annotations omh)(k \<mapsto> v)) w)"
proof -
  have no: "\<And>k. k < length (wl_Containers w) \<Longrightarrow> addedEnv envs k = []" and inits: "addedInits (wl_InitContainers w) inits = []"
    using assms by (auto simp: injects_def list_ex_iff)
  have envs: "map (withEnv envs) (enumerate n cs) = cs \<and>
      concat (map (\<lambda>(k, v). addContainerEnvVar k (ctr_Env v) envs) (enumerate n cs)) = []"
    if "\<And>k. n \<le> k \<Longrightarrow> k < n + length cs \<Longrightarrow> addedEnv envs k = []" for n cs
    using that
  proof (induction cs arbitrary: n)
    case (Cons c cs)
    from Cons.IH [of "Suc n"] Cons.prems show ?case by (simp add: withEnv_def addContainerEnvVar_eq)
  qed simp
  note none = envs [of 0 "wl_Containers w"]
  show "addedInits (wl_InitContainers w) inits = []" and "map (withEnv envs) (enumerate 0 (wl_Containers w)) = wl_Containers w"
    using inits none no by auto
  have "patchFor omh w (k, v) inits envs = patchAnnotations (om_Annotations omh) (Some (k, v)) []"
    using inits none no by (auto simp: patchFor_def patchEnv_def patchInitContainer_def addedInits_def)
  then show "applyPatch (patchFor omh w (k, v) inits envs) (docJson cronJobSpec (om_Annotations omh) w) =
      Some (docJson cronJobSpec ((om_Annotations omh)(k \<mapsto> v)) w)"
    by (auto simp: patchAnnotations_def applyOp_def pointer_initContainers docJson_def cronJobSpec_def fun_upd_idem)
qed

text \<open>Where a workload of a kind has its pod template.\<close>

definition specOf :: "string \<Rightarrow> json \<Rightarrow> json" where
  "specOf kind = (if kind = ''CronJob'' then cronJobSpec else templateSpec)"

text \<open>C4: For a workload of the kinds Deployment, DaemonSet, ReplicaSet, StatefulSet and Job, with
  its pod template at \<open>/spec/template\<close>, the patch the webhook sends means exactly this, by RFC 6902 on
  name, annotations, init containers and containers of the document: the annotation pair is set, the
  init containers whose names are not yet taken are appended in their order, every container gets the
  variables meant for its position after its own, and nothing else changes. For a CronJob, with its
  pod template below \<open>/spec/jobTemplate\<close>, the same holds only if there is nothing to inject; otherwise
  the patch cannot be applied, because it adds below \<open>/spec/template\<close>.\<close>

theorem patch_effect:
  assumes kind: "kind \<in> set workloadKinds" and len: "int (length (wl_Containers w)) \<le> 2 ^ 63"
  shows "applyPatch (patchFor omh w (k, v) inits envs) (docJson (specOf kind) (om_Annotations omh) w) =
    (if kind = ''CronJob'' \<and> injects w inits envs then None
     else Some (docJson (specOf kind) ((om_Annotations omh)(k \<mapsto> v))
       (w\<lparr>wl_InitContainers := wl_InitContainers w @ addedInits (wl_InitContainers w) inits,
          wl_Containers := map (withEnv envs) (enumerate 0 (wl_Containers w))\<rparr>)))"
proof (cases "kind = ''CronJob''")
  case cron: True
  show ?thesis
  proof (cases "injects w inits envs")
    case True
    with cron cron_job_patch_fails show ?thesis by (simp add: specOf_def)
  next
    case False
    from nothing_to_inject [OF False] cron False show ?thesis by (simp add: specOf_def)
  qed
next
  case False
  with template_patch [OF len] show ?thesis by (simp add: specOf_def)
qed

theorem patch_effect_witness:
  "applyPatch (patchFor emptyObjectMeta demoWorkload (''k'', ''v'') [waitingJob ''true''] demoInject)
      (docJson templateSpec Map.empty demoWorkload) =
    Some (docJson templateSpec [''k'' \<mapsto> ''v'']
      (demoWorkload\<lparr>wl_InitContainers := [waitingJob ''true''],
         wl_Containers := [demoContainer ''c'' [\<lparr>evar_Name = ''A'', evar_Value = ''1''\<rparr>]]\<rparr>)) \<and>
   applyPatch (patchFor emptyObjectMeta demoWorkload (''k'', ''v'') [] demoInject) (docJson cronJobSpec Map.empty demoWorkload) = None"
  using patch_effect [of "''Job''" demoWorkload emptyObjectMeta "''k''" "''v''" "[waitingJob ''true'']" demoInject]
    patch_effect [of "''CronJob''" demoWorkload emptyObjectMeta "''k''" "''v''" "[]" demoInject]
  by (simp add: workloadKinds_def specOf_def demoWorkload_def emptyObjectMeta_def demoInject_def demoContainer_def
      addedInits_def withEnv_def addedEnv_def injects_def)

subsection \<open>Resource quotas\<close>

text \<open>A request for the resource quota of a dev space is denied exactly when its user is known, to
  the watcher of the namespace or else to that of the default namespace, as a service account
  without cluster-admin rights; every other request for a quota is admitted. The request
  changes nothing but the remembered namespace.\<close>

theorem quota_denied_iff:
  assumes "rq_Kind req = ''ResourceQuota''" and "admittedMeta we req = Inr omh"
    and "wh_watchers st (rq_Namespace req) = Some own" and "wh_watchers st ''default'' = Some dflt"
  shows "mutate we req st =
    Some (Ret (if rq_UserUID req \<noteq> [] \<and>
                  (om_Name omh = ''rq-'' @ rq_Namespace req \<or> rq_Name req = ''rq-'' @ rq_Namespace req) \<and>
                  (case IsClusterAdmin (rq_UserUID req) own of
                     Some b \<Rightarrow> \<not> b
                   | None \<Rightarrow> IsClusterAdmin (rq_UserUID req) dflt = Some False)
               then denied else allowed),
          st\<lparr>wh_namespace := rq_Namespace req\<rparr>)"
  using assms
  by (auto simp: mutate_def workloadKinds_def mutateQuota_def getWatcher_def split: option.splits)

definition demoWh :: "unit whEnv" where
  "demoWh = \<lparr>we_matchNamespace = [], we_meta = (\<lambda>_. Inl ''no json''), we_workload = (\<lambda>_ _. Inl ''no json''),
     we_saApi = undefined, we_listSa = (\<lambda>_ w. (Inl ''x'', w)), we_listCm = (\<lambda>_ w. (Inl ''x'', w)),
     we_listDep = (\<lambda>_ w. (Inl ''x'', w)), we_depYaml = (\<lambda>_. Inl ''x''), we_render = undefined, we_inCluster = True,
     we_ownerAnnos = (\<lambda>_ _. []), we_timesOut = (\<lambda>_ _. False), we_lateSend = (\<lambda>_ _. False), we_annoOrder = (\<lambda>_. [])\<rparr>"

definition demoQuotaState :: "unit whState" where
  "demoQuotaState = \<lparr>wh_namespace = [], wh_watchers = [''dev'' \<mapsto> sa_record ''u1'' False ''sa'' newSet, ''default'' \<mapsto> newSet],
     wh_cmWatchers = Map.empty, wh_world = ()\<rparr>"

definition demoQuotaRequest :: admissionRequest where
  "demoQuotaRequest = \<lparr>rq_Kind = ''ResourceQuota'', rq_Operation = ''DELETE'', rq_Namespace = ''dev'',
     rq_Name = ''rq-dev'', rq_UserUID = ''u1'', rq_Raw = []\<rparr>"

theorem quota_denied_iff_witness:
  "mutate demoWh demoQuotaRequest demoQuotaState = Some (Ret denied, demoQuotaState\<lparr>wh_namespace := ''dev''\<rparr>)"
proof -
  have "rq_Kind demoQuotaRequest = ''ResourceQuota''" "admittedMeta demoWh demoQuotaRequest = Inr emptyObjectMeta"
    "wh_watchers demoQuotaState (rq_Namespace demoQuotaRequest) = Some (sa_record ''u1'' False ''sa'' newSet)"
    "wh_watchers demoQuotaState ''default'' = Some newSet"
    by (simp_all add: demoQuotaRequest_def demoQuotaState_def admittedMeta_def)
  from quota_denied_iff [OF this] show ?thesis
    by (simp add: demoQuotaRequest_def IsClusterAdmin_def sa_record_def)
qed

subsection \<open>The configuration in an annotation\<close>

lemma find_none: "list_all (\<lambda>x. \<not> P x) xs \<Longrightarrow> find P xs = None"
  by (induction xs) auto

lemma LoadSvcCfg_misses:
  assumes "RenderConfigForSvc re (TextRenderItem v) = Some (Ret (Inr cfgs))"
    and "list_all (\<lambda>c. svc_Name c \<noteq> [] \<and> svc_Type c \<noteq> t) cfgs"
    and "RenderConfig re (TextRenderItem v) = Some (Ret (Inr app))"
    and "list_all (\<lambda>c. svc_Type c \<noteq> t) (ac_ServiceConfigs (cfg_ApplicationConfig app))"
  shows "LoadSvcCfgFromStrIfValid re v n t = Some (Ret (Inr (Some app, None)))"
proof -
  have miss: "list_all (\<lambda>c. svc_Type c \<noteq> t) cs \<Longrightarrow> find (svcMatch n t) cs = None" for cs
    by (induction cs) (auto simp: svcMatch_def)
  have "list_all (\<lambda>c. svc_Type c \<noteq> t) cfgs" using assms(2) by (simp add: list_all_iff)
  then have "doLoadProfileFromSvcConfig re (TextRenderItem v) n t =
      Some (Ret (Inl ''Local config loaded, but no valid config found''))"
    using assms(1,2) miss [of cfgs]
    by (auto simp: doLoadProfileFromSvcConfig_def svcMatch_def split: list.splits)
  then show ?thesis
    using assms(3) miss [OF assms(4)]
    by (simp add: LoadSvcCfgFromStrIfValid_def doLoadProfileFromAppConfig_def GetSvcConfigV2_def)
qed

text \<open>A configuration in the annotation of a workload is searched with the kind as the API server
  writes it. When no service of the configuration has that very string as its type, a
  deployment being configured as \<open>deployment\<close>, nothing is injected, and neither the config map
  of the application nor the dependency config maps are asked.\<close>

theorem annotation_type_is_case_sensitive:
  assumes "om_Annotations omh ''dev.nocalhost'' = Some v" and "v \<noteq> []" and "wl_Name wl \<noteq> []"
    and "RenderConfigForSvc (we_render we) (TextRenderItem v) = Some (Ret (Inr cfgs))"
    and "list_all (\<lambda>c. svc_Name c \<noteq> [] \<and> svc_Type c \<noteq> rq_Kind req) cfgs"
    and "RenderConfig (we_render we) (TextRenderItem v) = Some (Ret (Inr cfg))"
    and "list_all (\<lambda>c. svc_Type c \<noteq> rq_Kind req) (ac_ServiceConfigs (cfg_ApplicationConfig cfg))"
  shows "injection we req omh appName wl st = Some (Ret ([], []), st)"
  using assms(1-3) LoadSvcCfg_misses [OF assms(4-7)]
  by (simp add: injection_def fromAnnotation_def nocalhostDepConfigmapCustom_def)

definition demoAnnotated :: "unit whEnv" where
  "demoAnnotated = demoWh\<lparr>we_render := demoRenderEnv\<lparr>re_yamlSvcs := (\<lambda>_. ([newServiceConfig ''web'' ''deployment''], None))\<rparr>\<rparr>"

definition demoDeployRequest :: admissionRequest where
  "demoDeployRequest = demoQuotaRequest\<lparr>rq_Kind := ''Deployment'', rq_Operation := ''CREATE''\<rparr>"

lemma demo_render:
  "renderWith (we_render demoAnnotated) fs (TextRenderItem ''cfg'') None = Some (Ret (Inr (AbsSign @ nl @ ''cfg'')))"
proof -
  have "re_depth (we_render demoAnnotated) = Suc 0" "escapeDollars ''cfg'' = ''cfg''"
    by (simp_all add: demoAnnotated_def demoRenderEnv_def escapeDollars_def)
  then show ?thesis
    using Parse_escaped [where depth = 0 and t = "''cfg''" and absPath = "[]" and hasBeen = "[]"]
    by (simp only: renderWith_def Render_def GetContent.simps GetLocation.simps append_Nil)
qed

theorem annotation_type_is_case_sensitive_witness:
  "injection demoAnnotated demoDeployRequest (emptyObjectMeta\<lparr>om_Annotations := [''dev.nocalhost'' \<mapsto> ''cfg'']\<rparr>)
     ''shop'' demoWorkload demoQuotaState = Some (Ret ([], []), demoQuotaState)"
proof (rule annotation_type_is_case_sensitive)
  let ?re = "we_render demoAnnotated"
  show "om_Annotations (emptyObjectMeta\<lparr>om_Annotations := [''dev.nocalhost'' \<mapsto> ''cfg'']\<rparr>) ''dev.nocalhost'' = Some ''cfg''"
    "''cfg'' \<noteq> []" "wl_Name demoWorkload \<noteq> []" by (simp_all add: demoWorkload_def)
  show "RenderConfigForSvc ?re (TextRenderItem ''cfg'') = Some (Ret (Inr [newServiceConfig ''web'' ''deployment'']))"
    by (simp add: RenderConfigForSvc_def demo_render) (simp add: demoAnnotated_def)
  show "list_all (\<lambda>c. svc_Name c \<noteq> [] \<and> svc_Type c \<noteq> rq_Kind demoDeployRequest) [newServiceConfig ''web'' ''deployment'']"
    by (simp add: newServiceConfig_def demoDeployRequest_def)
  have yaml: "re_yamlTree ?re = (\<lambda>t. Inr (scalar t))" "re_decode ?re = (\<lambda>_. emptyConfigV2)"
    "re_svcOrder ?re = (\<lambda>m. sorted_list_of_set (dom m))"
    by (simp_all add: demoAnnotated_def demoRenderEnv_def)
  have "dedupServices ?re [] = []" by (simp add: dedupServices_def yaml)
  then have app: "RenderConfig ?re (TextRenderItem ''cfg'') = Some (Ret (Inr (parseEnvFromIntoEnv ?re emptyConfigV2)))"
    by (simp add: RenderConfig_def demo_render parseNocalhostConfigEnvFile_def yaml parseEnvFromIntoEnv_def
        emptyConfigV2_def emptyApplicationConfig_def)
  show "RenderConfig ?re (TextRenderItem ''cfg'') = Some (Ret (Inr (parseEnvFromIntoEnv ?re emptyConfigV2)))"
    by (rule app)
  show "list_all (\<lambda>c. svc_Type c \<noteq> rq_Kind demoDeployRequest)
      (ac_ServiceConfigs (cfg_ApplicationConfig (parseEnvFromIntoEnv ?re emptyConfigV2)))"
    by (simp add: parseEnvFromIntoEnv_def emptyConfigV2_def emptyApplicationConfig_def)
qed

subsection \<open>The dependency config maps\<close>

text \<open>The name of a release never helps to find a dependency: the names have to be equal anyway.\<close>

lemma release_name_never_matches:
  "depMatches dep name type resourceName resourceType \<longleftrightarrow>
     name = resourceName \<and> toLower type = toLower resourceType"
  by (auto simp: depMatches_def dest: arg_cong [where f = length])

text \<open>
  Two dependency config maps, the first of which has something to wait for: two init
  containers with the same name are injected.
\<close>

lemma addWait_nonempty: "cmd \<noteq> [] \<Longrightarrow> addWait args cmd \<noteq> []"
  by (simp add: addWait_def)

lemma depWait_nonempty: "cmd \<noteq> [] \<Longrightarrow> depWait dep rn rt cmd \<noteq> []"
  unfolding depWait_def
  by (rule fold_invariant_set [where P = "\<lambda>c. c \<noteq> []"]) (auto simp: addWait_nonempty split: option.splits)

lemma waiting_job_twice:
  assumes "contains (cfm_Name cm1) DependenceConfigMapPrefix" "contains (cfm_Name cm2) DependenceConfigMapPrefix"
    and "cfm_Data cm1 = Some d1" "d1 ''nocalhost'' = Some t1" "yaml t1 = Inr dep1" "depWait dep1 rn rt [] \<noteq> []"
    and "cfm_Data cm2 = Some d2" "d2 ''nocalhost'' = Some t2" "yaml t2 = Inr dep2"
  shows "\<exists>a b es. nocalhostDepConfigmap yaml (Inr [cm1, cm2]) rn rt cs = Ret ([waitingJob a, waitingJob b], es)"
  using assms depWait_nonempty [OF assms(6), of dep2 rn rt]
  by (simp add: nocalhostDepConfigmap_def) blast

end
