(* ===== verification/Validate.thy ===== *)
theory Validate
  imports Profile
begin

text \<open>
  The validation of a service configuration, \<open>internal/nhctl/config_validate/config_validate.go\<close>,
  with the ports of \<open>internal/nhctl/utils/util.go\<close>, and its properties. A validator returns a
  hint, which is empty when the value passes. What the validators need of the cluster is passed
  to them through two environment variables of the process.

  Parameters: the checks of the libraries for DNS labels and quantities, the text of a failed
  number conversion, a free local port, and the supported workload types.
\<close>

record validEnv =
  ve_dnsErrs :: "string \<Rightarrow> string list"
  ve_quantity :: "string \<Rightarrow> gerr option"
  ve_numErr :: "string \<Rightarrow> gerr"
  ve_freePort :: "gerr + int"
  ve_supported :: "SvcType \<rightharpoonup> DevModeAction"

text \<open>The process environment.\<close>

type_synonym procEnv = "string \<rightharpoonup> string"

definition SUPPORT_SC :: string where "SUPPORT_SC = ''NOCALHOST_SUPPORT_SC''"
definition CONTAINERS :: string where "CONTAINERS = ''NOCALHOST_CONTAINERS''"

definition nameLines :: "string list \<Rightarrow> string" where
  "nameLines names = concat (map (\<lambda>n. n @ newline) names)"

text \<open>\<open>classes\<close> is the answer of the cluster, \<open>None\<close> without a client.\<close>

definition PrepareForConfigurationValidate ::
  "(gerr + string list) option \<Rightarrow> string list \<Rightarrow> procEnv \<Rightarrow> procEnv" where
  "PrepareForConfigurationValidate classes containers env =
     (let env1 = (if containers \<noteq> [] then env(CONTAINERS \<mapsto> nameLines containers) else env) in
      case classes of
        None \<Rightarrow> env1
      | Some (Inl _) \<Rightarrow> map_delete SUPPORT_SC env1
      | Some (Inr names) \<Rightarrow> env1(SUPPORT_SC \<mapsto> nameLines names))"

definition hintIfNoPass :: "bool \<Rightarrow> string \<Rightarrow> string" where
  "hintIfNoPass result hint = (if \<not> result then hint else [])"

definition IsDNS1123Label :: "validEnv \<Rightarrow> string \<Rightarrow> string" where
  "IsDNS1123Label ve val =
     hintIfNoPass (val = [] \<or> ve_dnsErrs ve val = []) (join (ve_dnsErrs ve val) newline)"

definition IsSupportsWorkLoads :: "validEnv \<Rightarrow> string \<Rightarrow> string" where
  "IsSupportsWorkLoads ve val =
     hintIfNoPass (snd (SvcTypeOfMutate (ve_supported ve) val) = None) ''Current work load is not supported yet''"

definition IsSyncType :: "string \<Rightarrow> string" where
  "IsSyncType val =
     hintIfNoPass (val = [] \<or> val = ''sendReceive'' \<or> val = ''sendonly'' \<or> val = ''send'')
       ''Must be sendReceive or send''"

definition IsSyncMode :: "string \<Rightarrow> string" where
  "IsSyncMode val =
     hintIfNoPass (val = [] \<or> val = ''pattern'' \<or> val = ''gitIgnore'') ''Must be pattern or gitIgnore''"

definition IsQuantity :: "validEnv \<Rightarrow> string \<Rightarrow> string" where
  "IsQuantity ve val =
     (if val = [] then []
      else case ve_quantity ve val of None \<Rightarrow> [] | Some err \<Rightarrow> err)"

definition bracketed :: "string list \<Rightarrow> string" where
  "bracketed xs = ''['' @ join xs '' '' @ '']''"

definition StorageClassSupported :: "procEnv \<Rightarrow> string \<Rightarrow> string" where
  "StorageClassSupported env val =
     (case env SUPPORT_SC of
        None \<Rightarrow> []
      | Some supportsEnv \<Rightarrow>
          if val = [] then []
          else let parts = split supportsEnv newline in
            hintIfNoPass (val \<in> set parts)
              (''we found your cluster only supports storage class '' @ bracketed parts @
               '', config for storageclass '' @ val @ '' do not matched''))"

definition languages :: "string list" where
  "languages = [''node'', ''java'', ''go'', ''python'', ''php'', ''ruby'']"

definition LanguageCheck :: "string \<Rightarrow> string" where
  "LanguageCheck val =
     (if val = [] then []
      else hintIfNoPass (val \<in> set languages)
        (''language '' @ val @ '' is unsupported, only '' @ bracketed languages @ '' supported''))"

definition ContainerCheck :: "procEnv \<Rightarrow> string \<Rightarrow> string" where
  "ContainerCheck env val =
     (case env CONTAINERS of
        None \<Rightarrow> []
      | Some supportsEnv \<Rightarrow>
          (let parts = split supportsEnv newline in
           hintIfNoPass (val \<in> set parts)
             (''we found your workloads with container '' @ bracketed parts @
              '', container specified named '' @ [CHR 0x27] @ val @ [CHR 0x27] @ '' do not matched'')))"

subsection \<open>Ports\<close>

definition portRangeErr :: "string \<Rightarrow> string \<Rightarrow> gerr" where
  "portRangeErr which portStr =
     ''The range of TCP port number is [0, 65535], wrong defined of '' @ which @ '': '' @ portStr @ ''.''"

definition GetPortForwardForString :: "validEnv \<Rightarrow> string \<Rightarrow> gerr + int \<times> int" where
  "GetPortForwardForString ve portStr =
     (case split portStr '':'' of
        [_] \<Rightarrow>
          (case atoi portStr of
             None \<Rightarrow> Inl (wrap (''Wrong format of port: '' @ portStr @ ''.'') (ve_numErr ve portStr))
           | Some port \<Rightarrow>
               if port > 65535 \<or> port < 0 then Inl (portRangeErr ''port'' portStr) else Inr (port, port))
      | s \<Rightarrow>
          (case (if s ! 0 = [] then ve_freePort ve
                 else case atoi (s ! 0) of
                   None \<Rightarrow> Inl (wrap (''Wrong format of local port: '' @ s ! 0 @ ''.'') (ve_numErr ve (s ! 0)))
                 | Some p \<Rightarrow> Inr p) of
             Inl err \<Rightarrow> Inl err
           | Inr localPort \<Rightarrow>
               (case atoi (s ! 1) of
                  None \<Rightarrow> Inl (wrap (''wrong format of remote port: '' @ s ! 1 @ '', skipped'') (ve_numErr ve (s ! 1)))
                | Some remotePort \<Rightarrow>
                    if localPort > 65535 \<or> localPort < 0 then Inl (portRangeErr ''local port'' portStr)
                    else if remotePort > 65535 \<or> localPort < 0 then Inl (portRangeErr ''remote port'' portStr)
                    else Inr (localPort, remotePort))))"

definition PortForwardCheck :: "validEnv \<Rightarrow> string \<Rightarrow> string" where
  "PortForwardCheck ve val =
     (case GetPortForwardForString ve val of Inl err \<Rightarrow> err | Inr _ \<Rightarrow> [])"

definition PortCheck :: "validEnv \<Rightarrow> int \<Rightarrow> string" where
  "PortCheck ve val =
     (case GetPortForwardForString ve (itoa val) of
        Inl err \<Rightarrow> err
      | Inr (l, r) \<Rightarrow> hintIfNoPass (l = r) ''You must defined a TCP port number with range of [0, 65535]'')"

text \<open>The message for the fields that failed: name, value and hint, as the validator library reports them.\<close>

fun errMsgLoop :: "nat \<Rightarrow> (string \<times> string \<times> string) list \<Rightarrow> string" where
  "errMsgLoop i [] = []"
| "errMsgLoop i ((field, val, hint) # es) =
     newline @ newline @ ''('' @ itoa (int i) @ '') Error on field '' @ [CHR 0x27] @ field @ [CHR 0x27] @
     '', value '' @ [CHR 0x27] @ val @ [CHR 0x27] @ '', hint: '' @ hint @ ''. '' @ errMsgLoop (Suc i) es"

definition Validate :: "gerr option + (string \<times> string \<times> string) list \<Rightarrow> gerr option" where
  "Validate result =
     (case result of
        Inl err \<Rightarrow> err
      | Inr [] \<Rightarrow> Some []
      | Inr es \<Rightarrow> Some (''[Configuration Validate Error]: '' @ errMsgLoop 0 es))"

subsection \<open>Properties\<close>

text \<open>C35: Which ports are accepted. A port number is valid exactly when it is between 0 and 65535. A pair
  of ports is accepted exactly when its local port is in that range and its remote port is at
  most 65535: the remote port is not checked from below.\<close>

theorem accepted_ports:
  shows "(int64_range v \<longrightarrow> (PortCheck ve v = [] \<longleftrightarrow> 0 \<le> v \<and> v \<le> 65535)) \<and>
    (int64_range l \<and> int64_range r \<longrightarrow>
      (PortForwardCheck ve (itoa l @ '':'' @ itoa r) = [] \<longleftrightarrow> 0 \<le> l \<and> l \<le> 65535 \<and> r \<le> 65535))"
proof -
  have colon: "CHR '':'' \<notin> set (itoa i)" for i
    using isDigitByte_itoa_chars [of "CHR '':''" i] by (auto simp: isDigitByte_def)
  have one: "split (itoa i) '':'' = [itoa i]" for i
    by (rule split_no_sep [of "CHR '':''"]) (simp_all add: colon)
  have two: "split (itoa l @ '':'' @ itoa r) '':'' = [itoa l, itoa r]"
    using split_join [of "CHR '':''" "'':''" "[itoa l, itoa r]"] colon by simp
  have err: "portRangeErr w p \<noteq> []" "wrap m e \<noteq> []" for w p m e by (simp_all add: portRangeErr_def wrap_def)
  have "PortCheck ve v = [] \<longleftrightarrow> 0 \<le> v \<and> v \<le> 65535" if "int64_range v"
    using that by (auto simp: PortCheck_def GetPortForwardForString_def one atoi_itoa err hintIfNoPass_def)
  moreover have "PortForwardCheck ve (itoa l @ '':'' @ itoa r) = [] \<longleftrightarrow> 0 \<le> l \<and> l \<le> 65535 \<and> r \<le> 65535"
    if "int64_range l" "int64_range r"
    using that by (auto simp: PortForwardCheck_def GetPortForwardForString_def two [simplified] atoi_itoa err)
  ultimately show ?thesis by blast
qed

theorem accepted_ports_witness:
  "PortForwardCheck \<lparr>ve_dnsErrs = \<lambda>_. [], ve_quantity = \<lambda>_. None, ve_numErr = \<lambda>_. [], ve_freePort = Inr 1,
     ve_supported = Map.empty\<rparr> (itoa 80 @ '':'' @ itoa (- 1)) = []"
  using accepted_ports [of 0 _ 80 "- 1"] by (simp add: int64_range_def)

text \<open>After the names of the containers of a workload have been passed on, the check of a container
  name accepts exactly these names and the empty one.\<close>

theorem container_names_accepted:
  assumes "names \<noteq> []" and "\<forall>n\<in>set names. CHR 0x0A \<notin> set n"
  shows "ContainerCheck (PrepareForConfigurationValidate classes names env) val = [] \<longleftrightarrow>
    val \<in> set names \<or> val = []"
proof -
  have "PrepareForConfigurationValidate classes names env CONTAINERS = Some (nameLines names)"
    using assms(1) by (auto simp: PrepareForConfigurationValidate_def CONTAINERS_def SUPPORT_SC_def split: option.splits sum.splits)
  moreover have "set (split (nameLines names) newline) = insert [] (set names)"
    using assms(2) split_lines [of names "CHR 0x0A"] by (simp add: nameLines_def)
  ultimately show ?thesis by (auto simp: ContainerCheck_def hintIfNoPass_def)
qed

theorem container_names_accepted_witness:
  "ContainerCheck (PrepareForConfigurationValidate None [''web'', ''db''] Map.empty) ''db'' = [] \<and>
   ContainerCheck (PrepareForConfigurationValidate None [''web'', ''db''] Map.empty) ''d'' \<noteq> []"
  using container_names_accepted [of "[''web'', ''db'']" None Map.empty] by simp

end
