(* ===== verification/ResCache.thy ===== *)
theory ResCache
  imports SvcTypes "HOL-Library.Char_ord" "HOL-Library.List_Lexorder"
begin

text \<open>
  The daemon's cache of the objects of a cluster, \<open>internal/nhctl/resouce_cache\<close>: which
  resource types are supported and under which names (\<open>search.go\<close>), queries over the stores of
  the informers (\<open>search.go\<close>), and the sets of application names per namespace and resource
  type that the event handlers keep (\<open>appcache.go\<close>).

  The store of an informer is the list of its objects, in the order in which \<open>List\<close> returns
  them. The discovery of the API server, the informers and SHA-1 are parameters.
\<close>

subsection \<open>Objects\<close>

record GroupVersionResource =
  gr_Group :: string
  gr_Version :: string
  gr_Resource :: string

record OwnerReference =
  or_APIVersion :: string
  or_Kind :: string
  or_Name :: string
  or_Controller :: "bool option"

record kubeObject =
  ko_Name :: string
  ko_Namespace :: string
  ko_Annotations :: "(string \<rightharpoonup> string) option"
  ko_Labels :: "string \<rightharpoonup> string"
  ko_DeletionTimestamp :: "string option"
  ko_OwnerReferences :: "OwnerReference list"
  ko_Gvk :: GroupVersionKind

definition emptyGvk :: GroupVersionKind where
  "emptyGvk = \<lparr>gvk_Group = [], gvk_Version = [], gvk_Kind = []\<rparr>"

text \<open>\<open>schema.ParseGroupVersion\<close> of apimachinery.\<close>

definition ParseGroupVersion :: "string \<Rightarrow> gerr + (string \<times> string)" where
  "ParseGroupVersion gv =
     (if gv = [] \<or> gv = ''/'' then Inr ([], [])
      else case split gv ''/'' of
        [v] \<Rightarrow> Inr ([], v)
      | [g, v] \<Rightarrow> Inr (g, v)
      | _ \<Rightarrow> Inl (''unexpected GroupVersion string: '' @ gv))"


fun GetControllerOfNoCopy :: "OwnerReference list \<Rightarrow> OwnerReference option" where
  "GetControllerOfNoCopy [] = None"
| "GetControllerOfNoCopy (r # rs) = (if or_Controller r = Some True then Some r else GetControllerOfNoCopy rs)"

definition getAppNameOrigin :: "kubeObject \<Rightarrow> string" where
  "getAppNameOrigin e =
     (case ko_Annotations e of
        None \<Rightarrow> []
      | Some annotations \<Rightarrow>
          if ko_DeletionTimestamp e \<noteq> None then []
          else if get_str annotations NocalhostApplicationName \<noteq> [] then get_str annotations NocalhostApplicationName
          else if get_str annotations HelmReleaseName \<noteq> [] then get_str annotations HelmReleaseName
          else [])"

definition getAppName :: "kubeObject \<Rightarrow> string" where
  "getAppName e = (let appName = getAppNameOrigin e in if appName = [] then DefaultNocalhostApplication else appName)"

definition nsResource :: "string \<Rightarrow> string \<Rightarrow> string" where
  "nsResource ns resourceName = ns @ ''/'' @ resourceName"

definition getOwnRefInfo :: "kubeObject \<Rightarrow> string \<times> GroupVersionKind option" where
  "getOwnRefInfo e =
     (if ko_OwnerReferences e = [] then ([], None)
      else case GetControllerOfNoCopy (ko_OwnerReferences e) of
        None \<Rightarrow> ([], None)
      | Some ownerRef \<Rightarrow>
          (case ParseGroupVersion (or_APIVersion ownerRef) of
             Inl _ \<Rightarrow> ([], None)
           | Inr (g, v) \<Rightarrow>
               (nsResource (ko_Namespace e) (or_Name ownerRef),
                Some \<lparr>gvk_Group = g, gvk_Version = v, gvk_Kind = or_Kind ownerRef\<rparr>)))"

subsection \<open>Supported resource types\<close>

record GvkGvrWithAlias =
  gg_Gvr :: GroupVersionResource
  gg_Gvk :: GroupVersionKind
  gg_alias :: "string list"
  gg_Namespaced :: bool

definition GetFullName :: "GroupVersionResource \<Rightarrow> string" where
  "GetFullName gvr =
     (if gr_Version gvr \<noteq> [] \<and> gr_Group gvr \<noteq> [] then
        gr_Resource gvr @ ''.'' @ gr_Version gvr @ ''.'' @ gr_Group gvr
      else gr_Resource gvr)"

record APIResource =
  ar_Name :: string
  ar_SingularName :: string
  ar_Kind :: string
  ar_Namespaced :: bool
  ar_ShortNames :: "string list"

text \<open>The versions of a group are a map; the list has them in the order of the walk.\<close>

record APIGroupResources =
  ag_Group :: string
  ag_VersionedResources :: "(string \<times> APIResource list) list"

definition GroupToTypeMap :: "(string \<times> string list) list" where
  "GroupToTypeMap =
     [(''Workloads'', [''Deployment.v1.apps'', ''StatefulSet.v1.apps'', ''DaemonSet.v1.apps'', ''Job.v1.batch'',
        ''CronJob.v1beta1.batch'', ''CronJob.v1.batch'', ''Pod.v1.'']),
      (''Networks'', [''Service.v1.'', ''Endpoints.v1.'', ''Ingress.v1.networking.k8s.io'',
        ''NetworkPolicy.v1.networking.k8s.io'']),
      (''Configurations'', [''ConfigMap.v1.'', ''Secret.v1.'', ''HorizontalPodAutoscaler.v1.autoscaling'',
        ''ResourceQuota.v1.'', ''PodDisruptionBudget.v1.policy'']),
      (''Storages'', [''PersistentVolume.v1.'', ''PersistentVolumeClaim.v1.'', ''StorageClass.v1.storage.k8s.io''])]"

text \<open>The kind of \<open>schema.ParseKindArg\<close>, when its argument has two dots.\<close>

definition kindOfArg :: "string \<Rightarrow> string option" where
  "kindOfArg s = (case split s ''.'' of k # _ # _ # _ \<Rightarrow> Some k | _ \<Rightarrow> None)"

definition kindsOf :: "string list \<Rightarrow> string list" where
  "kindsOf args = List.map_filter kindOfArg args"

definition neededKinds :: "string list" where
  "neededKinds = kindsOf (''Namespace.v1.'' # concat (map snd GroupToTypeMap) @ [''ReplicaSet.v1.apps''])"

definition handledKinds :: "string list" where
  "handledKinds = kindsOf (snd (hd GroupToTypeMap))"

definition ggwaOf :: "string \<Rightarrow> string \<Rightarrow> APIResource \<Rightarrow> GvkGvrWithAlias" where
  "ggwaOf g version r =
     (let gvr = \<lparr>gr_Group = g, gr_Version = version, gr_Resource = ar_Name r\<rparr> in
      \<lparr>gg_Gvr = gvr, gg_Gvk = \<lparr>gvk_Group = g, gvk_Version = version, gvk_Kind = ar_Kind r\<rparr>,
       gg_alias = [ar_Name r, ar_SingularName r, toLower (ar_Kind r)] @ ar_ShortNames r @ [GetFullName gvr],
       gg_Namespaced = ar_Namespaced r\<rparr>)"

definition candidates :: "APIGroupResources list \<Rightarrow> GvkGvrWithAlias list" where
  "candidates apiResources =
     concat (map (\<lambda>ag. concat (map (\<lambda>(version, resources).
        map (ggwaOf (ag_Group ag) version)
          (filter (\<lambda>r. ar_Kind r \<in> set neededKinds \<and> CHR ''/'' \<notin> set (ar_Name r)) resources))
        (ag_VersionedResources ag))) apiResources)"

definition groupKind :: "GvkGvrWithAlias \<Rightarrow> string \<times> string" where
  "groupKind g = (gvk_Group (gg_Gvk g), gvk_Kind (gg_Gvk g))"

text \<open>
  \<open>order\<close> is the order of the walk over the map from group and kind to its versions;
  \<open>known\<close> says for which resources the informer factory has an informer. Of every group and kind
  the first known version is taken.
\<close>

definition getSupportedSchema ::
  "(GroupVersionResource \<Rightarrow> bool) \<Rightarrow> (string \<times> string) list \<Rightarrow> APIGroupResources list \<Rightarrow> gerr + GvkGvrWithAlias list" where
  "getSupportedSchema known order apiResources =
     (let result = List.map_filter (\<lambda>k. List.find (\<lambda>g. groupKind g = k \<and> known (gg_Gvr g)) (candidates apiResources)) order in
      if result = [] then Inl ''Origin restMapping is empty, this should not happened'' else Inr result)"

definition eventHandledTypes :: "GvkGvrWithAlias list \<Rightarrow> GvkGvrWithAlias list" where
  "eventHandledTypes result = filter (\<lambda>g. gvk_Kind (gg_Gvk g) \<in> set handledKinds) result"

definition storeAliases :: "GvkGvrWithAlias \<Rightarrow> (string \<rightharpoonup> GvkGvrWithAlias) \<Rightarrow> (string \<rightharpoonup> GvkGvrWithAlias)" where
  "storeAliases resource schema =
     fold (\<lambda>alias m. if alias \<noteq> [] then m(alias \<mapsto> resource) else m) (gg_alias resource) schema"

definition ConvertGvkToApiResource :: "GroupVersionKind \<Rightarrow> APIGroupResources list \<Rightarrow> gerr + APIResource" where
  "ConvertGvkToApiResource gvk grs =
     (case concat (map (\<lambda>ag. if ag_Group ag \<noteq> gvk_Group gvk then [] else
             concat (map (\<lambda>(version, resources). if version \<noteq> gvk_Version gvk then []
                else filter (\<lambda>r. ar_Kind r = gvk_Kind gvk) resources) (ag_VersionedResources ag))) grs) of
        r # _ \<Rightarrow> Inr r
      | [] \<Rightarrow> Inl ''Can not convert gvk to gvr'')"

record CustomResourceDefinition =
  crd_Group :: string
  crd_Kind :: string
  crd_NamespaceScoped :: bool
  crd_Versions :: "string list"

definition ConvertCRDToGgwa :: "CustomResourceDefinition \<Rightarrow> APIGroupResources list \<Rightarrow> GvkGvrWithAlias list" where
  "ConvertCRDToGgwa crd agrs =
     concat (map (\<lambda>version.
       let gvk = \<lparr>gvk_Group = crd_Group crd, gvk_Version = version, gvk_Kind = crd_Kind crd\<rparr> in
       case ConvertGvkToApiResource gvk agrs of
         Inl _ \<Rightarrow> []
       | Inr apiR \<Rightarrow>
           [\<lparr>gg_Gvr = \<lparr>gr_Group = gvk_Group gvk, gr_Version = version, gr_Resource = ar_Name apiR\<rparr>, gg_Gvk = gvk,
             gg_alias = [ar_Name apiR @ ''.'' @ version @ ''.'' @ gvk_Group gvk],
             gg_Namespaced = crd_NamespaceScoped crd\<rparr>]) (crd_Versions crd))"

text \<open>\<open>crds\<close> are the definitions in the order in which their goroutines finish.\<close>

definition getCrdSchema ::
  "gerr + CustomResourceDefinition list \<Rightarrow> APIGroupResources list \<Rightarrow> gerr + GvkGvrWithAlias list" where
  "getCrdSchema crds agrs =
     (case crds of
        Inl err \<Rightarrow> Inl err
      | Inr cs \<Rightarrow>
          (let crdGvk = \<lparr>gvk_Group = ''apiextensions.k8s.io'', gvk_Version = ''v1'', gvk_Kind = ''CustomResourceDefinition''\<rparr>;
               own = (case ConvertGvkToApiResource crdGvk agrs of
                        Inl _ \<Rightarrow> []
                      | Inr apiR \<Rightarrow>
                          [\<lparr>gg_Gvr = \<lparr>gr_Group = gvk_Group crdGvk, gr_Version = gvk_Version crdGvk, gr_Resource = ar_Name apiR\<rparr>,
                            gg_Gvk = crdGvk,
                            gg_alias = [ar_Name apiR, ar_SingularName apiR, toLower (ar_Kind apiR)] @ ar_ShortNames apiR @ [''crds''],
                            gg_Namespaced = False\<rparr>]);
               mappings = concat (map (\<lambda>c. ConvertCRDToGgwa c agrs) cs) @ own
           in if mappings = [] then Inl ''RestMapping is empty, this should not happened'' else Inr mappings))"

text \<open>The names a searcher answers to, as \<open>initSearcher\<close> fills them in: built-in types first, then those of the cluster's own.\<close>

definition initSchema ::
  "bool \<Rightarrow> (GroupVersionResource \<Rightarrow> bool) \<Rightarrow> (string \<times> string) list \<Rightarrow> gerr + CustomResourceDefinition list \<Rightarrow>
     APIGroupResources list \<Rightarrow> gerr + ((string \<rightharpoonup> GvkGvrWithAlias) \<times> GvkGvrWithAlias list)" where
  "initSchema isClusterAdmin known order crds gr =
     (let crdList = (if isClusterAdmin then (case getCrdSchema crds gr of Inl _ \<Rightarrow> [] | Inr l \<Rightarrow> l) else []) in
      case getSupportedSchema known order gr of
        Inl err \<Rightarrow> Inl err
      | Inr builtIn \<Rightarrow> Inr (fold storeAliases (builtIn @ crdList) Map.empty, builtIn @ crdList))"

subsection \<open>Queries\<close>

record Searcher =
  sr_schema :: "string \<rightharpoonup> GvkGvrWithAlias"
  sr_store :: "GroupVersionResource \<Rightarrow> kubeObject list"
  sr_resourceForGVK :: "GroupVersionKind \<Rightarrow> gerr + (GroupVersionResource \<times> bool)"

definition GetResourceInfo :: "string \<Rightarrow> Searcher \<Rightarrow> gerr + GvkGvrWithAlias" where
  "GetResourceInfo resourceType s =
     (case sr_schema s (toLower resourceType) of
        Some m \<Rightarrow> Inr m
      | None \<Rightarrow> Inl (''Can't get restMapping, resource type: '' @ resourceType))"

text \<open>\<open>GetByKey\<close> of a store; the key of an object without namespace is its name.\<close>

definition storeGet :: "string \<Rightarrow> kubeObject list \<Rightarrow> kubeObject option" where
  "storeGet key objs =
     List.find (\<lambda>o'. (if ko_Namespace o' = [] then ko_Name o' else nsResource (ko_Namespace o') (ko_Name o')) = key) objs"

definition informerGetterGvKVer :: "Searcher \<Rightarrow> GroupVersionKind \<Rightarrow> gerr + kubeObject list" where
  "informerGetterGvKVer s gvk =
     (case sr_resourceForGVK s gvk of
        Inl _ \<Rightarrow> Inl ''gvk is not ns scope resources''
      | Inr (gvr, nsScope) \<Rightarrow> if \<not> nsScope then Inl ''gvk is not ns scope resources'' else Inr (sr_store s gvr))"

text \<open>\<open>None\<close> says that the recursion over the owners never returns.\<close>

partial_function (option) appNameByAnnotationsAndOwnerRef :: "Searcher \<Rightarrow> kubeObject \<Rightarrow> string option" where
  "appNameByAnnotationsAndOwnerRef s e =
     (if getAppNameOrigin e \<noteq> [] then Some (getAppNameOrigin e)
      else case getOwnRefInfo e of (key, gvk) \<Rightarrow>
        (case gvk of
           None \<Rightarrow> Some DefaultNocalhostApplication
         | Some k \<Rightarrow>
             (case informerGetterGvKVer s k of
                Inl _ \<Rightarrow> Some DefaultNocalhostApplication
              | Inr store \<Rightarrow>
                  (case storeGet key store of
                     Some ownRef \<Rightarrow> appNameByAnnotationsAndOwnerRef s ownRef
                   | None \<Rightarrow> Some DefaultNocalhostApplication))))"

definition filter_namespace :: "string \<Rightarrow> kubeObject list \<Rightarrow> kubeObject list" where
  "filter_namespace namespace es = (if namespace = [] then es else filter (\<lambda>e. ko_Namespace e = namespace) es)"

fun appNameLoop :: "Searcher \<Rightarrow> string \<Rightarrow> kubeObject list \<Rightarrow> kubeObject list option" where
  "appNameLoop s app [] = Some []"
| "appNameLoop s app (e # es) =
     (case appNameByAnnotationsAndOwnerRef s e of
        None \<Rightarrow> None
      | Some a \<Rightarrow>
          (case appNameLoop s app es of
             None \<Rightarrow> None
           | Some r \<Rightarrow> Some (if a = app then e # r else r)))"

definition filter_appName :: "Searcher \<Rightarrow> string \<Rightarrow> kubeObject list \<Rightarrow> kubeObject list option" where
  "filter_appName s app es = (if app = [] then Some es else appNameLoop s app es)"

text \<open>A set of wanted labels is a list of pairs, in the order of the walk over the map.\<close>

definition labelSelector ::
  "(string \<times> string) list \<Rightarrow> (string \<Rightarrow> string \<Rightarrow> bool) \<Rightarrow> kubeObject list \<Rightarrow> kubeObject list" where
  "labelSelector label f es = filter (\<lambda>e. list_all (\<lambda>(k, v). f (get_str (ko_Labels e) k) v) label) es"

definition filter_label :: "(string \<times> string) list \<Rightarrow> kubeObject list \<Rightarrow> kubeObject list" where
  "filter_label label es = labelSelector label (\<lambda>a b. a = b) es"

definition filter_notLabel :: "(string \<times> string) list \<Rightarrow> kubeObject list \<Rightarrow> kubeObject list" where
  "filter_notLabel label es = labelSelector label (\<lambda>a b. a \<noteq> b) es"

definition filter_sort :: "kubeObject list \<Rightarrow> kubeObject list" where
  "filter_sort es = sort_key ko_Name es"

record criteria =
  cr_search :: "Searcher option"
  cr_resourceType :: string
  cr_resourceName :: string
  cr_appName :: string
  cr_ns :: string
  cr_label :: "(string \<times> string) list"
  cr_showHidden :: bool

definition hideIgnored :: "bool \<Rightarrow> kubeObject list \<Rightarrow> kubeObject list" where
  "hideIgnored showHidden es = (if showHidden then es else filter_notLabel [(DevWorkloadIgnored, ''true'')] es)"

text \<open>The body of \<open>Query\<close>, for a searcher that is there.\<close>

definition queryBody :: "Searcher \<Rightarrow> criteria \<Rightarrow> (gerr + kubeObject list) option" where
  "queryBody s c =
     (if cr_resourceType c = [] then Some (Inl ''resource type should not be null'')
      else case GetResourceInfo (cr_resourceType c) s of
        Inl err \<Rightarrow> Some (Inl err)
      | Inr mapping \<Rightarrow>
          (let store = sr_store s (gg_Gvr mapping) in
           if \<not> gg_Namespaced mapping then
             (if cr_resourceName c \<noteq> [] then
                (case List.find (\<lambda>i. ko_Name i = cr_resourceName c) store of
                   Some i \<Rightarrow> Some (Inr [i])
                 | None \<Rightarrow> Some (Inr []))
              else map_option (\<lambda>es. Inr (filter_sort (hideIgnored (cr_showHidden c) (filter_label (cr_label c) es))))
                     (filter_appName s (cr_appName c) store))
           else if cr_ns c \<noteq> [] \<and> cr_resourceName c \<noteq> [] then
             (case storeGet (nsResource (cr_ns c) (cr_resourceName c)) store of
                None \<Rightarrow> Some (Inl (''not found for resource : '' @ cr_resourceType c @ ''-'' @ cr_resourceName c @
                          '' in namespace: '' @ cr_ns c))
              | Some item \<Rightarrow>
                  if cr_appName c = [] \<or> cr_appName c = getAppName item then Some (Inr [item]) else Some (Inr []))
           else map_option (\<lambda>es. Inr (filter_sort (hideIgnored (cr_showHidden c) (filter_label (cr_label c) es))))
                  (filter_appName s (cr_appName c) (filter_namespace (cr_ns c) store))))"

text \<open>
  The deferred function: it fills in the kind of objects that have none. It looks at the
  searcher even when there is none, and panics then.
\<close>

definition fillGvk :: "GroupVersionKind \<Rightarrow> kubeObject \<Rightarrow> kubeObject" where
  "fillGvk gvk e = (if ko_Gvk e = emptyGvk then e\<lparr>ko_Gvk := gvk\<rparr> else e)"

definition Query :: "criteria \<Rightarrow> (gerr + kubeObject list) outcome option" where
  "Query c =
     (case cr_search c of
        None \<Rightarrow> Some (Panic ''nil pointer dereference'')
      | Some s \<Rightarrow>
          (case queryBody s c of
             None \<Rightarrow> None
           | Some (Inl err) \<Rightarrow> Some (Ret (Inl err))
           | Some (Inr data) \<Rightarrow>
               Some (Ret (Inr (case GetResourceInfo (cr_resourceType c) s of
                                 Inl _ \<Rightarrow> data
                               | Inr mapping \<Rightarrow> map (fillGvk (gg_Gvk mapping)) data)))))"

definition QueryOne :: "criteria \<Rightarrow> (gerr + kubeObject) outcome option" where
  "QueryOne c =
     (case Query c of
        None \<Rightarrow> None
      | Some (Panic m) \<Rightarrow> Some (Panic m)
      | Some (Ret (Inl err)) \<Rightarrow> Some (Ret (Inl err))
      | Some (Ret (Inr [])) \<Rightarrow> Some (Ret (Inl ''not found''))
      | Some (Ret (Inr (d # _))) \<Rightarrow> Some (Ret (Inr d)))"

subsection \<open>Application names per namespace\<close>

text \<open>The package variable \<open>maps\<close>: for a namespace and kubeconfig, the application names of every resource type.\<close>

type_synonym appMaps = "string \<rightharpoonup> (string \<rightharpoonup> string set)"

record ResourceEventHandlerFuncs =
  rh_kubeconfigBytes :: string
  rh_Gvr :: GroupVersionResource
  rh_nextTime :: int

definition toKey :: "(string \<Rightarrow> string) \<Rightarrow> string \<Rightarrow> string \<Rightarrow> string" where
  "toKey sha1 kubeconfigBytes ns = ns @ sha1 kubeconfigBytes"

text \<open>\<open>order\<close> is the order of the walk over the resource types.\<close>

definition GetAllAppNameByNamespace ::
  "(string \<Rightarrow> string) \<Rightarrow> string list \<Rightarrow> appMaps \<Rightarrow> string \<Rightarrow> string \<Rightarrow> string set" where
  "GetAllAppNameByNamespace sha1 order maps kubeconfigBytes ns =
     (case maps (toKey sha1 kubeconfigBytes ns) of
        None \<Rightarrow> {}
      | Some m \<Rightarrow> fold (\<lambda>r acc. case m r of None \<Rightarrow> acc | Some apps \<Rightarrow> acc \<union> apps) order {})"

text \<open>The application names of the objects of a store, collected under a key of their namespace.\<close>

definition collectApps :: "(string \<Rightarrow> string) \<Rightarrow> kubeObject list \<Rightarrow> (string \<rightharpoonup> string set)" where
  "collectApps keyOf objs =
     fold (\<lambda>e m. if ko_Namespace e = [] then m
                 else m(keyOf (ko_Namespace e) \<mapsto> insert (getAppName e) (get0 {} m (keyOf (ko_Namespace e))))) objs Map.empty"

definition storeApps ::
  "(string \<Rightarrow> string) \<Rightarrow> ResourceEventHandlerFuncs \<Rightarrow> kubeObject \<Rightarrow> appMaps \<times> (string \<rightharpoonup> string set) \<Rightarrow>
     appMaps \<times> (string \<rightharpoonup> string set)" where
  "storeApps sha1 r e st =
     (case st of (maps, nsToApp) \<Rightarrow>
        if ko_Namespace e = [] then st
        else let key = toKey sha1 (rh_kubeconfigBytes r) (ko_Namespace e);
                 m = (case maps key of None \<Rightarrow> Map.empty | Some m \<Rightarrow> m);
                 set0 = (case m (gr_Resource (rh_Gvr r)) of None \<Rightarrow> {} | Some s \<Rightarrow> s)
             in (case nsToApp (ko_Namespace e) of
                   Some apps \<Rightarrow> (maps(key \<mapsto> m(gr_Resource (rh_Gvr r) \<mapsto> apps)), map_delete (ko_Namespace e) nsToApp)
                 | None \<Rightarrow> (maps(key \<mapsto> m(gr_Resource (rh_Gvr r) \<mapsto> set0)), nsToApp)))"

definition handleAddOrUpdate ::
  "(string \<Rightarrow> string) \<Rightarrow> ResourceEventHandlerFuncs \<Rightarrow> kubeObject list \<Rightarrow> appMaps \<Rightarrow> appMaps" where
  "handleAddOrUpdate sha1 r objs maps = fst (fold (storeApps sha1 r) objs (maps, collectApps id objs))"

text \<open>Times are nanoseconds; the second reading of the clock comes after the work.\<close>

definition timeUp ::
  "int \<Rightarrow> int \<Rightarrow> (appMaps \<Rightarrow> appMaps) \<Rightarrow> ResourceEventHandlerFuncs \<Rightarrow> appMaps \<Rightarrow> ResourceEventHandlerFuncs \<times> appMaps" where
  "timeUp now1 now2 f r maps =
     (if rh_nextTime r - now1 > 0 then (r, maps)
      else (r\<lparr>rh_nextTime := now2 + 5 * 1000000000\<rparr>, f maps))"

definition OnAdd ::
  "(string \<Rightarrow> string) \<Rightarrow> int \<Rightarrow> int \<Rightarrow> kubeObject list \<Rightarrow> ResourceEventHandlerFuncs \<Rightarrow> appMaps \<Rightarrow>
     ResourceEventHandlerFuncs \<times> appMaps" where
  "OnAdd sha1 now1 now2 objs r maps = timeUp now1 now2 (handleAddOrUpdate sha1 r objs) r maps"

text \<open>The name of the resource whose VPN connection is closed, if any.\<close>

definition vpnDisconnect :: "ResourceEventHandlerFuncs \<Rightarrow> kubeObject \<Rightarrow> string option" where
  "vpnDisconnect r obj =
     (if gr_Resource (rh_Gvr r) = ''pods'' \<and> ko_OwnerReferences obj \<noteq> [] then None
      else Some (gr_Resource (rh_Gvr r) @ ''.'' @ gr_Version (rh_Gvr r) @ ''.'' @ gr_Group (rh_Gvr r) @ ''/'' @ ko_Name obj))"

text \<open>The walk over \<open>maps\<close> handles every entry on its own.\<close>

definition OnDelete ::
  "(string \<Rightarrow> string) \<Rightarrow> kubeObject list \<Rightarrow> ResourceEventHandlerFuncs \<Rightarrow> appMaps \<Rightarrow> appMaps" where
  "OnDelete sha1 objs r maps =
     (let nsToApp = collectApps (toKey sha1 (rh_kubeconfigBytes r)) objs in
      (\<lambda>uniqueKey. case maps uniqueKey of
          None \<Rightarrow> None
        | Some m \<Rightarrow>
            if m (gr_Resource (rh_Gvr r)) = None then Some m
            else Some (m(gr_Resource (rh_Gvr r) \<mapsto> get0 {} nsToApp uniqueKey))))"

end
