(* ===== verification/MetaManager.thy ===== *)
theory MetaManager
  imports Watch ResCache
begin

text \<open>
  The applications of a namespace as the daemon sees them,
  \<open>internal/nhctl/appmeta_manager\<close>: the queue of dev-mode events, the watcher of the
  application secrets that fills it, the supervisor with one watcher per namespace and
  kubeconfig, and the helm watchers that create and delete applications with their releases.

  \<open>GetApplicationMeta\<close> hands out a pointer into the cache of the watcher, and its callers
  change the record behind it. The model keeps this sharing: an operation on a record that
  came from the cache writes it back there.
\<close>

subsection \<open>The event queue\<close>

record ApplicationEventPack =
  ep_Event :: ApplicationEvent
  ep_Ns :: string
  ep_AppName :: string
  ep_KubeConfigBytes :: string

text \<open>
  \<open>eq_waiting\<close> counts the callers of \<open>EventPop\<close> that wait for the condition variable, \<open>eq_woken\<close>
  those that were woken and have not got the mutex back yet.
\<close>

record eventQueue =
  eq_Events :: "ApplicationEventPack list"
  eq_waiting :: nat
  eq_woken :: nat

definition emptyEvents :: eventQueue where
  "emptyEvents = \<lparr>eq_Events = [], eq_waiting = 0, eq_woken = 0\<rparr>"

definition EventPush :: "ApplicationEventPack \<Rightarrow> eventQueue \<Rightarrow> eventQueue" where
  "EventPush a q =
     (let q1 = (if eq_Events q = [] then q\<lparr>eq_waiting := 0, eq_woken := eq_woken q + eq_waiting q\<rparr> else q)
      in q1\<lparr>eq_Events := eq_Events q1 @ [a]\<rparr>)"

datatype popResult = Popped ApplicationEventPack | Waits | PopPanics

text \<open>\<open>Events[0]\<close> and \<open>Events[1:]\<close>, without a look at the length.\<close>

definition takeFirst :: "eventQueue \<Rightarrow> popResult \<times> eventQueue" where
  "takeFirst q =
     (case eq_Events q of
        [] \<Rightarrow> (PopPanics, q)
      | e # es \<Rightarrow> (Popped e, q\<lparr>eq_Events := es\<rparr>))"

text \<open>\<open>EventPop\<close> up to its wait, and what it does when the wait is over.\<close>

definition EventPop :: "eventQueue \<Rightarrow> popResult \<times> eventQueue" where
  "EventPop q = (if eq_Events q = [] then (Waits, q\<lparr>eq_waiting := eq_waiting q + 1\<rparr>) else takeFirst q)"

definition EventPop_resumed :: "eventQueue \<Rightarrow> popResult \<times> eventQueue" where
  "EventPop_resumed q = takeFirst (q\<lparr>eq_woken := eq_woken q - 1\<rparr>)"

text \<open>
  A listener may fail or panic. \<open>recover\<close> in \<open>consume\<close> is not called by a deferred function,
  so it returns nil and the panic goes on.
\<close>

type_synonym 'w listener = "ApplicationEventPack \<Rightarrow> 'w \<Rightarrow> (gerr option \<times> 'w) outcome"

fun consume :: "'w listener \<Rightarrow> nat \<Rightarrow> ApplicationEventPack \<Rightarrow> 'w \<Rightarrow> 'w outcome" where
  "consume fn retry pk w =
     (case fn pk w of
        Panic m \<Rightarrow> Panic m
      | Ret (err, w1) \<Rightarrow>
          (case retry of
             0 \<Rightarrow> Ret w1
           | Suc r \<Rightarrow> if err \<noteq> None then consume fn r pk w1 else Ret w1))"

declare consume.simps [simp del]

text \<open>One round of the loop of \<open>Init\<close>: every listener gets the event, with five retries.\<close>

fun consumeAll :: "'w listener list \<Rightarrow> ApplicationEventPack \<Rightarrow> 'w \<Rightarrow> 'w outcome" where
  "consumeAll [] pk w = Ret w"
| "consumeAll (el # els) pk w =
     (case consume el 5 pk w of Panic m \<Rightarrow> Panic m | Ret w1 \<Rightarrow> consumeAll els pk w1)"

definition RegisterListener :: "'w listener \<Rightarrow> 'w listener list \<Rightarrow> 'w listener list" where
  "RegisterListener fn els = els @ [fn]"

subsection \<open>The watcher of the application secrets\<close>

record applicationSecretWatcher =
  asw_configBytes :: string
  asw_ns :: string
  asw_applicationMetas :: "string \<rightharpoonup> ApplicationMeta"

type_synonym aswState = "applicationSecretWatcher \<times> eventQueue"

text \<open>An object of the informer after the type assertion, or the text of one it fails for.\<close>

datatype 'a castObj = CastOk 'a | CastFail string

text \<open>The orders in which \<open>Events\<close> walks over a table; they may differ from call to call.\<close>

type_synonym 's tableWalk = "'s \<Rightarrow> ApplicationDevMeta \<Rightarrow> SvcType list \<times> (SvcType \<Rightarrow> string list)"

definition tableEvents ::
  "'s tableWalk \<Rightarrow> 's \<Rightarrow> ApplicationDevMeta \<Rightarrow> ApplicationDevMeta \<Rightarrow> ApplicationEvent list" where
  "tableEvents walk s from to =
     Events (fst (walk s from)) (snd (walk s from)) (fst (walk s to)) (snd (walk s to)) from to"

definition pushEvents ::
  "string \<Rightarrow> applicationSecretWatcher \<Rightarrow> ApplicationEvent list \<Rightarrow> eventQueue \<Rightarrow> eventQueue" where
  "pushEvents appName asw es q =
     fold (\<lambda>e. EventPush \<lparr>ep_Event = e, ep_Ns = asw_ns asw, ep_AppName = appName,
                          ep_KubeConfigBytes = asw_configBytes asw\<rparr>) es q"

definition devMetaBefore :: "string \<Rightarrow> applicationSecretWatcher \<Rightarrow> ApplicationDevMeta" where
  "devMetaBefore appName asw =
     (case asw_applicationMetas asw appName of None \<Rightarrow> Map.empty | Some before \<Rightarrow> GetApplicationDevMeta before)"

definition asw_join ::
  "codecs \<Rightarrow> aswState tableWalk \<Rightarrow> Secret \<Rightarrow> aswState \<Rightarrow> gerr option \<times> aswState" where
  "asw_join cx walk secret s =
     (case Decode cx (Some secret) of
        Inl err \<Rightarrow> (Some err, s)
      | Inr current \<Rightarrow>
          (let asw = fst s;
               appName = am_Application current;
               devMetaCurrent = (case am_DevMeta current of None \<Rightarrow> Map.empty | Some d \<Rightarrow> d)
           in (None, asw\<lparr>asw_applicationMetas := (asw_applicationMetas asw)(appName \<mapsto> current)\<rparr>,
               pushEvents appName asw (tableEvents walk s (devMetaBefore appName asw) devMetaCurrent) (snd s))))"

definition asw_left :: "aswState tableWalk \<Rightarrow> string \<Rightarrow> aswState \<Rightarrow> aswState" where
  "asw_left walk appName s =
     (let asw = fst s in
      (asw\<lparr>asw_applicationMetas := map_delete appName (asw_applicationMetas asw)\<rparr>,
       pushEvents appName asw (tableEvents walk s (devMetaBefore appName asw) Map.empty) (snd s)))"

definition asw_CreateOrUpdate ::
  "codecs \<Rightarrow> aswState tableWalk \<Rightarrow> string \<Rightarrow> Secret castObj \<Rightarrow> aswState \<Rightarrow> gerr option \<times> aswState" where
  "asw_CreateOrUpdate cx walk key obj s =
     (case obj of
        CastOk secret \<Rightarrow> asw_join cx walk secret s
      | CastFail shown \<Rightarrow>
          (Some (''Fetching secret with key '' @ key @ '' but could not cast to secret: '' @ shown), s))"

definition asw_Delete :: "aswState tableWalk \<Rightarrow> string \<Rightarrow> aswState \<Rightarrow> gerr option \<times> aswState" where
  "asw_Delete walk key s =
     (case GetApplicationName key of
        Inl err \<Rightarrow> (Some err, s)
      | Inr appName \<Rightarrow> (None, asw_left walk appName s))"

definition aswWatcher :: "codecs \<Rightarrow> aswState tableWalk \<Rightarrow> (Secret castObj, aswState) Watcher" where
  "aswWatcher cx walk = \<lparr>CreateOrUpdate = asw_CreateOrUpdate cx walk, Delete_key = asw_Delete walk\<rparr>"

definition NewApplicationSecretWatcher :: "string \<Rightarrow> string \<Rightarrow> applicationSecretWatcher" where
  "NewApplicationSecretWatcher configBytes ns =
     \<lparr>asw_configBytes = configBytes, asw_ns = ns, asw_applicationMetas = Map.empty\<rparr>"

text \<open>\<open>order\<close> is the order of the walk over the map.\<close>

definition asw_GetApplicationMetas :: "string list \<Rightarrow> applicationSecretWatcher \<Rightarrow> ApplicationMeta list" where
  "asw_GetApplicationMetas order asw = List.map_filter (asw_applicationMetas asw) order"

fun joinAll ::
  "codecs \<Rightarrow> aswState tableWalk \<Rightarrow> Secret list \<Rightarrow> aswState \<Rightarrow> gerr option \<times> aswState" where
  "joinAll cx walk [] s = (None, s)"
| "joinAll cx walk (x # xs) s =
     (case asw_join cx walk x s of
        (Some err, s1) \<Rightarrow> (Some err, s1)
      | (None, s1) \<Rightarrow> joinAll cx walk xs s1)"

subsection \<open>The supervisor\<close>

text \<open>
  What the manager asks of its environment: the marshalled state of SHA-256, the clients of
  a kubeconfig, the list of application secrets, SHA-1 and the application names of the resource
  cache with the order of a walk over them, the temporary kubeconfig file, and the decoders of a
  helm release.
\<close>

record Info =
  in_Deleted :: string
  in_Status :: string

record Release =
  rl_Name :: string
  rl_Info :: "Info option"

record 'w mgrEnv =
  shaState :: "string \<Rightarrow> string"
  restConfig :: "string \<Rightarrow> gerr option"
  newClientset :: "string \<Rightarrow> gerr option"
  listSecrets :: "string \<Rightarrow> string \<Rightarrow> 'w \<Rightarrow> (gerr + Secret list) \<times> 'w"
  sha1Sum :: "string \<Rightarrow> string"
  resourceApps :: "'w \<Rightarrow> appMaps"
  resourceOrder :: "'w \<Rightarrow> string list"
  writeTempKubeconfig :: "string \<Rightarrow> 'w \<Rightarrow> gerr option \<times> 'w"
  initGoClient :: "string \<Rightarrow> 'w \<Rightarrow> (gerr + 'w api) \<times> 'w"
  doomTempKubeconfig :: "'w \<Rightarrow> 'w"
  b64Decode :: "string \<Rightarrow> gerr + string"
  gunzip :: "string \<Rightarrow> gerr + string"
  jsonRelease :: "string \<Rightarrow> gerr + Release"

record Supervisor =
  sup_deck :: "string \<rightharpoonup> applicationSecretWatcher"
  sup_events :: eventQueue
  sup_helmWatched :: "string set"

definition asw_Prepare ::
  "codecs \<Rightarrow> 'w mgrEnv \<Rightarrow> aswState tableWalk \<Rightarrow> aswState \<Rightarrow> 'w \<Rightarrow> gerr option \<times> aswState \<times> 'w" where
  "asw_Prepare cx env walk s w =
     (let cfg = asw_configBytes (fst s) in
      case restConfig env cfg of
        Some err \<Rightarrow> (Some err, s, w)
      | None \<Rightarrow>
          (case newClientset env cfg of
             Some err \<Rightarrow> (Some err, s, w)
           | None \<Rightarrow>
               (case listSecrets env cfg (asw_ns (fst s)) w of
                  (Inl _, w1) \<Rightarrow> (None, s, w1)
                | (Inr items, w1) \<Rightarrow>
                    (case joinAll cx walk items s of (err, s1) \<Rightarrow> (err, s1, w1)))))"

definition helm_Prepare :: "'w mgrEnv \<Rightarrow> string \<Rightarrow> gerr option" where
  "helm_Prepare env cfg =
     (case restConfig env cfg of Some err \<Rightarrow> Some err | None \<Rightarrow> newClientset env cfg)"

definition sup_key :: "'w mgrEnv \<Rightarrow> string \<Rightarrow> string \<Rightarrow> string" where
  "sup_key env ns cfg = ns @ ''['' @ shaState env cfg @ '']''"

definition getIDeck :: "'w mgrEnv \<Rightarrow> string \<Rightarrow> string \<Rightarrow> Supervisor \<Rightarrow> applicationSecretWatcher option" where
  "getIDeck env ns cfg sv = sup_deck sv (sup_key env ns cfg)"

definition outDeck :: "'w mgrEnv \<Rightarrow> string \<Rightarrow> string \<Rightarrow> Supervisor \<Rightarrow> Supervisor" where
  "outDeck env ns cfg sv = sv\<lparr>sup_deck := map_delete (sup_key env ns cfg) (sup_deck sv)\<rparr>"

text \<open>
  The events of a watcher that could not be prepared stay in the queue. \<open>LoadOrStore\<close> always
  stores, since the lock of the key is held from \<open>getIDeck\<close> on.
\<close>

definition inDeck ::
  "codecs \<Rightarrow> 'w mgrEnv \<Rightarrow> aswState tableWalk \<Rightarrow> string \<Rightarrow> string \<Rightarrow> Supervisor \<Rightarrow> 'w \<Rightarrow>
     applicationSecretWatcher option \<times> Supervisor \<times> 'w" where
  "inDeck cx env walk ns cfg sv w =
     (case getIDeck env ns cfg sv of
        Some asw \<Rightarrow> (Some asw, sv, w)
      | None \<Rightarrow>
          (let key = sup_key env ns cfg in
           case asw_Prepare cx env walk (NewApplicationSecretWatcher cfg ns, sup_events sv) w of
             (Some _, (_, q), w1) \<Rightarrow> (None, sv\<lparr>sup_events := q\<rparr>, w1)
           | (None, (watcher, q), w1) \<Rightarrow>
               (let sv1 = sv\<lparr>sup_deck := (sup_deck sv)(key \<mapsto> watcher), sup_events := q\<rparr> in
                if helm_Prepare env cfg \<noteq> None then (Some watcher, sv1, w1)
                else (Some watcher, sv1\<lparr>sup_helmWatched := insert key (sup_helmWatched sv1)\<rparr>, w1))))"

text \<open>The watcher in the deck and the event queue change together.\<close>

definition storeDeck ::
  "'w mgrEnv \<Rightarrow> string \<Rightarrow> string \<Rightarrow> aswState \<Rightarrow> Supervisor \<Rightarrow> Supervisor" where
  "storeDeck env ns cfg s sv =
     sv\<lparr>sup_deck := (sup_deck sv)(sup_key env ns cfg \<mapsto> fst s), sup_events := snd s\<rparr>"

definition UpdateApplicationMetasManually ::
  "codecs \<Rightarrow> 'w mgrEnv \<Rightarrow> aswState tableWalk \<Rightarrow> string \<Rightarrow> string \<Rightarrow> string \<Rightarrow> Secret option \<Rightarrow>
     Supervisor \<Rightarrow> 'w \<Rightarrow> gerr option \<times> Supervisor \<times> 'w" where
  "UpdateApplicationMetasManually cx env walk ns cfg secretName secret sv w =
     (case inDeck cx env walk ns cfg sv w of
        (None, sv1, w1) \<Rightarrow> (Some ''Error while update application manually cause by asw is nil '', sv1, w1)
      | (Some asw, sv1, w1) \<Rightarrow>
          (case (case secret of
                   None \<Rightarrow> asw_Delete walk (ns @ ''/'' @ secretName) (asw, sup_events sv1)
                 | Some sec \<Rightarrow> asw_CreateOrUpdate cx walk (ns @ ''/'' @ secretName) (CastOk sec) (asw, sup_events sv1)) of
             (err, s) \<Rightarrow> (err, storeDeck env ns cfg s sv1, w1)))"

definition GetApplicationMetas ::
  "codecs \<Rightarrow> 'w mgrEnv \<Rightarrow> aswState tableWalk \<Rightarrow> string list \<Rightarrow> string \<Rightarrow> string \<Rightarrow> (ApplicationMeta \<Rightarrow> bool) \<Rightarrow>
     Supervisor \<Rightarrow> 'w \<Rightarrow> ApplicationMeta list \<times> Supervisor \<times> 'w" where
  "GetApplicationMetas cx env walk order ns cfg pred sv w =
     (case inDeck cx env walk ns cfg sv w of
        (None, sv1, w1) \<Rightarrow> ([], sv1, w1)
      | (Some asw, sv1, w1) \<Rightarrow> (filter pred (asw_GetApplicationMetas order asw), sv1, w1))"

definition GetAllApplicationMetas :: "string list \<Rightarrow> (string \<Rightarrow> string list) \<Rightarrow> Supervisor \<Rightarrow> ApplicationMeta list" where
  "GetAllApplicationMetas keys order sv =
     concat (map (\<lambda>k. case sup_deck sv k of None \<Rightarrow> [] | Some asw \<Rightarrow> asw_GetApplicationMetas (order k) asw) keys)"

definition freshMeta :: "ApplicationState \<Rightarrow> string \<Rightarrow> string \<Rightarrow> ApplicationMeta" where
  "freshMeta state ns appName =
     emptyMeta\<lparr>am_ApplicationState := state, am_Ns := ns, am_Application := appName,
       am_DevMeta := Some Map.empty, am_Config := Some emptyConfigV2\<rparr>"

definition DoWithTempOperator ::
  "'w mgrEnv \<Rightarrow> string \<Rightarrow> ('w api \<Rightarrow> ApplicationMeta \<Rightarrow> 'w \<Rightarrow> 'w step) \<Rightarrow> ApplicationMeta \<Rightarrow> 'w \<Rightarrow> 'w step" where
  "DoWithTempOperator env cfg funny a w =
     (case writeTempKubeconfig env cfg w of
        (Some err, w1) \<Rightarrow>
          (Some (wrap ''Error when gen tempKubeconfig while initialize temp operator for meta '' err), a, w1)
      | (None, w1) \<Rightarrow>
          (case initGoClient env cfg w1 of
             (Inl err, w2) \<Rightarrow> (Some err, a, doomTempKubeconfig env w2)
           | (Inr op, w2) \<Rightarrow>
               (case funny op a w2 of (err, a1, w3) \<Rightarrow> (err, a1, doomTempKubeconfig env w3))))"

definition migratedConfig :: NocalHostAppConfigV2 where
  "migratedConfig = emptyConfigV2\<lparr>cfg_Migrated := True\<rparr>"

text \<open>A record behind a pointer: \<open>True\<close> when the cache of the watcher holds the same pointer.\<close>

type_synonym metaRef = "ApplicationMeta \<times> bool"

definition writeBack ::
  "'w mgrEnv \<Rightarrow> string \<Rightarrow> string \<Rightarrow> string \<Rightarrow> metaRef \<Rightarrow> Supervisor \<Rightarrow> Supervisor" where
  "writeBack env ns cfg appName ref sv =
     (case getIDeck env ns cfg sv of
        None \<Rightarrow> sv
      | Some asw \<Rightarrow>
          if snd ref then
            sv\<lparr>sup_deck := (sup_deck sv)(sup_key env ns cfg \<mapsto>
                  asw\<lparr>asw_applicationMetas := (asw_applicationMetas asw)(appName \<mapsto> fst ref)\<rparr>)\<rparr>
          else sv)"

definition GetApplicationMeta ::
  "codecs \<Rightarrow> 'w mgrEnv \<Rightarrow> aswState tableWalk \<Rightarrow> string \<Rightarrow> string \<Rightarrow> string \<Rightarrow> Supervisor \<Rightarrow> 'w \<Rightarrow>
     metaRef \<times> Supervisor \<times> 'w" where
  "GetApplicationMeta cx env walk ns appName cfg sv w =
     (case inDeck cx env walk ns cfg sv w of
        (None, sv1, w1) \<Rightarrow> ((freshMeta UNKNOWN ns appName, False), sv1, w1)
      | (Some asw, sv1, w1) \<Rightarrow>
          (let (meta, shared) =
                 (case asw_applicationMetas asw appName of
                    None \<Rightarrow> (freshMeta UNINSTALLED ns appName, False)
                  | Some a \<Rightarrow> (a, True));
               (meta1, w2) =
                 (if IsNotInstall meta \<and> appName \<in> GetAllAppNameByNamespace (sha1Sum env) (resourceOrder env w1) (resourceApps env w1) cfg ns then
                    (case DoWithTempOperator env cfg (\<lambda>op. OneTimesInitial cx op
                            (\<lambda>m. m\<lparr>am_ApplicationType := ManifestLocal, am_Ns := ns, am_Application := appName,
                                   am_Config := Some migratedConfig\<rparr>) False) meta w1 of
                       (_, m, w2) \<Rightarrow> (m, w2))
                  else (meta, w1));
               sv2 = writeBack env ns cfg appName (meta1, shared) sv1
           in if am_Application meta1 = [] then ((freshMeta UNINSTALLED ns appName, False), sv2, w2)
              else ((meta1, shared), sv2, w2)))"

subsection \<open>Applications of helm releases\<close>

definition GetRlsNameFromKey :: "string \<Rightarrow> gerr + string" where
  "GetRlsNameFromKey key =
     (let nsAndKeyWithoutPrefix = split key ''sh.helm.release.v1.'' in
      if nsAndKeyWithoutPrefix = [] then
        Inl ''Invalid Helm Key while delete event watched, not contain 'sh.helm.release.v1.'. ''
      else let elems = split (last nsAndKeyWithoutPrefix) ''.v'' in
        if length elems \<noteq> 2 then Inl ''Invalid Helm Key while delete event watched. ''
        else Inr (hd elems))"

definition magicGzip :: string where
  "magicGzip = [CHR 0x1F, CHR 0x8B, CHR 0x08]"

text \<open>
  \<open>b[0:3]\<close> is checked against the capacity of the buffer, three bytes for four characters of
  the text; the bytes behind the decoded ones are zero.
\<close>

definition DecodeRelease :: "'w mgrEnv \<Rightarrow> string \<Rightarrow> (gerr + Release) outcome" where
  "DecodeRelease env data =
     (case b64Decode env data of
        Inl err \<Rightarrow> Ret (Inl err)
      | Inr b \<Rightarrow>
          if length data div 4 * 3 < 3 then Panic ''slice bounds out of range''
          else if take 3 (b @ replicate 3 (CHR 0x00)) = magicGzip then
            (case gunzip env b of
               Inl err \<Rightarrow> Ret (Inl err)
             | Inr b2 \<Rightarrow> Ret (jsonRelease env b2))
          else Ret (jsonRelease env b))"

definition tryDelAppFromHelmRelease ::
  "codecs \<Rightarrow> 'w mgrEnv \<Rightarrow> aswState tableWalk \<Rightarrow> string \<Rightarrow> string \<Rightarrow> string \<Rightarrow> Supervisor \<Rightarrow> 'w \<Rightarrow>
     gerr option \<times> Supervisor \<times> 'w" where
  "tryDelAppFromHelmRelease cx env walk appName ns cfg sv w =
     (case GetApplicationMeta cx env walk ns appName cfg sv w of ((meta, shared), sv1, w1) \<Rightarrow>
        if IsNotInstall meta \<or> IsInstalling meta then (None, sv1, w1)
        else (case DoWithTempOperator env cfg (Delete cx) meta w1 of (err, meta1, w2) \<Rightarrow>
          (map_option (wrap ''Error while uninstall application for helm release'') err,
           writeBack env ns cfg appName (meta1, shared) sv1, w2)))"

definition tryNewAppFromHelmRelease ::
  "codecs \<Rightarrow> 'w mgrEnv \<Rightarrow> aswState tableWalk \<Rightarrow> string \<Rightarrow> string \<Rightarrow> string \<Rightarrow> Supervisor \<Rightarrow> 'w \<Rightarrow>
     (gerr option \<times> Supervisor \<times> 'w) outcome" where
  "tryNewAppFromHelmRelease cx env walk releaseStr ns cfg sv w =
     (case DecodeRelease env releaseStr of
        Panic m \<Rightarrow> Panic m
      | Ret (Inl err) \<Rightarrow> Ret (Some err, sv, w)
      | Ret (Inr release) \<Rightarrow>
          (case rl_Info release of
             None \<Rightarrow> Panic ''nil pointer dereference''
           | Some info \<Rightarrow>
               if in_Deleted info \<noteq> [] then
                 Ret (tryDelAppFromHelmRelease cx env walk (rl_Name release) ns cfg sv w)
               else
                 (case GetApplicationMeta cx env walk ns (rl_Name release) cfg sv w of ((meta, shared), sv1, w1) \<Rightarrow>
                    if IsInstalled meta \<or> IsInstalling meta then Ret (None, sv1, w1)
                    else (case DoWithTempOperator env cfg (\<lambda>op. OneTimesInitial cx op
                              (\<lambda>m. m\<lparr>am_ApplicationType := HelmLocal, am_HelmReleaseName := rl_Name release,
                                     am_Application := rl_Name release, am_Config := Some migratedConfig\<rparr>) True) meta w1 of
                      (err, meta1, w2) \<Rightarrow>
                        Ret (map_option (wrap ''Error while new application for helm release'') err,
                             writeBack env ns cfg (rl_Name release) (meta1, shared) sv1, w2)))))"

text \<open>Both helm watchers only log an error, so the controller never sees one.\<close>

definition helmSecret_join ::
  "codecs \<Rightarrow> 'w mgrEnv \<Rightarrow> aswState tableWalk \<Rightarrow> string \<Rightarrow> string \<Rightarrow> Secret \<Rightarrow> Supervisor \<Rightarrow> 'w \<Rightarrow>
     (gerr option \<times> Supervisor \<times> 'w) outcome" where
  "helmSecret_join cx env walk ns cfg secret sv w =
     (case tryNewAppFromHelmRelease cx env walk (secretValue secret ''release'') ns cfg sv w of
        Panic m \<Rightarrow> Panic m
      | Ret (_, s) \<Rightarrow> Ret (None, s))"

definition helmCm_join ::
  "codecs \<Rightarrow> 'w mgrEnv \<Rightarrow> aswState tableWalk \<Rightarrow> string \<Rightarrow> string \<Rightarrow> ConfigMap \<Rightarrow> Supervisor \<Rightarrow> 'w \<Rightarrow>
     (gerr option \<times> Supervisor \<times> 'w) outcome" where
  "helmCm_join cx env walk ns cfg cm sv w =
     (case tryNewAppFromHelmRelease cx env walk
             (case cfm_Data cm of None \<Rightarrow> [] | Some d \<Rightarrow> get_str d ''release'') ns cfg sv w of
        Panic m \<Rightarrow> Panic m
      | Ret (_, s) \<Rightarrow> Ret (None, s))"

definition helm_left ::
  "codecs \<Rightarrow> 'w mgrEnv \<Rightarrow> aswState tableWalk \<Rightarrow> string \<Rightarrow> string \<Rightarrow> string \<Rightarrow> Supervisor \<Rightarrow> 'w \<Rightarrow>
     gerr option \<times> Supervisor \<times> 'w" where
  "helm_left cx env walk ns cfg appName sv w =
     (case tryDelAppFromHelmRelease cx env walk appName ns cfg sv w of (_, s) \<Rightarrow> (None, s))"

definition helm_Delete ::
  "codecs \<Rightarrow> 'w mgrEnv \<Rightarrow> aswState tableWalk \<Rightarrow> string \<Rightarrow> string \<Rightarrow> string \<Rightarrow> Supervisor \<Rightarrow> 'w \<Rightarrow>
     gerr option \<times> Supervisor \<times> 'w" where
  "helm_Delete cx env walk ns cfg key sv w =
     (case GetRlsNameFromKey key of
        Inl _ \<Rightarrow> (None, sv, w)
      | Inr rlsName \<Rightarrow> helm_left cx env walk ns cfg rlsName sv w)"

definition helmSecret_CreateOrUpdate ::
  "codecs \<Rightarrow> 'w mgrEnv \<Rightarrow> aswState tableWalk \<Rightarrow> string \<Rightarrow> string \<Rightarrow> string \<Rightarrow> Secret castObj \<Rightarrow> Supervisor \<Rightarrow> 'w \<Rightarrow>
     (gerr option \<times> Supervisor \<times> 'w) outcome" where
  "helmSecret_CreateOrUpdate cx env walk ns cfg key obj sv w =
     (case obj of
        CastOk secret \<Rightarrow> helmSecret_join cx env walk ns cfg secret sv w
      | CastFail shown \<Rightarrow>
          Ret (Some (''Fetching secret with key '' @ key @ '' but could not cast to secret: '' @ shown), sv, w))"

definition helmCm_CreateOrUpdate ::
  "codecs \<Rightarrow> 'w mgrEnv \<Rightarrow> aswState tableWalk \<Rightarrow> string \<Rightarrow> string \<Rightarrow> string \<Rightarrow> ConfigMap castObj \<Rightarrow> Supervisor \<Rightarrow> 'w \<Rightarrow>
     (gerr option \<times> Supervisor \<times> 'w) outcome" where
  "helmCm_CreateOrUpdate cx env walk ns cfg key obj sv w =
     (case obj of
        CastOk cm \<Rightarrow> helmCm_join cx env walk ns cfg cm sv w
      | CastFail shown \<Rightarrow>
          Ret (Some (''Fetching cm with key '' @ key @ '' but could not cast to configmap: '' @ shown), sv, w))"

end
