(* ===== verification/WatchProps.thy ===== *)
theory WatchProps
  imports Watch
begin

text \<open>
  What a watcher's cache says of the cluster. The interface \<open>watcher_cache\<close> states what a
  watcher promises for one key; inside it the invariant of the whole machine is proved once:
  a key on which cache and index disagree is on its way to the worker. The config map
  watcher keeps the promise (\<open>cm_watch\<close>). The service account watcher does not: it never
  forgets an account.
\<close>

subsection \<open>The machine\<close>

datatype worker = Idle | Busy string | Invoked string "gerr option"

record ('o, 's) machineState =
  ms_ctl :: "('o, 's) Controller"
  ms_worker :: worker
  ms_pending :: "string list"

text \<open>
  The index changes first and its event is delivered later. The worker is interrupted
  between \<open>Get\<close>, \<open>invoke\<close> and the clean-up of \<open>processNextItem\<close>.
\<close>

inductive ctl_step ::
  "('o, 's) Watcher \<Rightarrow> (string \<Rightarrow> 'o option \<Rightarrow> bool) \<Rightarrow>
     ('o, 's) machineState \<Rightarrow> ('o, 's) machineState \<Rightarrow> bool"
  for W :: "('o, 's) Watcher" and change_ok :: "string \<Rightarrow> 'o option \<Rightarrow> bool" where
  index_changes: "change_ok k v \<Longrightarrow> ms_ctl m = c \<Longrightarrow>
     ctl_step W change_ok m (m\<lparr>ms_ctl := c\<lparr>ct_indexer := (ct_indexer c)(k := v)\<rparr>,
                               ms_pending := ms_pending m @ [k]\<rparr>)"
| event_delivered: "ms_pending m = k # ks \<Longrightarrow>
     ctl_step W change_ok m (m\<lparr>ms_ctl := eventHandler k (ms_ctl m), ms_pending := ks\<rparr>)"
| worker_gets: "ms_worker m = Idle \<Longrightarrow> ms_ctl m = c \<Longrightarrow> wq_Get (ct_queue c) = Some (Some k, q) \<Longrightarrow>
     ctl_step W change_ok m (m\<lparr>ms_ctl := c\<lparr>ct_queue := q\<rparr>, ms_worker := Busy k\<rparr>)"
| worker_invokes: "ms_worker m = Busy k \<Longrightarrow> invoke W k (ms_ctl m) = (err, c) \<Longrightarrow>
     ctl_step W change_ok m (m\<lparr>ms_ctl := c, ms_worker := Invoked k err\<rparr>)"
| worker_finishes: "ms_worker m = Invoked k err \<Longrightarrow> handleErr err k (ms_ctl m) = c \<Longrightarrow>
     ctl_step W change_ok m (m\<lparr>ms_ctl := c\<lparr>ct_queue := wq_Done k (ct_queue c)\<rparr>, ms_worker := Idle\<rparr>)"
| retry_due: "ms_ctl m = c \<Longrightarrow> k \<in> wq_waiting (ct_queue c) \<Longrightarrow>
     ctl_step W change_ok m (m\<lparr>ms_ctl := c\<lparr>ct_queue := wq_ready k (ct_queue c)\<rparr>\<rparr>)"
| shut_down: "ms_ctl m = c \<Longrightarrow>
     ctl_step W change_ok m (m\<lparr>ms_ctl := c\<lparr>ct_queue := wq_ShutDown (ct_queue c)\<rparr>\<rparr>)"

inductive ctl_run ::
  "('o, 's) Watcher \<Rightarrow> (string \<Rightarrow> 'o option \<Rightarrow> bool) \<Rightarrow>
     ('o, 's) machineState \<Rightarrow> ('o, 's) machineState \<Rightarrow> bool"
  for W :: "('o, 's) Watcher" and change_ok :: "string \<Rightarrow> 'o option \<Rightarrow> bool" and m0 where
  run_start: "ctl_run W change_ok m0 m0"
| run_step: "ctl_run W change_ok m0 m \<Longrightarrow> ctl_step W change_ok m m' \<Longrightarrow> ctl_run W change_ok m0 m'"

fun working_on :: "worker \<Rightarrow> string set" where
  "working_on Idle = {}" | "working_on (Busy k) = {k}" | "working_on (Invoked k err) = {k}"

text \<open>The queue holds the dirty keys the worker is not on, each once.\<close>

definition queue_inv :: "worker \<Rightarrow> workqueue \<Rightarrow> bool" where
  "queue_inv wk q \<longleftrightarrow> distinct (wq_queue q) \<and> set (wq_queue q) = wq_dirty q - wq_processing q \<and>
     wq_processing q = working_on wk"

lemmas queue_defs = wq_Add_def wq_Done_def wq_ready_def wq_ShutDown_def AddRateLimited_def Forget_def

lemma queue_inv_Add: "queue_inv wk q \<Longrightarrow> queue_inv wk (wq_Add k q)"
  by (auto simp: queue_inv_def wq_Add_def)

lemma wq_dirty_Add: "\<not> wq_shuttingDown q \<Longrightarrow> wq_dirty (wq_Add k q) = insert k (wq_dirty q)"
  by (auto simp: wq_Add_def)

lemma wq_Add_shut: "wq_shuttingDown q \<Longrightarrow> wq_Add k q = q"
  by (simp add: wq_Add_def)

lemma wq_Add_frame [simp]:
  "wq_waiting (wq_Add k q) = wq_waiting q" "wq_shuttingDown (wq_Add k q) = wq_shuttingDown q"
  "wq_failures (wq_Add k q) = wq_failures q"
  by (auto simp: wq_Add_def)

lemma queue_inv_ready: "queue_inv wk q \<Longrightarrow> queue_inv wk (wq_ready k q)"
  unfolding wq_ready_def by (rule queue_inv_Add) (simp add: queue_inv_def)

lemma wq_dirty_ready:
  "wq_dirty (wq_ready k q) = (if wq_shuttingDown q then wq_dirty q else insert k (wq_dirty q))"
  "wq_waiting (wq_ready k q) = wq_waiting q - {k}" "wq_shuttingDown (wq_ready k q) = wq_shuttingDown q"
  by (auto simp: wq_ready_def wq_dirty_Add wq_Add_shut)

lemma wq_GetE:
  assumes "wq_Get q = Some (Some k, q')"
  obtains ks where "wq_queue q = k # ks"
    "q' = q\<lparr>wq_queue := ks, wq_processing := insert k (wq_processing q), wq_dirty := wq_dirty q - {k}\<rparr>"
  using assms by (auto simp: wq_Get_def split: list.splits if_splits)

lemma queue_inv_Get: "wq_Get q = Some (Some k, q') \<Longrightarrow> queue_inv Idle q \<Longrightarrow> queue_inv (Busy k) q'"
  by (erule wq_GetE) (auto simp: queue_inv_def)

lemma queue_inv_Done: "queue_inv (Invoked k err) q \<Longrightarrow> queue_inv Idle (wq_Done k q)"
  by (auto simp: queue_inv_def wq_Done_def)

lemma handleErr_frame [simp]:
  "ct_indexer (handleErr err k c) = ct_indexer c" "ct_watcher (handleErr err k c) = ct_watcher c"
  "wq_queue (ct_queue (handleErr err k c)) = wq_queue (ct_queue c)"
  "wq_dirty (ct_queue (handleErr err k c)) = wq_dirty (ct_queue c)"
  "wq_processing (ct_queue (handleErr err k c)) = wq_processing (ct_queue c)"
  "wq_shuttingDown (ct_queue (handleErr err k c)) = wq_shuttingDown (ct_queue c)"
  "wq_waiting (ct_queue c) \<subseteq> wq_waiting (ct_queue (handleErr err k c))"
  "wq_waiting (ct_queue (handleErr err k c)) \<subseteq> insert k (wq_waiting (ct_queue c))"
  by (auto simp: handleErr_def AddRateLimited_def Forget_def)

lemma invoke_frame:
  "invoke W k c = (err, c') \<Longrightarrow> ct_indexer c' = ct_indexer c \<and> ct_queue c' = ct_queue c"
  by (auto simp: invoke_def split: prod.splits)

text \<open>What both handlers of a watcher keep, every run keeps.\<close>

lemma run_watcher_keeps:
  assumes "ctl_run W change_ok m0 m" and "P (ct_watcher (ms_ctl m0))"
    and "\<And>k obj s. P s \<Longrightarrow> P (snd (CreateOrUpdate W k obj s))"
    and "\<And>k s. P s \<Longrightarrow> P (snd (Delete_key W k s))"
  shows "P (ct_watcher (ms_ctl m))"
  using assms(1,2)
proof (induction rule: ctl_run.induct)
  case (run_step m m')
  from run_step(2) have "P (ct_watcher (ms_ctl m)) \<Longrightarrow> P (ct_watcher (ms_ctl m'))"
  proof (induction rule: ctl_step.induct)
    case (worker_invokes m k err c)
    then show ?case
      using assms(3,4) [of "ct_watcher (ms_ctl m)" k]
      by (auto simp: invoke_def split: prod.splits option.splits) (metis snd_conv)+
  qed (simp_all add: eventHandler_def, auto)
  with run_step show ?case by blast
qed

lemma run_trans: "ctl_run W change_ok m1 m2 \<Longrightarrow> ctl_run W change_ok m0 m1 \<Longrightarrow> ctl_run W change_ok m0 m2"
  by (induction rule: ctl_run.induct) (auto intro: ctl_run.run_step)

definition machineAt :: "(string \<rightharpoonup> 'o) \<Rightarrow> workqueue \<Rightarrow> 's \<Rightarrow> worker \<Rightarrow> string list \<Rightarrow> ('o, 's) machineState" where
  "machineAt idx q w wk p = \<lparr>ms_ctl = \<lparr>ct_indexer = idx, ct_queue = q, ct_watcher = w\<rparr>, ms_worker = wk, ms_pending = p\<rparr>"

text \<open>One change of the index, and the five steps until the machine is at rest again.\<close>

lemma change_run:
  assumes "change_ok k v"
    and "(case v of Some obj \<Rightarrow> CreateOrUpdate W k obj s | None \<Rightarrow> Delete_key W k s) = (None, s')"
  shows "ctl_run W change_ok (machineAt idx newQueue s Idle []) (machineAt (idx(k := v)) newQueue s' Idle [])"
proof -
  let ?q1 = "newQueue\<lparr>wq_queue := [k], wq_dirty := {k}\<rparr>" and ?q2 = "newQueue\<lparr>wq_processing := {k}\<rparr>"
  let ?i = "idx(k := v)"
  have s1: "ctl_step W change_ok (machineAt idx newQueue s Idle []) (machineAt ?i newQueue s Idle [k])"
    using ctl_step.index_changes [where k = k and v = v and W = W and change_ok = change_ok and
        m = "machineAt idx newQueue s Idle []", OF assms(1) refl]
    by (simp add: machineAt_def)
  have s2: "ctl_step W change_ok (machineAt ?i newQueue s Idle [k]) (machineAt ?i ?q1 s Idle [])"
    using ctl_step.event_delivered [of "machineAt ?i newQueue s Idle [k]" k "[]" W change_ok]
    by (simp add: machineAt_def eventHandler_def wq_Add_def newQueue_def)
  have s3: "ctl_step W change_ok (machineAt ?i ?q1 s Idle []) (machineAt ?i ?q2 s (Busy k) [])"
    using ctl_step.worker_gets [of "machineAt ?i ?q1 s Idle []" _ k ?q2 W change_ok]
    by (simp add: machineAt_def wq_Get_def newQueue_def)
  have "invoke W k (ms_ctl (machineAt ?i ?q2 s (Busy k) [])) = (None, ms_ctl (machineAt ?i ?q2 s' (Busy k) []))"
    using assms(2) by (cases v) (simp_all add: invoke_def machineAt_def)
  then have s4: "ctl_step W change_ok (machineAt ?i ?q2 s (Busy k) []) (machineAt ?i ?q2 s' (Invoked k None) [])"
    using ctl_step.worker_invokes [of "machineAt ?i ?q2 s (Busy k) []" k W None _ change_ok]
    by (simp add: machineAt_def)
  have s5: "ctl_step W change_ok (machineAt ?i ?q2 s' (Invoked k None) []) (machineAt ?i newQueue s' Idle [])"
    using ctl_step.worker_finishes [of "machineAt ?i ?q2 s' (Invoked k None) []" k None
        "ms_ctl (machineAt ?i ?q2 s' Idle [])" W change_ok]
    by (simp add: machineAt_def handleErr_def Forget_def map_delete_def wq_Done_def newQueue_def)
  from ctl_run.run_start [THEN ctl_run.run_step, OF s1, THEN ctl_run.run_step, OF s2, THEN ctl_run.run_step, OF s3,
      THEN ctl_run.run_step, OF s4, THEN ctl_run.run_step, OF s5]
  show ?thesis .
qed

subsection \<open>What a watcher promises\<close>

text \<open>
  \<open>change_ok k v\<close> says that the index may hold \<open>v\<close> under \<open>k\<close>, and \<open>agree k v s\<close> that the cache
  says of \<open>k\<close> what an index holding \<open>v\<close> does.
\<close>

locale watcher_cache =
  fixes W :: "('o, 's) Watcher"
    and change_ok :: "string \<Rightarrow> 'o option \<Rightarrow> bool"
    and agree :: "string \<Rightarrow> 'o option \<Rightarrow> 's \<Rightarrow> bool"
  assumes change_keys: "change_ok k v \<Longrightarrow> change_ok k None"
    and update_ok: "change_ok k (Some obj) \<Longrightarrow> fst (CreateOrUpdate W k obj s) = None"
    and update_agrees: "change_ok k (Some obj) \<Longrightarrow> agree k (Some obj) (snd (CreateOrUpdate W k obj s))"
    and update_other: "change_ok k (Some obj) \<Longrightarrow> change_ok j v \<Longrightarrow> j \<noteq> k \<Longrightarrow>
      agree j v (snd (CreateOrUpdate W k obj s)) = agree j v s"
    and delete_ok: "change_ok k None \<Longrightarrow> fst (Delete_key W k s) = None"
    and delete_agrees: "change_ok k None \<Longrightarrow> agree k None (snd (Delete_key W k s))"
    and delete_other: "change_ok k None \<Longrightarrow> change_ok j v \<Longrightarrow> j \<noteq> k \<Longrightarrow>
      agree j v (snd (Delete_key W k s)) = agree j v s"
begin

definition index_ok :: "('o, 's) machineState \<Rightarrow> bool" where
  "index_ok m \<longleftrightarrow> (\<forall>k. change_ok k None \<longrightarrow> change_ok k (ct_indexer (ms_ctl m) k))"

text \<open>The keys that are on their way: an event, a retry, a queued key, or the worker before it looks.\<close>

definition on_its_way :: "('o, 's) machineState \<Rightarrow> string set" where
  "on_its_way m = set (ms_pending m) \<union> wq_waiting (ct_queue (ms_ctl m)) \<union> wq_dirty (ct_queue (ms_ctl m)) \<union>
     (case ms_worker m of Busy k \<Rightarrow> {k} | _ \<Rightarrow> {})"

definition known_keys :: "('o, 's) machineState \<Rightarrow> bool" where
  "known_keys m \<longleftrightarrow> (\<forall>k \<in> on_its_way m. change_ok k None)"

definition machine_inv :: "('o, 's) machineState \<Rightarrow> bool" where
  "machine_inv m \<longleftrightarrow> index_ok m \<and> queue_inv (ms_worker m) (ct_queue (ms_ctl m)) \<and>
     (case ms_worker m of Invoked k err \<Rightarrow> err = None | _ \<Rightarrow> True) \<and> known_keys m \<and>
     (\<not> wq_shuttingDown (ct_queue (ms_ctl m)) \<longrightarrow>
       (\<forall>k. change_ok k None \<longrightarrow> k \<notin> on_its_way m \<longrightarrow>
          agree k (ct_indexer (ms_ctl m) k) (ct_watcher (ms_ctl m))))"

lemma invoke_agrees:
  assumes "change_ok k (ct_indexer c k)" and "invoke W k c = (err, c')"
  shows "err = None" and "agree k (ct_indexer c k) (ct_watcher c')"
    and "change_ok j v \<Longrightarrow> j \<noteq> k \<Longrightarrow> agree j v (ct_watcher c') = agree j v (ct_watcher c)"
proof -
  let ?r = "case ct_indexer c k of Some obj \<Rightarrow> CreateOrUpdate W k obj (ct_watcher c)
    | None \<Rightarrow> Delete_key W k (ct_watcher c)"
  have r: "err = fst ?r" "ct_watcher c' = snd ?r"
    using assms(2) by (auto simp: invoke_def split: prod.splits)
  show "err = None" "agree k (ct_indexer c k) (ct_watcher c')"
    using assms(1) r
    by (cases "ct_indexer c k"; simp add: update_ok update_agrees delete_ok delete_agrees)+
  show "agree j v (ct_watcher c') = agree j v (ct_watcher c)" if "change_ok j v" "j \<noteq> k"
    using assms(1) r that by (cases "ct_indexer c k") (simp_all add: update_other delete_other)
qed

lemma inv_index_changes:
  assumes "machine_inv m" and "change_ok k v"
  shows "machine_inv (m\<lparr>ms_ctl := ms_ctl m\<lparr>ct_indexer := (ct_indexer (ms_ctl m))(k := v)\<rparr>,
                        ms_pending := ms_pending m @ [k]\<rparr>)"
  using assms change_keys by (auto simp: machine_inv_def index_ok_def on_its_way_def known_keys_def)

lemma inv_event_delivered:
  assumes "machine_inv m" and "ms_pending m = k # ks"
  shows "machine_inv (m\<lparr>ms_ctl := eventHandler k (ms_ctl m), ms_pending := ks\<rparr>)"
  using assms
  by (cases "wq_shuttingDown (ct_queue (ms_ctl m))")
    (auto simp: machine_inv_def index_ok_def on_its_way_def known_keys_def eventHandler_def queue_inv_Add
       wq_dirty_Add wq_Add_shut)

lemma inv_worker_gets:
  assumes "machine_inv m" and "ms_worker m = Idle" and "wq_Get (ct_queue (ms_ctl m)) = Some (Some k, q)"
  shows "machine_inv (m\<lparr>ms_ctl := ms_ctl m\<lparr>ct_queue := q\<rparr>, ms_worker := Busy k\<rparr>)"
proof -
  from assms(1,2) have "queue_inv Idle (ct_queue (ms_ctl m))" by (simp add: machine_inv_def)
  note inv = queue_inv_Get [OF assms(3) this] this
  from assms(3) obtain ks where q: "wq_queue (ct_queue (ms_ctl m)) = k # ks"
    "q = (ct_queue (ms_ctl m))\<lparr>wq_queue := ks, wq_processing := insert k (wq_processing (ct_queue (ms_ctl m))),
       wq_dirty := wq_dirty (ct_queue (ms_ctl m)) - {k}\<rparr>" by (rule wq_GetE)
  then have "k \<in> wq_dirty (ct_queue (ms_ctl m))"
    using inv(2) by (auto simp: queue_inv_def)
  then have "on_its_way (m\<lparr>ms_ctl := ms_ctl m\<lparr>ct_queue := q\<rparr>, ms_worker := Busy k\<rparr>) = on_its_way m"
    using assms(2) q(2) by (auto simp: on_its_way_def)
  then show ?thesis
    using assms(1) inv(1) q(2) by (simp add: machine_inv_def index_ok_def known_keys_def)
qed

lemma inv_worker_invokes:
  assumes "machine_inv m" and "ms_worker m = Busy k" and "invoke W k (ms_ctl m) = (err, c)"
  shows "machine_inv (m\<lparr>ms_ctl := c, ms_worker := Invoked k err\<rparr>)"
proof -
  have k: "change_ok k None" using assms(1,2) by (auto simp: machine_inv_def known_keys_def on_its_way_def)
  then have idx: "change_ok k (ct_indexer (ms_ctl m) k)"
    using assms(1) by (simp add: machine_inv_def index_ok_def)
  note inv = invoke_agrees [OF idx assms(3)]
  note frame = invoke_frame [OF assms(3)]
  have "agree j (ct_indexer c j) (ct_watcher c)"
    if "\<not> wq_shuttingDown (ct_queue c)" "change_ok j None"
      "j \<notin> on_its_way (m\<lparr>ms_ctl := c, ms_worker := Invoked k err\<rparr>)" for j
  proof (cases "j = k")
    case True
    then show ?thesis using inv(2) frame by simp
  next
    case False
    with that have "j \<notin> on_its_way m" using assms(2) frame by (auto simp: on_its_way_def)
    moreover have "change_ok j (ct_indexer (ms_ctl m) j)"
      using assms(1) that(2) by (simp add: machine_inv_def index_ok_def)
    ultimately show ?thesis using assms(1) that False inv(3) frame by (auto simp: machine_inv_def)
  qed
  then show ?thesis
    using assms(1,2) inv(1) frame
    by (auto simp: machine_inv_def index_ok_def queue_inv_def known_keys_def on_its_way_def)
qed

lemma inv_worker_finishes:
  assumes "machine_inv m" and "ms_worker m = Invoked k err" and "handleErr err k (ms_ctl m) = c"
  shows "machine_inv (m\<lparr>ms_ctl := c\<lparr>ct_queue := wq_Done k (ct_queue c)\<rparr>, ms_worker := Idle\<rparr>)"
proof -
  have err: "err = None" and q: "queue_inv (Invoked k err) (ct_queue c)"
    using assms by (auto simp: machine_inv_def queue_inv_def)
  then have c: "c = (ms_ctl m)\<lparr>ct_queue := Forget k (ct_queue (ms_ctl m))\<rparr>"
    using assms(3) by (simp add: handleErr_def)
  have "wq_dirty (wq_Done k (ct_queue c)) = wq_dirty (ct_queue (ms_ctl m))"
    "wq_waiting (wq_Done k (ct_queue c)) = wq_waiting (ct_queue (ms_ctl m))"
    "wq_shuttingDown (wq_Done k (ct_queue c)) = wq_shuttingDown (ct_queue (ms_ctl m))"
    by (simp_all add: c wq_Done_def Forget_def)
  then show ?thesis
    using assms(1,2) queue_inv_Done [OF q] c
    by (simp add: machine_inv_def index_ok_def known_keys_def on_its_way_def)
qed

lemma inv_retry_due:
  assumes "machine_inv m" and "k \<in> wq_waiting (ct_queue (ms_ctl m))"
  shows "machine_inv (m\<lparr>ms_ctl := ms_ctl m\<lparr>ct_queue := wq_ready k (ct_queue (ms_ctl m))\<rparr>\<rparr>)"
  using assms
  by (cases "wq_shuttingDown (ct_queue (ms_ctl m))")
    (auto simp: machine_inv_def index_ok_def on_its_way_def known_keys_def queue_inv_ready wq_dirty_ready)

lemma inv_shut_down:
  "machine_inv m \<Longrightarrow> machine_inv (m\<lparr>ms_ctl := ms_ctl m\<lparr>ct_queue := wq_ShutDown (ct_queue (ms_ctl m))\<rparr>\<rparr>)"
  by (auto simp: machine_inv_def index_ok_def on_its_way_def known_keys_def wq_ShutDown_def queue_inv_def)

lemma step_inv: "ctl_step W change_ok m m' \<Longrightarrow> machine_inv m \<Longrightarrow> machine_inv m'"
  by (induction rule: ctl_step.induct)
    (blast intro: inv_index_changes inv_event_delivered inv_worker_gets inv_worker_invokes
      inv_worker_finishes inv_retry_due inv_shut_down)+

lemma run_inv: "ctl_run W change_ok m0 m \<Longrightarrow> machine_inv m0 \<Longrightarrow> machine_inv m"
  by (induction rule: ctl_run.induct) (auto intro: step_inv)

text \<open>A machine that starts: what the cache has wrong is in the events still to be delivered.\<close>

lemma start_inv:
  assumes "ms_worker m = Idle" and "ct_queue (ms_ctl m) = newQueue"
    and "\<And>k obj. ct_indexer (ms_ctl m) k = Some obj \<Longrightarrow> change_ok k (Some obj)"
    and "\<forall>k\<in>set (ms_pending m). change_ok k None"
    and "\<And>k. change_ok k None \<Longrightarrow> k \<notin> set (ms_pending m) \<Longrightarrow>
      agree k (ct_indexer (ms_ctl m) k) (ct_watcher (ms_ctl m))"
  shows "machine_inv m"
proof -
  have "index_ok m"
    unfolding index_ok_def using assms(3) by (metis not_None_eq)
  with assms show ?thesis
    by (auto simp: machine_inv_def on_its_way_def known_keys_def queue_inv_def newQueue_def)
qed

text \<open>A machine at rest: no event, no retry, nothing queued, and the worker waits.\<close>

lemma at_rest_agrees:
  assumes "ctl_run W change_ok m0 m" and "machine_inv m0"
    and "\<not> wq_shuttingDown (ct_queue (ms_ctl m))" and "ms_worker m = Idle"
    and "ms_pending m = []" and "wq_waiting (ct_queue (ms_ctl m)) = {}" and "wq_queue (ct_queue (ms_ctl m)) = []"
    and "change_ok k None"
  shows "agree k (ct_indexer (ms_ctl m) k) (ct_watcher (ms_ctl m))"
proof -
  have inv: "machine_inv m" by (rule run_inv [OF assms(1,2)])
  then have "on_its_way m = {}"
    using assms(4-7) by (auto simp: machine_inv_def queue_inv_def on_its_way_def)
  with inv assms(3,8) show ?thesis by (simp add: machine_inv_def)
qed

end

subsection \<open>The config map watcher\<close>

text \<open>The keys of the config maps of one namespace, and the config maps that can be under them.\<close>

definition cmKey :: "string \<Rightarrow> string \<Rightarrow> string" where
  "cmKey ns name = ns @ ''/'' @ name"

definition nsOk :: "string \<Rightarrow> bool" where
  "nsOk ns \<longleftrightarrow> ns \<noteq> [] \<and> CHR ''/'' \<notin> set ns"

definition cmChange :: "string \<Rightarrow> string \<Rightarrow> ConfigMap option \<Rightarrow> bool" where
  "cmChange ns k v \<longleftrightarrow> nsOk ns \<and> (\<exists>name. name \<noteq> [] \<and> k = cmKey ns name \<and>
     (\<forall>cm. v = Some cm \<longrightarrow> cfm_Name cm = name))"

definition cmAgree :: "string \<Rightarrow> string \<Rightarrow> ConfigMap option \<Rightarrow> CmWatcher \<Rightarrow> bool" where
  "cmAgree ns k v w \<longleftrightarrow> (\<forall>app. app \<noteq> [] \<longrightarrow> k = cmKey ns (ConfigMapName app) \<longrightarrow> cmw_cache w app = v)"

lemma index_slash: "CHR ''/'' \<notin> set ns \<Longrightarrow> index (ns @ CHR ''/'' # t) ''/'' = Some (length ns)"
  by (induction ns) (auto simp: hasPrefix_def)

lemma cmKey_inj [simp]: "cmKey ns a = cmKey ns b \<longleftrightarrow> a = b"
  by (simp add: cmKey_def)

lemma appName_ConfigMapName:
  "GetAppNameFromConfigMapName name \<noteq> [] \<Longrightarrow> ConfigMapName (GetAppNameFromConfigMapName name) = name"
  by (auto simp: GetAppNameFromConfigMapName_def HasConfigMapPrefix_def ConfigMapName_def hasPrefix_iff
      split: if_splits)

lemma ConfigMapName_inj [simp]: "ConfigMapName a = ConfigMapName b \<longleftrightarrow> a = b"
  by (simp add: ConfigMapName_def)

lemma ConfigMapName_nonempty [simp]: "ConfigMapName a \<noteq> []" "[] \<noteq> ConfigMapName a"
  by (simp_all add: ConfigMapName_def CmNamePrefix_def)

lemma GetAppName_ConfigMapName [simp]: "GetAppNameFromConfigMapName (ConfigMapName app) = app"
  by (simp add: GetAppNameFromConfigMapName_def HasConfigMapPrefix_def ConfigMapName_def)

lemma cm_Delete_key:
  assumes "nsOk ns" and "name \<noteq> []"
  shows "cm_Delete (cmKey ns name) w =
    (None, if GetAppNameFromConfigMapName name = [] then w else cm_left (GetAppNameFromConfigMapName name) w)"
  using assms by (auto simp: cm_Delete_def cmKey_def nsOk_def index_slash)

interpretation cm_watch: watcher_cache cmWatcher "cmChange ns" "cmAgree ns" for ns
proof unfold_locales
  note cm_simps = cmWatcher_def cm_CreateOrUpdate_def cm_join_def cmAgree_def cm_left_def
  fix k j :: string and v :: "ConfigMap option" and obj s
  show "cmChange ns k v \<Longrightarrow> cmChange ns k None" by (auto simp: cmChange_def)
  show "fst (CreateOrUpdate cmWatcher k obj s) = None" if "cmChange ns k (Some obj)"
    by (simp add: cm_simps)
  show "cmAgree ns k (Some obj) (snd (CreateOrUpdate cmWatcher k obj s))" if "cmChange ns k (Some obj)"
    using that by (auto simp: cmChange_def cm_simps)
  show "cmAgree ns j v (snd (CreateOrUpdate cmWatcher k obj s)) = cmAgree ns j v s"
    if "cmChange ns k (Some obj)" "cmChange ns j v" "j \<noteq> k"
    using that appName_ConfigMapName by (auto simp: cmChange_def cm_simps)
  show "fst (Delete_key cmWatcher k s) = None" if "cmChange ns k None"
    using that by (auto simp: cmChange_def cmWatcher_def cm_Delete_key)
  show "cmAgree ns k None (snd (Delete_key cmWatcher k s))" if "cmChange ns k None"
    using that by (auto simp: cmChange_def cm_Delete_key cm_simps)
  show "cmAgree ns j v (snd (Delete_key cmWatcher k s)) = cmAgree ns j v s"
    if "cmChange ns k None" "cmChange ns j v" "j \<noteq> k"
    using that appName_ConfigMapName by (auto simp: cmChange_def cm_Delete_key cm_simps)
qed

definition atRest :: "('o, 's) machineState \<Rightarrow> bool" where
  "atRest m \<longleftrightarrow> ms_worker m = Idle \<and> ms_pending m = [] \<and> wq_queue (ct_queue (ms_ctl m)) = [] \<and>
     wq_waiting (ct_queue (ms_ctl m)) = {} \<and> \<not> wq_shuttingDown (ct_queue (ms_ctl m))"

text \<open>
  The start: \<open>Prepare\<close> has filled the cache from \<open>listed\<close>, the informer has synchronised, which the
  worker waits for, and the event of every config map in its index is still to be delivered. No
  config map that \<open>Prepare\<close> listed was deleted before the informer listed.
\<close>

definition cmStart :: "string \<Rightarrow> gerr + ConfigMap list \<Rightarrow> (ConfigMap, CmWatcher) machineState \<Rightarrow> bool" where
  "cmStart ns listed m \<longleftrightarrow> nsOk ns \<and> ms_worker m = Idle \<and> ct_queue (ms_ctl m) = newQueue \<and>
     (\<forall>k cm. ct_indexer (ms_ctl m) k = Some cm \<longrightarrow> cmChange ns k (Some cm)) \<and>
     set (ms_pending m) = dom (ct_indexer (ms_ctl m)) \<and>
     ct_watcher (ms_ctl m) = cm_Prepare listed ns NewCmWatcher \<and>
     (\<forall>items. listed = Inr items \<longrightarrow> (\<forall>item\<in>set items. ct_indexer (ms_ctl m) (cmKey ns (cfm_Name item)) \<noteq> None))"

lemma fold_join_other:
  assumes "\<forall>item\<in>set items. GetAppNameFromConfigMapName (cfm_Name item) \<noteq> app"
  shows "cmw_cache (fold (\<lambda>item w. let appName = GetAppNameFromConfigMapName (cfm_Name item) in
      if appName = [] then w else snd (cm_join appName cm w)) items w) app = cmw_cache w app"
  using assms by (induction items arbitrary: w) (auto simp: cm_join_def)

lemma Prepare_other:
  assumes "\<forall>items. listed = Inr items \<longrightarrow> (\<forall>item\<in>set items. GetAppNameFromConfigMapName (cfm_Name item) \<noteq> app)"
  shows "cmw_cache (cm_Prepare listed ns NewCmWatcher) app = None"
proof (cases listed)
  case (Inr items)
  with assms fold_join_other [of items app] show ?thesis by (simp add: cm_Prepare_def NewCmWatcher_def)
qed (simp add: cm_Prepare_def NewCmWatcher_def)

text \<open>With two applications listed, the entry of the first holds the config map of the second.\<close>

lemma Prepare_aliases:
  assumes "GetAppNameFromConfigMapName (cfm_Name c1) = a" "GetAppNameFromConfigMapName (cfm_Name c2) = b"
    and "a \<noteq> []" "b \<noteq> []" "a \<noteq> b"
  shows "cmw_cache (cm_Prepare (Inr [c1, c2]) ns NewCmWatcher) a = Some c2"
  using assms by (simp add: cm_Prepare_def cm_join_def)

lemma cmStart_inv:
  assumes "cmStart ns listed m"
  shows "cm_watch.machine_inv ns m"
proof (rule cm_watch.start_inv)
  show "cmChange ns k (Some obj)" if "ct_indexer (ms_ctl m) k = Some obj" for k obj
    using assms that by (simp add: cmStart_def)
  then show "\<forall>k\<in>set (ms_pending m). cmChange ns k None"
    using assms by (auto simp: cmStart_def cmChange_def)
  fix k assume "k \<notin> set (ms_pending m)"
  then have none: "ct_indexer (ms_ctl m) k = None" using assms by (auto simp: cmStart_def)
  have "cmw_cache (cm_Prepare listed ns NewCmWatcher) app = None" if "app \<noteq> []" "k = cmKey ns (ConfigMapName app)" for app
  proof (rule Prepare_other, intro allI impI ballI notI)
    fix items item assume l: "listed = Inr items" "item \<in> set items" "GetAppNameFromConfigMapName (cfm_Name item) = app"
    have "cfm_Name item = ConfigMapName app" using appName_ConfigMapName [of "cfm_Name item"] l(3) that(1) by simp
    then have "ct_indexer (ms_ctl m) (cmKey ns (cfm_Name item)) = None" using that(2) none by simp
    moreover have "ct_indexer (ms_ctl m) (cmKey ns (cfm_Name item)) \<noteq> None"
      using assms l(1,2) unfolding cmStart_def by blast
    ultimately show False by blast
  qed
  then show "cmAgree ns k (ct_indexer (ms_ctl m) k) (ct_watcher (ms_ctl m))"
    using assms none by (auto simp: cmAgree_def cmStart_def)
qed (use assms in \<open>simp_all add: cmStart_def\<close>)

text \<open>C25: A config map watcher starts with the cache that \<open>Prepare\<close> has filled, with all entries
  pointing to the config map listed last, and with an informer that has synchronised and has an event
  to deliver for each of its config maps. However further changes of the cluster, the delivery of the
  events and the worker (whose handlers never fail here, so that nothing is retried) are interleaved,
  once the watcher is at rest its cache holds, for every application, exactly the config map the
  informer has: a deleted one is gone, a changed one is the last version, and the wrong entries of
  the start are corrected. The one condition is that nothing \<open>Prepare\<close> listed was deleted before the
  informer listed.\<close>

theorem cm_cache_follows_cluster:
  assumes "cmStart ns listed m0" and "ctl_run cmWatcher (cmChange ns) m0 m" and "atRest m" and "app \<noteq> []"
  shows "cmw_cache (ct_watcher (ms_ctl m)) app = ct_indexer (ms_ctl m) (cmKey ns (ConfigMapName app))"
proof -
  have "cmChange ns (cmKey ns (ConfigMapName app)) None"
    using assms(1) by (auto simp: cmChange_def cmStart_def)
  then have "cmAgree ns (cmKey ns (ConfigMapName app)) (ct_indexer (ms_ctl m) (cmKey ns (ConfigMapName app)))
      (ct_watcher (ms_ctl m))"
    using assms(3) by (intro cm_watch.at_rest_agrees [OF assms(2) cmStart_inv [OF assms(1)]])
      (simp_all add: atRest_def)
  then show ?thesis using assms(4) by (simp add: cmAgree_def)
qed

definition demoCm :: "string \<Rightarrow> ConfigMap" where
  "demoCm app = \<lparr>cfm_Name = ConfigMapName app, cfm_Namespace = ''dev'', cfm_Data = Some [''config'' \<mapsto> ''cfg'']\<rparr>"

lemma demoCm_app: "GetAppNameFromConfigMapName (cfm_Name (demoCm app)) = app"
  by (simp add: demoCm_def)

text \<open>
  The worker's part of a run for a key whose event is the next to be delivered: five steps less the
  change of the index.
\<close>

lemma event_run:
  assumes "(case idx k of Some obj \<Rightarrow> CreateOrUpdate W k obj s | None \<Rightarrow> Delete_key W k s) = (None, s')"
  shows "ctl_run W change_ok (machineAt idx newQueue s Idle (k # ks)) (machineAt idx newQueue s' Idle ks)"
proof -
  let ?q1 = "newQueue\<lparr>wq_queue := [k], wq_dirty := {k}\<rparr>" and ?q2 = "newQueue\<lparr>wq_processing := {k}\<rparr>"
  have s2: "ctl_step W change_ok (machineAt idx newQueue s Idle (k # ks)) (machineAt idx ?q1 s Idle ks)"
    using ctl_step.event_delivered [of "machineAt idx newQueue s Idle (k # ks)" k ks W change_ok]
    by (simp add: machineAt_def eventHandler_def wq_Add_def newQueue_def)
  have s3: "ctl_step W change_ok (machineAt idx ?q1 s Idle ks) (machineAt idx ?q2 s (Busy k) ks)"
    using ctl_step.worker_gets [of "machineAt idx ?q1 s Idle ks" _ k ?q2 W change_ok]
    by (simp add: machineAt_def wq_Get_def newQueue_def)
  have "invoke W k (ms_ctl (machineAt idx ?q2 s (Busy k) ks)) = (None, ms_ctl (machineAt idx ?q2 s' (Busy k) ks))"
    using assms by (cases "idx k") (simp_all add: invoke_def machineAt_def)
  then have s4: "ctl_step W change_ok (machineAt idx ?q2 s (Busy k) ks) (machineAt idx ?q2 s' (Invoked k None) ks)"
    using ctl_step.worker_invokes [of "machineAt idx ?q2 s (Busy k) ks" k W None _ change_ok]
    by (simp add: machineAt_def)
  have s5: "ctl_step W change_ok (machineAt idx ?q2 s' (Invoked k None) ks) (machineAt idx newQueue s' Idle ks)"
    using ctl_step.worker_finishes [of "machineAt idx ?q2 s' (Invoked k None) ks" k None
        "ms_ctl (machineAt idx ?q2 s' Idle ks)" W change_ok]
    by (simp add: machineAt_def handleErr_def Forget_def map_delete_def wq_Done_def newQueue_def)
  from ctl_run.run_start [THEN ctl_run.run_step, OF s2, THEN ctl_run.run_step, OF s3,
      THEN ctl_run.run_step, OF s4, THEN ctl_run.run_step, OF s5]
  show ?thesis .
qed

text \<open>\<open>Prepare\<close> found two config maps, so that the first entry is wrong; at rest it is right.\<close>

theorem cm_cache_follows_cluster_witness:
  "cmw_cache (cm_Prepare (Inr [demoCm ''shop'', demoCm ''bank'']) ''dev'' NewCmWatcher) ''shop'' = Some (demoCm ''bank'') \<and>
   (\<exists>m. ctl_run cmWatcher (cmChange ''dev'')
      (machineAt [cmKey ''dev'' (cfm_Name (demoCm ''shop'')) \<mapsto> demoCm ''shop'', cmKey ''dev'' (cfm_Name (demoCm ''bank'')) \<mapsto> demoCm ''bank'']
         newQueue (cm_Prepare (Inr [demoCm ''shop'', demoCm ''bank'']) ''dev'' NewCmWatcher) Idle
         [cmKey ''dev'' (cfm_Name (demoCm ''shop'')), cmKey ''dev'' (cfm_Name (demoCm ''bank''))]) m \<and>
    cmw_cache (ct_watcher (ms_ctl m)) ''shop'' = Some (demoCm ''shop''))"
proof (rule conjI)
  show "cmw_cache (cm_Prepare (Inr [demoCm ''shop'', demoCm ''bank'']) ''dev'' NewCmWatcher) ''shop'' = Some (demoCm ''bank'')"
    by (rule Prepare_aliases [OF demoCm_app demoCm_app]) simp_all
  let ?a = "cmKey ''dev'' (cfm_Name (demoCm ''shop''))" and ?b = "cmKey ''dev'' (cfm_Name (demoCm ''bank''))"
  let ?l = "Inr [demoCm ''shop'', demoCm ''bank''] :: gerr + ConfigMap list"
  let ?w = "cm_Prepare ?l ''dev'' NewCmWatcher" and ?i = "[?a \<mapsto> demoCm ''shop'', ?b \<mapsto> demoCm ''bank'']"
  let ?w1 = "snd (cm_CreateOrUpdate ?a (demoCm ''shop'') ?w)"
  let ?w2 = "snd (cm_CreateOrUpdate ?b (demoCm ''bank'') ?w1)"
  have ab: "?a \<noteq> ?b" by (simp add: demoCm_def)
  have start: "cmStart ''dev'' ?l (machineAt ?i newQueue ?w Idle [?a, ?b])"
    using ab by (auto simp: cmStart_def machineAt_def nsOk_def cmChange_def demoCm_def split: if_splits)
  have run: "ctl_run cmWatcher (cmChange ''dev'') (machineAt ?i newQueue ?w Idle [?a, ?b]) (machineAt ?i newQueue ?w2 Idle [])"
  proof (rule run_trans)
    show "ctl_run cmWatcher (cmChange ''dev'') (machineAt ?i newQueue ?w Idle [?a, ?b]) (machineAt ?i newQueue ?w1 Idle [?b])"
      using ab by (intro event_run) (simp add: cmWatcher_def cm_CreateOrUpdate_def cm_join_def demoCm_app)
    show "ctl_run cmWatcher (cmChange ''dev'') (machineAt ?i newQueue ?w1 Idle [?b]) (machineAt ?i newQueue ?w2 Idle [])"
      by (intro event_run) (simp add: cmWatcher_def cm_CreateOrUpdate_def cm_join_def demoCm_app)
  qed
  have "atRest (machineAt ?i newQueue ?w2 Idle [])" by (simp add: atRest_def machineAt_def newQueue_def)
  from cm_cache_follows_cluster [OF start run this, of "''shop''"] run ab
  show "\<exists>m. ctl_run cmWatcher (cmChange ''dev'') (machineAt ?i newQueue ?w Idle [?a, ?b]) m \<and>
      cmw_cache (ct_watcher (ms_ctl m)) ''shop'' = Some (demoCm ''shop'')"
    by (intro exI [of _ "machineAt ?i newQueue ?w2 Idle []"]) (simp add: machineAt_def demoCm_def)
qed

subsection \<open>Failing keys\<close>

text \<open>One attempt at a key: the worker takes the next item, and a retry comes due before the next attempt.\<close>

definition attempt :: "('o, 's) Watcher \<Rightarrow> string \<Rightarrow> ('o, 's) Controller \<Rightarrow> ('o, 's) Controller" where
  "attempt W k c =
     (case processNextItem W c of
        None \<Rightarrow> c
      | Some (_, c1) \<Rightarrow>
          if k \<in> wq_waiting (ct_queue c1) then c1\<lparr>ct_queue := wq_ready k (ct_queue c1)\<rparr> else c1)"

definition onlyKey :: "string \<Rightarrow> nat \<Rightarrow> workqueue" where
  "onlyKey k n = newQueue\<lparr>wq_queue := [k], wq_dirty := {k}, wq_failures := (if n = 0 then Map.empty else [k \<mapsto> n])\<rparr>"

lemma attempt_onlyKey:
  assumes "invoke W k (c\<lparr>ct_queue := (onlyKey k n)\<lparr>wq_queue := [], wq_processing := {k}, wq_dirty := {}\<rparr>\<rparr>) =
      (Some e, c\<lparr>ct_queue := (onlyKey k n)\<lparr>wq_queue := [], wq_processing := {k}, wq_dirty := {}\<rparr>, ct_watcher := s\<rparr>)"
    and "ct_queue c = onlyKey k n"
  shows "attempt W k c = c\<lparr>ct_queue := if n < 5 then onlyKey k (Suc n) else newQueue, ct_watcher := s\<rparr>"
proof -
  have get: "wq_Get (onlyKey k n) = Some (Some k, (onlyKey k n)\<lparr>wq_queue := [], wq_processing := {k}, wq_dirty := {}\<rparr>)"
    by (simp add: wq_Get_def onlyKey_def newQueue_def)
  have num: "get0 0 (wq_failures (onlyKey k n)) k = n" by (simp add: onlyKey_def newQueue_def get0_def)
  have "map_delete k (wq_failures (onlyKey k n)) = Map.empty"
    by (rule ext) (simp add: onlyKey_def newQueue_def)
  with assms get num show ?thesis
    by (auto simp: attempt_def processNextItem_def handleErr_def NumRequeues_def AddRateLimited_def Forget_def
        wq_Done_def wq_ready_def wq_Add_def onlyKey_def newQueue_def)
qed

text \<open>A key whose handler always fails is tried six times, the first time and five retries, and is
  then dropped: the queue is empty, nothing waits and the count of its failures is gone. Until
  then it stays in the queue.\<close>

theorem failing_key_is_dropped:
  assumes "\<forall>s. fst (Delete_key W k s) \<noteq> None" and "ct_indexer c k = None" and "ct_queue c = onlyKey k 0"
  shows "(\<forall>n < 6. wq_queue (ct_queue ((attempt W k ^^ n) c)) = [k]) \<and>
    ct_queue ((attempt W k ^^ 6) c) = newQueue \<and>
    ct_watcher ((attempt W k ^^ 6) c) = ((\<lambda>s. snd (Delete_key W k s)) ^^ 6) (ct_watcher c)"
proof -
  let ?del = "\<lambda>s. snd (Delete_key W k s)"
  have step: "attempt W k (c\<lparr>ct_queue := onlyKey k i, ct_watcher := s\<rparr>) =
      c\<lparr>ct_queue := if i < 5 then onlyKey k (Suc i) else newQueue, ct_watcher := ?del s\<rparr>" for i s
  proof -
    obtain e where "fst (Delete_key W k s) = Some e" using assms(1) by fastforce
    then show ?thesis
      using assms(2) attempt_onlyKey [where W = W and k = k and n = i and e = e and s = "?del s" and
          c = "c\<lparr>ct_queue := onlyKey k i, ct_watcher := s\<rparr>"]
      by (simp add: invoke_def case_prod_beta)
  qed
  have upto: "(attempt W k ^^ i) c = c\<lparr>ct_queue := onlyKey k i, ct_watcher := (?del ^^ i) (ct_watcher c)\<rparr>"
    if "i \<le> 5" for i
    using that
  proof (induction i)
    case 0
    show ?case using assms(3) by (cases c) simp
  next
    case (Suc i)
    then show ?case using step [where i = i and s = "(?del ^^ i) (ct_watcher c)"] by simp
  qed
  have before: "wq_queue (ct_queue ((attempt W k ^^ n) c)) = [k]" if "n < 6" for n
    using that by (simp add: upto onlyKey_def)
  have six: "(attempt W k ^^ 6) c = c\<lparr>ct_queue := newQueue, ct_watcher := (?del ^^ 6) (ct_watcher c)\<rparr>"
    using step [where i = 5 and s = "(?del ^^ 5) (ct_watcher c)"] upto [of 5] by (simp add: numeral_eq_Suc)
  then show ?thesis using before by simp
qed

subsection \<open>The service account watcher\<close>

definition nameOk :: "string \<Rightarrow> bool" where
  "nameOk name \<longleftrightarrow> name \<noteq> [] \<and> CHR ''/'' \<notin> set name"

lemma index_no_slash: "CHR ''/'' \<notin> set s \<Longrightarrow> index s ''/'' = None"
  by (rule index_None_char) simp_all

lemma sa_Delete_keeps:
  assumes "nsOk ns" and "nameOk name"
  shows "snd (sa_Delete (cmKey ns name) s) = s"
proof -
  have "GetApplicationName (cmKey ns name) =
      (if hasPrefix name SecretNamePrefix then Inr (drop (length SecretNamePrefix) name)
       else Inl (''Error while decode Secret, Secret name '' @ name @ '' is illegal,'' @
                   '' must start with '' @ SecretNamePrefix @ ''. ''))"
    using assms by (simp add: GetApplicationName_def cmKey_def nsOk_def nameOk_def index_slash)
  moreover have "sa_left (drop n name) c = c" for n c
  proof -
    have "CHR ''/'' \<notin> set (drop n name)" using assms(2) by (auto simp: nameOk_def dest: in_set_dropD)
    then show ?thesis by (simp add: sa_left_def index_no_slash)
  qed
  ultimately show ?thesis by (simp add: sa_Delete_def)
qed

lemma sa_join_other:
  "sa_UID sa \<noteq> uid \<Longrightarrow> sa_inner (fst (snd (sa_join api sa s))) uid = sa_inner (fst s) uid"
  by (simp add: sa_join_def sa_record_def split: prod.splits)

text \<open>Service accounts of one namespace with another uid than \<open>uid\<close>.\<close>

definition saChange :: "string \<Rightarrow> string \<Rightarrow> string \<Rightarrow> ServiceAccount option \<Rightarrow> bool" where
  "saChange ns uid k v \<longleftrightarrow> nsOk ns \<and> (\<exists>name. nameOk name \<and> k = cmKey ns name) \<and>
     (\<forall>sa. v = Some sa \<longrightarrow> sa_UID sa \<noteq> uid)"

text \<open>All keys the machine still has to do with.\<close>

definition machineKeys :: "('o, 's) machineState \<Rightarrow> string set" where
  "machineKeys m = set (ms_pending m) \<union> set (wq_queue (ct_queue (ms_ctl m))) \<union>
     wq_waiting (ct_queue (ms_ctl m)) \<union> wq_dirty (ct_queue (ms_ctl m)) \<union> working_on (ms_worker m)"

definition saQuiet :: "string \<Rightarrow> string \<Rightarrow> (ServiceAccount, saSet \<times> 'w) machineState \<Rightarrow> bool" where
  "saQuiet ns uid m \<longleftrightarrow> (\<forall>k \<in> machineKeys m. saChange ns uid k None) \<and>
     (\<forall>k sa. ct_indexer (ms_ctl m) k = Some sa \<longrightarrow> sa_UID sa \<noteq> uid)"

lemma step_saQuiet:
  assumes "ctl_step (saWatcher api) (saChange ns uid) m m'" and "saQuiet ns uid m"
  shows "saQuiet ns uid m' \<and>
    IsClusterAdmin uid (fst (ct_watcher (ms_ctl m'))) = IsClusterAdmin uid (fst (ct_watcher (ms_ctl m)))"
  using assms
proof (induction rule: ctl_step.induct)
  case (index_changes k v m c)
  then show ?case by (auto simp: saQuiet_def machineKeys_def saChange_def)
next
  case (event_delivered m k ks)
  then show ?case by (auto simp: saQuiet_def machineKeys_def eventHandler_def wq_Add_def)
next
  case (worker_gets m c k q)
  then show ?case by (auto simp: saQuiet_def machineKeys_def elim!: wq_GetE)
next
  case (worker_invokes m k err c)
  then have k: "saChange ns uid k None" by (auto simp: saQuiet_def machineKeys_def)
  note frame = invoke_frame [OF worker_invokes(2)]
  have "sa_inner (fst (ct_watcher c)) uid = sa_inner (fst (ct_watcher (ms_ctl m))) uid"
  proof (cases "ct_indexer (ms_ctl m) k")
    case None
    with k worker_invokes(2) have "ct_watcher c = ct_watcher (ms_ctl m)"
      by (auto simp: invoke_def saWatcher_def saChange_def split: prod.splits dest: sa_Delete_keeps)
        (metis sa_Delete_keeps snd_conv)
    then show ?thesis by simp
  next
    case (Some sa)
    then have "sa_UID sa \<noteq> uid" using worker_invokes(3) by (auto simp: saQuiet_def)
    from sa_join_other [OF this, of api "ct_watcher (ms_ctl m)"] Some worker_invokes(2) show ?thesis
      by (auto simp: invoke_def saWatcher_def split: prod.splits)
  qed
  then show ?case
    using worker_invokes(1,3) frame by (auto simp: saQuiet_def machineKeys_def IsClusterAdmin_def)
next
  case (worker_finishes m k err c)
  then show ?case
    using handleErr_frame(8) [of err k "ms_ctl m"]
    by (auto simp: saQuiet_def machineKeys_def wq_Done_def) blast
next
  case (retry_due m c k)
  then show ?case by (auto simp: saQuiet_def machineKeys_def wq_ready_def wq_Add_def)
next
  case (shut_down m c)
  then show ?case by (auto simp: saQuiet_def machineKeys_def wq_ShutDown_def)
qed

text \<open>The cache of service accounts never forgets an account. Whatever happens in the cluster
  afterwards, the deletion of the account included, as long as no account with the same uid
  comes back the answer for its uid stays what it was.\<close>

theorem service_account_never_forgotten:
  assumes "ctl_run (saWatcher api) (saChange ns uid) m0 m" and "saQuiet ns uid m0"
  shows "IsClusterAdmin uid (fst (ct_watcher (ms_ctl m))) = IsClusterAdmin uid (fst (ct_watcher (ms_ctl m0)))"
proof -
  have "saQuiet ns uid m \<and>
    IsClusterAdmin uid (fst (ct_watcher (ms_ctl m))) = IsClusterAdmin uid (fst (ct_watcher (ms_ctl m0)))"
    using assms by (induction rule: ctl_run.induct) (auto dest: step_saQuiet)
  then show ?thesis ..
qed


definition demoSaApi :: "unit saApi" where
  "demoSaApi = \<lparr>sa_getSecret = (\<lambda>_ _ w. (Inl ''no secret'', w)), sa_inClusterHost = Inr ''host'',
     sa_restConfig = (\<lambda>_. None), sa_accessReview = (\<lambda>_ w. (Inr True, w))\<rparr>"

text \<open>An administrator's account was deleted and its key is the only one in the queue.\<close>

definition demoSaController :: "(ServiceAccount, saSet \<times> unit) Controller" where
  "demoSaController = \<lparr>ct_indexer = Map.empty, ct_queue = onlyKey ''dev/admin'' 0,
     ct_watcher = (sa_record ''u1'' True ''admin'' newSet, ())\<rparr>"

lemma sa_Delete_demo: "sa_Delete ''dev/admin'' s = (Some (''Error while decode Secret, Secret name admin is illegal,'' @
    '' must start with '' @ SecretNamePrefix @ ''. ''), s)"
  by (simp add: sa_Delete_def GetApplicationName_def SecretNamePrefix_def hasPrefix_def)

theorem failing_key_is_dropped_witness:
  "ct_queue ((attempt (saWatcher demoSaApi) ''dev/admin'' ^^ 6) demoSaController) = newQueue \<and>
   fst (ct_watcher ((attempt (saWatcher demoSaApi) ''dev/admin'' ^^ 6) demoSaController)) =
     sa_record ''u1'' True ''admin'' newSet"
proof -
  let ?W = "saWatcher demoSaApi" and ?k = "''dev/admin''"
  have "\<forall>s. fst (Delete_key ?W ?k s) \<noteq> None" "ct_indexer demoSaController ?k = None"
    "ct_queue demoSaController = onlyKey ?k 0"
    by (simp_all add: saWatcher_def sa_Delete_demo demoSaController_def)
  moreover have "((\<lambda>s. snd (Delete_key ?W ?k s)) ^^ 6) w = w" for w
    by (simp add: saWatcher_def sa_Delete_demo numeral_eq_Suc)
  ultimately show ?thesis
    using failing_key_is_dropped [of ?W ?k demoSaController] by (simp add: demoSaController_def)
qed

theorem service_account_never_forgotten_witness:
  "\<exists>m. ctl_run (saWatcher demoSaApi) (saChange ''dev'' ''u1'')
      \<lparr>ms_ctl = demoSaController, ms_worker = Idle, ms_pending = []\<rparr> m \<and>
     ms_worker m = Invoked ''dev/admin'' (fst (sa_Delete ''dev/admin'' (newSet, ()))) \<and>
     IsClusterAdmin ''u1'' (fst (ct_watcher (ms_ctl m))) = Some True"
proof -
  let ?W = "saWatcher demoSaApi" and ?k = "''dev/admin''" and ?ok = "saChange ''dev'' ''u1''"
  let ?m0 = "\<lparr>ms_ctl = demoSaController, ms_worker = Idle, ms_pending = []\<rparr>"
  let ?q = "newQueue\<lparr>wq_processing := {?k}\<rparr>"
  let ?m1 = "?m0\<lparr>ms_ctl := demoSaController\<lparr>ct_queue := ?q\<rparr>, ms_worker := Busy ?k\<rparr>"
  let ?m2 = "?m1\<lparr>ms_worker := Invoked ?k (fst (sa_Delete ?k (newSet, ())))\<rparr>"
  have s1: "ctl_step ?W ?ok ?m0 ?m1"
    by (rule ctl_step.worker_gets)
      (simp_all add: demoSaController_def wq_Get_def onlyKey_def newQueue_def)
  have "invoke ?W ?k (ms_ctl ?m1) = (fst (sa_Delete ?k (newSet, ())), ms_ctl ?m1)"
    by (simp add: invoke_def saWatcher_def sa_Delete_demo demoSaController_def)
  then have s2: "ctl_step ?W ?ok ?m1 ?m2"
    using ctl_step.worker_invokes [of ?m1 ?k ?W _ "ms_ctl ?m1" ?ok] by simp
  have "?k = cmKey ''dev'' ''admin''" "nameOk ''admin''" "nsOk ''dev''"
    by (simp_all add: cmKey_def nameOk_def nsOk_def)
  then have "saChange ''dev'' ''u1'' ?k None" unfolding saChange_def by blast
  then have "saQuiet ''dev'' ''u1'' ?m0"
    by (simp add: saQuiet_def machineKeys_def demoSaController_def onlyKey_def newQueue_def)
  moreover have run: "ctl_run ?W ?ok ?m0 ?m2"
    by (rule ctl_run.run_start [THEN ctl_run.run_step, OF s1, THEN ctl_run.run_step, OF s2])
  ultimately have "IsClusterAdmin ''u1'' (fst (ct_watcher (ms_ctl ?m2))) = Some True"
    using service_account_never_forgotten [of demoSaApi "''dev''" "''u1''" ?m0 ?m2]
    by (simp add: demoSaController_def IsClusterAdmin_def sa_record_def)
  with run show ?thesis by (intro exI [of _ ?m2]) simp
qed

end
