(* ===== verification/MetaManagerProps.thy ===== *)
theory MetaManagerProps
  imports MetaManager AppMetaProps WatchProps "HOL-Library.Char_ord" "HOL-Library.List_Lexorder"
begin

text \<open>
  The daemon's view of the applications. The watcher of the application secrets keeps the
  contract of \<open>watcher_cache\<close> (\<open>app_watch\<close>), and the events it pushes rebuild the dev-mode
  tables of its cache, so a listener that follows the events knows the tables of the cluster.
  An application that is removed with its helm release breaks this: the record in the cache is
  changed before the watcher can compare.
\<close>

subsection \<open>The event queue\<close>

datatype queueLabel = Pushed ApplicationEventPack | PopCalled popResult | PopResumed popResult

text \<open>At most \<open>n\<close> callers of \<open>EventPop\<close> at a time.\<close>

inductive ev_run :: "nat \<Rightarrow> queueLabel list \<Rightarrow> eventQueue \<Rightarrow> bool" for n where
  ev_start: "ev_run n [] emptyEvents"
| ev_push: "ev_run n ls q \<Longrightarrow> ev_run n (ls @ [Pushed a]) (EventPush a q)"
| ev_pop: "ev_run n ls q \<Longrightarrow> eq_waiting q + eq_woken q < n \<Longrightarrow> EventPop q = (r, q') \<Longrightarrow>
     ev_run n (ls @ [PopCalled r]) q'"
| ev_resume: "ev_run n ls q \<Longrightarrow> 0 < eq_woken q \<Longrightarrow> EventPop_resumed q = (r, q') \<Longrightarrow>
     ev_run n (ls @ [PopResumed r]) q'"

fun pushes :: "queueLabel list \<Rightarrow> ApplicationEventPack list" where
  "pushes [] = []"
| "pushes (Pushed a # ls) = a # pushes ls"
| "pushes (_ # ls) = pushes ls"

fun pops :: "queueLabel list \<Rightarrow> ApplicationEventPack list" where
  "pops [] = []"
| "pops (PopCalled (Popped a) # ls) = a # pops ls"
| "pops (PopResumed (Popped a) # ls) = a # pops ls"
| "pops (_ # ls) = pops ls"

lemma pushes_append [simp]: "pushes (a @ b) = pushes a @ pushes b"
  by (induction a rule: pushes.induct) simp_all

lemma pops_append [simp]: "pops (a @ b) = pops a @ pops b"
  by (induction a rule: pops.induct) simp_all

definition popPanics :: "queueLabel list \<Rightarrow> bool" where
  "popPanics ls \<longleftrightarrow> PopCalled PopPanics \<in> set ls \<or> PopResumed PopPanics \<in> set ls"

lemmas event_queue_defs = EventPush_def EventPop_def EventPop_resumed_def takeFirst_def emptyEvents_def

text \<open>With one caller: it waits only on an empty queue, and once woken it finds an event.\<close>

lemma single_inv:
  assumes "ev_run 1 ls q"
  shows "eq_waiting q + eq_woken q \<le> 1 \<and> (eq_waiting q > 0 \<longrightarrow> eq_Events q = []) \<and>
    (eq_woken q > 0 \<longrightarrow> eq_Events q \<noteq> []) \<and> \<not> popPanics ls \<and> pushes ls = pops ls @ eq_Events q"
  using assms
proof (induction rule: ev_run.induct)
  case (ev_pop ls q r q')
  then show ?case
    by (cases "eq_Events q") (auto simp: event_queue_defs popPanics_def)
next
  case (ev_resume ls q r q')
  then show ?case
    by (cases "eq_Events q") (auto simp: event_queue_defs popPanics_def)
qed (auto simp: event_queue_defs popPanics_def)

text \<open>Two callers wait, one event comes, and both are woken.\<close>

lemma two_consumers_panic:
  "ev_run 2 [PopCalled Waits, PopCalled Waits, Pushed a, PopResumed (Popped a), PopResumed PopPanics] emptyEvents"
proof -
  let ?q = "\<lambda>es wt wk. \<lparr>eq_Events = es, eq_waiting = wt, eq_woken = wk\<rparr>"
  have "ev_run 2 [PopCalled Waits] (?q [] 1 0)"
    using ev_pop [OF ev_start] by (simp add: event_queue_defs)
  then have "ev_run 2 [PopCalled Waits, PopCalled Waits] (?q [] (Suc (Suc 0)) 0)"
    by (drule_tac ev_pop) (simp_all add: event_queue_defs)
  then have "ev_run 2 [PopCalled Waits, PopCalled Waits, Pushed a] (?q [a] 0 (Suc (Suc 0)))"
    by (drule_tac ev_push [where a = a]) (simp add: event_queue_defs)
  then have "ev_run 2 [PopCalled Waits, PopCalled Waits, Pushed a, PopResumed (Popped a)] (?q [] 0 1)"
    by (drule_tac ev_resume) (simp_all add: event_queue_defs)
  then show ?thesis
    by (drule_tac ev_resume) (simp_all add: event_queue_defs)
qed

text \<open>C36: The daemon runs one consumer of the event queue, and with one the code is safe although it
  waits with an \<open>if\<close> instead of a loop: no call of \<open>EventPop\<close> reads an empty slice, and the events
  popped so far, followed by those still queued, are exactly the events pushed, in order. With
  two consumers there is a run in which one panics.\<close>

theorem event_queue_is_fifo:
  "(\<forall>ls q. ev_run 1 ls q \<longrightarrow> \<not> popPanics ls \<and> pushes ls = pops ls @ eq_Events q) \<and>
   (\<exists>ls q. ev_run 2 ls q \<and> popPanics ls)"
proof
  show "\<forall>ls q. ev_run 1 ls q \<longrightarrow> \<not> popPanics ls \<and> pushes ls = pops ls @ eq_Events q"
    using single_inv by blast
  show "\<exists>ls q. ev_run 2 ls q \<and> popPanics ls"
    by (intro exI conjI, rule two_consumers_panic [of undefined]) (simp add: popPanics_def)
qed

definition demoEvent :: "string \<Rightarrow> ApplicationEventPack" where
  "demoEvent r = \<lparr>ep_Event = mkEvent DEV_STA ''deployment'' r ''i1'', ep_Ns = ''dev'', ep_AppName = ''shop'',
     ep_KubeConfigBytes = ''k''\<rparr>"

theorem event_queue_is_fifo_witness:
  "\<exists>q. ev_run 1 [PopCalled Waits, Pushed (demoEvent ''web''), Pushed (demoEvent ''api''), PopResumed (Popped (demoEvent ''web''))] q \<and>
     eq_Events q = [demoEvent ''api'']"
proof -
  let ?ls = "[PopCalled Waits, Pushed (demoEvent ''web''), Pushed (demoEvent ''api''), PopResumed (Popped (demoEvent ''web''))]"
  let ?q = "\<lambda>es wt wk. \<lparr>eq_Events = es, eq_waiting = wt, eq_woken = wk\<rparr>"
  have "ev_run 1 [PopCalled Waits] (?q [] 1 0)"
    using ev_pop [OF ev_start] by (simp add: event_queue_defs)
  then have "ev_run 1 [PopCalled Waits, Pushed (demoEvent ''web'')] (?q [demoEvent ''web''] 0 1)"
    by (drule_tac ev_push [where a = "demoEvent ''web''"]) (simp add: event_queue_defs)
  then have "ev_run 1 [PopCalled Waits, Pushed (demoEvent ''web''), Pushed (demoEvent ''api'')]
      (?q [demoEvent ''web'', demoEvent ''api''] 0 1)"
    by (drule_tac ev_push [where a = "demoEvent ''api''"]) (simp add: event_queue_defs)
  then have run: "ev_run 1 ?ls (?q [demoEvent ''api''] 0 0)"
    by (drule_tac ev_resume) (simp_all add: event_queue_defs)
  with event_queue_is_fifo show ?thesis by fastforce
qed

subsection \<open>A failing listener\<close>

text \<open>The worlds a listener leaves behind that never succeeds.\<close>

lemma consume_all_fail:
  assumes "\<And>w. \<exists>e. fn pk w = Ret (Some e, g w)"
  shows "consume fn r pk w = Ret ((g ^^ Suc r) w)"
proof (induction r arbitrary: w)
  case 0
  obtain e where "fn pk w = Ret (Some e, g w)" using assms by blast
  then show ?case by (subst consume.simps) simp
next
  case (Suc r)
  obtain e where "fn pk w = Ret (Some e, g w)" using assms by blast
  then show ?case
    using Suc [of "g w"] by (subst consume.simps) (simp add: funpow_swap1)
qed

lemma consume_first_success:
  assumes "fn pk w = Ret (None, w1)"
  shows "consume fn r pk w = Ret w1"
  using assms by (subst consume.simps) (simp split: nat.split)

lemma consume_panic:
  assumes "fn pk w = Panic m"
  shows "consume fn r pk w = Panic m" and "consumeAll (fn # els) pk w = Panic m"
  using assms by (simp_all add: consume.simps [of fn])

subsection \<open>The events rebuild the tables\<close>

definition finiteTable :: "ApplicationDevMeta \<Rightarrow> bool" where
  "finiteTable m \<longleftrightarrow> finite (dom m) \<and> (\<forall>t rm. m t = Some rm \<longrightarrow> finite (dom rm))"

text \<open>A range over a finite map visits every key once; a decoded table is finite.\<close>

definition walksAll :: "'s tableWalk \<Rightarrow> bool" where
  "walksAll walk \<longleftrightarrow> (\<forall>s m. finiteTable m \<longrightarrow> devMetaOrder m (fst (walk s m)) (snd (walk s m)))"

definition decodesFinite :: "codecs \<Rightarrow> bool" where
  "decodesFinite cx \<longleftrightarrow> (\<forall>b m. yamlDevInto cx b = Some m \<longrightarrow> finiteTable m)"

text \<open>What a listener knows that follows the events: for every application its table.\<close>

definition applyPack ::
  "ApplicationEventPack \<Rightarrow> (string \<Rightarrow> (SvcType \<times> string \<rightharpoonup> string)) \<Rightarrow> (string \<Rightarrow> (SvcType \<times> string \<rightharpoonup> string))" where
  "applyPack p T = T(ep_AppName p := applyEvent (ep_Event p) (T (ep_AppName p)))"

abbreviation followed :: "ApplicationEventPack list \<Rightarrow> (string \<Rightarrow> (SvcType \<times> string \<rightharpoonup> string))" where
  "followed ps \<equiv> fold applyPack ps (\<lambda>_. Map.empty)"

abbreviation cachedTable :: "applicationSecretWatcher \<Rightarrow> string \<Rightarrow> (SvcType \<times> string \<rightharpoonup> string)" where
  "cachedTable asw app \<equiv> entries (devMetaBefore app asw)"

definition finiteCache :: "applicationSecretWatcher \<Rightarrow> bool" where
  "finiteCache asw \<longleftrightarrow> (\<forall>app. finiteTable (devMetaBefore app asw))"

lemma finiteTable_empty [simp]: "finiteTable Map.empty"
  by (simp add: finiteTable_def)

lemma entries_empty [simp]: "entries Map.empty = Map.empty"
  by (auto simp: entries_def)

lemma eq_Events_push [simp]: "eq_Events (EventPush a q) = eq_Events q @ [a]"
  by (simp add: EventPush_def)

lemma eq_Events_pushEvents:
  "eq_Events (pushEvents app asw es q) = eq_Events q @
     map (\<lambda>e. \<lparr>ep_Event = e, ep_Ns = asw_ns asw, ep_AppName = app, ep_KubeConfigBytes = asw_configBytes asw\<rparr>) es"
  by (induction es arbitrary: q) (simp_all add: pushEvents_def)

lemma followed_app:
  "fold applyPack (map (\<lambda>e. \<lparr>ep_Event = e, ep_Ns = n, ep_AppName = app, ep_KubeConfigBytes = k\<rparr>) es) T =
     T(app := fold applyEvent es (T app))"
  by (induction es arbitrary: T) (simp_all add: applyPack_def)

lemma followed_push:
  assumes "walksAll walk" and "finiteTable from" and "finiteTable to"
    and "followed (ps @ eq_Events q) app = entries from"
  shows "followed (ps @ eq_Events (pushEvents app asw (tableEvents walk s from to) q)) =
    (followed (ps @ eq_Events q))(app := entries to)"
proof -
  have "fold applyEvent (tableEvents walk s from to) (entries from) = entries to"
    using assms(1-3) unfolding tableEvents_def walksAll_def by (intro Events_replay) simp_all
  with assms(4) show ?thesis by (simp add: eq_Events_pushEvents followed_app)
qed

lemma readFields_dev:
  "am_DevMeta (readFields cx d a) =
     (case getKey d SecretDevMetaKey of None \<Rightarrow> am_DevMeta a | Some b \<Rightarrow> yamlDevInto cx b)"
proof -
  have cfg: "am_DevMeta (if P then b\<lparr>am_Config := c\<rparr> else b) = am_DevMeta b" for P b c
    by simp
  note keep = onKey_field [where g = am_DevMeta]
  have dev: "am_DevMeta (onKey d SecretDevMetaKey (\<lambda>bs a. a\<lparr>am_DevMeta := yamlDevInto cx bs\<rparr>) x) =
      (case getKey d SecretDevMetaKey of None \<Rightarrow> am_DevMeta x | Some b \<Rightarrow> yamlDevInto cx b)" for x
    by (simp add: onKey_def split: option.split)
  have none: "(case v of None \<Rightarrow> x | Some b \<Rightarrow> f b) = (case v of None \<Rightarrow> y | Some b \<Rightarrow> f b)" if "x = y"
    for v :: "string option" and x y :: "ApplicationDevMeta option" and f
    using that by (cases v) simp_all
  show ?thesis
    unfolding readFields_def Let_def
    by ((rule trans [OF keep], (simp; fail))+, subst cfg, rule trans [OF keep], (simp; fail),
        rule trans [OF dev], rule none, (rule trans [OF keep], (simp; fail))+) simp
qed

lemma readFields_app: "am_Application (readFields cx d a) = am_Application a"
proof -
  have cfg: "am_Application (if P then b\<lparr>am_Config := c\<rparr> else b) = am_Application b" for P b c
    by simp
  note keep = onKey_field [where g = am_Application]
  show ?thesis
    unfolding readFields_def Let_def
    by ((rule trans [OF keep], (simp; fail))+, subst cfg, (rule trans [OF keep], (simp; fail))+) simp
qed

lemma DecodeE:
  assumes "Decode cx (Some sec) = Inr a"
  obtains "GetApplicationName (s_Name sec) = Inr (am_Application a)"
    and "am_DevMeta a = (case getKey (s_Data sec) SecretDevMetaKey of None \<Rightarrow> None | Some b \<Rightarrow> yamlDevInto cx b)"
  using assms
  by (auto simp: Decode_def ReAssignmentBySecret_def readFields_app readFields_dev emptyMeta_def
      split: option.splits sum.splits prod.splits)

lemma Decode_finite:
  assumes "decodesFinite cx" and "Decode cx (Some sec) = Inr a"
  shows "finiteTable (GetApplicationDevMeta a)"
  using assms(1) by (rule_tac DecodeE [OF assms(2)])
    (auto simp: GetApplicationDevMeta_def decodesFinite_def split: option.splits)

text \<open>The state a listener with the delivered events \<open>ps\<close> and the watcher agree on.\<close>

definition inStep :: "ApplicationEventPack list \<Rightarrow> aswState \<Rightarrow> bool" where
  "inStep ps s \<longleftrightarrow> finiteCache (fst s) \<and> followed (ps @ eq_Events (snd s)) = cachedTable (fst s)"

lemma devMetaBefore_upd:
  "devMetaBefore app (asw\<lparr>asw_applicationMetas := (asw_applicationMetas asw)(b := v)\<rparr>) =
     (if app = b then (case v of None \<Rightarrow> Map.empty | Some a \<Rightarrow> GetApplicationDevMeta a) else devMetaBefore app asw)"
  by (simp add: devMetaBefore_def)

lemma inStep_change:
  assumes "walksAll walk" and "inStep ps s" and "finiteTable (case v of None \<Rightarrow> Map.empty | Some a \<Rightarrow> GetApplicationDevMeta a)"
  shows "inStep ps ((fst s)\<lparr>asw_applicationMetas := (asw_applicationMetas (fst s))(app := v)\<rparr>,
    pushEvents app (fst s) (tableEvents walk s (devMetaBefore app (fst s))
      (case v of None \<Rightarrow> Map.empty | Some a \<Rightarrow> GetApplicationDevMeta a)) (snd s))"
proof -
  have "finiteTable (devMetaBefore app (fst s))" and f: "followed (ps @ eq_Events (snd s)) = cachedTable (fst s)"
    using assms(2) by (auto simp: inStep_def finiteCache_def)
  from followed_push [OF assms(1) this(1) assms(3), of ps "snd s" app "fst s" s] f assms(2,3) show ?thesis
    by (auto simp: inStep_def finiteCache_def devMetaBefore_upd fun_eq_iff simp del: entries_apply)
qed

lemma inStep_join:
  assumes "walksAll walk" and "decodesFinite cx" and "inStep ps s"
  shows "inStep ps (snd (asw_join cx walk sec s))"
proof (cases "Decode cx (Some sec)")
  case (Inr a)
  have "GetApplicationDevMeta a = (case am_DevMeta a of None \<Rightarrow> Map.empty | Some d \<Rightarrow> d)"
    by (simp add: GetApplicationDevMeta_def)
  with inStep_change [OF assms(1,3), of "Some a" "am_Application a"] Decode_finite [OF assms(2) Inr] Inr show ?thesis
    by (simp add: asw_join_def)
qed (simp add: asw_join_def assms)

lemma inStep_left: "walksAll walk \<Longrightarrow> inStep ps s \<Longrightarrow> inStep ps (asw_left walk app s)"
  using inStep_change [of walk ps s None app] by (simp add: asw_left_def map_delete_def)

lemma newWatcher_metas [simp]: "asw_applicationMetas (NewApplicationSecretWatcher cfg ns) = Map.empty"
  by (simp add: NewApplicationSecretWatcher_def)

lemma inStep_new [simp]: "inStep [] (NewApplicationSecretWatcher cfg ns, emptyEvents)"
  by (simp add: inStep_def finiteCache_def NewApplicationSecretWatcher_def devMetaBefore_def emptyEvents_def fun_eq_iff)

text \<open>What can happen to a watcher and its queue: a secret comes or changes, an application goes, the consumer pops.\<close>

datatype aswOp = OpUpdate string "Secret castObj" | OpDelete string | OpPop

fun aswExec ::
  "codecs \<Rightarrow> aswState tableWalk \<Rightarrow> aswOp \<Rightarrow> ApplicationEventPack list \<times> aswState \<Rightarrow>
     ApplicationEventPack list \<times> aswState" where
  "aswExec cx walk (OpUpdate k obj) (ps, s) = (ps, snd (asw_CreateOrUpdate cx walk k obj s))"
| "aswExec cx walk (OpDelete k) (ps, s) = (ps, snd (asw_Delete walk k s))"
| "aswExec cx walk OpPop (ps, s) =
     (case EventPop (snd s) of
        (Popped e, q) \<Rightarrow> (ps @ [e], fst s, q)
      | (_, q) \<Rightarrow> (ps, fst s, q))"

lemma inStep_exec:
  assumes "walksAll walk" and "decodesFinite cx" and "inStep (fst st) (snd st)"
  shows "inStep (fst (aswExec cx walk op st)) (snd (aswExec cx walk op st))"
proof -
  obtain ps s where Pair: "st = (ps, s)" by (metis surj_pair)
  show ?thesis
  proof (cases op)
    case (OpUpdate k obj)
    with Pair assms show ?thesis by (cases obj) (auto simp: asw_CreateOrUpdate_def inStep_join)
  next
    case (OpDelete k)
    with Pair assms show ?thesis by (auto simp: asw_Delete_def inStep_left split: sum.split)
  next
    case OpPop
    with Pair assms(3) show ?thesis
      by (cases "eq_Events (snd s)") (auto simp: EventPop_def takeFirst_def inStep_def)
  qed
qed

text \<open>C26: Whatever secrets come, change and go, in any order, with undecodable ones among them, and
  whenever the consumer takes events out of the queue: a listener that applies the events it got
  and those still queued has, for every application, exactly the dev-mode table in the
  watcher's cache. It holds for every order in which Go walks over the tables.\<close>

theorem events_rebuild_tables:
  assumes "walksAll walk" and "decodesFinite cx"
    and "fold (aswExec cx walk) ops ([], NewApplicationSecretWatcher cfg ns, emptyEvents) = (delivered, asw, q)"
  shows "followed (delivered @ eq_Events q) app = entries (devMetaBefore app asw)"
proof -
  have "inStep (fst (fold (aswExec cx walk) ops ([], NewApplicationSecretWatcher cfg ns, emptyEvents)))
      (snd (fold (aswExec cx walk) ops ([], NewApplicationSecretWatcher cfg ns, emptyEvents)))"
    by (rule fold_invariant_set [where P = "\<lambda>st. inStep (fst st) (snd st)"]) (simp_all add: inStep_exec assms(1,2))
  with assms(3) show ?thesis by (simp add: inStep_def)
qed

text \<open>A walk in sorted order, and a codec whose text of a table is the developer of one deployment.\<close>

definition sortedWalk :: "'s tableWalk" where
  "sortedWalk s m = (sorted_list_of_set (dom m),
     \<lambda>t. case m t of None \<Rightarrow> [] | Some rm \<Rightarrow> sorted_list_of_set (dom rm))"

lemma sortedWalk_all: "walksAll sortedWalk"
  by (auto simp: walksAll_def sortedWalk_def devMetaOrder_def range_order_def finiteTable_def)

definition devCodecs :: codecs where
  "devCodecs = plainCodecs\<lparr>yamlDevInto := \<lambda>b. if b = ''{}'' then Some Map.empty
     else Some [''deployment'' \<mapsto> [''web'' \<mapsto> b]]\<rparr>"

lemma devCodecs_finite: "decodesFinite devCodecs"
  by (auto simp: decodesFinite_def devCodecs_def finiteTable_def)

definition devSecret :: "string \<Rightarrow> Secret" where
  "devSecret i = \<lparr>s_Name = SecretNamePrefix @ ''shop'', s_Namespace = ''dev'', s_Type = SecretType,
     s_Data = Some [''s'' \<mapsto> INSTALLED, ''v'' \<mapsto> i]\<rparr>"

definition devDecoded :: "string \<Rightarrow> ApplicationMeta" where
  "devDecoded i = readFields devCodecs (Some [''s'' \<mapsto> INSTALLED, ''v'' \<mapsto> i])
     (emptyMeta\<lparr>am_Secret := Some (devSecret i), am_Application := ''shop'', am_Ns := ''dev'', am_ApplicationState := INSTALLED\<rparr>)"

lemma devSecret_decode: "Decode devCodecs (Some (devSecret i)) = Inr (devDecoded i)"
  using GetApplicationName_prefix [of "''shop''"]
  by (simp add: Decode_def ReAssignmentBySecret_def devSecret_def devDecoded_def getKey_def ApplicationStateOf_def
      app_state_defs)

lemma devDecoded_facts:
  "am_Application (devDecoded i) = ''shop''" "am_ApplicationState (devDecoded i) = INSTALLED"
  "am_DevMeta (devDecoded i) = yamlDevInto devCodecs i"
  by (simp_all add: devDecoded_def readFields_app readFields_state readFields_dev getKey_def)

lemma devTable: "i \<noteq> ''{}'' \<Longrightarrow> GetApplicationDevMeta (devDecoded i) = [''deployment'' \<mapsto> [''web'' \<mapsto> i]]"
  by (simp add: GetApplicationDevMeta_def devDecoded_facts devCodecs_def)

lemma update_caches:
  "asw_applicationMetas (fst (snd (aswExec devCodecs walk (OpUpdate k (CastOk (devSecret i))) st))) ''shop'' = Some (devDecoded i)"
  by (cases st) (simp add: asw_CreateOrUpdate_def asw_join_def devSecret_decode devDecoded_facts)

theorem events_rebuild_tables_witness:
  "\<exists>delivered asw q.
     fold (aswExec devCodecs sortedWalk)
       [OpUpdate ''k'' (CastOk (devSecret ''i1'')), OpPop, OpUpdate ''k'' (CastFail ''x''), OpUpdate ''k'' (CastOk (devSecret ''i2''))]
       ([], NewApplicationSecretWatcher ''cfg'' ''dev'', emptyEvents) = (delivered, asw, q) \<and>
     followed (delivered @ eq_Events q) ''shop'' (''deployment'', ''web'') = Some ''i2''"
proof -
  let ?ops = "[OpUpdate ''k'' (CastOk (devSecret ''i1'')), OpPop, OpUpdate ''k'' (CastFail ''x'')]"
  let ?st = "fold (aswExec devCodecs sortedWalk) ?ops ([], NewApplicationSecretWatcher ''cfg'' ''dev'', emptyEvents)"
  obtain delivered asw q where last: "aswExec devCodecs sortedWalk (OpUpdate ''k'' (CastOk (devSecret ''i2''))) ?st = (delivered, asw, q)"
    by (metis surj_pair)
  then have run: "fold (aswExec devCodecs sortedWalk) (?ops @ [OpUpdate ''k'' (CastOk (devSecret ''i2''))])
      ([], NewApplicationSecretWatcher ''cfg'' ''dev'', emptyEvents) = (delivered, asw, q)"
    by (simp only: fold_append fold.simps comp_apply id_apply)
  have "asw_applicationMetas asw ''shop'' = Some (devDecoded ''i2'')"
    using update_caches [of sortedWalk "''k''" "''i2''" ?st] last by simp
  with events_rebuild_tables [OF sortedWalk_all devCodecs_finite run, of "''shop''"]
  have "followed (delivered @ eq_Events q) ''shop'' (''deployment'', ''web'') = Some ''i2''"
    by (simp add: devMetaBefore_def devTable)
  with run show ?thesis by auto
qed

subsection \<open>The cache follows the cluster\<close>

abbreviation appKey :: "string \<Rightarrow> string \<Rightarrow> string" where
  "appKey ns app \<equiv> cmKey ns (SecretNamePrefix @ app)"

definition aswChange :: "codecs \<Rightarrow> string \<Rightarrow> string \<Rightarrow> Secret castObj option \<Rightarrow> bool" where
  "aswChange cx ns k v \<longleftrightarrow> nsOk ns \<and> (\<exists>app. nameOk app \<and> k = appKey ns app \<and>
     (\<forall>obj. v = Some obj \<longrightarrow> (\<exists>sec a. obj = CastOk sec \<and> s_Name sec = SecretNamePrefix @ app \<and>
        Decode cx (Some sec) = Inr a)))"

fun decodedMeta :: "codecs \<Rightarrow> Secret castObj option \<Rightarrow> ApplicationMeta option" where
  "decodedMeta cx (Some (CastOk sec)) = (case Decode cx (Some sec) of Inl _ \<Rightarrow> None | Inr a \<Rightarrow> Some a)"
| "decodedMeta cx _ = None"

definition aswAgree :: "codecs \<Rightarrow> string \<Rightarrow> string \<Rightarrow> Secret castObj option \<Rightarrow> aswState \<Rightarrow> bool" where
  "aswAgree cx ns k v s \<longleftrightarrow> (\<forall>app. k = appKey ns app \<longrightarrow> asw_applicationMetas (fst s) app = decodedMeta cx v)"

lemma GetApplicationName_key:
  assumes "nsOk ns" and "nameOk app"
  shows "GetApplicationName (appKey ns app) = Inr app"
  using assms by (simp add: GetApplicationName_def cmKey_def nsOk_def nameOk_def index_slash)

lemma Decode_app:
  assumes "Decode cx (Some sec) = Inr a" and "s_Name sec = SecretNamePrefix @ app" and "nameOk app"
  shows "am_Application a = app"
  using assms(2,3) by (rule_tac DecodeE [OF assms(1)]) (simp add: GetApplicationName_prefix nameOk_def)

interpretation app_watch: watcher_cache "aswWatcher cx walk" "aswChange cx ns" "aswAgree cx ns" for cx walk ns
proof unfold_locales
  note defs = aswWatcher_def asw_CreateOrUpdate_def asw_join_def asw_Delete_def asw_left_def aswAgree_def aswChange_def
  fix k j :: string and v :: "Secret castObj option" and obj s
  show "aswChange cx ns k v \<Longrightarrow> aswChange cx ns k None" by (auto simp: aswChange_def)
  show "fst (CreateOrUpdate (aswWatcher cx walk) k obj s) = None" if "aswChange cx ns k (Some obj)"
    using that by (auto simp: defs)
  show "aswAgree cx ns k (Some obj) (snd (CreateOrUpdate (aswWatcher cx walk) k obj s))"
    if "aswChange cx ns k (Some obj)"
    using that by (auto simp: defs Decode_app)
  show "aswAgree cx ns j v (snd (CreateOrUpdate (aswWatcher cx walk) k obj s)) = aswAgree cx ns j v s"
    if "aswChange cx ns k (Some obj)" "aswChange cx ns j v" "j \<noteq> k"
    using that by (auto simp: defs Decode_app)
  show "fst (Delete_key (aswWatcher cx walk) k s) = None" if "aswChange cx ns k None"
    using that by (auto simp: defs GetApplicationName_key)
  show "aswAgree cx ns k None (snd (Delete_key (aswWatcher cx walk) k s))" if "aswChange cx ns k None"
    using that by (auto simp: defs GetApplicationName_key)
  show "aswAgree cx ns j v (snd (Delete_key (aswWatcher cx walk) k s)) = aswAgree cx ns j v s"
    if "aswChange cx ns k None" "aswChange cx ns j v" "j \<noteq> k"
    using that by (auto simp: defs GetApplicationName_key)
qed

text \<open>The start: cache and events agree, and what the cache has wrong is still to be delivered.\<close>

definition aswStart :: "codecs \<Rightarrow> string \<Rightarrow> (Secret castObj, aswState) machineState \<Rightarrow> bool" where
  "aswStart cx ns m \<longleftrightarrow> nsOk ns \<and> ms_worker m = Idle \<and> ct_queue (ms_ctl m) = newQueue \<and>
     (\<forall>k obj. ct_indexer (ms_ctl m) k = Some obj \<longrightarrow> aswChange cx ns k (Some obj)) \<and>
     (\<forall>k\<in>set (ms_pending m). aswChange cx ns k None) \<and>
     (\<forall>k. aswChange cx ns k None \<longrightarrow> k \<notin> set (ms_pending m) \<longrightarrow>
        aswAgree cx ns k (ct_indexer (ms_ctl m) k) (ct_watcher (ms_ctl m))) \<and>
     inStep [] (ct_watcher (ms_ctl m))"

lemma aswStart_inv: "aswStart cx ns m \<Longrightarrow> app_watch.machine_inv cx ns m"
  by (rule app_watch.start_inv) (auto simp: aswStart_def)



subsection \<open>The keys of helm releases\<close>

lemma contains_Cons [simp]: "contains (c # s) sub \<longleftrightarrow> hasPrefix (c # s) sub \<or> contains s sub"
  by (simp add: contains_def)

lemma contains_Nil [simp]: "contains [] sub \<longleftrightarrow> sub = []"
  by (simp add: contains_def)

lemma contains_middle: "contains (a @ sub @ b) sub"
proof (induction a)
  case Nil
  have "hasPrefix (sub @ b) sub" by simp
  then show ?case by (cases "sub @ b") (auto simp del: hasPrefix_append)
qed simp

lemma splitAux_absent: "sep \<noteq> [] \<Longrightarrow> \<not> contains s sep \<Longrightarrow> splitAux sep acc s = [rev acc @ s]"
  by (induction s arbitrary: acc) simp_all

lemma splitAux_dot_v:
  "\<not> contains y ''.v'' \<Longrightarrow> splitAux ''.v'' acc (y @ ''.v'' @ rest) = (rev acc @ y) # splitAux ''.v'' [] rest"
proof (induction y arbitrary: acc)
  case (Cons c y)
  then have "\<not> hasPrefix ((c # y) @ ''.v'' @ rest) ''.v''"
    by (cases y) auto
  with Cons show ?case by simp
qed simp

definition revisionKey :: "string \<Rightarrow> string \<Rightarrow> nat \<Rightarrow> string" where
  "revisionKey ns rls n = ns @ ''/'' @ ''sh.helm.release.v1.'' @ rls @ ''.v'' @ natDec n"

lemma natDec_no_dot: "CHR ''.'' \<notin> set (natDec n)"
  using natDec_digits [of n] by (auto simp: list_all_iff isDigitByte_def)

text \<open>The last dot of the second part of a key is the one before the revision.\<close>

lemma revision_prefix:
  assumes "hasPrefix (rls @ ''.v'' @ d) ''sh.helm.release.v1.''" and "CHR ''.'' \<notin> set d"
  shows "contains rls ''.v''"
proof -
  obtain t where eq: "rls @ ''.v'' @ d = ''sh.helm.release.v1.'' @ t" using assms(1) by (auto simp: hasPrefix_iff)
  show ?thesis
  proof (cases "17 \<le> length rls")
    case True
    have "take 17 rls = take 17 (rls @ ''.v'' @ d)" using True by simp
    also have "\<dots> = ''sh.helm.release'' @ ''.v''" by (subst eq) simp
    finally have "rls = ''sh.helm.release'' @ ''.v'' @ drop 17 rls" by (metis append_assoc append_take_drop_id)
    then show ?thesis by (metis contains_middle)
  next
    case False
    have "(rls @ ''.v'' @ d) ! 18 = CHR ''.''" by (subst eq) simp
    moreover have "18 < length (rls @ ''.v'' @ d)" by (subst eq) simp
    ultimately have "d ! (16 - length rls) = CHR ''.''" "16 - length rls < length d"
      using False by (auto simp: nth_append nth_Cons')
    then have "CHR ''.'' \<in> set d" by (metis nth_mem)
    with assms(2) show ?thesis by simp
  qed
qed

lemma revision_no_prefix:
  assumes "\<not> contains rls ''.v''" and "CHR ''.'' \<notin> set d"
  shows "\<not> contains (rls @ ''.v'' @ d) ''sh.helm.release.v1.''"
  using assms(1)
proof (induction rls)
  case Nil
  have "\<not> contains d ''sh.helm.release.v1.''"
    using index_None_char [of "CHR ''.''" "''sh.helm.release.v1.''" d] assms(2) by (simp add: contains_def)
  then show ?case by simp
next
  case (Cons c rls)
  then have "\<not> contains (c # rls) ''.v''" "\<not> contains rls ''.v''" by simp_all
  with Cons.IH revision_prefix [OF _ assms(2), of "c # rls"] show ?case by auto
qed

lemma count_prefix: "hasPrefix s sub \<Longrightarrow> count_list sub c \<le> count_list s c"
  by (auto simp: hasPrefix_iff)

lemma count_contains: "contains s sub \<Longrightarrow> count_list sub c \<le> count_list s c"
  by (induction s) (auto dest: count_prefix [of _ _ c])

lemma key_parts:
  assumes "CHR ''.'' \<notin> set ns" and "\<not> contains (rls @ ''.v'' @ natDec n) ''sh.helm.release.v1.''"
  shows "split (revisionKey ns rls n) ''sh.helm.release.v1.'' = [ns @ ''/'', rls @ ''.v'' @ natDec n]"
  using splitAux_sep [where c = "CHR ''.''" and sep = "''sh.helm.release.v1.''" and y = "ns @ ''/''" and acc = "[]" and
      rest = "rls @ ''.v'' @ natDec n"] assms splitAux_absent [where acc = "[]", OF _ assms(2)]
  by (simp add: split_def revisionKey_def)
lemma GetRlsName_plain:
  assumes "CHR ''.'' \<notin> set ns" and "\<not> contains rls ''.v''"
  shows "GetRlsNameFromKey (revisionKey ns rls n) = Inr rls"
proof -
  have "split (rls @ ''.v'' @ natDec n) ''.v'' = [rls, natDec n]"
    using splitAux_dot_v [OF assms(2), of "[]" "natDec n"] splitAux_no_sep [of "CHR ''.''" "''.v''" "natDec n" "[]"]
    by (simp add: split_def natDec_no_dot)
  then show ?thesis
    using key_parts [OF assms(1) revision_no_prefix [OF assms(2) natDec_no_dot]] by (simp add: GetRlsNameFromKey_def)
qed

lemma GetRlsName_dot_v:
  assumes "CHR ''.'' \<notin> set ns" and "CHR ''.'' \<notin> set a" and "CHR ''.'' \<notin> set b"
  shows "GetRlsNameFromKey (revisionKey ns (a @ ''.v'' @ b) n) = Inl ''Invalid Helm Key while delete event watched. ''"
proof -
  have zero: "count_list x (CHR ''.'') = 0" if "CHR ''.'' \<notin> set x" for x
    using that by (simp add: count_list_0_iff)
  have "\<not> contains ((a @ ''.v'' @ b) @ ''.v'' @ natDec n) ''sh.helm.release.v1.''"
    using count_contains [of "(a @ ''.v'' @ b) @ ''.v'' @ natDec n" "''sh.helm.release.v1.''" "CHR ''.''"] assms(2,3)
    by (auto simp: zero natDec_no_dot)
  note parts = key_parts [OF assms(1) this]
  have "split ((a @ ''.v'' @ b) @ ''.v'' @ natDec n) ''.v'' = [a, b, natDec n]"
    using split_join [of "CHR ''.''" "''.v''" "[a, b, natDec n]"] assms(2,3) by (simp add: natDec_no_dot)
  then show ?thesis using parts by (simp add: GetRlsNameFromKey_def)
qed

text \<open>From the key of the secret that records a revision of a helm release the watcher gets the name of
  the release back, whatever the revision, provided the name does not contain \<open>.v\<close>. A release
  with a \<open>.v\<close> in its name, which helm allows, is refused for every revision.\<close>

theorem release_name_of_key:
  assumes "CHR ''.'' \<notin> set ns"
  shows "(\<not> contains rls ''.v'' \<longrightarrow> GetRlsNameFromKey (revisionKey ns rls n) = Inr rls) \<and>
    (\<forall>a b. rls = a @ ''.v'' @ b \<longrightarrow> CHR ''.'' \<notin> set a \<longrightarrow> CHR ''.'' \<notin> set b \<longrightarrow>
       GetRlsNameFromKey (revisionKey ns rls n) = Inl ''Invalid Helm Key while delete event watched. '')"
  using GetRlsName_plain [OF assms] GetRlsName_dot_v [OF assms] by blast

theorem release_name_of_key_witness:
  "GetRlsNameFromKey (revisionKey ''dev'' ''my.shop'' 12) = Inr ''my.shop'' \<and>
   GetRlsNameFromKey (revisionKey ''dev'' ''shop.v2'' 12) = Inl ''Invalid Helm Key while delete event watched. ''"
proof
  show "GetRlsNameFromKey (revisionKey ''dev'' ''my.shop'' 12) = Inr ''my.shop''"
    using release_name_of_key [of "''dev''" "''my.shop''" 12] by simp
  show "GetRlsNameFromKey (revisionKey ''dev'' ''shop.v2'' 12) = Inl ''Invalid Helm Key while delete event watched. ''"
    using release_name_of_key [of "''dev''" "''shop.v2''" 12, THEN conjunct2, rule_format, of "''shop''" "''2''"] by simp
qed

subsection \<open>An application removed with its release\<close>

lemma Delete_frame:
  assumes "Delete cx op a w = (e, b, w')"
  shows "am_ApplicationState b = UNINSTALLED" "GetApplicationDevMeta b = Map.empty" "am_Application b = am_Application a"
  unfolding GetApplicationDevMeta_def
  by (subst sameButSecretD [OF Update_frame [OF assms [unfolded Delete_def]]], simp)+

lemma DoWithTempOperator_ok:
  assumes "writeTempKubeconfig env cfg w = (None, w1)" and "initGoClient env cfg w1 = (Inr op, w2)"
  shows "DoWithTempOperator env cfg f a w = (case f op a w2 of (e, b, w3) \<Rightarrow> (e, b, doomTempKubeconfig env w3))"
  using assms by (simp add: DoWithTempOperator_def)

lemma GetApplicationMeta_installed:
  assumes "getIDeck env ns cfg sv = Some asw" and "asw_applicationMetas asw app = Some a"
    and "IsInstalled a" and "am_Application a \<noteq> []"
  shows "GetApplicationMeta cx env walk ns app cfg sv w = ((a, True), sv, w)"
proof -
  have "\<not> IsNotInstall a" using assms(3) by (simp add: IsNotInstall_def IsInstalled_def app_state_defs)
  moreover have "writeBack env ns cfg app (a, True) sv = sv"
    using assms(1,2) by (simp add: writeBack_def getIDeck_def map_upd_triv)
  ultimately show ?thesis using assms by (simp add: GetApplicationMeta_def inDeck_def)
qed

lemma tableEvents_same: "tableEvents walk s m m = []"
  by (auto simp: tableEvents_def Events_def sameDevMeta_def list_all_iff split: option.splits)

lemma tableEvents_nonempty:
  assumes "walksAll walk" and "finiteTable from" and "finiteTable to" and "entries from \<noteq> entries to"
  shows "tableEvents walk s from to \<noteq> []"
proof
  assume "tableEvents walk s from to = []"
  then have "entries from = entries to"
    using assms(1-3) Events_replay [of "from" "fst (walk s from)" "snd (walk s from)" to "fst (walk s to)" "snd (walk s to)"]
    by (simp add: tableEvents_def walksAll_def)
  with assms(4) show False by simp
qed

text \<open>When helm removes the record of any one revision of a release, also of an old one, the daemon marks
  the application of that name as uninstalled. It does so in the record of the watcher's own
  cache, which loses its dev-mode table, so that when the secret comes back without dev modes no
  end event is pushed; with the cache left alone the same secret would push one. The listeners
  that stop the file synchronisation and the port forwards never hear of it.\<close>

theorem helm_deletion_is_silent:
  assumes "walksAll walk" and "finiteTable (GetApplicationDevMeta a)"
    and "getIDeck env ns cfg sv = Some asw" and "asw_applicationMetas asw rls = Some a" and "IsInstalled a"
    and "am_Application a = rls" and "rls \<noteq> []" and "CHR ''.'' \<notin> set ns" and "\<not> contains rls ''.v''"
    and "writeTempKubeconfig env cfg w = (None, w1)" and "initGoClient env cfg w1 = (Inr op, w2)"
    and "helm_Delete cx env walk ns cfg (revisionKey ns rls n) sv w = (e, sv', w')"
    and "Decode cx (Some sec) = Inr b" and "am_Application b = rls" and "GetApplicationDevMeta b = Map.empty"
  shows "\<exists>asw' a'. getIDeck env ns cfg sv' = Some asw' \<and> asw_applicationMetas asw' rls = Some a' \<and> IsNotInstall a' \<and>
    snd (snd (asw_join cx walk sec (asw', sup_events sv'))) = sup_events sv \<and>
    (entries (GetApplicationDevMeta a) \<noteq> Map.empty \<longrightarrow>
       eq_Events (snd (snd (asw_join cx walk sec (asw, sup_events sv)))) \<noteq> eq_Events (sup_events sv))"
proof -
  obtain e1 a' w3 where del: "Delete cx op a w2 = (e1, a', w3)" by (metis prod.exhaust)
  note get = GetApplicationMeta_installed [OF assms(3-5), of cx walk w]
  have inst: "\<not> (IsNotInstall a \<or> IsInstalling a)"
    using assms(5) by (simp add: IsNotInstall_def IsInstalled_def IsInstalling_def app_state_defs)
  have "sv' = writeBack env ns cfg rls (a', True) sv"
    using assms(6,7,12) inst del DoWithTempOperator_ok [OF assms(10,11), of "Delete cx" a]
    by (simp add: helm_Delete_def GetRlsName_plain [OF assms(8,9)] helm_left_def tryDelAppFromHelmRelease_def get)
  then have sv': "getIDeck env ns cfg sv' = Some (asw\<lparr>asw_applicationMetas := (asw_applicationMetas asw)(rls \<mapsto> a')\<rparr>)"
    "sup_events sv' = sup_events sv"
    using assms(3) by (simp_all add: writeBack_def getIDeck_def)
  note dev = assms(15) [unfolded GetApplicationDevMeta_def]
  have silent: "snd (snd (asw_join cx walk sec (asw\<lparr>asw_applicationMetas := (asw_applicationMetas asw)(rls \<mapsto> a')\<rparr>, sup_events sv))) =
      sup_events sv"
    using assms(13,14) Delete_frame(2) [OF del] dev
    by (simp add: asw_join_def devMetaBefore_def tableEvents_same pushEvents_def)
  have "eq_Events (snd (snd (asw_join cx walk sec (asw, sup_events sv)))) \<noteq> eq_Events (sup_events sv)"
    if "entries (GetApplicationDevMeta a) \<noteq> Map.empty"
    using assms(4,13,14) dev tableEvents_nonempty [OF assms(1,2), of Map.empty "(asw, sup_events sv)"] that
    by (simp add: asw_join_def devMetaBefore_def eq_Events_pushEvents)
  with sv' silent Delete_frame(1) [OF del] show ?thesis by (simp add: IsNotInstall_def)
qed

text \<open>The daemon on the small cluster kept in memory, with one application in dev mode.\<close>

definition memEnv :: "mem mgrEnv" where
  "memEnv =
     \<lparr>shaState = id, restConfig = \<lambda>_. None, newClientset = \<lambda>_. None, listSecrets = \<lambda>_ _ w. (Inr [], w),
      sha1Sum = id, resourceApps = \<lambda>_. Map.empty, resourceOrder = \<lambda>_. [], writeTempKubeconfig = \<lambda>_ w. (None, w), initGoClient = \<lambda>_ w. (Inr memApi, w),
      doomTempKubeconfig = id, b64Decode = Inr, gunzip = Inr,
      jsonRelease = \<lambda>b. Inr \<lparr>rl_Name = b, rl_Info = Some \<lparr>in_Deleted = [], in_Status = ''deployed''\<rparr>\<rparr>\<rparr>"

definition demoAsw :: applicationSecretWatcher where
  "demoAsw = (NewApplicationSecretWatcher ''cfg'' ''dev'')\<lparr>asw_applicationMetas := [''shop'' \<mapsto> devDecoded ''i1'']\<rparr>"

definition demoSupervisor :: Supervisor where
  "demoSupervisor = \<lparr>sup_deck = [sup_key memEnv ''dev'' ''cfg'' \<mapsto> demoAsw], sup_events = emptyEvents, sup_helmWatched = {}\<rparr>"

theorem helm_deletion_is_silent_witness:
  "\<exists>e sv' w' asw'. helm_Delete devCodecs memEnv sortedWalk ''dev'' ''cfg'' (revisionKey ''dev'' ''shop'' 1) demoSupervisor demoWorld = (e, sv', w') \<and>
     getIDeck memEnv ''dev'' ''cfg'' sv' = Some asw' \<and>
     snd (snd (asw_join devCodecs sortedWalk (devSecret ''{}'') (asw', sup_events sv'))) = emptyEvents \<and>
     eq_Events (snd (snd (asw_join devCodecs sortedWalk (devSecret ''{}'') (demoAsw, emptyEvents)))) \<noteq> []"
proof -
  obtain e sv' w' where del: "helm_Delete devCodecs memEnv sortedWalk ''dev'' ''cfg'' (revisionKey ''dev'' ''shop'' 1)
      demoSupervisor demoWorld = (e, sv', w')" by (metis prod.exhaust)
  have a: "finiteTable (GetApplicationDevMeta (devDecoded ''i1''))"
    by (simp add: devTable finiteTable_def)
  have ne: "entries (GetApplicationDevMeta (devDecoded ''i1'')) (''deployment'', ''web'') \<noteq> None"
    by (simp add: devTable)
  have b: "GetApplicationDevMeta (devDecoded ''{}'') = Map.empty"
    by (simp add: GetApplicationDevMeta_def devDecoded_facts devCodecs_def)
  have deck: "getIDeck memEnv ''dev'' ''cfg'' demoSupervisor = Some demoAsw"
    "asw_applicationMetas demoAsw ''shop'' = Some (devDecoded ''i1'')" "sup_events demoSupervisor = emptyEvents"
    by (simp_all add: getIDeck_def demoSupervisor_def demoAsw_def)
  have env: "writeTempKubeconfig memEnv ''cfg'' demoWorld = (None, demoWorld)"
    "initGoClient memEnv ''cfg'' demoWorld = (Inr memApi, demoWorld)"
    by (simp_all add: memEnv_def)
  from helm_deletion_is_silent [OF sortedWalk_all a deck(1,2) _ devDecoded_facts(1) _ _ _ env del devSecret_decode
      devDecoded_facts(1) b] ne deck(3) del show ?thesis
    by (fastforce simp: IsInstalled_def devDecoded_facts emptyEvents_def)
qed

end
