(* ===== verification/ResCacheProps.thy ===== *)
theory ResCacheProps
  imports ResCache "HOL-Library.Multiset"
begin

text \<open>
  Queries of the resource cache: what they return, when they return at all, and where asking
  for an object by name and listing it disagree; and what the event handlers do to the sets of
  application names.
\<close>

subsection \<open>The walk over the owners\<close>

definition ownerOf :: "Searcher \<Rightarrow> kubeObject \<Rightarrow> kubeObject option" where
  "ownerOf s e =
     (case getOwnRefInfo e of
        (_, None) \<Rightarrow> None
      | (key, Some k) \<Rightarrow> (case informerGetterGvKVer s k of Inl _ \<Rightarrow> None | Inr store \<Rightarrow> storeGet key store))"

lemma appName_unfold:
  "appNameByAnnotationsAndOwnerRef s e =
     (if getAppNameOrigin e \<noteq> [] then Some (getAppNameOrigin e)
      else case ownerOf s e of
        None \<Rightarrow> Some DefaultNocalhostApplication
      | Some o' \<Rightarrow> appNameByAnnotationsAndOwnerRef s o')"
  by (subst appNameByAnnotationsAndOwnerRef.simps)
    (simp add: ownerOf_def split: prod.split option.split sum.split)

text \<open>
  The owner of an object and the application it belongs to, without the walk: the owner is what
  the first owner reference marked as controller names, when its kind is a namespaced one the
  cluster knows and the store has such an object in the namespace.
\<close>

definition firstOf :: "('a \<Rightarrow> bool) \<Rightarrow> 'a list \<Rightarrow> 'a \<Rightarrow> bool" where
  "firstOf P xs x \<longleftrightarrow> P x \<and> (\<exists>ys zs. xs = ys @ x # zs \<and> (\<forall>y\<in>set ys. \<not> P y))"

definition storeKey :: "kubeObject \<Rightarrow> string" where
  "storeKey e = (if ko_Namespace e = [] then [] else ko_Namespace e @ ''/'') @ ko_Name e"

definition controlledBy :: "Searcher \<Rightarrow> kubeObject \<Rightarrow> kubeObject \<Rightarrow> bool" where
  "controlledBy s e o' \<longleftrightarrow>
     (\<exists>r g v gvr. firstOf (\<lambda>r. or_Controller r = Some True) (ko_OwnerReferences e) r \<and>
        ParseGroupVersion (or_APIVersion r) = Inr (g, v) \<and>
        sr_resourceForGVK s \<lparr>gvk_Group = g, gvk_Version = v, gvk_Kind = or_Kind r\<rparr> = Inr (gvr, True) \<and>
        firstOf (\<lambda>x. storeKey x = ko_Namespace e @ ''/'' @ or_Name r) (sr_store s gvr) o')"

text \<open>The name of an application on an object: that of Nocalhost, or else that of the helm release.\<close>

definition namesApp :: "kubeObject \<Rightarrow> string \<Rightarrow> bool" where
  "namesApp e a \<longleftrightarrow> a \<noteq> [] \<and> ko_DeletionTimestamp e = None \<and>
     (\<exists>ann. ko_Annotations e = Some ann \<and>
        (ann NocalhostApplicationName = Some a \<or>
         ann NocalhostApplicationName \<in> {None, Some []} \<and> ann HelmReleaseName = Some a))"

inductive belongsTo :: "Searcher \<Rightarrow> kubeObject \<Rightarrow> string \<Rightarrow> bool" for s where
  named: "namesApp e a \<Longrightarrow> belongsTo s e a"
| owner: "\<forall>b. \<not> namesApp e b \<Longrightarrow> controlledBy s e o' \<Longrightarrow> belongsTo s o' a \<Longrightarrow> belongsTo s e a"
| unnamed: "\<forall>b. \<not> namesApp e b \<Longrightarrow> \<forall>o'. \<not> controlledBy s e o' \<Longrightarrow> belongsTo s e DefaultNocalhostApplication"

lemma find_firstOf: "List.find P xs = Some x \<longleftrightarrow> firstOf P xs x"
proof (induction xs)
  case (Cons y xs)
  have "firstOf P (y # xs) x \<longleftrightarrow> (if P y then x = y else firstOf P xs x)"
  proof (cases "P y")
    case False
    have "firstOf P (y # xs) x" if "firstOf P xs x"
    proof -
      from that obtain ys zs where "P x" "xs = ys @ x # zs" "\<forall>z\<in>set ys. \<not> P z" by (auto simp: firstOf_def)
      with False show ?thesis
        unfolding firstOf_def by (intro conjI exI [of _ "y # ys"] exI [of _ zs]) auto
    qed
    with False show ?thesis by (auto simp: firstOf_def Cons_eq_append_conv)
  qed (auto simp: firstOf_def Cons_eq_append_conv)
  with Cons show ?case by auto
qed (simp add: firstOf_def)

lemma controller_firstOf: "GetControllerOfNoCopy rs = Some r \<longleftrightarrow> firstOf (\<lambda>r. or_Controller r = Some True) rs r"
proof -
  have "GetControllerOfNoCopy rs = List.find (\<lambda>r. or_Controller r = Some True) rs" by (induction rs) auto
  then show ?thesis by (simp add: find_firstOf)
qed

lemma storeGet_firstOf: "storeGet key objs = Some e \<longleftrightarrow> firstOf (\<lambda>x. storeKey x = key) objs e"
  by (simp add: storeGet_def find_firstOf storeKey_def nsResource_def if_distrib cong: if_cong)

lemma ownerOf_controlledBy: "ownerOf s e = Some o' \<longleftrightarrow> controlledBy s e o'"
proof -
  have "controlledBy s e o' \<longleftrightarrow>
    (\<exists>r g v gvr. GetControllerOfNoCopy (ko_OwnerReferences e) = Some r \<and> ParseGroupVersion (or_APIVersion r) = Inr (g, v) \<and>
       sr_resourceForGVK s \<lparr>gvk_Group = g, gvk_Version = v, gvk_Kind = or_Kind r\<rparr> = Inr (gvr, True) \<and>
       storeGet (nsResource (ko_Namespace e) (or_Name r)) (sr_store s gvr) = Some o')"
    by (simp add: controlledBy_def controller_firstOf storeGet_firstOf nsResource_def)
  then show ?thesis
    by (cases "GetControllerOfNoCopy (ko_OwnerReferences e)")
      (auto simp: ownerOf_def getOwnRefInfo_def informerGetterGvKVer_def split: sum.splits prod.splits if_splits)
qed

lemma namesApp_origin: "namesApp e a \<longleftrightarrow> a \<noteq> [] \<and> getAppNameOrigin e = a"
  by (auto simp: namesApp_def getAppNameOrigin_def get0_def split: option.splits if_splits)

lemma belongsTo_appName: "belongsTo s e a \<Longrightarrow> appNameByAnnotationsAndOwnerRef s e = Some a"
proof (induction rule: belongsTo.induct)
  case (owner e o' a)
  then show ?case by (subst appName_unfold) (auto simp: namesApp_origin ownerOf_controlledBy [symmetric])
next
  case (unnamed e)
  then have "ownerOf s e = None" by (metis ownerOf_controlledBy not_None_eq)
  with unnamed show ?case by (subst appName_unfold) (auto simp: namesApp_origin)
qed (subst appName_unfold, simp add: namesApp_origin)

lemma appName_belongsTo:
  assumes "appNameByAnnotationsAndOwnerRef s e = Some a"
  shows "belongsTo s e a"
proof (rule appNameByAnnotationsAndOwnerRef.raw_induct [of "\<lambda>s e a. belongsTo s e a", OF _ assms])
  fix f s e r
  assume IH: "\<And>s e r. f s e = Some r \<Longrightarrow> belongsTo s e r"
    and body: "(if getAppNameOrigin e \<noteq> [] then Some (getAppNameOrigin e)
      else case getOwnRefInfo e of (key, gvk) \<Rightarrow> (case gvk of
           None \<Rightarrow> Some DefaultNocalhostApplication
         | Some k \<Rightarrow> (case informerGetterGvKVer s k of
              Inl _ \<Rightarrow> Some DefaultNocalhostApplication
            | Inr store \<Rightarrow> (case storeGet key store of
                 Some ownRef \<Rightarrow> f s ownRef
               | None \<Rightarrow> Some DefaultNocalhostApplication)))) = Some r"
  from body have eq: "(if getAppNameOrigin e \<noteq> [] then Some (getAppNameOrigin e)
      else case ownerOf s e of None \<Rightarrow> Some DefaultNocalhostApplication | Some o' \<Rightarrow> f s o') = Some r"
    by (auto simp: ownerOf_def split: if_splits prod.splits option.splits sum.splits)
  show "belongsTo s e r"
  proof (cases "getAppNameOrigin e = []")
    case True
    show ?thesis
    proof (cases "ownerOf s e")
      case None
      then have "\<forall>o'. \<not> controlledBy s e o'" by (metis ownerOf_controlledBy option.distinct(1))
      with None True eq show ?thesis
        by (auto simp: namesApp_origin intro: belongsTo.unnamed)
    next
      case (Some o')
      with True eq have "belongsTo s o' r" by (auto intro: IH)
      moreover have "controlledBy s e o'" using Some by (simp add: ownerOf_controlledBy)
      ultimately show ?thesis using True by (blast intro: belongsTo.owner dest: namesApp_origin [THEN iffD1])
    qed
  next
    case False
    with eq show ?thesis by (auto simp: namesApp_origin intro: belongsTo.named)
  qed
qed

lemma appName_iff: "appNameByAnnotationsAndOwnerRef s e = Some a \<longleftrightarrow> belongsTo s e a"
  by (auto intro: appName_belongsTo belongsTo_appName)

text \<open>An owner is older than what it owns: some rank decreases along the owners.\<close>

definition ownersRanked :: "Searcher \<Rightarrow> (kubeObject \<Rightarrow> nat) \<Rightarrow> bool" where
  "ownersRanked s rank \<longleftrightarrow> (\<forall>e o'. controlledBy s e o' \<longrightarrow> rank o' < rank e)"

lemma appName_returns:
  assumes "ownersRanked s rank"
  shows "\<exists>a. appNameByAnnotationsAndOwnerRef s e = Some a"
proof (induction e rule: measure_induct_rule [of rank])
  case (less e)
  show ?case
  proof (cases "ownerOf s e")
    case (Some o')
    then have "rank o' < rank e" using assms by (simp add: ownersRanked_def ownerOf_controlledBy)
    from less [OF this] Some show ?thesis by (subst appName_unfold) simp
  qed (subst appName_unfold, simp)
qed

text \<open>Objects without annotation whose owners are again among them.\<close>

lemma appName_loops:
  assumes "appNameByAnnotationsAndOwnerRef s e = Some a"
    and "\<And>x. x \<in> C \<Longrightarrow> getAppNameOrigin x = [] \<and> (\<exists>y\<in>C. ownerOf s x = Some y)"
  shows "e \<notin> C"
proof -
  have "s = s \<longrightarrow> e \<notin> C"
  proof (rule appNameByAnnotationsAndOwnerRef.raw_induct [of "\<lambda>s' e r. s' = s \<longrightarrow> e \<notin> C", OF _ assms(1)], intro impI notI)
    fix f s' e r
    assume IH: "\<And>s' e r. f s' e = Some r \<Longrightarrow> s' = s \<longrightarrow> e \<notin> C" and s': "s' = s" and e: "e \<in> C"
      and body: "(if getAppNameOrigin e \<noteq> [] then Some (getAppNameOrigin e)
        else case getOwnRefInfo e of (key, gvk) \<Rightarrow> (case gvk of
             None \<Rightarrow> Some DefaultNocalhostApplication
           | Some k \<Rightarrow> (case informerGetterGvKVer s' k of
                Inl _ \<Rightarrow> Some DefaultNocalhostApplication
              | Inr store \<Rightarrow> (case storeGet key store of
                   Some ownRef \<Rightarrow> f s' ownRef
                 | None \<Rightarrow> Some DefaultNocalhostApplication)))) = Some r"
    from assms(2) [OF e] obtain y where y: "getAppNameOrigin e = []" "y \<in> C" "ownerOf s e = Some y" by blast
    then have "f s y = Some r"
      using body s' by (auto simp: ownerOf_def split: prod.splits option.splits sum.splits)
    with IH y(2) show False by blast
  qed
  then show ?thesis by simp
qed

subsection \<open>What a query returns\<close>

text \<open>Which objects of the type a query is about, before the application is looked at: those of the
  namespace, unless none is given or the type has none.\<close>

definition inScope :: "GvkGvrWithAlias \<Rightarrow> criteria \<Rightarrow> kubeObject \<Rightarrow> bool" where
  "inScope mapping c e \<longleftrightarrow> \<not> gg_Namespaced mapping \<or> cr_ns c = [] \<or> ko_Namespace e = cr_ns c"

definition wanted :: "Searcher \<Rightarrow> GvkGvrWithAlias \<Rightarrow> criteria \<Rightarrow> kubeObject \<Rightarrow> bool" where
  "wanted s mapping c e \<longleftrightarrow> inScope mapping c e \<and>
     (cr_appName c = [] \<or> belongsTo s e (cr_appName c)) \<and>
     (\<forall>(k, v)\<in>set (cr_label c). get_str (ko_Labels e) k = v) \<and>
     (cr_showHidden c \<or> get_str (ko_Labels e) DevWorkloadIgnored \<noteq> ''true'')"

text \<open>The owners of every object the query is about come to an end.\<close>

definition ownersEnd :: "Searcher \<Rightarrow> GvkGvrWithAlias \<Rightarrow> criteria \<Rightarrow> bool" where
  "ownersEnd s mapping c \<longleftrightarrow> (\<forall>e\<in>set (sr_store s (gg_Gvr mapping)). inScope mapping c e \<longrightarrow> (\<exists>a. belongsTo s e a))"

lemma ranked_ends: "ownersRanked s rank \<Longrightarrow> ownersEnd s mapping c"
  by (simp add: ownersEnd_def appName_iff [symmetric] appName_returns)

lemma appNameLoop_filter:
  assumes "\<forall>e\<in>set es. \<exists>a. belongsTo s e a"
  shows "appNameLoop s app es = Some (filter (\<lambda>e. belongsTo s e app) es)"
  using assms
proof (induction es)
  case (Cons e es)
  then obtain a where a: "appNameByAnnotationsAndOwnerRef s e = Some a" by (auto simp: appName_iff)
  then have "belongsTo s e app \<longleftrightarrow> a = app" by (simp add: appName_iff [symmetric])
  with Cons a show ?case by auto
qed simp

text \<open>Somewhere in the list is an object for which the walk does not return.\<close>

lemma appNameLoop_hangs:
  "e \<in> set es \<Longrightarrow> appNameByAnnotationsAndOwnerRef s e = None \<Longrightarrow> appNameLoop s app es = None"
  by (induction es) (auto split: option.split)

definition scopeFilter :: "GvkGvrWithAlias \<Rightarrow> criteria \<Rightarrow> kubeObject list \<Rightarrow> kubeObject list" where
  "scopeFilter mapping c es = (if gg_Namespaced mapping then filter_namespace (cr_ns c) es else es)"

lemma scopeFilter_filter: "scopeFilter mapping c es = filter (inScope mapping c) es"
  by (auto simp: scopeFilter_def filter_namespace_def inScope_def intro!: filter_cong)

lemma Query_by_filters:
  assumes "cr_search c = Some s" and "cr_resourceType c \<noteq> []" and "GetResourceInfo (cr_resourceType c) s = Inr mapping"
    and "cr_resourceName c = [] \<or> gg_Namespaced mapping \<and> cr_ns c = []"
  shows "Query c = map_option (\<lambda>es. Ret (Inr (map (fillGvk (gg_Gvk mapping))
      (filter_sort (hideIgnored (cr_showHidden c) (filter_label (cr_label c) es))))))
    (filter_appName s (cr_appName c) (filter (inScope mapping c) (sr_store s (gg_Gvr mapping))))"
  using assms by (auto simp: Query_def queryBody_def scopeFilter_filter [symmetric] scopeFilter_def
      split: option.splits)

lemma filters_wanted:
  "filter_label (cr_label c) (filter (\<lambda>e. cr_appName c = [] \<or> belongsTo s e (cr_appName c)) (filter (inScope mapping c) objs)) =
     filter (\<lambda>e. inScope mapping c e \<and> (cr_appName c = [] \<or> belongsTo s e (cr_appName c)) \<and>
       (\<forall>(k, v)\<in>set (cr_label c). get_str (ko_Labels e) k = v)) objs"
  by (auto simp: filter_label_def labelSelector_def list_all_iff intro!: filter_cong)

lemma hideIgnored_filter:
  "hideIgnored showHidden es = filter (\<lambda>e. showHidden \<or> get_str (ko_Labels e) DevWorkloadIgnored \<noteq> ''true'') es"
  by (simp add: hideIgnored_def filter_notLabel_def labelSelector_def)

lemma fillGvk_name [simp]: "ko_Name (fillGvk g e) = ko_Name e"
  by (simp add: fillGvk_def)

lemma Query_list:
  assumes "cr_search c = Some s" and "cr_resourceType c \<noteq> []" and "GetResourceInfo (cr_resourceType c) s = Inr mapping"
    and "cr_resourceName c = [] \<or> gg_Namespaced mapping \<and> cr_ns c = []"
    and "cr_appName c = [] \<or> ownersEnd s mapping c"
  shows "Query c = Some (Ret (Inr (map (fillGvk (gg_Gvk mapping)) (filter_sort (filter (wanted s mapping c) (sr_store s (gg_Gvr mapping)))))))"
proof -
  have "filter_appName s (cr_appName c) (filter (inScope mapping c) (sr_store s (gg_Gvr mapping))) =
      Some (filter (\<lambda>e. cr_appName c = [] \<or> belongsTo s e (cr_appName c)) (filter (inScope mapping c) (sr_store s (gg_Gvr mapping))))"
    using assms(5) appNameLoop_filter [of "filter (inScope mapping c) (sr_store s (gg_Gvr mapping))" s "cr_appName c"]
    by (auto simp: filter_appName_def ownersEnd_def)
  then have "Query c = Some (Ret (Inr (map (fillGvk (gg_Gvk mapping)) (filter_sort (hideIgnored (cr_showHidden c)
      (filter_label (cr_label c) (filter (\<lambda>e. cr_appName c = [] \<or> belongsTo s e (cr_appName c))
        (filter (inScope mapping c) (sr_store s (gg_Gvr mapping))))))))))"
    by (simp only: Query_by_filters [OF assms(1-4)] option.map)
  also have "hideIgnored (cr_showHidden c) (filter_label (cr_label c)
      (filter (\<lambda>e. cr_appName c = [] \<or> belongsTo s e (cr_appName c)) (filter (inScope mapping c) (sr_store s (gg_Gvr mapping))))) =
    filter (wanted s mapping c) (sr_store s (gg_Gvr mapping))"
    unfolding filters_wanted unfolding hideIgnored_filter filter_filter by (rule filter_cong [OF refl]) (auto simp: wanted_def)
  finally show ?thesis .
qed

lemma Query_hangs:
  assumes "cr_search c = Some s" and "cr_resourceType c \<noteq> []" and "GetResourceInfo (cr_resourceType c) s = Inr mapping"
    and "cr_resourceName c = [] \<or> gg_Namespaced mapping \<and> cr_ns c = []"
    and "cr_appName c \<noteq> []" and "\<not> ownersEnd s mapping c"
  shows "Query c = None"
proof -
  from assms(6) obtain e where e: "e \<in> set (filter (inScope mapping c) (sr_store s (gg_Gvr mapping)))" "\<nexists>a. belongsTo s e a"
    by (auto simp: ownersEnd_def)
  then have "appNameByAnnotationsAndOwnerRef s e = None" by (metis appName_iff not_None_eq)
  with e(1) assms(5) show ?thesis by (simp add: Query_by_filters [OF assms(1-4)] filter_appName_def appNameLoop_hangs)
qed

text \<open>C23: A query for the objects of a resource type, namespaced or not, that asks for no name (or
  for a name of a namespaced type in no namespace, which is ignored): when no application is asked
  for, or the owners of the objects in scope come to an end, as they do whenever owners are older
  than what they own, it returns exactly the objects of the store that are in the namespace
  (when one is given and the type is namespaced), belong to the application, have the wanted
  labels and are not hidden, each as often as in the store, sorted by name, with their kind
  filled in. An object belongs to the application its own annotations name, or else to the one
  its controlling owner belongs to, or else to the default application. Otherwise, when an
  application is asked for and the owners of an object in scope run in a circle, the query
  never returns.\<close>

theorem query_selects_exactly:
  assumes "cr_search c = Some s" and "cr_resourceType c \<noteq> []" and "GetResourceInfo (cr_resourceType c) s = Inr mapping"
    and "cr_resourceName c = [] \<or> gg_Namespaced mapping \<and> cr_ns c = []"
  shows "(cr_appName c = [] \<or> ownersEnd s mapping c \<longrightarrow>
       (\<exists>objs. Query c = Some (Ret (Inr objs)) \<and> sorted (map ko_Name objs) \<and>
          mset objs = image_mset (fillGvk (gg_Gvk mapping)) (filter_mset (wanted s mapping c) (mset (sr_store s (gg_Gvr mapping)))))) \<and>
    (cr_appName c \<noteq> [] \<and> \<not> ownersEnd s mapping c \<longrightarrow> Query c = None) \<and>
    (\<forall>rank. ownersRanked s rank \<longrightarrow> ownersEnd s mapping c) \<and>
    (\<forall>e a b. belongsTo s e a \<and> belongsTo s e b \<longrightarrow> a = b)"
proof (intro conjI impI allI)
  assume "cr_appName c = [] \<or> ownersEnd s mapping c"
  from Query_list [OF assms this] show "\<exists>objs. Query c = Some (Ret (Inr objs)) \<and> sorted (map ko_Name objs) \<and>
      mset objs = image_mset (fillGvk (gg_Gvk mapping)) (filter_mset (wanted s mapping c) (mset (sr_store s (gg_Gvr mapping))))"
    by (simp add: filter_sort_def comp_def)
next
  fix e a b assume "belongsTo s e a \<and> belongsTo s e b"
  then show "a = b" by (auto simp: appName_iff [symmetric])
qed (use Query_hangs [OF assms] ranked_ends in blast)+

text \<open>A pod of a replica set; only the replica set carries the name of the application.\<close>

definition podGvr :: GroupVersionResource where
  "podGvr = \<lparr>gr_Group = [], gr_Version = ''v1'', gr_Resource = ''pods''\<rparr>"

definition rsGvr :: GroupVersionResource where
  "rsGvr = \<lparr>gr_Group = ''apps'', gr_Version = ''v1'', gr_Resource = ''replicasets''\<rparr>"

definition ownedBy :: "string \<Rightarrow> OwnerReference" where
  "ownedBy name = \<lparr>or_APIVersion = ''apps/v1'', or_Kind = ''ReplicaSet'', or_Name = name, or_Controller = Some True\<rparr>"

definition demoObject :: "string \<Rightarrow> (string \<rightharpoonup> string) option \<Rightarrow> OwnerReference list \<Rightarrow> kubeObject" where
  "demoObject name ann owners = \<lparr>ko_Name = name, ko_Namespace = ''dev'', ko_Annotations = ann, ko_Labels = Map.empty,
     ko_DeletionTimestamp = None, ko_OwnerReferences = owners, ko_Gvk = emptyGvk\<rparr>"

definition demoPod :: kubeObject where "demoPod = demoObject ''web-1'' None [ownedBy ''web'']"

definition podType :: GvkGvrWithAlias where
  "podType = ggwaOf [] ''v1'' \<lparr>ar_Name = ''pods'', ar_SingularName = ''pod'', ar_Kind = ''Pod'',
     ar_Namespaced = True, ar_ShortNames = [''po'']\<rparr>"

definition demoSearcher :: "kubeObject \<Rightarrow> Searcher" where
  "demoSearcher rs =
     \<lparr>sr_schema = [''pods'' \<mapsto> podType],
      sr_store = \<lambda>gvr. if gvr = podGvr then [demoPod] else if gvr = rsGvr then [rs] else [],
      sr_resourceForGVK = \<lambda>gvk. if gvk_Kind gvk = ''ReplicaSet'' then Inr (rsGvr, True) else Inl ''no match''\<rparr>"

definition demoCriteria :: "kubeObject \<Rightarrow> string \<Rightarrow> criteria" where
  "demoCriteria rs name = \<lparr>cr_search = Some (demoSearcher rs), cr_resourceType = ''pods'', cr_resourceName = name,
     cr_appName = ''shop'', cr_ns = ''dev'', cr_label = [], cr_showHidden = False\<rparr>"

definition shopRs :: kubeObject where
  "shopRs = demoObject ''web'' (Some [NocalhostApplicationName \<mapsto> ''shop'']) []"

definition loopRs :: kubeObject where "loopRs = demoObject ''web'' None [ownedBy ''web'']"

lemma demo_owner_info: "getOwnRefInfo (demoObject n ann [ownedBy m]) =
    (''dev/'' @ m, Some \<lparr>gvk_Group = ''apps'', gvk_Version = ''v1'', gvk_Kind = ''ReplicaSet''\<rparr>)"
  by (simp add: getOwnRefInfo_def demoObject_def ownedBy_def ParseGroupVersion_def split_def nsResource_def)

lemma demo_owner: "ownerOf (demoSearcher rs) (demoObject n ann [ownedBy ''web'']) = storeGet ''dev/web'' [rs]"
  by (simp add: ownerOf_def demo_owner_info informerGetterGvKVer_def demoSearcher_def podGvr_def rsGvr_def)

lemma demo_storeGet: "storeGet ''dev/web'' [demoObject ''web'' ann os] = Some (demoObject ''web'' ann os)"
  by (simp add: storeGet_def demoObject_def nsResource_def)

lemma demo_ranked: "ownersRanked (demoSearcher shopRs) (\<lambda>e. length (ko_OwnerReferences e))"
proof (unfold ownersRanked_def, intro allI impI)
  fix e o'
  assume "controlledBy (demoSearcher shopRs) e o'"
  then have own: "ownerOf (demoSearcher shopRs) e = Some o'" by (simp add: ownerOf_controlledBy)
  then have "o' = shopRs"
    by (auto simp: ownerOf_def informerGetterGvKVer_def demoSearcher_def rsGvr_def podGvr_def storeGet_def
        split: prod.splits option.splits sum.splits if_splits)
  moreover have "ko_OwnerReferences e \<noteq> []"
    using own by (auto simp: ownerOf_def getOwnRefInfo_def)
  ultimately show "length (ko_OwnerReferences o') < length (ko_OwnerReferences e)"
    by (simp add: shopRs_def demoObject_def)
qed

lemma demo_app: "appNameByAnnotationsAndOwnerRef (demoSearcher shopRs) demoPod = Some ''shop''"
proof -
  have "appNameByAnnotationsAndOwnerRef (demoSearcher shopRs) shopRs = Some ''shop''"
    by (subst appName_unfold) (simp add: shopRs_def demoObject_def getAppNameOrigin_def)
  moreover have "getAppNameOrigin demoPod = []" by (simp add: demoPod_def demoObject_def getAppNameOrigin_def)
  moreover have "ownerOf (demoSearcher shopRs) demoPod = Some shopRs"
    using demo_owner [of shopRs "''web-1''" None] demo_storeGet by (simp add: demoPod_def shopRs_def)
  ultimately show ?thesis by (subst appName_unfold) simp
qed

lemma demo_criteria:
  "cr_search (demoCriteria rs n) = Some (demoSearcher rs)" "cr_resourceType (demoCriteria rs n) \<noteq> []"
  "GetResourceInfo (cr_resourceType (demoCriteria rs n)) (demoSearcher rs) = Inr podType"
  "gg_Namespaced podType" "cr_resourceName (demoCriteria rs n) = n" "cr_ns (demoCriteria rs n) = ''dev''"
  "sr_store (demoSearcher rs) (gg_Gvr podType) = [demoPod]" "cr_appName (demoCriteria rs n) = ''shop''"
  by (simp_all add: demoCriteria_def GetResourceInfo_def demoSearcher_def toLower_def toLowerByte_def podType_def
      ggwaOf_def podGvr_def)

lemma demo_wanted: "wanted (demoSearcher shopRs) podType (demoCriteria shopRs []) demoPod"
  using demo_app by (simp add: wanted_def inScope_def appName_iff demoCriteria_def demoPod_def demoObject_def DevWorkloadIgnored_def)

lemma demo_loop_owner: "ownerOf (demoSearcher loopRs) (demoObject n None [ownedBy ''web'']) = Some loopRs"
  using demo_owner [of loopRs n None] demo_storeGet by (simp add: loopRs_def)

lemma demo_plain: "getAppNameOrigin (demoObject n None os) = []"
  by (simp add: demoObject_def getAppNameOrigin_def)

text \<open>A replica set that names itself as its controller.\<close>

lemma demo_loop: "\<not> ownersEnd (demoSearcher loopRs) podType (demoCriteria loopRs [])"
proof
  assume "ownersEnd (demoSearcher loopRs) podType (demoCriteria loopRs [])"
  then obtain a where "appNameByAnnotationsAndOwnerRef (demoSearcher loopRs) demoPod = Some a"
    by (auto simp: ownersEnd_def demo_criteria inScope_def demoPod_def demoObject_def appName_iff)
  from appName_loops [OF this, of "{demoPod, loopRs}"] show False
    using demo_loop_owner [of "''web''"] demo_loop_owner [of "''web-1''"] demo_plain by (auto simp: demoPod_def loopRs_def)
qed

theorem query_selects_exactly_witness:
  "(\<exists>objs. Query (demoCriteria shopRs []) = Some (Ret (Inr objs)) \<and> length objs = 1) \<and> Query (demoCriteria loopRs []) = None"
proof
  have "ownersEnd (demoSearcher shopRs) podType (demoCriteria shopRs [])" by (rule ranked_ends [OF demo_ranked])
  with query_selects_exactly [OF demo_criteria(1-3), of shopRs "[]"] obtain objs where
    "Query (demoCriteria shopRs []) = Some (Ret (Inr objs))"
    "mset objs = image_mset (fillGvk (gg_Gvk podType)) {#demoPod#}"
    using demo_wanted by (auto simp: demo_criteria)
  then show "\<exists>objs. Query (demoCriteria shopRs []) = Some (Ret (Inr objs)) \<and> length objs = 1"
    by (metis size_image_mset size_mset size_single)
  show "Query (demoCriteria loopRs []) = None"
    using query_selects_exactly [OF demo_criteria(1-3), of loopRs "[]"] demo_loop by (simp add: demo_criteria)
qed

text \<open>A query for the objects of an application never returns when an object in the namespace has no
  annotation and its owners lead into a circle of objects without annotation, for instance an
  object that names itself as its controller: the recursion over the owners has no end, and the
  recovery in \<open>Query\<close> does not help, since a stack overflow cannot be recovered from.\<close>

theorem query_hangs_on_owner_cycle:
  assumes "\<forall>x\<in>C. getAppNameOrigin x = [] \<and> (\<exists>y\<in>C. ownerOf s x = Some y)"
    and "e \<in> set (sr_store s (gg_Gvr mapping))" and "ownerOf s e = Some y" and "y \<in> C" and "getAppNameOrigin e = []"
    and "cr_search c = Some s" and "cr_resourceType c \<noteq> []" and "GetResourceInfo (cr_resourceType c) s = Inr mapping"
    and "gg_Namespaced mapping" and "cr_resourceName c = []" and "cr_appName c \<noteq> []"
    and "cr_ns c = [] \<or> ko_Namespace e = cr_ns c"
  shows "Query c = None"
proof -
  have "appNameByAnnotationsAndOwnerRef s e = None"
  proof (rule ccontr)
    assume "appNameByAnnotationsAndOwnerRef s e \<noteq> None"
    then obtain a where a: "appNameByAnnotationsAndOwnerRef s e = Some a" by blast
    have "e \<notin> insert e C"
      using assms(1,3-5) by (intro appName_loops [OF a]) auto
    then show False by simp
  qed
  moreover have "e \<in> set (filter_namespace (cr_ns c) (sr_store s (gg_Gvr mapping)))"
    using assms(2,12) by (auto simp: filter_namespace_def)
  ultimately have "filter_appName s (cr_appName c) (filter_namespace (cr_ns c) (sr_store s (gg_Gvr mapping))) = None"
    using assms(11) appNameLoop_hangs by (simp add: filter_appName_def)
  with assms(6-10) show ?thesis by (simp add: Query_def queryBody_def)
qed

theorem query_hangs_on_owner_cycle_witness: "Query (demoCriteria loopRs []) = None"
proof (rule query_hangs_on_owner_cycle [where C = "{loopRs}" and y = loopRs, OF _ _ _ _ _ demo_criteria(1-5)])
  have loop: "ownerOf (demoSearcher loopRs) (demoObject n None [ownedBy ''web'']) = Some loopRs" for n
    using demo_owner [of loopRs n None] demo_storeGet by (simp add: loopRs_def)
  have plain: "getAppNameOrigin (demoObject n None os) = []" for n os
    by (simp add: demoObject_def getAppNameOrigin_def)
  show "\<forall>x\<in>{loopRs}. getAppNameOrigin x = [] \<and> (\<exists>y\<in>{loopRs}. ownerOf (demoSearcher loopRs) x = Some y)"
    using loop [of "''web''"] plain by (simp add: loopRs_def)
  show "ownerOf (demoSearcher loopRs) demoPod = Some loopRs" "getAppNameOrigin demoPod = []"
    using loop [of "''web-1''"] plain by (simp_all add: demoPod_def)
qed (simp_all add: demo_criteria demoPod_def demoObject_def)

subsection \<open>By name and by list\<close>

text \<open>An object that belongs to an application only through its owner, as a pod does through its replica
  set, is in the list of the application's objects. Asked for by namespace and name under the
  same application it is not found, since this branch of the query looks only at the object's
  own annotations.\<close>

theorem name_query_ignores_owner:
  assumes "ownersRanked s rank" and "cr_search c = Some s" and "cr_resourceType c \<noteq> []"
    and "GetResourceInfo (cr_resourceType c) s = Inr mapping" and "gg_Namespaced mapping"
    and "cr_ns c \<noteq> []" and "name \<noteq> []"
    and "storeGet (nsResource (cr_ns c) name) (sr_store s (gg_Gvr mapping)) = Some e" and "wanted s mapping c e"
    and "getAppNameOrigin e = []" and "cr_appName c \<noteq> []" and "cr_appName c \<noteq> DefaultNocalhostApplication"
  shows "Query (c\<lparr>cr_resourceName := name\<rparr>) = Some (Ret (Inr [])) \<and>
    (\<exists>objs. Query (c\<lparr>cr_resourceName := []\<rparr>) = Some (Ret (Inr objs)) \<and> fillGvk (gg_Gvk mapping) e \<in> set objs)"
proof
  show "Query (c\<lparr>cr_resourceName := name\<rparr>) = Some (Ret (Inr []))"
    using assms(2-8,10-12) by (simp add: Query_def queryBody_def getAppName_def)
  have "e \<in> set (sr_store s (gg_Gvr mapping))"
    using assms(8) unfolding storeGet_def by (auto simp: find_Some_iff)
  moreover have "wanted s mapping (c\<lparr>cr_resourceName := []\<rparr>) e" using assms(9) by (simp add: wanted_def inScope_def)
  ultimately show "\<exists>objs. Query (c\<lparr>cr_resourceName := []\<rparr>) = Some (Ret (Inr objs)) \<and> fillGvk (gg_Gvk mapping) e \<in> set objs"
    using Query_list [of "c\<lparr>cr_resourceName := []\<rparr>" s mapping] ranked_ends [OF assms(1)] assms(2-4) by (simp add: filter_sort_def)
qed

theorem name_query_ignores_owner_witness:
  "Query ((demoCriteria shopRs [])\<lparr>cr_resourceName := ''web-1''\<rparr>) = Some (Ret (Inr [])) \<and>
   (\<exists>objs. Query ((demoCriteria shopRs [])\<lparr>cr_resourceName := []\<rparr>) = Some (Ret (Inr objs)) \<and> objs \<noteq> [])"
proof -
  have "storeGet (nsResource (cr_ns (demoCriteria shopRs [])) ''web-1'') (sr_store (demoSearcher shopRs) (gg_Gvr podType)) = Some demoPod"
    by (simp add: demo_criteria storeGet_def demoPod_def demoObject_def nsResource_def)
  from name_query_ignores_owner [OF demo_ranked demo_criteria(1-4) _ _ this demo_wanted] show ?thesis
    by (fastforce simp: demo_criteria demoPod_def demoObject_def getAppNameOrigin_def DefaultNocalhostApplication_def)
qed

subsection \<open>The sets of application names\<close>

definition appsOf :: "(string \<Rightarrow> string) \<Rightarrow> kubeObject list \<Rightarrow> string \<Rightarrow> string set" where
  "appsOf keyOf objs key = getAppName ` {e \<in> set objs. ko_Namespace e \<noteq> [] \<and> keyOf (ko_Namespace e) = key}"

lemma appsOf_simps [simp]:
  "appsOf keyOf [] key = {}"
  "appsOf keyOf (e # es) key =
     (if ko_Namespace e \<noteq> [] \<and> keyOf (ko_Namespace e) = key then insert (getAppName e) (appsOf keyOf es key)
      else appsOf keyOf es key)"
  by (auto simp: appsOf_def)

lemma collectApps_acc:
  "fold (\<lambda>e m. if ko_Namespace e = [] then m
       else m(keyOf (ko_Namespace e) \<mapsto> insert (getAppName e) (get0 {} m (keyOf (ko_Namespace e))))) objs m key =
     (if appsOf keyOf objs key = {} then m key else Some (get0 {} m key \<union> appsOf keyOf objs key))"
proof (induction objs arbitrary: m)
  case (Cons e es)
  show ?case by (simp add: Cons.IH) (auto simp: get0_def)
qed simp

lemma collectApps_iff:
  "collectApps keyOf objs key = (if appsOf keyOf objs key = {} then None else Some (appsOf keyOf objs key))"
  by (simp add: collectApps_def collectApps_acc)

lemma appsOf_empty: "appsOf keyOf objs key = {} \<longleftrightarrow> (\<forall>e\<in>set objs. ko_Namespace e \<noteq> [] \<longrightarrow> keyOf (ko_Namespace e) \<noteq> key)"
  by (auto simp: appsOf_def)

text \<open>The names of one resource type under one key.\<close>

definition appsAt :: "appMaps \<Rightarrow> string \<Rightarrow> string \<Rightarrow> string set option" where
  "appsAt maps key res = (case maps key of None \<Rightarrow> None | Some m \<Rightarrow> m res)"

lemma toKey_inj [simp]: "toKey sha k a = toKey sha k b \<longleftrightarrow> a = b"
  by (simp add: toKey_def)

lemma toKey_other:
  assumes "\<forall>k. length (sha k) = 20" and "sha k \<noteq> sha k'"
  shows "toKey sha k a \<noteq> toKey sha k' b"
  using assms by (simp add: toKey_def append_eq_append_conv)

abbreviation hasKey :: "(string \<Rightarrow> string) \<Rightarrow> string \<Rightarrow> kubeObject \<Rightarrow> bool" where
  "hasKey keyOf key e \<equiv> ko_Namespace e \<noteq> [] \<and> keyOf (ko_Namespace e) = key"

lemma storeApps_fold:
  fixes B :: "string \<Rightarrow> string set" and sha :: "string \<Rightarrow> string" and r :: ResourceEventHandlerFuncs
  defines "keyOf \<equiv> toKey sha (rh_kubeconfigBytes r)" and "res \<equiv> gr_Resource (rh_Gvr r)"
  assumes "\<And>e. e \<in> set objs \<Longrightarrow> ko_Namespace e \<noteq> [] \<Longrightarrow>
      nsToApp (ko_Namespace e) = (if ko_Namespace e \<in> D then None else Some (B (keyOf (ko_Namespace e))))"
    and "\<And>ns. ns \<in> D \<Longrightarrow> appsAt maps (keyOf ns) res = Some (B (keyOf ns))"
  shows "appsAt (fst (fold (storeApps sha r) objs (maps, nsToApp))) key q =
    (if q = res \<and> (\<exists>e\<in>set objs. hasKey keyOf key e) then Some (B key) else appsAt maps key q)"
  using assms(3,4)
proof (induction objs arbitrary: maps nsToApp D)
  case (Cons e es)
  show ?case
  proof (cases "ko_Namespace e = []")
    case True
    with Cons.IH [of nsToApp D maps] Cons.prems show ?thesis by (simp add: storeApps_def)
  next
    case False
    obtain maps' nsToApp' where st: "storeApps sha r e (maps, nsToApp) = (maps', nsToApp')" by force
    note here = Cons.prems(1) [of e, simplified, OF False] Cons.prems(2) [of "ko_Namespace e"]
    have at: "appsAt maps' k q = (if k = keyOf (ko_Namespace e) \<and> q = res then Some (B k) else appsAt maps k q)" for k q
      using st False here
      by (auto simp: storeApps_def appsAt_def keyOf_def res_def split: option.splits if_splits)
    have ns': "nsToApp' n = (if n = ko_Namespace e then None else nsToApp n)" for n
      using st False here by (auto simp: storeApps_def split: option.splits if_splits)
    have "appsAt (fst (fold (storeApps sha r) es (maps', nsToApp'))) key q =
      (if q = res \<and> (\<exists>e\<in>set es. hasKey keyOf key e) then Some (B key) else appsAt maps' key q)"
    proof (rule Cons.IH [where D = "insert (ko_Namespace e) D"])
      show "nsToApp' (ko_Namespace x) =
          (if ko_Namespace x \<in> insert (ko_Namespace e) D then None else Some (B (keyOf (ko_Namespace x))))"
        if "x \<in> set es" "ko_Namespace x \<noteq> []" for x
        using that Cons.prems(1) [of x] by (simp add: ns')
      show "appsAt maps' (keyOf n) res = Some (B (keyOf n))" if "n \<in> insert (ko_Namespace e) D" for n
        using that Cons.prems(2) [of n] by (auto simp: at)
    qed
    then show ?thesis using st False by (auto simp: at)
  qed
qed simp

lemma appsOf_toKey: "appsOf id objs ns = appsOf (toKey sha k) objs (toKey sha k ns)"
  by (simp add: appsOf_def)

lemma handleAddOrUpdate_at:
  "appsAt (handleAddOrUpdate sha r objs maps) key q =
    (if q = gr_Resource (rh_Gvr r) \<and> (\<exists>e\<in>set objs. hasKey (toKey sha (rh_kubeconfigBytes r)) key e)
     then Some (appsOf (toKey sha (rh_kubeconfigBytes r)) objs key) else appsAt maps key q)"
  unfolding handleAddOrUpdate_def
proof (rule storeApps_fold [where D = "{}"])
  fix e
  assume "e \<in> set objs" "ko_Namespace e \<noteq> []"
  then have "appsOf id objs (ko_Namespace e) \<noteq> {}" by (auto simp: appsOf_empty)
  then show "collectApps id objs (ko_Namespace e) = (if ko_Namespace e \<in> {} then None
      else Some (appsOf (toKey sha (rh_kubeconfigBytes r)) objs (toKey sha (rh_kubeconfigBytes r) (ko_Namespace e))))"
    using appsOf_toKey by (simp add: collectApps_iff)
qed simp

lemma OnDelete_at:
  "appsAt (OnDelete sha objs r maps) key q =
    (if q = gr_Resource (rh_Gvr r) \<and> appsAt maps key q \<noteq> None
     then Some (appsOf (toKey sha (rh_kubeconfigBytes r)) objs key) else appsAt maps key q)"
  by (auto simp: OnDelete_def appsAt_def collectApps_iff get0_def split: option.split)

text \<open>An add or update event makes the names recorded for the resource type right in every namespace that
  has an object of the type, and touches nothing else. A delete event makes them right in every
  namespace recorded for the kubeconfig of the handler. But it also walks over the entries of all
  other kubeconfigs and empties them for that resource type, so that the applications of every
  other cluster are forgotten until its next event.\<close>

theorem delete_event_empties_other_clusters:
  assumes "\<forall>k. length (sha k) = 20" and "sha other \<noteq> sha (rh_kubeconfigBytes r)"
    and "appsAt maps (toKey sha other ns) (gr_Resource (rh_Gvr r)) \<noteq> None"
  shows "appsAt (OnDelete sha objs r maps) (toKey sha other ns) (gr_Resource (rh_Gvr r)) = Some {} \<and>
    (\<forall>own. appsAt maps (toKey sha (rh_kubeconfigBytes r) own) (gr_Resource (rh_Gvr r)) \<noteq> None \<longrightarrow>
       appsAt (OnDelete sha objs r maps) (toKey sha (rh_kubeconfigBytes r) own) (gr_Resource (rh_Gvr r)) =
         Some (appsOf id objs own)) \<and>
    (\<forall>own. (\<exists>e\<in>set objs. ko_Namespace e \<noteq> [] \<and> ko_Namespace e = own) \<longrightarrow>
       appsAt (handleAddOrUpdate sha r objs maps) (toKey sha (rh_kubeconfigBytes r) own) (gr_Resource (rh_Gvr r)) =
         Some (appsOf id objs own)) \<and>
    (\<forall>q. appsAt (handleAddOrUpdate sha r objs maps) (toKey sha other ns) q = appsAt maps (toKey sha other ns) q)"
proof -
  have far: "toKey sha (rh_kubeconfigBytes r) own \<noteq> toKey sha other ns" for own
    using toKey_other [OF assms(1), of "rh_kubeconfigBytes r" other own ns] assms(2) by simp
  then have "appsOf (toKey sha (rh_kubeconfigBytes r)) objs (toKey sha other ns) = {}"
    by (simp add: appsOf_empty)
  with assms(3) far show ?thesis
    by (auto simp: OnDelete_at handleAddOrUpdate_at appsOf_toKey [where sha = sha and k = "rh_kubeconfigBytes r"])
qed

definition demoSha :: "string \<Rightarrow> string" where
  "demoSha k = replicate 20 (case k of [] \<Rightarrow> CHR ''0'' | c # _ \<Rightarrow> c)"

theorem delete_event_empties_other_clusters_witness:
  "appsAt (OnDelete demoSha [shopRs] \<lparr>rh_kubeconfigBytes = ''a'', rh_Gvr = rsGvr, rh_nextTime = 0\<rparr>
     [toKey demoSha ''b'' ''prod'' \<mapsto> [''replicasets'' \<mapsto> {''shop''}]]) (toKey demoSha ''b'' ''prod'') ''replicasets'' = Some {}"
proof -
  have "demoSha ''b'' \<noteq> demoSha ''a''" "\<forall>k. length (demoSha k) = 20"
    by (simp_all add: demoSha_def)
  then show ?thesis
    using delete_event_empties_other_clusters [where sha = demoSha and other = "''b''" and ns = "''prod''" and
        r = "\<lparr>rh_kubeconfigBytes = ''a'', rh_Gvr = rsGvr, rh_nextTime = 0\<rparr>" and objs = "[shopRs]" and
        maps = "[toKey demoSha ''b'' ''prod'' \<mapsto> [''replicasets'' \<mapsto> {''shop''}]]", THEN conjunct1]
    by (simp add: appsAt_def rsGvr_def)
qed

subsection \<open>Names of resource types\<close>

text \<open>Two API groups with a kind of the same name, both known to the informers.\<close>

definition ingressApis :: "APIGroupResources list" where
  "ingressApis = map (\<lambda>g. \<lparr>ag_Group = g, ag_VersionedResources = [(''v1'', [\<lparr>ar_Name = ''ingresses'', ar_SingularName = [],
     ar_Kind = ''Ingress'', ar_Namespaced = True, ar_ShortNames = [''ing'']\<rparr>])]\<rparr>) [''extensions'', ''networking.k8s.io'']"

lemma neededKinds_Ingress: "''Ingress'' \<in> set neededKinds"
  by code_simp

text \<open>The type a name stands for is the last stored one that has the name.\<close>

lemma storeAliases_lookup:
  "storeAliases g schema a = (if a \<noteq> [] \<and> a \<in> set (gg_alias g) then Some g else schema a)"
proof -
  have "fold (\<lambda>alias m. if alias \<noteq> [] then m(alias \<mapsto> g) else m) as schema a =
      (if a \<noteq> [] \<and> a \<in> set as then Some g else schema a)" for as
    by (induction as arbitrary: schema) auto
  then show ?thesis by (simp add: storeAliases_def)
qed

lemma schema_lookup:
  "fold storeAliases gs schema a =
     (case List.find (\<lambda>g. a \<noteq> [] \<and> a \<in> set (gg_alias g)) (rev gs) of Some g \<Rightarrow> Some g | None \<Rightarrow> schema a)"
  by (induction gs rule: rev_induct) (auto simp: storeAliases_lookup)

text \<open>Only the kind of a built-in type is compared, not its group, so both groups answer to the same names.\<close>

lemma ingress_depends_on_map_order:
  "\<exists>m1 m2 l1 l2. initSchema False (\<lambda>_. True) [(''extensions'', ''Ingress''), (''networking.k8s.io'', ''Ingress'')] (Inr []) ingressApis = Inr (m1, l1) \<and>
     initSchema False (\<lambda>_. True) [(''networking.k8s.io'', ''Ingress''), (''extensions'', ''Ingress'')] (Inr []) ingressApis = Inr (m2, l2) \<and>
     map_option (gr_Group \<circ> gg_Gvr) (m1 ''ingress'') = Some ''networking.k8s.io'' \<and>
     map_option (gr_Group \<circ> gg_Gvr) (m2 ''ingress'') = Some ''extensions''"
proof -
  have c: "candidates ingressApis = map (\<lambda>g. ggwaOf g ''v1'' \<lparr>ar_Name = ''ingresses'', ar_SingularName = [],
     ar_Kind = ''Ingress'', ar_Namespaced = True, ar_ShortNames = [''ing'']\<rparr>) [''extensions'', ''networking.k8s.io'']"
    by (simp add: candidates_def ingressApis_def neededKinds_Ingress)
  have lower: "toLower ''Ingress'' = ''ingress''" by code_simp
  show ?thesis
    by (simp add: initSchema_def getSupportedSchema_def c List.map_filter_def groupKind_def ggwaOf_def storeAliases_lookup lower)
qed

end
