(* ===== verification/DevPod.thy ===== *)
theory DevPod
  imports Profile
begin

text \<open>
  What \<open>internal/nhctl/controller\<close> does to the pod of a workload that enters dev mode:
  the getters of \<open>config.go\<close>, all of \<open>dev_start.go\<close> that changes or selects something (the
  volumes and mounts, the claims of the persistent directories, the dev container, the
  side-car, the search of the dev pod), and \<open>findDevContainerInPodSpec\<close> of
  \<open>raw_pod_controller.go\<close>.

  A pod spec keeps the fields the code reads or writes; what it copies along is one opaque
  field. \<open>genContainersAndVolumes\<close> works through a pointer into the container slice of the
  pod, so the model updates that element and hands on its index. A quantity of the cluster
  library is its canonical text, and \<open>resource.ParseQuantity\<close> is the parameter \<open>parseQ\<close>. The
  calls to the cluster are the fields of \<open>pvcApi\<close>, over a state of the cluster that every call
  may move; waiting only lets that state move. \<open>IsResourcesLimitTooLow\<close> feeds a log line and
  is left out.
\<close>

definition DefaultWorkDir :: string where "DefaultWorkDir = ''/home/nocalhost-dev''"
definition DefaultDevImage :: string where "DefaultDevImage = ''''"
definition NocalhostDevContainerAnnotations :: string where
  "NocalhostDevContainerAnnotations = ''dev.nocalhost/nocalhost-dev''"
definition NocalhostDefaultDevContainerName :: string where
  "NocalhostDefaultDevContainerName = ''nocalhost-dev''"
definition DefaultNocalhostSideCarName :: string where
  "DefaultNocalhostSideCarName = ''nocalhost-sidecar''"
definition DefaultSideCarImage :: string where
  "DefaultSideCarImage = ''10.155.97.245/k8s/nocalhost-sidecar:syncthing''"
definition SSHSideCarImage :: string where
  "SSHSideCarImage = ''10.155.97.245/k8s/nocalhost-sidecar:sshversion''"
definition DefaultSyncthingHome :: string where "DefaultSyncthingHome = ''/var/syncthing''"
definition DefaultSyncthingSecretHome :: string where
  "DefaultSyncthingSecretHome = ''/var/syncthing/secret''"
definition SecretName :: string where "SecretName = ''nocalhost-syncthing-secret''"
definition EmptyDir :: string where "EmptyDir = ''nocalhost-syncthing''"

text \<open>The octal mode 0755.\<close>

definition DefaultNewFilePermission :: int where "DefaultNewFilePermission = 7 * 64 + 5 * 8 + 5"

subsection \<open>The controller of a workload and its configuration\<close>

record Controller =
  ctl_NameSpace :: string
  ctl_AppName :: string
  ctl_Name :: string
  ctl_Identifier :: string
  ctl_DevModeType :: DevModeType
  ctl_Type :: SvcType
  ctl_config :: ServiceConfigV2
  ctl_DevModeAction :: DevModeAction

definition devConfigOf :: "Controller \<Rightarrow> string \<Rightarrow> ContainerDevConfig option" where
  "devConfigOf c container = GetContainerDevConfigOrDefault (ctl_config c) container"

definition GetWorkDir :: "Controller \<Rightarrow> string \<Rightarrow> string" where
  "GetWorkDir c container =
     (case devConfigOf c container of
        Some d \<Rightarrow> if cd_WorkDir d \<noteq> [] then cd_WorkDir d else DefaultWorkDir
      | None \<Rightarrow> DefaultWorkDir)"

definition GetStorageClass :: "Controller \<Rightarrow> string \<Rightarrow> string" where
  "GetStorageClass c container =
     (case devConfigOf c container of
        Some d \<Rightarrow> if cd_StorageClass d \<noteq> [] then cd_StorageClass d else []
      | None \<Rightarrow> [])"

definition GetDevImage :: "Controller \<Rightarrow> string \<Rightarrow> string" where
  "GetDevImage c container =
     (case devConfigOf c container of
        Some d \<Rightarrow> if cd_Image d \<noteq> [] then cd_Image d else DefaultDevImage
      | None \<Rightarrow> DefaultDevImage)"

definition GetPersistentVolumeDirs :: "Controller \<Rightarrow> string \<Rightarrow> PersistentVolumeDir list" where
  "GetPersistentVolumeDirs c container =
     (case devConfigOf c container of Some d \<Rightarrow> cd_PersistentVolumeDirs d | None \<Rightarrow> [])"

text \<open>The guard of the pull policy looks at the image, as in the source.\<close>

definition GetImagePullPolicy :: "Controller \<Rightarrow> string \<Rightarrow> string" where
  "GetImagePullPolicy c container =
     (case devConfigOf c container of
        Some d \<Rightarrow> if cd_Image d \<noteq> [] then cd_ImagePullPolicy d else ''IfNotPresent''
      | None \<Rightarrow> ''IfNotPresent'')"

text \<open>
  The getters of \<open>dev_start.go\<close> walk the container configurations themselves: an empty
  container name matches every one of them.
\<close>

definition configMatches :: "string \<Rightarrow> ContainerConfig \<Rightarrow> bool" where
  "configMatches container v \<longleftrightarrow> cc_Name v = container \<or> container = []"

fun devEnvMap ::
  "string \<Rightarrow> ContainerConfig list \<Rightarrow> (string \<rightharpoonup> string) \<Rightarrow> (string \<rightharpoonup> string) outcome" where
  "devEnvMap container [] kvMap = Ret kvMap"
| "devEnvMap container (v # vs) kvMap =
     (if configMatches container v then
        (case cc_Dev v of
           None \<Rightarrow> Panic ''nil pointer dereference''
         | Some d \<Rightarrow> devEnvMap container vs (fold (\<lambda>env m. m(env_Name env \<mapsto> env_Value env)) (cd_Env d) kvMap))
      else devEnvMap container vs kvMap)"

text \<open>The second loop ranges over the map; \<open>order\<close> is the order Go visits it in.\<close>

definition GetDevContainerEnv ::
  "((string \<rightharpoonup> string) \<Rightarrow> string list) \<Rightarrow> Controller \<Rightarrow> string \<Rightarrow> Env list outcome" where
  "GetDevContainerEnv order c container =
     (case devEnvMap container (svc_ContainerConfigs (ctl_config c)) Map.empty of
        Panic p \<Rightarrow> Panic p
      | Ret kvMap \<Rightarrow> Ret (map (\<lambda>k. \<lparr>env_Name = k, env_Value = get_str kvMap k\<rparr>) (order kvMap)))"

fun sidecarImageLoop :: "string \<Rightarrow> ContainerConfig list \<Rightarrow> string" where
  "sidecarImageLoop container [] = []"
| "sidecarImageLoop container (v # vs) =
     (if configMatches container v then
        (case cc_Dev v of Some d \<Rightarrow> cd_SidecarImage d | None \<Rightarrow> sidecarImageLoop container vs)
      else sidecarImageLoop container vs)"

definition GetDevSidecarImage :: "Controller \<Rightarrow> string \<Rightarrow> string" where
  "GetDevSidecarImage c container = sidecarImageLoop container (svc_ContainerConfigs (ctl_config c))"

fun containerNameLoop :: "string \<Rightarrow> ContainerConfig list \<Rightarrow> string" where
  "containerNameLoop container [] = NocalhostDefaultDevContainerName"
| "containerNameLoop container (v # vs) =
     (if configMatches container v then
        (case cc_Dev v of
           Some d \<Rightarrow> if cd_DevContainerName d \<noteq> [] then cd_DevContainerName d
                     else containerNameLoop container vs
         | None \<Rightarrow> containerNameLoop container vs)
      else containerNameLoop container vs)"

definition GetDevContainerName :: "Controller \<Rightarrow> string \<Rightarrow> string" where
  "GetDevContainerName c container = containerNameLoop container (svc_ContainerConfigs (ctl_config c))"

fun sidecarLanguageLoop :: "string \<Rightarrow> ContainerConfig list \<Rightarrow> string" where
  "sidecarLanguageLoop container [] = []"
| "sidecarLanguageLoop container (v # vs) =
     (if configMatches container v then
        (case cc_Dev v of
           Some d \<Rightarrow> (case cd_DebugConfig d of
                        Some dbg \<Rightarrow> dbg_Language dbg
                      | None \<Rightarrow> sidecarLanguageLoop container vs)
         | None \<Rightarrow> sidecarLanguageLoop container vs)
      else sidecarLanguageLoop container vs)"

definition GetDevSidecarLanguage :: "Controller \<Rightarrow> string \<Rightarrow> string" where
  "GetDevSidecarLanguage c container = sidecarLanguageLoop container (svc_ContainerConfigs (ctl_config c))"

definition GetSyncThingSecretName :: "Controller \<Rightarrow> string" where
  "GetSyncThingSecretName c =
     (if IsDuplicateDevMode (ctl_DevModeType c)
      then join [ctl_Name c, ctl_Type c, SecretName, ''dup'', ctl_Identifier c] ''-''
      else join [ctl_Name c, ctl_Type c, SecretName] ''-'')"

definition sidecarContainerSSHUsed :: "string \<Rightarrow> string \<Rightarrow> bool" where
  "sidecarContainerSSHUsed DevLanguage DevImage =
     (if DevLanguage \<noteq> [] then DevLanguage = ''php'' else contains DevImage ''php'')"

subsection \<open>Volumes, containers and pods\<close>

record KeyToPath =
  ktp_Key :: string
  ktp_Path :: string
  ktp_Mode :: int

record SecretVolumeSource =
  svs_SecretName :: string
  svs_Items :: "KeyToPath list"
  svs_DefaultMode :: int

record Volume =
  vol_Name :: string
  vol_EmptyDir :: bool
  vol_Secret :: "SecretVolumeSource option"
  vol_Claim :: "string option"
  vol_Other :: string

record VolumeMount =
  vm_Name :: string
  vm_MountPath :: string
  vm_SubPath :: string
  vm_ReadOnly :: bool

record PodEnvVar =
  pe_Name :: string
  pe_Value :: string
  pe_ValueFrom :: "string option"

type_synonym ResourceList = "string \<rightharpoonup> string"

record ResourceRequirements =
  rr_Limits :: "ResourceList option"
  rr_Requests :: "ResourceList option"

record PodContainer =
  pc_Name :: string
  pc_Image :: string
  pc_Command :: "string list"
  pc_Args :: "string list"
  pc_WorkingDir :: string
  pc_Env :: "PodEnvVar list"
  pc_Resources :: ResourceRequirements
  pc_VolumeMounts :: "VolumeMount list"
  pc_LivenessProbe :: "string option"
  pc_ReadinessProbe :: "string option"
  pc_StartupProbe :: "string option"
  pc_ImagePullPolicy :: string
  pc_RunAsUser :: "int option"
  pc_Other :: string

record PodSpec =
  ps_Containers :: "PodContainer list"
  ps_Volumes :: "Volume list"
  ps_Other :: string

definition emptyDirVolume :: "string \<Rightarrow> Volume" where
  "emptyDirVolume n =
     \<lparr>vol_Name = n, vol_EmptyDir = True, vol_Secret = None, vol_Claim = None, vol_Other = []\<rparr>"

definition claimVolume :: "string \<Rightarrow> string \<Rightarrow> Volume" where
  "claimVolume n claim =
     \<lparr>vol_Name = n, vol_EmptyDir = False, vol_Secret = None, vol_Claim = Some claim, vol_Other = []\<rparr>"

definition mountAt :: "string \<Rightarrow> string \<Rightarrow> VolumeMount" where
  "mountAt n path = \<lparr>vm_Name = n, vm_MountPath = path, vm_SubPath = [], vm_ReadOnly = False\<rparr>"

definition generateSyncVolumesAndMounts :: "Controller \<Rightarrow> Volume list \<times> VolumeMount list" where
  "generateSyncVolumesAndMounts c =
     (let item = (\<lambda>f. \<lparr>ktp_Key = f, ktp_Path = f, ktp_Mode = DefaultNewFilePermission\<rparr>);
          secretVol = \<lparr>vol_Name = SecretName, vol_EmptyDir = False,
            vol_Secret = Some \<lparr>svs_SecretName = GetSyncThingSecretName c,
                               svs_Items = map item [''config.xml'', ''cert.pem'', ''key.pem''],
                               svs_DefaultMode = DefaultNewFilePermission\<rparr>,
            vol_Claim = None, vol_Other = []\<rparr>
      in ([emptyDirVolume EmptyDir, secretVol],
          [(mountAt EmptyDir DefaultSyncthingHome)\<lparr>vm_SubPath := ''syncthing''\<rparr>,
           mountAt SecretName DefaultSyncthingSecretHome]))"

subsection \<open>The claims of the persistent directories\<close>

text \<open>A claim: its name, the phase it is in, and its conditions as reason and message.\<close>

record Pvc =
  pvc_Name :: string
  pvc_Phase :: string
  pvc_Conditions :: "(string \<times> string) list"

record 'w pvcApi =
  GetPvcByLabels :: "(string \<rightharpoonup> string) \<Rightarrow> 'w \<Rightarrow> (gerr + Pvc list) \<times> 'w"
  CreatePVC :: "string \<Rightarrow> (string \<rightharpoonup> string) \<Rightarrow> (string \<rightharpoonup> string) \<Rightarrow> string \<Rightarrow> string option \<Rightarrow>
    'w \<Rightarrow> (gerr + Pvc) \<times> 'w"
  GetPvcByName :: "string \<Rightarrow> 'w \<Rightarrow> (gerr + Pvc) \<times> 'w"
  SearchEvents :: "Pvc \<Rightarrow> 'w \<Rightarrow> (gerr + string list) \<times> 'w"
  DeletePVC :: "string \<Rightarrow> 'w \<Rightarrow> gerr option \<times> 'w"
  UnixNano :: "'w \<Rightarrow> int"

text \<open>The loop over the conditions: the last message seen, and whether it stops the wait.\<close>

fun scanConditions :: "(string \<times> string) list \<Rightarrow> string \<Rightarrow> string \<times> bool" where
  "scanConditions [] errorMes = (errorMes, False)"
| "scanConditions ((reason, message) # cs) errorMes =
     (if reason = ''ProvisioningFailed'' then (message, False)
      else if reason = ''WaitForFirstConsumer'' then (message, True)
      else scanConditions cs message)"

text \<open>
  The rounds of the wait. The variable \<open>pvc\<close> is overwritten by every read, and a failed read
  leaves nil in it, which the next round dereferences.
\<close>

fun waitPvc ::
  "'w pvcApi \<Rightarrow> nat \<Rightarrow> Pvc option \<Rightarrow> string \<Rightarrow> 'w \<Rightarrow> (Pvc + Pvc option \<times> string) outcome \<times> 'w" where
  "waitPvc api 0 pvc errorMes w = (Ret (Inr (pvc, errorMes)), w)"
| "waitPvc api (Suc i) None errorMes w = (Panic ''nil pointer dereference'', w)"
| "waitPvc api (Suc i) (Some pvc) errorMes w =
     (case GetPvcByName api (pvc_Name pvc) w of
        (Inl err, w1) \<Rightarrow> waitPvc api i None errorMes w1
      | (Inr p, w1) \<Rightarrow>
          if pvc_Phase p = ''Bound'' then (Ret (Inl p), w1)
          else case scanConditions (pvc_Conditions p) errorMes of (mes, waits) \<Rightarrow>
            if waits then (Ret (Inl p), w1)
            else case SearchEvents api p w1 of
                (Inl err, w2) \<Rightarrow> waitPvc api i (Some p) mes w2
              | (Inr reasons, w2) \<Rightarrow>
                  if ''WaitForFirstConsumer'' \<in> set reasons then (Ret (Inl p), w2)
                  else waitPvc api i (Some p) mes w2)"

definition PersistentVolumeDirLabel :: string where
  "PersistentVolumeDirLabel = ''nocalhost.dev/dir''"
definition ServiceLabel :: string where "ServiceLabel = ''nocalhost.dev/service''"
definition ServiceTypeLabel :: string where "ServiceTypeLabel = ''nocalhost.dev/service-type''"
definition AppLabel :: string where "AppLabel = ''nocalhost.dev/app''"

definition createPvcForPersistentVolumeDir ::
  "'w pvcApi \<Rightarrow> Controller \<Rightarrow> PersistentVolumeDir \<Rightarrow> (string \<rightharpoonup> string) \<Rightarrow> string \<Rightarrow> 'w \<Rightarrow>
     (gerr + Pvc) outcome \<times> 'w" where
  "createPvcForPersistentVolumeDir api c pvd labels storageClass w =
     (let pvcName = ctl_AppName c @ ''-'' @ itoa (UnixNano api w);
          annotations = [PersistentVolumeDirLabel \<mapsto> pvd_Path pvd];
          capacity = (if pvd_Capacity pvd = [] then ''10Gi'' else pvd_Capacity pvd);
          class = (if storageClass = [] then None else Some storageClass)
      in case CreatePVC api pvcName labels annotations capacity class w of
           (Inl err, w1) \<Rightarrow> (Ret (Inl err), w1)
         | (Inr pvc, w1) \<Rightarrow>
             if pvd_WaitForFirstConsumer pvd then (Ret (Inr pvc), w1)
             else case waitPvc api 30 (Some pvc) [] w1 of
                 (Panic p, w2) \<Rightarrow> (Panic p, w2)
               | (Ret (Inl p), w2) \<Rightarrow> (Ret (Inr p), w2)
               | (Ret (Inr (None, mes)), w2) \<Rightarrow> (Panic ''nil pointer dereference'', w2)
               | (Ret (Inr (Some p, mes)), w2) \<Rightarrow>
                   (case DeletePVC api (pvc_Name p) w2 of
                      (Some err, w3) \<Rightarrow> (Ret (Inl err), w3)
                    | (None, w3) \<Rightarrow> (Ret (Inl (''Failed to create pvc for '' @ pvd_Path pvd)), w3)))"

subsection \<open>The work directory and the persistent directories\<close>

definition IdentifierKey :: string where "IdentifierKey = ''identifier''"
definition OriginWorkloadNameKey :: string where "OriginWorkloadNameKey = ''origin-workload-name''"
definition OriginWorkloadTypeKey :: string where "OriginWorkloadTypeKey = ''origin-workload-type''"

definition getDuplicateLabelsMap :: "Controller \<Rightarrow> (string \<rightharpoonup> string)" where
  "getDuplicateLabelsMap c =
     [IdentifierKey \<mapsto> ctl_Identifier c, OriginWorkloadNameKey \<mapsto> ctl_Name c,
      OriginWorkloadTypeKey \<mapsto> ctl_Type c, DevWorkloadIgnored \<mapsto> ''true'']"

text \<open>The labels of the claim of a directory; \<open>sha\<close> is \<open>utils.Sha1ToString\<close>.\<close>

definition pvcLabels :: "(string \<Rightarrow> string) \<Rightarrow> Controller \<Rightarrow> bool \<Rightarrow> string \<Rightarrow> (string \<rightharpoonup> string)" where
  "pvcLabels sha c duplicateDevMode path =
     (let labels = (if duplicateDevMode
                    then (getDuplicateLabelsMap c)(DevWorkloadIgnored \<mapsto> ''false'') else Map.empty)
      in labels(AppLabel \<mapsto> ctl_AppName c, ServiceLabel \<mapsto> ctl_Name c, ServiceTypeLabel \<mapsto> ctl_Type c,
                PersistentVolumeDirLabel \<mapsto> sha path))"

text \<open>The variables of the loop over the persistent directories.\<close>

record workDirState =
  wd_volumes :: "Volume list"
  wd_mounts :: "VolumeMount list"
  wd_workDirVol :: Volume
  wd_defined :: bool
  wd_reside :: bool
  wd_storageClass :: string

text \<open>The name of the claim for a directory: \<open>None\<close> when the directory is skipped.\<close>

definition claimFor ::
  "(string \<Rightarrow> string) \<Rightarrow> 'w pvcApi \<Rightarrow> Controller \<Rightarrow> string \<Rightarrow> bool \<Rightarrow> PersistentVolumeDir \<Rightarrow> string \<Rightarrow> 'w \<Rightarrow>
     (gerr + string option \<times> string) outcome \<times> 'w" where
  "claimFor sha api c container duplicateDevMode pvd storageClass w =
     (let labels = pvcLabels sha c duplicateDevMode (pvd_Path pvd)
      in case GetPvcByLabels api labels w of
           (Inl err, w1) \<Rightarrow> (Ret (Inr (None, storageClass)), w1)
         | (Inr claims, w1) \<Rightarrow>
             if length claims > 1 then (Ret (Inr (None, storageClass)), w1)
             else if length claims = 1 then (Ret (Inr (Some (pvc_Name (claims ! 0)), storageClass)), w1)
             else let class = (if GetStorageClass c container \<noteq> [] then GetStorageClass c container
                               else storageClass)
                  in case createPvcForPersistentVolumeDir api c pvd labels class w1 of
                       (Panic p, w2) \<Rightarrow> (Panic p, w2)
                     | (Ret (Inl err), w2) \<Rightarrow>
                         (Ret (Inl (wrap (''Failed to create pvc for '' @ pvd_Path pvd) ''create PVC failed'')), w2)
                     | (Ret (Inr pvc), w2) \<Rightarrow> (Ret (Inr (Some (pvc_Name pvc), class)), w2))"

definition workDirVolName :: string where "workDirVolName = ''nocalhost-shared-volume''"

definition persistVolName :: "nat \<Rightarrow> string" where
  "persistVolName i = ''persist-volume-'' @ natDec i"

text \<open>What the loop does with a directory once its claim is known.\<close>

definition mountDir :: "string \<Rightarrow> nat \<Rightarrow> string \<Rightarrow> string \<Rightarrow> workDirState \<Rightarrow> workDirState" where
  "mountDir workDir i path claimName st =
     (if path = workDir then
        st\<lparr>wd_defined := True, wd_workDirVol := (wd_workDirVol st)\<lparr>vol_EmptyDir := False, vol_Claim := Some claimName\<rparr>\<rparr>
      else
        st\<lparr>wd_reside := (wd_reside st \<or> (hasPrefix workDir path \<and> \<not> wd_defined st)),
           wd_volumes := wd_volumes st @ [claimVolume (persistVolName i) claimName],
           wd_mounts := wd_mounts st @ [mountAt (persistVolName i) path]\<rparr>)"

fun persistLoop ::
  "(string \<Rightarrow> string) \<Rightarrow> 'w pvcApi \<Rightarrow> Controller \<Rightarrow> string \<Rightarrow> bool \<Rightarrow> nat \<Rightarrow> PersistentVolumeDir list \<Rightarrow>
     workDirState \<Rightarrow> 'w \<Rightarrow> (gerr + workDirState) outcome \<times> 'w" where
  "persistLoop sha api c container dup i [] st w = (Ret (Inr st), w)"
| "persistLoop sha api c container dup i (pvd # pvds) st w =
     (if pvd_Path pvd = [] then persistLoop sha api c container dup (Suc i) pvds st w
      else case claimFor sha api c container dup pvd (wd_storageClass st) w of
          (Panic p, w1) \<Rightarrow> (Panic p, w1)
        | (Ret (Inl err), w1) \<Rightarrow> (Ret (Inl err), w1)
        | (Ret (Inr (None, class)), w1) \<Rightarrow>
            persistLoop sha api c container dup (Suc i) pvds (st\<lparr>wd_storageClass := class\<rparr>) w1
        | (Ret (Inr (Some claimName, class)), w1) \<Rightarrow>
            persistLoop sha api c container dup (Suc i) pvds
              (mountDir (GetWorkDir c container) i (pvd_Path pvd) claimName (st\<lparr>wd_storageClass := class\<rparr>)) w1)"

definition initialWorkDir :: "string \<Rightarrow> workDirState" where
  "initialWorkDir storageClass =
     \<lparr>wd_volumes = [], wd_mounts = [], wd_workDirVol = emptyDirVolume workDirVolName,
      wd_defined = False, wd_reside = False, wd_storageClass = storageClass\<rparr>"

definition finishWorkDir :: "string \<Rightarrow> bool \<Rightarrow> workDirState \<Rightarrow> Volume list \<times> VolumeMount list" where
  "finishWorkDir workDir ignoreWorkDir st =
     (if (wd_defined st \<or> \<not> wd_reside st) \<and> \<not> ignoreWorkDir
      then (wd_volumes st @ [wd_workDirVol st], wd_mounts st @ [mountAt (vol_Name (wd_workDirVol st)) workDir])
      else (wd_volumes st, wd_mounts st))"

definition genWorkDirAndPVAndMounts ::
  "(string \<Rightarrow> string) \<Rightarrow> 'w pvcApi \<Rightarrow> Controller \<Rightarrow> string \<Rightarrow> string \<Rightarrow> bool \<Rightarrow> bool \<Rightarrow> 'w \<Rightarrow>
     (gerr + Volume list \<times> VolumeMount list) outcome \<times> 'w" where
  "genWorkDirAndPVAndMounts sha api c container storageClass ignoreWorkDir duplicateDevMode w =
     (case persistLoop sha api c container duplicateDevMode 0 (GetPersistentVolumeDirs c container)
             (initialWorkDir storageClass) w of
        (Panic p, w1) \<Rightarrow> (Panic p, w1)
      | (Ret (Inl err), w1) \<Rightarrow> (Ret (Inl err), w1)
      | (Ret (Inr st), w1) \<Rightarrow> (Ret (Inr (finishWorkDir (GetWorkDir c container) ignoreWorkDir st)), w1))"

subsection \<open>Resources\<close>

definition convertToResourceList ::
  "(string \<Rightarrow> gerr + string) \<Rightarrow> string \<Rightarrow> string \<Rightarrow> gerr + ResourceList" where
  "convertToResourceList parseQ cpu mem =
     (case (if mem \<noteq> [] then
              (case parseQ mem of Inl err \<Rightarrow> Inl (wrap [] err) | Inr q \<Rightarrow> Inr [''memory'' \<mapsto> q])
            else Inr Map.empty) of
        Inl err \<Rightarrow> Inl err
      | Inr m \<Rightarrow>
          if cpu \<noteq> [] then
            (case parseQ cpu of Inl err \<Rightarrow> Inl (wrap [] err) | Inr q \<Rightarrow> Inr (m(''cpu'' \<mapsto> q)))
          else Inr m)"

text \<open>The length of a Go map that may be nil is 0.\<close>

definition emptyList :: "ResourceList option \<Rightarrow> bool" where
  "emptyList r = (case r of None \<Rightarrow> True | Some m \<Rightarrow> m ''memory'' = None \<and> m ''cpu'' = None)"

definition convertResourceQuota ::
  "(string \<Rightarrow> gerr + string) \<Rightarrow> ResourceQuota \<Rightarrow> gerr + ResourceRequirements" where
  "convertResourceQuota parseQ quota =
     (let conv = (\<lambda>q. case q of
            None \<Rightarrow> Inr None
          | Some l \<Rightarrow> (case convertToResourceList parseQ (ql_Cpu l) (ql_Memory l) of
                         Inl err \<Rightarrow> Inl err
                       | Inr m \<Rightarrow> Inr (Some m)))
      in case conv (rq_Requests quota) of
           Inl err \<Rightarrow> Inl err
         | Inr requests \<Rightarrow>
             (case conv (rq_Limits quota) of
                Inl err \<Rightarrow> Inl err
              | Inr limits \<Rightarrow>
                  if emptyList limits \<and> emptyList requests then Inl ''Resource requirements not defined''
                  else Inr \<lparr>rr_Limits = limits, rr_Requests = requests\<rparr>))"

definition genResourceReq ::
  "(string \<Rightarrow> gerr + string) \<Rightarrow> Controller \<Rightarrow> string \<Rightarrow> ResourceRequirements option" where
  "genResourceReq parseQ c container =
     (case devConfigOf c container of
        None \<Rightarrow> None
      | Some d \<Rightarrow>
          (case cd_DevContainerResources d of
             None \<Rightarrow> None
           | Some quota \<Rightarrow> (case convertResourceQuota parseQ quota of Inl _ \<Rightarrow> None | Inr r \<Rightarrow> Some r)))"

subsection \<open>The dev container and its side-car\<close>

definition noResources :: ResourceRequirements where
  "noResources = \<lparr>rr_Limits = None, rr_Requests = None\<rparr>"

definition generateSideCarContainer :: "string \<Rightarrow> string \<Rightarrow> bool \<Rightarrow> PodContainer" where
  "generateSideCarContainer sidecarImage workDir sshUsed =
     (let img = (if sidecarImage = [] then if sshUsed then SSHSideCarImage else DefaultSideCarImage
                 else sidecarImage);
          run = ''unset STGUIADDRESS && cp '' @ DefaultSyncthingSecretHome @ ''/* '' @ DefaultSyncthingHome @
                ''/ && /bin/entrypoint.sh && /bin/syncthing -home /var/syncthing''
      in \<lparr>pc_Name = ''nocalhost-sidecar'', pc_Image = img, pc_Command = [''/bin/sh'', ''-c''],
          pc_Args = [if sshUsed then ''rc-service sshd restart && '' @ run else run],
          pc_WorkingDir = workDir, pc_Env = [], pc_Resources = noResources, pc_VolumeMounts = [],
          pc_LivenessProbe = None, pc_ReadinessProbe = None, pc_StartupProbe = None,
          pc_ImagePullPolicy = [], pc_RunAsUser = (if sshUsed then Some 0 else None), pc_Other = []\<rparr>)"

text \<open>The pointer into the container slice, as an index.\<close>

definition findDevContainerInPodSpec :: "PodSpec \<Rightarrow> string \<Rightarrow> gerr + nat" where
  "findDevContainerInPodSpec spec containerName =
     (if containerName \<noteq> [] then
        (case findIndex (\<lambda>c. pc_Name c = containerName) (ps_Containers spec) of
           Some i \<Rightarrow> Inr i
         | None \<Rightarrow> Inl (''Container '' @ containerName @ '' not found''))
      else if length (ps_Containers spec) > 1 then
        Inl ''There are more than one container defined,please specify one to start developing''
      else if ps_Containers spec = [] then Inl ''No container defined ???''
      else Inr 0)"

text \<open>The last mount of the container at the work directory.\<close>

definition workDirMount :: "string \<Rightarrow> VolumeMount list \<Rightarrow> VolumeMount option" where
  "workDirMount workDir ms = find (\<lambda>m. vm_MountPath m = workDir) (rev ms)"

definition sidecarQuota :: ResourceQuota where
  "sidecarQuota = \<lparr>rq_Limits = Some \<lparr>ql_Memory = ''1Gi'', ql_Cpu = ''1''\<rparr>,
                   rq_Requests = Some \<lparr>ql_Memory = ''50Mi'', ql_Cpu = ''100m''\<rparr>\<rparr>"

definition genDevContainer ::
  "(string \<Rightarrow> gerr + string) \<Rightarrow> Controller \<Rightarrow> string \<Rightarrow> string \<Rightarrow> Env list \<Rightarrow> VolumeMount list \<Rightarrow>
     PodContainer \<Rightarrow> PodContainer" where
  "genDevContainer parseQ c containerName img devEnv mounts d =
     d\<lparr>pc_Image := img, pc_Name := GetDevContainerName c containerName,
       pc_Command := [''/bin/sh'', ''-c'', ''tail -f /dev/null''],
       pc_WorkingDir := GetWorkDir c containerName,
       pc_ImagePullPolicy := GetImagePullPolicy c containerName,
       pc_Env := pc_Env d @ map (\<lambda>v. \<lparr>pe_Name = env_Name v, pe_Value = env_Value v, pe_ValueFrom = None\<rparr>) devEnv,
       pc_VolumeMounts := pc_VolumeMounts d @ mounts,
       pc_Resources := (case genResourceReq parseQ c containerName of Some r \<Rightarrow> r | None \<Rightarrow> pc_Resources d)\<rparr>"

text \<open>
  The result: the pod spec with the container changed in place, its index, the side-car and
  the volumes to add.
\<close>

definition genContainersAndVolumes ::
  "((string \<rightharpoonup> string) \<Rightarrow> string list) \<Rightarrow> (string \<Rightarrow> string) \<Rightarrow> (string \<Rightarrow> gerr + string) \<Rightarrow> 'w pvcApi \<Rightarrow>
     Controller \<Rightarrow> PodSpec \<Rightarrow> string \<Rightarrow> string \<Rightarrow> string \<Rightarrow> bool \<Rightarrow> 'w \<Rightarrow>
     (gerr + PodSpec \<times> nat \<times> PodContainer \<times> Volume list) outcome \<times> 'w" where
  "genContainersAndVolumes order sha parseQ api c spec containerName devImage storageClass dup w =
     (case findDevContainerInPodSpec spec containerName of
        Inl err \<Rightarrow> (Ret (Inl err), w)
      | Inr i \<Rightarrow>
          let d = ps_Containers spec ! i;
              workDir = GetWorkDir c containerName;
              already = workDirMount workDir (pc_VolumeMounts d)
          in case generateSyncVolumesAndMounts c of (syncVols, syncMounts) \<Rightarrow>
             (case genWorkDirAndPVAndMounts sha api c containerName storageClass (already \<noteq> None) dup w of
                (Panic p, w1) \<Rightarrow> (Panic p, w1)
              | (Ret (Inl err), w1) \<Rightarrow> (Ret (Inl err), w1)
              | (Ret (Inr (vols, mounts)), w1) \<Rightarrow>
                  let img = (if devImage = [] then GetDevImage c containerName else devImage);
                      devModeMounts = syncMounts @ mounts;
                      sidecar = generateSideCarContainer (GetDevSidecarImage c containerName) workDir
                        (sidecarContainerSSHUsed (GetDevSidecarLanguage c containerName) img)
                  in case GetDevContainerEnv order c containerName of
                       Panic p \<Rightarrow> (Panic p, w1)
                     | Ret devEnv \<Rightarrow>
                         (case convertResourceQuota parseQ sidecarQuota of
                            Inl _ \<Rightarrow> (Panic ''nil pointer dereference'', w1)
                          | Inr rq \<Rightarrow>
                              (Ret (Inr
                                 (spec\<lparr>ps_Containers := (ps_Containers spec)
                                    [i := genDevContainer parseQ c containerName img devEnv devModeMounts d]\<rparr>,
                                  i,
                                  sidecar\<lparr>pc_ImagePullPolicy := GetImagePullPolicy c containerName,
                                    pc_VolumeMounts := devModeMounts @
                                      (case already of Some m \<Rightarrow> [m] | None \<Rightarrow> []),
                                    pc_Resources := rq\<rparr>,
                                  syncVols @ vols)), w1))))"

definition clearProbes :: "PodContainer \<Rightarrow> PodContainer" where
  "clearProbes d = d\<lparr>pc_LivenessProbe := None, pc_ReadinessProbe := None, pc_StartupProbe := None\<rparr>"

text \<open>
  The dev container is the element \<open>i\<close> of the same slice. It is stored under the first
  container that still has the name asked for, if any.
\<close>

definition patchDevContainerToPodSpec ::
  "PodSpec \<Rightarrow> string \<Rightarrow> nat \<Rightarrow> PodContainer \<Rightarrow> Volume list \<Rightarrow> PodSpec" where
  "patchDevContainerToPodSpec spec containerName i sidecar devModeVolumes =
     (let cs = ps_Containers spec;
          cs1 = (if containerName \<noteq> [] then
                   (case findIndex (\<lambda>c. pc_Name c = containerName) cs of
                      Some j \<Rightarrow> cs[j := cs ! i]
                    | None \<Rightarrow> cs)
                 else cs[0 := cs ! i])
      in spec\<lparr>ps_Volumes := ps_Volumes spec @ devModeVolumes,
              ps_Containers := map clearProbes cs1 @ [sidecar]\<rparr>)"

end
