(* ===== verification/DevMode.thy ===== *)
theory DevMode
  imports DevPod AppMeta
begin

text \<open>
  Entering and leaving dev mode, \<open>internal/nhctl/controller\<close>: the states of a workload
  (\<open>service.go\<close>), the search of the dev pod (\<open>dev_start.go\<close>), the controllers of pods that no
  other object owns (\<open>raw_pod_controller.go\<close>, \<open>duplicate_raw_pod_controller.go\<close>), paths into an
  object (\<open>unstructured.go\<close>) and the end of dev mode (\<open>dev_end.go\<close>).

  The cluster is the record \<open>podApi\<close>; the JSON form of a pod and the decoding into an existing
  pod are fields of it too. \<open>waitDevPodToBeReady\<close> changes nothing when it returns and is left
  out, as are the sleeps. The controllers of the other workload types go through the generic
  patch and JSON libraries; here they are the argument \<open>defaultRollBack\<close> of \<open>DevEnd\<close>.
\<close>

subsection \<open>Pods\<close>

record ContainerStatus =
  cst_Name :: string
  cst_Ready :: bool
  cst_Running :: bool
  cst_Terminated :: bool
  cst_Waiting :: "(string \<times> string) option"

text \<open>A condition of a pod: its status, reason and message.\<close>

record PodCondition =
  pcd_Status :: string
  pcd_Reason :: string
  pcd_Message :: string

record PodStatus =
  pst_Phase :: string
  pst_Conditions :: "PodCondition list"
  pst_ContainerStatuses :: "ContainerStatus list"

text \<open>A nil map of labels or annotations reads and ranges like an empty one.\<close>

record KPod =
  pod_Kind :: string
  pod_Name :: string
  pod_Labels :: "string \<rightharpoonup> string"
  pod_Annotations :: "string \<rightharpoonup> string"
  pod_OwnerReferences :: "string list"
  pod_ResourceVersion :: string
  pod_Deleting :: bool
  pod_Spec :: PodSpec
  pod_Status :: PodStatus
  pod_Other :: string

definition emptyStatus :: PodStatus where
  "emptyStatus = \<lparr>pst_Phase = [], pst_Conditions = [], pst_ContainerStatuses = []\<rparr>"

definition OriginWorkloadDefinition :: string where
  "OriginWorkloadDefinition = ''dev.nocalhost/origin-workload-definition''"

text \<open>
  \<open>strconv.Atoi\<close> with its error dropped: 0 for a text that is no number, the nearest bound for
  a number that does not fit.
\<close>

definition clampInt :: "int \<Rightarrow> int" where
  "clampInt i = (if i < - (2 ^ 63) then - (2 ^ 63) else if i \<ge> 2 ^ 63 then 2 ^ 63 - 1 else i)"

definition atoiValue :: "string \<Rightarrow> int" where
  "atoiValue s =
     (case s of
        [] \<Rightarrow> 0
      | c # cs \<Rightarrow>
          (case (if c = CHR ''-'' then map_option (\<lambda>n. - int n) (readDec cs)
                 else if c = CHR ''+'' then map_option int (readDec cs)
                 else map_option int (readDec (c # cs))) of
             None \<Rightarrow> 0
           | Some i \<Rightarrow> clampInt i))"

subsection \<open>The dev pod among the pods of a workload\<close>

text \<open>A pod is listed once for each of its containers that is called like the side-car.\<close>

definition sidecarPods :: "KPod list \<Rightarrow> KPod list" where
  "sidecarPods pods =
     concat (map (\<lambda>pod. if pod_Deleting pod then []
        else map (\<lambda>_. pod) (filter (\<lambda>d. pc_Name d = DefaultNocalhostSideCarName) (ps_Containers (pod_Spec pod))))
       pods)"

definition latestPod :: "KPod \<Rightarrow> KPod list \<Rightarrow> KPod" where
  "latestPod first rest =
     fold (\<lambda>p latest. if atoiValue (pod_ResourceVersion p) > atoiValue (pod_ResourceVersion latest)
                      then p else latest) rest first"

definition devContainerNameOf :: "KPod \<Rightarrow> string" where
  "devContainerNameOf pod =
     (case pod_Annotations pod NocalhostDevContainerAnnotations of
        Some n \<Rightarrow> n
      | None \<Rightarrow> NocalhostDefaultDevContainerName)"

definition isDevStatus :: "KPod \<Rightarrow> ContainerStatus \<Rightarrow> bool" where
  "isDevStatus pod st \<longleftrightarrow> cst_Name st = devContainerNameOf pod \<or> cst_Name st = DefaultNocalhostSideCarName"

definition findDevPodName :: "KPod list \<Rightarrow> gerr + string" where
  "findDevPodName podList =
     (case sidecarPods podList of
        [] \<Rightarrow> Inl ''dev container not found''
      | p # ps \<Rightarrow>
          let latest = latestPod p ps
          in if length (filter (\<lambda>st. isDevStatus latest st \<and> cst_Ready st)
                  (pst_ContainerStatuses (pod_Status latest))) = 2
             then Inr (pod_Name latest)
             else Inl ''dev container has not be ready'')"

definition conditionLine :: "PodCondition \<Rightarrow> string" where
  "conditionLine d =
     (if pcd_Status d \<noteq> ''True''
      then CHR 0x0A # '' * Condition: '' @ pcd_Reason d @ '', '' @ pcd_Message d else [])"

definition statusLine :: "KPod \<Rightarrow> ContainerStatus \<Rightarrow> string" where
  "statusLine pod st =
     (if isDevStatus pod st then
        CHR 0x0A # '' >> Container: '' @ cst_Name st @
        (if cst_Running st then '' is Running''
         else if cst_Terminated st then '' is Terminated''
         else case cst_Waiting st of
             None \<Rightarrow> []
           | Some (reason, message) \<Rightarrow>
               '' is Waiting, Reason: '' @ reason @ (if message \<noteq> [] then '' Msg: '' @ message else []))
      else [])"

text \<open>Whether the pod is a dev pod, and the message handed to \<open>consumeFun\<close>, if any.\<close>

definition containerStatusForDevPod :: "KPod \<Rightarrow> bool \<times> string option" where
  "containerStatusForDevPod pod =
     (if pod_Deleting pod then (False, None)
      else if length (filter (\<lambda>d. pc_Name d = devContainerNameOf pod \<or> pc_Name d = DefaultNocalhostSideCarName)
                (ps_Containers (pod_Spec pod))) < 2 then (False, None)
      else let head = ''Pod '' @ pod_Name pod @ '' now '' @ pst_Phase (pod_Status pod);
               conditionMsg = concat (map conditionLine (pst_Conditions (pod_Status pod)));
               msg = concat (map (statusLine pod) (pst_ContainerStatuses (pod_Status pod)))
           in (True, if msg \<noteq> [] \<or> conditionMsg \<noteq> []
                     then Some (head @ conditionMsg @ msg @ [CHR 0x0A]) else None))"

subsection \<open>The mode of a workload\<close>

definition IsInReplaceDevMode :: "Controller \<Rightarrow> ApplicationMeta \<Rightarrow> bool \<times> ApplicationMeta" where
  "IsInReplaceDevMode c a =
     (case CheckIfSvcDeveloping a (ctl_Name c) (ctl_Identifier c) (ctl_Type c) ReplaceDevMode of
        (s, a1) \<Rightarrow> (s \<noteq> NONE, a1))"

definition IsInDuplicateDevMode :: "Controller \<Rightarrow> ApplicationMeta \<Rightarrow> bool \<times> ApplicationMeta" where
  "IsInDuplicateDevMode c a =
     (case CheckIfSvcDeveloping a (ctl_Name c) (ctl_Identifier c) (ctl_Type c) DuplicateDevMode of
        (s, a1) \<Rightarrow> (s \<noteq> NONE, a1))"

definition IsInReplaceDevModeStarting :: "Controller \<Rightarrow> ApplicationMeta \<Rightarrow> bool \<times> ApplicationMeta" where
  "IsInReplaceDevModeStarting c a =
     (case CheckIfSvcDeveloping a (ctl_Name c) (ctl_Identifier c) (ctl_Type c) ReplaceDevMode of
        (s, a1) \<Rightarrow> (s = STARTING, a1))"

definition IsInDuplicateDevModeStarting :: "Controller \<Rightarrow> ApplicationMeta \<Rightarrow> bool \<times> ApplicationMeta" where
  "IsInDuplicateDevModeStarting c a =
     (case CheckIfSvcDeveloping a (ctl_Name c) (ctl_Identifier c) (ctl_Type c) DuplicateDevMode of
        (s, a1) \<Rightarrow> (s = STARTING, a1))"

text \<open>The disjunctions of Go stop at the first true part.\<close>

definition orElse ::
  "(ApplicationMeta \<Rightarrow> bool \<times> ApplicationMeta) \<Rightarrow> (ApplicationMeta \<Rightarrow> bool \<times> ApplicationMeta) \<Rightarrow>
     ApplicationMeta \<Rightarrow> bool \<times> ApplicationMeta" where
  "orElse f g a = (case f a of (b, a1) \<Rightarrow> if b then (True, a1) else g a1)"

definition IsInDevMode :: "Controller \<Rightarrow> ApplicationMeta \<Rightarrow> bool \<times> ApplicationMeta" where
  "IsInDevMode c = orElse (IsInDuplicateDevMode c) (IsInReplaceDevMode c)"

definition IsInDevModeStarting :: "Controller \<Rightarrow> ApplicationMeta \<Rightarrow> bool \<times> ApplicationMeta" where
  "IsInDevModeStarting c = orElse (IsInDuplicateDevModeStarting c) (IsInReplaceDevModeStarting c)"

definition IsProcessor :: "Controller \<Rightarrow> ApplicationMeta \<Rightarrow> bool \<times> ApplicationMeta" where
  "IsProcessor c =
     orElse (\<lambda>a. SvcDevModePossessor a (ctl_Name c) (ctl_Type c) (ctl_Identifier c) DuplicateDevMode)
            (\<lambda>a. SvcDevModePossessor a (ctl_Name c) (ctl_Type c) (ctl_Identifier c) ReplaceDevMode)"

text \<open>
  The constructor of a controller. The types that can be developed come from
  \<open>GetDevModeActionBySvcType\<close>; for another type the action stays zero.
\<close>

definition NewController ::
  "(SvcType \<rightharpoonup> DevModeAction) \<Rightarrow> string \<Rightarrow> string \<Rightarrow> string \<Rightarrow> string \<Rightarrow> SvcType \<Rightarrow>
     ApplicationMeta \<Rightarrow> Controller outcome" where
  "NewController supported ns name appName identifier svcType a =
     (case am_Config a of
        None \<Rightarrow> Panic ''nil pointer dereference''
      | Some cfg \<Rightarrow>
          Ret \<lparr>ctl_NameSpace = ns, ctl_AppName = appName, ctl_Name = name, ctl_Identifier = identifier,
               ctl_DevModeType = GetCurrentDevModeTypeOfWorkload a name svcType identifier, ctl_Type = svcType,
               ctl_config = GetSvcConfigS cfg name svcType,
               ctl_DevModeAction =
                 (case GetDevModeActionBySvcType supported svcType of
                    Inr da \<Rightarrow> da
                  | Inl _ \<Rightarrow> \<lparr>ScalePatches = [], PodTemplatePath = [], Create = False\<rparr>)\<rparr>)"

subsection \<open>Pods without an owner\<close>

record 'w podApi =
  pvcs :: "'w pvcApi"
  GetPod :: "string \<Rightarrow> 'w \<Rightarrow> (gerr + KPod) \<times> 'w"
  DeletePodByName :: "string \<Rightarrow> 'w \<Rightarrow> gerr option \<times> 'w"
  DeletePod :: "string \<Rightarrow> 'w \<Rightarrow> gerr option \<times> 'w"
  CreatePod :: "KPod \<Rightarrow> 'w \<Rightarrow> gerr option \<times> 'w"
  PatchResource :: "string \<Rightarrow> string \<Rightarrow> string \<Rightarrow> string \<Rightarrow> 'w \<Rightarrow> gerr option \<times> 'w"
  ListPods :: "(string \<rightharpoonup> string) \<Rightarrow> 'w \<Rightarrow> (gerr + KPod list) \<times> 'w"
  ShortUuid :: "'w \<Rightarrow> string \<times> 'w"
  MarshalPod :: "KPod \<Rightarrow> gerr + string"
  UnmarshalPod :: "string \<Rightarrow> gerr + KPod"
  UnmarshalPodInto :: "string \<Rightarrow> KPod \<Rightarrow> gerr + KPod"

record DevStartOptions =
  ops_Container :: string
  ops_DevImage :: string
  ops_StorageClass :: string

text \<open>The libraries \<open>genContainersAndVolumes\<close> takes: the order of a map, the hash, the quantities.\<close>

record podLibs =
  lib_order :: "(string \<rightharpoonup> string) \<Rightarrow> string list"
  lib_sha :: "string \<Rightarrow> string"
  lib_quantity :: "string \<Rightarrow> gerr + string"

fun applyPatches :: "'w podApi \<Rightarrow> string \<Rightarrow> string \<Rightarrow> PatchItem list \<Rightarrow> 'w \<Rightarrow> 'w" where
  "applyPatches api resourceType resourceName [] w = w"
| "applyPatches api resourceType resourceName (p # ps) w =
     applyPatches api resourceType resourceName ps
       (snd (PatchResource api resourceType resourceName (pi_Patch p) (pi_Type p) w))"

text \<open>Without a development configuration the field is read through nil.\<close>

definition patchAfterDevContainerReplaced ::
  "'w podApi \<Rightarrow> Controller \<Rightarrow> string \<Rightarrow> string \<Rightarrow> string \<Rightarrow> 'w \<Rightarrow> unit outcome \<times> 'w" where
  "patchAfterDevContainerReplaced api c containerName resourceType resourceName w =
     (case devConfigOf c containerName of
        None \<Rightarrow> (Panic ''nil pointer dereference'', w)
      | Some d \<Rightarrow> (Ret (), applyPatches api resourceType resourceName (cd_Patches d) w))"

definition genDevSpec ::
  "podLibs \<Rightarrow> 'w podApi \<Rightarrow> Controller \<Rightarrow> PodSpec \<Rightarrow> DevStartOptions \<Rightarrow> bool \<Rightarrow> 'w \<Rightarrow>
     (gerr + PodSpec) outcome \<times> 'w" where
  "genDevSpec libs api c spec ops dup w =
     (case genContainersAndVolumes (lib_order libs) (lib_sha libs) (lib_quantity libs) (pvcs api) c spec
             (ops_Container ops) (ops_DevImage ops) (ops_StorageClass ops) dup w of
        (Panic p, w1) \<Rightarrow> (Panic p, w1)
      | (Ret (Inl err), w1) \<Rightarrow> (Ret (Inl err), w1)
      | (Ret (Inr (spec1, i, sidecar, vols)), w1) \<Rightarrow>
          (Ret (Inr (patchDevContainerToPodSpec spec1 (ops_Container ops) i sidecar vols)), w1))"

text \<open>The end of both \<open>ReplaceImage\<close>: create the pod, then apply the patches of the configuration.\<close>

definition createAndPatch ::
  "'w podApi \<Rightarrow> Controller \<Rightarrow> string \<Rightarrow> KPod \<Rightarrow> 'w \<Rightarrow> gerr option outcome \<times> 'w" where
  "createAndPatch api c container pod w =
     (case CreatePod api pod w of
        (Some err, w1) \<Rightarrow> (Ret (Some err), w1)
      | (None, w1) \<Rightarrow>
          (case patchAfterDevContainerReplaced api c container (pod_Kind pod) (pod_Name pod) w1 of
             (Panic p, w2) \<Rightarrow> (Panic p, w2)
           | (Ret _, w2) \<Rightarrow> (Ret None, w2)))"

text \<open>The error of a pod that belongs to a controller.\<close>

definition managedError :: "string \<Rightarrow> gerr" where
  "managedError n = ''Pod '' @ n @ '' is manged by a controller, can not enter DevMode''"

definition missingAnnotation :: gerr where
  "missingAnnotation = ''Annotation '' @ OriginWorkloadDefinition @ '' not found, failed to rollback''"

definition RawPod_ReplaceImage ::
  "podLibs \<Rightarrow> 'w podApi \<Rightarrow> Controller \<Rightarrow> DevStartOptions \<Rightarrow> 'w \<Rightarrow> gerr option outcome \<times> 'w" where
  "RawPod_ReplaceImage libs api c ops w =
     (case GetPod api (ctl_Name c) w of
        (Inl err, w1) \<Rightarrow> (Ret (Some err), w1)
      | (Inr pod, w1) \<Rightarrow>
          if pod_OwnerReferences pod \<noteq> [] then (Ret (Some (managedError (ctl_Name c))), w1)
          else let pod1 = pod\<lparr>pod_Status := emptyStatus, pod_ResourceVersion := []\<rparr> in
            (case MarshalPod api pod1 of
               Inl err \<Rightarrow> (Ret (Some err), w1)
             | Inr bys \<Rightarrow>
                 let pod2 = pod1\<lparr>pod_Annotations := (pod_Annotations pod1)(OriginWorkloadDefinition \<mapsto> bys,
                       NocalhostDevContainerAnnotations \<mapsto> GetDevContainerName c (ops_Container ops))\<rparr> in
                 (case genDevSpec libs api c (pod_Spec pod2) ops False w1 of
                    (Panic p, w2) \<Rightarrow> (Panic p, w2)
                  | (Ret (Inl err), w2) \<Rightarrow> (Ret (Some err), w2)
                  | (Ret (Inr spec), w2) \<Rightarrow>
                      (case DeletePodByName api (ctl_Name c) w2 of
                         (Some err, w3) \<Rightarrow> (Ret (Some err), w3)
                       | (None, w3) \<Rightarrow>
                           createAndPatch api c (ops_Container ops) (pod2\<lparr>pod_Spec := spec\<rparr>) w3))))"

definition RawPod_RollBack ::
  "'w podApi \<Rightarrow> Controller \<Rightarrow> bool \<Rightarrow> 'w \<Rightarrow> gerr option \<times> 'w" where
  "RawPod_RollBack api c reset w =
     (case GetPod api (ctl_Name c) w of
        (Inl err, w1) \<Rightarrow> (Some err, w1)
      | (Inr pod, w1) \<Rightarrow>
          (case pod_Annotations pod OriginWorkloadDefinition of
             None \<Rightarrow> (if reset then None else Some missingAnnotation, w1)
           | Some bys \<Rightarrow>
               (case UnmarshalPod api bys of
                  Inl err \<Rightarrow> (Some err, w1)
                | Inr origin \<Rightarrow>
                    (case DeletePodByName api (ctl_Name c) w1 of
                       (Some err, w2) \<Rightarrow> (Some err, w2)
                     | (None, w2) \<Rightarrow> CreatePod api origin w2))))"

subsection \<open>A copy of a pod\<close>

definition getDuplicateResourceName :: "'w podApi \<Rightarrow> Controller \<Rightarrow> 'w \<Rightarrow> string outcome \<times> 'w" where
  "getDuplicateResourceName api c w =
     (case ShortUuid api w of (uuid, w1) \<Rightarrow>
        if length (ctl_Identifier c) < 5 then (Panic ''slice bounds out of range'', w1)
        else (Ret (join [ctl_Name c, take 5 (ctl_Identifier c), uuid] ''-''), w1))"

definition getDevContainerAnnotations ::
  "Controller \<Rightarrow> string \<Rightarrow> (string \<rightharpoonup> string) \<Rightarrow> (string \<rightharpoonup> string)" where
  "getDevContainerAnnotations c devContainer originAnnos =
     originAnnos(NocalhostDevContainerAnnotations \<mapsto> GetDevContainerName c devContainer)"

text \<open>
  The pod to copy. In replace dev mode the recorded original is decoded over the pod that was
  read; otherwise a recorded original replaces it, if there is one that decodes.
\<close>

definition podToCopy :: "'w podApi \<Rightarrow> bool \<Rightarrow> KPod \<Rightarrow> gerr + KPod" where
  "podToCopy api inReplace pod =
     (if inReplace then
        (case pod_Annotations pod OriginWorkloadDefinition of
           None \<Rightarrow> Inl missingAnnotation
         | Some bys \<Rightarrow>
             (case UnmarshalPodInto api bys pod of
                Inl err \<Rightarrow> Inl (wrap [] err)
              | Inr p \<Rightarrow> Inr p))
      else
        (case pod_Annotations pod OriginWorkloadDefinition of
           None \<Rightarrow> Inr pod
         | Some bys \<Rightarrow> (case UnmarshalPod api bys of Inl _ \<Rightarrow> Inr pod | Inr p \<Rightarrow> Inr p)))"

definition DuplicateRawPod_ReplaceImage ::
  "podLibs \<Rightarrow> 'w podApi \<Rightarrow> Controller \<Rightarrow> DevStartOptions \<Rightarrow> ApplicationMeta \<Rightarrow> 'w \<Rightarrow>
     gerr option outcome \<times> ApplicationMeta \<times> 'w" where
  "DuplicateRawPod_ReplaceImage libs api c ops a w =
     (case GetPod api (ctl_Name c) w of
        (Inl err, w1) \<Rightarrow> (Ret (Some err), a, w1)
      | (Inr pod, w1) \<Rightarrow>
          if pod_OwnerReferences pod \<noteq> [] then (Ret (Some (managedError (ctl_Name c))), a, w1)
          else case IsInReplaceDevMode c a of (inReplace, a1) \<Rightarrow>
            (case podToCopy api inReplace pod of
               Inl err \<Rightarrow> (Ret (Some err), a1, w1)
             | Inr origin \<Rightarrow>
                 (case getDuplicateResourceName api c w1 of
                    (Panic p, w2) \<Rightarrow> (Panic p, a1, w2)
                  | (Ret name, w2) \<Rightarrow>
                      let pod1 = origin\<lparr>pod_Name := name, pod_Labels := getDuplicateLabelsMap c,
                            pod_Status := emptyStatus, pod_ResourceVersion := [],
                            pod_Annotations := getDevContainerAnnotations c (ops_Container ops) (pod_Annotations origin)\<rparr>
                      in case genDevSpec libs api c (pod_Spec pod1) ops True w2 of
                           (Panic p, w3) \<Rightarrow> (Panic p, a1, w3)
                         | (Ret (Inl err), w3) \<Rightarrow> (Ret (Some err), a1, w3)
                         | (Ret (Inr spec), w3) \<Rightarrow>
                             (case createAndPatch api c (ops_Container ops) (pod1\<lparr>pod_Spec := spec\<rparr>) w3 of
                                (r, w4) \<Rightarrow> (r, a1, w4)))))"

text \<open>\<open>GetPodList\<close> of a workload that is a pod.\<close>

definition GetPodList :: "'w podApi \<Rightarrow> Controller \<Rightarrow> 'w \<Rightarrow> (gerr + KPod list) \<times> 'w" where
  "GetPodList api c w =
     (if IsDuplicateDevMode (ctl_DevModeType c) then ListPods api (getDuplicateLabelsMap c) w
      else case GetPod api (ctl_Name c) w of
          (Inl err, w1) \<Rightarrow> (Inl err, w1)
        | (Inr pod, w1) \<Rightarrow> (Inr [pod], w1))"

definition DuplicateRawPod_RollBack ::
  "'w podApi \<Rightarrow> Controller \<Rightarrow> bool \<Rightarrow> 'w \<Rightarrow> gerr option \<times> 'w" where
  "DuplicateRawPod_RollBack api c reset w =
     (case GetPodList api c w of
        (Inl err, w1) \<Rightarrow> (Some err, w1)
      | (Inr pods, w1) \<Rightarrow>
          if length pods \<noteq> 1 \<and> \<not> reset
          then (Some (''Duplicate pod num is '' @ natDec (length pods) @ '' (not 1)?''), w1)
          else if pods = [] then (None, w1)
          else DeletePod api (pod_Name (pods ! 0)) w1)"

subsection \<open>The end of dev mode\<close>

text \<open>\<open>BuildPodController().RollBack\<close>.\<close>

definition RollBack ::
  "(Controller \<Rightarrow> bool \<Rightarrow> 'w \<Rightarrow> gerr option \<times> 'w) \<Rightarrow> 'w podApi \<Rightarrow> Controller \<Rightarrow> bool \<Rightarrow> 'w \<Rightarrow>
     gerr option \<times> 'w" where
  "RollBack defaultRollBack api c reset w =
     (if ctl_Type c = Pod then
        if IsDuplicateDevMode (ctl_DevModeType c) then DuplicateRawPod_RollBack api c reset w
        else RawPod_RollBack api c reset w
      else defaultRollBack c reset w)"

text \<open>
  \<open>stopSync\<close> is \<open>StopSyncAndPortForwardProcess\<close>: its error and whether \<open>os.IsNotExist\<close> holds of it.
\<close>

definition DevEnd ::
  "codecs \<Rightarrow> 'w api \<Rightarrow> ('w \<Rightarrow> (gerr \<times> bool) option \<times> 'w) \<Rightarrow>
     (Controller \<Rightarrow> bool \<Rightarrow> 'w \<Rightarrow> gerr option \<times> 'w) \<Rightarrow> 'w podApi \<Rightarrow>
     Controller \<Rightarrow> bool \<Rightarrow> ApplicationMeta \<Rightarrow> 'w \<Rightarrow> 'w step" where
  "DevEnd cx op stopSync defaultRollBack api c reset a w =
     (case stopSync w of (stopErr, w1) \<Rightarrow>
        (case (case stopErr of
                 None \<Rightarrow> None
               | Some (err, notExist) \<Rightarrow> if \<not> reset \<and> \<not> notExist then Some err else None) of
           Some err \<Rightarrow> (Some err, a, w1)
         | None \<Rightarrow>
             (case RollBack defaultRollBack api c reset w1 of (_, w2) \<Rightarrow>
                (case SvcDevEnd cx op a (ctl_Name c) (ctl_Identifier c) (ctl_Type c) (ctl_DevModeType c) w2 of
                   (_, a1, w3) \<Rightarrow> (None, a1, w3)))))"

subsection \<open>Paths into an object\<close>

text \<open>
  \<open>NestedMap\<close> and \<open>NestedSlice\<close> of the object library: an error, not found, or the value; \<open>asMap\<close>
  is the type assertion to a map.
\<close>

record ('m, 'v) nested =
  NestedMap :: "'m \<Rightarrow> string list \<Rightarrow> gerr + 'm option"
  NestedSlice :: "'m \<Rightarrow> string list \<Rightarrow> gerr + 'v list option"
  asMap :: "'v \<Rightarrow> 'm option"

fun firstNumber :: "nat \<Rightarrow> string list \<Rightarrow> (nat \<times> int) option" where
  "firstNumber i [] = None"
| "firstNumber i (item # items) =
     (if item = [] then firstNumber (Suc i) items
      else case atoi item of
          Some n \<Rightarrow> Some (i, n)
        | None \<Rightarrow> firstNumber (Suc i) items)"

definition pathNotFound :: "string \<Rightarrow> gerr" where
  "pathNotFound path = ''PodTemplate path '' @ path @ '' not found''"

definition nestedMapOrErr :: "('m, 'v) nested \<Rightarrow> string \<Rightarrow> 'm \<Rightarrow> string list \<Rightarrow> gerr + 'm" where
  "nestedMapOrErr lib path u items =
     (case NestedMap lib u items of
        Inl err \<Rightarrow> Inl err
      | Inr None \<Rightarrow> Inl (pathNotFound path)
      | Inr (Some m) \<Rightarrow> Inr m)"

text \<open>The sum of two ints, which wraps around.\<close>

definition wrapInt :: "int \<Rightarrow> int" where
  "wrapInt i = (i + 2 ^ 63) mod 2 ^ 64 - 2 ^ 63"

definition GetUnstructuredMapByPath :: "('m, 'v) nested \<Rightarrow> string \<Rightarrow> 'm \<Rightarrow> (gerr + 'm) outcome" where
  "GetUnstructuredMapByPath lib path0 u =
     (if hasPrefix path0 [CHR 0x5C, CHR ''/''] then
        Ret (Inl (''Path '' @ path0 @ '' invalid. It must be like: /spec/template, and start with /''))
      else
        let path = trimPrefix path0 ''/''; pathItems = split path ''/'' in
        (case firstNumber 0 pathItems of
           None \<Rightarrow> Ret (nestedMapOrErr lib path u pathItems)
         | Some (splitIndex, arrayIndex) \<Rightarrow>
             (case NestedSlice lib u (take splitIndex pathItems) of
                Inl err \<Rightarrow> Ret (Inl (wrap ''Failed to find nested slice in unstructured map'' err))
              | Inr None \<Rightarrow> Ret (Inl (pathNotFound path))
              | Inr (Some mapSlice) \<Rightarrow>
                  if int (length mapSlice) < wrapInt (arrayIndex + 1) then
                    Ret (Inl (''Array index '' @ itoa arrayIndex @ '' in path '' @ path @ '' is out of boundary''))
                  else if arrayIndex < 0 \<or> int (length mapSlice) \<le> arrayIndex then Panic ''index out of range''
                  else case asMap lib (mapSlice ! nat arrayIndex) of
                      None \<Rightarrow> Ret (Inl (''Slice item in path '' @ path @ '' is not a unstructured map?''))
                    | Some p \<Rightarrow> Ret (nestedMapOrErr lib path p (drop (Suc splitIndex) pathItems)))))"

end
