(* ===== verification/DevPodProps.thy ===== *)
theory DevPodProps
  imports DevPod
begin

text \<open>
  The pod of a workload in dev mode: which containers and volumes it has, that the dev
  container and the side-car share the work directory, that every mount has its volume, and
  how the wait for a claim ends.
\<close>

subsection \<open>The loop over the persistent directories\<close>

text \<open>
  What the loop keeps: the volumes and the mounts go by the same names, which are those of
  directories already visited, the volume of the work directory keeps its name, and a work directory
  that is said to lie in a mounted directory does so by the test of the code.
\<close>

definition visitedNames :: "nat \<Rightarrow> string list \<Rightarrow> bool" where
  "visitedNames i ns \<longleftrightarrow> (\<exists>js. ns = map persistVolName js \<and> distinct js \<and> (\<forall>j\<in>set js. j < i))"

definition workDirInv :: "string \<Rightarrow> nat \<Rightarrow> workDirState \<Rightarrow> bool" where
  "workDirInv workDir i st \<longleftrightarrow>
     map vol_Name (wd_volumes st) = map vm_Name (wd_mounts st) \<and>
     visitedNames i (map vol_Name (wd_volumes st)) \<and>
     vol_Name (wd_workDirVol st) = workDirVolName \<and>
     (wd_reside st \<longrightarrow> (\<exists>m\<in>set (wd_mounts st). hasPrefix workDir (vm_MountPath m)))"

lemma visitedNames_Nil: "visitedNames i []"
  by (simp add: visitedNames_def)

lemma visitedNames_Suc: "visitedNames i ns \<Longrightarrow> visitedNames (Suc i) ns"
  unfolding visitedNames_def using less_SucI by blast

lemma visitedNames_snoc: "visitedNames i ns \<Longrightarrow> visitedNames (Suc i) (ns @ [persistVolName i])"
proof -
  assume "visitedNames i ns"
  then obtain js where js: "ns = map persistVolName js" "distinct js" "\<forall>j\<in>set js. j < i"
    by (auto simp: visitedNames_def)
  then have "ns @ [persistVolName i] = map persistVolName (js @ [i])" and "distinct (js @ [i])"
    and "\<forall>j\<in>set (js @ [i]). j < Suc i" by auto
  then show ?thesis unfolding visitedNames_def by blast
qed

lemma workDirInv_initial: "workDirInv workDir i (initialWorkDir class)"
  by (simp add: workDirInv_def initialWorkDir_def emptyDirVolume_def visitedNames_Nil)

lemma workDirInv_Suc: "workDirInv workDir i st \<Longrightarrow> workDirInv workDir (Suc i) st"
  by (auto simp: workDirInv_def visitedNames_Suc)

lemma workDirInv_class: "workDirInv workDir i (st\<lparr>wd_storageClass := class\<rparr>) = workDirInv workDir i st"
  by (simp add: workDirInv_def)

lemma workDirInv_mountDir:
  "workDirInv workDir i st \<Longrightarrow> workDirInv workDir (Suc i) (mountDir workDir i path claim st)"
  using visitedNames_snoc [of i "map vm_Name (wd_mounts st)"]
  by (auto simp: workDirInv_def mountDir_def claimVolume_def mountAt_def visitedNames_Suc)

lemma persistLoop_inv:
  assumes "persistLoop sha api c container dup i pvds st w = (Ret (Inr st'), w')"
    and "workDirInv (GetWorkDir c container) i st"
  shows "\<exists>n. workDirInv (GetWorkDir c container) n st'"
  using assms
proof (induction pvds arbitrary: i st w)
  case Nil
  then show ?case by auto
next
  case (Cons pvd pvds)
  show ?case
  proof (cases "pvd_Path pvd = []")
    case True
    with Cons.prems Cons.IH [of "Suc i" st w] show ?thesis by (simp add: workDirInv_Suc)
  next
    case False
    obtain r w1 where c: "claimFor sha api c container dup pvd (wd_storageClass st) w = (r, w1)"
      by (metis surj_pair)
    show ?thesis
    proof (cases r)
      case (Ret a)
      then show ?thesis
      proof (cases a)
        case (Inr p)
        obtain claim cls where p: "p = (claim, cls)" by (metis surj_pair)
        show ?thesis
          using False c Ret Inr p Cons.prems
            Cons.IH [of "Suc i" _ w1, OF _ workDirInv_Suc]
            Cons.IH [of "Suc i" _ w1, OF _ workDirInv_mountDir]
          by (cases claim) (simp_all add: workDirInv_class)
      qed (use False c Ret Cons.prems in simp)
    qed (use False c Cons.prems in simp)
  qed
qed

subsection \<open>What is generated\<close>

lemma genWorkDir_facts:
  assumes "genWorkDirAndPVAndMounts sha api c container cls ignoreW dup w = (Ret (Inr (vols, mounts)), w1)"
  obtains st n where "workDirInv (GetWorkDir c container) n st"
    and "(vols, mounts) = finishWorkDir (GetWorkDir c container) ignoreW st"
proof -
  obtain r w2 where p: "persistLoop sha api c container dup 0 (GetPersistentVolumeDirs c container)
      (initialWorkDir cls) w = (r, w2)" by (metis surj_pair)
  with assms obtain st where r: "r = Ret (Inr st)"
    and f: "(vols, mounts) = finishWorkDir (GetWorkDir c container) ignoreW st"
    by (auto simp: genWorkDirAndPVAndMounts_def split: outcome.splits sum.splits)
  from persistLoop_inv [OF p [unfolded r] workDirInv_initial] f that show thesis by blast
qed

lemma natDec_inj [simp]: "natDec i = natDec j \<longleftrightarrow> i = j"
  by (metis option.inject readDec_natDec)

lemma persistVolName_facts [simp]:
  "persistVolName i = persistVolName j \<longleftrightarrow> i = j"
  "persistVolName i \<noteq> workDirVolName" "workDirVolName \<noteq> persistVolName i"
  "persistVolName i \<noteq> EmptyDir" "EmptyDir \<noteq> persistVolName i"
  "persistVolName i \<noteq> SecretName" "SecretName \<noteq> persistVolName i"
  by (simp_all add: persistVolName_def workDirVolName_def EmptyDir_def SecretName_def)

lemma reserved_names [simp]:
  "workDirVolName \<noteq> EmptyDir" "workDirVolName \<noteq> SecretName" "EmptyDir \<noteq> SecretName"
  "EmptyDir \<noteq> workDirVolName" "SecretName \<noteq> workDirVolName" "SecretName \<noteq> EmptyDir"
  by (simp_all add: workDirVolName_def EmptyDir_def SecretName_def)

lemma generateSideCarContainer_fields [simp]:
  "pc_Name (generateSideCarContainer img dir ssh) = DefaultNocalhostSideCarName"
  "pc_WorkingDir (generateSideCarContainer img dir ssh) = dir"
  by (simp_all add: generateSideCarContainer_def DefaultNocalhostSideCarName_def)

text \<open>The parts of a successful run of \<open>genContainersAndVolumes\<close>.\<close>

lemma genContainers_facts:
  assumes "genContainersAndVolumes order sha parseQ api c spec container devImage cls dup w =
             (Ret (Inr (spec', i, sidecar, vols)), w1)"
  obtains syncVols syncMounts wVols wMounts devEnv img n st where
    "findDevContainerInPodSpec spec container = Inr i"
    and "generateSyncVolumesAndMounts c = (syncVols, syncMounts)"
    and "workDirInv (GetWorkDir c container) n st"
    and "(wVols, wMounts) = finishWorkDir (GetWorkDir c container)
           (workDirMount (GetWorkDir c container) (pc_VolumeMounts (ps_Containers spec ! i)) \<noteq> None) st"
    and "GetDevContainerEnv order c container = Ret devEnv"
    and "vols = syncVols @ wVols"
    and "spec' = spec\<lparr>ps_Containers := (ps_Containers spec)[i :=
           genDevContainer parseQ c container img devEnv (syncMounts @ wMounts) (ps_Containers spec ! i)]\<rparr>"
    and "pc_Name sidecar = DefaultNocalhostSideCarName"
    and "pc_WorkingDir sidecar = GetWorkDir c container"
    and "pc_VolumeMounts sidecar = (syncMounts @ wMounts) @
           (case workDirMount (GetWorkDir c container) (pc_VolumeMounts (ps_Containers spec ! i)) of
              Some m \<Rightarrow> [m] | None \<Rightarrow> [])"
proof -
  obtain syncVols syncMounts where sync: "generateSyncVolumesAndMounts c = (syncVols, syncMounts)"
    by (metis surj_pair)
  from assms obtain j where find: "findDevContainerInPodSpec spec container = Inr j"
    by (auto simp: genContainersAndVolumes_def split: sum.splits)
  let ?already = "workDirMount (GetWorkDir c container) (pc_VolumeMounts (ps_Containers spec ! j))"
  obtain r w2 where gen: "genWorkDirAndPVAndMounts sha api c container cls (?already \<noteq> None) dup w = (r, w2)"
    by (metis surj_pair)
  from assms find sync gen obtain wVols wMounts where r: "r = Ret (Inr (wVols, wMounts))"
    by (cases r) (auto simp: genContainersAndVolumes_def split: sum.splits)
  from assms find sync gen r obtain devEnv where env: "GetDevContainerEnv order c container = Ret devEnv"
    by (auto simp: genContainersAndVolumes_def split: outcome.splits)
  from assms find sync gen r env obtain rq where rq: "convertResourceQuota parseQ sidecarQuota = Inr rq"
    by (auto simp: genContainersAndVolumes_def split: sum.splits)
  from genWorkDir_facts [OF gen [unfolded r]] obtain st n where
    inv: "workDirInv (GetWorkDir c container) n st"
      "(wVols, wMounts) = finishWorkDir (GetWorkDir c container) (?already \<noteq> None) st" .
  from assms have "i = j"
    and "vols = syncVols @ wVols"
    and "spec' = spec\<lparr>ps_Containers := (ps_Containers spec)[j := genDevContainer parseQ c container
           (if devImage = [] then GetDevImage c container else devImage) devEnv (syncMounts @ wMounts)
           (ps_Containers spec ! j)]\<rparr>"
    and "pc_Name sidecar = DefaultNocalhostSideCarName \<and> pc_WorkingDir sidecar = GetWorkDir c container \<and>
         pc_VolumeMounts sidecar = (syncMounts @ wMounts) @ (case ?already of Some m \<Rightarrow> [m] | None \<Rightarrow> [])"
    unfolding genContainersAndVolumes_def find sum.case Let_def sync prod.case gen r outcome.case env rq
    by (auto simp: generateSideCarContainer_fields)
  with find sync inv env that show thesis by blast
qed


subsection \<open>The patched pod\<close>

lemma findDevContainer_facts:
  assumes "findDevContainerInPodSpec spec container = Inr i"
  shows "i < length (ps_Containers spec) \<and> (container \<noteq> [] \<longrightarrow> pc_Name (ps_Containers spec ! i) = container) \<and>
    (container = [] \<longrightarrow> i = 0)"
  using assms by (auto simp: findDevContainerInPodSpec_def dest: findIndex_Some split: if_splits option.splits)

lemma copied_element:
  assumes "i < length cs"
  shows "cs[j := cs ! i] ! i = cs ! i" and "set (cs[j := cs ! i]) \<subseteq> set cs"
  using assms set_update_subset_insert [of cs j "cs ! i"] by (cases "j = i"; auto)+

text \<open>The copy within the slice neither moves the dev container nor brings in a new one.\<close>

lemma patch_containers:
  assumes "i < length (ps_Containers spec)"
  obtains cs where "ps_Containers (patchDevContainerToPodSpec spec container i sidecar vols) =
      map clearProbes cs @ [sidecar]"
    and "length cs = length (ps_Containers spec)" and "cs ! i = ps_Containers spec ! i"
    and "set cs \<subseteq> set (ps_Containers spec)"
proof (cases "container = []")
  case True
  with that [of "(ps_Containers spec)[0 := ps_Containers spec ! i]"] copied_element [OF assms]
  show thesis by (simp add: patchDevContainerToPodSpec_def)
next
  case False
  show thesis
  proof (cases "findIndex (\<lambda>c. pc_Name c = container) (ps_Containers spec)")
    case None
    with False that [of "ps_Containers spec"] show thesis by (simp add: patchDevContainerToPodSpec_def)
  next
    case (Some j)
    with False that [of "(ps_Containers spec)[j := ps_Containers spec ! i]"] copied_element [OF assms]
    show thesis by (simp add: patchDevContainerToPodSpec_def)
  qed
qed

lemma patch_nth:
  assumes "i < length (ps_Containers spec)"
  shows "ps_Containers (patchDevContainerToPodSpec spec container i sidecar vols) ! i =
    clearProbes (ps_Containers spec ! i)"
  by (rule patch_containers [OF assms, of container sidecar vols]) (simp add: nth_append assms)

lemma same_name_same_index:
  assumes "distinct (map pc_Name cs)" and "i < length cs" and "pc_Name (cs ! i) = n"
    and "findIndex (\<lambda>c. pc_Name c = n) (cs[i := d]) = Some j"
  shows "j = i"
proof (rule ccontr)
  assume "j \<noteq> i"
  with findIndex_Some [OF assms(4)] have "j < length cs" and "pc_Name (cs ! j) = n" by auto
  with assms(1-3) \<open>j \<noteq> i\<close> show False
    by (metis distinct_conv_nth length_map nth_map)
qed

lemma workDirMount_Some: "workDirMount dir ms = Some m \<Longrightarrow> m \<in> set ms \<and> vm_MountPath m = dir"
proof -
  have "find P xs = Some x \<Longrightarrow> x \<in> set xs \<and> P x" for P and xs :: "VolumeMount list" and x
    by (induction xs) (auto split: if_splits)
  from this [of _ "rev ms"] show "workDirMount dir ms = Some m \<Longrightarrow> m \<in> set ms \<and> vm_MountPath m = dir"
    unfolding workDirMount_def by fastforce
qed

lemma genDevContainer_fields [simp]:
  "pc_Name (genDevContainer parseQ c container img devEnv mounts d) = GetDevContainerName c container"
  "pc_Command (genDevContainer parseQ c container img devEnv mounts d) = [''/bin/sh'', ''-c'', ''tail -f /dev/null'']"
  "pc_WorkingDir (genDevContainer parseQ c container img devEnv mounts d) = GetWorkDir c container"
  "pc_VolumeMounts (genDevContainer parseQ c container img devEnv mounts d) = pc_VolumeMounts d @ mounts"
  by (simp_all add: genDevContainer_def)

lemma clearProbes_fields [simp]:
  "pc_VolumeMounts (clearProbes d) = pc_VolumeMounts d" "pc_Name (clearProbes d) = pc_Name d"
  by (simp_all add: clearProbes_def)

subsection \<open>A concrete workload\<close>

definition exDevConfig :: ContainerDevConfig where
  "exDevConfig =
     \<lparr>cd_GitUrl = [], cd_Image = ''golang'', cd_ImagePullPolicy = ''Always'', cd_Shell = [],
      cd_WorkDir = ''/app'', cd_StorageClass = [], cd_DevContainerName = [], cd_DevContainerResources = None,
      cd_PersistentVolumeDirs = [\<lparr>pvd_Path = ''/root/.cache'', pvd_Capacity = [], pvd_WaitForFirstConsumer = False\<rparr>],
      cd_Command = None, cd_DebugConfig = None, cd_HotReload = False, cd_UseDevContainer = False,
      cd_Sync = None, cd_Env = [\<lparr>env_Name = ''A'', env_Value = ''1''\<rparr>], cd_EnvFrom = None,
      cd_PortForward = [], cd_SidecarImage = [], cd_Patches = []\<rparr>"

definition exController :: Controller where
  "exController =
     \<lparr>ctl_NameSpace = ''ns'', ctl_AppName = ''book'', ctl_Name = ''web'', ctl_Identifier = ''i-1'',
      ctl_DevModeType = ReplaceDevMode, ctl_Type = Pod,
      ctl_config = \<lparr>svc_Name = ''web'', svc_Type = Pod, svc_PriorityClass = [], svc_DependLabelSelector = None,
        svc_ContainerConfigs = [\<lparr>cc_Name = ''main'', cc_Hub = None, cc_Install = None, cc_Dev = Some exDevConfig\<rparr>]\<rparr>,
      ctl_DevModeAction = PodDevModeAction\<rparr>"

definition exContainer :: "string \<Rightarrow> PodContainer" where
  "exContainer n =
     \<lparr>pc_Name = n, pc_Image = ''img'', pc_Command = [], pc_Args = [], pc_WorkingDir = [], pc_Env = [],
      pc_Resources = noResources, pc_VolumeMounts = [mountAt ''data'' ''/data''], pc_LivenessProbe = Some ''tcp'',
      pc_ReadinessProbe = None, pc_StartupProbe = None, pc_ImagePullPolicy = [], pc_RunAsUser = None, pc_Other = []\<rparr>"

definition exSpec :: PodSpec where
  "exSpec = \<lparr>ps_Containers = [exContainer ''main'', exContainer ''proxy''], ps_Volumes = [emptyDirVolume ''data''], ps_Other = []\<rparr>"

definition exPvcApi :: "'w pvcApi" where
  "exPvcApi =
     \<lparr>GetPvcByLabels = \<lambda>_ w. (Inr [\<lparr>pvc_Name = ''book-1'', pvc_Phase = ''Bound'', pvc_Conditions = []\<rparr>], w),
      CreatePVC = \<lambda>n _ _ _ _ w. (Inr \<lparr>pvc_Name = n, pvc_Phase = ''Pending'', pvc_Conditions = []\<rparr>, w),
      GetPvcByName = \<lambda>n w. (Inr \<lparr>pvc_Name = n, pvc_Phase = ''Pending'', pvc_Conditions = []\<rparr>, w),
      SearchEvents = \<lambda>_ w. (Inr [], w), DeletePVC = \<lambda>_ w. (None, w), UnixNano = \<lambda>_. 7\<rparr>"

definition exOrder :: "(string \<rightharpoonup> string) \<Rightarrow> string list" where
  "exOrder m = (case m ''A'' of None \<Rightarrow> [] | Some _ \<Rightarrow> [''A''])"

definition exGen :: "'w \<Rightarrow> (gerr + PodSpec \<times> nat \<times> PodContainer \<times> Volume list) outcome \<times> 'w" where
  "exGen w = genContainersAndVolumes exOrder id Inr exPvcApi exController exSpec ''main'' [] [] False w"

lemmas ex_defs = exGen_def exOrder_def exPvcApi_def exSpec_def exContainer_def exController_def exDevConfig_def

lemma exGen_succeeds: "\<exists>spec' sidecar vols. exGen w = (Ret (Inr (spec', 0, sidecar, vols)), w)"
  by (simp add: ex_defs genContainersAndVolumes_def findDevContainerInPodSpec_def generateSyncVolumesAndMounts_def
      genWorkDirAndPVAndMounts_def GetPersistentVolumeDirs_def devConfigOf_def GetContainerDevConfigOrDefault_def
      GetContainerDevConfig_def claimFor_def GetDevContainerEnv_def configMatches_def
      convertResourceQuota_def sidecarQuota_def convertToResourceList_def emptyList_def
      split: prod.split)


text \<open>C19: when \<open>genContainersAndVolumes\<close> succeeds and its result is patched into the pod, the pod
  is the old one with the chosen container replaced by the dev container, at its place and
  under its new name, with no probe left on any container, the new volumes after the old
  ones, and the side-car as the last container.
\<close>

theorem dev_pod_shape:
  assumes gen: "genContainersAndVolumes order sha parseQ api c spec container devImage cls dup w =
      (Ret (Inr (spec', i, sidecar, vols)), w1)"
    and names: "distinct (map pc_Name (ps_Containers spec))"
  shows "findDevContainerInPodSpec spec container = Inr i \<and>
    (\<exists>d. patchDevContainerToPodSpec spec' container i sidecar vols =
           spec\<lparr>ps_Volumes := ps_Volumes spec @ vols,
                ps_Containers := map clearProbes ((ps_Containers spec)[i := d]) @ [sidecar]\<rparr> \<and>
         pc_Name d = GetDevContainerName c container \<and>
         pc_Command d = [''/bin/sh'', ''-c'', ''tail -f /dev/null''] \<and>
         pc_WorkingDir d = GetWorkDir c container) \<and>
    pc_Name sidecar = DefaultNocalhostSideCarName \<and> pc_WorkingDir sidecar = GetWorkDir c container"
proof (rule genContainers_facts [OF gen], goal_cases)
  case (1 syncVols syncMounts wVols wMounts devEnv img n st)
  let ?d = "genDevContainer parseQ c container img devEnv (syncMounts @ wMounts) (ps_Containers spec ! i)"
  let ?cs = "(ps_Containers spec)[i := ?d]"
  note f = findDevContainer_facts [OF 1(1)]
  have same: "(if container \<noteq> [] then case findIndex (\<lambda>c. pc_Name c = container) ?cs of
       Some j \<Rightarrow> ?cs[j := ?cs ! i] | None \<Rightarrow> ?cs else ?cs[0 := ?cs ! i]) = ?cs"
    using f same_name_same_index [OF names, of i container ?d]
    by (cases "findIndex (\<lambda>c. pc_Name c = container) ?cs") auto
  have "patchDevContainerToPodSpec spec' container i sidecar vols =
      spec\<lparr>ps_Volumes := ps_Volumes spec @ vols, ps_Containers := map clearProbes ?cs @ [sidecar]\<rparr>"
    using same unfolding patchDevContainerToPodSpec_def 1(7) by simp
  with 1(1,8,9) show ?case by (metis genDevContainer_fields(1-3))
qed

text \<open>The concrete workload in dev mode.\<close>

theorem dev_pod_shape_witness:
  "\<exists>spec' sidecar vols d. exGen () = (Ret (Inr (spec', 0, sidecar, vols)), ()) \<and>
     patchDevContainerToPodSpec spec' ''main'' 0 sidecar vols =
       exSpec\<lparr>ps_Volumes := ps_Volumes exSpec @ vols,
              ps_Containers := map clearProbes [d, exContainer ''proxy''] @ [sidecar]\<rparr>"
proof -
  obtain spec' sidecar vols where gen: "exGen () = (Ret (Inr (spec', 0, sidecar, vols)), ())"
    using exGen_succeeds [of "()"] by blast
  have "distinct (map pc_Name (ps_Containers exSpec))" by (simp add: exSpec_def exContainer_def)
  from dev_pod_shape [OF gen [unfolded exGen_def] this] gen show ?thesis
    by (auto simp: exSpec_def)
qed

text \<open>C20: the dev container and the side-car that syncs the files share the work directory: both
  have one and the same mount, whose path is the work directory or starts it.
\<close>

theorem work_dir_is_shared:
  assumes gen: "genContainersAndVolumes order sha parseQ api c spec container devImage cls dup w =
      (Ret (Inr (spec', i, sidecar, vols)), w1)"
  shows "\<exists>m. m \<in> set (pc_VolumeMounts (ps_Containers
        (patchDevContainerToPodSpec spec' container i sidecar vols) ! i)) \<and>
      m \<in> set (pc_VolumeMounts sidecar) \<and> hasPrefix (GetWorkDir c container) (vm_MountPath m)"
proof (rule genContainers_facts [OF gen], goal_cases)
  case (1 syncVols syncMounts wVols wMounts devEnv img n st)
  let ?already = "workDirMount (GetWorkDir c container) (pc_VolumeMounts (ps_Containers spec ! i))"
  have i: "i < length (ps_Containers spec)" using findDevContainer_facts [OF 1(1)] by simp
  have dev: "pc_VolumeMounts (ps_Containers (patchDevContainerToPodSpec spec' container i sidecar vols) ! i) =
      pc_VolumeMounts (ps_Containers spec ! i) @ syncMounts @ wMounts"
    using i by (simp add: patch_nth 1(7))
  show ?case
  proof (cases ?already)
    case (Some m)
    with workDirMount_Some [OF Some] dev 1(10) show ?thesis by (auto simp: hasPrefix_iff intro!: exI [of _ m])
  next
    case None
    have "\<exists>m\<in>set wMounts. hasPrefix (GetWorkDir c container) (vm_MountPath m)"
      using 1(3,4) None
      by (auto simp: finishWorkDir_def workDirInv_def mountAt_def hasPrefix_iff split: if_splits)
    with dev 1(10) show ?thesis by auto
  qed
qed


theorem work_dir_is_shared_witness:
  "\<exists>spec' sidecar vols m. exGen () = (Ret (Inr (spec', 0, sidecar, vols)), ()) \<and>
     m \<in> set (pc_VolumeMounts (ps_Containers (patchDevContainerToPodSpec spec' ''main'' 0 sidecar vols) ! 0)) \<and>
     m \<in> set (pc_VolumeMounts sidecar)"
proof -
  obtain spec' sidecar vols where gen: "exGen () = (Ret (Inr (spec', 0, sidecar, vols)), ())"
    using exGen_succeeds [of "()"] by blast
  from work_dir_is_shared [OF gen [unfolded exGen_def]] gen show ?thesis by blast
qed

text \<open>Every mount of every container names a volume of the pod.\<close>

definition mountsResolved :: "PodSpec \<Rightarrow> bool" where
  "mountsResolved spec \<longleftrightarrow> (\<forall>d\<in>set (ps_Containers spec). \<forall>m\<in>set (pc_VolumeMounts d).
     vm_Name m \<in> vol_Name ` set (ps_Volumes spec))"

lemma generated_names:
  assumes "generateSyncVolumesAndMounts c = (syncVols, syncMounts)"
    and "workDirInv dir n st" and "(wVols, wMounts) = finishWorkDir dir ignoreW st"
  shows "map vol_Name (syncVols @ wVols) = map vm_Name (syncMounts @ wMounts)"
    and "distinct (map vol_Name (syncVols @ wVols))"
proof -
  from assms(2) obtain js where js: "map vol_Name (wd_volumes st) = map persistVolName js" "distinct js"
    unfolding workDirInv_def visitedNames_def by blast
  from assms show "map vol_Name (syncVols @ wVols) = map vm_Name (syncMounts @ wMounts)"
    by (auto simp: generateSyncVolumesAndMounts_def finishWorkDir_def workDirInv_def emptyDirVolume_def
        mountAt_def split: if_splits)
  have sync: "map vol_Name syncVols = [EmptyDir, SecretName]"
    using assms(1) by (auto simp: generateSyncVolumesAndMounts_def emptyDirVolume_def)
  have wd: "map vol_Name wVols = map persistVolName js @ (if wVols = wd_volumes st then [] else [workDirVolName])"
    using assms(2,3) js by (auto simp: finishWorkDir_def workDirInv_def split: if_splits)
  have "distinct (map persistVolName js)" using js(2) by (simp add: distinct_map inj_on_def)
  then show "distinct (map vol_Name (syncVols @ wVols))" using sync wd by auto
qed

text \<open>C37: entering dev mode keeps the pod well formed: if every mount of the workload names one
  of its volumes, so does every mount of the dev pod, and the added volumes have names of
  their own.
\<close>

theorem dev_pod_mounts_resolved:
  assumes gen: "genContainersAndVolumes order sha parseQ api c spec container devImage cls dup w =
      (Ret (Inr (spec', i, sidecar, vols)), w1)"
    and ok: "mountsResolved spec"
  shows "mountsResolved (patchDevContainerToPodSpec spec' container i sidecar vols) \<and>
    distinct (map vol_Name vols)"
proof (rule genContainers_facts [OF gen], goal_cases)
  case (1 syncVols syncMounts wVols wMounts devEnv img n st)
  note names = generated_names [OF 1(2,3,4)]
  let ?vs = "vol_Name ` set (ps_Volumes spec @ vols)"
  let ?d = "ps_Containers spec ! i"
  have i: "i < length (ps_Containers spec)" using findDevContainer_facts [OF 1(1)] by simp
  have new: "\<forall>m\<in>set (syncMounts @ wMounts). vm_Name m \<in> ?vs"
    using arg_cong [OF names(1), of set] 1(6) by auto
  have old: "\<forall>e\<in>set (ps_Containers spec). \<forall>m\<in>set (pc_VolumeMounts e). vm_Name m \<in> ?vs"
    using ok by (auto simp: mountsResolved_def)
  have dev: "\<forall>e\<in>set (ps_Containers spec'). \<forall>m\<in>set (pc_VolumeMounts e). vm_Name m \<in> ?vs"
    using old new old [rule_format, OF nth_mem [OF i]] unfolding 1(7)
    by (auto dest!: set_update_subset_insert [THEN subsetD])
  have side: "\<forall>m\<in>set (pc_VolumeMounts sidecar). vm_Name m \<in> ?vs"
    using new old [rule_format, OF nth_mem [OF i]] unfolding 1(10)
    by (auto split: option.splits dest: workDirMount_Some [OF sym])
  have i': "i < length (ps_Containers spec')" using i 1(7) by simp
  have vols: "ps_Volumes (patchDevContainerToPodSpec spec' container i sidecar vols) = ps_Volumes spec @ vols"
    by (simp add: patchDevContainerToPodSpec_def 1(7))
  obtain cs where "ps_Containers (patchDevContainerToPodSpec spec' container i sidecar vols) =
      map clearProbes cs @ [sidecar]" "set cs \<subseteq> set (ps_Containers spec')"
    using patch_containers [OF i'] by metis
  with dev side vols names(2) 1(6) show ?case by (auto simp: mountsResolved_def)
qed

theorem dev_pod_mounts_resolved_witness:
  "\<exists>spec' sidecar vols. exGen () = (Ret (Inr (spec', 0, sidecar, vols)), ()) \<and>
     mountsResolved (patchDevContainerToPodSpec spec' ''main'' 0 sidecar vols)"
proof -
  obtain spec' sidecar vols where gen: "exGen () = (Ret (Inr (spec', 0, sidecar, vols)), ())"
    using exGen_succeeds [of "()"] by blast
  have "mountsResolved exSpec"
    by (simp add: mountsResolved_def exSpec_def exContainer_def mountAt_def emptyDirVolume_def)
  from dev_pod_mounts_resolved [OF gen [unfolded exGen_def] this] gen show ?thesis by blast
qed

subsection \<open>The wait for a claim\<close>

text \<open>Reading a claim by its name gives the claim of that name.\<close>

definition claimsReadable :: "'w pvcApi \<Rightarrow> bool" where
  "claimsReadable api \<longleftrightarrow> (\<forall>n w. \<exists>p w'. GetPvcByName api n w = (Inr p, w') \<and> pvc_Name p = n)"

lemma waitPvc_readable:
  assumes "claimsReadable api"
  shows "\<exists>r w' p. waitPvc api k (Some pvc) mes w = (Ret r, w') \<and> pvc_Name p = pvc_Name pvc \<and>
    (r = Inl p \<or> (\<exists>m. r = Inr (Some p, m)))"
proof (induction k arbitrary: pvc mes w)
  case 0
  then show ?case by auto
next
  case (Suc k)
  obtain p w1 where get: "GetPvcByName api (pvc_Name pvc) w = (Inr p, w1)" "pvc_Name p = pvc_Name pvc"
    using assms unfolding claimsReadable_def by meson
  obtain m waits where scan: "scanConditions (pvc_Conditions p) mes = (m, waits)" by (metis surj_pair)
  obtain e w2 where events: "SearchEvents api p w1 = (e, w2)" by (metis surj_pair)
  show ?case
  proof (cases "pvc_Phase p = ''Bound'' \<or> waits")
    case True
    with get scan show ?thesis by auto
  next
    case False
    with get scan events Suc.IH [of p m w2] show ?thesis by (cases e) auto
  qed
qed

text \<open>as long as the claim can be read, creating the claim of a directory never panics; it ends
  with the created claim, or with an error after that claim has been deleted, so that no
  unbound claim is left behind.
\<close>

theorem claim_created_or_deleted:
  assumes "claimsReadable api"
    and "CreatePVC api (ctl_AppName c @ ''-'' @ itoa (UnixNano api w)) labels
           [PersistentVolumeDirLabel \<mapsto> pvd_Path pvd]
           (if pvd_Capacity pvd = [] then ''10Gi'' else pvd_Capacity pvd)
           (if cls = [] then None else Some cls) w = (Inr pvc, w1)"
    and "createPvcForPersistentVolumeDir api c pvd labels cls w = (r, w')"
  shows "(\<exists>p. r = Ret (Inr p) \<and> pvc_Name p = pvc_Name pvc) \<or>
    (\<exists>err e w2. r = Ret (Inl err) \<and> DeletePVC api (pvc_Name pvc) w2 = (e, w'))"
proof (cases "pvd_WaitForFirstConsumer pvd")
  case True
  with assms(2,3) show ?thesis by (auto simp: createPvcForPersistentVolumeDir_def)
next
  case False
  from waitPvc_readable [OF assms(1), of 30 pvc "[]" w1] obtain s w2 p where
    wait: "waitPvc api 30 (Some pvc) [] w1 = (Ret s, w2)" and p: "pvc_Name p = pvc_Name pvc"
    and s: "s = Inl p \<or> (\<exists>m. s = Inr (Some p, m))" by blast
  obtain e w3 where del: "DeletePVC api (pvc_Name pvc) w2 = (e, w3)" by (metis surj_pair)
  show ?thesis
    using assms(2,3) False wait p s del
    by (cases e) (auto simp: createPvcForPersistentVolumeDir_def)
qed

theorem claim_created_or_deleted_witness:
  "\<exists>r. createPvcForPersistentVolumeDir exPvcApi exController
       \<lparr>pvd_Path = ''/root'', pvd_Capacity = [], pvd_WaitForFirstConsumer = False\<rparr> Map.empty [] () = (r, ()) \<and>
     (\<forall>p. r \<noteq> Panic p)"
proof -
  let ?pvd = "\<lparr>pvd_Path = ''/root'', pvd_Capacity = [], pvd_WaitForFirstConsumer = False\<rparr>"
  have readable: "claimsReadable (exPvcApi :: unit pvcApi)" by (simp add: claimsReadable_def exPvcApi_def)
  obtain r where r: "createPvcForPersistentVolumeDir (exPvcApi :: unit pvcApi) exController ?pvd Map.empty [] () = (r, ())"
    by (metis old.unit.exhaust surj_pair)
  from claim_created_or_deleted [OF readable _ r] have "\<forall>p. r \<noteq> Panic p"
    by (auto simp: exPvcApi_def)
  with r show ?thesis by blast
qed

text \<open>A single failed read makes the wait panic, in the next round or after the last one.\<close>

lemma failed_read_panics:
  assumes "waitPvc api (Suc k) (Some pvc) mes w = (r, w')"
    and "GetPvcByName api (pvc_Name pvc) w = (Inl err, w1)"
  shows "(\<exists>p. r = Panic p) \<or> (\<exists>m. r = Ret (Inr (None, m)))"
  using assms by (cases k) auto

subsection \<open>Slips in the configuration\<close>

text \<open>
  The test for a work directory inside a persistent directory compares characters, not
  path elements: a sibling whose name starts the name of the work directory counts as its
  parent, and then the work directory gets no volume.
\<close>

lemma sibling_directory_hides_work_dir:
  "finishWorkDir ''/home/app2'' False
     (mountDir ''/home/app2'' 0 ''/home/app'' claim (initialWorkDir cls)) =
     ([claimVolume (persistVolName 0) claim], [mountAt (persistVolName 0) ''/home/app''])"
  by (simp add: finishWorkDir_def mountDir_def initialWorkDir_def hasPrefix_def)

text \<open>The pull policy of the configuration is read exactly when an image is configured.\<close>

lemma pull_policy_needs_image:
  "devConfigOf c container = Some d \<Longrightarrow>
     GetImagePullPolicy c container = (if cd_Image d = [] then ''IfNotPresent'' else cd_ImagePullPolicy d)"
  by (simp add: GetImagePullPolicy_def)

text \<open>A container configuration without a development part makes the environment panic.\<close>

lemma env_without_dev_panics:
  "v \<in> set vs \<Longrightarrow> configMatches container v \<Longrightarrow> cc_Dev v = None \<Longrightarrow> \<exists>p. devEnvMap container vs m = Panic p"
  by (induction vs arbitrary: m) (auto split: option.splits)


end
