(* ===== verification/DevModeProps.thy ===== *)
theory DevModeProps
  imports DevMode DevPodProps AppMetaProps
begin

text \<open>
  Entering and leaving dev mode with a pod: the pod that is found as the dev pod, the way
  back to the original pod, and what the end of dev mode does when that way is blocked.
\<close>

subsection \<open>The dev pod\<close>

lemma sidecarPods_member:
  "p \<in> set (sidecarPods pods) \<longleftrightarrow> p \<in> set pods \<and> \<not> pod_Deleting p \<and>
     (\<exists>d\<in>set (ps_Containers (pod_Spec p)). pc_Name d = DefaultNocalhostSideCarName)"
  by (auto simp: sidecarPods_def split: if_splits)

lemma latestPod_max:
  "latestPod p ps \<in> set (p # ps) \<and>
     (\<forall>q\<in>set (p # ps). atoiValue (pod_ResourceVersion q) \<le> atoiValue (pod_ResourceVersion (latestPod p ps)))"
proof (induction ps arbitrary: p)
  case Nil
  then show ?case by (simp add: latestPod_def)
next
  case (Cons q ps)
  let ?p = "if atoiValue (pod_ResourceVersion q) > atoiValue (pod_ResourceVersion p) then q else p"
  have "latestPod p (q # ps) = latestPod ?p ps" by (simp add: latestPod_def)
  with Cons.IH [of ?p] show ?case by (auto split: if_splits)
qed

text \<open>the name returned by \<open>findDevPodName\<close> is that of a pod of the list that is not being
  deleted, runs the side-car, has two ready containers among the dev container and the
  side-car, and has the highest resource version of all pods with a side-car.
\<close>

theorem dev_pod_found:
  assumes "findDevPodName pods = Inr n"
  shows "\<exists>p\<in>set pods. pod_Name p = n \<and> \<not> pod_Deleting p \<and>
    (\<exists>d\<in>set (ps_Containers (pod_Spec p)). pc_Name d = DefaultNocalhostSideCarName) \<and>
    length (filter (\<lambda>st. isDevStatus p st \<and> cst_Ready st) (pst_ContainerStatuses (pod_Status p))) = 2 \<and>
    (\<forall>q\<in>set (sidecarPods pods). atoiValue (pod_ResourceVersion q) \<le> atoiValue (pod_ResourceVersion p))"
proof (cases "sidecarPods pods")
  case Nil
  with assms show ?thesis by (simp add: findDevPodName_def)
next
  case (Cons p ps)
  note m = latestPod_max [of p ps]
  from m Cons have "latestPod p ps \<in> set (sidecarPods pods)" by simp
  note mem = this [unfolded sidecarPods_member]
  from assms Cons have "n = pod_Name (latestPod p ps)"
    and "length (filter (\<lambda>st. isDevStatus (latestPod p ps) st \<and> cst_Ready st)
           (pst_ContainerStatuses (pod_Status (latestPod p ps)))) = 2"
    by (auto simp: findDevPodName_def split: if_splits)
  with mem m Cons show ?thesis by (intro bexI [of _ "latestPod p ps"]) simp_all
qed

theorem dev_pod_found_witness:
  "\<exists>p. pod_Name p = ''web-2'' \<and> \<not> pod_Deleting p \<and> findDevPodName [p] = Inr ''web-2''"
proof -
  define st where "st = (\<lambda>n. \<lparr>cst_Name = n, cst_Ready = True, cst_Running = True, cst_Terminated = False, cst_Waiting = None\<rparr>)"
  define p where "p = \<lparr>pod_Kind = ''Pod'', pod_Name = ''web-2'', pod_Labels = Map.empty, pod_Annotations = Map.empty,
     pod_OwnerReferences = [], pod_ResourceVersion = ''7'', pod_Deleting = False,
     pod_Spec = \<lparr>ps_Containers = [exContainer ''nocalhost-dev'', exContainer ''nocalhost-sidecar''], ps_Volumes = [], ps_Other = []\<rparr>,
     pod_Status = \<lparr>pst_Phase = ''Running'', pst_Conditions = [],
       pst_ContainerStatuses = [st ''nocalhost-dev'', st ''nocalhost-sidecar'']\<rparr>, pod_Other = []\<rparr>"
  have "findDevPodName [p] = Inr ''web-2''"
    by (simp add: p_def st_def findDevPodName_def sidecarPods_def latestPod_def exContainer_def isDevStatus_def
        devContainerNameOf_def DefaultNocalhostSideCarName_def NocalhostDefaultDevContainerName_def)
  with dev_pod_found [OF this] show ?thesis by auto
qed

subsection \<open>The cluster as a store of pods\<close>

text \<open>
  What a cluster does with pods: a pod that exists can be read and deleted, and under a free
  name a pod can be created. What the server stores for a pod it is asked to create is up to it,
  \<open>admit q p\<close>: it fills in defaults, owns the resource version and the status, and may have its own
  admission plugins. It keeps the name and the annotation with the recorded original.
\<close>

definition podStore ::
  "'w podApi \<Rightarrow> ('w \<Rightarrow> string \<Rightarrow> KPod option) \<Rightarrow> (KPod \<Rightarrow> KPod \<Rightarrow> bool) \<Rightarrow> bool" where
  "podStore api look admit \<longleftrightarrow>
     (\<forall>n w p. look w n = Some p \<longrightarrow> GetPod api n w = (Inr p, w)) \<and>
     (\<forall>n w. look w n \<noteq> None \<longrightarrow> (\<exists>w'. DeletePodByName api n w = (None, w') \<and> look w' = (look w)(n := None))) \<and>
     (\<forall>p w. look w (pod_Name p) = None \<longrightarrow>
        (\<exists>w' q. CreatePod api p w = (None, w') \<and> look w' = (look w)(pod_Name p \<mapsto> q) \<and> admit q p)) \<and>
     (\<forall>p q. admit q p \<longrightarrow> pod_Annotations q OriginWorkloadDefinition = pod_Annotations p OriginWorkloadDefinition)"

text \<open>
  The patches that the user has configured for the container, applied to the resource of the
  controller, leave the recorded original alone.
\<close>

definition patchesKeepOrigin ::
  "'w podApi \<Rightarrow> ('w \<Rightarrow> string \<Rightarrow> KPod option) \<Rightarrow> Controller \<Rightarrow> string \<Rightarrow> string \<Rightarrow> bool" where
  "patchesKeepOrigin api look c container kind \<longleftrightarrow>
     (\<forall>d i w p. devConfigOf c container = Some d \<longrightarrow> i \<in> set (cd_Patches d) \<longrightarrow> look w (ctl_Name c) = Some p \<longrightarrow>
        (\<exists>q. look (snd (PatchResource api kind (ctl_Name c) (pi_Patch i) (pi_Type i) w)) (ctl_Name c) = Some q \<and>
             pod_Annotations q OriginWorkloadDefinition = pod_Annotations p OriginWorkloadDefinition))"

text \<open>Calls about claims change no pod.\<close>

definition claimsApart :: "'w pvcApi \<Rightarrow> ('w \<Rightarrow> string \<Rightarrow> KPod option) \<Rightarrow> bool" where
  "claimsApart api look \<longleftrightarrow>
     (\<forall>l w. look (snd (GetPvcByLabels api l w)) = look w) \<and>
     (\<forall>n l a q k w. look (snd (CreatePVC api n l a q k w)) = look w) \<and>
     (\<forall>n w. look (snd (GetPvcByName api n w)) = look w) \<and>
     (\<forall>p w. look (snd (SearchEvents api p w)) = look w) \<and>
     (\<forall>n w. look (snd (DeletePVC api n w)) = look w)"

definition jsonRoundTrip :: "'w podApi \<Rightarrow> bool" where
  "jsonRoundTrip api \<longleftrightarrow> (\<forall>p s. MarshalPod api p = Inr s \<longrightarrow> UnmarshalPod api s = Inr p)"

lemma claimsApartD:
  assumes "claimsApart api look"
  shows "GetPvcByLabels api l w = (r1, w') \<Longrightarrow> look w' = look w"
    and "CreatePVC api n la a q k w = (r2, w') \<Longrightarrow> look w' = look w"
    and "GetPvcByName api n w = (r2, w') \<Longrightarrow> look w' = look w"
    and "SearchEvents api p w = (r3, w') \<Longrightarrow> look w' = look w"
    and "DeletePVC api n w = (r4, w') \<Longrightarrow> look w' = look w"
  using assms unfolding claimsApart_def by (metis snd_conv)+

lemma waitPvc_keeps:
  "claimsApart api look \<Longrightarrow> waitPvc api k pvc mes w = (r, w') \<Longrightarrow> look w' = look w"
proof (induction k arbitrary: pvc mes w)
  case (Suc k)
  show ?case
  proof (cases pvc)
    case (Some q)
    obtain g w1 where get: "GetPvcByName api (pvc_Name q) w = (g, w1)" by (metis surj_pair)
    have w1: "look w1 = look w" using claimsApartD(3) [OF Suc.prems(1) get] .
    show ?thesis
    proof (cases g)
      case (Inl err)
      with Suc.prems Some get Suc.IH [of None mes w1] w1 show ?thesis by simp
    next
      case (Inr p)
      obtain m waits where scan: "scanConditions (pvc_Conditions p) mes = (m, waits)" by (metis surj_pair)
      obtain e w2 where ev: "SearchEvents api p w1 = (e, w2)" by (metis surj_pair)
      have w2: "look w2 = look w" using claimsApartD(4) [OF Suc.prems(1) ev] w1 by simp
      show ?thesis
        using Suc.prems Some get Inr scan ev w1 w2 Suc.IH [of "Some p" m w2]
        by (cases e) (auto split: if_splits)
    qed
  qed (use Suc.prems in simp)
qed simp

lemma createPvc_keeps:
  assumes "claimsApart api look" and "createPvcForPersistentVolumeDir api c pvd labels cls w = (r, w')"
  shows "look w' = look w"
proof -
  let ?n = "ctl_AppName c @ ''-'' @ itoa (UnixNano api w)"
  let ?cap = "if pvd_Capacity pvd = [] then ''10Gi'' else pvd_Capacity pvd"
  let ?cls = "if cls = [] then None else Some cls"
  obtain q w1 where cr: "CreatePVC api ?n labels [PersistentVolumeDirLabel \<mapsto> pvd_Path pvd] ?cap ?cls w = (q, w1)"
    by (metis surj_pair)
  have w1: "look w1 = look w" using claimsApartD(2) [OF assms(1) cr] .
  show ?thesis
  proof (cases q)
    case (Inl err)
    with cr w1 assms(2) show ?thesis by (auto simp: createPvcForPersistentVolumeDir_def)
  next
    case (Inr pvc)
    obtain s w2 where wait: "waitPvc api 30 (Some pvc) [] w1 = (s, w2)" by (metis surj_pair)
    have w2: "look w2 = look w" using waitPvc_keeps [OF assms(1) wait] w1 by simp
    have del: "DeletePVC api n w2 = (e, w3) \<Longrightarrow> look w3 = look w" for n e w3
      using claimsApartD(5) [OF assms(1)] w2 by metis
    show ?thesis
      using assms(2) cr Inr wait w1 w2
      unfolding createPvcForPersistentVolumeDir_def
      by (auto split: if_splits outcome.splits sum.splits option.splits prod.splits dest!: del)
  qed
qed

lemma claimFor_keeps:
  assumes "claimsApart api look" and "claimFor sha api c container dup pvd cls w = (r, w')"
  shows "look w' = look w"
proof -
  obtain q w1 where get: "GetPvcByLabels api (pvcLabels sha c dup (pvd_Path pvd)) w = (q, w1)"
    by (metis surj_pair)
  have w1: "look w1 = look w" using claimsApartD(1) [OF assms(1) get] .
  have cr: "createPvcForPersistentVolumeDir api c pvd labels k w1 = (s, w2) \<Longrightarrow> look w2 = look w" for labels k s w2
    using createPvc_keeps [OF assms(1)] w1 by metis
  show ?thesis
    using assms(2) get w1 unfolding claimFor_def
    by (auto split: if_splits outcome.splits sum.splits prod.splits dest!: cr)
qed

lemma persistLoop_keeps:
  assumes "claimsApart api look"
  shows "persistLoop sha api c container dup i pvds st w = (r, w') \<Longrightarrow> look w' = look w"
proof (induction pvds arbitrary: i st w)
  case (Cons pvd pvds)
  obtain q w1 where cl: "claimFor sha api c container dup pvd (wd_storageClass st) w = (q, w1)"
    by (metis surj_pair)
  have w1: "look w1 = look w" using claimFor_keeps [OF assms cl] .
  show ?case
  proof (cases "pvd_Path pvd = []")
    case False
    have step: "persistLoop sha api c container dup (Suc i) pvds st' w1 = (r, w') \<Longrightarrow> look w' = look w" for st'
      using Cons.IH w1 by metis
    show ?thesis
      using Cons.prems False cl w1
      by (auto split: outcome.splits sum.splits prod.splits option.splits dest!: step)
  qed (use Cons in simp)
qed simp

lemma genDevSpec_keeps:
  assumes "claimsApart (pvcs api) look" and "genDevSpec libs api c spec ops dup w = (r, w')"
  shows "look w' = look w"
proof -
  have gen: "genWorkDirAndPVAndMounts sha (pvcs api) c container cls ignoreW dup w = (q, w1) \<Longrightarrow> look w1 = look w"
    for sha container cls ignoreW q w1
    by (auto simp: genWorkDirAndPVAndMounts_def split: prod.splits outcome.splits sum.splits
        dest!: persistLoop_keeps [OF assms(1)])
  have full: "genContainersAndVolumes order sha parseQ (pvcs api) c spec container img cls dup w = (q, w1) \<Longrightarrow>
      look w1 = look w" for order sha parseQ container img cls q w1
    unfolding genContainersAndVolumes_def Let_def
    by (auto split: prod.splits outcome.splits sum.splits dest!: gen)
  show ?thesis
    using assms(2) unfolding genDevSpec_def
    by (auto split: prod.splits outcome.splits sum.splits dest!: full)
qed

subsection \<open>Into dev mode and back\<close>

lemma annotations_differ [simp]: "OriginWorkloadDefinition \<noteq> NocalhostDevContainerAnnotations"
  by (simp add: OriginWorkloadDefinition_def NocalhostDevContainerAnnotations_def)

lemma applyPatches_keep:
  assumes "patchesKeepOrigin api look c container kind" and "devConfigOf c container = Some d"
  shows "set ps \<subseteq> set (cd_Patches d) \<Longrightarrow> look w (ctl_Name c) = Some p \<Longrightarrow>
    \<exists>q. look (applyPatches api kind (ctl_Name c) ps w) (ctl_Name c) = Some q \<and>
      pod_Annotations q OriginWorkloadDefinition = pod_Annotations p OriginWorkloadDefinition"
proof (induction ps arbitrary: w p)
  case (Cons i ps)
  then have "i \<in> set (cd_Patches d)" by simp
  with assms Cons.prems(2) obtain q where
    q: "look (snd (PatchResource api kind (ctl_Name c) (pi_Patch i) (pi_Type i) w)) (ctl_Name c) = Some q"
    "pod_Annotations q OriginWorkloadDefinition = pod_Annotations p OriginWorkloadDefinition"
    unfolding patchesKeepOrigin_def by meson
  from Cons.IH [OF _ q(1)] Cons.prems(1) q(2) show ?case by simp
qed simp

lemma createAndPatch_stores:
  assumes store: "podStore api look admit" and patches: "patchesKeepOrigin api look c container (pod_Kind p)"
    and free: "look w (ctl_Name c) = None" and name: "pod_Name p = ctl_Name c"
    and run: "createAndPatch api c container p w = (Ret None, w')"
  shows "\<exists>q. look w' (ctl_Name c) = Some q \<and>
    pod_Annotations q OriginWorkloadDefinition = pod_Annotations p OriginWorkloadDefinition"
proof -
  from store free name obtain w1 q where cr: "CreatePod api p w = (None, w1)"
    and look: "look w1 = (look w)(ctl_Name c \<mapsto> q)" and q: "admit q p"
    unfolding podStore_def by metis
  from q store have anno: "pod_Annotations q OriginWorkloadDefinition = pod_Annotations p OriginWorkloadDefinition"
    unfolding podStore_def by blast
  from run cr name obtain d where d: "devConfigOf c container = Some d"
    "w' = applyPatches api (pod_Kind p) (ctl_Name c) (cd_Patches d) w1"
    by (cases "devConfigOf c container") (auto simp: createAndPatch_def patchAfterDevContainerReplaced_def)
  with applyPatches_keep [OF patches d(1) subset_refl, of w1 q] look anno show ?thesis by auto
qed

lemma rawReplace_records:
  assumes store: "podStore api look admit" and patches: "patchesKeepOrigin api look c (ops_Container ops) (pod_Kind p)"
    and apart: "claimsApart (pvcs api) look"
    and pod: "look w (ctl_Name c) = Some p" "pod_Name p = ctl_Name c"
    and run: "RawPod_ReplaceImage libs api c ops w = (Ret None, w1)"
  shows "\<exists>bys q. MarshalPod api (p\<lparr>pod_Status := emptyStatus, pod_ResourceVersion := []\<rparr>) = Inr bys \<and>
    look w1 (ctl_Name c) = Some q \<and> pod_Annotations q OriginWorkloadDefinition = Some bys"
proof -
  let ?p1 = "p\<lparr>pod_Status := emptyStatus, pod_ResourceVersion := []\<rparr>"
  have get: "GetPod api (ctl_Name c) w = (Inr p, w)" using store pod(1) by (simp add: podStore_def)
  from run get obtain bys where m: "MarshalPod api ?p1 = Inr bys" and own: "pod_OwnerReferences p = []"
    by (auto simp: RawPod_ReplaceImage_def split: if_splits sum.splits)
  let ?p2 = "?p1\<lparr>pod_Annotations := (pod_Annotations p)(OriginWorkloadDefinition \<mapsto> bys,
      NocalhostDevContainerAnnotations \<mapsto> GetDevContainerName c (ops_Container ops))\<rparr>"
  obtain r w2 where gen: "genDevSpec libs api c (pod_Spec p) ops False w = (r, w2)" by (metis surj_pair)
  have w2: "look w2 = look w" using genDevSpec_keeps [OF apart gen] .
  obtain w3 where del: "DeletePodByName api (ctl_Name c) w2 = (None, w3)"
    and w3: "look w3 = (look w2)(ctl_Name c := None)"
    using store pod(1) w2 unfolding podStore_def by (metis option.distinct(1))
  from run get m own gen del obtain spec where
    run': "createAndPatch api c (ops_Container ops) (?p2\<lparr>pod_Spec := spec\<rparr>) w3 = (Ret None, w1)"
    by (auto simp: RawPod_ReplaceImage_def split: outcome.splits sum.splits)
  have "\<exists>q. look w1 (ctl_Name c) = Some q \<and> pod_Annotations q OriginWorkloadDefinition =
      pod_Annotations (?p2\<lparr>pod_Spec := spec\<rparr>) OriginWorkloadDefinition"
    using patches w3 pod(2) by (intro createAndPatch_stores [OF store _ _ _ run']) simp_all
  with m show ?thesis by auto
qed

text \<open>C12: For a pod without owner, dev mode can be undone, in a cluster in which an existing pod can be
  deleted and a pod can be created under a free name, whatever the server fills in as long as it keeps
  the name and the recorded original, and with configured patches for the container that leave the recorded
  original alone: after \<open>ReplaceImage\<close> has returned without error, \<open>RollBack\<close> succeeds and leaves
  under the name of the pod what the server makes of the pod there was before, without its status
  and resource version.\<close>

theorem raw_pod_round_trip:
  assumes store: "podStore api look admit" and patches: "patchesKeepOrigin api look c (ops_Container ops) (pod_Kind p)"
    and apart: "claimsApart (pvcs api) look" and json: "jsonRoundTrip api"
    and pod: "look w (ctl_Name c) = Some p" "pod_Name p = ctl_Name c"
    and run: "RawPod_ReplaceImage libs api c ops w = (Ret None, w1)"
  shows "\<exists>w2 q. RawPod_RollBack api c reset w1 = (None, w2) \<and> look w2 (ctl_Name c) = Some q \<and>
    admit q (p\<lparr>pod_Status := emptyStatus, pod_ResourceVersion := []\<rparr>)"
proof -
  let ?p1 = "p\<lparr>pod_Status := emptyStatus, pod_ResourceVersion := []\<rparr>"
  obtain bys d where m: "MarshalPod api ?p1 = Inr bys" and d: "look w1 (ctl_Name c) = Some d"
    and anno: "pod_Annotations d OriginWorkloadDefinition = Some bys"
    using rawReplace_records [OF store patches apart pod run] by blast
  from json m have u: "UnmarshalPod api bys = Inr ?p1" by (simp add: jsonRoundTrip_def)
  from store d have get: "GetPod api (ctl_Name c) w1 = (Inr d, w1)" by (simp add: podStore_def)
  obtain w2 where del: "DeletePodByName api (ctl_Name c) w1 = (None, w2)"
    and w2: "look w2 = (look w1)(ctl_Name c := None)"
    using store d unfolding podStore_def by (metis option.distinct(1))
  have free: "look w2 (pod_Name ?p1) = None" using w2 pod(2) by simp
  obtain w3 q where cr: "CreatePod api ?p1 w2 = (None, w3)"
    and w3: "look w3 = (look w2)(pod_Name ?p1 \<mapsto> q)" and q: "admit q ?p1"
    using store free unfolding podStore_def by meson
  with get anno u del pod(2) show ?thesis by (simp add: RawPod_RollBack_def)
qed

subsection \<open>A concrete cluster\<close>

definition exPod :: KPod where
  "exPod = \<lparr>pod_Kind = ''Pod'', pod_Name = ''web'', pod_Labels = Map.empty, pod_Annotations = Map.empty,
     pod_OwnerReferences = [], pod_ResourceVersion = [], pod_Deleting = False, pod_Spec = exSpec,
     pod_Status = emptyStatus, pod_Other = []\<rparr>"

type_synonym exWorld = "string \<Rightarrow> KPod option"

text \<open>The server gives a created pod a resource version and a uid.\<close>

definition exAdmitted :: "KPod \<Rightarrow> KPod" where
  "exAdmitted p = p\<lparr>pod_ResourceVersion := ''1'', pod_Other := ''uid''\<rparr>"

definition exPodApi :: "exWorld podApi" where
  "exPodApi =
     \<lparr>pvcs = exPvcApi,
      GetPod = \<lambda>n w. (case w n of Some p \<Rightarrow> Inr p | None \<Rightarrow> Inl ''not found'', w),
      DeletePodByName = \<lambda>n w. if w n = None then (Some ''not found'', w) else (None, w(n := None)),
      DeletePod = \<lambda>n w. (None, w(n := None)),
      CreatePod = \<lambda>p w. if w (pod_Name p) = None then (None, w(pod_Name p \<mapsto> exAdmitted p)) else (Some ''exists'', w),
      PatchResource = \<lambda>_ _ _ _ w. (None, w),
      ListPods = \<lambda>_ w. (Inr [], w),
      ShortUuid = \<lambda>w. (''abc'', w),
      MarshalPod = \<lambda>p. if p = exPod then Inr ''json'' else Inl ''unsupported'',
      UnmarshalPod = \<lambda>s. if s = ''json'' then Inr exPod else Inl ''syntax'',
      UnmarshalPodInto = \<lambda>s _. if s = ''json'' then Inr exPod else Inl ''syntax''\<rparr>"

definition exLibs :: podLibs where
  "exLibs = \<lparr>lib_order = exOrder, lib_sha = id, lib_quantity = Inr\<rparr>"

definition exOps :: DevStartOptions where
  "exOps = \<lparr>ops_Container = ''main'', ops_DevImage = [], ops_StorageClass = []\<rparr>"

lemma exPodApi_laws:
  "podStore exPodApi id (\<lambda>q p. q = exAdmitted p)" "patchesKeepOrigin exPodApi id exController container kind"
  "claimsApart (pvcs exPodApi) id" "jsonRoundTrip exPodApi"
proof -
  show "podStore exPodApi id (\<lambda>q p. q = exAdmitted p)"
    by (auto simp: podStore_def exPodApi_def exAdmitted_def)
  show "patchesKeepOrigin exPodApi id exController container kind" by (simp add: patchesKeepOrigin_def exPodApi_def)
  show "claimsApart (pvcs exPodApi) id" by (simp add: claimsApart_def exPodApi_def exPvcApi_def)
  show "jsonRoundTrip exPodApi" by (simp add: jsonRoundTrip_def exPodApi_def)
qed

lemma exReplace_succeeds: "\<exists>w1. RawPod_ReplaceImage exLibs exPodApi exController exOps [''web'' \<mapsto> exPod] = (Ret None, w1)"
proof -
  let ?w = "[''web'' \<mapsto> exPod]"
  obtain spec' sidecar vols where gen: "exGen ?w = (Ret (Inr (spec', 0, sidecar, vols)), ?w)"
    using exGen_succeeds [of ?w] by blast
  have spec: "genDevSpec exLibs exPodApi exController exSpec exOps False ?w =
      (Ret (Inr (patchDevContainerToPodSpec spec' ''main'' 0 sidecar vols)), ?w)"
    using gen by (simp add: genDevSpec_def exLibs_def exOps_def exPodApi_def exGen_def)
  have same: "exPod\<lparr>pod_Status := emptyStatus, pod_ResourceVersion := []\<rparr> = exPod"
    by (simp add: exPod_def)
  have fields: "pod_Spec exPod = exSpec" "pod_OwnerReferences exPod = []" "pod_Name exPod = ''web''"
    "ctl_Name exController = ''web''" "ops_Container exOps = ''main''"
    by (simp_all add: exPod_def exController_def exOps_def)
  have dev: "devConfigOf exController ''main'' = Some exDevConfig"
    by (simp add: devConfigOf_def exController_def GetContainerDevConfigOrDefault_def GetContainerDevConfig_def)
  have patches: "applyPatches exPodApi k n (cd_Patches exDevConfig) w = w" for k n w
    by (simp add: exDevConfig_def)
  show ?thesis
    unfolding RawPod_ReplaceImage_def
    by (simp add: exPodApi_def same fields)
       (simp add: exPodApi_def [symmetric] spec, simp add: exPodApi_def createAndPatch_def
         patchAfterDevContainerReplaced_def dev patches fields)
qed

theorem raw_pod_round_trip_witness:
  "\<exists>w1 w2. RawPod_ReplaceImage exLibs exPodApi exController exOps [''web'' \<mapsto> exPod] = (Ret None, w1) \<and>
     RawPod_RollBack exPodApi exController False w1 = (None, w2) \<and> w2 ''web'' = Some (exAdmitted exPod)"
proof -
  obtain w1 where run: "RawPod_ReplaceImage exLibs exPodApi exController exOps [''web'' \<mapsto> exPod] = (Ret None, w1)"
    using exReplace_succeeds by blast
  have pod: "id [''web'' \<mapsto> exPod] (ctl_Name exController) = Some exPod" "pod_Name exPod = ctl_Name exController"
    by (simp_all add: exController_def exPod_def)
  have same: "exPod\<lparr>pod_Status := emptyStatus, pod_ResourceVersion := []\<rparr> = exPod" by (simp add: exPod_def)
  have name: "ctl_Name exController = ''web''" by (simp add: exController_def)
  from raw_pod_round_trip [OF exPodApi_laws pod run, of False] run show ?thesis
    unfolding name same by auto
qed

text \<open>
  The patches of the configuration are read through a pointer that is nil for a service
  without development configuration. By then the original pod is gone: the dev pod has been
  created in its place.
\<close>

lemma no_config_panics_after_creation:
  assumes "devConfigOf c container = None" and "CreatePod api p w = (None, w1)"
  shows "createAndPatch api c container p w = (Panic ''nil pointer dereference'', w1)"
  using assms by (simp add: createAndPatch_def patchAfterDevContainerReplaced_def)

lemma short_identifier_panics:
  "length (ctl_Identifier c) < 5 \<Longrightarrow> \<exists>p w1. getDuplicateResourceName api c w = (Panic p, w1)"
  by (auto simp: getDuplicateResourceName_def split: prod.splits)

subsection \<open>The end of dev mode\<close>

lemma svcDevEnd_not_developing:
  "fst (checkIfSvcDeveloping (Some (svcDevEnd dm name identifier t mode)) name identifier t mode) = NONE"
  by (auto simp: checkIfSvcDeveloping_def svcDevEnd_def openDevMeta_def split: option.splits prod.splits)

text \<open>C38: the end of dev mode always succeeds once the file synchronisation is stopped (or its
  failure is ignored), and the record of the caller no longer has the workload in that mode,
  whatever \<open>RollBack\<close> and the update of the secret returned: their errors are only logged.
\<close>

theorem dev_end_forgets_whatever_rollback_does:
  assumes "stopSync w = (e, w1)" and "e = None \<or> reset \<or> (\<exists>err. e = Some (err, True))"
  shows "\<exists>a1 w3. DevEnd cx op stopSync defaultRollBack api c reset a w = (None, a1, w3) \<and>
    fst (CheckIfSvcDeveloping a1 (ctl_Name c) (ctl_Identifier c) (ctl_Type c) (ctl_DevModeType c)) = NONE"
proof -
  have stop: "(case e of None \<Rightarrow> None
      | Some (err, notExist) \<Rightarrow> if \<not> reset \<and> \<not> notExist then Some err else None) = None"
    using assms(2) by (cases e) auto
  obtain rb w2 where rb: "RollBack defaultRollBack api c reset w1 = (rb, w2)" by (metis surj_pair)
  let ?d = "svcDevEnd (am_DevMeta a) (ctl_Name c) (ctl_Identifier c) (ctl_Type c) (ctl_DevModeType c)"
  obtain ue a1 w3 where up: "Update cx op (a\<lparr>am_DevMeta := Some ?d\<rparr>) w2 = (ue, a1, w3)"
    by (metis surj_pair)
  have "sameButSecret (a\<lparr>am_DevMeta := Some ?d\<rparr>) a1"
    using up retryUpdate_frame unfolding Update_def by metis
  then have "a1 = a\<lparr>am_DevMeta := Some ?d, am_Secret := am_Secret a1\<rparr>" by (rule sameButSecretD)
  from arg_cong [OF this, of am_DevMeta] have dev: "am_DevMeta a1 = Some ?d" by simp
  have "fst (CheckIfSvcDeveloping a1 (ctl_Name c) (ctl_Identifier c) (ctl_Type c) (ctl_DevModeType c)) = NONE"
    using svcDevEnd_not_developing [of "am_DevMeta a" "ctl_Name c" "ctl_Identifier c" "ctl_Type c" "ctl_DevModeType c"]
    by (auto simp: CheckIfSvcDeveloping_def dev split: prod.splits)
  moreover have "DevEnd cx op stopSync defaultRollBack api c reset a w = (None, a1, w3)"
    using stop by (simp add: DevEnd_def SvcDevEnd_def assms(1) rb up)
  ultimately show ?thesis by blast
qed

text \<open>A cluster that answers no request about pods.\<close>

definition downPodApi :: "'w podApi" where
  "downPodApi =
     \<lparr>pvcs = exPvcApi, GetPod = \<lambda>_ w. (Inl ''timeout'', w), DeletePodByName = \<lambda>_ w. (Some ''timeout'', w),
      DeletePod = \<lambda>_ w. (Some ''timeout'', w), CreatePod = \<lambda>_ w. (Some ''timeout'', w),
      PatchResource = \<lambda>_ _ _ _ w. (Some ''timeout'', w), ListPods = \<lambda>_ w. (Inl ''timeout'', w),
      ShortUuid = \<lambda>w. (''abc'', w), MarshalPod = \<lambda>_. Inr ''json'', UnmarshalPod = \<lambda>_. Inl ''syntax'',
      UnmarshalPodInto = \<lambda>_ _. Inl ''syntax''\<rparr>"

theorem dev_end_forgets_witness:
  "RollBack (\<lambda>_ _ w. (None, w)) downPodApi exController False demoWorld = (Some ''timeout'', demoWorld) \<and>
   (\<exists>a1 w3. DevEnd plainCodecs memApi (\<lambda>w. (None, w)) (\<lambda>_ _ w. (None, w)) downPodApi exController False
       demoMeta demoWorld = (None, a1, w3) \<and>
     fst (CheckIfSvcDeveloping a1 ''web'' ''i-1'' Pod ReplaceDevMode) = NONE)"
proof -
  have fields: "ctl_Name exController = ''web''" "ctl_Identifier exController = ''i-1''"
    "ctl_Type exController = Pod" "ctl_DevModeType exController = ReplaceDevMode"
    by (simp_all add: exController_def)
  have "RollBack (\<lambda>_ _ w. (None, w)) downPodApi exController False demoWorld = (Some ''timeout'', demoWorld)"
    by (simp add: RollBack_def fields IsDuplicateDevMode_def DuplicateDevMode_def ReplaceDevMode_def
        RawPod_RollBack_def downPodApi_def)
  with dev_end_forgets_whatever_rollback_does [of "\<lambda>w. (None, w)" demoWorld None demoWorld False plainCodecs memApi
      "\<lambda>_ _ w. (None, w)" downPodApi exController demoMeta]
  show ?thesis by (simp add: fields)
qed

subsection \<open>Paths\<close>

text \<open>A negative number in a path indexes the slice with it.\<close>

lemma negative_index_panics:
  assumes "\<not> hasPrefix path [CHR 0x5C, CHR ''/'']"
    and "firstNumber 0 (split (trimPrefix path ''/'') ''/'') = Some (k, n)"
    and "- (2 ^ 63) \<le> n" and "n < 0"
    and "NestedSlice lib u (take k (split (trimPrefix path ''/'') ''/'')) = Inr (Some xs)"
  shows "\<exists>p. GetUnstructuredMapByPath lib path u = Panic p"
proof -
  from assms(3,4) have "wrapInt (n + 1) = n + 1" by (simp add: wrapInt_def)
  with assms show ?thesis by (simp add: GetUnstructuredMapByPath_def)
qed

end
