(* ===== verification/PortForward.thy ===== *)
theory PortForward
  imports DevPod Validate ResCache
begin

text \<open>
  Port forwards: the records in the profile of an application and the commands of the client
  (\<open>controller/profile.go\<close>, \<open>controller/port_forward.go\<close>). The daemon's manager of running
  forwards is in the theory \<open>PfManager\<close>.

  The database of profiles is the record \<open>profApi\<close>. It is locked while a profile is open for
  update, so \<open>UpdateSvcProfile\<close> is one step.
\<close>

subsection \<open>Profiles in the database\<close>

record AppProfileV2 =
  ap_Identifier :: string
  ap_SvcProfile :: "SvcProfileV2 list"
  ap_Other :: string

text \<open>The namespace, name and namespace id that select the database of an application.\<close>

type_synonym appKey = "string \<times> string \<times> string"

record 'w profApi =
  readProfile :: "appKey \<Rightarrow> 'w \<Rightarrow> (gerr + AppProfileV2) \<times> 'w"
  openProfile :: "appKey \<Rightarrow> 'w \<Rightarrow> gerr + AppProfileV2"
  saveProfile :: "appKey \<Rightarrow> AppProfileV2 \<Rightarrow> 'w \<Rightarrow> gerr option \<times> 'w"
  machineMac :: "string option"
  machineUuid :: "string option"
  machineNanos :: "'w \<Rightarrow> int"

text \<open>The service a command is about: its application, name and type.\<close>

type_synonym svcKey = "appKey \<times> string \<times> string"

definition GetProfile :: "'w profApi \<Rightarrow> svcKey \<Rightarrow> 'w \<Rightarrow> (gerr + SvcProfileV2) \<times> 'w" where
  "GetProfile api k w =
     (case k of (app, name, t) \<Rightarrow>
        (case readProfile api app w of
           (Inl err, w1) \<Rightarrow> (Inl err, w1)
         | (Inr p, w1) \<Rightarrow>
             (case SvcProfileV2_lookup (ap_SvcProfile p) name t of (i, ps) \<Rightarrow> (Inr (ps ! i), w1))))"

definition UpdateSvcProfile ::
  "'w profApi \<Rightarrow> svcKey \<Rightarrow> (SvcProfileV2 \<Rightarrow> gerr + SvcProfileV2) \<Rightarrow> 'w \<Rightarrow> gerr option \<times> 'w" where
  "UpdateSvcProfile api k modify w =
     (case k of (app, name, t) \<Rightarrow>
        (case openProfile api app w of
           Inl err \<Rightarrow> (Some err, w)
         | Inr p \<Rightarrow>
             (case SvcProfileV2_lookup (ap_SvcProfile p) name t of (i, ps) \<Rightarrow>
                (case modify (ps ! i) of
                   Inl err \<Rightarrow> (Some err, w)
                 | Inr s \<Rightarrow>
                     saveProfile api app
                       (p\<lparr>ap_SvcProfile := ps[i := s],
                          ap_Identifier := GenerateIdentifierIfNeeded (machineMac api) (machineUuid api)
                            (machineNanos api w) (ap_Identifier p)\<rparr>) w))))"

definition samePorts :: "int \<Rightarrow> int \<Rightarrow> DevPortForward \<Rightarrow> bool" where
  "samePorts localPort remotePort pf \<longleftrightarrow> pf_LocalPort pf = localPort \<and> pf_RemotePort pf = remotePort"

definition CheckIfPortForwardExists ::
  "'w profApi \<Rightarrow> svcKey \<Rightarrow> int \<Rightarrow> int \<Rightarrow> 'w \<Rightarrow> (bool \<times> gerr option) \<times> 'w" where
  "CheckIfPortForwardExists api k localPort remotePort w =
     (case GetProfile api k w of
        (Inl err, w1) \<Rightarrow> ((False, Some err), w1)
      | (Inr s, w1) \<Rightarrow> ((list_ex (samePorts localPort remotePort) (prof_DevPortForwardList s), None), w1))"

definition portPair :: "int \<Rightarrow> int \<Rightarrow> string" where
  "portPair localPort remotePort = itoa localPort @ '':'' @ itoa remotePort"

definition GetPortForward ::
  "'w profApi \<Rightarrow> svcKey \<Rightarrow> int \<Rightarrow> int \<Rightarrow> 'w \<Rightarrow> (gerr + DevPortForward) \<times> 'w" where
  "GetPortForward api k localPort remotePort w =
     (case GetProfile api k w of
        (Inl err, w1) \<Rightarrow> (Inl err, w1)
      | (Inr s, w1) \<Rightarrow>
          (case find (samePorts localPort remotePort) (prof_DevPortForwardList s) of
             Some pf \<Rightarrow> (Inr pf, w1)
           | None \<Rightarrow> (Inl (''Pf '' @ portPair localPort remotePort @ '' not found''), w1)))"

definition GetPortForwardForSync :: "'w profApi \<Rightarrow> svcKey \<Rightarrow> 'w \<Rightarrow> (gerr + DevPortForward option) \<times> 'w" where
  "GetPortForwardForSync api k w =
     (case GetProfile api k w of
        (Inl err, w1) \<Rightarrow> (Inl err, w1)
      | (Inr s, w1) \<Rightarrow> (Inr (find (\<lambda>pf. pf_Role pf = ''SYNC'') (prof_DevPortForwardList s)), w1))"

text \<open>An unreadable profile counts as one with forwards.\<close>

definition IsPortForwarding :: "'w profApi \<Rightarrow> appKey \<Rightarrow> 'w \<Rightarrow> bool \<times> 'w" where
  "IsPortForwarding api app w =
     (case readProfile api app w of
        (Inl err, w1) \<Rightarrow> (True, w1)
      | (Inr p, w1) \<Rightarrow> (list_ex (\<lambda>s. prof_DevPortForwardList s \<noteq> []) (ap_SvcProfile p), w1))"

definition SetPortForwardedStatus :: "'w profApi \<Rightarrow> svcKey \<Rightarrow> bool \<Rightarrow> 'w \<Rightarrow> gerr option \<times> 'w" where
  "SetPortForwardedStatus api k b = UpdateSvcProfile api k (\<lambda>s. Inr (s\<lparr>prof_PortForwarded := b\<rparr>))"

definition SetSyncingStatus :: "'w profApi \<Rightarrow> svcKey \<Rightarrow> bool \<Rightarrow> 'w \<Rightarrow> gerr option \<times> 'w" where
  "SetSyncingStatus api k b = UpdateSvcProfile api k (\<lambda>s. Inr (s\<lparr>prof_Syncing := b\<rparr>))"

definition setSyncthingProfileEndStatus :: "'w profApi \<Rightarrow> svcKey \<Rightarrow> 'w \<Rightarrow> gerr option \<times> 'w" where
  "setSyncthingProfileEndStatus api k =
     UpdateSvcProfile api k (\<lambda>s. Inr (s\<lparr>prof_RemoteSyncthingPort := 0, prof_RemoteSyncthingGUIPort := 0,
       prof_LocalSyncthingPort := 0, prof_LocalSyncthingGUIPort := 0, prof_PortForwarded := False,
       prof_Syncing := False, prof_LocalAbsoluteSyncDir := []\<rparr>))"

definition SetSyncthingPort :: "'w profApi \<Rightarrow> svcKey \<Rightarrow> int \<Rightarrow> int \<Rightarrow> int \<Rightarrow> int \<Rightarrow> 'w \<Rightarrow> gerr option \<times> 'w" where
  "SetSyncthingPort api k remotePort remoteGUIPort localPort localGUIPort =
     UpdateSvcProfile api k (\<lambda>s. Inr (s\<lparr>prof_RemoteSyncthingPort := remotePort,
       prof_RemoteSyncthingGUIPort := remoteGUIPort, prof_LocalSyncthingPort := localPort,
       prof_LocalSyncthingGUIPort := localGUIPort\<rparr>))"

definition AddPortForwardToDB :: "'w profApi \<Rightarrow> svcKey \<Rightarrow> DevPortForward \<Rightarrow> 'w \<Rightarrow> gerr option \<times> 'w" where
  "AddPortForwardToDB api k port =
     UpdateSvcProfile api k (\<lambda>s. Inr (s\<lparr>prof_DevPortForwardList := prof_DevPortForwardList s @ [port]\<rparr>))"

text \<open>The list without the entry at an index.\<close>

definition dropAt :: "nat \<Rightarrow> 'a list \<Rightarrow> 'a list" where
  "dropAt i xs = take i xs @ drop (Suc i) xs"

definition deletePf :: "int \<Rightarrow> int \<Rightarrow> SvcProfileV2 \<Rightarrow> gerr + SvcProfileV2" where
  "deletePf localPort remotePort s =
     (case findIndex (samePorts localPort remotePort) (prof_DevPortForwardList s) of
        Some i \<Rightarrow> Inr (s\<lparr>prof_DevPortForwardList := dropAt i (prof_DevPortForwardList s)\<rparr>)
      | None \<Rightarrow> Inl (''Port forward '' @ itoa localPort @ ''-'' @ itoa remotePort @ '' not found''))"

definition DeletePortForwardFromDB :: "'w profApi \<Rightarrow> svcKey \<Rightarrow> int \<Rightarrow> int \<Rightarrow> 'w \<Rightarrow> gerr option \<times> 'w" where
  "DeletePortForwardFromDB api k localPort remotePort = UpdateSvcProfile api k (deletePf localPort remotePort)"

definition setPfStatus :: "string \<Rightarrow> string \<Rightarrow> string \<Rightarrow> DevPortForward \<Rightarrow> DevPortForward" where
  "setPfStatus portStatus reason now pf = pf\<lparr>pf_Status := portStatus, pf_Reason := reason, pf_Updated := now\<rparr>"

definition updatePf :: "int \<Rightarrow> int \<Rightarrow> string \<Rightarrow> string \<Rightarrow> string \<Rightarrow> SvcProfileV2 \<Rightarrow> gerr + SvcProfileV2" where
  "updatePf localPort remotePort portStatus reason now s =
     (case findIndex (samePorts localPort remotePort) (prof_DevPortForwardList s) of
        Some i \<Rightarrow> Inr (s\<lparr>prof_DevPortForwardList := (prof_DevPortForwardList s)
                      [i := setPfStatus portStatus reason now (prof_DevPortForwardList s ! i)]\<rparr>)
      | None \<Rightarrow> Inr s)"

text \<open>An unchanged status is not written, so its reason stays the first one; \<open>now\<close> is the formatted clock.\<close>

definition UpdatePortForwardStatus ::
  "'w profApi \<Rightarrow> svcKey \<Rightarrow> int \<Rightarrow> int \<Rightarrow> string \<Rightarrow> string \<Rightarrow> string \<Rightarrow> 'w \<Rightarrow> gerr option \<times> 'w" where
  "UpdatePortForwardStatus api k localPort remotePort portStatus reason now w =
     (case GetPortForward api k localPort remotePort w of
        (Inl err, w1) \<Rightarrow> (Some err, w1)
      | (Inr pf, w1) \<Rightarrow>
          if pf_Status pf = portStatus then (None, w1)
          else UpdateSvcProfile api k (updatePf localPort remotePort portStatus reason now) w1)"

subsection \<open>Commands of the client\<close>

record PortForwardCommand =
  pfc_NameSpace :: string
  pfc_AppName :: string
  pfc_Service :: string
  pfc_ServiceType :: string
  pfc_PodName :: string
  pfc_LocalPort :: int
  pfc_RemotePort :: int
  pfc_Role :: string
  pfc_Nid :: string
  pfc_Labels :: "(string \<times> string) list"
  pfc_OwnerKind :: string
  pfc_OwnerApiVersion :: string
  pfc_OwnerName :: string

text \<open>
  The daemons of the machine, the one of the user and the one with administrator rights:
  reaching one may fail, and so may a command.
\<close>

record 'w daemonApi =
  GetDaemonClient :: "bool \<Rightarrow> 'w \<Rightarrow> gerr option \<times> 'w"
  sendStop :: "bool \<Rightarrow> PortForwardCommand \<Rightarrow> 'w \<Rightarrow> gerr option \<times> 'w"
  sendStart :: "bool \<Rightarrow> PortForwardCommand \<Rightarrow> 'w \<Rightarrow> gerr option \<times> 'w"
  IsSudoUser :: bool

definition portForwardCommand ::
  "svcKey \<Rightarrow> string \<Rightarrow> int \<Rightarrow> int \<Rightarrow> string \<Rightarrow> PortForwardCommand" where
  "portForwardCommand k podName localPort remotePort role =
     (case k of ((ns, app, nid), svc, t) \<Rightarrow>
        \<lparr>pfc_NameSpace = ns, pfc_AppName = app, pfc_Service = svc, pfc_ServiceType = t, pfc_PodName = podName,
         pfc_LocalPort = localPort, pfc_RemotePort = remotePort, pfc_Role = role, pfc_Nid = nid, pfc_Labels = [],
         pfc_OwnerKind = [], pfc_OwnerApiVersion = [], pfc_OwnerName = []\<rparr>)"

text \<open>A stop command carries no role.\<close>

definition EndDevPortForward ::
  "'w profApi \<Rightarrow> 'w daemonApi \<Rightarrow> svcKey \<Rightarrow> int \<Rightarrow> int \<Rightarrow> 'w \<Rightarrow> gerr option \<times> 'w" where
  "EndDevPortForward api dm k localPort remotePort w =
     (case GetProfile api k w of
        (Inl err, w1) \<Rightarrow> (Some err, w1)
      | (Inr s, w1) \<Rightarrow>
          (case find (samePorts localPort remotePort) (prof_DevPortForwardList s) of
             None \<Rightarrow> (None, w1)
           | Some pf \<Rightarrow>
               (case GetDaemonClient dm (pf_Sudo pf) w1 of
                  (Some err, w2) \<Rightarrow> (Some err, w2)
                | (None, w2) \<Rightarrow> sendStop dm (pf_Sudo pf) (portForwardCommand k [] localPort remotePort []) w2)))"

definition StopPortForward ::
  "'w daemonApi \<Rightarrow> string \<Rightarrow> string \<Rightarrow> string \<Rightarrow> string \<Rightarrow> DevPortForward \<Rightarrow> 'w \<Rightarrow> gerr option \<times> 'w" where
  "StopPortForward dm ns nid app svc pf w =
     (case GetDaemonClient dm (pf_Sudo pf) w of
        (Some err, w1) \<Rightarrow> (Some err, w1)
      | (None, w1) \<Rightarrow>
          sendStop dm (pf_Sudo pf)
            (portForwardCommand ((ns, app, nid), svc, pf_ServiceType pf) (pf_PodName pf) (pf_LocalPort pf)
               (pf_RemotePort pf) []) w1)"

fun endAll :: "'w profApi \<Rightarrow> 'w daemonApi \<Rightarrow> svcKey \<Rightarrow> DevPortForward list \<Rightarrow> 'w \<Rightarrow> 'w" where
  "endAll api dm k [] w = w"
| "endAll api dm k (pf # pfs) w =
     endAll api dm k pfs (snd (EndDevPortForward api dm k (pf_LocalPort pf) (pf_RemotePort pf) w))"

definition StopAllPortForward :: "'w profApi \<Rightarrow> 'w daemonApi \<Rightarrow> svcKey \<Rightarrow> 'w \<Rightarrow> gerr option \<times> 'w" where
  "StopAllPortForward api dm k w =
     (case GetProfile api k w of
        (Inl err, w1) \<Rightarrow> (Some err, w1)
      | (Inr s, w1) \<Rightarrow> (None, endAll api dm k (prof_DevPortForwardList s) w1))"

text \<open>\<open>ve_numErr\<close> is the error of \<open>strconv.Atoi\<close>.\<close>

definition StopPortForwardByPort ::
  "validEnv \<Rightarrow> 'w profApi \<Rightarrow> 'w daemonApi \<Rightarrow> svcKey \<Rightarrow> string \<Rightarrow> 'w \<Rightarrow> gerr option outcome \<times> 'w" where
  "StopPortForwardByPort ve api dm k port w =
     (let ports = split port '':'' in
      case atoi (ports ! 0) of
        None \<Rightarrow> (Ret (Some (wrap [] (ve_numErr ve (ports ! 0)))), w)
      | Some localPort \<Rightarrow>
          if length ports < 2 then (Panic ''index out of range'', w)
          else case atoi (ports ! 1) of
              None \<Rightarrow> (Ret (Some (wrap [] (ve_numErr ve (ports ! 1)))), w)
            | Some remotePort \<Rightarrow>
                (case EndDevPortForward api dm k localPort remotePort w of (e, w1) \<Rightarrow> (Ret e, w1)))"

definition PortForward ::
  "'w profApi \<Rightarrow> 'w daemonApi \<Rightarrow> svcKey \<Rightarrow> string \<Rightarrow> int \<Rightarrow> int \<Rightarrow> string \<Rightarrow> 'w \<Rightarrow> gerr option \<times> 'w" where
  "PortForward api dm k podName localPort remotePort role w =
     (case GetDaemonClient dm (IsSudoUser dm) w of
        (Some err, w1) \<Rightarrow> (Some err, w1)
      | (None, w1) \<Rightarrow>
          (case sendStart dm (IsSudoUser dm) (portForwardCommand k podName localPort remotePort role) w1 of
             (Some err, w2) \<Rightarrow> (Some err, w2)
           | (None, w2) \<Rightarrow> SetPortForwardedStatus api k True w2))"

fun forwardAll ::
  "validEnv \<Rightarrow> 'w profApi \<Rightarrow> 'w daemonApi \<Rightarrow> svcKey \<Rightarrow> string \<Rightarrow> string list \<Rightarrow> 'w \<Rightarrow> 'w" where
  "forwardAll ve api dm k podName [] w = w"
| "forwardAll ve api dm k podName (pf # pfs) w =
     forwardAll ve api dm k podName pfs
       (case GetPortForwardForString ve pf of
          Inl err \<Rightarrow> w
        | Inr (lPort, rPort) \<Rightarrow> snd (PortForward api dm k podName lPort rPort [] w))"

definition PortForwardAfterDevStart ::
  "validEnv \<Rightarrow> 'w profApi \<Rightarrow> 'w daemonApi \<Rightarrow> ServiceConfigV2 \<Rightarrow> svcKey \<Rightarrow> string \<Rightarrow> string \<Rightarrow> 'w \<Rightarrow> 'w" where
  "PortForwardAfterDevStart ve api dm cfg k podName containerName w =
     (case GetContainerDevConfigOrDefault cfg containerName of
        None \<Rightarrow> w
      | Some cc \<Rightarrow> forwardAll ve api dm k podName (cd_PortForward cc) w)"

end
