(* ===== verification/PfManager.thy ===== *)
theory PfManager
  imports PortForward
begin

text \<open>
  The daemon's manager of port forwards, \<open>daemon_server/portforward_manager.go\<close>, with the
  restart of a forward in \<open>daemon_server/syncthing.go\<close>. The state holds the map \<open>pfList\<close> from
  port pairs to forwards, the goroutines, which are never reused, the databases of the
  applications and the two marker files: \<open>recordPortForward\<close> writes one into the database
  directory, the saving of a profile writes one into the directory above it, and only that
  one is read when the daemon starts again.
\<close>

subsection \<open>The pod of a forward\<close>

record pfPod =
  pp_Name :: string
  pp_Labels :: "(string \<times> string) list"
  pp_Owners :: "OwnerReference list"

record pfCluster =
  cl_GetPod :: "string \<Rightarrow> gerr + pfPod"
  cl_ListPods :: "(string \<times> string) list \<Rightarrow> pfPod list"
  cl_ResourceFor :: "GroupVersionKind \<Rightarrow> (string \<times> bool) option"
  cl_Owners :: "string \<Rightarrow> string \<Rightarrow> OwnerReference list option"

text \<open>The owner at the end of the chain of controllers; \<open>None\<close> when the chain has no end.\<close>

partial_function (option) GetTopController ::
  "pfCluster \<Rightarrow> OwnerReference list \<Rightarrow> OwnerReference option option" where
  "GetTopController cl refs =
     (case GetControllerOfNoCopy refs of
        None \<Rightarrow> Some None
      | Some controller \<Rightarrow>
          (case ParseGroupVersion (or_APIVersion controller) of
             Inl _ \<Rightarrow> Some (Some controller)
           | Inr gv \<Rightarrow>
               (case cl_ResourceFor cl \<lparr>gvk_Group = fst gv, gvk_Version = snd gv, gvk_Kind = or_Kind controller\<rparr> of
                  None \<Rightarrow> Some (Some controller)
                | Some rn \<Rightarrow>
                    if \<not> snd rn then Some (Some controller)
                    else case cl_Owners cl (fst rn) (or_Name controller) of
                        None \<Rightarrow> Some (Some controller)
                      | Some owners \<Rightarrow>
                          Option.bind (GetTopController cl owners)
                            (\<lambda>own. Some (case own of None \<Rightarrow> Some controller | Some o' \<Rightarrow> Some o')))))"

text \<open>The first pod of the list that belongs to the owner of the command.\<close>

definition ownerMatches :: "PortForwardCommand \<Rightarrow> OwnerReference option \<Rightarrow> bool" where
  "ownerMatches cmd own =
     (case own of
        None \<Rightarrow> False
      | Some controller \<Rightarrow> or_Name controller = pfc_OwnerName cmd \<and>
          or_APIVersion controller = pfc_OwnerApiVersion cmd \<and> or_Kind controller = pfc_OwnerKind cmd)"

fun podByLabels :: "pfCluster \<Rightarrow> PortForwardCommand \<Rightarrow> pfPod list \<Rightarrow> pfPod option option" where
  "podByLabels cl cmd [] = Some None"
| "podByLabels cl cmd (pod # pods) =
     (if pfc_OwnerName cmd \<noteq> [] then
        Option.bind (GetTopController cl (pp_Owners pod))
          (\<lambda>own. if ownerMatches cmd own then Some (Some pod) else podByLabels cl cmd pods)
      else Some (Some pod))"

definition howToGetCurrentPod :: "pfCluster \<Rightarrow> PortForwardCommand \<Rightarrow> (gerr + pfPod) option" where
  "howToGetCurrentPod cl cmd =
     (case cl_GetPod cl (pfc_PodName cmd) of
        Inr pod \<Rightarrow> Some (Inr pod)
      | Inl err \<Rightarrow>
          if pfc_Labels cmd = [] then Some (Inl err)
          else Option.bind (podByLabels cl cmd (cl_ListPods cl (pfc_Labels cmd)))
                 (\<lambda>r. Some (case r of Some pod \<Rightarrow> Inr pod | None \<Rightarrow> Inl err)))"

subsection \<open>The state of the manager\<close>

text \<open>
  A goroutine: its command, whether its context is cancelled, how far it has come, what lies in
  its \<open>StopCh\<close>, and the seconds of its back-off. \<open>GoRunning\<close> is the loop with its \<open>select\<close>; the
  other phases are the places, on the two ways out of the loop, between which the rest of the
  daemon can run: before \<open>delete(p.pfList, key)\<close> when \<open>socat\<close> is missing, and after the
  cancellation before \<open>IsPortForwarding\<close>, before the marker is written, before \<open>p.pfList\<close> is read
  and before the report is sent into the channel of the forward found there.
\<close>

datatype goPhase =
    GoRunning
  | GoUnregister
  | GoRecording "gerr option"
  | GoMarking bool "gerr option"
  | GoReporting "gerr option"
  | GoSending nat "gerr option"
  | GoEnded

record goroutine =
  g_cmd :: PortForwardCommand
  g_cancelled :: bool
  g_phase :: goPhase
  g_stopCh :: "gerr option option"
  g_backoff :: int

record pfManager =
  pm_list :: "string \<rightharpoonup> nat"
  pm_go :: "goroutine list"
  pm_db :: "appKey \<rightharpoonup> AppProfileV2"
  pm_appMark :: "appKey set"
  pm_dbMark :: "appKey set"

definition NewPortForwardManager :: "(appKey \<rightharpoonup> AppProfileV2) \<Rightarrow> pfManager" where
  "NewPortForwardManager db =
     \<lparr>pm_list = Map.empty, pm_go = [], pm_db = db, pm_appMark = {}, pm_dbMark = {}\<rparr>"

definition hasForwards :: "AppProfileV2 \<Rightarrow> bool" where
  "hasForwards p = list_ex (\<lambda>s. prof_DevPortForwardList s \<noteq> []) (ap_SvcProfile p)"

definition emptyProfile :: AppProfileV2 where
  "emptyProfile = \<lparr>ap_Identifier = [], ap_SvcProfile = [], ap_Other = []\<rparr>"

text \<open>
  The database inside the state, on a disk that works: reading a missing profile creates an
  empty one, opening it for update fails, and saving leaves the marker when there are forwards.
\<close>

definition mgrProf :: "pfManager profApi" where
  "mgrProf =
     \<lparr>readProfile = \<lambda>k st. (case pm_db st k of
          Some p \<Rightarrow> (Inr p, st)
        | None \<Rightarrow> (Inr emptyProfile, st\<lparr>pm_db := (pm_db st)(k \<mapsto> emptyProfile)\<rparr>)),
      openProfile = \<lambda>k st. (case pm_db st k of
          Some p \<Rightarrow> Inr p
        | None \<Rightarrow> Inl (''Profile not found '' @ fst k @ ''-'' @ fst (snd k))),
      saveProfile = \<lambda>k p st. (None, st\<lparr>pm_db := (pm_db st)(k \<mapsto> p),
          pm_appMark := (if hasForwards p then insert k (pm_appMark st) else pm_appMark st)\<rparr>),
      machineMac = Some ''02:42:ac'', machineUuid = None, machineNanos = \<lambda>_. 0\<rparr>"

definition cmdApp :: "PortForwardCommand \<Rightarrow> appKey" where
  "cmdApp cmd = (pfc_NameSpace cmd, pfc_AppName cmd, pfc_Nid cmd)"

definition cmdSvc :: "PortForwardCommand \<Rightarrow> svcKey" where
  "cmdSvc cmd = (cmdApp cmd, pfc_Service cmd, pfc_ServiceType cmd)"

definition cmdKey :: "PortForwardCommand \<Rightarrow> string" where
  "cmdKey cmd = portPair (pfc_LocalPort cmd) (pfc_RemotePort cmd)"

definition recordPortForward :: "appKey \<Rightarrow> bool \<Rightarrow> pfManager \<Rightarrow> pfManager" where
  "recordPortForward app b st =
     st\<lparr>pm_dbMark := (if b then insert app (pm_dbMark st) else pm_dbMark st - {app})\<rparr>"

subsection \<open>Stopping and starting\<close>

text \<open>
  What a command meets outside the manager: \<open>fe_application\<close> is the error of finding the
  application, \<open>fe_controller\<close> that of finding its controller, \<open>fe_listen\<close> that of listening on the
  local port, for a moment; \<open>fe_client\<close> and \<open>fe_devPod\<close> are the client and the name of the dev pod
  that the restart for the file synchronisation asks for. Every step has an environment of its
  own, so that these answers can change while a command runs.
\<close>

record forwardEnv =
  fe_application :: "PortForwardCommand \<Rightarrow> gerr option"
  fe_listen :: "int \<Rightarrow> gerr option"
  fe_controller :: "PortForwardCommand \<Rightarrow> gerr option"
  fe_cluster :: pfCluster
  fe_now :: string
  fe_sudo :: bool
  fe_pid :: int
  fe_client :: "gerr option"
  fe_devPod :: "gerr + string"

text \<open>
  The daemon runs every command in a goroutine of its own, and only the single updates of the
  database are locked. A command is therefore a thread: the list of the places it still has to
  pass, the next one first. From one place to the next there is at most one access to what the
  threads share, the map, the goroutines, the database or the marker files. An access to the
  map is one step: that the runtime of Go may abort the process when two accesses overlap is left
  out.
\<close>

datatype pfPoint =
    StartBegin PortForwardCommand bool
  | StartApp PortForwardCommand bool
  | StartCheck PortForwardCommand
  | StartPod PortForwardCommand bool
  | StartRegister PortForwardCommand pfPod
  | StopBegin PortForwardCommand
  | StopCancel PortForwardCommand nat
  | StopReceive PortForwardCommand nat
  | StopDelete PortForwardCommand nat "gerr option"
  | StopApp PortForwardCommand
  | SyncStart PortForwardCommand
  | RecoverApp appKey
  | MarkApp appKey

text \<open>What a place gives: the places from there on, the error that is returned, and the manager.\<close>

type_synonym pfOut = "pfPoint list \<times> gerr option \<times> pfManager"

text \<open>
  A stop that finds a forward in the map cancels it, takes its report if it is already there, and
  removes from the map whatever has the key by then.
\<close>

definition StopPortForwardGoRoutine :: "PortForwardCommand \<Rightarrow> pfPoint list" where
  "StopPortForwardGoRoutine cmd = [StopBegin cmd]"

definition stopBegin :: "PortForwardCommand \<Rightarrow> pfPoint list \<Rightarrow> pfManager \<Rightarrow> pfOut" where
  "stopBegin cmd rest st =
     ((case pm_list st (cmdKey cmd) of Some i \<Rightarrow> StopCancel cmd i | None \<Rightarrow> StopApp cmd) # rest, None, st)"

definition setGo :: "nat \<Rightarrow> goroutine \<Rightarrow> pfManager \<Rightarrow> pfManager" where
  "setGo i g st = st\<lparr>pm_go := (pm_go st)[i := g]\<rparr>"

definition stopCancel :: "PortForwardCommand \<Rightarrow> nat \<Rightarrow> pfPoint list \<Rightarrow> pfManager \<Rightarrow> pfOut" where
  "stopCancel cmd i rest st =
     (StopReceive cmd i # rest, None, setGo i ((pm_go st ! i)\<lparr>g_cancelled := True\<rparr>) st)"

definition stopReceive :: "PortForwardCommand \<Rightarrow> nat \<Rightarrow> pfPoint list \<Rightarrow> pfManager \<Rightarrow> pfOut" where
  "stopReceive cmd i rest st =
     (StopDelete cmd i (case g_stopCh (pm_go st ! i) of Some e \<Rightarrow> e | None \<Rightarrow> None) # rest, None,
      setGo i ((pm_go st ! i)\<lparr>g_stopCh := None\<rparr>) st)"

definition stopDelete :: "PortForwardCommand \<Rightarrow> gerr option \<Rightarrow> pfPoint list \<Rightarrow> pfManager \<Rightarrow> pfOut" where
  "stopDelete cmd err rest st = (rest, err, st\<lparr>pm_list := (pm_list st)(cmdKey cmd := None)\<rparr>)"

text \<open>
  Without a forward in the map only the record is deleted. A stop without type means a deployment;
  the command itself is changed, and with it what its caller does next.
\<close>

definition defaultType :: "PortForwardCommand \<Rightarrow> PortForwardCommand" where
  "defaultType cmd = (if pfc_ServiceType cmd = [] then cmd\<lparr>pfc_ServiceType := ''deployment''\<rparr> else cmd)"

fun retype :: "pfPoint list \<Rightarrow> pfPoint list" where
  "retype (StartApp cmd saveToDB # rest) = StartApp (defaultType cmd) saveToDB # rest"
| "retype (SyncStart cmd # rest) = SyncStart (defaultType cmd) # rest"
| "retype rest = rest"

definition stopApp :: "forwardEnv \<Rightarrow> PortForwardCommand \<Rightarrow> pfPoint list \<Rightarrow> pfManager \<Rightarrow> pfOut" where
  "stopApp fe cmd rest st =
     (case fe_application fe cmd of
        Some err \<Rightarrow> (rest, Some err, st)
      | None \<Rightarrow>
          let cmd1 = defaultType cmd in
          (case fe_controller fe cmd1 of
             Some err \<Rightarrow> (retype rest, Some err, st)
           | None \<Rightarrow>
               (retype rest,
                DeletePortForwardFromDB mgrProf (cmdSvc cmd1) (pfc_LocalPort cmd1) (pfc_RemotePort cmd1) st)))"

text \<open>A start of a forward that is in the map stops it first, and goes on whatever the stop says.\<close>

definition StartPortForwardGoRoutine :: "PortForwardCommand \<Rightarrow> bool \<Rightarrow> pfPoint list" where
  "StartPortForwardGoRoutine startCmd saveToDB = [StartBegin startCmd saveToDB]"

definition startBegin :: "PortForwardCommand \<Rightarrow> bool \<Rightarrow> pfPoint list \<Rightarrow> pfManager \<Rightarrow> pfOut" where
  "startBegin cmd saveToDB rest st =
     ((if pm_list st (cmdKey cmd) \<noteq> None then StopPortForwardGoRoutine cmd else []) @ StartApp cmd saveToDB # rest,
      None, st)"

definition startApp :: "forwardEnv \<Rightarrow> PortForwardCommand \<Rightarrow> bool \<Rightarrow> pfPoint list \<Rightarrow> pfManager \<Rightarrow> pfOut" where
  "startApp fe cmd saveToDB rest st =
     (case fe_application fe cmd of
        Some err \<Rightarrow> (rest, Some err, st)
      | None \<Rightarrow>
          (case fe_listen fe (pfc_LocalPort cmd) of
             Some err \<Rightarrow> (rest, Some (''Port '' @ itoa (pfc_LocalPort cmd) @ '' is unavailable: '' @ err), st)
           | None \<Rightarrow>
               (case fe_controller fe cmd of
                  Some err \<Rightarrow> (rest, Some err, st)
                | None \<Rightarrow>
                    ((if saveToDB then StartCheck cmd else StartPod cmd False) # rest, None,
                     recordPortForward (cmdApp cmd) True st))))"

text \<open>The check for an existing record; it is not locked together with the addition that follows.\<close>

definition startCheck :: "PortForwardCommand \<Rightarrow> pfPoint list \<Rightarrow> pfManager \<Rightarrow> pfOut" where
  "startCheck cmd rest st =
     (case CheckIfPortForwardExists mgrProf (cmdSvc cmd) (pfc_LocalPort cmd) (pfc_RemotePort cmd) st of
        ((existed, _), st1) \<Rightarrow>
          if existed then (rest, Some (''Port forward '' @ cmdKey cmd @ '' already exists''), st1)
          else (StartPod cmd True # rest, None, st1))"

definition newPf :: "forwardEnv \<Rightarrow> PortForwardCommand \<Rightarrow> pfPod \<Rightarrow> OwnerReference option \<Rightarrow> DevPortForward" where
  "newPf fe cmd pod controller =
     \<lparr>pf_LocalPort = pfc_LocalPort cmd, pf_RemotePort = pfc_RemotePort cmd, pf_Role = pfc_Role cmd,
      pf_Status = ''New'', pf_Reason = ''Add'', pf_PodName = pfc_PodName cmd, pf_Labels = pp_Labels pod,
      pf_OwnerKind = (case controller of None \<Rightarrow> [] | Some o' \<Rightarrow> or_Kind o'),
      pf_OwnerApiVersion = (case controller of None \<Rightarrow> [] | Some o' \<Rightarrow> or_APIVersion o'),
      pf_OwnerName = (case controller of None \<Rightarrow> [] | Some o' \<Rightarrow> or_Name o'),
      pf_Updated = fe_now fe, pf_Sudo = fe_sudo fe, pf_DaemonServerPid = fe_pid fe,
      pf_ServiceType = pfc_ServiceType cmd\<rparr>"

text \<open>The search of the pod and the addition of the record; \<open>None\<close> when the search does not end.\<close>

definition startPod :: "forwardEnv \<Rightarrow> PortForwardCommand \<Rightarrow> bool \<Rightarrow> pfPoint list \<Rightarrow> pfManager \<Rightarrow> pfOut option" where
  "startPod fe cmd saveToDB rest st =
     Option.bind (howToGetCurrentPod (fe_cluster fe) cmd) (\<lambda>r.
       case r of
         Inl err \<Rightarrow> Some (rest, Some err, st)
       | Inr pod \<Rightarrow>
           if saveToDB then
             Option.bind (GetTopController (fe_cluster fe) (pp_Owners pod)) (\<lambda>controller.
               case AddPortForwardToDB mgrProf (cmdSvc cmd) (newPf fe cmd pod controller) st of
                 (Some err, st1) \<Rightarrow> Some (rest, Some err, st1)
               | (None, st1) \<Rightarrow> Some (StartRegister cmd pod # rest, None, st1))
           else Some (StartRegister cmd pod # rest, None, st))"

text \<open>The registration of the forward and the start of its goroutine.\<close>

definition register :: "PortForwardCommand \<Rightarrow> pfPod \<Rightarrow> pfManager \<Rightarrow> pfManager" where
  "register cmd pod st =
     st\<lparr>pm_list := (pm_list st)(cmdKey cmd \<mapsto> length (pm_go st)),
        pm_go := pm_go st @ [\<lparr>g_cmd = cmd\<lparr>pfc_PodName := pp_Name pod\<rparr>, g_cancelled = False,
                              g_phase = GoRunning, g_stopCh = None, g_backoff = 15\<rparr>]\<rparr>"

definition handleStopPortForwardCommand :: "PortForwardCommand \<Rightarrow> pfPoint list" where
  "handleStopPortForwardCommand cmd = StopPortForwardGoRoutine cmd"

definition handleStartPortForwardCommand :: "PortForwardCommand \<Rightarrow> pfPoint list" where
  "handleStartPortForwardCommand startCmd = StartPortForwardGoRoutine startCmd True"

text \<open>
  The restart of the forward of the file synchronisation: stop, then start, with one command. The
  stop may have filled in a missing type before it is started again.
\<close>

definition doPortForward :: "svcKey \<Rightarrow> SvcProfileV2 \<Rightarrow> pfPoint list" where
  "doPortForward k svcProfile =
     (let p = portForwardCommand k [] (prof_RemoteSyncthingPort svcProfile) (prof_RemoteSyncthingPort svcProfile) ''SYNC''
      in StopPortForwardGoRoutine p @ [SyncStart p])"

definition syncStart :: "forwardEnv \<Rightarrow> PortForwardCommand \<Rightarrow> pfPoint list \<Rightarrow> pfManager \<Rightarrow> pfOut" where
  "syncStart fe p rest st =
     (case fe_client fe of
        Some err \<Rightarrow> (rest, Some err, st)
      | None \<Rightarrow>
          (case fe_devPod fe of
             Inl err \<Rightarrow> (rest, Some err, st)
           | Inr n \<Rightarrow> (StartPortForwardGoRoutine (p\<lparr>pfc_PodName := n\<rparr>) True @ rest, None, st)))"

subsection \<open>Recovery\<close>

definition recoverCommand :: "appKey \<Rightarrow> SvcProfileV2 \<Rightarrow> DevPortForward \<Rightarrow> PortForwardCommand" where
  "recoverCommand app s pf =
     (case app of (ns, name, nid) \<Rightarrow>
        let t = (if pf_ServiceType pf = [] then prof_Type s else pf_ServiceType pf);
            t' = (if t = [] then ''deployment'' else t)
        in \<lparr>pfc_NameSpace = ns, pfc_AppName = name, pfc_Service = fst (GetName s), pfc_ServiceType = t',
            pfc_PodName = pf_PodName pf, pfc_LocalPort = pf_LocalPort pf, pfc_RemotePort = pf_RemotePort pf,
            pfc_Role = pf_Role pf, pfc_Nid = nid, pfc_Labels = pf_Labels pf, pfc_OwnerKind = pf_OwnerKind pf,
            pfc_OwnerApiVersion = pf_OwnerApiVersion pf, pfc_OwnerName = pf_OwnerName pf\<rparr>)"

text \<open>The forwards are those of the profile as it was read; they are started one after the other.\<close>

definition RecoverPortForwardForApplication ::
  "forwardEnv \<Rightarrow> appKey \<Rightarrow> pfPoint list \<Rightarrow> pfManager \<Rightarrow> pfOut" where
  "RecoverPortForwardForApplication fe app rest st =
     (case readProfile mgrProf app st of
        (Inl err, st1) \<Rightarrow> (rest, Some err, st1)
      | (Inr p, st1) \<Rightarrow>
          let cmds = concat (map (\<lambda>s. map (recoverCommand app s)
                       (filter (\<lambda>pf. pf_Sudo pf = fe_sudo fe) (prof_DevPortForwardList s))) (ap_SvcProfile p))
          in (concat (map (\<lambda>cmd. StartPortForwardGoRoutine cmd False) cmds) @
                (if cmds \<noteq> [] then [MarkApp app] else []) @ rest, None, st1))"

text \<open>
  The applications found on the disk, in the order of the directories; once the disk has been
  scanned only those with the marker that the saving of a profile leaves.
\<close>

definition RecoverAllPortForward :: "bool \<Rightarrow> appKey list \<Rightarrow> pfManager \<Rightarrow> pfPoint list" where
  "RecoverAllPortForward scanned apps st =
     map RecoverApp (if scanned then filter (\<lambda>app. app \<in> pm_appMark st) apps else apps)"

text \<open>One place of a thread; \<open>rest\<close> are the places after it.\<close>

fun pointStep :: "forwardEnv \<Rightarrow> pfPoint \<Rightarrow> pfPoint list \<Rightarrow> pfManager \<Rightarrow> pfOut option" where
  "pointStep fe (StartBegin cmd saveToDB) rest st = Some (startBegin cmd saveToDB rest st)"
| "pointStep fe (StartApp cmd saveToDB) rest st = Some (startApp fe cmd saveToDB rest st)"
| "pointStep fe (StartCheck cmd) rest st = Some (startCheck cmd rest st)"
| "pointStep fe (StartPod cmd saveToDB) rest st = startPod fe cmd saveToDB rest st"
| "pointStep fe (StartRegister cmd pod) rest st = Some (rest, None, register cmd pod st)"
| "pointStep fe (StopBegin cmd) rest st = Some (stopBegin cmd rest st)"
| "pointStep fe (StopCancel cmd i) rest st = Some (stopCancel cmd i rest st)"
| "pointStep fe (StopReceive cmd i) rest st = Some (stopReceive cmd i rest st)"
| "pointStep fe (StopDelete cmd i err) rest st = Some (stopDelete cmd err rest st)"
| "pointStep fe (StopApp cmd) rest st = Some (stopApp fe cmd rest st)"
| "pointStep fe (SyncStart p) rest st = Some (syncStart fe p rest st)"
| "pointStep fe (RecoverApp app) rest st = Some (RecoverPortForwardForApplication fe app rest st)"
| "pointStep fe (MarkApp app) rest st = Some (rest, None, recordPortForward app True st)"

subsection \<open>The goroutine of a forward\<close>

text \<open>
  What its \<open>select\<close> can meet: the connection is ready; it ends with an error, of a pod that is
  gone, of a missing \<open>socat\<close>, or another one (or none); the context is cancelled. \<open>Proceed\<close> takes
  it further once it has left the loop.
\<close>

datatype pfEvent = ReadyEvent | PodGone | SocatMissing | OtherFailure | ContextDone | Proceed

definition nextBackoff :: "int \<Rightarrow> int" where
  "nextBackoff b = (let b' = b + 15 in if b' > 60 then 60 else b')"

definition reconnectMsg :: "goroutine \<Rightarrow> string" where
  "reconnectMsg g =
     ''Reconnecting after '' @ (if g_backoff g = 60 then ''1m0s'' else itoa (g_backoff g) @ ''s'') @ '' seconds...''"

text \<open>
  A change of the status reads the record and then updates it, under the manager's lock. A deletion
  of the record in between has the effect of one before, so both accesses are one step.
\<close>

definition statusOf :: "forwardEnv \<Rightarrow> goroutine \<Rightarrow> string \<Rightarrow> string \<Rightarrow> pfManager \<Rightarrow> pfManager" where
  "statusOf fe g portStatus reason st =
     snd (UpdatePortForwardStatus mgrProf (cmdSvc (g_cmd g)) (pfc_LocalPort (g_cmd g)) (pfc_RemotePort (g_cmd g))
            portStatus reason (fe_now fe) st)"

text \<open>
  The way out of the loop. A cancelled goroutine has deleted the record; it then sets the marker
  anew, and its report goes to whatever forward has the key at that time. If the channel of that
  forward is full it stays blocked there.
\<close>

definition endGo :: "nat \<Rightarrow> pfManager \<Rightarrow> pfManager option" where
  "endGo i st =
     (let g = pm_go st ! i; cmd = g_cmd g in
      case g_phase g of
        GoRunning \<Rightarrow> None
      | GoUnregister \<Rightarrow>
          Some (setGo i (g\<lparr>g_phase := GoEnded\<rparr>) (st\<lparr>pm_list := (pm_list st)(cmdKey cmd := None)\<rparr>))
      | GoRecording err \<Rightarrow>
          (case IsPortForwarding mgrProf (cmdApp cmd) st of
             (b, st1) \<Rightarrow> Some (setGo i (g\<lparr>g_phase := GoMarking b err\<rparr>) st1))
      | GoMarking b err \<Rightarrow>
          Some (setGo i (g\<lparr>g_phase := GoReporting err\<rparr>) (recordPortForward (cmdApp cmd) b st))
      | GoReporting err \<Rightarrow>
          Some (setGo i (g\<lparr>g_phase := (case pm_list st (cmdKey cmd) of None \<Rightarrow> GoEnded | Some j \<Rightarrow> GoSending j err)\<rparr>) st)
      | GoSending j err \<Rightarrow>
          (case g_stopCh (pm_go st ! j) of
             Some _ \<Rightarrow> None
           | None \<Rightarrow>
               let st1 = setGo j ((pm_go st ! j)\<lparr>g_stopCh := Some err\<rparr>) st
               in Some (setGo i ((pm_go st1 ! i)\<lparr>g_phase := GoEnded\<rparr>) st1))
      | GoEnded \<Rightarrow> None)"

text \<open>
  One branch of the loop, or one step on the way out. The wait for the connection to be ready runs
  in a goroutine of its own: \<open>readyCh\<close> is closed also when the connection fails, so this event can
  come at any time, even after the end.
\<close>

definition goStep :: "forwardEnv \<Rightarrow> nat \<Rightarrow> pfEvent \<Rightarrow> pfManager \<Rightarrow> pfManager option" where
  "goStep fe i ev st =
     (let g = pm_go st ! i in
      if ev = ReadyEvent then Some (statusOf fe g ''LISTEN'' ''listen'' st)
      else if ev = Proceed then endGo i st
      else if g_phase g \<noteq> GoRunning then None
      else case ev of
          PodGone \<Rightarrow>
            Option.bind (howToGetCurrentPod (fe_cluster fe) (g_cmd g)) (\<lambda>r.
              case r of
                Inl err \<Rightarrow> Some (setGo i (g\<lparr>g_backoff := nextBackoff (g_backoff g)\<rparr>)
                             (statusOf fe g ''RECONNECTING'' (reconnectMsg g) st))
              | Inr pod \<Rightarrow> Some (setGo i (g\<lparr>g_cmd := (g_cmd g)\<lparr>pfc_PodName := pp_Name pod\<rparr>\<rparr>) st))
        | SocatMissing \<Rightarrow>
            Some (setGo i (g\<lparr>g_phase := GoUnregister\<rparr>)
              (statusOf fe g ''Socat not found'' ''failed to find socat'' st))
        | OtherFailure \<Rightarrow> Some (statusOf fe g ''RECONNECTING'' (reconnectMsg g) st)
        | ContextDone \<Rightarrow>
            if g_cancelled g then
              (case DeletePortForwardFromDB mgrProf (cmdSvc (g_cmd g)) (pfc_LocalPort (g_cmd g))
                      (pfc_RemotePort (g_cmd g)) st of
                 (err, st1) \<Rightarrow> Some (setGo i (g\<lparr>g_phase := GoRecording err\<rparr>) st1))
            else None
        | _ \<Rightarrow> None)"

subsection \<open>The daemon\<close>

text \<open>
  The manager with the threads of its commands, and what can happen next: a command comes in, a
  thread passes a place, or a goroutine takes a step. \<open>th_err\<close> is the error of the last place.
\<close>

record pfThread =
  th_todo :: "pfPoint list"
  th_err :: "gerr option"

record pfDaemon =
  pd_mgr :: pfManager
  pd_threads :: "pfThread list"

datatype pfCommand =
    StartCmd PortForwardCommand
  | StopCmd PortForwardCommand
  | SyncCmd svcKey SvcProfileV2
  | RecoverCmd bool "appKey list"

fun commandPoints :: "pfCommand \<Rightarrow> pfManager \<Rightarrow> pfPoint list" where
  "commandPoints (StartCmd cmd) st = handleStartPortForwardCommand cmd"
| "commandPoints (StopCmd cmd) st = handleStopPortForwardCommand cmd"
| "commandPoints (SyncCmd k svcProfile) st = doPortForward k svcProfile"
| "commandPoints (RecoverCmd scanned apps) st = RecoverAllPortForward scanned apps st"

datatype pfLabel =
    Command pfCommand
  | ThreadStep forwardEnv nat
  | GoEvent forwardEnv nat pfEvent

definition threadStep :: "forwardEnv \<Rightarrow> nat \<Rightarrow> pfDaemon \<Rightarrow> pfDaemon option" where
  "threadStep fe t d =
     (if t < length (pd_threads d) then
        (case th_todo (pd_threads d ! t) of
           [] \<Rightarrow> None
         | p # rest \<Rightarrow>
             (case pointStep fe p rest (pd_mgr d) of
                None \<Rightarrow> None
              | Some (todo, e, st) \<Rightarrow>
                  Some \<lparr>pd_mgr = st, pd_threads = (pd_threads d)[t := \<lparr>th_todo = todo, th_err = e\<rparr>]\<rparr>))
      else None)"

fun daemonStep :: "pfLabel \<Rightarrow> pfDaemon \<Rightarrow> pfDaemon option" where
  "daemonStep (Command c) d =
     Some (d\<lparr>pd_threads := pd_threads d @ [\<lparr>th_todo = commandPoints c (pd_mgr d), th_err = None\<rparr>]\<rparr>)"
| "daemonStep (ThreadStep fe t) d = threadStep fe t d"
| "daemonStep (GoEvent fe i ev) d =
     (if i < length (pm_go (pd_mgr d)) then
        (case goStep fe i ev (pd_mgr d) of None \<Rightarrow> None | Some st \<Rightarrow> Some (d\<lparr>pd_mgr := st\<rparr>))
      else None)"

end
