(* ===== verification/PfManagerProps.thy ===== *)
theory PfManagerProps
  imports PfManager ConfigProps
begin

text \<open>
  The manager of port forwards under all interleavings of the threads of its commands and of its
  goroutines: what always holds of its tables, the two ways in which a second start of a running
  forward can end, and how two starts at a time record a forward twice.
\<close>

subsection \<open>Runs\<close>

inductive pf_run :: "pfDaemon \<Rightarrow> pfLabel list \<Rightarrow> pfDaemon \<Rightarrow> bool" for d where
  run_refl: "pf_run d [] d"
| run_step: "pf_run d ls d1 \<Longrightarrow> daemonStep l d1 = Some d2 \<Longrightarrow> pf_run d (ls @ [l]) d2"

lemma pf_run_trans: "pf_run d1 ls' d2 \<Longrightarrow> pf_run d ls d1 \<Longrightarrow> pf_run d (ls @ ls') d2"
proof (induction rule: pf_run.induct)
  case (run_step ls' da l db)
  then show ?case using pf_run.run_step [of d "ls @ ls'" da l db] by simp
qed simp

lemma run_Cons: "daemonStep l d = Some d1 \<Longrightarrow> pf_run d1 ls d2 \<Longrightarrow> pf_run d (l # ls) d2"
  using pf_run_trans [of d1 ls d2 d "[l]"] pf_run.run_step [OF run_refl, of l d d1] by simp

subsection \<open>The profiles\<close>

text \<open>A profile with forwards has the marker that the recovery reads.\<close>

definition dbInv :: "pfManager \<Rightarrow> bool" where
  "dbInv st \<longleftrightarrow> (\<forall>k p. pm_db st k = Some p \<longrightarrow> hasForwards p \<longrightarrow> k \<in> pm_appMark st)"

lemma dbInvD: "dbInv st \<Longrightarrow> pm_db st k = Some p \<Longrightarrow> hasForwards p \<Longrightarrow> k \<in> pm_appMark st"
  unfolding dbInv_def by blast

text \<open>The frame of an update: only the database and the marker move, and the invariant stays.\<close>

definition dbFrame :: "pfManager \<Rightarrow> pfManager \<Rightarrow> bool" where
  "dbFrame st st' \<longleftrightarrow> pm_list st' = pm_list st \<and> pm_go st' = pm_go st \<and> (dbInv st \<longrightarrow> dbInv st')"

lemma dbFrame_refl [simp]: "dbFrame st st"
  by (simp add: dbFrame_def)

lemma dbFrame_trans: "dbFrame a b \<Longrightarrow> dbFrame b c \<Longrightarrow> dbFrame a c"
  by (simp add: dbFrame_def)

lemma save_frame: "saveProfile mgrProf k p st = (e, st') \<Longrightarrow> dbFrame st st'"
  by (cases k) (auto simp: dbFrame_def dbInv_def mgrProf_def split: if_splits)

lemma update_frame: "UpdateSvcProfile mgrProf k modify st = (e, st') \<Longrightarrow> dbFrame st st'"
  by (cases k) (auto simp: UpdateSvcProfile_def split: sum.splits prod.splits dest: save_frame)

lemma read_frame: "readProfile mgrProf k st = (r, st') \<Longrightarrow> dbFrame st st'"
  by (auto simp: mgrProf_def dbFrame_def dbInv_def emptyProfile_def hasForwards_def split: option.splits if_splits)

lemma getProfile_frame: "GetProfile mgrProf k st = (r, st') \<Longrightarrow> dbFrame st st'"
  by (auto simp: GetProfile_def split: prod.splits sum.splits dest!: read_frame)

lemma check_frame: "CheckIfPortForwardExists mgrProf k l r st = (x, st') \<Longrightarrow> dbFrame st st'"
  by (auto simp: CheckIfPortForwardExists_def split: prod.splits sum.splits dest!: getProfile_frame)

lemma add_frame: "AddPortForwardToDB mgrProf k pf st = (e, st') \<Longrightarrow> dbFrame st st'"
  unfolding AddPortForwardToDB_def by (rule update_frame)

lemma delete_frame: "DeletePortForwardFromDB mgrProf k l r st = (e, st') \<Longrightarrow> dbFrame st st'"
  unfolding DeletePortForwardFromDB_def by (rule update_frame)

lemma isForwarding_frame: "IsPortForwarding mgrProf app st = (b, st') \<Longrightarrow> dbFrame st st'"
  by (auto simp: IsPortForwarding_def split: prod.splits sum.splits dest!: read_frame)

lemma record_frame: "dbFrame st (recordPortForward app b st)"
  by (simp add: recordPortForward_def dbFrame_def dbInv_def)

lemma status_frame: "dbFrame st (statusOf fe g a b st)"
proof -
  obtain r w1 where get: "GetPortForward mgrProf (cmdSvc (g_cmd g)) (pfc_LocalPort (g_cmd g)) (pfc_RemotePort (g_cmd g)) st = (r, w1)"
    by (metis surj_pair)
  have w1: "dbFrame st w1"
    using get by (auto simp: GetPortForward_def split: prod.splits sum.splits option.splits dest!: getProfile_frame)
  have upd: "dbFrame st (snd (UpdateSvcProfile mgrProf k m w1))" for k m
    using dbFrame_trans [OF w1 update_frame] by (metis prod.collapse)
  show ?thesis
    by (cases r) (simp_all add: statusOf_def UpdatePortForwardStatus_def get w1 upd)
qed

subsection \<open>The invariant\<close>

text \<open>
  The stops that are under way: a place contributes the key and the goroutine that it is about to
  cancel, or that it has cancelled and is about to take out of the map.
\<close>

fun toCancel :: "pfPoint \<Rightarrow> (string \<times> nat) set" where
  "toCancel (StopCancel cmd i) = {(cmdKey cmd, i)}"
| "toCancel _ = {}"

fun toRemove :: "pfPoint \<Rightarrow> (string \<times> nat) set" where
  "toRemove (StopReceive cmd i) = {(cmdKey cmd, i)}"
| "toRemove (StopDelete cmd i err) = {(cmdKey cmd, i)}"
| "toRemove _ = {}"

definition pending :: "(pfPoint \<Rightarrow> (string \<times> nat) set) \<Rightarrow> pfThread list \<Rightarrow> (string \<times> nat) set" where
  "pending f ths = (\<Union>t\<in>set ths. \<Union>p\<in>set (th_todo t). f p)"

text \<open>
  A forward in the map has the ports of its key. Unless a stop has cancelled it and is about to
  take it out of the map, its goroutine is not cancelled and is in its loop, or has found no
  \<open>socat\<close> and is about to take itself out.
\<close>

definition regInv :: "(string \<times> nat) set \<Rightarrow> pfManager \<Rightarrow> bool" where
  "regInv S st \<longleftrightarrow> (\<forall>k i. pm_list st k = Some i \<longrightarrow>
     i < length (pm_go st) \<and> cmdKey (g_cmd (pm_go st ! i)) = k \<and>
     (g_cancelled (pm_go st ! i) \<longrightarrow> (k, i) \<in> S) \<and>
      (\<not> g_cancelled (pm_go st ! i) \<longrightarrow> g_phase (pm_go st ! i) \<in> {GoRunning, GoUnregister}))"

text \<open>What a stop is about to cancel is a goroutine with the ports of the command.\<close>

definition cancelInv :: "(string \<times> nat) set \<Rightarrow> pfManager \<Rightarrow> bool" where
  "cancelInv C st \<longleftrightarrow> (\<forall>(k, i)\<in>C. i < length (pm_go st) \<and> cmdKey (g_cmd (pm_go st ! i)) = k)"

text \<open>Only a cancelled goroutine reports, and the back-off has four values.\<close>

definition goInv :: "pfManager \<Rightarrow> bool" where
  "goInv st \<longleftrightarrow> (\<forall>g\<in>set (pm_go st). g_backoff g \<in> {15, 30, 45, 60} \<and>
     (g_cancelled g \<or> g_phase g \<in> {GoRunning, GoUnregister, GoEnded}))"

definition mgrInv :: "(string \<times> nat) set \<Rightarrow> (string \<times> nat) set \<Rightarrow> pfManager \<Rightarrow> bool" where
  "mgrInv S C st \<longleftrightarrow> regInv S st \<and> cancelInv C st \<and> goInv st \<and> dbInv st"

definition pfInv :: "pfDaemon \<Rightarrow> bool" where
  "pfInv d \<longleftrightarrow> mgrInv (pending toRemove (pd_threads d)) (pending toCancel (pd_threads d)) (pd_mgr d)"

lemma mgrInv_mono: "mgrInv S C st \<Longrightarrow> S \<subseteq> S' \<Longrightarrow> C' \<subseteq> C \<Longrightarrow> mgrInv S' C' st"
  unfolding mgrInv_def regInv_def cancelInv_def by (meson subsetD)

lemma mgrInv_frame: "dbFrame st st' \<Longrightarrow> mgrInv S C st \<Longrightarrow> mgrInv S C st'"
  by (simp add: dbFrame_def mgrInv_def regInv_def cancelInv_def goInv_def)

lemma mgrInvD:
  assumes "mgrInv S C st" and "pm_list st k = Some i"
  shows "i < length (pm_go st)" and "cmdKey (g_cmd (pm_go st ! i)) = k"
    and "\<not> g_cancelled (pm_go st ! i) \<Longrightarrow> g_phase (pm_go st ! i) \<in> {GoRunning, GoUnregister}"
    and "g_cancelled (pm_go st ! i) \<Longrightarrow> (k, i) \<in> S"
  using assms unfolding mgrInv_def regInv_def by presburger+

lemma goInvD:
  assumes "mgrInv S C st" and "i < length (pm_go st)"
  shows "g_backoff (pm_go st ! i) \<in> {15, 30, 45, 60}"
    and "g_cancelled (pm_go st ! i) \<or> g_phase (pm_go st ! i) \<in> {GoRunning, GoUnregister, GoEnded}"
  using assms nth_mem [OF assms(2)] unfolding mgrInv_def goInv_def by blast+

lemma mgrInv_register: "mgrInv S C st \<Longrightarrow> mgrInv S C (register cmd pod st)"
  unfolding mgrInv_def
proof (elim conjE, intro conjI)
  assume "regInv S st"
  then show "regInv S (register cmd pod st)"
    by (auto simp: register_def regInv_def nth_append cmdKey_def less_Suc_eq split: if_splits)
next
  assume "cancelInv C st"
  then show "cancelInv C (register cmd pod st)"
    by (auto simp: register_def cancelInv_def nth_append)
next
  assume "goInv st"
  then show "goInv (register cmd pod st)" by (auto simp: register_def goInv_def)
next
  assume "dbInv st"
  then show "dbInv (register cmd pod st)" by (simp add: register_def dbInv_def)
qed

lemma mgrInv_unregister:
  "mgrInv S C st \<Longrightarrow> S - {k} \<times> UNIV \<subseteq> S' \<Longrightarrow> mgrInv S' C (st\<lparr>pm_list := (pm_list st)(k := None)\<rparr>)"
  unfolding mgrInv_def
proof (elim conjE, intro conjI)
  assume r: "regInv S st" and s: "S - {k} \<times> UNIV \<subseteq> S'"
  show "regInv S' (st\<lparr>pm_list := (pm_list st)(k := None)\<rparr>)"
    unfolding regInv_def
  proof (intro allI impI)
    fix k' i assume "pm_list (st\<lparr>pm_list := (pm_list st)(k := None)\<rparr>) k' = Some i"
    then have k': "k' \<noteq> k" "pm_list st k' = Some i" by (auto split: if_splits)
    with r s show "i < length (pm_go (st\<lparr>pm_list := (pm_list st)(k := None)\<rparr>)) \<and>
      cmdKey (g_cmd (pm_go (st\<lparr>pm_list := (pm_list st)(k := None)\<rparr>) ! i)) = k' \<and>
      (g_cancelled (pm_go (st\<lparr>pm_list := (pm_list st)(k := None)\<rparr>) ! i) \<longrightarrow> (k', i) \<in> S') \<and>
      (\<not> g_cancelled (pm_go (st\<lparr>pm_list := (pm_list st)(k := None)\<rparr>) ! i) \<longrightarrow> g_phase (pm_go (st\<lparr>pm_list := (pm_list st)(k := None)\<rparr>) ! i) \<in> {GoRunning, GoUnregister})"
      unfolding regInv_def by (auto split: if_splits)
  qed
qed (simp_all add: cancelInv_def goInv_def dbInv_def)

text \<open>
  Changing one goroutine: harmless if it keeps its ports and, while it is in the map, stays alive
  or is about to be removed.
\<close>

lemma mgrInv_setGo:
  assumes inv: "mgrInv S C st" and i: "i < length (pm_go st)"
    and key: "cmdKey (g_cmd g) = cmdKey (g_cmd (pm_go st ! i))" and bo: "g_backoff g \<in> {15, 30, 45, 60}"
    and ph: "g_cancelled g \<or> g_phase g \<in> {GoRunning, GoUnregister, GoEnded}"
    and reg: "pm_list st (cmdKey (g_cmd g)) = Some i \<Longrightarrow>
      (g_cancelled g \<longrightarrow> (cmdKey (g_cmd g), i) \<in> S') \<and>
      (\<not> g_cancelled g \<longrightarrow> g_phase g \<in> {GoRunning, GoUnregister})"
    and sub: "S \<subseteq> S'"
  shows "mgrInv S' C (setGo i g st)"
proof -
  have "regInv S' (setGo i g st)"
    unfolding regInv_def
  proof (intro allI impI)
    fix k j assume "pm_list (setGo i g st) k = Some j"
    then have l: "pm_list st k = Some j" by (simp add: setGo_def)
    note d = mgrInvD [OF inv l]
    show "j < length (pm_go (setGo i g st)) \<and> cmdKey (g_cmd (pm_go (setGo i g st) ! j)) = k \<and>
      (g_cancelled (pm_go (setGo i g st) ! j) \<longrightarrow> (k, j) \<in> S') \<and>
      (\<not> g_cancelled (pm_go (setGo i g st) ! j) \<longrightarrow> g_phase (pm_go (setGo i g st) ! j) \<in> {GoRunning, GoUnregister})"
    proof (cases "j = i")
      case True
      with d(2) key have "cmdKey (g_cmd g) = k" by simp
      with True i reg l show ?thesis by (simp add: setGo_def)
    next
      case False
      with d sub show ?thesis by (auto simp: setGo_def)
    qed
  qed
  moreover have "cancelInv C (setGo i g st)"
    using inv key i unfolding mgrInv_def cancelInv_def setGo_def by (auto simp: nth_list_update)
  moreover have "goInv (setGo i g st)"
    using inv bo ph unfolding mgrInv_def goInv_def setGo_def
    by (auto dest!: set_update_subset_insert [THEN subsetD])
  moreover have "dbInv (setGo i g st)" using inv by (simp add: mgrInv_def dbInv_def setGo_def)
  ultimately show ?thesis by (simp add: mgrInv_def)
qed


text \<open>The contributions of a list of places, and how they change when a thread passes a place.\<close>

definition pts :: "(pfPoint \<Rightarrow> (string \<times> nat) set) \<Rightarrow> pfPoint list \<Rightarrow> (string \<times> nat) set" where
  "pts f ps = (\<Union>p\<in>set ps. f p)"

lemma pts_simps [simp]:
  "pts f [] = {}" "pts f (p # ps) = f p \<union> pts f ps" "pts f (ps @ qs) = pts f ps \<union> pts f qs"
  by (auto simp: pts_def)

lemma pending_append [simp]: "pending f (ths @ [th]) = pending f ths \<union> pts f (th_todo th)"
  by (auto simp: pending_def pts_def)

lemma pending_thread: "t < length ths \<Longrightarrow> pts f (th_todo (ths ! t)) \<subseteq> pending f ths"
  unfolding pending_def pts_def by (rule UN_upper) simp

lemma pending_new: "pending f (ths[t := th]) \<subseteq> pending f ths \<union> pts f (th_todo th)"
  using set_update_subset_insert [of ths t th] by (auto simp: pending_def pts_def)

lemma pending_keep:
  assumes t: "t < length ths" and todo: "th_todo (ths ! t) = p # rest" and sub: "pts f rest \<subseteq> pts f (th_todo th)"
  shows "(pending f ths - f p) \<union> pts f (th_todo th) \<subseteq> pending f (ths[t := th])"
proof -
  have "pts f (th_todo th) \<subseteq> pending f (ths[t := th])"
    using pending_thread [of t "ths[t := th]" f] t by simp
  moreover have "x \<in> pending f (ths[t := th])" if x: "x \<in> pending f ths" "x \<notin> f p" for x
  proof -
    obtain t' where "t' \<in> set ths" "x \<in> pts f (th_todo t')"
      using x(1) by (auto simp: pending_def pts_def)
    then obtain u where u: "u < length ths" "x \<in> pts f (th_todo (ths ! u))"
      unfolding in_set_conv_nth by blast
    show ?thesis
    proof (cases "u = t")
      case True
      with u x(2) todo sub have "x \<in> pts f (th_todo th)" by auto
      with calculation show ?thesis by blast
    next
      case False
      with u have "x \<in> pts f (th_todo (ths[t := th] ! u))" by simp
      with pending_thread [of u "ths[t := th]" f] u(1) show ?thesis by auto
    qed
  qed
  ultimately show ?thesis by blast
qed

lemma pts_retype [simp]: "pts toRemove (retype ps) = pts toRemove ps" "pts toCancel (retype ps) = pts toCancel ps"
  by (induction ps rule: retype.induct) simp_all

lemma pts_map_start [simp]:
  "pts toRemove (map (\<lambda>cmd. StartBegin cmd b) cmds) = {}" "pts toCancel (map (\<lambda>cmd. StartBegin cmd b) cmds) = {}"
  by (simp_all add: pts_def)

lemmas point_defs = startBegin_def startApp_def startCheck_def stopBegin_def stopCancel_def stopReceive_def
  stopDelete_def stopApp_def syncStart_def RecoverPortForwardForApplication_def StartPortForwardGoRoutine_def
  StopPortForwardGoRoutine_def

lemma startPod_cases:
  assumes "startPod fe cmd save rest st = Some (todo, e, st')"
  shows "dbFrame st st'" and "todo = rest \<or> (\<exists>pod. todo = StartRegister cmd pod # rest)"
proof -
  obtain r where r: "howToGetCurrentPod (fe_cluster fe) cmd = Some r"
    using assms by (auto simp: startPod_def Option.bind_eq_Some_conv)
  have "dbFrame st st' \<and> (todo = rest \<or> (\<exists>pod. todo = StartRegister cmd pod # rest))"
  proof (cases r)
    case (Inl err)
    with assms r show ?thesis by (simp add: startPod_def)
  next
    case (Inr pod)
    show ?thesis
    proof (cases save)
      case True
      with assms r Inr obtain own where own: "GetTopController (fe_cluster fe) (pp_Owners pod) = Some own"
        by (auto simp: startPod_def Option.bind_eq_Some_conv)
      obtain f st1 where add: "AddPortForwardToDB mgrProf (cmdSvc cmd) (newPf fe cmd pod own) st = (f, st1)"
        by (metis surj_pair)
      from assms r Inr True own add add_frame [OF add] show ?thesis
        by (cases f) (auto simp: startPod_def)
    next
      case False
      with assms r Inr show ?thesis by (auto simp: startPod_def)
    qed
  qed
  then show "dbFrame st st'" and "todo = rest \<or> (\<exists>pod. todo = StartRegister cmd pod # rest)" by blast+
qed

lemma point_keeps_removals:
  assumes "pointStep fe p rest st = Some (todo, e, st')"
  shows "pts toRemove rest \<subseteq> pts toRemove todo"
  using assms
  by (cases p) (auto simp: point_defs Let_def split: option.splits sum.splits prod.splits if_splits
      dest!: startPod_cases(2))

text \<open>Places that only touch the database or the markers, or nothing.\<close>

definition dbPoint :: "pfPoint \<Rightarrow> bool" where
  "dbPoint p \<longleftrightarrow> (case p of StartRegister _ _ \<Rightarrow> False | StopBegin _ \<Rightarrow> False | StopCancel _ _ \<Rightarrow> False
     | StopReceive _ _ \<Rightarrow> False | StopDelete _ _ _ \<Rightarrow> False | _ \<Rightarrow> True)"

lemma dbPoint_keeps:
  assumes "pointStep fe p rest st = Some (todo, e, st')" and "dbPoint p"
  shows "pts toCancel todo = pts toCancel rest" and "toRemove p = {}"
proof -
  show "toRemove p = {}" using assms(2) by (cases p) (simp_all add: dbPoint_def)
  show "pts toCancel todo = pts toCancel rest"
  proof (cases "\<exists>cmd b. p = StartPod cmd b")
    case True
    then obtain cmd b where "p = StartPod cmd b" by blast
    with assms(1) have "todo = rest \<or> (\<exists>pod. todo = StartRegister cmd pod # rest)"
      using startPod_cases(2) by simp
    then show ?thesis by auto
  next
    case False
    with assms show ?thesis
      by (cases p) (auto simp: point_defs dbPoint_def Let_def split: option.splits sum.splits prod.splits if_splits)
  qed
qed

lemma dbPoint_frame:
  assumes step: "pointStep fe p rest st = Some (todo, e, st')" and "dbPoint p"
  shows "dbFrame st st'"
proof (cases p)
  case (StartPod cmd b)
  with step show ?thesis by (auto dest: startPod_cases(1))
next
  case (StartCheck cmd)
  with step show ?thesis by (auto simp: startCheck_def split: prod.splits if_splits dest: check_frame)
next
  case (StopApp cmd)
  with step show ?thesis by (auto simp: stopApp_def Let_def split: option.splits dest: delete_frame)
next
  case (RecoverApp app)
  with step show ?thesis
    by (auto simp: RecoverPortForwardForApplication_def Let_def split: prod.splits sum.splits dest: read_frame)
qed (use assms in \<open>auto simp: point_defs dbPoint_def record_frame split: option.splits sum.splits\<close>)

lemma mgrInv_point:
  assumes inv: "mgrInv S C st" and step: "pointStep fe p rest st = Some (todo, e, st')"
    and S: "(S - toRemove p) \<union> pts toRemove todo \<subseteq> S'" and C: "C' \<subseteq> C \<union> pts toCancel todo"
    and C0: "toCancel p \<union> pts toCancel rest \<subseteq> C"
  shows "mgrInv S' C' st'"
proof (cases "dbPoint p")
  case True
  note d = dbPoint_frame [OF step True] dbPoint_keeps [OF step True]
  from mgrInv_frame [OF d(1) inv] show ?thesis
    by (rule mgrInv_mono) (use d S C C0 in auto)
next
  case False
  then consider (reg) cmd pod where "p = StartRegister cmd pod" | (stop) cmd where "p = StopBegin cmd"
    | (cancel) cmd i where "p = StopCancel cmd i" | (receive) cmd i where "p = StopReceive cmd i"
    | (del) cmd i err where "p = StopDelete cmd i err"
    by (cases p) (auto simp: dbPoint_def)
  then show ?thesis
  proof cases
    case reg
    with step have "st' = register cmd pod st" "todo = rest" by simp_all
    with mgrInv_register [OF inv, of cmd pod] reg S C C0 show ?thesis by (auto intro: mgrInv_mono)
  next
    case stop
    have hit: "cancelInv {(cmdKey cmd, i)} st" if "pm_list st (cmdKey cmd) = Some i" for i
      using mgrInvD [OF inv that] by (simp add: cancelInv_def)
    have "cancelInv (C \<union> pts toCancel todo) st"
      using stop step hit inv C0
      by (auto simp: stopBegin_def mgrInv_def cancelInv_def split: option.splits)
    moreover have "st' = st" using stop step by (simp add: stopBegin_def)
    ultimately have "mgrInv S (C \<union> pts toCancel todo) st'" using inv by (simp add: mgrInv_def)
    then show ?thesis by (rule mgrInv_mono) (use stop S C in auto)
  next
    case cancel
    have i: "i < length (pm_go st)" "cmdKey (g_cmd (pm_go st ! i)) = cmdKey cmd"
      using cancel C0 inv by (auto simp: mgrInv_def cancelInv_def)
    have todo: "todo = StopReceive cmd i # rest" and st': "st' = setGo i ((pm_go st ! i)\<lparr>g_cancelled := True\<rparr>) st"
      using cancel step by (simp_all add: stopCancel_def)
    have "mgrInv S' C st'"
      unfolding st' using goInvD [OF inv i(1)] S cancel todo i by (intro mgrInv_setGo [OF inv]) auto
    then show ?thesis by (rule mgrInv_mono) (use C C0 todo in auto)
  next
    case receive
    have todo: "\<exists>x. todo = StopDelete cmd i x # rest" and st': "st' = setGo i ((pm_go st ! i)\<lparr>g_stopCh := None\<rparr>) st"
      using receive step by (auto simp: stopReceive_def)
    have "mgrInv S' C st'"
    proof (cases "i < length (pm_go st)")
      case i: True
      show ?thesis unfolding st'
        using goInvD [OF inv i] mgrInvD [OF inv, of "cmdKey (g_cmd (pm_go st ! i))" i] S receive todo i
        by (intro mgrInv_setGo [OF inv]) auto
    next
      case False
      then have "st' = st" by (simp add: st' setGo_def list_update_beyond)
      with inv show ?thesis by (simp, elim mgrInv_mono) (use S receive todo in auto)
    qed
    then show ?thesis by (rule mgrInv_mono) (use C C0 todo in fastforce)+
  next
    case del
    have todo: "todo = rest" and st': "st' = st\<lparr>pm_list := (pm_list st)(cmdKey cmd := None)\<rparr>"
      using del step by (simp_all add: stopDelete_def)
    have "mgrInv S' C st'"
      unfolding st' by (rule mgrInv_unregister [OF inv]) (use S del in auto)
    then show ?thesis by (rule mgrInv_mono) (use C C0 todo in auto)
  qed
qed

lemma nextBackoff_range: "b \<in> {15, 30, 45, 60} \<Longrightarrow> nextBackoff b \<in> {15, 30, 45, 60}"
  by (auto simp: nextBackoff_def)

text \<open>
  A goroutine that changes only its phase, its back-off or the pod of its command, possibly after
  the database. If it leaves the loop it has been cancelled, or finds no \<open>socat\<close>.
\<close>

lemma mgrInv_go_change:
  assumes inv: "mgrInv S C st" and i: "i < length (pm_go st)" and fr: "dbFrame st st1"
    and g: "cmdKey (g_cmd g) = cmdKey (g_cmd (pm_go st ! i))" "g_backoff g \<in> {15, 30, 45, 60}"
      "g_cancelled g = g_cancelled (pm_go st ! i)"
    and ph: "g_cancelled (pm_go st ! i) \<or> g_phase g \<in> {GoRunning, GoUnregister}"
  shows "mgrInv S C (setGo i g st1)"
proof -
  have same: "pm_go st1 = pm_go st" "pm_list st1 = pm_list st" using fr by (simp_all add: dbFrame_def)
  show ?thesis
    using g ph i same mgrInvD(4) [OF inv, of "cmdKey (g_cmd (pm_go st ! i))" i]
    by (intro mgrInv_setGo [OF mgrInv_frame [OF fr inv]]) auto
qed

lemma mgrInv_endGo:
  assumes inv: "mgrInv S C st" and i: "i < length (pm_go st)" and run: "endGo i st = Some st'"
  shows "mgrInv S C st'"
proof (cases "g_phase (pm_go st ! i)")
  case GoUnregister
  let ?k = "cmdKey (g_cmd (pm_go st ! i))"
  have "mgrInv S C (st\<lparr>pm_list := (pm_list st)(?k := None)\<rparr>)" by (rule mgrInv_unregister [OF inv]) blast
  then have "mgrInv S C (setGo i ((pm_go st ! i)\<lparr>g_phase := GoEnded\<rparr>) (st\<lparr>pm_list := (pm_list st)(?k := None)\<rparr>))"
    by (rule mgrInv_setGo) (use i goInvD [OF inv i] in auto)
  with run GoUnregister show ?thesis by (simp add: endGo_def)
next
  case (GoRecording err)
  then have c: "g_cancelled (pm_go st ! i)" using goInvD(2) [OF inv i] by simp
  obtain b st1 where fwd: "IsPortForwarding mgrProf (cmdApp (g_cmd (pm_go st ! i))) st = (b, st1)" by (metis surj_pair)
  with run GoRecording have "st' = setGo i ((pm_go st ! i)\<lparr>g_phase := GoMarking b err\<rparr>) st1" by (simp add: endGo_def)
  with mgrInv_go_change [OF inv i isForwarding_frame [OF fwd]] goInvD(1) [OF inv i] c show ?thesis by simp
next
  case (GoMarking b err)
  then have c: "g_cancelled (pm_go st ! i)" using goInvD(2) [OF inv i] by simp
  from run GoMarking have "st' = setGo i ((pm_go st ! i)\<lparr>g_phase := GoReporting err\<rparr>)
      (recordPortForward (cmdApp (g_cmd (pm_go st ! i))) b st)" by (simp add: endGo_def)
  with mgrInv_go_change [OF inv i record_frame] goInvD(1) [OF inv i] c show ?thesis by simp
next
  case (GoReporting err)
  then have c: "g_cancelled (pm_go st ! i)" using goInvD(2) [OF inv i] by simp
  from run GoReporting obtain ph where "st' = setGo i ((pm_go st ! i)\<lparr>g_phase := ph\<rparr>) st"
    by (auto simp: endGo_def)
  with mgrInv_go_change [OF inv i dbFrame_refl] goInvD(1) [OF inv i] c show ?thesis by simp
next
  case (GoSending j err)
  then have c: "g_cancelled (pm_go st ! i)" using goInvD(2) [OF inv i] by simp
  let ?st = "setGo j ((pm_go st ! j)\<lparr>g_stopCh := Some err\<rparr>) st"
  have inv1: "mgrInv S C ?st"
  proof (cases "j < length (pm_go st)")
    case True
    then show ?thesis
      using goInvD [OF inv True] mgrInvD(3,4) [OF inv, of "cmdKey (g_cmd (pm_go st ! j))" j]
      by (intro mgrInv_setGo [OF inv]) auto
  next
    case False
    then show ?thesis using inv by (simp add: setGo_def list_update_beyond)
  qed
  have i1: "i < length (pm_go ?st)" and c1: "g_cancelled (pm_go ?st ! i)"
    using i c by (cases "j = i"; simp add: setGo_def)+
  from run GoSending have "st' = setGo i ((pm_go ?st ! i)\<lparr>g_phase := GoEnded\<rparr>) ?st"
    by (auto simp: endGo_def split: option.splits)
  with mgrInv_go_change [OF inv1 i1 dbFrame_refl] goInvD(1) [OF inv1 i1] c1 show ?thesis by simp
qed (use run in \<open>simp_all add: endGo_def\<close>)

lemma mgrInv_goStep:
  assumes inv: "mgrInv S C st" and i: "i < length (pm_go st)" and run: "goStep fe i ev st = Some st'"
  shows "mgrInv S C st'"
proof -
  let ?g = "pm_go st ! i"
  note bo = goInvD(1) [OF inv i]
  have live: "g_phase ?g = GoRunning" if "ev \<noteq> ReadyEvent" "ev \<noteq> Proceed"
    using run that by (auto simp: goStep_def split: if_splits)
  show ?thesis
  proof (cases ev)
    case PodGone
    from run PodGone live obtain q where "howToGetCurrentPod (fe_cluster fe) (g_cmd ?g) = Some q"
      by (auto simp: goStep_def Option.bind_eq_Some_conv)
    then consider n where "st' = setGo i (?g\<lparr>g_cmd := (g_cmd ?g)\<lparr>pfc_PodName := n\<rparr>\<rparr>) st"
      | a b where "st' = setGo i (?g\<lparr>g_backoff := nextBackoff (g_backoff ?g)\<rparr>) (statusOf fe ?g a b st)"
      using run PodGone live by (cases q) (auto simp: goStep_def)
    then show ?thesis
    proof cases
      case (1 n)
      with mgrInv_go_change [OF inv i dbFrame_refl] bo live PodGone show ?thesis by (simp add: cmdKey_def)
    next
      case (2 a b)
      with mgrInv_go_change [OF inv i status_frame] nextBackoff_range [OF bo] live PodGone show ?thesis by simp
    qed
  next
    case SocatMissing
    with run live have "st' = setGo i (?g\<lparr>g_phase := GoUnregister\<rparr>)
        (statusOf fe ?g ''Socat not found'' ''failed to find socat'' st)" by (simp add: goStep_def)
    with mgrInv_go_change [OF inv i status_frame] bo show ?thesis by simp
  next
    case ContextDone
    obtain err st1 where del: "DeletePortForwardFromDB mgrProf (cmdSvc (g_cmd ?g)) (pfc_LocalPort (g_cmd ?g))
        (pfc_RemotePort (g_cmd ?g)) st = (err, st1)" by (metis surj_pair)
    with run live ContextDone have "g_cancelled ?g" "st' = setGo i (?g\<lparr>g_phase := GoRecording err\<rparr>) st1"
      by (auto simp: goStep_def split: if_splits)
    with mgrInv_go_change [OF inv i delete_frame [OF del]] bo show ?thesis by simp
  next
    case Proceed
    with run mgrInv_endGo [OF inv i] show ?thesis by (simp add: goStep_def)
  qed (use run live mgrInv_frame [OF status_frame inv] in \<open>auto simp: goStep_def\<close>)
qed

lemma command_pending: "pts toRemove (commandPoints c st) = {}" "pts toCancel (commandPoints c st) = {}"
  by (cases c; simp add: handleStartPortForwardCommand_def handleStopPortForwardCommand_def doPortForward_def
      StartPortForwardGoRoutine_def StopPortForwardGoRoutine_def RecoverAllPortForward_def pts_def)+

lemma pfInv_thread:
  assumes inv: "pfInv d" and run: "threadStep fe t d = Some d'"
  shows "pfInv d'"
proof -
  obtain p rest todo e st where t: "t < length (pd_threads d)" "th_todo (pd_threads d ! t) = p # rest"
    and step: "pointStep fe p rest (pd_mgr d) = Some (todo, e, st)"
    and d': "d' = \<lparr>pd_mgr = st, pd_threads = (pd_threads d)[t := \<lparr>th_todo = todo, th_err = e\<rparr>]\<rparr>"
    using run by (auto simp: threadStep_def split: if_splits list.splits option.splits)
  let ?th = "\<lparr>th_todo = todo, th_err = e\<rparr>"
  have "mgrInv (pending toRemove ((pd_threads d)[t := ?th])) (pending toCancel ((pd_threads d)[t := ?th])) st"
  proof (rule mgrInv_point [OF inv [unfolded pfInv_def] step])
    show "(pending toRemove (pd_threads d) - toRemove p) \<union> pts toRemove todo \<subseteq> pending toRemove ((pd_threads d)[t := ?th])"
      using pending_keep [OF t, of toRemove ?th] point_keeps_removals [OF step] by simp
    show "pending toCancel ((pd_threads d)[t := ?th]) \<subseteq> pending toCancel (pd_threads d) \<union> pts toCancel todo"
      using pending_new [of toCancel "pd_threads d" t ?th] by simp
    show "toCancel p \<union> pts toCancel rest \<subseteq> pending toCancel (pd_threads d)"
      using pending_thread [OF t(1), of toCancel] t(2) by simp
  qed
  then show ?thesis by (simp add: d' pfInv_def)
qed

lemma pfInv_step:
  assumes inv: "pfInv d" and run: "daemonStep l d = Some d'"
  shows "pfInv d'"
proof (cases l)
  case (Command c)
  with run inv show ?thesis by (auto simp: pfInv_def command_pending)
next
  case (ThreadStep fe t)
  with run pfInv_thread [OF inv] show ?thesis by simp
next
  case (GoEvent fe i ev)
  with run inv show ?thesis
    by (auto simp: pfInv_def split: if_splits option.splits elim: mgrInv_goStep)
qed

subsection \<open>Records of the database\<close>

text \<open>The number of records that the service of a command has for its ports.\<close>

definition records :: "PortForwardCommand \<Rightarrow> pfManager \<Rightarrow> nat" where
  "records cmd st =
     (case pm_db st (cmdApp cmd) of
        None \<Rightarrow> 0
      | Some p \<Rightarrow>
          (case SvcProfileV2_lookup (ap_SvcProfile p) (pfc_Service cmd) (pfc_ServiceType cmd) of
             (i, ps) \<Rightarrow> length (filter (samePorts (pfc_LocalPort cmd) (pfc_RemotePort cmd)) (prof_DevPortForwardList (ps ! i)))))"

lemma records_cong: "pm_db st = pm_db st' \<Longrightarrow> records cmd st = records cmd st'"
  by (simp add: records_def)

lemma records_manager [simp]:
  "records cmd (recordPortForward app b st) = records cmd st" "records cmd (setGo i g st) = records cmd st"
  "records cmd (st\<lparr>pm_list := m\<rparr>) = records cmd st" "records cmd (st\<lparr>pm_dbMark := ms\<rparr>) = records cmd st" "records cmd (st\<lparr>pm_go := gs\<rparr>) = records cmd st"
  "records cmd (register c pod st) = records cmd st"
  by (rule records_cong; simp add: recordPortForward_def setGo_def register_def)+

lemma read_records: "readProfile mgrProf k st = (r, st') \<Longrightarrow> records cmd st' = records cmd st"
  by (cases "pm_db st k"; cases "cmdApp cmd = k")
    (auto simp: mgrProf_def records_def emptyProfile_def SvcProfileV2_lookup_def newSvcProfile_def)

lemma check_records:
  assumes "CheckIfPortForwardExists mgrProf (cmdSvc cmd) (pfc_LocalPort cmd) (pfc_RemotePort cmd) st = ((b, e), st')"
  shows "b \<longleftrightarrow> records cmd st \<noteq> 0" and "records cmd st' = records cmd st" and "pm_db st' (cmdApp cmd) \<noteq> None"
proof -
  obtain q where rd: "readProfile mgrProf (cmdApp cmd) st = (q, st')"
    using assms by (auto simp: CheckIfPortForwardExists_def GetProfile_def cmdSvc_def split: prod.splits sum.splits)
  then obtain p where q: "q = Inr p" and db: "pm_db st' (cmdApp cmd) = Some p"
    by (auto simp: mgrProf_def split: option.splits)
  show r: "records cmd st' = records cmd st" using read_records [OF rd] .
  obtain i ps where l: "SvcProfileV2_lookup (ap_SvcProfile p) (pfc_Service cmd) (pfc_ServiceType cmd) = (i, ps)"
    by (metis surj_pair)
  have "b = list_ex (samePorts (pfc_LocalPort cmd) (pfc_RemotePort cmd)) (prof_DevPortForwardList (ps ! i))"
    using assms rd q l by (simp add: CheckIfPortForwardExists_def GetProfile_def cmdSvc_def)
  moreover have "records cmd st' =
      length (filter (samePorts (pfc_LocalPort cmd) (pfc_RemotePort cmd)) (prof_DevPortForwardList (ps ! i)))"
    by (simp add: records_def db l)
  ultimately show "b \<longleftrightarrow> records cmd st \<noteq> 0" by (auto simp: r [symmetric] list_ex_iff filter_empty_conv)
  show "pm_db st' (cmdApp cmd) \<noteq> None" by (simp add: db)
qed

text \<open>An update of the service that keeps its name and type counts in the changed profile.\<close>

lemma update_records:
  assumes db: "pm_db st (cmdApp cmd) = Some p" and svc: "pfc_Service cmd \<noteq> []"
    and l: "SvcProfileV2_lookup (ap_SvcProfile p) (pfc_Service cmd) (pfc_ServiceType cmd) = (i, ps)"
    and m: "modify (ps ! i) = Inr s" "prof_Name s = prof_Name (ps ! i)" "prof_Type s = prof_Type (ps ! i)"
    and upd: "UpdateSvcProfile mgrProf (cmdSvc cmd) modify st = (e, st')"
  shows "e = None" and "pm_db st' (cmdApp cmd) \<noteq> None"
    and "records cmd st' =
      length (filter (samePorts (pfc_LocalPort cmd) (pfc_RemotePort cmd)) (prof_DevPortForwardList s))"
proof -
  obtain q where q: "e = None" "pm_db st' (cmdApp cmd) = Some q" "ap_SvcProfile q = ps[i := s]"
    using upd db l m by (auto simp: UpdateSvcProfile_def mgrProf_def cmdSvc_def)
  note hit = lookup_hit [OF l svc]
  have "SvcProfileV2_lookup (ap_SvcProfile q) (pfc_Service cmd) (pfc_ServiceType cmd) = (i, ps[i := s])"
    unfolding q(3) using hit m by (intro lookup_again [OF l svc]) simp_all
  with q hit show "records cmd st' =
      length (filter (samePorts (pfc_LocalPort cmd) (pfc_RemotePort cmd)) (prof_DevPortForwardList s))"
    by (simp add: records_def)
  show "e = None" "pm_db st' (cmdApp cmd) \<noteq> None" using q by simp_all
qed

lemma filter_dropAt:
  assumes "findIndex P xs = Some j"
  shows "length (filter P xs) = Suc (length (filter P (dropAt j xs)))"
proof -
  from findIndex_Some [OF assms] have j: "j < length xs" "P (xs ! j)" by auto
  have "filter P xs = filter P (take j xs @ xs ! j # drop (Suc j) xs)" using j by (simp add: id_take_nth_drop [symmetric])
  with j show ?thesis by (simp add: dropAt_def)
qed

lemma delete_records:
  assumes rec: "records cmd st = Suc n" and svc: "pfc_Service cmd \<noteq> []"
    and del: "DeletePortForwardFromDB mgrProf (cmdSvc cmd) (pfc_LocalPort cmd) (pfc_RemotePort cmd) st = (e, st')"
  shows "e = None" and "records cmd st' = n" and "pm_db st' (cmdApp cmd) \<noteq> None"
proof -
  let ?P = "samePorts (pfc_LocalPort cmd) (pfc_RemotePort cmd)"
  obtain p where p: "pm_db st (cmdApp cmd) = Some p" using rec by (auto simp: records_def split: option.splits)
  obtain i ps where l: "SvcProfileV2_lookup (ap_SvcProfile p) (pfc_Service cmd) (pfc_ServiceType cmd) = (i, ps)"
    by (metis surj_pair)
  have len: "length (filter ?P (prof_DevPortForwardList (ps ! i))) = Suc n" using rec by (simp add: records_def p l)
  then obtain j where j: "findIndex ?P (prof_DevPortForwardList (ps ! i)) = Some j"
    by (cases "findIndex ?P (prof_DevPortForwardList (ps ! i))") (auto simp: findIndex_None find_None_iff filter_empty_conv length_Suc_conv dest: filter_eq_ConsD)
  note u = update_records [OF p svc l _ _ _ del [unfolded DeletePortForwardFromDB_def]]
  from j have m: "deletePf (pfc_LocalPort cmd) (pfc_RemotePort cmd) (ps ! i) =
      Inr ((ps ! i)\<lparr>prof_DevPortForwardList := dropAt j (prof_DevPortForwardList (ps ! i))\<rparr>)"
    by (simp add: deletePf_def)
  show "e = None" "pm_db st' (cmdApp cmd) \<noteq> None" using u(1,2) [OF m] by simp_all
  show "records cmd st' = n" using u(3) [OF m] filter_dropAt [OF j] len by simp
qed

lemma add_records:
  assumes db: "pm_db st (cmdApp cmd) \<noteq> None" and svc: "pfc_Service cmd \<noteq> []"
    and pf: "samePorts (pfc_LocalPort cmd) (pfc_RemotePort cmd) pf"
    and add: "AddPortForwardToDB mgrProf (cmdSvc cmd) pf st = (e, st')"
  shows "e = None" and "records cmd st' = Suc (records cmd st)" and "pm_db st' (cmdApp cmd) \<noteq> None"
proof -
  obtain p where p: "pm_db st (cmdApp cmd) = Some p" using db by blast
  obtain i ps where l: "SvcProfileV2_lookup (ap_SvcProfile p) (pfc_Service cmd) (pfc_ServiceType cmd) = (i, ps)"
    by (metis surj_pair)
  note u = update_records [OF p svc l refl _ _ add [unfolded AddPortForwardToDB_def]]
  show "e = None" "pm_db st' (cmdApp cmd) \<noteq> None" using u(1,2) by simp_all
  show "records cmd st' = Suc (records cmd st)" using u(3) pf by (simp add: records_def p l)
qed

subsection \<open>Schedules\<close>

definition reaches :: "pfDaemon \<Rightarrow> pfDaemon \<Rightarrow> bool" where
  "reaches d d' \<longleftrightarrow> (\<exists>ls. pf_run d ls d')"

lemma reaches_refl [simp]: "reaches d d"
  using run_refl unfolding reaches_def by blast

lemma reaches_Cons: "daemonStep l d = Some d1 \<Longrightarrow> reaches d1 d2 \<Longrightarrow> reaches d d2"
  using run_Cons unfolding reaches_def by blast

lemma reaches_trans: "reaches d d1 \<Longrightarrow> reaches d1 d2 \<Longrightarrow> reaches d d2"
  using pf_run_trans unfolding reaches_def by blast

lemma reaches_start:
  assumes "reaches \<lparr>pd_mgr = pd_mgr d, pd_threads = pd_threads d @ [\<lparr>th_todo = [StartBegin cmd True], th_err = None\<rparr>]\<rparr> d'"
  shows "\<exists>ls. pf_run d (Command (StartCmd cmd) # ls) d'"
proof -
  have "daemonStep (Command (StartCmd cmd)) d =
      Some \<lparr>pd_mgr = pd_mgr d, pd_threads = pd_threads d @ [\<lparr>th_todo = [StartBegin cmd True], th_err = None\<rparr>]\<rparr>"
    by (cases d) (simp add: handleStartPortForwardCommand_def StartPortForwardGoRoutine_def)
  with assms show ?thesis unfolding reaches_def using run_Cons by blast
qed

text \<open>The next step of a run, by a thread or by a goroutine.\<close>

lemma reaches_point:
  assumes "pointStep fe p rest st = Some (todo, e', st')"
    and "reaches \<lparr>pd_mgr = st', pd_threads = ths @ \<lparr>th_todo = todo, th_err = e'\<rparr> # us\<rparr> d'"
  shows "reaches \<lparr>pd_mgr = st, pd_threads = ths @ \<lparr>th_todo = p # rest, th_err = e\<rparr> # us\<rparr> d'"
  by (rule reaches_Cons [OF _ assms(2), of "ThreadStep fe (length ths)"]) (simp add: threadStep_def assms(1))

lemma reaches_go:
  assumes "goStep fe i ev st = Some st'" and "i < length (pm_go st)"
    and "reaches \<lparr>pd_mgr = st', pd_threads = ths\<rparr> d'"
  shows "reaches \<lparr>pd_mgr = st, pd_threads = ths\<rparr> d'"
  by (rule reaches_Cons [OF _ assms(3), of "GoEvent fe i ev"]) (simp add: assms(1,2))

text \<open>A command whose environment lets it pass: application, port, controller, pod and top controller.\<close>

definition passes :: "forwardEnv \<Rightarrow> PortForwardCommand \<Rightarrow> pfPod \<Rightarrow> OwnerReference option \<Rightarrow> bool" where
  "passes fe cmd pod own \<longleftrightarrow> fe_application fe cmd = None \<and> fe_listen fe (pfc_LocalPort cmd) = None \<and>
     fe_controller fe cmd = None \<and> howToGetCurrentPod (fe_cluster fe) cmd = Some (Inr pod) \<and>
     GetTopController (fe_cluster fe) (pp_Owners pod) = Some own \<and> pfc_Service cmd \<noteq> []"

lemma newPf_ports: "samePorts (pfc_LocalPort cmd) (pfc_RemotePort cmd) (newPf fe cmd pod own)"
  by (simp add: samePorts_def newPf_def)

lemma app_passes:
  "passes fe cmd pod own \<Longrightarrow> pointStep fe (StartApp cmd True) rest st =
     Some (StartCheck cmd # rest, None, recordPortForward (cmdApp cmd) True st)"
  by (simp add: passes_def startApp_def)

lemma check_passes:
  assumes "records cmd st = 0"
  obtains st' where "pointStep fe (StartCheck cmd) rest st = Some (StartPod cmd True # rest, None, st')"
    and "dbFrame st st'" and "records cmd st' = 0" and "pm_db st' (cmdApp cmd) \<noteq> None"
proof -
  obtain b e st' where c: "CheckIfPortForwardExists mgrProf (cmdSvc cmd) (pfc_LocalPort cmd) (pfc_RemotePort cmd) st = ((b, e), st')"
    by (metis surj_pair)
  from check_records [OF c] check_frame [OF c] c assms that [of st'] show thesis by (simp add: startCheck_def)
qed

lemma check_refuses:
  assumes "records cmd st \<noteq> 0"
  obtains st' where "pointStep fe (StartCheck cmd) rest st =
      Some (rest, Some (''Port forward '' @ cmdKey cmd @ '' already exists''), st')"
    and "dbFrame st st'" and "records cmd st' = records cmd st"
proof -
  obtain b e st' where c: "CheckIfPortForwardExists mgrProf (cmdSvc cmd) (pfc_LocalPort cmd) (pfc_RemotePort cmd) st = ((b, e), st')"
    by (metis surj_pair)
  from check_records [OF c] check_frame [OF c] c assms that [of st'] show thesis by (simp add: startCheck_def)
qed

lemma pod_passes:
  assumes ok: "passes fe cmd pod own" and db: "pm_db st (cmdApp cmd) \<noteq> None"
  obtains st' where "pointStep fe (StartPod cmd True) rest st = Some (StartRegister cmd pod # rest, None, st')"
    and "dbFrame st st'" and "records cmd st' = Suc (records cmd st)" and "pm_db st' (cmdApp cmd) \<noteq> None"
proof -
  obtain e st' where a: "AddPortForwardToDB mgrProf (cmdSvc cmd) (newPf fe cmd pod own) st = (e, st')" by (metis surj_pair)
  from add_records [OF db _ newPf_ports a] ok have "e = None" "records cmd st' = Suc (records cmd st)"
    "pm_db st' (cmdApp cmd) \<noteq> None" by (simp_all add: passes_def)
  with a ok add_frame [OF a] that [of st'] show thesis by (simp add: startPod_def passes_def)
qed

text \<open>A cancelled goroutine that deletes its record, and the rest of its way out.\<close>

definition stopped :: "PortForwardCommand \<Rightarrow> nat \<Rightarrow> pfManager \<Rightarrow> bool" where
  "stopped cmd i st \<longleftrightarrow> i < length (pm_go st) \<and> g_cancelled (pm_go st ! i) \<and> pm_list st (cmdKey cmd) = None \<and>
     (\<exists>pod. g_cmd (pm_go st ! i) = cmd\<lparr>pfc_PodName := pod\<rparr>)"

lemma cmd_pod [simp]:
  "cmdSvc (cmd\<lparr>pfc_PodName := pod\<rparr>) = cmdSvc cmd" "cmdApp (cmd\<lparr>pfc_PodName := pod\<rparr>) = cmdApp cmd"
  "cmdKey (cmd\<lparr>pfc_PodName := pod\<rparr>) = cmdKey cmd"
  by (simp_all add: cmdSvc_def cmdApp_def cmdKey_def)

lemma stopped_change:
  assumes "stopped cmd i st" and "dbFrame st st'" and "g = (pm_go st ! i)\<lparr>g_phase := ph\<rparr>"
  shows "stopped cmd i (setGo i g st')" and "pm_go (setGo i g st') ! i = g"
    and "length (pm_go (setGo i g st')) = length (pm_go st)"
  using assms by (auto simp: stopped_def setGo_def dbFrame_def)

lemma context_done:
  assumes st: "stopped cmd i st" and ph: "g_phase (pm_go st ! i) = GoRunning"
    and rec: "records cmd st = Suc n" and svc: "pfc_Service cmd \<noteq> []"
  obtains st' where "goStep fe i ContextDone st = Some st'" and "stopped cmd i st'"
    and "g_phase (pm_go st' ! i) = GoRecording None" and "records cmd st' = n"
    and "length (pm_go st') = length (pm_go st)"
proof -
  obtain e st1 where del: "DeletePortForwardFromDB mgrProf (cmdSvc cmd) (pfc_LocalPort cmd) (pfc_RemotePort cmd) st = (e, st1)"
    by (metis surj_pair)
  note d = delete_records [OF rec svc del]
  let ?g = "(pm_go st ! i)\<lparr>g_phase := GoRecording None\<rparr>"
  have "goStep fe i ContextDone st = Some (setGo i ?g st1)"
    using st ph del d(1) by (auto simp: goStep_def stopped_def)
  with that [of "setGo i ?g st1"] stopped_change [OF st delete_frame [OF del], of ?g] d(2) show thesis by simp
qed

lemma way_out:
  assumes st: "stopped cmd i st" and ph: "g_phase (pm_go st ! i) = GoRecording err"
  obtains st' where "reaches \<lparr>pd_mgr = st, pd_threads = ths\<rparr> \<lparr>pd_mgr = st', pd_threads = ths\<rparr>" and "stopped cmd i st'"
    and "g_phase (pm_go st' ! i) = GoEnded" and "records cmd st' = records cmd st"
proof -
  obtain b st1 where fwd: "IsPortForwarding mgrProf (cmdApp cmd) st = (b, st1)" by (metis surj_pair)
  have r1: "records cmd st1 = records cmd st"
    using fwd by (auto simp: IsPortForwarding_def split: prod.splits sum.splits dest: read_records)
  define g1 where "g1 = (pm_go st ! i)\<lparr>g_phase := GoMarking b err\<rparr>"
  define st2 where "st2 = setGo i g1 st1"
  note f1 = stopped_change [OF st isForwarding_frame [OF fwd] g1_def, folded st2_def]
  have i: "i < length (pm_go st)" using st by (simp add: stopped_def)
  have "goStep fe i Proceed st = Some st2" for fe
    using st ph fwd by (auto simp: goStep_def endGo_def stopped_def st2_def g1_def)
  note s1 = reaches_go [OF this i]
  define g2 where "g2 = (pm_go st2 ! i)\<lparr>g_phase := GoReporting err\<rparr>"
  define st3 where "st3 = setGo i g2 (recordPortForward (cmdApp cmd) b st2)"
  note f2 = stopped_change [OF f1(1) record_frame g2_def, of "cmdApp cmd" b, folded st3_def]
  have "goStep fe i Proceed st2 = Some st3" for fe
    using f1 by (auto simp: goStep_def endGo_def stopped_def st3_def g2_def g1_def)
  note s2 = reaches_go [OF this]
  define g3 where "g3 = (pm_go st3 ! i)\<lparr>g_phase := GoEnded\<rparr>"
  define st4 where "st4 = setGo i g3 st3"
  note f3 = stopped_change [OF f2(1) dbFrame_refl g3_def, folded st4_def]
  have "goStep fe i Proceed st3 = Some st4" for fe
    using f2 by (auto simp: goStep_def endGo_def stopped_def st4_def g3_def g2_def)
  note s3 = reaches_go [OF this]
  have "reaches \<lparr>pd_mgr = st, pd_threads = ths\<rparr> \<lparr>pd_mgr = st4, pd_threads = ths\<rparr>"
    by (rule s1, rule s2, use f1 i in simp, rule s3, use f1 f2 i in simp, rule reaches_refl)
  then show thesis by (rule that) (use f3 r1 in \<open>simp_all add: st4_def st3_def st2_def g3_def\<close>)
qed

text \<open>What a start does to a forward in the map before it looks for the application.\<close>

definition afterStop :: "PortForwardCommand \<Rightarrow> nat \<Rightarrow> pfManager \<Rightarrow> pfManager" where
  "afterStop cmd i st =
     st\<lparr>pm_list := (pm_list st)(cmdKey cmd := None),
        pm_go := (pm_go st)[i := (pm_go st ! i)\<lparr>g_cancelled := True, g_stopCh := None\<rparr>]\<rparr>"

lemma reaches_afterStop:
  assumes "pm_list st (cmdKey cmd) = Some i" and "i < length (pm_go st)"
    and "\<And>e. reaches \<lparr>pd_mgr = afterStop cmd i st, pd_threads = ths @ [\<lparr>th_todo = StartApp cmd True # rest, th_err = e\<rparr>]\<rparr> d'"
  shows "reaches \<lparr>pd_mgr = st, pd_threads = ths @ [\<lparr>th_todo = StartBegin cmd True # rest, th_err = e0\<rparr>]\<rparr> d'"
proof -
  let ?g = "(pm_go st ! i)\<lparr>g_cancelled := True\<rparr>"
  let ?st1 = "setGo i ?g st"
  let ?st2 = "setGo i ((pm_go ?st1 ! i)\<lparr>g_stopCh := None\<rparr>) ?st1"
  have after: "?st2\<lparr>pm_list := (pm_list ?st2)(cmdKey cmd := None)\<rparr> = afterStop cmd i st"
    using assms(2) by (simp add: afterStop_def setGo_def)
  have first: "pointStep fe (StartBegin cmd True) rest st = Some (StopBegin cmd # StartApp cmd True # rest, None, st)"
    and stop: "pointStep fe (StopBegin cmd) rest' st = Some (StopCancel cmd i # rest', None, st)"
    and cancel: "pointStep fe (StopCancel cmd i) rest' st = Some (StopReceive cmd i # rest', None, ?st1)"
    and del: "pointStep fe (StopDelete cmd i e) rest' ?st2 = Some (rest', e, afterStop cmd i st)" for fe rest' e
    using assms(1) after by (simp_all add: point_defs)
  obtain e where receive': "pointStep fe (StopReceive cmd i) rest' ?st1 = Some (StopDelete cmd i e # rest', None, ?st2)" for fe rest'
    by (auto simp: point_defs)
  show ?thesis
    by (rule reaches_point [OF first], rule reaches_point [OF stop], rule reaches_point [OF cancel],
        rule reaches_point [OF receive'], rule reaches_point [OF del], rule assms(3))
qed

subsection \<open>An example\<close>

definition demoPfCluster :: pfCluster where
  "demoPfCluster =
     \<lparr>cl_GetPod = \<lambda>n. if n = ''web-0'' then Inr \<lparr>pp_Name = n, pp_Labels = [], pp_Owners = []\<rparr> else Inl ''not found'',
      cl_ListPods = \<lambda>_. [], cl_ResourceFor = \<lambda>_. None, cl_Owners = \<lambda>_ _. None\<rparr>"

definition demoForwardEnv :: forwardEnv where
  "demoForwardEnv =
     \<lparr>fe_application = \<lambda>_. None, fe_listen = \<lambda>_. None, fe_controller = \<lambda>_. None, fe_cluster = demoPfCluster,
      fe_now = ''2022-05-01 10:00:00'', fe_sudo = False, fe_pid = 7, fe_client = None, fe_devPod = Inr ''web-0''\<rparr>"

definition demoForward :: PortForwardCommand where
  "demoForward = portForwardCommand ((''ns'', ''book'', ''n1''), ''web'', ''deployment'') ''web-0'' 8080 80 []"

definition demoPod :: pfPod where
  "demoPod = \<lparr>pp_Name = ''web-0'', pp_Labels = [], pp_Owners = []\<rparr>"

definition demoDaemon :: pfDaemon where
  "demoDaemon = \<lparr>pd_mgr = NewPortForwardManager [(''ns'', ''book'', ''n1'') \<mapsto> emptyProfile], pd_threads = []\<rparr>"

lemma demo_passes: "passes demoForwardEnv demoForward demoPod None"
proof -
  have "GetTopController demoPfCluster [] = Some None" by (subst GetTopController.simps) simp
  then show ?thesis
    by (simp add: passes_def demoForwardEnv_def demoForward_def portForwardCommand_def demoPod_def
        howToGetCurrentPod_def) (simp add: demoPfCluster_def)
qed

lemma demo_start_state:
  "pfInv demoDaemon" "pm_list (pd_mgr demoDaemon) k = None" "records demoForward (pd_mgr demoDaemon) = 0"
  "pm_go (pd_mgr demoDaemon) = []" "pd_threads demoDaemon = []"
  by (simp_all add: demoDaemon_def NewPortForwardManager_def pfInv_def mgrInv_def regInv_def cancelInv_def goInv_def
      dbInv_def pending_def emptyProfile_def hasForwards_def records_def cmdApp_def demoForward_def
      portForwardCommand_def SvcProfileV2_lookup_def newSvcProfile_def)

subsection \<open>A first start\<close>

text \<open>A start alone, from a state without forward and record, ends with both.\<close>

lemma start_alone:
  assumes ok: "passes fe cmd pod own" and none: "pm_list (pd_mgr d) (cmdKey cmd) = None" "records cmd (pd_mgr d) = 0"
  obtains ls st where
    "pf_run d (Command (StartCmd cmd) # ls) \<lparr>pd_mgr = register cmd pod st, pd_threads = pd_threads d @ [\<lparr>th_todo = [], th_err = None\<rparr>]\<rparr>"
    and "pm_go st = pm_go (pd_mgr d)" and "records cmd st = 1"
proof -
  let ?st1 = "recordPortForward (cmdApp cmd) True (pd_mgr d)"
  have first: "pointStep fe (StartBegin cmd True) [] (pd_mgr d) = Some ([StartApp cmd True], None, pd_mgr d)"
    using none(1) by (simp add: startBegin_def)
  obtain st2 where s2: "pointStep fe (StartCheck cmd) [] ?st1 = Some ([StartPod cmd True], None, st2)" "dbFrame ?st1 st2"
      "records cmd st2 = 0" "pm_db st2 (cmdApp cmd) \<noteq> None"
    using check_passes [of cmd ?st1 fe "[]"] none(2) by (metis records_manager(1))
  obtain st3 where s3: "pointStep fe (StartPod cmd True) [] st2 = Some ([StartRegister cmd pod], None, st3)"
      "dbFrame st2 st3" "records cmd st3 = Suc (records cmd st2)"
    using pod_passes [OF ok s2(4)] by metis
  have last: "pointStep fe (StartRegister cmd pod) [] st3 = Some ([], None, register cmd pod st3)" by simp
  have "reaches \<lparr>pd_mgr = pd_mgr d, pd_threads = pd_threads d @ [\<lparr>th_todo = [StartBegin cmd True], th_err = None\<rparr>]\<rparr>
      \<lparr>pd_mgr = register cmd pod st3, pd_threads = pd_threads d @ [\<lparr>th_todo = [], th_err = None\<rparr>]\<rparr>"
    by (rule reaches_point [OF first], rule reaches_point [OF app_passes [OF ok]], rule reaches_point [OF s2(1)],
        rule reaches_point [OF s3(1)], rule reaches_point [OF last], rule reaches_refl)
  from reaches_start [OF this] obtain ls where run: "pf_run d (Command (StartCmd cmd) # ls)
      \<lparr>pd_mgr = register cmd pod st3, pd_threads = pd_threads d @ [\<lparr>th_todo = [], th_err = None\<rparr>]\<rparr>" by blast
  have "pm_go st3 = pm_go (pd_mgr d)" using s2(2) s3(2) by (simp add: dbFrame_def recordPortForward_def)
  with run that s2(3) s3(3) show thesis by simp
qed

lemma run_invariant: "pf_run d ls d' \<Longrightarrow> pfInv d \<Longrightarrow> pfInv d'"
  by (induction rule: pf_run.induct) (blast intro: pfInv_step)+

text \<open>C11: The daemon runs every command, that is every start, stop, restart for the file
  synchronisation and recovery, in a goroutine of its own; the map, the database and the marker
  files are read and written in single steps that may interleave in any way with the steps of other
  commands and of the goroutines of the forwards. In every state that is reached, every forward in
  the map has the ports of its key, and its goroutine is not cancelled and is either in its loop or,
  with \<open>socat\<close> missing, about to take itself out of the map, unless a stop under way has cancelled it
  and is about to take it out; so once all commands are through, no cancelled or ended forward is
  left in the map. A goroutine that is on its way out, other than for \<open>socat\<close>, was cancelled; the
  back-off of a goroutine is 15, 30, 45 or 60 seconds; and an application with recorded forwards has
  the marker by which the recovery finds it.\<close>

theorem pf_manager_invariant:
  assumes "pf_run d ls d'" and "pfInv d"
  shows "pfInv d' \<and> ((\<forall>th\<in>set (pd_threads d'). th_todo th = []) \<longrightarrow>
    (\<forall>k i. pm_list (pd_mgr d') k = Some i \<longrightarrow>
       i < length (pm_go (pd_mgr d')) \<and> cmdKey (g_cmd (pm_go (pd_mgr d') ! i)) = k \<and>
       \<not> g_cancelled (pm_go (pd_mgr d') ! i) \<and> g_phase (pm_go (pd_mgr d') ! i) \<in> {GoRunning, GoUnregister}))"
proof (intro conjI impI allI)
  show inv: "pfInv d'"
    using assms by (rule run_invariant)
  fix k i
  assume "\<forall>th\<in>set (pd_threads d'). th_todo th = []" and i: "pm_list (pd_mgr d') k = Some i"
  then have "pending toRemove (pd_threads d') = {}" by (simp add: pending_def)
  note r = mgrInvD [OF inv [unfolded pfInv_def] i, unfolded this]
  show "i < length (pm_go (pd_mgr d'))" and "cmdKey (g_cmd (pm_go (pd_mgr d') ! i)) = k"
    and "\<not> g_cancelled (pm_go (pd_mgr d') ! i)" using r by blast+
  then show "g_phase (pm_go (pd_mgr d') ! i) \<in> {GoRunning, GoUnregister}" using r(3) by blast
qed

theorem pf_manager_invariant_witness:
  "\<exists>ls d'. pf_run demoDaemon ls d' \<and> pfInv d' \<and> pm_list (pd_mgr d') (cmdKey demoForward) = Some 0 \<and>
     g_phase (pm_go (pd_mgr d') ! 0) \<in> {GoRunning, GoUnregister}"
proof -
  obtain ls st where run: "pf_run demoDaemon (Command (StartCmd demoForward) # ls)
      \<lparr>pd_mgr = register demoForward demoPod st, pd_threads = pd_threads demoDaemon @ [\<lparr>th_todo = [], th_err = None\<rparr>]\<rparr>"
      (is "pf_run _ ?ls ?d") and go: "pm_go st = []"
    using start_alone [OF demo_passes, of demoDaemon] demo_start_state by metis
  have reg: "pm_list (pd_mgr ?d) (cmdKey demoForward) = Some 0" using go by (simp add: register_def)
  have idle: "\<forall>th\<in>set (pd_threads ?d). th_todo th = []" by (simp add: demo_start_state(5))
  from pf_manager_invariant [OF run demo_start_state(1)] idle reg
  have "pfInv ?d" "g_phase (pm_go (pd_mgr ?d) ! 0) \<in> {GoRunning, GoUnregister}" by blast+
  with run reg show ?thesis by blast
qed

subsection \<open>A second start\<close>

text \<open>The state in which a second start looks for the application, having stopped the first forward.\<close>

lemma second_start_stopped:
  assumes "pm_list (pd_mgr d) (cmdKey cmd) = Some i" and "i < length (pm_go (pd_mgr d))"
    and "g_phase (pm_go (pd_mgr d) ! i) = GoRunning" and "g_cmd (pm_go (pd_mgr d) ! i) = cmd\<lparr>pfc_PodName := n\<rparr>"
    and "records cmd (pd_mgr d) = 1"
  shows "stopped cmd i (afterStop cmd i (pd_mgr d))"
    and "g_phase (pm_go (afterStop cmd i (pd_mgr d)) ! i) = GoRunning"
    and "records cmd (afterStop cmd i (pd_mgr d)) = Suc 0"
  using assms by (auto simp: afterStop_def stopped_def)

lemma second_start_fails:
  assumes ok: "passes fe cmd pod own" and st: "stopped cmd i st" "g_phase (pm_go st ! i) = GoRunning" "records cmd st = Suc 0"
  obtains st' where "\<forall>e. reaches \<lparr>pd_mgr = st, pd_threads = ths @ [\<lparr>th_todo = [StartApp cmd True], th_err = e\<rparr>]\<rparr>
      \<lparr>pd_mgr = st', pd_threads = ths @ [\<lparr>th_todo = [], th_err = Some (''Port forward '' @ cmdKey cmd @ '' already exists'')\<rparr>]\<rparr>"
    and "stopped cmd i st'" and "g_phase (pm_go st' ! i) = GoEnded" and "records cmd st' = 0"
proof -
  let ?st = "recordPortForward (cmdApp cmd) True st"
  have "records cmd ?st \<noteq> 0" using st(3) by simp
  then obtain st1 where s1: "pointStep fe (StartCheck cmd) [] ?st =
      Some ([], Some (''Port forward '' @ cmdKey cmd @ '' already exists''), st1)" (is "_ = Some (_, ?e, _)")
      "dbFrame ?st st1" "records cmd st1 = records cmd ?st"
    by (rule check_refuses)
  have st1: "stopped cmd i st1" "g_phase (pm_go st1 ! i) = GoRunning" "records cmd st1 = Suc 0"
    using st s1(2,3) by (simp_all add: stopped_def dbFrame_def recordPortForward_def)
  obtain st2 where s2: "goStep fe i ContextDone st1 = Some st2" "stopped cmd i st2"
      "g_phase (pm_go st2 ! i) = GoRecording None" "records cmd st2 = 0"
    using context_done [OF st1] ok unfolding passes_def by metis
  let ?ths = "ths @ [\<lparr>th_todo = [], th_err = ?e\<rparr>]"
  obtain st3 where s3: "reaches \<lparr>pd_mgr = st2, pd_threads = ?ths\<rparr> \<lparr>pd_mgr = st3, pd_threads = ?ths\<rparr>" "stopped cmd i st3"
      "g_phase (pm_go st3 ! i) = GoEnded" "records cmd st3 = records cmd st2"
    by (rule way_out [OF s2(2,3)])
  have i: "i < length (pm_go st1)" using st1(1) by (simp add: stopped_def)
  have "reaches \<lparr>pd_mgr = st, pd_threads = ths @ [\<lparr>th_todo = [StartApp cmd True], th_err = e\<rparr>]\<rparr>
      \<lparr>pd_mgr = st3, pd_threads = ?ths\<rparr>" for e
    by (rule reaches_point [OF app_passes [OF ok]], rule reaches_point [OF s1(1)], rule reaches_go [OF s2(1) i s3(1)])
  from that [OF allI [OF this] s3(2,3)] s2(4) s3(4) show thesis by simp
qed

lemma second_start_succeeds:
  assumes ok: "passes fe cmd pod own" and st: "stopped cmd i st" "g_phase (pm_go st ! i) = GoRunning" "records cmd st = Suc 0"
  obtains st' where "\<forall>e. reaches \<lparr>pd_mgr = st, pd_threads = ths @ [\<lparr>th_todo = [StartApp cmd True], th_err = e\<rparr>]\<rparr>
      \<lparr>pd_mgr = register cmd pod st', pd_threads = ths @ [\<lparr>th_todo = [], th_err = None\<rparr>]\<rparr>"
    and "stopped cmd i st'" and "records cmd st' = 1"
proof -
  let ?app = "recordPortForward (cmdApp cmd) True"
  obtain st1 where s1: "goStep fe i ContextDone st = Some st1" "stopped cmd i st1" "records cmd st1 = 0"
    using context_done [OF st] ok unfolding passes_def by metis
  have i: "i < length (pm_go st)" using st(1) by (simp add: stopped_def)
  have "records cmd (?app st1) = 0" using s1(3) by simp
  then obtain st2 where s2: "pointStep fe (StartCheck cmd) [] (?app st1) = Some ([StartPod cmd True], None, st2)"
      "dbFrame (?app st1) st2" "records cmd st2 = 0" "pm_db st2 (cmdApp cmd) \<noteq> None"
    by (rule check_passes)
  obtain st3 where s3: "pointStep fe (StartPod cmd True) [] st2 = Some ([StartRegister cmd pod], None, st3)"
      "dbFrame st2 st3" "records cmd st3 = Suc (records cmd st2)"
    by (rule pod_passes [OF ok s2(4)])
  have last: "pointStep fe (StartRegister cmd pod) [] st3 = Some ([], None, register cmd pod st3)" by simp
  have go: "reaches \<lparr>pd_mgr = st, pd_threads = ths @ [\<lparr>th_todo = [StartApp cmd True], th_err = e\<rparr>]\<rparr>
      \<lparr>pd_mgr = register cmd pod st3, pd_threads = ths @ [\<lparr>th_todo = [], th_err = None\<rparr>]\<rparr>" for e
    by (rule reaches_go [OF s1(1) i], rule reaches_point [OF app_passes [OF ok]], rule reaches_point [OF s2(1)],
        rule reaches_point [OF s3(1)], rule reaches_point [OF last], rule reaches_refl)
  have "stopped cmd i st3"
    using s1(2) s2(2) s3(2) by (simp add: stopped_def dbFrame_def recordPortForward_def)
  from that [OF allI [OF go] this] s2(3) s3(3) show thesis by simp
qed

text \<open>C24: Starting a forward of the same service that is running and recorded once does not leave it
  alone; what comes of it is a race between the start and the goroutine that it cancels. Provided the
  application, the local port, the controller and the pod are there, there is a schedule in which the
  start finds the record still there and fails because the forward already exists, the cancelled
  goroutine then deletes the record and ends, and nothing is forwarded any more; and there is a
  schedule in which the goroutine deletes its record while the start looks for the application, and
  the start succeeds: a new forward is in the map, running and recorded once. In both the first
  forward is cancelled.\<close>

theorem second_start_is_a_race:
  assumes inv: "pfInv d" and reg: "pm_list (pd_mgr d) (cmdKey cmd) = Some i"
    and run: "g_phase (pm_go (pd_mgr d) ! i) = GoRunning"
    and same: "g_cmd (pm_go (pd_mgr d) ! i) = cmd\<lparr>pfc_PodName := n\<rparr>"
    and rec: "records cmd (pd_mgr d) = 1" and ok: "passes fe cmd pod own"
  shows "(\<exists>ls d'. pf_run d (Command (StartCmd cmd) # ls) d' \<and>
      last (pd_threads d') = \<lparr>th_todo = [], th_err = Some (''Port forward '' @ cmdKey cmd @ '' already exists'')\<rparr> \<and>
      pm_list (pd_mgr d') (cmdKey cmd) = None \<and> records cmd (pd_mgr d') = 0 \<and>
      g_cancelled (pm_go (pd_mgr d') ! i) \<and> g_phase (pm_go (pd_mgr d') ! i) = GoEnded) \<and>
    (\<exists>ls d' j. pf_run d (Command (StartCmd cmd) # ls) d' \<and>
      last (pd_threads d') = \<lparr>th_todo = [], th_err = None\<rparr> \<and>
      pm_list (pd_mgr d') (cmdKey cmd) = Some j \<and> j \<noteq> i \<and> records cmd (pd_mgr d') = 1 \<and>
      g_cancelled (pm_go (pd_mgr d') ! i) \<and>
      \<not> g_cancelled (pm_go (pd_mgr d') ! j) \<and> g_phase (pm_go (pd_mgr d') ! j) = GoRunning)"
proof (rule conjI)
  have i: "i < length (pm_go (pd_mgr d))" using mgrInvD(1) [OF inv [unfolded pfInv_def] reg] .
  note st = second_start_stopped [OF reg i run same rec]
  have go: "\<exists>ls. pf_run d (Command (StartCmd cmd) # ls) d'"
    if "\<forall>e. reaches \<lparr>pd_mgr = afterStop cmd i (pd_mgr d),
        pd_threads = pd_threads d @ [\<lparr>th_todo = [StartApp cmd True], th_err = e\<rparr>]\<rparr> d'" for d'
    using reaches_afterStop [OF reg i that [THEN spec]] by (rule reaches_start)
  obtain sf where f: "\<forall>e. reaches \<lparr>pd_mgr = afterStop cmd i (pd_mgr d),
        pd_threads = pd_threads d @ [\<lparr>th_todo = [StartApp cmd True], th_err = e\<rparr>]\<rparr>
      \<lparr>pd_mgr = sf, pd_threads = pd_threads d @ [\<lparr>th_todo = [], th_err = Some (''Port forward '' @ cmdKey cmd @ '' already exists'')\<rparr>]\<rparr>"
      "stopped cmd i sf" "g_phase (pm_go sf ! i) = GoEnded" "records cmd sf = 0"
    by (rule second_start_fails [OF ok st, where ths = "pd_threads d"])
  obtain ls1 where "pf_run d (Command (StartCmd cmd) # ls1) \<lparr>pd_mgr = sf,
      pd_threads = pd_threads d @ [\<lparr>th_todo = [], th_err = Some (''Port forward '' @ cmdKey cmd @ '' already exists'')\<rparr>]\<rparr>"
    (is "pf_run _ _ ?df") using go [OF f(1)] by blast
  with f(2-4) show "\<exists>ls d'. pf_run d (Command (StartCmd cmd) # ls) d' \<and>
      last (pd_threads d') = \<lparr>th_todo = [], th_err = Some (''Port forward '' @ cmdKey cmd @ '' already exists'')\<rparr> \<and>
      pm_list (pd_mgr d') (cmdKey cmd) = None \<and> records cmd (pd_mgr d') = 0 \<and>
      g_cancelled (pm_go (pd_mgr d') ! i) \<and> g_phase (pm_go (pd_mgr d') ! i) = GoEnded"
    by (intro exI [of _ "Command (StartCmd cmd) # ls1"] exI [of _ ls1] exI [of _ ?df]) (simp add: stopped_def)
  obtain ss where s: "\<forall>e. reaches \<lparr>pd_mgr = afterStop cmd i (pd_mgr d),
        pd_threads = pd_threads d @ [\<lparr>th_todo = [StartApp cmd True], th_err = e\<rparr>]\<rparr>
      \<lparr>pd_mgr = register cmd pod ss, pd_threads = pd_threads d @ [\<lparr>th_todo = [], th_err = None\<rparr>]\<rparr>"
      "stopped cmd i ss" "records cmd ss = 1"
    by (rule second_start_succeeds [OF ok st, where ths = "pd_threads d"])
  obtain ls2 where "pf_run d (Command (StartCmd cmd) # ls2) \<lparr>pd_mgr = register cmd pod ss,
      pd_threads = pd_threads d @ [\<lparr>th_todo = [], th_err = None\<rparr>]\<rparr>" (is "pf_run _ _ ?ds")
    using go [OF s(1)] by blast
  with s(2,3) show "\<exists>ls d' j. pf_run d (Command (StartCmd cmd) # ls) d' \<and>
      last (pd_threads d') = \<lparr>th_todo = [], th_err = None\<rparr> \<and>
      pm_list (pd_mgr d') (cmdKey cmd) = Some j \<and> j \<noteq> i \<and> records cmd (pd_mgr d') = 1 \<and>
      g_cancelled (pm_go (pd_mgr d') ! i) \<and>
      \<not> g_cancelled (pm_go (pd_mgr d') ! j) \<and> g_phase (pm_go (pd_mgr d') ! j) = GoRunning"
    by (intro exI [of _ ls2] exI [of _ ?ds] exI [of _ "length (pm_go ss)"])
      (auto simp: stopped_def register_def nth_append)
qed

theorem second_start_is_a_race_witness:
  "\<exists>d i ls d1. pm_list (pd_mgr d) (cmdKey demoForward) = Some i \<and> records demoForward (pd_mgr d) = 1 \<and>
     pf_run d (Command (StartCmd demoForward) # ls) d1 \<and> pm_list (pd_mgr d1) (cmdKey demoForward) = None \<and>
     records demoForward (pd_mgr d1) = 0"
proof -
  obtain ls st where run: "pf_run demoDaemon (Command (StartCmd demoForward) # ls)
      \<lparr>pd_mgr = register demoForward demoPod st, pd_threads = pd_threads demoDaemon @ [\<lparr>th_todo = [], th_err = None\<rparr>]\<rparr>"
      (is "pf_run _ ?ls ?d") and go: "pm_go st = []" and rec: "records demoForward st = 1"
    using start_alone [OF demo_passes, of demoDaemon] demo_start_state by metis
  have inv: "pfInv ?d" using run_invariant [OF run demo_start_state(1)] .
  have reg: "pm_list (pd_mgr ?d) (cmdKey demoForward) = Some 0" "g_phase (pm_go (pd_mgr ?d) ! 0) = GoRunning"
    "g_cmd (pm_go (pd_mgr ?d) ! 0) = demoForward\<lparr>pfc_PodName := ''web-0''\<rparr>" "records demoForward (pd_mgr ?d) = 1"
    using go rec by (simp_all add: register_def demoPod_def)
  from second_start_is_a_race [OF inv reg demo_passes] reg(1,4) show ?thesis by blast
qed

subsection \<open>Two starts at a time\<close>

text \<open>
  The check for a record and its addition are two steps: two starts of one forward that come in
  together can both pass the check. Then the service has two records for the ports and two goroutines
  forward them, of which the map knows only the second.
\<close>

lemma concurrent_starts_record_twice:
  assumes ok: "passes fe cmd pod own" and none: "pm_list (pd_mgr d) (cmdKey cmd) = None" "records cmd (pd_mgr d) = 0"
  shows "\<exists>ls d'. pf_run d (Command (StartCmd cmd) # Command (StartCmd cmd) # ls) d' \<and>
    pd_threads d' = pd_threads d @ [\<lparr>th_todo = [], th_err = None\<rparr>, \<lparr>th_todo = [], th_err = None\<rparr>] \<and>
    records cmd (pd_mgr d') = 2 \<and> pm_list (pd_mgr d') (cmdKey cmd) = Some (Suc (length (pm_go (pd_mgr d)))) \<and>
    (\<forall>i\<in>{length (pm_go (pd_mgr d)), Suc (length (pm_go (pd_mgr d)))}.
       g_phase (pm_go (pd_mgr d') ! i) = GoRunning \<and> \<not> g_cancelled (pm_go (pd_mgr d') ! i))"
proof -
  let ?app = "recordPortForward (cmdApp cmd) True"
  let ?ths = "pd_threads d"
  let ?fin = "\<lparr>th_todo = [], th_err = None\<rparr>"
  let ?at = "\<lambda>p. \<lparr>th_todo = [p], th_err = None\<rparr>"
  have first: "pointStep fe (StartBegin cmd True) [] st = Some ([StartApp cmd True], None, st)"
    if "pm_list st (cmdKey cmd) = None" for st using that by (simp add: startBegin_def)
  obtain s1 where s1: "pointStep fe (StartCheck cmd) [] (?app (?app (pd_mgr d))) = Some ([StartPod cmd True], None, s1)"
      "dbFrame (?app (?app (pd_mgr d))) s1" "records cmd s1 = 0"
    using check_passes [of cmd "?app (?app (pd_mgr d))" fe "[]"] none(2) by (metis records_manager(1))
  obtain s2 where s2: "pointStep fe (StartCheck cmd) [] s1 = Some ([StartPod cmd True], None, s2)"
      "dbFrame s1 s2" "records cmd s2 = 0" "pm_db s2 (cmdApp cmd) \<noteq> None"
    by (rule check_passes [OF s1(3)])
  obtain s3 where s3: "pointStep fe (StartPod cmd True) [] s2 = Some ([StartRegister cmd pod], None, s3)"
      "dbFrame s2 s3" "records cmd s3 = Suc (records cmd s2)" "pm_db s3 (cmdApp cmd) \<noteq> None"
    by (rule pod_passes [OF ok s2(4)])
  obtain s4 where s4: "pointStep fe (StartPod cmd True) [] s3 = Some ([StartRegister cmd pod], None, s4)"
      "dbFrame s3 s4" "records cmd s4 = Suc (records cmd s3)"
    by (rule pod_passes [OF ok s3(4)])
  have last: "pointStep fe (StartRegister cmd pod) [] st = Some ([], None, register cmd pod st)" for st by simp
  let ?d = "\<lparr>pd_mgr = register cmd pod (register cmd pod s4), pd_threads = ?ths @ [?fin, ?fin]\<rparr>"
  note one = reaches_point [where ths = ?ths]
  note two = reaches_point [where ths = "?ths @ [t]" and us = "[]" for t, simplified]
  have "reaches \<lparr>pd_mgr = pd_mgr d, pd_threads = ?ths @ [?at (StartBegin cmd True), ?at (StartBegin cmd True)]\<rparr> ?d"
    by (rule one [OF first [OF none(1)]], rule two [OF first [OF none(1)]],
        rule one [OF app_passes [OF ok]], rule two [OF app_passes [OF ok]],
        rule one [OF s1(1)], rule two [OF s2(1)], rule one [OF s3(1)], rule two [OF s4(1)],
        rule one [OF last], rule two [OF last], rule reaches_refl)
  moreover have "daemonStep (Command (StartCmd cmd)) \<lparr>pd_mgr = pd_mgr d, pd_threads = ths\<rparr> =
      Some \<lparr>pd_mgr = pd_mgr d, pd_threads = ths @ [?at (StartBegin cmd True)]\<rparr>" for ths
    by (simp add: handleStartPortForwardCommand_def StartPortForwardGoRoutine_def)
  ultimately have "\<exists>ls. pf_run \<lparr>pd_mgr = pd_mgr d, pd_threads = ?ths\<rparr>
      (Command (StartCmd cmd) # Command (StartCmd cmd) # ls) ?d"
    unfolding reaches_def by (auto intro!: run_Cons)
  moreover have "pm_go s4 = pm_go (pd_mgr d)"
    using s1(2) s2(2) s3(2) s4(2) by (simp add: dbFrame_def recordPortForward_def)
  ultimately show ?thesis
    using s2(3) s3(3) s4(3) by (cases d) (fastforce simp: register_def nth_append)
qed

end
