(* ===== verification/Rbac.thy ===== *)
theory Rbac
  imports Watch
begin

text \<open>
  Who may do what in a cluster, on the side of the API server: role bindings and service accounts
  (\<open>src/pkg/nocalhost-api/pkg/clientgo/client.go\<close>) and the authorisation of users
  (\<open>src/internal/nocalhost-api/service/service.go\<close>).

  The cluster is the record \<open>rbacApi\<close> of its operations on a world \<open>'w\<close>; nothing is assumed of it
  here. A role binding and a cluster role binding are one record, the latter with an empty
  namespace. Identifiers of users and clusters are natural numbers: they are only compared. The
  errors of the package \<open>errno\<close> are the constructors of a datatype.
\<close>

subsection \<open>Constants\<close>

definition NocalhostRoleBindingLabelKey :: string where "NocalhostRoleBindingLabelKey = ''owner''"
definition NocalhostRoleBindingLabelVal :: string where "NocalhostRoleBindingLabelVal = ''nocalhost''"
definition NocalhostDefaultSaNs :: string where "NocalhostDefaultSaNs = ''default''"
definition NocalhostDefaultRoleBinding :: string where "NocalhostDefaultRoleBinding = ''nocalhost-role-binding''"
definition NocalhostDevRoleName :: string where "NocalhostDevRoleName = ''nocalhost-dev-role''"
definition NocalhostCooperatorRoleBinding :: string where
  "NocalhostCooperatorRoleBinding = ''nocalhost-cooperator-role-binding''"
definition NocalhostCooperatorRoleName :: string where "NocalhostCooperatorRoleName = ''nocalhost-cooperator-role''"
definition NocalhostViewerRoleBinding :: string where "NocalhostViewerRoleBinding = ''nocalhost-viewer-role-binding''"
definition NocalhostViewerRoleName :: string where "NocalhostViewerRoleName = ''nocalhost-viewer-role''"

definition NocalhostLabel :: string where "NocalhostLabel = ''nocalhost-managed''"
definition NocalhostSystemNamespace :: string where "NocalhostSystemNamespace = ''nocalhost-reserved''"
definition NocalhostSystemNamespaceLabel :: string where "NocalhostSystemNamespaceLabel = ''nocalhost-reserved''"
definition NocalhostDevNamespaceLabel :: string where "NocalhostDevNamespaceLabel = ''nocalhost''"
definition NocalhostDevServiceAccountName :: string where "NocalhostDevServiceAccountName = ''nocalhost-dev-account''"
definition NocalhostSaTokenSuffix :: string where "NocalhostSaTokenSuffix = ''-token-gen-by-nocalhost''"

lemmas binding_names = NocalhostDefaultRoleBinding_def NocalhostCooperatorRoleBinding_def NocalhostViewerRoleBinding_def

subsection \<open>Objects and operations of the cluster\<close>

record Subject =
  sj_Kind :: string
  sj_Namespace :: string
  sj_Name :: string

type_synonym labelMap = "(string \<rightharpoonup> string) option"

record RoleBinding =
  rb_Name :: string
  rb_Namespace :: string
  rb_Labels :: labelMap
  rb_RefKind :: string
  rb_RefName :: string
  rb_Subjects :: "Subject list"

record PolicyRule =
  pr_Verbs :: "string list"
  pr_Resources :: "string list"
  pr_APIGroups :: "string list"

text \<open>Labels of a service account are all the code touches of one.\<close>

record 'w rbacApi =
  rbGet :: "string \<Rightarrow> string \<Rightarrow> 'w \<Rightarrow> apierr + RoleBinding"
  rbCreate :: "string \<Rightarrow> RoleBinding \<Rightarrow> 'w \<Rightarrow> apierr option \<times> 'w"
  rbUpdate :: "string \<Rightarrow> RoleBinding \<Rightarrow> 'w \<Rightarrow> apierr option \<times> 'w"
  crbGet :: "string \<Rightarrow> 'w \<Rightarrow> apierr + RoleBinding"
  crbCreate :: "RoleBinding \<Rightarrow> 'w \<Rightarrow> apierr option \<times> 'w"
  crbUpdate :: "RoleBinding \<Rightarrow> 'w \<Rightarrow> apierr option \<times> 'w"
  roleGet :: "string \<Rightarrow> string \<Rightarrow> 'w \<Rightarrow> apierr + PolicyRule list"
  roleCreate :: "string \<Rightarrow> string \<Rightarrow> PolicyRule list \<Rightarrow> 'w \<Rightarrow> apierr option \<times> 'w"
  roleUpdate :: "string \<Rightarrow> string \<Rightarrow> PolicyRule list \<Rightarrow> 'w \<Rightarrow> apierr option \<times> 'w"
  crGet :: "string \<Rightarrow> 'w \<Rightarrow> apierr + PolicyRule list"
  crCreate :: "string \<Rightarrow> labelMap \<Rightarrow> PolicyRule list \<Rightarrow> 'w \<Rightarrow> apierr option \<times> 'w"
  crUpdate :: "string \<Rightarrow> PolicyRule list \<Rightarrow> 'w \<Rightarrow> apierr option \<times> 'w"
  saGet :: "string \<Rightarrow> string \<Rightarrow> 'w \<Rightarrow> apierr + labelMap"
  saCreate :: "string \<Rightarrow> string \<Rightarrow> labelMap \<Rightarrow> 'w \<Rightarrow> apierr option \<times> 'w"
  saUpdate :: "string \<Rightarrow> string \<Rightarrow> labelMap \<Rightarrow> 'w \<Rightarrow> apierr option \<times> 'w"
  tokenCreate :: "string \<Rightarrow> string \<Rightarrow> string \<Rightarrow> labelMap \<Rightarrow> 'w \<Rightarrow> apierr option \<times> 'w"
  nsCreate :: "string \<Rightarrow> labelMap \<Rightarrow> 'w \<Rightarrow> apierr option \<times> 'w"
  nsDelete :: "string \<Rightarrow> 'w \<Rightarrow> apierr option \<times> 'w"
  saDelete :: "string \<Rightarrow> string \<Rightarrow> 'w \<Rightarrow> apierr option \<times> 'w"
  nsGet :: "string \<Rightarrow> 'w \<Rightarrow> apierr + labelMap"
  quotaCreate :: "string \<Rightarrow> string \<Rightarrow> (string \<rightharpoonup> string) \<Rightarrow> 'w \<Rightarrow> apierr option \<times> 'w"
  quotaDelete :: "string \<Rightarrow> string \<Rightarrow> 'w \<Rightarrow> apierr option \<times> 'w"
  limitCreate :: "string \<Rightarrow> string \<Rightarrow> (string \<rightharpoonup> string) \<Rightarrow> (string \<rightharpoonup> string) \<Rightarrow> 'w \<Rightarrow> apierr option \<times> 'w"
  limitDelete :: "string \<Rightarrow> string \<Rightarrow> 'w \<Rightarrow> apierr option \<times> 'w"
  istioGet :: "'w \<Rightarrow> apierr option"
  nowStamp :: "'w \<Rightarrow> string"

definition ownerLabels :: labelMap where
  "ownerLabels = Some [NocalhostRoleBindingLabelKey \<mapsto> NocalhostRoleBindingLabelVal]"

text \<open>A write to a label map that is created when it is nil.\<close>

definition putLabel :: "string \<Rightarrow> string \<Rightarrow> labelMap \<Rightarrow> labelMap" where
  "putLabel k v m = Some ((case m of None \<Rightarrow> Map.empty | Some l \<Rightarrow> l)(k \<mapsto> v))"

definition CreateNS :: "'w rbacApi \<Rightarrow> string \<Rightarrow> labelMap \<Rightarrow> 'w \<Rightarrow> (bool \<times> apierr option) \<times> 'w" where
  "CreateNS api ns labels w =
     (let l = (case labels of None \<Rightarrow> Map.empty | Some m \<Rightarrow> m);
          l1 = (if get_str l ''env'' = [] then
                  l(''env'' \<mapsto> (if ns = NocalhostSystemNamespace then NocalhostSystemNamespaceLabel
                               else NocalhostDevNamespaceLabel))
                else l)
      in case nsCreate api ns (Some l1) w of
           (Some err, w1) \<Rightarrow> ((False, Some err), w1)
         | (None, w1) \<Rightarrow> ((True, None), w1))"

definition DeleteNS :: "'w rbacApi \<Rightarrow> string \<Rightarrow> 'w \<Rightarrow> (bool \<times> apierr option) \<times> 'w" where
  "DeleteNS api ns w =
     (case nsDelete api ns w of
        (Some err, w1) \<Rightarrow> ((False, Some err), w1)
      | (None, w1) \<Rightarrow> ((True, None), w1))"

definition saNameOr :: "string \<Rightarrow> string" where
  "saNameOr name = (if name = [] then NocalhostDevServiceAccountName else name)"

definition DeleteServiceAccount :: "'w rbacApi \<Rightarrow> string \<Rightarrow> string \<Rightarrow> 'w \<Rightarrow> apierr option \<times> 'w" where
  "DeleteServiceAccount api name ns w =
     (case saDelete api ns (saNameOr name) w of
        (Some (NotFound m), w1) \<Rightarrow> (None, w1)
      | (r, w1) \<Rightarrow> (r, w1))"

text \<open>The account, then the secret with its token.\<close>

definition CreateServiceAccount :: "'w rbacApi \<Rightarrow> string \<Rightarrow> string \<Rightarrow> 'w \<Rightarrow> (bool \<times> apierr option) \<times> 'w" where
  "CreateServiceAccount api name ns w =
     (let name' = saNameOr name;
          m = Some [NocalhostRoleBindingLabelKey \<mapsto> NocalhostRoleBindingLabelVal, NocalhostLabel \<mapsto> nowStamp api w]
      in case saCreate api ns name' m w of
           (Some err, w1) \<Rightarrow> ((False, Some err), w1)
         | (None, w1) \<Rightarrow>
             (case tokenCreate api ns (name' @ NocalhostSaTokenSuffix) name' m w1 of
                (Some err, w2) \<Rightarrow> ((False, Some err), w2)
              | (None, w2) \<Rightarrow> ((True, None), w2)))"

text \<open>\<open>retry.OnError\<close> with the default back-off of four steps: until success or the account exists.\<close>

fun retryCreateSa :: "nat \<Rightarrow> 'w rbacApi \<Rightarrow> string \<Rightarrow> string \<Rightarrow> 'w \<Rightarrow> 'w" where
  "retryCreateSa 0 api name ns w = w"
| "retryCreateSa (Suc n) api name ns w =
     (case CreateServiceAccount api name ns w of
        ((_, None), w1) \<Rightarrow> w1
      | ((_, Some (AlreadyExists _)), w1) \<Rightarrow> w1
      | ((_, Some _), w1) \<Rightarrow> retryCreateSa n api name ns w1)"

definition RefreshServiceAccount :: "'w rbacApi \<Rightarrow> string \<Rightarrow> string \<Rightarrow> 'w \<Rightarrow> 'w" where
  "RefreshServiceAccount api name ns w =
     (case saGet api ns (saNameOr name) w of
        Inr labels \<Rightarrow> snd (saUpdate api ns (saNameOr name) (putLabel NocalhostLabel (nowStamp api w) labels) w)
      | Inl _ \<Rightarrow> retryCreateSa 4 api (saNameOr name) ns w)"

subsection \<open>Role bindings\<close>

definition saSubject :: "string \<Rightarrow> string \<Rightarrow> Subject list" where
  "saSubject ns name =
     (if name \<noteq> [] then [\<lparr>sj_Kind = ''ServiceAccount'', sj_Namespace = ns, sj_Name = name\<rparr>] else [])"

definition CreateRoleBinding ::
  "'w rbacApi \<Rightarrow> string \<Rightarrow> string \<Rightarrow> string \<Rightarrow> string \<Rightarrow> 'w \<Rightarrow> (bool \<times> apierr option) \<times> 'w" where
  "CreateRoleBinding api name ns role toServiceAccount w =
     (case rbCreate api ns \<lparr>rb_Name = name, rb_Namespace = ns, rb_Labels = None,
             rb_RefKind = (if role \<noteq> [] then ''Role'' else []), rb_RefName = role,
             rb_Subjects = saSubject ns toServiceAccount\<rparr> w of
        (Some err, w1) \<Rightarrow> ((False, Some err), w1)
      | (None, w1) \<Rightarrow> ((True, None), w1))"

definition CreateClusterRoleBinding ::
  "'w rbacApi \<Rightarrow> string \<Rightarrow> string \<Rightarrow> string \<Rightarrow> string \<Rightarrow> 'w \<Rightarrow> (bool \<times> apierr option) \<times> 'w" where
  "CreateClusterRoleBinding api name ns role toServiceAccount w =
     (case crbCreate api \<lparr>rb_Name = name, rb_Namespace = ns, rb_Labels = None,
             rb_RefKind = (if role \<noteq> [] then ''ClusterRole'' else []), rb_RefName = role,
             rb_Subjects = saSubject ns toServiceAccount\<rparr> w of
        (Some err, w1) \<Rightarrow> ((False, Some err), w1)
      | (None, w1) \<Rightarrow> ((True, None), w1))"

definition UpdateRole :: "'w rbacApi \<Rightarrow> string \<Rightarrow> string \<Rightarrow> PolicyRule list \<Rightarrow> 'w \<Rightarrow> apierr option \<times> 'w" where
  "UpdateRole api name ns rules w =
     (case roleGet api ns name w of Inl err \<Rightarrow> (Some err, w) | Inr _ \<Rightarrow> roleUpdate api ns name rules w)"

definition UpdateClusterRole :: "'w rbacApi \<Rightarrow> string \<Rightarrow> PolicyRule list \<Rightarrow> 'w \<Rightarrow> apierr option \<times> 'w" where
  "UpdateClusterRole api name rules w =
     (case crGet api name w of Inl err \<Rightarrow> (Some err, w) | Inr _ \<Rightarrow> crUpdate api name rules w)"

text \<open>
  The label goes into the map of the object. When that map is nil a new map is made, which is
  never put into the object.
\<close>

definition labelled :: "RoleBinding \<Rightarrow> RoleBinding" where
  "labelled rb =
     (case rb_Labels rb of
        None \<Rightarrow> rb
      | Some l \<Rightarrow> rb\<lparr>rb_Labels := Some (l(NocalhostRoleBindingLabelKey \<mapsto> NocalhostRoleBindingLabelVal))\<rparr>)"

definition UpdateRoleBindingForNocalhostLabel ::
  "'w rbacApi \<Rightarrow> string \<Rightarrow> string \<Rightarrow> 'w \<Rightarrow> apierr option \<times> 'w" where
  "UpdateRoleBindingForNocalhostLabel api name ns w =
     (case rbGet api ns name w of Inl err \<Rightarrow> (Some err, w) | Inr before \<Rightarrow> rbUpdate api ns (labelled before) w)"

definition UpdateClusterRoleBindingForNocalhostLabel :: "'w rbacApi \<Rightarrow> string \<Rightarrow> 'w \<Rightarrow> apierr option \<times> 'w" where
  "UpdateClusterRoleBindingForNocalhostLabel api name w =
     (case crbGet api name w of Inl err \<Rightarrow> (Some err, w) | Inr before \<Rightarrow> crbUpdate api (labelled before) w)"

definition newBinding :: "string \<Rightarrow> string \<Rightarrow> string \<Rightarrow> RoleBinding" where
  "newBinding name ns role =
     \<lparr>rb_Name = name, rb_Namespace = ns, rb_Labels = ownerLabels,
      rb_RefKind = (if role \<noteq> [] then ''ClusterRole'' else []), rb_RefName = role, rb_Subjects = []\<rparr>"

text \<open>The binding with the account as a further subject, and stamped for the watchers.\<close>

definition addSubject :: "string \<Rightarrow> string \<Rightarrow> string \<Rightarrow> RoleBinding \<Rightarrow> RoleBinding" where
  "addSubject now name ns rb =
     rb\<lparr>rb_Labels := putLabel NocalhostLabel now (rb_Labels rb), rb_Subjects := rb_Subjects rb @ saSubject ns name\<rparr>"

text \<open>A subject of that name counts as present whatever its namespace.\<close>

definition AppendRoleBinding ::
  "'w rbacApi \<Rightarrow> string \<Rightarrow> string \<Rightarrow> string \<Rightarrow> string \<Rightarrow> string \<Rightarrow> 'w \<Rightarrow> apierr option \<times> 'w" where
  "AppendRoleBinding api name ns role toServiceAccount toServiceAccountNs w =
     (case rbGet api ns name w of
        Inl (NotFound _) \<Rightarrow>
          rbCreate api ns (addSubject (nowStamp api w) toServiceAccount toServiceAccountNs (newBinding name ns role)) w
      | Inl err \<Rightarrow> (Some err, w)
      | Inr rb \<Rightarrow>
          if list_ex (\<lambda>s. sj_Name s = toServiceAccount) (rb_Subjects rb) then (None, w)
          else rbUpdate api ns (addSubject (nowStamp api w) toServiceAccount toServiceAccountNs rb) w)"

definition AppendClusterRoleBinding ::
  "'w rbacApi \<Rightarrow> string \<Rightarrow> string \<Rightarrow> string \<Rightarrow> string \<Rightarrow> 'w \<Rightarrow> apierr option \<times> 'w" where
  "AppendClusterRoleBinding api name role toServiceAccount toServiceAccountNs w =
     (case crbGet api name w of
        Inl (NotFound _) \<Rightarrow>
          crbCreate api (addSubject (nowStamp api w) toServiceAccount toServiceAccountNs (newBinding name [] role)) w
      | Inl err \<Rightarrow> (Some err, w)
      | Inr crb \<Rightarrow>
          if list_ex (\<lambda>s. sj_Name s = toServiceAccount) (rb_Subjects crb) then (None, w)
          else crbUpdate api (addSubject (nowStamp api w) toServiceAccount toServiceAccountNs crb) w)"

fun removeSubject :: "string \<Rightarrow> string \<Rightarrow> Subject list \<Rightarrow> Subject list" where
  "removeSubject name ns [] = []"
| "removeSubject name ns (s # ss) =
     (if sj_Name s = name \<and> sj_Namespace s = ns then ss else s # removeSubject name ns ss)"

text \<open>Of the two errors of the read it is the missing binding that is reported.\<close>

definition RemoveClusterRoleBinding ::
  "'w rbacApi \<Rightarrow> string \<Rightarrow> string \<Rightarrow> string \<Rightarrow> 'w \<Rightarrow> apierr option \<times> 'w" where
  "RemoveClusterRoleBinding api name toServiceAccount toServiceAccountNs w =
     (case crbGet api name w of
        Inl (NotFound m) \<Rightarrow> (Some (NotFound m), w)
      | Inl _ \<Rightarrow> (None, w)
      | Inr crb \<Rightarrow>
          if rb_Subjects crb = [] then (None, w)
          else crbUpdate api (crb\<lparr>rb_Subjects := removeSubject toServiceAccount toServiceAccountNs (rb_Subjects crb)\<rparr>) w)"

definition RemoveRoleBinding ::
  "'w rbacApi \<Rightarrow> string \<Rightarrow> string \<Rightarrow> string \<Rightarrow> string \<Rightarrow> 'w \<Rightarrow> apierr option \<times> 'w" where
  "RemoveRoleBinding api name ns toServiceAccount toServiceAccountNs w =
     (case rbGet api ns name w of
        Inl (NotFound _) \<Rightarrow> (None, w)
      | Inl err \<Rightarrow> (Some err, w)
      | Inr rb \<Rightarrow>
          if rb_Subjects rb = [] then (None, w)
          else rbUpdate api ns (rb\<lparr>rb_Subjects := removeSubject toServiceAccount toServiceAccountNs (rb_Subjects rb)\<rparr>) w)"

definition allRules :: "PolicyRule list" where
  "allRules = [\<lparr>pr_Verbs = [''*''], pr_Resources = [''*''], pr_APIGroups = [''*'']\<rparr>]"

definition CreateRole :: "'w rbacApi \<Rightarrow> string \<Rightarrow> string \<Rightarrow> 'w \<Rightarrow> (bool \<times> apierr option) \<times> 'w" where
  "CreateRole api name ns w =
     (case roleCreate api ns name allRules w of
        (Some err, w1) \<Rightarrow> ((False, Some err), w1)
      | (None, w1) \<Rightarrow> ((True, None), w1))"

definition CreateClusterRole ::
  "'w rbacApi \<Rightarrow> string \<Rightarrow> PolicyRule list \<Rightarrow> 'w \<Rightarrow> (bool \<times> apierr option) \<times> 'w" where
  "CreateClusterRole api name rules w =
     (case crCreate api name ownerLabels rules w of
        (Some err, w1) \<Rightarrow> ((False, Some err), w1)
      | (None, w1) \<Rightarrow> ((True, None), w1))"

subsection \<open>Authorisation of users\<close>

datatype errno = ErrClusterNotFound | ErrBindServiceAccountKubeConfigJsonEncodeErr | ErrUserNotFound
  | ErrServiceAccountCreate | ErrClusterRoleCreate | ErrNameSpaceCreate | ErrRoleBindingCreate
  | ErrRoleBindingRemove | ErrClusterRoleBindingCreate | ErrClusterRoleBindingRemove
  | ErrPermissionDenied | ErrClusterUserNotFound | ErrShareUserSameAsOwner | ErrBind | ErrOther gerr
  | ErrClusterKubeErr | ErrDeleteTracingHeaderFailed | ErrDeletedClusterButDatabaseFail | ErrSpaceNameAlreadyExists
  | ErrMeshClusterUserNotFound | ErrUseAsBaseSpace | ErrMeshClusterUserNamespaceNotFound | ErrInitMeshSpaceFailed
  | ErrAlreadyExist | ErrBindApplicationClsuter | ErrMeshInfoRequired | ErrFormatResourceLimitParam
  | ErrValidateResourceQuota | ErrAsBothBaseSpaceAndMeshSpace | ErrValidateMeshInfo | ErrIstioNotFound
  | ErrProtectedSpaceReSet | ErrBaseSpaceReSet | ErrPermissionCluster | ErrUpdateBaseSpace | ErrUpdateMeshSpaceFailed
  | ErrLoginRequired

text \<open>The three goroutines that create the cluster roles.\<close>

datatype roleThread = DevRole | CooperatorRole | ViewerRole

definition viewerRules :: "PolicyRule list" where
  "viewerRules =
     [\<lparr>pr_Verbs = [''get'', ''list'', ''watch''], pr_Resources = [''*''], pr_APIGroups = [''*'']\<rparr>,
      \<lparr>pr_Verbs = [''*''], pr_Resources = [''pods/portforward''], pr_APIGroups = [''*'']\<rparr>]"

fun createRoleOf :: "'w rbacApi \<Rightarrow> roleThread \<Rightarrow> 'w \<Rightarrow> apierr option \<times> 'w" where
  "createRoleOf api DevRole w =
     (case CreateClusterRole api NocalhostDevRoleName allRules w of
        ((_, Some (AlreadyExists _)), w1) \<Rightarrow> (None, w1)
      | ((_, err), w1) \<Rightarrow> (err, w1))"
| "createRoleOf api CooperatorRole w =
     (case CreateClusterRole api NocalhostCooperatorRoleName allRules w of
        ((_, Some (AlreadyExists _)), w1) \<Rightarrow> (None, w1)
      | ((_, err), w1) \<Rightarrow> (err, w1))"
| "createRoleOf api ViewerRole w =
     (case CreateClusterRole api NocalhostViewerRoleName viewerRules w of
        ((_, Some (AlreadyExists _)), w1) \<Rightarrow> (None, snd (UpdateClusterRole api NocalhostViewerRoleName viewerRules w1))
      | ((_, err), w1) \<Rightarrow> (err, w1))"

fun runRoles :: "'w rbacApi \<Rightarrow> roleThread list \<Rightarrow> 'w \<Rightarrow> apierr list \<times> 'w" where
  "runRoles api [] w = ([], w)"
| "runRoles api (t # ts) w =
     (case createRoleOf api t w of (e, w1) \<Rightarrow>
        (case runRoles api ts w1 of (es, w2) \<Rightarrow> ((case e of Some err \<Rightarrow> err # es | None \<Rightarrow> es), w2)))"

text \<open>
  What a request finds outside the cluster: the databases of clusters and users, the client for
  a kubeconfig, and the schedule of the three goroutines, with which of two ready branches their
  \<open>select\<close> takes. This is the schedule in which all three end before the \<open>select\<close>; the others are
  the runs of the machine in \<open>RoleMachine\<close>.
\<close>

record 'w svcEnv =
  ev_cluster :: "nat \<Rightarrow> gerr + string"
  ev_client :: "string \<Rightarrow> gerr + 'w rbacApi"
  ev_user :: "nat \<Rightarrow> gerr + string"
  ev_order :: "roleThread list"
  ev_takesErr :: bool

definition createClusterAdminRoleINE :: "roleThread list \<Rightarrow> bool \<Rightarrow> 'w rbacApi \<Rightarrow> 'w \<Rightarrow> apierr option \<times> 'w" where
  "createClusterAdminRoleINE ord takesErr api w =
     (case runRoles api ord w of
        (err # _, w1) \<Rightarrow> (if takesErr then Some err else None, w1)
      | ([], w1) \<Rightarrow> (None, w1))"

definition createOrUpdateServiceAccountINE :: "'w rbacApi \<Rightarrow> string \<Rightarrow> string \<Rightarrow> 'w \<Rightarrow> apierr option \<times> 'w" where
  "createOrUpdateServiceAccountINE api saName saNs w =
     (case CreateServiceAccount api saName saNs w of
        ((_, Some (AlreadyExists _)), w1) \<Rightarrow> (None, w1)
      | ((_, err), w1) \<Rightarrow> (err, w1))"

definition CreateNamespaceINE :: "'w rbacApi \<Rightarrow> string \<Rightarrow> 'w \<Rightarrow> apierr option \<times> 'w" where
  "CreateNamespaceINE api ns w =
     (case CreateNS api ns (Some Map.empty) w of
        ((_, Some (AlreadyExists _)), w1) \<Rightarrow> (None, w1)
      | ((_, err), w1) \<Rightarrow> (err, w1))"

definition PrepareServiceAccountAndClientGo ::
  "('w, 'z) svcEnv_scheme \<Rightarrow> nat \<Rightarrow> nat \<Rightarrow> 'w \<Rightarrow> (errno + 'w rbacApi \<times> string) \<times> 'w" where
  "PrepareServiceAccountAndClientGo ev clusterId userId w =
     (case ev_cluster ev clusterId of
        Inl _ \<Rightarrow> (Inl ErrClusterNotFound, w)
      | Inr kube \<Rightarrow>
          (case ev_client ev kube of
             Inl _ \<Rightarrow> (Inl ErrBindServiceAccountKubeConfigJsonEncodeErr, w)
           | Inr api \<Rightarrow>
               (case ev_user ev userId of
                  Inl _ \<Rightarrow> (Inl ErrUserNotFound, w)
                | Inr sa \<Rightarrow>
                    (case createOrUpdateServiceAccountINE api sa NocalhostDefaultSaNs w of
                       (Some _, w1) \<Rightarrow> (Inl ErrServiceAccountCreate, w1)
                     | (None, w1) \<Rightarrow>
                         (case createClusterAdminRoleINE (ev_order ev) (ev_takesErr ev) api w1 of
                            (Some _, w2) \<Rightarrow> (Inl ErrClusterRoleCreate, w2)
                          | (None, w2) \<Rightarrow> (Inr (api, sa), w2))))))"

definition CreateOrUpdateRoleBindingINE ::
  "'w rbacApi \<Rightarrow> string \<Rightarrow> string \<Rightarrow> string \<Rightarrow> string \<Rightarrow> string \<Rightarrow> 'w \<Rightarrow> apierr option \<times> 'w" where
  "CreateOrUpdateRoleBindingINE api ns saName saNs rb role w = AppendRoleBinding api rb ns role saName saNs w"

definition RemoveRoleBindingIfPresent ::
  "'w rbacApi \<Rightarrow> string \<Rightarrow> string \<Rightarrow> string \<Rightarrow> string \<Rightarrow> 'w \<Rightarrow> apierr option \<times> 'w" where
  "RemoveRoleBindingIfPresent api ns saName saNs rb w = RemoveRoleBinding api rb ns saName saNs w"

text \<open>The account is refreshed on the way out, so that the webhook sees the change.\<close>

definition CreateOrUpdateClusterRoleBindingINE ::
  "'w rbacApi \<Rightarrow> string \<Rightarrow> string \<Rightarrow> string \<Rightarrow> string \<Rightarrow> 'w \<Rightarrow> apierr option \<times> 'w" where
  "CreateOrUpdateClusterRoleBindingINE api saName saNs crb role w =
     (case AppendClusterRoleBinding api crb role saName saNs w of
        (r, w1) \<Rightarrow> (r, RefreshServiceAccount api saName saNs w1))"

definition RemoveClusterRoleBindingIfPresent ::
  "'w rbacApi \<Rightarrow> string \<Rightarrow> string \<Rightarrow> string \<Rightarrow> 'w \<Rightarrow> apierr option \<times> 'w" where
  "RemoveClusterRoleBindingIfPresent api saName saNs crb w =
     (case RemoveClusterRoleBinding api crb saName saNs w of
        (r, w1) \<Rightarrow> (r, RefreshServiceAccount api saName saNs w1))"

definition errnoOf :: "errno \<Rightarrow> apierr option \<times> 'w \<Rightarrow> errno option \<times> 'w" where
  "errnoOf e r = (map_option (\<lambda>_. e) (fst r), snd r)"

definition AuthorizeNsToDefaultSa :: "('w, 'z) svcEnv_scheme \<Rightarrow> nat \<Rightarrow> nat \<Rightarrow> string \<Rightarrow> 'w \<Rightarrow> errno option \<times> 'w" where
  "AuthorizeNsToDefaultSa ev clusterId userId ns w =
     (case PrepareServiceAccountAndClientGo ev clusterId userId w of
        (Inl err, w1) \<Rightarrow> (Some err, w1)
      | (Inr (api, _), w1) \<Rightarrow>
          (case CreateNamespaceINE api ns w1 of
             (Some _, w2) \<Rightarrow> (Some ErrNameSpaceCreate, w2)
           | (None, w2) \<Rightarrow>
               errnoOf ErrRoleBindingCreate
                 (CreateOrUpdateRoleBindingINE api ns ''default'' ns NocalhostDefaultRoleBinding NocalhostDevRoleName w2)))"

definition AuthorizeNsToUser :: "('w, 'z) svcEnv_scheme \<Rightarrow> nat \<Rightarrow> nat \<Rightarrow> string \<Rightarrow> 'w \<Rightarrow> errno option \<times> 'w" where
  "AuthorizeNsToUser ev clusterId userId ns w =
     (case PrepareServiceAccountAndClientGo ev clusterId userId w of
        (Inl err, w1) \<Rightarrow> (Some err, w1)
      | (Inr (api, saName), w1) \<Rightarrow>
          (case CreateNamespaceINE api ns w1 of
             (Some _, w2) \<Rightarrow> (Some ErrNameSpaceCreate, w2)
           | (None, w2) \<Rightarrow>
               errnoOf ErrRoleBindingCreate
                 (CreateOrUpdateRoleBindingINE api ns saName NocalhostDefaultSaNs NocalhostDefaultRoleBinding
                    NocalhostDevRoleName w2)))"

definition UnAuthorizeNsToUser :: "('w, 'z) svcEnv_scheme \<Rightarrow> nat \<Rightarrow> nat \<Rightarrow> string \<Rightarrow> 'w \<Rightarrow> errno option \<times> 'w" where
  "UnAuthorizeNsToUser ev clusterId userId ns w =
     (case PrepareServiceAccountAndClientGo ev clusterId userId w of
        (Inl err, w1) \<Rightarrow> (Some err, w1)
      | (Inr (api, saName), w1) \<Rightarrow>
          errnoOf ErrRoleBindingRemove
            (RemoveRoleBindingIfPresent api ns saName NocalhostDefaultSaNs NocalhostDefaultRoleBinding w1))"

definition AuthorizeClusterToUser :: "('w, 'z) svcEnv_scheme \<Rightarrow> nat \<Rightarrow> nat \<Rightarrow> 'w \<Rightarrow> errno option \<times> 'w" where
  "AuthorizeClusterToUser ev clusterId userId w =
     (case PrepareServiceAccountAndClientGo ev clusterId userId w of
        (Inl err, w1) \<Rightarrow> (Some err, w1)
      | (Inr (api, saName), w1) \<Rightarrow>
          errnoOf ErrClusterRoleBindingCreate
            (CreateOrUpdateClusterRoleBindingINE api saName NocalhostDefaultSaNs NocalhostDefaultRoleBinding
               NocalhostDevRoleName w1))"

definition UnAuthorizeClusterToUser :: "('w, 'z) svcEnv_scheme \<Rightarrow> nat \<Rightarrow> nat \<Rightarrow> 'w \<Rightarrow> errno option \<times> 'w" where
  "UnAuthorizeClusterToUser ev clusterId userId w =
     (case PrepareServiceAccountAndClientGo ev clusterId userId w of
        (Inl err, w1) \<Rightarrow> (Some err, w1)
      | (Inr (api, saName), w1) \<Rightarrow>
          (case RemoveClusterRoleBindingIfPresent api saName NocalhostDefaultSaNs NocalhostDefaultRoleBinding w1 of
             (Some (NotFound _), w2) \<Rightarrow> (None, w2)
           | r \<Rightarrow> errnoOf ErrClusterRoleBindingRemove r))"

end
