(* ===== verification/Coop.thy ===== *)
theory Coop
  imports Rbac MetaManager
begin

text \<open>
  The sharing of dev spaces (\<open>src/internal/nocalhost-api/service/cooperator\<close>): making a user the
  cooperator or viewer of a namespace or of a cluster, and the two watchers that follow the role
  bindings of a cluster and answer who has which role. The watchers are driven by the watch
  controller of \<open>Watch\<close>. A set of accounts is a set; turning it into an array takes the order of
  the walk as an argument.
\<close>

subsection \<open>Namespaces\<close>

definition ns_RemoveFromViewer :: "('w, 'z) svcEnv_scheme \<Rightarrow> nat \<Rightarrow> nat \<Rightarrow> string \<Rightarrow> 'w \<Rightarrow> errno option \<times> 'w" where
  "ns_RemoveFromViewer ev clusterId userId ns w =
     (case PrepareServiceAccountAndClientGo ev clusterId userId w of
        (Inl err, w1) \<Rightarrow> (Some err, w1)
      | (Inr (api, saName), w1) \<Rightarrow>
          errnoOf ErrRoleBindingRemove
            (RemoveRoleBindingIfPresent api ns saName NocalhostDefaultSaNs NocalhostViewerRoleBinding w1))"

definition ns_RemoveFromCooperator :: "('w, 'z) svcEnv_scheme \<Rightarrow> nat \<Rightarrow> nat \<Rightarrow> string \<Rightarrow> 'w \<Rightarrow> errno option \<times> 'w" where
  "ns_RemoveFromCooperator ev clusterId userId ns w =
     (case PrepareServiceAccountAndClientGo ev clusterId userId w of
        (Inl err, w1) \<Rightarrow> (Some err, w1)
      | (Inr (api, saName), w1) \<Rightarrow>
          if saName = [] then (None, w1)
          else errnoOf ErrRoleBindingRemove
            (RemoveRoleBindingIfPresent api ns saName NocalhostDefaultSaNs NocalhostCooperatorRoleBinding w1))"

definition ns_AsCooperator :: "('w, 'z) svcEnv_scheme \<Rightarrow> nat \<Rightarrow> nat \<Rightarrow> string \<Rightarrow> 'w \<Rightarrow> errno option \<times> 'w" where
  "ns_AsCooperator ev clusterId userId ns w =
     (case PrepareServiceAccountAndClientGo ev clusterId userId w of
        (Inl err, w1) \<Rightarrow> (Some err, w1)
      | (Inr (api, saName), w1) \<Rightarrow>
          if saName = [] then (None, w1)
          else (case CreateNamespaceINE api ns w1 of
             (Some _, w2) \<Rightarrow> (Some ErrNameSpaceCreate, w2)
           | (None, w2) \<Rightarrow>
               (case CreateOrUpdateRoleBindingINE api ns saName NocalhostDefaultSaNs NocalhostCooperatorRoleBinding
                       NocalhostCooperatorRoleName w2 of
                  (Some _, w3) \<Rightarrow> (Some ErrRoleBindingCreate, w3)
                | (None, w3) \<Rightarrow> ns_RemoveFromViewer ev clusterId userId ns w3)))"

text \<open>Here an account without name is not left alone.\<close>

definition ns_AsViewer :: "('w, 'z) svcEnv_scheme \<Rightarrow> nat \<Rightarrow> nat \<Rightarrow> string \<Rightarrow> 'w \<Rightarrow> errno option \<times> 'w" where
  "ns_AsViewer ev clusterId userId ns w =
     (case PrepareServiceAccountAndClientGo ev clusterId userId w of
        (Inl err, w1) \<Rightarrow> (Some err, w1)
      | (Inr (api, saName), w1) \<Rightarrow>
          (case CreateNamespaceINE api ns w1 of
             (Some _, w2) \<Rightarrow> (Some ErrNameSpaceCreate, w2)
           | (None, w2) \<Rightarrow>
               (case CreateOrUpdateRoleBindingINE api ns saName NocalhostDefaultSaNs NocalhostViewerRoleBinding
                       NocalhostViewerRoleName w2 of
                  (Some _, w3) \<Rightarrow> (Some ErrRoleBindingCreate, w3)
                | (None, w3) \<Rightarrow> ns_RemoveFromCooperator ev clusterId userId ns w3)))"

subsection \<open>The watcher of role bindings\<close>

record roleBindingWatcher =
  rbw_adminSas :: "string \<rightharpoonup> string set"
  rbw_viewerSas :: "string \<rightharpoonup> string set"
  rbw_cooperatorSas :: "string \<rightharpoonup> string set"

definition subjectNames :: "RoleBinding \<Rightarrow> string set" where
  "subjectNames rb = set (map sj_Name (rb_Subjects rb))"

definition rbw_join :: "RoleBinding \<Rightarrow> roleBindingWatcher \<Rightarrow> gerr option \<times> roleBindingWatcher" where
  "rbw_join rb w =
     (None,
      if rb_Name rb = NocalhostViewerRoleBinding then
        w\<lparr>rbw_viewerSas := (rbw_viewerSas w)(rb_Namespace rb \<mapsto> subjectNames rb)\<rparr>
      else if rb_Name rb = NocalhostDefaultRoleBinding then
        w\<lparr>rbw_adminSas := (rbw_adminSas w)(rb_Namespace rb \<mapsto> subjectNames rb)\<rparr>
      else if rb_Name rb = NocalhostCooperatorRoleBinding then
        w\<lparr>rbw_cooperatorSas := (rbw_cooperatorSas w)(rb_Namespace rb \<mapsto> subjectNames rb)\<rparr>
      else w)"

definition rbw_CreateOrUpdate ::
  "string \<Rightarrow> RoleBinding castObj \<Rightarrow> roleBindingWatcher \<Rightarrow> gerr option \<times> roleBindingWatcher" where
  "rbw_CreateOrUpdate key obj w =
     (case obj of
        CastOk rb \<Rightarrow> rbw_join rb w
      | CastFail shown \<Rightarrow>
          (Some (''Fetching roleBiding with key '' @ key @ '' but could not cast to roleBiding: '' @ shown), w))"

definition rbw_Delete :: "string \<Rightarrow> roleBindingWatcher \<Rightarrow> gerr option \<times> roleBindingWatcher" where
  "rbw_Delete key w =
     (case index key ''/'' of
        None \<Rightarrow> (None, w)
      | Some idx \<Rightarrow>
          if idx = 0 then (None, w)
          else
            let rbName = (if idx + 1 < length key then drop (idx + 1) key else []);
                ns0 = (if idx + 1 < length key then take idx key else []);
                ns = (if idx + 1 < length key \<and> ns0 = [] then ''default'' else ns0)
            in (None,
                if rbName = NocalhostViewerRoleBinding then w\<lparr>rbw_viewerSas := map_delete ns (rbw_viewerSas w)\<rparr>
                else if rbName = NocalhostDefaultRoleBinding then w\<lparr>rbw_adminSas := map_delete ns (rbw_adminSas w)\<rparr>
                else if rbName = NocalhostCooperatorRoleBinding then
                  w\<lparr>rbw_cooperatorSas := map_delete ns (rbw_cooperatorSas w)\<rparr>
                else w))"

definition rbWatcher :: "(RoleBinding castObj, roleBindingWatcher) Watcher" where
  "rbWatcher = \<lparr>CreateOrUpdate = rbw_CreateOrUpdate, Delete_key = rbw_Delete\<rparr>"

definition NewRoleBindingWatcher :: roleBindingWatcher where
  "NewRoleBindingWatcher = \<lparr>rbw_adminSas = Map.empty, rbw_viewerSas = Map.empty, rbw_cooperatorSas = Map.empty\<rparr>"

text \<open>
  The decks of the two supervisors. A watcher that cannot be prepared, whose error is
  \<open>prepareErr\<close>, is used once and not kept.
\<close>

type_synonym 'a deck = "string \<rightharpoonup> 'a"

definition getInDeck :: "'a \<Rightarrow> (string \<Rightarrow> gerr option) \<Rightarrow> string \<Rightarrow> 'a deck \<Rightarrow> 'a \<times> 'a deck" where
  "getInDeck fresh prepareErr kubeConfig dk =
     (case dk kubeConfig of
        Some watcher \<Rightarrow> (watcher, dk)
      | None \<Rightarrow>
          (case prepareErr kubeConfig of
             Some _ \<Rightarrow> (fresh, dk)
           | None \<Rightarrow> (fresh, dk(kubeConfig \<mapsto> fresh))))"

definition ns_getInDeck ::
  "(string \<Rightarrow> gerr option) \<Rightarrow> string \<Rightarrow> roleBindingWatcher deck \<Rightarrow> roleBindingWatcher \<times> roleBindingWatcher deck" where
  "ns_getInDeck = getInDeck NewRoleBindingWatcher"

definition ns_outDeck :: "string \<Rightarrow> roleBindingWatcher deck \<Rightarrow> roleBindingWatcher deck" where
  "ns_outDeck kubeConfig dk = map_delete kubeConfig dk"

text \<open>The questions to the watcher; \<open>order\<close> is the order of the walk over its map, \<open>arr\<close> that over a set.\<close>

type_synonym nsOrder = "(string \<rightharpoonup> string set) \<Rightarrow> string list"

definition nsOfSa :: "nsOrder \<Rightarrow> (string \<rightharpoonup> string set) \<Rightarrow> string \<Rightarrow> string list" where
  "nsOfSa order m saName =
     sort (filter (\<lambda>ns. case m ns of Some s \<Rightarrow> saName \<in> s | None \<Rightarrow> False) (order m))"

definition GetAllOwnNs :: "nsOrder \<Rightarrow> string \<Rightarrow> roleBindingWatcher \<Rightarrow> string list" where
  "GetAllOwnNs order saName watcher = nsOfSa order (rbw_adminSas watcher) saName"

definition GetAllCoopNs :: "nsOrder \<Rightarrow> string \<Rightarrow> roleBindingWatcher \<Rightarrow> string list" where
  "GetAllCoopNs order saName watcher = nsOfSa order (rbw_cooperatorSas watcher) saName"

definition GetAllViewNs :: "nsOrder \<Rightarrow> string \<Rightarrow> roleBindingWatcher \<Rightarrow> string list" where
  "GetAllViewNs order saName watcher = nsOfSa order (rbw_viewerSas watcher) saName"

text \<open>The namespaces of a user of a cluster; \<open>nw\<close> is the watcher the supervisor finds for a kubeconfig.\<close>

type_synonym nsWatchers = "string \<Rightarrow> roleBindingWatcher"

definition ns_getFromCache :: "('w, 'z) svcEnv_scheme \<Rightarrow> nat \<Rightarrow> nat \<Rightarrow> gerr + string \<times> string" where
  "ns_getFromCache ev clusterId userId =
     (case ev_cluster ev clusterId of
        Inl err \<Rightarrow> Inl err
      | Inr kube \<Rightarrow> (case ev_user ev userId of Inl err \<Rightarrow> Inl err | Inr sa \<Rightarrow> Inr (kube, sa)))"

definition AllOwnNs :: "('w, 'z) svcEnv_scheme \<Rightarrow> nsWatchers \<Rightarrow> nsOrder \<Rightarrow> nat \<Rightarrow> nat \<Rightarrow> string list" where
  "AllOwnNs ev nw order clusterId userId =
     (case ns_getFromCache ev clusterId userId of Inl _ \<Rightarrow> [] | Inr (kube, sa) \<Rightarrow> GetAllOwnNs order sa (nw kube))"

definition AllCoopNs :: "('w, 'z) svcEnv_scheme \<Rightarrow> nsWatchers \<Rightarrow> nsOrder \<Rightarrow> nat \<Rightarrow> nat \<Rightarrow> string list" where
  "AllCoopNs ev nw order clusterId userId =
     (case ns_getFromCache ev clusterId userId of Inl _ \<Rightarrow> [] | Inr (kube, sa) \<Rightarrow> GetAllCoopNs order sa (nw kube))"

definition AllViewNs :: "('w, 'z) svcEnv_scheme \<Rightarrow> nsWatchers \<Rightarrow> nsOrder \<Rightarrow> nat \<Rightarrow> nat \<Rightarrow> string list" where
  "AllViewNs ev nw order clusterId userId =
     (case ns_getFromCache ev clusterId userId of Inl _ \<Rightarrow> [] | Inr (kube, sa) \<Rightarrow> GetAllViewNs order sa (nw kube))"

definition ns_CoopSas ::
  "(string set \<Rightarrow> string list) \<Rightarrow> ('w, 'z) svcEnv_scheme \<Rightarrow> nsWatchers \<Rightarrow> nat \<Rightarrow> string \<Rightarrow> string list" where
  "ns_CoopSas arr ev nw clusterId ns =
     (case ev_cluster ev clusterId of
        Inl _ \<Rightarrow> []
      | Inr kube \<Rightarrow> (case rbw_cooperatorSas (nw kube) ns of Some s \<Rightarrow> arr s | None \<Rightarrow> []))"

definition ns_ViewerSas ::
  "(string set \<Rightarrow> string list) \<Rightarrow> ('w, 'z) svcEnv_scheme \<Rightarrow> nsWatchers \<Rightarrow> nat \<Rightarrow> string \<Rightarrow> string list" where
  "ns_ViewerSas arr ev nw clusterId ns =
     (case ev_cluster ev clusterId of
        Inl _ \<Rightarrow> []
      | Inr kube \<Rightarrow> (case rbw_viewerSas (nw kube) ns of Some s \<Rightarrow> arr s | None \<Rightarrow> []))"

subsection \<open>The watcher of cluster role bindings\<close>

record saShareContainer =
  ssc_ownerValid :: bool
  ssc_viewerSas :: "string set"
  ssc_cooperatorSas :: "string set"

definition newSaContainer :: saShareContainer where
  "newSaContainer = \<lparr>ssc_ownerValid = False, ssc_viewerSas = {}, ssc_cooperatorSas = {}\<rparr>"

type_synonym clusterRoleBindingWatcher = "string \<rightharpoonup> saShareContainer"

definition LoadOrStore :: "string \<Rightarrow> clusterRoleBindingWatcher \<Rightarrow> saShareContainer \<times> clusterRoleBindingWatcher" where
  "LoadOrStore sa c = (case c sa of Some ssc \<Rightarrow> (ssc, c) | None \<Rightarrow> (newSaContainer, c(sa \<mapsto> newSaContainer)))"

definition markOwner :: "string \<Rightarrow> clusterRoleBindingWatcher \<Rightarrow> clusterRoleBindingWatcher" where
  "markOwner sa c = (case LoadOrStore sa c of (ssc, c1) \<Rightarrow> c1(sa \<mapsto> ssc\<lparr>ssc_ownerValid := True\<rparr>))"

definition constCooperator :: string where "constCooperator = ''cooperator''"
definition constViewer :: string where "constViewer = ''viewer''"

definition crbw_join :: "RoleBinding \<Rightarrow> clusterRoleBindingWatcher \<Rightarrow> gerr option \<times> clusterRoleBindingWatcher" where
  "crbw_join crb c =
     (if rb_Name crb = NocalhostDefaultRoleBinding then
        let c1 = fold markOwner (map sj_Name (rb_Subjects crb)) c
        in (None, \<lambda>sa. if sa \<notin> subjectNames crb then map_option (\<lambda>ssc. ssc\<lparr>ssc_ownerValid := False\<rparr>) (c1 sa) else c1 sa)
      else
        let parts = split (rb_Name crb) '':'' in
        if length parts \<noteq> 3 \<or> length parts = 0 \<or> parts ! 0 \<noteq> ''nocalhost'' \<or>
           (parts ! 2 \<noteq> ''cooperator'' \<and> parts ! 2 \<noteq> ''viewer'') then (None, c)
        else
          let ownerSa = parts ! 1 in
          (case LoadOrStore ownerSa c of (ssc, c1) \<Rightarrow>
             if parts ! 2 = constCooperator then (None, c1(ownerSa \<mapsto> ssc\<lparr>ssc_cooperatorSas := subjectNames crb\<rparr>))
             else if parts ! 2 = constViewer then (None, c1(ownerSa \<mapsto> ssc\<lparr>ssc_viewerSas := subjectNames crb\<rparr>))
             else (None, c)))"

definition crbw_CreateOrUpdate ::
  "string \<Rightarrow> RoleBinding castObj \<Rightarrow> clusterRoleBindingWatcher \<Rightarrow> gerr option \<times> clusterRoleBindingWatcher" where
  "crbw_CreateOrUpdate key obj c =
     (case obj of
        CastOk crb \<Rightarrow> crbw_join crb c
      | CastFail shown \<Rightarrow>
          (Some (''Fetching clusterRoleBinding with key '' @ key @
             '' but could not cast to clusterRoleBinding: '' @ shown), c))"

text \<open>A deleted cluster role binding is only logged.\<close>

definition crbw_Delete :: "string \<Rightarrow> clusterRoleBindingWatcher \<Rightarrow> gerr option \<times> clusterRoleBindingWatcher" where
  "crbw_Delete key c = (None, c)"

definition crbWatcher :: "(RoleBinding castObj, clusterRoleBindingWatcher) Watcher" where
  "crbWatcher = \<lparr>CreateOrUpdate = crbw_CreateOrUpdate, Delete_key = crbw_Delete\<rparr>"

definition NewClusterRoleBindingWatcher :: clusterRoleBindingWatcher where
  "NewClusterRoleBindingWatcher = Map.empty"

definition cluster_getInDeck ::
  "(string \<Rightarrow> gerr option) \<Rightarrow> string \<Rightarrow> clusterRoleBindingWatcher deck \<Rightarrow>
     clusterRoleBindingWatcher \<times> clusterRoleBindingWatcher deck" where
  "cluster_getInDeck = getInDeck NewClusterRoleBindingWatcher"

text \<open>
  The questions about a user of a cluster. Each first has the supervisor start the watcher of the
  cluster; \<open>cw\<close> is the watcher it then finds for a kubeconfig. \<open>None\<close> is the nil container, also when
  the cluster or the user is unknown.
\<close>

type_synonym clusterWatchers = "string \<Rightarrow> clusterRoleBindingWatcher"

definition IsCooperOfCluster ::
  "('w, 'z) svcEnv_scheme \<Rightarrow> clusterWatchers \<Rightarrow> (clusterRoleBindingWatcher \<Rightarrow> string list) \<Rightarrow> nat \<Rightarrow> string \<Rightarrow> bool" where
  "IsCooperOfCluster ev cw order clusterId saName =
     (case ev_cluster ev clusterId of
        Inl _ \<Rightarrow> False
      | Inr kube \<Rightarrow>
          list_ex (\<lambda>sa. case cw kube sa of Some ssc \<Rightarrow> saName \<in> ssc_cooperatorSas ssc | None \<Rightarrow> False) (order (cw kube)))"

definition IsViewerOfCluster ::
  "('w, 'z) svcEnv_scheme \<Rightarrow> clusterWatchers \<Rightarrow> (clusterRoleBindingWatcher \<Rightarrow> string list) \<Rightarrow> nat \<Rightarrow> string \<Rightarrow> bool" where
  "IsViewerOfCluster ev cw order clusterId saName =
     (case ev_cluster ev clusterId of
        Inl _ \<Rightarrow> False
      | Inr kube \<Rightarrow>
          list_ex (\<lambda>sa. case cw kube sa of Some ssc \<Rightarrow> saName \<in> ssc_viewerSas ssc | None \<Rightarrow> False) (order (cw kube)))"

definition IsOwnerOfCluster :: "('w, 'z) svcEnv_scheme \<Rightarrow> clusterWatchers \<Rightarrow> nat \<Rightarrow> string \<Rightarrow> bool" where
  "IsOwnerOfCluster ev cw clusterId saName =
     (case ev_cluster ev clusterId of
        Inl _ \<Rightarrow> False
      | Inr kube \<Rightarrow> (case cw kube saName of None \<Rightarrow> False | Some ssc \<Rightarrow> ssc_ownerValid ssc))"

definition GetFromCache :: "('w, 'z) svcEnv_scheme \<Rightarrow> nat \<Rightarrow> nat \<Rightarrow> gerr + string \<times> string" where
  "GetFromCache ev clusterId userId =
     (case ev_cluster ev clusterId of
        Inl err \<Rightarrow> Inl err
      | Inr kube \<Rightarrow> (case ev_user ev userId of Inl err \<Rightarrow> Inl err | Inr sa \<Rightarrow> Inr (kube, sa)))"

definition getShareContainer ::
  "('w, 'z) svcEnv_scheme \<Rightarrow> clusterWatchers \<Rightarrow> nat \<Rightarrow> nat \<Rightarrow> saShareContainer option" where
  "getShareContainer ev cw clusterId fromUserId =
     (case GetFromCache ev clusterId fromUserId of Inl _ \<Rightarrow> None | Inr (kube, sa) \<Rightarrow> cw kube sa)"

definition IsValidOwner :: "('w, 'z) svcEnv_scheme \<Rightarrow> clusterWatchers \<Rightarrow> nat \<Rightarrow> nat \<Rightarrow> bool" where
  "IsValidOwner ev cw clusterId fromUserId =
     (case getShareContainer ev cw clusterId fromUserId of None \<Rightarrow> False | Some ssc \<Rightarrow> ssc_ownerValid ssc)"

definition IsCooperAs :: "('w, 'z) svcEnv_scheme \<Rightarrow> clusterWatchers \<Rightarrow> nat \<Rightarrow> nat \<Rightarrow> nat \<Rightarrow> bool" where
  "IsCooperAs ev cw clusterId fromUserId shareUserId =
     (case ev_user ev shareUserId of
        Inl _ \<Rightarrow> False
      | Inr sa \<Rightarrow>
          sa \<noteq> [] \<and>
          (case getShareContainer ev cw clusterId fromUserId of None \<Rightarrow> False | Some ssc \<Rightarrow> sa \<in> ssc_cooperatorSas ssc))"

definition IsViewerAs :: "('w, 'z) svcEnv_scheme \<Rightarrow> clusterWatchers \<Rightarrow> nat \<Rightarrow> nat \<Rightarrow> nat \<Rightarrow> bool" where
  "IsViewerAs ev cw clusterId fromUserId shareUserId =
     (case ev_user ev shareUserId of
        Inl _ \<Rightarrow> False
      | Inr sa \<Rightarrow>
          sa \<noteq> [] \<and>
          (case getShareContainer ev cw clusterId fromUserId of None \<Rightarrow> False | Some ssc \<Rightarrow> sa \<in> ssc_viewerSas ssc))"

definition cluster_CoopSas ::
  "(string set \<Rightarrow> string list) \<Rightarrow> ('w, 'z) svcEnv_scheme \<Rightarrow> clusterWatchers \<Rightarrow> nat \<Rightarrow> nat \<Rightarrow> string list" where
  "cluster_CoopSas arr ev cw clusterId fromUserId =
     (case getShareContainer ev cw clusterId fromUserId of None \<Rightarrow> [] | Some ssc \<Rightarrow> arr (ssc_cooperatorSas ssc))"

definition cluster_ViewSas ::
  "(string set \<Rightarrow> string list) \<Rightarrow> ('w, 'z) svcEnv_scheme \<Rightarrow> clusterWatchers \<Rightarrow> nat \<Rightarrow> nat \<Rightarrow> string list" where
  "cluster_ViewSas arr ev cw clusterId fromUserId =
     (case getShareContainer ev cw clusterId fromUserId of None \<Rightarrow> [] | Some ssc \<Rightarrow> arr (ssc_viewerSas ssc))"

subsection \<open>Clusters\<close>

definition cooperatorCRB :: "string \<Rightarrow> string" where
  "cooperatorCRB saName = ''nocalhost'' @ '':'' @ saName @ '':'' @ constCooperator"

definition viewerCRB :: "string \<Rightarrow> string" where
  "viewerCRB saName = ''nocalhost'' @ '':'' @ saName @ '':'' @ constViewer"

text \<open>The account of the owner names the binding, that of the other user becomes its subject.\<close>

definition cluster_RemoveFrom ::
  "(string \<Rightarrow> string) \<Rightarrow> ('w, 'z) svcEnv_scheme \<Rightarrow> nat \<Rightarrow> nat \<Rightarrow> nat \<Rightarrow> 'w \<Rightarrow> errno option \<times> 'w" where
  "cluster_RemoveFrom crbName ev clusterId fromUserId shareUserId w =
     (case PrepareServiceAccountAndClientGo ev clusterId fromUserId w of
        (Inl err, w1) \<Rightarrow> (Some err, w1)
      | (Inr (api, saName), w1) \<Rightarrow>
          if saName = [] then (None, w1)
          else (case ev_user ev shareUserId of
                  Inl _ \<Rightarrow> (Some ErrUserNotFound, w1)
                | Inr u \<Rightarrow>
                    errnoOf ErrRoleBindingCreate
                      (RemoveClusterRoleBindingIfPresent api u NocalhostDefaultSaNs (crbName saName) w1)))"

definition cluster_RemoveFromCooperator :: "('w, 'z) svcEnv_scheme \<Rightarrow> nat \<Rightarrow> nat \<Rightarrow> nat \<Rightarrow> 'w \<Rightarrow> errno option \<times> 'w" where
  "cluster_RemoveFromCooperator = cluster_RemoveFrom cooperatorCRB"

definition cluster_RemoveFromViewer :: "('w, 'z) svcEnv_scheme \<Rightarrow> nat \<Rightarrow> nat \<Rightarrow> nat \<Rightarrow> 'w \<Rightarrow> errno option \<times> 'w" where
  "cluster_RemoveFromViewer = cluster_RemoveFrom viewerCRB"

definition cluster_AsCooperator :: "('w, 'z) svcEnv_scheme \<Rightarrow> nat \<Rightarrow> nat \<Rightarrow> nat \<Rightarrow> 'w \<Rightarrow> errno option \<times> 'w" where
  "cluster_AsCooperator ev clusterId fromUserId shareUserId w =
     (case PrepareServiceAccountAndClientGo ev clusterId fromUserId w of
        (Inl err, w1) \<Rightarrow> (Some err, w1)
      | (Inr (api, saName), w1) \<Rightarrow>
          if saName = [] then (None, w1)
          else (case ev_user ev shareUserId of
                  Inl _ \<Rightarrow> (Some ErrUserNotFound, w1)
                | Inr u \<Rightarrow>
                    (case CreateOrUpdateClusterRoleBindingINE api u NocalhostDefaultSaNs (cooperatorCRB saName)
                            NocalhostCooperatorRoleName w1 of
                       (Some _, w2) \<Rightarrow> (Some ErrRoleBindingCreate, w2)
                     | (None, w2) \<Rightarrow> cluster_RemoveFromViewer ev clusterId fromUserId shareUserId w2)))"

definition cluster_AsViewer :: "('w, 'z) svcEnv_scheme \<Rightarrow> nat \<Rightarrow> nat \<Rightarrow> nat \<Rightarrow> 'w \<Rightarrow> errno option \<times> 'w" where
  "cluster_AsViewer ev clusterId fromUserId shareUserId w =
     (case PrepareServiceAccountAndClientGo ev clusterId fromUserId w of
        (Inl err, w1) \<Rightarrow> (Some err, w1)
      | (Inr (api, saName), w1) \<Rightarrow>
          if saName = [] then (None, w1)
          else (case ev_user ev shareUserId of
                  Inl _ \<Rightarrow> (Some ErrUserNotFound, w1)
                | Inr u \<Rightarrow>
                    (case CreateOrUpdateClusterRoleBindingINE api u NocalhostDefaultSaNs (viewerCRB saName)
                            NocalhostViewerRoleName w1 of
                       (Some _, w2) \<Rightarrow> (Some ErrRoleBindingCreate, w2)
                     | (None, w2) \<Rightarrow> cluster_RemoveFromCooperator ev clusterId fromUserId shareUserId w2)))"

fun removeAllSas ::
  "'w rbacApi \<Rightarrow> string \<Rightarrow> string list \<Rightarrow> 'w \<Rightarrow> errno option \<times> 'w" where
  "removeAllSas api crb [] w = (None, w)"
| "removeAllSas api crb (sa # sas) w =
     (case RemoveClusterRoleBindingIfPresent api sa NocalhostDefaultSaNs crb w of
        (Some _, w1) \<Rightarrow> (Some ErrRoleBindingRemove, w1)
      | (None, w1) \<Rightarrow> removeAllSas api crb sas w1)"

definition RemoveAllFromViewer ::
  "(string set \<Rightarrow> string list) \<Rightarrow> ('w, 'z) svcEnv_scheme \<Rightarrow> clusterWatchers \<Rightarrow> nat \<Rightarrow> nat \<Rightarrow> 'w \<Rightarrow> errno option \<times> 'w" where
  "RemoveAllFromViewer arr ev cw clusterId fromUserId w =
     (case PrepareServiceAccountAndClientGo ev clusterId fromUserId w of
        (Inl err, w1) \<Rightarrow> (Some err, w1)
      | (Inr (api, saName), w1) \<Rightarrow>
          if saName = [] then (None, w1)
          else removeAllSas api (viewerCRB saName) (cluster_ViewSas arr ev cw clusterId fromUserId) w1)"

definition RemoveAllFromCooperator ::
  "(string set \<Rightarrow> string list) \<Rightarrow> ('w, 'z) svcEnv_scheme \<Rightarrow> clusterWatchers \<Rightarrow> nat \<Rightarrow> nat \<Rightarrow> 'w \<Rightarrow> errno option \<times> 'w" where
  "RemoveAllFromCooperator arr ev cw clusterId fromUserId w =
     (case PrepareServiceAccountAndClientGo ev clusterId fromUserId w of
        (Inl err, w1) \<Rightarrow> (Some err, w1)
      | (Inr (api, saName), w1) \<Rightarrow>
          if saName = [] then (None, w1)
          else removeAllSas api (cooperatorCRB saName) (cluster_CoopSas arr ev cw clusterId fromUserId) w1)"

end
