(* ===== verification/RbacProps.thy ===== *)
theory RbacProps
  imports Coop
begin

text \<open>
  What sharing does to the role bindings of a cluster. The cluster is any one whose role bindings
  can be read back as they were stored and are not touched by the other operations:
  \<open>rbStores\<close> for namespaces, \<open>crbStores\<close> for the cluster, with a view of its bindings. The theory
  also has the machine of the three goroutines that create the cluster roles.
\<close>

subsection \<open>Bindings of a namespace\<close>

type_synonym 'w nsView = "'w \<Rightarrow> string \<Rightarrow> string \<rightharpoonup> RoleBinding"

definition rbStores :: "'w rbacApi \<Rightarrow> 'w nsView \<Rightarrow> bool" where
  "rbStores api view \<longleftrightarrow>
     (\<forall>ns n w. rbGet api ns n w = (case view w ns n of Some rb \<Rightarrow> Inr rb | None \<Rightarrow> Inl (NotFound n))) \<and>
     (\<forall>ns n w rb. view w ns n = Some rb \<longrightarrow> rb_Name rb = n) \<and>
     (\<forall>ns rb w w'. rbCreate api ns rb w = (None, w') \<longrightarrow> view w' = (view w)(ns := (view w ns)(rb_Name rb \<mapsto> rb))) \<and>
     (\<forall>ns rb w w'. rbUpdate api ns rb w = (None, w') \<longrightarrow> view w' = (view w)(ns := (view w ns)(rb_Name rb \<mapsto> rb))) \<and>
     (\<forall>ns n l w. view (snd (saCreate api ns n l w)) = view w) \<and>
     (\<forall>ns n s l w. view (snd (tokenCreate api ns n s l w)) = view w) \<and>
     (\<forall>ns l w. view (snd (nsCreate api ns l w)) = view w) \<and>
     (\<forall>n l rs w. view (snd (crCreate api n l rs w)) = view w) \<and>
     (\<forall>n rs w. view (snd (crUpdate api n rs w)) = view w)"

lemma rbStoresD:
  assumes "rbStores api view"
  shows "rbGet api ns n w = (case view w ns n of Some rb \<Rightarrow> Inr rb | None \<Rightarrow> Inl (NotFound n))"
    and "view w ns n = Some rb \<Longrightarrow> rb_Name rb = n"
    and "rbCreate api ns rb w = (None, w') \<Longrightarrow> view w' = (view w)(ns := (view w ns)(rb_Name rb \<mapsto> rb))"
    and "rbUpdate api ns rb w = (None, w') \<Longrightarrow> view w' = (view w)(ns := (view w ns)(rb_Name rb \<mapsto> rb))"
    and "view (snd (saCreate api ns n l w)) = view w"
    and "view (snd (tokenCreate api ns n s l w)) = view w"
    and "view (snd (nsCreate api ns l w)) = view w"
    and "view (snd (crCreate api n l rs w)) = view w"
    and "view (snd (crUpdate api n rs w)) = view w"
  using assms by (simp_all add: rbStores_def)

text \<open>Operations that leave a view alone, whichever it is.\<close>

definition keeps :: "('w \<Rightarrow> 'v) \<Rightarrow> ('w \<Rightarrow> 'a \<times> 'w) \<Rightarrow> bool" where
  "keeps view f \<longleftrightarrow> (\<forall>w. view (snd (f w)) = view w)"

lemma keepsD: "keeps view f \<Longrightarrow> f w = (r, w') \<Longrightarrow> view w' = view w"
  by (metis keeps_def snd_conv)

lemma CreateServiceAccount_keeps:
  assumes "\<And>ns n l. keeps view (saCreate api ns n l)" and "\<And>ns n s l. keeps view (tokenCreate api ns n s l)"
  shows "keeps view (CreateServiceAccount api name ns)"
  using assms unfolding keeps_def CreateServiceAccount_def
  by (auto split: prod.splits option.splits) (metis snd_conv)+

lemma createRoleOf_keeps:
  assumes "\<And>n l rs. keeps view (crCreate api n l rs)" and "\<And>n rs. keeps view (crUpdate api n rs)"
  shows "keeps view (createRoleOf api t)"
proof -
  have c: "keeps view (CreateClusterRole api n rs)" for n rs
    using assms(1) unfolding keeps_def CreateClusterRole_def
    by (auto split: prod.splits option.splits) (metis snd_conv)+
  have u: "keeps view (UpdateClusterRole api n rs)" for n rs
    using assms(2) unfolding keeps_def UpdateClusterRole_def by (auto split: sum.splits)
  have "view (snd (createRoleOf api t w)) = view w" for w
  proof (cases t)
    case DevRole
    then show ?thesis using c [of NocalhostDevRoleName allRules]
      by (auto simp: keeps_def split: prod.splits option.splits apierr.splits) (metis snd_conv)+
  next
    case CooperatorRole
    then show ?thesis using c [of NocalhostCooperatorRoleName allRules]
      by (auto simp: keeps_def split: prod.splits option.splits apierr.splits) (metis snd_conv)+
  next
    case ViewerRole
    then show ?thesis using c [of NocalhostViewerRoleName viewerRules] u
      by (auto simp: keeps_def split: prod.splits option.splits apierr.splits) (metis snd_conv)+
  qed
  then show ?thesis by (simp add: keeps_def)
qed

lemma runRoles_keeps:
  assumes "\<And>t. keeps view (createRoleOf api t)"
  shows "keeps view (runRoles api ts)"
proof -
  have "view (snd (runRoles api ts w)) = view w" for w
  proof (induction ts arbitrary: w)
    case (Cons t ts)
    obtain e w1 where c: "createRoleOf api t w = (e, w1)" by (metis surj_pair)
    with keepsD [OF assms c] Cons.IH [of w1] show ?case by (auto split: prod.splits)
  qed simp
  then show ?thesis by (simp add: keeps_def)
qed

lemma prepare_keeps:
  assumes sa: "\<And>ns n l. keeps view (saCreate api ns n l)" and tok: "\<And>ns n s l. keeps view (tokenCreate api ns n s l)"
    and cr: "\<And>n l rs. keeps view (crCreate api n l rs)" "\<And>n rs. keeps view (crUpdate api n rs)"
    and ev: "ev_cluster ev cid = Inr kube" "ev_client ev kube = Inr api" "ev_user ev uid = Inr name"
    and run: "PrepareServiceAccountAndClientGo ev cid uid w = (r, w')"
  shows "view w' = view w" and "r = Inr (api', name') \<Longrightarrow> api' = api \<and> name' = name"
proof -
  obtain e w1 where s: "createOrUpdateServiceAccountINE api name NocalhostDefaultSaNs w = (e, w1)" by (metis surj_pair)
  obtain f w2 where c: "createClusterAdminRoleINE (ev_order ev) (ev_takesErr ev) api w1 = (f, w2)" by (metis surj_pair)
  obtain es w3 where rr: "runRoles api (ev_order ev) w1 = (es, w3)" by (metis surj_pair)
  obtain b e1 w4 where cs: "CreateServiceAccount api name NocalhostDefaultSaNs w = ((b, e1), w4)" by (metis surj_pair)
  have v1: "view w4 = view w" using keepsD [OF CreateServiceAccount_keeps [OF sa tok] cs] by simp
  have w1: "w1 = w4"
    using s cs by (auto simp: createOrUpdateServiceAccountINE_def split: option.splits apierr.splits)
  have v3: "view w3 = view w1" using keepsD [OF runRoles_keeps [OF createRoleOf_keeps [OF cr]] rr] by simp
  have w2: "w2 = w3" using c rr by (auto simp: createClusterAdminRoleINE_def split: list.splits)
  show "view w' = view w" and "r = Inr (api', name') \<Longrightarrow> api' = api \<and> name' = name"
    using run ev s c v1 w1 v3 w2 unfolding PrepareServiceAccountAndClientGo_def
    by (auto split: option.splits)
qed

lemma rb_keeps:
  assumes "rbStores api view"
  shows "keeps view (saCreate api ns n l)" "keeps view (tokenCreate api ns n s l)"
    "keeps view (crCreate api n l rs)" "keeps view (crUpdate api n rs)" "keeps view (nsCreate api ns l)"
  using rbStoresD [OF assms] by (simp_all add: keeps_def)

lemma createNs_keeps:
  assumes "\<And>ns l. keeps view (nsCreate api ns l)"
  shows "keeps view (CreateNamespaceINE api ns)"
proof -
  have "keeps view (CreateNS api ns (Some Map.empty))"
    using assms unfolding keeps_def CreateNS_def
    by (auto split: prod.splits option.splits) (metis snd_conv)+
  then have "view (snd (CreateNamespaceINE api ns w)) = view w" for w
    unfolding keeps_def CreateNamespaceINE_def
    by (auto split: prod.splits option.splits apierr.splits) (metis snd_conv)+
  then show ?thesis by (simp add: keeps_def)
qed

text \<open>The accounts bound by a role binding, each with its namespace.\<close>

definition subjectKey :: "Subject \<Rightarrow> string \<times> string" where
  "subjectKey s = (sj_Namespace s, sj_Name s)"

definition boundTo :: "(string \<rightharpoonup> RoleBinding) \<Rightarrow> string \<Rightarrow> (string \<times> string) list" where
  "boundTo bs b = (case bs b of None \<Rightarrow> [] | Some rb \<Rightarrow> map subjectKey (rb_Subjects rb))"

lemma saSubject_key: "map subjectKey (saSubject ns name) = (if name = [] then [] else [(ns, name)])"
  by (simp add: saSubject_def subjectKey_def)

lemma addSubject_simps [simp]:
  "rb_Name (addSubject now name ns rb) = rb_Name rb"
  "map subjectKey (rb_Subjects (addSubject now name ns rb)) =
     map subjectKey (rb_Subjects rb) @ (if name = [] then [] else [(ns, name)])"
  by (simp_all add: addSubject_def saSubject_key [symmetric])

lemma newBinding_simps [simp]: "rb_Name (newBinding n ns role) = n" "rb_Subjects (newBinding n ns role) = []"
  by (simp_all add: newBinding_def)

lemma removeSubject_key: "map subjectKey (removeSubject name ns ss) = remove1 (ns, name) (map subjectKey ss)"
  by (induction ss) (auto simp: subjectKey_def)

lemma append_effect:
  assumes st: "rbStores api view" and run: "AppendRoleBinding api b ns role sa sans w = (None, w')" and sa: "sa \<noteq> []"
  shows "sa \<in> snd ` set (boundTo (view w' ns) b)"
    and "x \<noteq> (sans, sa) \<Longrightarrow> x \<in> set (boundTo (view w' ns) b) \<longleftrightarrow> x \<in> set (boundTo (view w ns) b)"
    and "c \<noteq> b \<Longrightarrow> view w' ns c = view w ns c"
proof -
  note d = rbStoresD [OF st]
  have "(sa \<in> snd ` set (boundTo (view w' ns) b)) \<and>
    (x \<noteq> (sans, sa) \<longrightarrow> x \<in> set (boundTo (view w' ns) b) \<longleftrightarrow> x \<in> set (boundTo (view w ns) b)) \<and>
    (c \<noteq> b \<longrightarrow> view w' ns c = view w ns c)"
  proof (cases "view w ns b")
    case None
    with run d(1) have "rbCreate api ns (addSubject (nowStamp api w) sa sans (newBinding b ns role)) w = (None, w')"
      by (simp add: AppendRoleBinding_def)
    from d(3) [OF this] None sa show ?thesis by (simp add: boundTo_def)
  next
    case (Some rb)
    note name = d(2) [OF Some]
    show ?thesis
    proof (cases "list_ex (\<lambda>s. sj_Name s = sa) (rb_Subjects rb)")
      case True
      with run d(1) Some have "w' = w" by (simp add: AppendRoleBinding_def)
      with True Some show ?thesis by (force simp: boundTo_def list_ex_iff subjectKey_def image_iff)
    next
      case False
      with run d(1) Some have "rbUpdate api ns (addSubject (nowStamp api w) sa sans rb) w = (None, w')"
        by (simp add: AppendRoleBinding_def)
      from d(4) [OF this] Some name sa show ?thesis by (auto simp: boundTo_def)
    qed
  qed
  then show "sa \<in> snd ` set (boundTo (view w' ns) b)"
    and "x \<noteq> (sans, sa) \<Longrightarrow> x \<in> set (boundTo (view w' ns) b) \<longleftrightarrow> x \<in> set (boundTo (view w ns) b)"
    and "c \<noteq> b \<Longrightarrow> view w' ns c = view w ns c" by blast+
qed

lemma remove_effect:
  assumes st: "rbStores api view" and run: "RemoveRoleBinding api b ns sa sans w = (None, w')"
  shows "boundTo (view w' ns) b = remove1 (sans, sa) (boundTo (view w ns) b)"
    and "c \<noteq> b \<Longrightarrow> view w' ns c = view w ns c"
proof -
  note d = rbStoresD [OF st]
  have "boundTo (view w' ns) b = remove1 (sans, sa) (boundTo (view w ns) b) \<and> (c \<noteq> b \<longrightarrow> view w' ns c = view w ns c)"
  proof (cases "view w ns b")
    case None
    with run d(1) show ?thesis by (simp add: RemoveRoleBinding_def boundTo_def)
  next
    case (Some rb)
    note name = d(2) [OF Some]
    show ?thesis
    proof (cases "rb_Subjects rb = []")
      case True
      with run d(1) Some show ?thesis by (simp add: RemoveRoleBinding_def boundTo_def)
    next
      case False
      with run d(1) Some have "rbUpdate api ns (rb\<lparr>rb_Subjects := removeSubject sa sans (rb_Subjects rb)\<rparr>) w = (None, w')"
        by (simp add: RemoveRoleBinding_def)
      from d(4) [OF this] Some name show ?thesis by (simp add: boundTo_def removeSubject_key)
    qed
  qed
  then show "boundTo (view w' ns) b = remove1 (sans, sa) (boundTo (view w ns) b)"
    and "c \<noteq> b \<Longrightarrow> view w' ns c = view w ns c" by blast+
qed

text \<open>The role that a user gets and the other one, from which it is removed.\<close>

lemma grant_and_revoke:
  assumes st: "rbStores api view" and sa: "sa \<noteq> []" and b: "b \<noteq> c"
    and app: "AppendRoleBinding api b ns role sa sans w1 = (None, w2)" and v1: "view w1 = view w"
    and v3: "view w3 = view w2" and rem: "RemoveRoleBinding api c ns sa sans w3 = (None, w4)"
    and dist: "distinct (boundTo (view w ns) c)"
  shows "sa \<in> snd ` set (boundTo (view w4 ns) b) \<and> (sans, sa) \<notin> set (boundTo (view w4 ns) c) \<and>
    (\<forall>x. x \<noteq> (sans, sa) \<longrightarrow>
       (x \<in> set (boundTo (view w4 ns) b) \<longleftrightarrow> x \<in> set (boundTo (view w ns) b)) \<and>
       (x \<in> set (boundTo (view w4 ns) c) \<longleftrightarrow> x \<in> set (boundTo (view w ns) c)))"
proof -
  note a = append_effect [OF st app sa] and r = remove_effect [OF st rem]
  have c: "boundTo (view w2 ns) c = boundTo (view w ns) c" using a(3) [of c] b v1 by (simp add: boundTo_def)
  have b4: "boundTo (view w4 ns) b = boundTo (view w2 ns) b" using r(2) [of b] b v3 by (simp add: boundTo_def)
  have c4: "boundTo (view w4 ns) c = remove1 (sans, sa) (boundTo (view w ns) c)" using r(1) v3 c by simp
  show ?thesis using a(1,2) b4 c4 dist v1 by (auto simp: in_set_remove1)
qed

lemma errnoOf_None: "errnoOf e r = (None, w') \<longleftrightarrow> r = (None, w')"
  by (cases r) (auto simp: errnoOf_def)

text \<open>A request whose cluster, client and user are known.\<close>

definition requestOk :: "('w, 'z) svcEnv_scheme \<Rightarrow> nat \<Rightarrow> nat \<Rightarrow> 'w rbacApi \<Rightarrow> string \<Rightarrow> bool" where
  "requestOk ev cid uid api sa \<longleftrightarrow>
     (\<exists>kube. ev_cluster ev cid = Inr kube \<and> ev_client ev kube = Inr api) \<and> ev_user ev uid = Inr sa"

lemma prepared:
  assumes "rbStores api view" and "requestOk ev cid uid api sa"
    and "PrepareServiceAccountAndClientGo ev cid uid w = (r, w')"
  shows "view w' = view w" and "r = Inr (api', name') \<Longrightarrow> api' = api \<and> name' = sa"
proof -
  note k = rb_keeps [OF assms(1)]
  obtain kube where e: "ev_cluster ev cid = Inr kube" "ev_client ev kube = Inr api" "ev_user ev uid = Inr sa"
    using assms(2) by (auto simp: requestOk_def)
  show "view w' = view w" and "r = Inr (api', name') \<Longrightarrow> api' = api \<and> name' = sa"
    using prepare_keeps [OF k(1,2,3,4) e assms(3)] by blast+
qed

text \<open>
  An account has moved into the binding \<open>b\<close> of a namespace and out of \<open>c\<close>, and the other accounts
  of both have stayed.
\<close>

definition movedTo :: "'w nsView \<Rightarrow> string \<Rightarrow> string \<Rightarrow> string \<Rightarrow> string \<Rightarrow> 'w \<Rightarrow> 'w \<Rightarrow> bool" where
  "movedTo view ns sa b c w w' \<longleftrightarrow>
     sa \<in> snd ` set (boundTo (view w' ns) b) \<and> (NocalhostDefaultSaNs, sa) \<notin> set (boundTo (view w' ns) c) \<and>
     (\<forall>x. x \<noteq> (NocalhostDefaultSaNs, sa) \<longrightarrow>
        (x \<in> set (boundTo (view w' ns) b) \<longleftrightarrow> x \<in> set (boundTo (view w ns) b)) \<and>
        (x \<in> set (boundTo (view w' ns) c) \<longleftrightarrow> x \<in> set (boundTo (view w ns) c)))"

lemma grant:
  assumes st: "rbStores api view" and rq: "requestOk ev cid uid api sa"
    and p: "PrepareServiceAccountAndClientGo ev cid uid w = (Inr (api1, sa1), w1)"
    and ns: "CreateNamespaceINE api1 ns w1 = (None, w2)"
    and app: "AppendRoleBinding api1 b ns role sa1 NocalhostDefaultSaNs w2 = (None, w3)"
    and p': "PrepareServiceAccountAndClientGo ev cid uid w3 = (Inr (api2, sa2), w4)"
    and rem: "RemoveRoleBinding api2 c ns sa2 NocalhostDefaultSaNs w4 = (None, w')"
    and sa: "sa \<noteq> []" and b: "b \<noteq> c" and dist: "distinct (boundTo (view w ns) c)"
  shows "movedTo view ns sa b c w w'"
proof -
  have eq: "api1 = api" "sa1 = sa" "api2 = api" "sa2 = sa"
    using prepared(2) [OF st rq p] prepared(2) [OF st rq p'] by blast+
  have "view w2 = view w"
    using keepsD [OF createNs_keeps [OF rb_keeps(5) [OF st]], of ns w1 None w2] ns prepared(1) [OF st rq p] eq by simp
  moreover have "view w4 = view w3" using prepared(1) [OF st rq p'] .
  ultimately show ?thesis
    unfolding movedTo_def using grant_and_revoke [OF st sa b _ _ _ _ dist] app rem eq by blast
qed

lemma AsCooperator_steps:
  assumes "ns_AsCooperator ev cid uid ns w = (None, w')" and "PrepareServiceAccountAndClientGo ev cid uid w = (Inr (api1, sa1), w1)"
    and "sa1 \<noteq> []"
  obtains w2 w3 api2 sa2 w4 where "CreateNamespaceINE api1 ns w1 = (None, w2)"
    and "AppendRoleBinding api1 NocalhostCooperatorRoleBinding ns NocalhostCooperatorRoleName sa1 NocalhostDefaultSaNs w2 = (None, w3)"
    and "PrepareServiceAccountAndClientGo ev cid uid w3 = (Inr (api2, sa2), w4)"
    and "RemoveRoleBinding api2 NocalhostViewerRoleBinding ns sa2 NocalhostDefaultSaNs w4 = (None, w')"
  using assms by (auto simp: ns_AsCooperator_def CreateOrUpdateRoleBindingINE_def ns_RemoveFromViewer_def
      RemoveRoleBindingIfPresent_def errnoOf_None split: prod.splits option.splits sum.splits)

lemma AsViewer_steps:
  assumes "ns_AsViewer ev cid uid ns w = (None, w')" and "PrepareServiceAccountAndClientGo ev cid uid w = (Inr (api1, sa1), w1)"
    and "\<And>w api sa w'. PrepareServiceAccountAndClientGo ev cid uid w = (Inr (api, sa), w') \<Longrightarrow> sa \<noteq> []"
  obtains w2 w3 api2 sa2 w4 where "CreateNamespaceINE api1 ns w1 = (None, w2)"
    and "AppendRoleBinding api1 NocalhostViewerRoleBinding ns NocalhostViewerRoleName sa1 NocalhostDefaultSaNs w2 = (None, w3)"
    and "PrepareServiceAccountAndClientGo ev cid uid w3 = (Inr (api2, sa2), w4)"
    and "RemoveRoleBinding api2 NocalhostCooperatorRoleBinding ns sa2 NocalhostDefaultSaNs w4 = (None, w')"
  using assms by (auto simp: ns_AsViewer_def CreateOrUpdateRoleBindingINE_def ns_RemoveFromCooperator_def
      RemoveRoleBindingIfPresent_def errnoOf_None split: prod.splits option.splits sum.splits if_splits)

text \<open>C17: Making a user the cooperator or the viewer of a namespace, when it succeeds, puts the
  user's account into the binding of that role and takes it out of the binding of the other
  role, and leaves the accounts of all other users as they are in both bindings.\<close>

theorem namespace_roles_are_exclusive:
  assumes st: "rbStores api view" and rq: "requestOk ev cid uid api sa" and sa: "sa \<noteq> []"
    and dist: "\<forall>b. distinct (boundTo (view w ns) b)"
  shows "(ns_AsCooperator ev cid uid ns w = (None, w') \<longrightarrow>
      movedTo view ns sa NocalhostCooperatorRoleBinding NocalhostViewerRoleBinding w w') \<and>
    (ns_AsViewer ev cid uid ns w = (None, w') \<longrightarrow>
      movedTo view ns sa NocalhostViewerRoleBinding NocalhostCooperatorRoleBinding w w')"
proof (intro conjI impI)
  obtain r w1 where p: "PrepareServiceAccountAndClientGo ev cid uid w = (r, w1)" by (metis surj_pair)
  have named: "\<And>w api' sa' w'. PrepareServiceAccountAndClientGo ev cid uid w = (Inr (api', sa'), w') \<Longrightarrow> sa' \<noteq> []"
    using prepared(2) [OF st rq] sa by blast
  note g = grant [OF st rq _ _ _ _ _ sa _ dist [rule_format]]
  {
    assume ok: "ns_AsCooperator ev cid uid ns w = (None, w')"
    then have "\<forall>err. r \<noteq> Inl err" using p by (auto simp: ns_AsCooperator_def)
    then obtain api1 sa1 where r: "r = Inr (api1, sa1)" by (metis sumE surj_pair)
    show "movedTo view ns sa NocalhostCooperatorRoleBinding NocalhostViewerRoleBinding w w'"
    proof (rule AsCooperator_steps [OF ok p [unfolded r]])
      fix w2 w3 api2 sa2 w4
      assume "CreateNamespaceINE api1 ns w1 = (None, w2)"
        and "AppendRoleBinding api1 NocalhostCooperatorRoleBinding ns NocalhostCooperatorRoleName sa1 NocalhostDefaultSaNs w2 = (None, w3)"
        and "PrepareServiceAccountAndClientGo ev cid uid w3 = (Inr (api2, sa2), w4)"
        and "RemoveRoleBinding api2 NocalhostViewerRoleBinding ns sa2 NocalhostDefaultSaNs w4 = (None, w')"
      from g [OF p [unfolded r] this] show ?thesis by (simp add: binding_names)
    qed (use named p r in blast)+
  next
    assume ok: "ns_AsViewer ev cid uid ns w = (None, w')"
    then have "\<forall>err. r \<noteq> Inl err" using p by (auto simp: ns_AsViewer_def)
    then obtain api1 sa1 where r: "r = Inr (api1, sa1)" by (metis sumE surj_pair)
    show "movedTo view ns sa NocalhostViewerRoleBinding NocalhostCooperatorRoleBinding w w'"
    proof (rule AsViewer_steps [OF ok p [unfolded r]])
      fix w2 w3 api2 sa2 w4
      assume "CreateNamespaceINE api1 ns w1 = (None, w2)"
        and "AppendRoleBinding api1 NocalhostViewerRoleBinding ns NocalhostViewerRoleName sa1 NocalhostDefaultSaNs w2 = (None, w3)"
        and "PrepareServiceAccountAndClientGo ev cid uid w3 = (Inr (api2, sa2), w4)"
        and "RemoveRoleBinding api2 NocalhostCooperatorRoleBinding ns sa2 NocalhostDefaultSaNs w4 = (None, w')"
      from g [OF p [unfolded r] this] show ?thesis by (simp add: binding_names)
    qed (use named p r in blast)+
  }
qed

subsection \<open>An example\<close>

record memCluster =
  mc_rb :: "string \<Rightarrow> string \<rightharpoonup> RoleBinding"
  mc_crb :: "string \<rightharpoonup> RoleBinding"

definition memView :: "memCluster nsView" where
  "memView w ns n = (case mc_rb w ns n of Some rb \<Rightarrow> if rb_Name rb = n then Some rb else None | None \<Rightarrow> None)"

definition memClusterView :: "memCluster \<Rightarrow> string \<rightharpoonup> RoleBinding" where
  "memClusterView w n = (case mc_crb w n of Some rb \<Rightarrow> if rb_Name rb = n then Some rb else None | None \<Rightarrow> None)"

definition memPut :: "string \<Rightarrow> RoleBinding \<Rightarrow> memCluster \<Rightarrow> apierr option \<times> memCluster" where
  "memPut ns rb w = (None, w\<lparr>mc_rb := (mc_rb w)(ns := (mc_rb w ns)(rb_Name rb \<mapsto> rb))\<rparr>)"

definition memPutCluster :: "RoleBinding \<Rightarrow> memCluster \<Rightarrow> apierr option \<times> memCluster" where
  "memPutCluster rb w = (None, w\<lparr>mc_crb := (mc_crb w)(rb_Name rb \<mapsto> rb)\<rparr>)"

definition memRbac :: "memCluster rbacApi" where
  "memRbac =
     \<lparr>rbGet = \<lambda>ns n w. case memView w ns n of Some rb \<Rightarrow> Inr rb | None \<Rightarrow> Inl (NotFound n),
      rbCreate = memPut, rbUpdate = memPut,
      crbGet = \<lambda>n w. case memClusterView w n of Some rb \<Rightarrow> Inr rb | None \<Rightarrow> Inl (NotFound n),
      crbCreate = memPutCluster, crbUpdate = memPutCluster,
      roleGet = \<lambda>_ _ _. Inr [], roleCreate = \<lambda>_ _ _ w. (None, w), roleUpdate = \<lambda>_ _ _ w. (None, w),
      crGet = \<lambda>_ _. Inr [], crCreate = \<lambda>_ _ _ w. (None, w), crUpdate = \<lambda>_ _ w. (None, w),
      saGet = \<lambda>_ _ _. Inr None, saCreate = \<lambda>_ _ _ w. (None, w), saUpdate = \<lambda>_ _ _ w. (None, w),
      tokenCreate = \<lambda>_ _ _ _ w. (None, w), nsCreate = \<lambda>_ _ w. (None, w), nsDelete = \<lambda>_ w. (None, w),
      saDelete = \<lambda>_ _ w. (None, w), nsGet = \<lambda>_ _. Inr None, quotaCreate = \<lambda>_ _ _ w. (None, w),
      quotaDelete = \<lambda>_ _ w. (None, w), limitCreate = \<lambda>_ _ _ _ w. (None, w), limitDelete = \<lambda>_ _ w. (None, w),
      istioGet = \<lambda>_. None, nowStamp = \<lambda>_. ''20220501100000''\<rparr>"

lemma mem_rbStores: "rbStores memRbac memView"
  by (auto simp: rbStores_def memRbac_def memPut_def memView_def fun_eq_iff split: option.splits)

definition demoSvc :: "memCluster svcEnv" where
  "demoSvc =
     \<lparr>ev_cluster = \<lambda>_. Inr ''kube'', ev_client = \<lambda>_. Inr memRbac,
      ev_user = \<lambda>u. Inr (if u = 7 then ''sa-ann'' else ''sa-bob''),
      ev_order = [DevRole, CooperatorRole, ViewerRole], ev_takesErr = True\<rparr>"

text \<open>Ann views the namespace.\<close>

definition demoShared :: memCluster where
  "demoShared =
     \<lparr>mc_rb = (\<lambda>_. Map.empty)(''dev'' := [NocalhostViewerRoleBinding \<mapsto>
        addSubject ''20220501090000'' ''sa-ann'' NocalhostDefaultSaNs
          (newBinding NocalhostViewerRoleBinding ''dev'' NocalhostViewerRoleName)]),
      mc_crb = Map.empty\<rparr>"

lemma demo_prepare: "PrepareServiceAccountAndClientGo demoSvc cid u w = (Inr (memRbac, if u = 7 then ''sa-ann'' else ''sa-bob''), w)"
  by (simp add: PrepareServiceAccountAndClientGo_def demoSvc_def createOrUpdateServiceAccountINE_def
      CreateServiceAccount_def createClusterAdminRoleINE_def CreateClusterRole_def memRbac_def)

theorem namespace_roles_are_exclusive_witness:
  "\<exists>w'. ns_AsCooperator demoSvc 1 7 ''dev'' demoShared = (None, w') \<and>
     movedTo memView ''dev'' ''sa-ann'' NocalhostCooperatorRoleBinding NocalhostViewerRoleBinding demoShared w'"
proof -
  have "fst (ns_AsCooperator demoSvc 1 7 ''dev'' demoShared) = None"
    by (auto simp: ns_AsCooperator_def demo_prepare CreateNamespaceINE_def CreateNS_def CreateOrUpdateRoleBindingINE_def
        AppendRoleBinding_def ns_RemoveFromViewer_def RemoveRoleBindingIfPresent_def RemoveRoleBinding_def errnoOf_def
        memRbac_def memPut_def split: option.splits)
  then obtain w' where run: "ns_AsCooperator demoSvc 1 7 ''dev'' demoShared = (None, w')" by (metis prod.collapse)
  have rq: "requestOk demoSvc 1 7 memRbac ''sa-ann''" by (simp add: requestOk_def demoSvc_def)
  have "\<forall>b. distinct (boundTo (memView demoShared ''dev'') b)"
    by (simp add: boundTo_def memView_def demoShared_def split: option.splits)
  with namespace_roles_are_exclusive [OF mem_rbStores rq] run show ?thesis by blast
qed

subsection \<open>Bindings of the cluster\<close>

definition crbFrame :: "'w rbacApi \<Rightarrow> ('w \<Rightarrow> 'v) \<Rightarrow> bool" where
  "crbFrame api cview \<longleftrightarrow>
     (\<forall>ns n l. keeps cview (saCreate api ns n l)) \<and> (\<forall>ns n s l. keeps cview (tokenCreate api ns n s l)) \<and>
     (\<forall>ns n l. keeps cview (saUpdate api ns n l)) \<and> (\<forall>n l rs. keeps cview (crCreate api n l rs)) \<and>
     (\<forall>n rs. keeps cview (crUpdate api n rs))"

definition crbStores :: "'w rbacApi \<Rightarrow> ('w \<Rightarrow> string \<rightharpoonup> RoleBinding) \<Rightarrow> bool" where
  "crbStores api cview \<longleftrightarrow> crbFrame api cview \<and>
     (\<forall>n w. crbGet api n w = (case cview w n of Some rb \<Rightarrow> Inr rb | None \<Rightarrow> Inl (NotFound n))) \<and>
     (\<forall>n w rb. cview w n = Some rb \<longrightarrow> rb_Name rb = n) \<and>
     (\<forall>rb w. \<exists>w'. crbCreate api rb w = (None, w') \<and> cview w' = (cview w)(rb_Name rb \<mapsto> rb)) \<and>
     (\<forall>rb w. \<exists>w'. crbUpdate api rb w = (None, w') \<and> cview w' = (cview w)(rb_Name rb \<mapsto> rb))"

text \<open>A request that is prepared without error whatever the state of the cluster.\<close>

definition prepareOk :: "('w, 'z) svcEnv_scheme \<Rightarrow> nat \<Rightarrow> nat \<Rightarrow> 'w rbacApi \<Rightarrow> string \<Rightarrow> bool" where
  "prepareOk ev cid uid api sa \<longleftrightarrow> requestOk ev cid uid api sa \<and>
     (\<forall>w. fst (PrepareServiceAccountAndClientGo ev cid uid w) = Inr (api, sa))"

lemma prepare_ok:
  assumes "prepareOk ev cid uid api sa" and "crbFrame api cview"
  obtains w' where "PrepareServiceAccountAndClientGo ev cid uid w = (Inr (api, sa), w')" and "cview w' = cview w"
proof -
  obtain kube where e: "ev_cluster ev cid = Inr kube" "ev_client ev kube = Inr api" "ev_user ev uid = Inr sa"
    using assms(1) by (auto simp: prepareOk_def requestOk_def)
  obtain w' where p: "PrepareServiceAccountAndClientGo ev cid uid w = (Inr (api, sa), w')"
    using assms(1) by (metis prepareOk_def prod.collapse)
  have "cview w' = cview w"
    by (rule prepare_keeps(1) [OF _ _ _ _ e p]) (use assms(2) in \<open>simp_all add: crbFrame_def\<close>)
  with p that show thesis by blast
qed

lemma retryCreateSa_keeps:
  assumes "crbFrame api cview"
  shows "cview (retryCreateSa n api name ns w) = cview w"
proof (induction n arbitrary: w)
  case (Suc n)
  obtain b e w1 where c: "CreateServiceAccount api name ns w = ((b, e), w1)" by (metis surj_pair)
  have "keeps cview (CreateServiceAccount api name ns)"
    by (rule CreateServiceAccount_keeps) (use assms in \<open>simp_all add: crbFrame_def\<close>)
  from keepsD [OF this c] Suc c show ?case by (auto split: option.splits apierr.splits)
qed simp

lemma refresh_keeps: "crbFrame api cview \<Longrightarrow> cview (RefreshServiceAccount api name ns w) = cview w"
  by (simp add: RefreshServiceAccount_def retryCreateSa_keeps split: sum.splits)
    (simp add: crbFrame_def keeps_def)

lemma addSubject_bound: "u \<noteq> [] \<Longrightarrow> u \<in> snd ` subjectKey ` set (rb_Subjects (addSubject now u ns rb))"
  by (simp add: addSubject_def saSubject_def subjectKey_def)

lemma appendCluster_effect:
  assumes st: "crbStores api cview" and u: "u \<noteq> []"
  obtains w' where "CreateOrUpdateClusterRoleBindingINE api u sans b role w = (None, w')"
    and "u \<in> snd ` set (boundTo (cview w') b)" and "\<forall>c. c \<noteq> b \<longrightarrow> cview w' c = cview w c"
proof -
  note d = st [unfolded crbStores_def]
  have fr: "crbFrame api cview" using st by (simp add: crbStores_def)
  have get: "crbGet api b w = (case cview w b of Some rb \<Rightarrow> Inr rb | None \<Rightarrow> Inl (NotFound b))" using d by blast
  have "\<exists>w1. AppendClusterRoleBinding api b role u sans w = (None, w1) \<and> u \<in> snd ` set (boundTo (cview w1) b) \<and>
    (\<forall>c. c \<noteq> b \<longrightarrow> cview w1 c = cview w c)"
  proof (cases "cview w b")
    case None
    obtain w1 where "crbCreate api (addSubject (nowStamp api w) u sans (newBinding b [] role)) w = (None, w1)"
      and "cview w1 = (cview w)(b \<mapsto> addSubject (nowStamp api w) u sans (newBinding b [] role))"
      using d by (metis addSubject_simps(1) newBinding_simps(1))
    with None get u show ?thesis by (simp add: AppendClusterRoleBinding_def boundTo_def addSubject_bound)
  next
    case (Some rb)
    then have name: "rb_Name rb = b" using d by blast
    obtain w1 where upd: "crbUpdate api (addSubject (nowStamp api w) u sans rb) w = (None, w1)"
      "cview w1 = (cview w)(b \<mapsto> addSubject (nowStamp api w) u sans rb)"
      using d name by (metis addSubject_simps(1))
    show ?thesis
    proof (cases "list_ex (\<lambda>s. sj_Name s = u) (rb_Subjects rb)")
      case True
      then have "u \<in> snd ` set (boundTo (cview w) b)"
        using Some by (force simp: boundTo_def list_ex_iff subjectKey_def image_iff)
      with True Some get show ?thesis by (simp add: AppendClusterRoleBinding_def)
    next
      case False
      with upd Some get u show ?thesis by (simp add: AppendClusterRoleBinding_def boundTo_def addSubject_bound)
    qed
  qed
  then obtain w1 where w1: "AppendClusterRoleBinding api b role u sans w = (None, w1)"
    "u \<in> snd ` set (boundTo (cview w1) b)" "\<forall>c. c \<noteq> b \<longrightarrow> cview w1 c = cview w c" by blast
  have "cview (RefreshServiceAccount api u sans w1) = cview w1" using refresh_keeps [OF fr] .
  with w1 show thesis
    by (intro that [of "RefreshServiceAccount api u sans w1"]) (simp_all add: CreateOrUpdateClusterRoleBindingINE_def)
qed

text \<open>Sharing a whole cluster with a cooperator reports an error whenever the owner has no
  binding for viewers yet, although the cooperator has been bound: the removal from the viewers
  treats the missing binding as a failure.\<close>

theorem cluster_sharing_reports_failure:
  assumes st: "crbStores api cview" and ok: "prepareOk ev cid owner api sa" and sa: "sa \<noteq> []"
    and user: "ev_user ev share = Inr u" "u \<noteq> []" and none: "cview w (viewerCRB sa) = None"
  shows "\<exists>w'. cluster_AsCooperator ev cid owner share w = (Some ErrRoleBindingCreate, w') \<and>
    u \<in> snd ` set (boundTo (cview w') (cooperatorCRB sa))"
proof -
  have fr: "crbFrame api cview" and get: "\<And>n w. crbGet api n w = (case cview w n of Some rb \<Rightarrow> Inr rb | None \<Rightarrow> Inl (NotFound n))"
    using st by (simp_all add: crbStores_def)
  have names: "viewerCRB sa \<noteq> cooperatorCRB sa" by (simp add: viewerCRB_def cooperatorCRB_def constViewer_def constCooperator_def)
  obtain w1 where p: "PrepareServiceAccountAndClientGo ev cid owner w = (Inr (api, sa), w1)" "cview w1 = cview w"
    by (rule prepare_ok [OF ok fr])
  obtain w2 where a: "CreateOrUpdateClusterRoleBindingINE api u NocalhostDefaultSaNs (cooperatorCRB sa) NocalhostCooperatorRoleName w1 = (None, w2)"
    "u \<in> snd ` set (boundTo (cview w2) (cooperatorCRB sa))" "\<forall>c. c \<noteq> cooperatorCRB sa \<longrightarrow> cview w2 c = cview w1 c"
    by (rule appendCluster_effect [OF st user(2), of NocalhostDefaultSaNs "cooperatorCRB sa" NocalhostCooperatorRoleName w1])
  obtain w3 where q: "PrepareServiceAccountAndClientGo ev cid owner w2 = (Inr (api, sa), w3)" "cview w3 = cview w2"
    by (rule prepare_ok [OF ok fr])
  have "cview w3 (viewerCRB sa) = None" using a(3) names none p(2) q(2) by simp
  then have rem: "RemoveClusterRoleBindingIfPresent api u NocalhostDefaultSaNs (viewerCRB sa) w3 =
      (Some (NotFound (viewerCRB sa)), RefreshServiceAccount api u NocalhostDefaultSaNs w3)"
    using get by (simp add: RemoveClusterRoleBindingIfPresent_def RemoveClusterRoleBinding_def)
  have "cluster_AsCooperator ev cid owner share w =
      (Some ErrRoleBindingCreate, RefreshServiceAccount api u NocalhostDefaultSaNs w3)"
    using p(1) a(1) q(1) rem user sa
    by (simp add: cluster_AsCooperator_def cluster_RemoveFromViewer_def cluster_RemoveFrom_def errnoOf_def)
  then show ?thesis using a(2) q(2) refresh_keeps [OF fr] by simp
qed

text \<open>Taking a cooperator or viewer of a whole cluster out again reports success when the
  binding cannot be read: the user keeps the role.\<close>

theorem cluster_revocation_hides_failure:
  assumes fr: "crbFrame api cview" and ok: "prepareOk ev cid owner api sa" and sa: "sa \<noteq> []"
    and user: "ev_user ev share = Inr u" and fail: "\<forall>n w. crbGet api n w = Inl (OtherErr m)"
    and op: "op \<in> {cluster_RemoveFromCooperator, cluster_RemoveFromViewer}"
  shows "\<exists>w'. op ev cid owner share w = (None, w') \<and> cview w' = cview w"
proof -
  obtain w1 where p: "PrepareServiceAccountAndClientGo ev cid owner w = (Inr (api, sa), w1)" "cview w1 = cview w"
    by (rule prepare_ok [OF ok fr])
  have "op ev cid owner share w = (None, RefreshServiceAccount api u NocalhostDefaultSaNs w1)"
    using p(1) user sa fail op
    by (auto simp: cluster_RemoveFromCooperator_def cluster_RemoveFromViewer_def cluster_RemoveFrom_def errnoOf_def
        RemoveClusterRoleBindingIfPresent_def RemoveClusterRoleBinding_def)
  then show ?thesis using p(2) refresh_keeps [OF fr] by simp
qed

lemma mem_frame: "crbFrame memRbac memClusterView"
  by (simp add: crbFrame_def keeps_def memRbac_def)

lemma mem_crbStores: "crbStores memRbac memClusterView"
  using mem_frame
  by (auto simp: crbStores_def memRbac_def memPutCluster_def memClusterView_def fun_eq_iff split: option.splits)

lemma demo_prepareOk: "prepareOk demoSvc 1 5 memRbac ''sa-bob''"
  by (auto simp: prepareOk_def requestOk_def demo_prepare) (simp_all add: demoSvc_def)

theorem cluster_sharing_reports_failure_witness:
  "\<exists>w'. cluster_AsCooperator demoSvc 1 5 7 demoShared = (Some ErrRoleBindingCreate, w') \<and>
    ''sa-ann'' \<in> snd ` set (boundTo (memClusterView w') (cooperatorCRB ''sa-bob''))"
  by (rule cluster_sharing_reports_failure [OF mem_crbStores demo_prepareOk])
    (simp_all add: demoSvc_def memClusterView_def demoShared_def)

definition demoBroken :: "memCluster rbacApi" where
  "demoBroken = memRbac\<lparr>crbGet := \<lambda>_ _. Inl (OtherErr ''timeout'')\<rparr>"

theorem cluster_revocation_hides_failure_witness:
  "\<exists>w'. cluster_RemoveFromCooperator (demoSvc\<lparr>ev_client := \<lambda>_. Inr demoBroken\<rparr>) 1 5 7 demoShared = (None, w') \<and>
    memClusterView w' = memClusterView demoShared"
proof (rule cluster_revocation_hides_failure)
  show "crbFrame demoBroken memClusterView" by (simp add: crbFrame_def keeps_def demoBroken_def memRbac_def)
  show "prepareOk (demoSvc\<lparr>ev_client := \<lambda>_. Inr demoBroken\<rparr>) 1 5 demoBroken ''sa-bob''"
    by (simp add: prepareOk_def requestOk_def PrepareServiceAccountAndClientGo_def demoSvc_def
        createOrUpdateServiceAccountINE_def CreateServiceAccount_def createClusterAdminRoleINE_def CreateClusterRole_def
        demoBroken_def memRbac_def)
  show "\<forall>n w. crbGet demoBroken n w = Inl (OtherErr ''timeout'')" by (simp add: demoBroken_def)
qed (simp_all add: demoSvc_def)

end
