(* ===== verification/RoleMachine.thy ===== *)
theory RoleMachine
  imports RbacProps
begin

text \<open>
  The creation of the three cluster roles, \<open>createClusterAdminRoleINE\<close> of \<open>service.go\<close>, under all
  schedules. Three goroutines create a role each and send an error, if there is one, into
  \<open>errChan\<close>, which has room for three; a fourth waits for them and sends into \<open>doneChan\<close>; the
  function returns on the first of the two channels its \<open>select\<close> takes, and closes both. A send
  into a closed channel panics, and a panic of a goroutine ends the process.
\<close>

record 'w rolesState =
  rs_left :: "roleThread list"
  rs_errs :: "apierr list"
  rs_done :: bool
  rs_waiter :: bool
  rs_result :: "apierr option option"
  rs_panic :: bool
  rs_world :: 'w

definition rolesStart :: "'w \<Rightarrow> 'w rolesState" where
  "rolesStart w =
     \<lparr>rs_left = [DevRole, CooperatorRole, ViewerRole], rs_errs = [], rs_done = False, rs_waiter = True,
      rs_result = None, rs_panic = False, rs_world = w\<rparr>"

text \<open>A goroutine ends: with an error after the return it panics.\<close>

definition endThread :: "roleThread \<Rightarrow> apierr option \<Rightarrow> 'w \<Rightarrow> 'w rolesState \<Rightarrow> 'w rolesState" where
  "endThread t e w st =
     (case e of
        None \<Rightarrow> st\<lparr>rs_left := remove1 t (rs_left st), rs_world := w\<rparr>
      | Some err \<Rightarrow>
          if rs_result st \<noteq> None then st\<lparr>rs_panic := True, rs_world := w\<rparr>
          else st\<lparr>rs_left := remove1 t (rs_left st), rs_errs := rs_errs st @ [err], rs_world := w\<rparr>)"

definition sendDone :: "'w rolesState \<Rightarrow> 'w rolesState" where
  "sendDone st =
     (if rs_result st \<noteq> None then st\<lparr>rs_panic := True\<rparr> else st\<lparr>rs_done := True, rs_waiter := False\<rparr>)"

inductive roles_step :: "'w rbacApi \<Rightarrow> 'w rolesState \<Rightarrow> 'w rolesState \<Rightarrow> bool" for api where
  thread_ends: "\<not> rs_panic st \<Longrightarrow> t \<in> set (rs_left st) \<Longrightarrow> createRoleOf api t (rs_world st) = (e, w) \<Longrightarrow>
     roles_step api st (endThread t e w st)"
| all_done: "\<not> rs_panic st \<Longrightarrow> rs_left st = [] \<Longrightarrow> rs_waiter st \<Longrightarrow> roles_step api st (sendDone st)"
| takes_err: "\<not> rs_panic st \<Longrightarrow> rs_result st = None \<Longrightarrow> rs_errs st = err # errs \<Longrightarrow>
     roles_step api st (st\<lparr>rs_result := Some (Some err), rs_errs := errs\<rparr>)"
| takes_done: "\<not> rs_panic st \<Longrightarrow> rs_result st = None \<Longrightarrow> rs_done st \<Longrightarrow>
     roles_step api st (st\<lparr>rs_result := Some None, rs_done := False\<rparr>)"

definition roles_run :: "'w rbacApi \<Rightarrow> 'w rolesState \<Rightarrow> 'w rolesState \<Rightarrow> bool" where
  "roles_run api = (roles_step api)\<^sup>*\<^sup>*"

definition halted :: "'w rbacApi \<Rightarrow> 'w rolesState \<Rightarrow> bool" where
  "halted api st \<longleftrightarrow> (\<forall>st'. \<not> roles_step api st st')"

text \<open>Every run ends: each step uses up a goroutine, the waiter or the result, or panics.\<close>

definition rolesMeasure :: "'w rolesState \<Rightarrow> nat" where
  "rolesMeasure st = length (rs_left st) + of_bool (rs_waiter st) + of_bool (rs_result st = None) + of_bool (\<not> rs_panic st)"

lemma step_decreases: "roles_step api st st' \<Longrightarrow> rolesMeasure st' < rolesMeasure st"
  by (induction rule: roles_step.induct)
    (auto simp: rolesMeasure_def endThread_def sendDone_def length_remove1 dest: length_pos_if_in_set
      split: option.splits)

lemma run_halts: "\<exists>st'. roles_run api st st' \<and> halted api st'"
proof (induction "rolesMeasure st" arbitrary: st rule: less_induct)
  case less
  show ?case
  proof (cases "halted api st")
    case True
    then show ?thesis by (auto simp: roles_run_def)
  next
    case False
    then obtain st1 where s: "roles_step api st st1" by (auto simp: halted_def)
    with less step_decreases obtain st' where "roles_run api st1 st'" "halted api st'" by blast
    with s show ?thesis by (auto simp: roles_run_def intro: converse_rtranclp_into_rtranclp)
  qed
qed

lemma halted_facts:
  assumes "halted api st" and "\<not> rs_panic st"
  shows "rs_left st = []" and "\<not> rs_waiter st" and "rs_result st = None \<Longrightarrow> \<not> rs_done st \<and> rs_errs st = []"
proof -
  show l: "rs_left st = []"
  proof (rule ccontr)
    assume "rs_left st \<noteq> []"
    then have "hd (rs_left st) \<in> set (rs_left st)" by simp
    with assms thread_ends [OF assms(2) this] show False by (metis halted_def surj_pair)
  qed
  show "\<not> rs_waiter st" using assms l all_done by (metis halted_def)
  show "\<not> rs_done st \<and> rs_errs st = []" if "rs_result st = None"
    using assms that takes_done takes_err by (metis halted_def list.exhaust)
qed

text \<open>After the return the waiter can only panic.\<close>

definition returnedEarly :: "'w rolesState \<Rightarrow> bool" where
  "returnedEarly st \<longleftrightarrow> rs_panic st \<or> (rs_result st \<noteq> None \<and> rs_waiter st)"

lemma returned_step: "roles_step api st st' \<Longrightarrow> returnedEarly st \<Longrightarrow> returnedEarly st'"
  by (induction rule: roles_step.induct)
    (auto simp: returnedEarly_def endThread_def sendDone_def split: option.splits)

lemma returned_run: "roles_run api st st' \<Longrightarrow> returnedEarly st \<Longrightarrow> returnedEarly st'"
  unfolding roles_run_def by (induction rule: rtranclp_induct) (auto intro: returned_step)

text \<open>C39: When one of the three goroutines that create the cluster roles fails, the error can be
  returned before the others have ended; then, in every continuation, the process panics, since
  the last goroutine sends into a channel that the return has closed. A continuation always
  comes to an end.\<close>

theorem early_error_crashes:
  assumes "rs_result st = Some (Some err)" and "rs_waiter st"
  shows "(\<exists>st'. roles_run api st st' \<and> halted api st') \<and>
    (\<forall>st'. roles_run api st st' \<longrightarrow> halted api st' \<longrightarrow> rs_panic st')"
proof (intro conjI allI impI)
  show "\<exists>st'. roles_run api st st' \<and> halted api st'" by (rule run_halts)
  fix st' assume "roles_run api st st'" and h: "halted api st'"
  with returned_run assms have "returnedEarly st'" by (fastforce simp: returnedEarly_def)
  with halted_facts(2) [OF h] show "rs_panic st'" by (auto simp: returnedEarly_def)
qed

text \<open>A cluster that refuses the first role.\<close>

definition demoRefuses :: "memCluster rbacApi" where
  "demoRefuses = memRbac\<lparr>crCreate := \<lambda>n _ _ w. (if n = NocalhostDevRoleName then Some (OtherErr ''forbidden'') else None, w)\<rparr>"

theorem early_error_crashes_witness:
  "\<exists>st. roles_run demoRefuses (rolesStart demoShared) st \<and> rs_result st = Some (Some (OtherErr ''forbidden'')) \<and> rs_waiter st \<and>
     (\<forall>st'. roles_run demoRefuses st st' \<longrightarrow> halted demoRefuses st' \<longrightarrow> rs_panic st')"
proof -
  let ?err = "OtherErr ''forbidden''"
  let ?s0 = "rolesStart demoShared"
  let ?s1 = "endThread DevRole (Some ?err) demoShared ?s0"
  let ?s2 = "?s1\<lparr>rs_result := Some (Some ?err), rs_errs := []\<rparr>"
  have "createRoleOf demoRefuses DevRole demoShared = (Some ?err, demoShared)"
    by (simp add: CreateClusterRole_def demoRefuses_def)
  then have "roles_step demoRefuses ?s0 ?s1"
    by (intro thread_ends) (simp_all add: rolesStart_def)
  moreover have "roles_step demoRefuses ?s1 ?s2"
    by (rule takes_err) (simp_all add: rolesStart_def endThread_def)
  ultimately have run: "roles_run demoRefuses ?s0 ?s2" by (auto simp: roles_run_def)
  have s2: "rs_result ?s2 = Some (Some ?err)" "rs_waiter ?s2" by (simp_all add: rolesStart_def endThread_def)
  from run s2 early_error_crashes [OF s2, of demoRefuses] show ?thesis by blast
qed

subsection \<open>Without failures\<close>

definition noFailure :: "'w rbacApi \<Rightarrow> bool" where
  "noFailure api \<longleftrightarrow> (\<forall>t w. fst (createRoleOf api t w) = None)"

definition smooth :: "'w rolesState \<Rightarrow> bool" where
  "smooth st \<longleftrightarrow> \<not> rs_panic st \<and> rs_errs st = [] \<and> (rs_waiter st \<longrightarrow> rs_result st = None \<and> \<not> rs_done st) \<and>
     (rs_result st = None \<longrightarrow> rs_waiter st \<or> rs_done st) \<and> (\<forall>e. rs_result st \<noteq> Some (Some e))"

lemma smooth_step:
  assumes "noFailure api" and "roles_step api st st'" and "smooth st"
  shows "smooth st'"
  using assms(2)
proof cases
  case (thread_ends t e w)
  then have "e = None" using assms(1) by (metis noFailure_def fst_conv)
  with thread_ends assms(3) show ?thesis by (simp add: endThread_def smooth_def)
next
  case all_done
  with assms(3) show ?thesis by (auto simp: sendDone_def smooth_def)
next
  case (takes_err err errs)
  with assms(3) show ?thesis by (simp add: smooth_def)
next
  case takes_done
  with assms(3) show ?thesis by (auto simp: smooth_def)
qed

text \<open>If no creation fails, every schedule ends with all roles created and success returned.\<close>

theorem roles_created:
  assumes "noFailure api" and "roles_run api (rolesStart w) st" and "halted api st"
  shows "\<not> rs_panic st \<and> rs_left st = [] \<and> rs_result st = Some None"
proof -
  have "smooth (rolesStart w)" by (simp add: smooth_def rolesStart_def)
  with assms(2) have s: "smooth st"
    unfolding roles_run_def by (induction rule: rtranclp_induct) (auto intro: smooth_step [OF assms(1)])
  then have p: "\<not> rs_panic st" by (simp add: smooth_def)
  note h = halted_facts [OF assms(3) p]
  from s h have "rs_result st \<noteq> None" by (auto simp: smooth_def)
  with s p h(1) show ?thesis by (cases "rs_result st") (auto simp: smooth_def)
qed

subsection \<open>The schedule of the sequential model\<close>

lemma runRoles_run:
  assumes "runRoles api ts (rs_world st) = (es, w)" and "distinct ts" and "set ts \<subseteq> set (rs_left st)" and "distinct (rs_left st)"
    and "\<not> rs_panic st" and "rs_result st = None"
  shows "\<exists>st'. roles_run api st st' \<and> set (rs_left st') = set (rs_left st) - set ts \<and> rs_errs st' = rs_errs st @ es \<and>
    rs_world st' = w \<and> rs_waiter st' = rs_waiter st \<and> \<not> rs_panic st' \<and> rs_result st' = None"
  using assms
proof (induction ts arbitrary: st es)
  case Nil
  then show ?case by (auto simp: roles_run_def)
next
  case (Cons t ts)
  obtain e w1 where c: "createRoleOf api t (rs_world st) = (e, w1)" by (metis surj_pair)
  obtain es1 where r: "runRoles api ts w1 = (es1, w)" using Cons.prems(1) c by (auto split: prod.splits)
  let ?st = "endThread t e w1 st"
  have step: "roles_step api st ?st" using Cons.prems c by (intro thread_ends) auto
  have f: "rs_left ?st = remove1 t (rs_left st)" "rs_errs ?st = rs_errs st @ (case e of Some err \<Rightarrow> [err] | None \<Rightarrow> [])"
    "rs_world ?st = w1" "rs_waiter ?st = rs_waiter st" "rs_panic ?st = rs_panic st" "rs_result ?st = None"
    using Cons.prems by (auto simp: endThread_def split: option.splits)
  have es: "es = (case e of Some err \<Rightarrow> [err] | None \<Rightarrow> []) @ es1"
    using Cons.prems(1) c r by (auto split: option.splits)
  obtain st' where "roles_run api ?st st'" "set (rs_left st') = set (rs_left ?st) - set ts" "rs_errs st' = rs_errs ?st @ es1"
    "rs_world st' = w" "rs_waiter st' = rs_waiter ?st" "\<not> rs_panic st'" "rs_result st' = None"
    using Cons.IH [of ?st es1] Cons.prems r f by (auto simp: in_set_remove1)
  then show ?case using step f es Cons.prems(4)
    by (intro exI [of _ st']) (auto simp: roles_run_def intro: converse_rtranclp_into_rtranclp)
qed

text \<open>What \<open>createClusterAdminRoleINE\<close> of \<open>Rbac\<close> returns is the end of a run of the machine.\<close>

theorem sequential_schedule_is_a_run:
  assumes "distinct ord" and "set ord = {DevRole, CooperatorRole, ViewerRole}"
    and "createClusterAdminRoleINE ord takesErr api w = (r, w')"
  shows "\<exists>st. roles_run api (rolesStart w) st \<and> rs_result st = Some r \<and> rs_world st = w' \<and> \<not> rs_panic st"
proof -
  obtain es where es: "runRoles api ord w = (es, w')"
    using assms(3) by (auto simp: createClusterAdminRoleINE_def split: prod.splits list.splits)
  obtain st where st: "roles_run api (rolesStart w) st" "rs_left st = []" "rs_errs st = es" "rs_world st = w'"
    "rs_waiter st" "\<not> rs_panic st" "rs_result st = None"
    using runRoles_run [of api ord "rolesStart w" es w'] es assms(1,2) by (auto simp: rolesStart_def)
  let ?fin = "sendDone st"
  have d: "roles_step api st ?fin" using st by (intro all_done)
  have fin: "rs_done ?fin" "rs_errs ?fin = es" "rs_world ?fin = w'" "\<not> rs_panic ?fin" "rs_result ?fin = None"
    using st by (simp_all add: sendDone_def)
  show ?thesis
  proof (cases "es = [] \<or> \<not> takesErr")
    case True
    then have "r = None" using assms(3) es by (auto simp: createClusterAdminRoleINE_def split: list.splits)
    moreover have "roles_step api ?fin (?fin\<lparr>rs_result := Some None, rs_done := False\<rparr>)" using fin by (intro takes_done)
    ultimately show ?thesis using st(1) d fin
      by (intro exI [of _ "?fin\<lparr>rs_result := Some None, rs_done := False\<rparr>"]) (auto simp: roles_run_def)
  next
    case False
    then obtain err errs where e: "es = err # errs" by (cases es) auto
    then have "r = Some err" using False assms(3) es by (simp add: createClusterAdminRoleINE_def)
    moreover have "roles_step api ?fin (?fin\<lparr>rs_result := Some (Some err), rs_errs := errs\<rparr>)"
      using fin e by (intro takes_err) simp_all
    ultimately show ?thesis using st(1) d fin
      by (intro exI [of _ "?fin\<lparr>rs_result := Some (Some err), rs_errs := errs\<rparr>"]) (auto simp: roles_run_def)
  qed
qed

end
