(* ===== verification/DevSpace.thy ===== *)
theory DevSpace
  imports Coop
begin

text \<open>
  Dev spaces on the API server: who may modify one, sharing and unsharing it
  (\<open>src/pkg/nocalhost-api/app/api/v1/cluster_user\<close>: \<open>v2_update.go\<close>, \<open>common.go\<close>), the list of the dev
  spaces with the role of the current user in each (\<open>v2_list.go\<close>), and the kubeconfig of a user
  with the namespaces it opens (\<open>service_account/service_account.go\<close>).

  A handler is a function from the decoded request to the error of its response. The databases,
  the decoder of resource limits, the orders of walks over maps and the sorting of slices, which
  is not stable, are fields of \<open>spaceEnv\<close>.
\<close>

subsection \<open>Records\<close>

text \<open>Of the rows of the tables, the columns that the code below reads or writes.\<close>

record Header =
  hd_TraceKey :: string
  hd_TraceValue :: string
  hd_TraceType :: string

record ClusterUserModel =
  cu_ID :: nat
  cu_ApplicationId :: nat
  cu_UserId :: nat
  cu_SpaceName :: string
  cu_ClusterId :: nat
  cu_KubeConfig :: string
  cu_Memory :: nat
  cu_Cpu :: nat
  cu_SpaceResourceLimit :: string
  cu_Namespace :: string
  cu_Status :: "nat option"
  cu_ClusterAdmin :: "nat option"
  cu_Protected :: bool
  cu_IsBaseSpace :: bool
  cu_BaseDevSpaceId :: nat
  cu_TraceHeader :: Header

definition IsClusterAdmin :: "ClusterUserModel \<Rightarrow> bool" where
  "IsClusterAdmin cu \<longleftrightarrow> cu_ClusterAdmin cu \<noteq> None \<and> cu_ClusterAdmin cu \<noteq> Some 0"

record SpaceOwnType =
  sot_Str :: string
  sot_Priority :: int

definition DevSpaceOwnTypeOwner :: SpaceOwnType where
  "DevSpaceOwnTypeOwner = \<lparr>sot_Str = ''Owner'', sot_Priority = 1000\<rparr>"

definition DevSpaceOwnTypeCooperator :: SpaceOwnType where
  "DevSpaceOwnTypeCooperator = \<lparr>sot_Str = ''Cooperator'', sot_Priority = 100\<rparr>"

definition DevSpaceOwnTypeViewer :: SpaceOwnType where
  "DevSpaceOwnTypeViewer = \<lparr>sot_Str = ''Viewer'', sot_Priority = 10\<rparr>"

definition OwnTypeNone :: SpaceOwnType where
  "OwnTypeNone = \<lparr>sot_Str = ''None'', sot_Priority = 1\<rparr>"

record UserSimple =
  us_ID :: nat
  us_Name :: string
  us_Email :: string

record ClusterUserExt =
  ex_ClusterName :: string
  ex_SpaceType :: string
  ex_SpaceOwnType :: SpaceOwnType
  ex_ResourceLimitSet :: bool
  ex_CooperUser :: "UserSimple list"
  ex_ViewerUser :: "UserSimple list"
  ex_Owner :: "UserSimple option"
  ex_Modifiable :: bool
  ex_Deletable :: bool

record ClusterUserV2 =
  v2_ID :: nat
  v2_UserId :: nat
  v2_ClusterAdmin :: "nat option"
  v2_Namespace :: string
  v2_SpaceName :: string
  v2_ClusterId :: nat
  v2_IsBaseSpace :: bool
  v2_BaseDevSpaceId :: nat
  v2_SpaceResourceLimit :: string
  v2_Ext :: "ClusterUserExt option"

definition v2_IsClusterAdmin :: "ClusterUserV2 \<Rightarrow> bool" where
  "v2_IsClusterAdmin cu \<longleftrightarrow> v2_ClusterAdmin cu \<noteq> None \<and> v2_ClusterAdmin cu \<noteq> Some 0"

record SpaceResourceLimit =
  rl_SpaceReqMem :: string
  rl_SpaceReqCpu :: string
  rl_SpaceLimitsMem :: string
  rl_SpaceLimitsCpu :: string
  rl_SpaceLbCount :: string
  rl_SpacePvcCount :: string
  rl_SpaceStorageCapacity :: string
  rl_SpaceEphemeralStorage :: string
  rl_ContainerReqMem :: string
  rl_ContainerReqCpu :: string
  rl_ContainerLimitsMem :: string
  rl_ContainerLimitsCpu :: string
  rl_ContainerEphemeralStorage :: string

definition ResourceLimitIsSet :: "SpaceResourceLimit \<Rightarrow> bool" where
  "ResourceLimitIsSet srl \<longleftrightarrow>
     rl_SpaceReqMem srl \<noteq> [] \<or> rl_SpaceReqCpu srl \<noteq> [] \<or> rl_SpaceLimitsMem srl \<noteq> [] \<or>
     rl_SpaceLimitsCpu srl \<noteq> [] \<or> rl_SpaceLbCount srl \<noteq> [] \<or> rl_SpacePvcCount srl \<noteq> [] \<or>
     rl_SpaceStorageCapacity srl \<noteq> [] \<or> rl_SpaceEphemeralStorage srl \<noteq> [] \<or> rl_ContainerReqMem srl \<noteq> [] \<or>
     rl_ContainerReqCpu srl \<noteq> [] \<or> rl_ContainerLimitsMem srl \<noteq> [] \<or> rl_ContainerLimitsCpu srl \<noteq> [] \<or>
     rl_ContainerEphemeralStorage srl \<noteq> []"

definition limit_Validate :: "SpaceResourceLimit \<Rightarrow> bool" where
  "limit_Validate srl \<longleftrightarrow>
     \<not> (rl_SpaceReqMem srl \<noteq> [] \<and> rl_ContainerReqMem srl = [] \<or>
        rl_SpaceLimitsMem srl \<noteq> [] \<and> rl_ContainerLimitsMem srl = [] \<or>
        rl_SpaceReqCpu srl \<noteq> [] \<and> rl_ContainerReqCpu srl = [] \<or>
        rl_SpaceLimitsCpu srl \<noteq> [] \<and> rl_ContainerLimitsCpu srl = [])"

record clusterRecord =
  cr_ID :: nat
  cr_ClusterName :: string
  cr_UserId :: nat

record NS =
  ns_SpaceId :: nat
  ns_Namespace :: string
  ns_SpaceName :: string
  ns_SpaceOwnType :: string

record NamedContext =
  nc_Name :: string
  nc_Namespace :: string
  nc_Cluster :: string
  nc_AuthInfo :: string

record 'w spaceEnv = "'w svcEnv" +
  sp_devSpace :: "nat \<Rightarrow> gerr + ClusterUserModel"
  sp_creator :: "nat \<Rightarrow> gerr + nat"
  sp_isAdmin :: "nat \<Rightarrow> gerr + nat option"
  sp_nsOrder :: nsOrder
  sp_saOrder :: "clusterRoleBindingWatcher \<Rightarrow> string list"
  sp_arr :: "string set \<Rightarrow> string list"
  sp_userBySa :: "string \<Rightarrow> gerr + UserSimple"
  sp_userById :: "nat \<Rightarrow> gerr + UserSimple"
  sp_clusters :: "gerr + clusterRecord list"
  sp_limitOf :: "string \<Rightarrow> SpaceResourceLimit"
  sp_sortSpaces :: "(ClusterUserV2 \<Rightarrow> ClusterUserV2 \<Rightarrow> bool outcome) \<Rightarrow> ClusterUserV2 list \<Rightarrow> ClusterUserV2 list outcome"
  sp_sortNs :: "(NS \<Rightarrow> NS \<Rightarrow> bool) \<Rightarrow> NS list \<Rightarrow> NS list"
  sp_sortCtx :: "(NamedContext \<Rightarrow> NamedContext \<Rightarrow> bool) \<Rightarrow> NamedContext list \<Rightarrow> NamedContext list"
  sp_spaceOrder :: "(string \<rightharpoonup> ClusterUserV2) \<Rightarrow> string list"

subsection \<open>Permission to modify a dev space\<close>

definition HasModifyPermissionToSomeDevSpace ::
  "('w, 'z) spaceEnv_scheme \<Rightarrow> nsWatchers \<Rightarrow> nat \<Rightarrow> nat \<Rightarrow> errno + ClusterUserModel" where
  "HasModifyPermissionToSomeDevSpace ev nw userId devSpaceId =
     (case sp_devSpace ev devSpaceId of
        Inl _ \<Rightarrow> Inl ErrClusterUserNotFound
      | Inr devSpace \<Rightarrow>
          (case sp_creator ev (cu_ClusterId devSpace) of
             Inl _ \<Rightarrow> Inl ErrClusterNotFound
           | Inr creator \<Rightarrow>
               if list_ex (\<lambda>s. cu_Namespace devSpace = s) (AllCoopNs ev nw (sp_nsOrder ev) (cu_ClusterId devSpace) userId)
               then Inr devSpace
               else (case sp_isAdmin ev userId of
                       Inl err \<Rightarrow> Inl (ErrOther err)
                     | Inr isAdmin \<Rightarrow>
                         if isAdmin = Some 1 \<or> creator = userId \<or> cu_UserId devSpace = userId then Inr devSpace
                         else Inl ErrPermissionDenied)))"

definition LoginUserHasModifyPermissionToSomeDevSpace ::
  "('w, 'z) spaceEnv_scheme \<Rightarrow> nsWatchers \<Rightarrow> nat option \<Rightarrow> nat \<Rightarrow> errno + ClusterUserModel" where
  "LoginUserHasModifyPermissionToSomeDevSpace ev nw login devSpaceId =
     (case login of
        None \<Rightarrow> Inl ErrPermissionDenied
      | Some userId \<Rightarrow> HasModifyPermissionToSomeDevSpace ev nw userId devSpaceId)"

text \<open>\<open>ctxAdmin\<close> is the flag of the session.\<close>

definition HasPrivilegeToSomeDevSpace ::
  "('w, 'z) spaceEnv_scheme \<Rightarrow> nat option \<Rightarrow> bool \<Rightarrow> nat \<Rightarrow> errno + ClusterUserModel" where
  "HasPrivilegeToSomeDevSpace ev login ctxAdmin devSpaceId =
     (case sp_devSpace ev devSpaceId of
        Inl _ \<Rightarrow> Inl ErrClusterUserNotFound
      | Inr devSpace \<Rightarrow>
          (case sp_creator ev (cu_ClusterId devSpace) of
             Inl _ \<Rightarrow> Inl ErrClusterNotFound
           | Inr creator \<Rightarrow>
               (case login of
                  None \<Rightarrow> Inl ErrPermissionDenied
                | Some userId \<Rightarrow> if ctxAdmin \<or> creator = userId then Inr devSpace else Inl ErrPermissionDenied)))"

definition IsShareUsersOk :: "nat list \<Rightarrow> nat list \<Rightarrow> ClusterUserModel \<Rightarrow> bool" where
  "IsShareUsersOk cooperators viewers clusterUser = list_all (\<lambda>u. u \<noteq> cu_UserId clusterUser) (cooperators @ viewers)"

subsection \<open>Sharing\<close>

record ClusterUserShareRequest =
  shr_ClusterUserId :: nat
  shr_Cooperators :: "nat list"
  shr_Viewers :: "nat list"

record ClusterUserUnShareRequest =
  uns_ClusterUserId :: nat
  uns_Users :: "nat list"

text \<open>The errors of the single users are logged, and the response is without error.\<close>

definition Share ::
  "('w, 'z) spaceEnv_scheme \<Rightarrow> nsWatchers \<Rightarrow> nat option \<Rightarrow> gerr + ClusterUserShareRequest \<Rightarrow> 'w \<Rightarrow> errno option \<times> 'w" where
  "Share ev nw login body w =
     (case body of
        Inl _ \<Rightarrow> (Some ErrBind, w)
      | Inr params \<Rightarrow>
          (case LoginUserHasModifyPermissionToSomeDevSpace ev nw login (shr_ClusterUserId params) of
             Inl errn \<Rightarrow> (Some errn, w)
           | Inr cu \<Rightarrow>
               if \<not> IsShareUsersOk (shr_Cooperators params) (shr_Viewers params) cu then (Some ErrShareUserSameAsOwner, w)
               else (None,
                 if IsClusterAdmin cu then
                   fold (\<lambda>user w. snd (cluster_AsViewer ev (cu_ClusterId cu) (cu_UserId cu) user w)) (shr_Viewers params)
                     (fold (\<lambda>user w. snd (cluster_AsCooperator ev (cu_ClusterId cu) (cu_UserId cu) user w))
                        (shr_Cooperators params) w)
                 else
                   fold (\<lambda>user w. snd (ns_AsViewer ev (cu_ClusterId cu) user (cu_Namespace cu) w)) (shr_Viewers params)
                     (fold (\<lambda>user w. snd (ns_AsCooperator ev (cu_ClusterId cu) user (cu_Namespace cu) w))
                        (shr_Cooperators params) w))))"

definition UnShare ::
  "('w, 'z) spaceEnv_scheme \<Rightarrow> nsWatchers \<Rightarrow> nat option \<Rightarrow> gerr + ClusterUserUnShareRequest \<Rightarrow> 'w \<Rightarrow> errno option \<times> 'w" where
  "UnShare ev nw login body w =
     (case body of
        Inl _ \<Rightarrow> (Some ErrBind, w)
      | Inr params \<Rightarrow>
          (case LoginUserHasModifyPermissionToSomeDevSpace ev nw login (uns_ClusterUserId params) of
             Inl errn \<Rightarrow> (Some errn, w)
           | Inr cu \<Rightarrow>
               (None,
                if IsClusterAdmin cu then
                  fold (\<lambda>user w. snd (cluster_RemoveFromViewer ev (cu_ClusterId cu) (cu_UserId cu) user
                          (snd (cluster_RemoveFromCooperator ev (cu_ClusterId cu) (cu_UserId cu) user w))))
                    (uns_Users params) w
                else
                  fold (\<lambda>user w. snd (ns_RemoveFromCooperator ev (cu_ClusterId cu) user (cu_Namespace cu)
                          (snd (ns_RemoveFromViewer ev (cu_ClusterId cu) user (cu_Namespace cu) w))))
                    (uns_Users params) w)))"

subsection \<open>The list of dev spaces\<close>

definition usersOfSas :: "('w, 'z) spaceEnv_scheme \<Rightarrow> string list \<Rightarrow> UserSimple list" where
  "usersOfSas ev sas = List.map_filter (\<lambda>sa. case sp_userBySa ev sa of Inl _ \<Rightarrow> None | Inr u \<Rightarrow> Some u) sas"

definition ownTypeInCluster ::
  "('w, 'z) spaceEnv_scheme \<Rightarrow> clusterWatchers \<Rightarrow> nat \<Rightarrow> nat \<Rightarrow> ClusterUserV2 \<Rightarrow> SpaceOwnType" where
  "ownTypeInCluster ev cw clusterId currentUser cu =
     (if IsValidOwner ev cw clusterId currentUser then DevSpaceOwnTypeOwner
      else if IsCooperAs ev cw clusterId (v2_UserId cu) currentUser then DevSpaceOwnTypeCooperator
      else if IsViewerAs ev cw clusterId (v2_UserId cu) currentUser then DevSpaceOwnTypeViewer
      else OwnTypeNone)"

definition ownTypeInNs ::
  "('w, 'z) spaceEnv_scheme \<Rightarrow> nsWatchers \<Rightarrow> nat \<Rightarrow> nat \<Rightarrow> ClusterUserV2 \<Rightarrow> SpaceOwnType" where
  "ownTypeInNs ev nw clusterId currentUser cu =
     (if v2_Namespace cu \<in> set (AllOwnNs ev nw (sp_nsOrder ev) clusterId currentUser) then DevSpaceOwnTypeOwner
      else if v2_Namespace cu \<in> set (AllCoopNs ev nw (sp_nsOrder ev) clusterId currentUser) then DevSpaceOwnTypeCooperator
      else if v2_Namespace cu \<in> set (AllViewNs ev nw (sp_nsOrder ev) clusterId currentUser) then DevSpaceOwnTypeViewer
      else OwnTypeNone)"

definition fillExt ::
  "('w, 'z) spaceEnv_scheme \<Rightarrow> nsWatchers \<Rightarrow> clusterWatchers \<Rightarrow> nat \<Rightarrow> bool \<Rightarrow> clusterRecord \<Rightarrow> ClusterUserV2 \<Rightarrow>
     ClusterUserV2" where
  "fillExt ev nw cw currentUser isAdmin cluster cu =
     (let cid = cr_ID cluster in
      cu\<lparr>v2_Ext := Some
        \<lparr>ex_ClusterName = cr_ClusterName cluster,
         ex_SpaceType = (if v2_BaseDevSpaceId cu > 0 then ''MeshSpace'' else ''IsolateSpace''),
         ex_SpaceOwnType = (if v2_IsClusterAdmin cu then ownTypeInCluster ev cw cid currentUser cu
                            else ownTypeInNs ev nw cid currentUser cu),
         ex_ResourceLimitSet = ResourceLimitIsSet (sp_limitOf ev (v2_SpaceResourceLimit cu)),
         ex_CooperUser = usersOfSas ev (if v2_IsClusterAdmin cu then cluster_CoopSas (sp_arr ev) ev cw cid (v2_UserId cu)
                                        else ns_CoopSas (sp_arr ev) ev nw cid (v2_Namespace cu)),
         ex_ViewerUser = usersOfSas ev (if v2_IsClusterAdmin cu then cluster_ViewSas (sp_arr ev) ev cw cid (v2_UserId cu)
                                        else ns_ViewerSas (sp_arr ev) ev nw cid (v2_Namespace cu)),
         ex_Owner = (case sp_userById ev (v2_UserId cu) of Inl _ \<Rightarrow> None | Inr u \<Rightarrow> Some u),
         ex_Modifiable = (isAdmin \<or> v2_UserId cu = currentUser \<or> cr_UserId cluster = currentUser),
         ex_Deletable = (isAdmin \<or> cr_UserId cluster = currentUser)\<rparr>\<rparr>)"

text \<open>
  The groups share the dev spaces of the list by pointer, so a group is filled in place. A dev
  space whose cluster is not in the list stays without the extra fields.
\<close>

definition fillExtByUser ::
  "('w, 'z) spaceEnv_scheme \<Rightarrow> nsWatchers \<Rightarrow> clusterWatchers \<Rightarrow> nat \<Rightarrow> bool \<Rightarrow> ClusterUserV2 list \<Rightarrow>
     errno + ClusterUserV2 list" where
  "fillExtByUser ev nw cw currentUser isAdmin cus =
     (case sp_clusters ev of
        Inl _ \<Rightarrow> Inl ErrClusterNotFound
      | Inr clusters \<Rightarrow>
          Inr (fold (\<lambda>cluster. map (\<lambda>cu. if v2_ClusterId cu = cr_ID cluster
                                         then fillExt ev nw cw currentUser isAdmin cluster cu else cu)) clusters cus))"

definition nilDeref :: string where
  "nilDeref = ''invalid memory address or nil pointer dereference''"

definition spaceLess :: "ClusterUserV2 \<Rightarrow> ClusterUserV2 \<Rightarrow> bool outcome" where
  "spaceLess cu1 cu2 =
     (case (v2_ClusterAdmin cu1, v2_ClusterAdmin cu2) of
        (Some a1, Some a2) \<Rightarrow>
          if a1 > a2 then Ret True
          else if a1 < a2 then Ret False
          else (case (v2_Ext cu1, v2_Ext cu2) of
             (Some e1, Some e2) \<Rightarrow>
               let p1 = sot_Priority (ex_SpaceOwnType e1); p2 = sot_Priority (ex_SpaceOwnType e2) in
               Ret (if p1 > p2 then True
                    else if p1 < p2 then False
                    else if v2_ClusterId cu1 < v2_ClusterId cu2 then True
                    else if v2_ClusterId cu1 > v2_ClusterId cu2 then False
                    else if v2_UserId cu1 < v2_UserId cu2 then True
                    else if v2_UserId cu1 > v2_UserId cu2 then False
                    else v2_SpaceName cu1 < v2_SpaceName cu2)
           | _ \<Rightarrow> Panic nilDeref)
      | _ \<Rightarrow> Panic nilDeref)"

definition PipeLine ::
  "('w, 'z) spaceEnv_scheme \<Rightarrow> nsWatchers \<Rightarrow> clusterWatchers \<Rightarrow> nat \<Rightarrow> bool \<Rightarrow> ClusterUserV2 list \<Rightarrow>
     (errno + ClusterUserV2 list) outcome" where
  "PipeLine ev nw cw userId isAdmin cus =
     (case fillExtByUser ev nw cw userId isAdmin cus of
        Inl err \<Rightarrow> Ret (Inl err)
      | Inr filled \<Rightarrow>
          (case sp_sortSpaces ev spaceLess filled of Panic p \<Rightarrow> Panic p | Ret ordered \<Rightarrow> Ret (Inr ordered)))"

definition relatedToSomebody :: "('w, 'z) spaceEnv_scheme \<Rightarrow> nat \<Rightarrow> ClusterUserV2 \<Rightarrow> bool outcome" where
  "relatedToSomebody ev userId cu =
     (if v2_UserId cu = userId then Ret True
      else case v2_Ext cu of
          None \<Rightarrow> Panic nilDeref
        | Some ext \<Rightarrow>
            Ret (list_ex (\<lambda>u. us_ID u = userId) (ex_CooperUser ext) \<or> list_ex (\<lambda>u. us_ID u = userId) (ex_ViewerUser ext) \<or>
                 (case sp_creator ev (v2_ClusterId cu) of Inl _ \<Rightarrow> False | Inr creator \<Rightarrow> creator = userId)))"

definition isCanBeUsedAsBaseSpaceFun :: "ClusterUserV2 \<Rightarrow> bool outcome" where
  "isCanBeUsedAsBaseSpaceFun cu =
     (case v2_Ext cu of
        None \<Rightarrow> Panic nilDeref
      | Some ext \<Rightarrow> Ret (ex_SpaceType ext \<noteq> ''MeshSpace'' \<and> v2_IsBaseSpace cu))"

fun filterSpaces :: "(ClusterUserV2 \<Rightarrow> bool outcome) \<Rightarrow> ClusterUserV2 list \<Rightarrow> ClusterUserV2 list outcome" where
  "filterSpaces condition [] = Ret []"
| "filterSpaces condition (cu # cus) =
     (case condition cu of
        Panic p \<Rightarrow> Panic p
      | Ret b \<Rightarrow>
          (case filterSpaces condition cus of
             Panic p \<Rightarrow> Panic p
           | Ret rest \<Rightarrow> Ret (if b then cu # rest else rest)))"

text \<open>\<open>listed\<close> is what the database answers to the query.\<close>

definition DoList ::
  "('w, 'z) spaceEnv_scheme \<Rightarrow> nsWatchers \<Rightarrow> clusterWatchers \<Rightarrow> gerr + ClusterUserV2 list \<Rightarrow> nat \<Rightarrow> bool \<Rightarrow> bool \<Rightarrow>
     (errno + ClusterUserV2 list) outcome" where
  "DoList ev nw cw listed userId isAdmin isCanBeUsedAsBaseSpace =
     (case listed of
        Inl _ \<Rightarrow> Ret (Inl ErrClusterNotFound)
      | Inr cus \<Rightarrow>
          (case PipeLine ev nw cw userId isAdmin cus of
             Panic p \<Rightarrow> Panic p
           | Ret (Inl errn) \<Rightarrow> Ret (Inl errn)
           | Ret (Inr ordered) \<Rightarrow>
               (case (if isAdmin then Ret ordered else filterSpaces (relatedToSomebody ev userId) ordered) of
                  Panic p \<Rightarrow> Panic p
                | Ret mine \<Rightarrow>
                    if isCanBeUsedAsBaseSpace \<and> mine \<noteq> [] then
                      (case filterSpaces isCanBeUsedAsBaseSpaceFun mine of
                         Panic p \<Rightarrow> Panic p | Ret bases \<Rightarrow> Ret (Inr bases))
                    else Ret (Inr mine))))"

subsection \<open>The kubeconfig of a user\<close>

text \<open>
  The state of the loop over namespaces: the dev spaces not yet listed by namespace, the
  contexts, and the namespaces of the answer.
\<close>

record genState =
  gs_mapping :: "string \<rightharpoonup> ClusterUserV2"
  gs_contexts :: "NamedContext list"
  gs_nss :: "NS list"

definition devSpaceMapping :: "ClusterUserV2 list \<Rightarrow> string \<rightharpoonup> ClusterUserV2" where
  "devSpaceMapping cus =
     fold (\<lambda>cu m. if v2_IsClusterAdmin cu then m else m(v2_Namespace cu \<mapsto> cu)) cus Map.empty"

definition spaceContext :: "ClusterUserV2 \<Rightarrow> string" where
  "spaceContext cu = v2_SpaceName cu @ ''/'' @ v2_Namespace cu"

definition doForNamespace :: "string \<Rightarrow> string \<Rightarrow> SpaceOwnType \<Rightarrow> string \<Rightarrow> genState \<Rightarrow> genState" where
  "doForNamespace clusterName authInfo own ns st =
     (case gs_mapping st ns of
        None \<Rightarrow> st
      | Some cu \<Rightarrow>
          \<lparr>gs_mapping = map_delete ns (gs_mapping st),
           gs_contexts = gs_contexts st @ [\<lparr>nc_Name = spaceContext cu, nc_Namespace = ns, nc_Cluster = clusterName,
             nc_AuthInfo = authInfo\<rparr>],
           gs_nss = gs_nss st @ [\<lparr>ns_SpaceId = v2_ID cu, ns_Namespace = ns, ns_SpaceName = v2_SpaceName cu,
             ns_SpaceOwnType = sot_Str own\<rparr>]\<rparr>)"

definition doForNamespaces :: "string \<Rightarrow> string \<Rightarrow> string list \<Rightarrow> SpaceOwnType \<Rightarrow> genState \<Rightarrow> genState" where
  "doForNamespaces clusterName authInfo nss own st = fold (doForNamespace clusterName authInfo own) nss st"

datatype PrivilegeType = CLUSTER_ADMIN | CLUSTER_VIEWER | NO_PRIVILEGE

text \<open>The four rounds: own, cooperating and viewed namespaces, then the rest for a role in the cluster.\<close>

definition genNamespaces ::
  "('w, 'z) spaceEnv_scheme \<Rightarrow> roleBindingWatcher \<Rightarrow> clusterWatchers \<Rightarrow> nat \<Rightarrow> string \<Rightarrow> string \<Rightarrow> string \<Rightarrow>
     ClusterUserV2 list \<Rightarrow> PrivilegeType \<times> genState" where
  "genNamespaces ev watcher cw clusterId clusterName authInfo saName allDevSpace =
     (let go = doForNamespaces clusterName authInfo;
          st0 = \<lparr>gs_mapping = devSpaceMapping allDevSpace, gs_contexts = [], gs_nss = []\<rparr>;
          st1 = go (GetAllOwnNs (sp_nsOrder ev) saName watcher) DevSpaceOwnTypeOwner st0;
          st2 = go (GetAllCoopNs (sp_nsOrder ev) saName watcher) DevSpaceOwnTypeCooperator st1;
          st3 = go (GetAllViewNs (sp_nsOrder ev) saName watcher) DevSpaceOwnTypeViewer st2;
          remainNs = List.map_filter (\<lambda>k. map_option v2_Namespace (gs_mapping st3 k)) (sp_spaceOrder ev (gs_mapping st3))
      in if IsOwnerOfCluster ev cw clusterId saName then (CLUSTER_ADMIN, go remainNs DevSpaceOwnTypeOwner st3)
         else if IsCooperOfCluster ev cw (sp_saOrder ev) clusterId saName
           then (CLUSTER_ADMIN, go remainNs DevSpaceOwnTypeCooperator st3)
         else if IsViewerOfCluster ev cw (sp_saOrder ev) clusterId saName
           then (CLUSTER_VIEWER, go remainNs DevSpaceOwnTypeViewer st3)
         else (NO_PRIVILEGE, st3))"

definition nsLess :: "string \<Rightarrow> NS \<Rightarrow> NS \<Rightarrow> bool" where
  "nsLess specifyNameSpace a b =
     (if ns_Namespace a = specifyNameSpace then False
      else if ns_Namespace b = specifyNameSpace then True
      else ns_SpaceId a > ns_SpaceId b)"

text \<open>The answer to the callback: namespaces, privilege, contexts and the current context.\<close>

record genAnswer =
  ga_nss :: "NS list"
  ga_privilege :: PrivilegeType
  ga_contexts :: "NamedContext list"
  ga_current :: string

definition finishKubeconfig ::
  "('w, 'z) spaceEnv_scheme \<Rightarrow> string \<Rightarrow> string \<Rightarrow> string \<Rightarrow> PrivilegeType \<times> genState \<Rightarrow> genAnswer" where
  "finishKubeconfig ev specifyNameSpace clusterName authInfo r =
     (let p = fst r; st = snd r in
      if gs_nss st \<noteq> [] then
        let nss = sp_sortNs ev (nsLess specifyNameSpace) (gs_nss st)
        in \<lparr>ga_nss = nss, ga_privilege = p, ga_contexts = sp_sortCtx ev (\<lambda>a b. nc_Name a > nc_Name b) (gs_contexts st),
            ga_current = ns_SpaceName (last nss) @ ''/'' @ ns_Namespace (last nss)\<rparr>
      else if p \<noteq> NO_PRIVILEGE then
        \<lparr>ga_nss = [], ga_privilege = p,
         ga_contexts = gs_contexts st @ [\<lparr>nc_Name = ''default'', nc_Namespace = ''default'', nc_Cluster = clusterName,
           nc_AuthInfo = authInfo\<rparr>],
         ga_current = ''default''\<rparr>
      else \<lparr>ga_nss = [], ga_privilege = p, ga_contexts = gs_contexts st, ga_current = []\<rparr>)"

text \<open>
  \<open>clientConfig\<close> is the configuration of the client made from \<open>kubeConfig\<close>.
  \<open>reader\<close> is the reader of the account's token, which is nil after an error; it prints the
  kubeconfig, \<open>None\<close> when that is empty, and names the user. \<open>hostFound\<close> says that the host's
  kubeconfig has a current context that converts. \<open>None\<close> is a return without calling \<open>then\<close>.
\<close>

definition GenKubeconfig ::
  "('w, 'z) spaceEnv_scheme \<Rightarrow> nsWatchers \<Rightarrow> clusterWatchers \<Rightarrow> string \<Rightarrow> nat \<Rightarrow> string \<Rightarrow> string \<Rightarrow> string \<Rightarrow>
     gerr + string option \<Rightarrow> bool \<Rightarrow> ClusterUserV2 list \<Rightarrow> string \<Rightarrow> genAnswer option outcome" where
  "GenKubeconfig ev nw cw saName clusterId kubeConfig clientConfig clusterName reader hostFound allDevSpace specifyNameSpace =
     (case ev_client ev kubeConfig of
        Inl _ \<Rightarrow> Ret None
      | Inr _ \<Rightarrow>
          (case reader of
             Inl _ \<Rightarrow> Panic nilDeref
           | Inr None \<Rightarrow> Ret None
           | Inr (Some authInfo) \<Rightarrow>
               if \<not> hostFound then Ret None
               else Ret (Some (finishKubeconfig ev specifyNameSpace clusterName authInfo
                      (genNamespaces ev (nw clientConfig) cw clusterId clusterName authInfo saName allDevSpace)))))"

end
