(* ===== verification/CoopProps.thy ===== *)
theory CoopProps
  imports DevSpace RbacProps WatchProps "HOL-Library.List_Lexorder" "HOL-Library.Char_ord"
begin

text \<open>
  The watchers of role bindings and what rests on them: the cache of the watcher of a cluster
  follows its role bindings, which makes the watcher an instance of \<open>watcher_cache\<close>; the names of
  the cluster role bindings are read back; and the kubeconfig of a user lists every namespace
  once, under the strongest role.
\<close>

subsection \<open>The watcher of role bindings follows the cluster\<close>

text \<open>An object under its key: a role binding of that name and namespace.\<close>

definition rbChange :: "string \<Rightarrow> RoleBinding castObj option \<Rightarrow> bool" where
  "rbChange k v \<longleftrightarrow> (\<exists>ns name. nsOk ns \<and> name \<noteq> [] \<and> k = cmKey ns name \<and>
     (case v of None \<Rightarrow> True
      | Some obj \<Rightarrow> (case obj of CastFail _ \<Rightarrow> False | CastOk rb \<Rightarrow> rb_Name rb = name \<and> rb_Namespace rb = ns)))"

definition sasOf :: "RoleBinding castObj option \<Rightarrow> string set option" where
  "sasOf v = (case v of Some (CastOk rb) \<Rightarrow> Some (subjectNames rb) | _ \<Rightarrow> None)"

definition rbAgree :: "string \<Rightarrow> RoleBinding castObj option \<Rightarrow> roleBindingWatcher \<Rightarrow> bool" where
  "rbAgree k v w \<longleftrightarrow> (\<forall>ns. nsOk ns \<longrightarrow>
     (k = cmKey ns NocalhostViewerRoleBinding \<longrightarrow> rbw_viewerSas w ns = sasOf v) \<and>
     (k = cmKey ns NocalhostDefaultRoleBinding \<longrightarrow> rbw_adminSas w ns = sasOf v) \<and>
     (k = cmKey ns NocalhostCooperatorRoleBinding \<longrightarrow> rbw_cooperatorSas w ns = sasOf v))"

lemma cmKey_eq [simp]:
  assumes "nsOk ns" and "nsOk ns'"
  shows "cmKey ns a = cmKey ns' b \<longleftrightarrow> ns = ns' \<and> a = b"
proof
  assume e: "cmKey ns a = cmKey ns' b"
  have "index (cmKey ns a) ''/'' = Some (length ns)" "index (cmKey ns' b) ''/'' = Some (length ns')"
    using assms by (simp_all add: nsOk_def cmKey_def index_slash)
  with e have "length ns = length ns'" by simp
  with e show "ns = ns' \<and> a = b" by (simp add: cmKey_def)
qed simp

lemma binding_distinct [simp]:
  "NocalhostViewerRoleBinding \<noteq> NocalhostDefaultRoleBinding" "NocalhostDefaultRoleBinding \<noteq> NocalhostViewerRoleBinding"
  "NocalhostViewerRoleBinding \<noteq> NocalhostCooperatorRoleBinding" "NocalhostCooperatorRoleBinding \<noteq> NocalhostViewerRoleBinding"
  "NocalhostDefaultRoleBinding \<noteq> NocalhostCooperatorRoleBinding" "NocalhostCooperatorRoleBinding \<noteq> NocalhostDefaultRoleBinding"
  "NocalhostViewerRoleBinding \<noteq> []" "NocalhostDefaultRoleBinding \<noteq> []" "NocalhostCooperatorRoleBinding \<noteq> []"
  by (simp_all add: binding_names)

lemma rbAgree_key:
  "nsOk ns \<Longrightarrow> rbAgree (cmKey ns name) v w \<longleftrightarrow>
     (name = NocalhostViewerRoleBinding \<longrightarrow> rbw_viewerSas w ns = sasOf v) \<and>
     (name = NocalhostDefaultRoleBinding \<longrightarrow> rbw_adminSas w ns = sasOf v) \<and>
     (name = NocalhostCooperatorRoleBinding \<longrightarrow> rbw_cooperatorSas w ns = sasOf v)"
  by (auto simp: rbAgree_def)

lemma rbw_Delete_key:
  assumes "nsOk ns" and "name \<noteq> []"
  shows "rbw_Delete (cmKey ns name) w =
    (None, if name = NocalhostViewerRoleBinding then w\<lparr>rbw_viewerSas := map_delete ns (rbw_viewerSas w)\<rparr>
           else if name = NocalhostDefaultRoleBinding then w\<lparr>rbw_adminSas := map_delete ns (rbw_adminSas w)\<rparr>
           else if name = NocalhostCooperatorRoleBinding then
             w\<lparr>rbw_cooperatorSas := map_delete ns (rbw_cooperatorSas w)\<rparr>
           else w)"
  using assms by (simp add: rbw_Delete_def cmKey_def nsOk_def index_slash)

lemma rbChange_Some:
  "rbChange k (Some obj) \<longleftrightarrow> (\<exists>rb. obj = CastOk rb \<and> nsOk (rb_Namespace rb) \<and> rb_Name rb \<noteq> [] \<and>
     k = cmKey (rb_Namespace rb) (rb_Name rb))"
  by (cases obj) (auto simp: rbChange_def)

lemma rbChange_None: "rbChange k None \<longleftrightarrow> (\<exists>ns name. nsOk ns \<and> name \<noteq> [] \<and> k = cmKey ns name)"
  by (auto simp: rbChange_def)

lemma rbChange_key: "rbChange k v \<Longrightarrow> rbChange k None"
  by (auto simp: rbChange_def)

interpretation rb_watch: watcher_cache rbWatcher rbChange rbAgree
proof unfold_locales
  note defs = rbWatcher_def rbw_CreateOrUpdate_def rbw_join_def
  fix k j :: string and v :: "RoleBinding castObj option" and obj s
  show "rbChange k v \<Longrightarrow> rbChange k None" by (rule rbChange_key)
  show "fst (CreateOrUpdate rbWatcher k obj s) = None" if "rbChange k (Some obj)"
    using that by (auto simp: rbChange_Some defs)
  show "rbAgree k (Some obj) (snd (CreateOrUpdate rbWatcher k obj s))" if "rbChange k (Some obj)"
    using that by (auto simp: rbChange_Some defs rbAgree_key sasOf_def)
  show "rbAgree j v (snd (CreateOrUpdate rbWatcher k obj s)) = rbAgree j v s"
    if k: "rbChange k (Some obj)" and v: "rbChange j v" and "j \<noteq> k"
  proof -
    obtain ns name where j: "nsOk ns" "name \<noteq> []" "j = cmKey ns name" using rbChange_key [OF v] by (auto simp: rbChange_None)
    obtain rb where rb: "obj = CastOk rb" "nsOk (rb_Namespace rb)" "k = cmKey (rb_Namespace rb) (rb_Name rb)"
      using k by (auto simp: rbChange_Some)
    have "ns \<noteq> rb_Namespace rb \<or> name \<noteq> rb_Name rb" using that(3) j rb by auto
    then show ?thesis unfolding j(3) rb(1) rbAgree_key [OF j(1)] defs by auto
  qed
  show "fst (Delete_key rbWatcher k s) = None" if "rbChange k None"
    using that by (auto simp: rbChange_None rbWatcher_def rbw_Delete_key)
  show "rbAgree k None (snd (Delete_key rbWatcher k s))" if "rbChange k None"
    using that by (auto simp: rbChange_None rbWatcher_def rbw_Delete_key rbAgree_key sasOf_def)
  show "rbAgree j v (snd (Delete_key rbWatcher k s)) = rbAgree j v s"
    if k: "rbChange k None" and v: "rbChange j v" and "j \<noteq> k"
  proof -
    obtain ns name where j: "nsOk ns" "name \<noteq> []" "j = cmKey ns name" using rbChange_key [OF v] by (auto simp: rbChange_None)
    obtain ns' name' where k': "nsOk ns'" "name' \<noteq> []" "k = cmKey ns' name'" using k by (auto simp: rbChange_None)
    have "ns \<noteq> ns' \<or> name \<noteq> name'" using that(3) j k' by auto
    then show ?thesis
      unfolding j(3) k'(3) rbAgree_key [OF j(1)] by (auto simp: rbWatcher_def rbw_Delete_key [OF k'(1,2)])
  qed
qed

text \<open>The start of a watcher: nothing in its maps, and an event to come for every listed binding.\<close>

definition rbStart :: "(RoleBinding castObj, roleBindingWatcher) machineState \<Rightarrow> bool" where
  "rbStart m \<longleftrightarrow> ms_worker m = Idle \<and> ct_queue (ms_ctl m) = newQueue \<and> ct_watcher (ms_ctl m) = NewRoleBindingWatcher \<and>
     (\<forall>k obj. ct_indexer (ms_ctl m) k = Some obj \<longrightarrow> rbChange k (Some obj) \<and> k \<in> set (ms_pending m)) \<and>
     (\<forall>k\<in>set (ms_pending m). rbChange k None)"

lemma rbStart_inv: "rbStart m \<Longrightarrow> rb_watch.machine_inv m"
proof (rule rb_watch.start_inv)
  fix k assume m: "rbStart m" and k: "rbChange k None" "k \<notin> set (ms_pending m)"
  then have "ct_indexer (ms_ctl m) k = None" by (auto simp: rbStart_def) (meson not_None_eq)
  with m show "rbAgree k (ct_indexer (ms_ctl m) k) (ct_watcher (ms_ctl m))"
    by (simp add: rbStart_def rbAgree_def sasOf_def NewRoleBindingWatcher_def)
qed (auto simp: rbStart_def)

text \<open>The accounts that a role binding of the cluster binds.\<close>

definition boundIn :: "(string \<rightharpoonup> RoleBinding castObj) \<Rightarrow> string \<Rightarrow> string \<Rightarrow> string \<Rightarrow> bool" where
  "boundIn idx b ns saName \<longleftrightarrow> (\<exists>rb. idx (cmKey ns b) = Some (CastOk rb) \<and> saName \<in> subjectNames rb)"

lemma nsOfSa_iff:
  assumes "range_order m (order m)"
  shows "ns \<in> set (nsOfSa order m saName) \<longleftrightarrow> (\<exists>s. m ns = Some s \<and> saName \<in> s)"
  using range_order_member [OF assms] by (auto simp: nsOfSa_def split: option.splits)

text \<open>C5: However the changes of the role bindings, their events, the worker and its retries are
  interleaved, once the watcher is at rest the namespaces it names as owned, shared with or
  viewed by an account are exactly those in which the cluster has the account in the binding of
  that role, in alphabetical order.\<close>

theorem roles_follow_cluster:
  assumes start: "rbStart m0" and run: "ctl_run rbWatcher rbChange m0 m" and rest: "atRest m" and ns: "nsOk ns"
    and ord: "\<forall>f\<in>{rbw_adminSas, rbw_cooperatorSas, rbw_viewerSas}.
      range_order (f (ct_watcher (ms_ctl m))) (order (f (ct_watcher (ms_ctl m))))"
  shows "(ns \<in> set (GetAllOwnNs order saName (ct_watcher (ms_ctl m))) \<longleftrightarrow>
       boundIn (ct_indexer (ms_ctl m)) NocalhostDefaultRoleBinding ns saName) \<and>
    (ns \<in> set (GetAllCoopNs order saName (ct_watcher (ms_ctl m))) \<longleftrightarrow>
       boundIn (ct_indexer (ms_ctl m)) NocalhostCooperatorRoleBinding ns saName) \<and>
    (ns \<in> set (GetAllViewNs order saName (ct_watcher (ms_ctl m))) \<longleftrightarrow>
       boundIn (ct_indexer (ms_ctl m)) NocalhostViewerRoleBinding ns saName) \<and>
    sorted (GetAllCoopNs order saName (ct_watcher (ms_ctl m)))"
proof -
  let ?w = "ct_watcher (ms_ctl m)" and ?i = "ct_indexer (ms_ctl m)"
  have agree: "rbAgree (cmKey ns b) (?i (cmKey ns b)) ?w" if "b \<noteq> []" for b
    using rest ns that by (intro rb_watch.at_rest_agrees [OF run rbStart_inv [OF start]])
      (auto simp: atRest_def rbChange_None)
  have sas: "(\<exists>s. sasOf (?i (cmKey ns b)) = Some s \<and> saName \<in> s) \<longleftrightarrow> boundIn ?i b ns saName" for b
    by (auto simp: sasOf_def boundIn_def split: option.splits castObj.splits)
  show ?thesis
    using agree [of NocalhostDefaultRoleBinding] agree [of NocalhostCooperatorRoleBinding]
      agree [of NocalhostViewerRoleBinding] ns ord
    by (simp add: GetAllOwnNs_def GetAllCoopNs_def GetAllViewNs_def nsOfSa_iff rbAgree_key sas)
      (simp add: nsOfSa_def)
qed

definition demoBinding :: RoleBinding where
  "demoBinding = addSubject ''20220501100000'' ''sa-ann'' NocalhostDefaultSaNs
     (newBinding NocalhostCooperatorRoleBinding ''dev'' NocalhostCooperatorRoleName)"

definition demoNsOrder :: nsOrder where
  "demoNsOrder m = (if m ''dev'' = None then [] else [''dev''])"

text \<open>A cooperator is bound in a namespace.\<close>

theorem roles_follow_cluster_witness:
  "\<exists>m. ctl_run rbWatcher rbChange (machineAt Map.empty newQueue NewRoleBindingWatcher Idle []) m \<and>
    ''dev'' \<in> set (GetAllCoopNs demoNsOrder ''sa-ann'' (ct_watcher (ms_ctl m)))"
proof -
  let ?k = "cmKey ''dev'' NocalhostCooperatorRoleBinding"
  let ?start = "machineAt Map.empty newQueue NewRoleBindingWatcher Idle []"
  let ?w = "snd (rbw_join demoBinding NewRoleBindingWatcher)"
  let ?final = "machineAt [?k \<mapsto> CastOk demoBinding] newQueue ?w Idle []"
  have b: "rb_Name demoBinding = NocalhostCooperatorRoleBinding" "rb_Namespace demoBinding = ''dev''"
      "''sa-ann'' \<in> subjectNames demoBinding"
    by (simp_all add: demoBinding_def addSubject_def newBinding_def saSubject_def subjectNames_def)
  have ch: "rbChange ?k (Some (CastOk demoBinding))" using b by (simp add: rbChange_Some nsOk_def)
  have start: "rbStart ?start" by (simp add: rbStart_def machineAt_def)
  have run: "ctl_run rbWatcher rbChange ?start ?final"
    by (rule change_run [where change_ok = rbChange and k = ?k and v = "Some (CastOk demoBinding)", OF ch])
      (simp add: rbWatcher_def rbw_CreateOrUpdate_def rbw_join_def)
  have rest: "atRest ?final" by (simp add: atRest_def machineAt_def newQueue_def)
  have ord: "\<forall>f\<in>{rbw_adminSas, rbw_cooperatorSas, rbw_viewerSas}.
      range_order (f (ct_watcher (ms_ctl ?final))) (demoNsOrder (f (ct_watcher (ms_ctl ?final))))"
    using b by (simp add: machineAt_def rbw_join_def NewRoleBindingWatcher_def demoNsOrder_def range_order_def)
  have "''dev'' \<in> set (GetAllCoopNs demoNsOrder ''sa-ann'' (ct_watcher (ms_ctl ?final)))"
    using roles_follow_cluster [OF start run rest _ ord, of "''dev''" "''sa-ann''"] b
    by (simp add: nsOk_def boundIn_def machineAt_def)
  with run show ?thesis by blast
qed

subsection \<open>The namespaces of a kubeconfig\<close>

definition nsEntry :: "SpaceOwnType \<Rightarrow> string \<Rightarrow> ClusterUserV2 \<Rightarrow> NS" where
  "nsEntry own ns cu = \<lparr>ns_SpaceId = v2_ID cu, ns_Namespace = ns, ns_SpaceName = v2_SpaceName cu, ns_SpaceOwnType = sot_Str own\<rparr>"

text \<open>The invariant of the loop: what is listed is no longer in the mapping.\<close>

definition listedOnce :: "genState \<Rightarrow> bool" where
  "listedOnce st \<longleftrightarrow> distinct (map ns_Namespace (gs_nss st)) \<and> (\<forall>n\<in>set (gs_nss st). gs_mapping st (ns_Namespace n) = None)"

lemma doForNamespace_facts:
  "gs_mapping (doForNamespace cname auth own ns st) = map_delete ns (gs_mapping st)"
  "set (gs_nss (doForNamespace cname auth own ns st)) =
     set (gs_nss st) \<union> {nsEntry own ns cu |cu. gs_mapping st ns = Some cu}"
  "listedOnce st \<Longrightarrow> listedOnce (doForNamespace cname auth own ns st)"
  by (auto simp: doForNamespace_def nsEntry_def listedOnce_def fun_eq_iff split: option.splits)

lemma doForNamespaces_facts:
  "gs_mapping (doForNamespaces cname auth nss own st) = (gs_mapping st) |` (- set nss)"
  "set (gs_nss (doForNamespaces cname auth nss own st)) =
     set (gs_nss st) \<union> {nsEntry own ns cu |ns cu. ns \<in> set nss \<and> gs_mapping st ns = Some cu}"
  "listedOnce st \<Longrightarrow> listedOnce (doForNamespaces cname auth nss own st)"
proof (induction nss arbitrary: st)
  case (Cons ns nss)
  have step: "doForNamespaces cname auth (ns # nss) own st =
      doForNamespaces cname auth nss own (doForNamespace cname auth own ns st)" for st
    by (simp add: doForNamespaces_def)
  {
    case 1
    show ?case unfolding step Cons.IH(1) doForNamespace_facts by (auto simp: restrict_map_def fun_eq_iff)
  next
    case 2
    show ?case unfolding step Cons.IH(2) doForNamespace_facts by (auto split: if_splits)
  next
    case 3
    then show ?case unfolding step by (intro Cons.IH(3) doForNamespace_facts(3))
  }
qed (simp_all add: doForNamespaces_def restrict_map_def)

text \<open>The role of an account in a namespace, the reference: the first that applies.\<close>

definition clusterRole ::
  "('w, 'z) spaceEnv_scheme \<Rightarrow> clusterWatchers \<Rightarrow> nat \<Rightarrow> string \<Rightarrow> SpaceOwnType option" where
  "clusterRole ev cw clusterId saName =
     (if IsOwnerOfCluster ev cw clusterId saName then Some DevSpaceOwnTypeOwner
      else if IsCooperOfCluster ev cw (sp_saOrder ev) clusterId saName then Some DevSpaceOwnTypeCooperator
      else if IsViewerOfCluster ev cw (sp_saOrder ev) clusterId saName then Some DevSpaceOwnTypeViewer
      else None)"

definition strongestRole ::
  "('w, 'z) spaceEnv_scheme \<Rightarrow> roleBindingWatcher \<Rightarrow> clusterWatchers \<Rightarrow> nat \<Rightarrow> string \<Rightarrow> string \<Rightarrow> SpaceOwnType option" where
  "strongestRole ev watcher cw clusterId saName ns =
     (if ns \<in> set (GetAllOwnNs (sp_nsOrder ev) saName watcher) then Some DevSpaceOwnTypeOwner
      else if ns \<in> set (GetAllCoopNs (sp_nsOrder ev) saName watcher) then Some DevSpaceOwnTypeCooperator
      else if ns \<in> set (GetAllViewNs (sp_nsOrder ev) saName watcher) then Some DevSpaceOwnTypeViewer
      else clusterRole ev cw clusterId saName)"

lemma devSpaceMapping_key: "devSpaceMapping cus ns = Some cu \<Longrightarrow> v2_Namespace cu = ns"
proof -
  let ?P = "\<lambda>m :: string \<rightharpoonup> ClusterUserV2. \<forall>ns cu. m ns = Some cu \<longrightarrow> v2_Namespace cu = ns"
  have "?P (devSpaceMapping cus)"
    unfolding devSpaceMapping_def by (rule fold_invariant_set [where P = ?P]) simp_all
  then show "devSpaceMapping cus ns = Some cu \<Longrightarrow> v2_Namespace cu = ns" by blast
qed

lemma devSpaceMapping_finite: "finite (dom (devSpaceMapping cus))"
  unfolding devSpaceMapping_def by (rule fold_invariant_set [where P = "\<lambda>m. finite (dom m)"]) simp_all

lemma remaining_namespaces:
  assumes "range_order m ks" and "\<And>k cu. m k = Some cu \<Longrightarrow> v2_Namespace cu = k"
  shows "set (List.map_filter (\<lambda>k. map_option v2_Namespace (m k)) ks) = dom m"
proof -
  have "map_option v2_Namespace (m k) = (if k \<in> dom m then Some k else None)" for k
    using assms(2) by (cases "m k") auto
  then show ?thesis using assms(1) by (auto simp: range_order_def List.map_filter_def)
qed

lemma roles_split:
  "{e Ow ns cu |ns cu. ns \<in> Os \<and> m ns = Some cu} \<union> {e Co ns cu |ns cu. ns \<in> Cs - Os \<and> m ns = Some cu} \<union>
     {e Vi ns cu |ns cu. ns \<in> Vs - Os - Cs \<and> m ns = Some cu} \<union>
     {e own ns cu |own ns cu. ns \<notin> Os \<union> Cs \<union> Vs \<and> m ns = Some cu \<and> cr = Some own} =
   {e own ns cu |own ns cu. m ns = Some cu \<and>
     (if ns \<in> Os then Some Ow else if ns \<in> Cs then Some Co else if ns \<in> Vs then Some Vi else cr) = Some own}"
  by (intro set_eqI iffI; clarsimp split: if_splits; blast)

text \<open>C18: The namespaces that a user gets for a cluster are the dev spaces (of those with the same
  namespace name, the last) in which the user's account has a role, each listed once and under
  the strongest role: owner, cooperator or viewer of the namespace, or else its role in the
  whole cluster.\<close>

theorem strongest_role_listed:
  assumes gen: "genNamespaces ev watcher cw clusterId cname auth saName spaces = (p, st)"
    and ord: "\<forall>m. finite (dom m) \<longrightarrow> range_order m (sp_spaceOrder ev m)"
  shows "distinct (map ns_Namespace (gs_nss st)) \<and>
    (n \<in> set (gs_nss st) \<longleftrightarrow> (\<exists>ns cu own. devSpaceMapping spaces ns = Some cu \<and>
       strongestRole ev watcher cw clusterId saName ns = Some own \<and> n = nsEntry own ns cu))"
proof -
  let ?O = "GetAllOwnNs (sp_nsOrder ev) saName watcher" and ?C = "GetAllCoopNs (sp_nsOrder ev) saName watcher"
  let ?V = "GetAllViewNs (sp_nsOrder ev) saName watcher" and ?m = "devSpaceMapping spaces"
  define st0 where "st0 = \<lparr>gs_mapping = ?m, gs_contexts = [], gs_nss = []\<rparr>"
  define st1 where "st1 = doForNamespaces cname auth ?O DevSpaceOwnTypeOwner st0"
  define st2 where "st2 = doForNamespaces cname auth ?C DevSpaceOwnTypeCooperator st1"
  define st3 where "st3 = doForNamespaces cname auth ?V DevSpaceOwnTypeViewer st2"
  define rest where "rest = List.map_filter (\<lambda>k. map_option v2_Namespace (gs_mapping st3 k)) (sp_spaceOrder ev (gs_mapping st3))"
  have st: "st = (case clusterRole ev cw clusterId saName of
      None \<Rightarrow> st3 | Some own \<Rightarrow> doForNamespaces cname auth rest own st3)"
    using gen unfolding genNamespaces_def Let_def st0_def [symmetric] st1_def [symmetric] st2_def [symmetric]
      st3_def [symmetric] rest_def [symmetric] by (auto simp: clusterRole_def split: if_splits)
  have m3: "gs_mapping st3 = ?m |` (- (set ?O \<union> set ?C \<union> set ?V))"
    unfolding st3_def st2_def st1_def doForNamespaces_facts by (auto simp: st0_def restrict_map_def fun_eq_iff)
  have n3: "set (gs_nss st3) = {nsEntry DevSpaceOwnTypeOwner ns cu |ns cu. ns \<in> set ?O \<and> ?m ns = Some cu} \<union>
      {nsEntry DevSpaceOwnTypeCooperator ns cu |ns cu. ns \<in> set ?C - set ?O \<and> ?m ns = Some cu} \<union>
      {nsEntry DevSpaceOwnTypeViewer ns cu |ns cu. ns \<in> set ?V - set ?O - set ?C \<and> ?m ns = Some cu}"
    unfolding st3_def st2_def st1_def doForNamespaces_facts by (auto simp: st0_def restrict_map_def split: if_splits)
  have once3: "listedOnce st3"
    unfolding st3_def st2_def st1_def by (intro doForNamespaces_facts(3)) (simp add: st0_def listedOnce_def)
  have "finite (dom (gs_mapping st3))" using devSpaceMapping_finite [of spaces] by (simp add: m3)
  then have "range_order (gs_mapping st3) (sp_spaceOrder ev (gs_mapping st3))" using ord by blast
  then have rest: "set rest = dom (gs_mapping st3)"
    unfolding rest_def
    by (rule remaining_namespaces) (auto simp: m3 restrict_map_def dest: devSpaceMapping_key split: if_splits)
  have "listedOnce st" unfolding st using once3 by (auto intro: doForNamespaces_facts(3) split: option.splits)
  moreover have "set (gs_nss st) = {nsEntry own ns cu |own ns cu. ?m ns = Some cu \<and>
      strongestRole ev watcher cw clusterId saName ns = Some own}"
  proof -
    have "set (gs_nss st) = set (gs_nss st3) \<union> {nsEntry own ns cu |own ns cu. ns \<notin> set ?O \<union> set ?C \<union> set ?V \<and>
        ?m ns = Some cu \<and> clusterRole ev cw clusterId saName = Some own}"
    proof (cases "clusterRole ev cw clusterId saName")
      case None
      then show ?thesis by (simp add: st)
    next
      case (Some own)
      then have "set (gs_nss st) = set (gs_nss st3) \<union>
          {nsEntry own ns cu |ns cu. ns \<in> dom (gs_mapping st3) \<and> gs_mapping st3 ns = Some cu}"
        by (simp only: st option.case doForNamespaces_facts(2) rest)
      moreover have "(ns \<in> dom (gs_mapping st3) \<and> gs_mapping st3 ns = Some cu) \<longleftrightarrow>
          (ns \<notin> set ?O \<union> set ?C \<union> set ?V \<and> ?m ns = Some cu)" for ns cu
        by (auto simp: m3 restrict_map_def split: if_splits)
      ultimately show ?thesis by (simp only: Some option.inject) blast
    qed
    then show ?thesis unfolding n3 strongestRole_def roles_split .
  qed
  ultimately show ?thesis unfolding listedOnce_def by blast
qed

definition limitUnset :: SpaceResourceLimit where
  "limitUnset = \<lparr>rl_SpaceReqMem = [], rl_SpaceReqCpu = [], rl_SpaceLimitsMem = [], rl_SpaceLimitsCpu = [],
     rl_SpaceLbCount = [], rl_SpacePvcCount = [], rl_SpaceStorageCapacity = [], rl_SpaceEphemeralStorage = [],
     rl_ContainerReqMem = [], rl_ContainerReqCpu = [], rl_ContainerLimitsMem = [], rl_ContainerLimitsCpu = [],
     rl_ContainerEphemeralStorage = []\<rparr>"

definition demoSpaceEnv :: "memCluster spaceEnv" where
  "demoSpaceEnv = svcEnv.extend demoSvc
     \<lparr>sp_devSpace = \<lambda>_. Inl ''record not found'', sp_creator = \<lambda>_. Inr 5, sp_isAdmin = \<lambda>_. Inr None,
      sp_nsOrder = (\<lambda>m. sorted_list_of_set (dom m)), sp_saOrder = (\<lambda>m. sorted_list_of_set (dom m)),
      sp_arr = sorted_list_of_set, sp_userBySa = \<lambda>_. Inl ''record not found'',
      sp_userById = \<lambda>_. Inl ''record not found'', sp_clusters = Inr [], sp_limitOf = \<lambda>_. limitUnset,
      sp_sortSpaces = \<lambda>_ cus. Ret cus, sp_sortNs = \<lambda>_ nss. nss, sp_sortCtx = \<lambda>_ cs. cs,
      sp_spaceOrder = \<lambda>m. sorted_list_of_set (dom m)\<rparr>"

definition demoSpace :: "nat \<Rightarrow> string \<Rightarrow> ClusterUserV2" where
  "demoSpace i ns = \<lparr>v2_ID = i, v2_UserId = 5, v2_ClusterAdmin = None, v2_Namespace = ns, v2_SpaceName = ''space'',
     v2_ClusterId = 1, v2_IsBaseSpace = False, v2_BaseDevSpaceId = 0, v2_SpaceResourceLimit = [], v2_Ext = None\<rparr>"

text \<open>Bob shares the whole cluster with Ann, who views it and cooperates in one namespace.\<close>

definition demoClusters :: clusterWatchers where
  "demoClusters = (\<lambda>_. [''sa-bob'' \<mapsto> newSaContainer\<lparr>ssc_viewerSas := {''sa-ann''}\<rparr>])"

lemma demo_roles:
  "strongestRole demoSpaceEnv (snd (rbw_join demoBinding NewRoleBindingWatcher)) demoClusters 1 ''sa-ann'' ns =
     Some (if ns = ''dev'' then DevSpaceOwnTypeCooperator else DevSpaceOwnTypeViewer)"
  by (simp add: strongestRole_def clusterRole_def GetAllOwnNs_def GetAllCoopNs_def GetAllViewNs_def nsOfSa_def
      demoSpaceEnv_def svcEnv.extend_def demoSvc_def rbw_join_def demoBinding_def addSubject_def newBinding_def
      saSubject_def subjectNames_def NewRoleBindingWatcher_def IsOwnerOfCluster_def IsCooperOfCluster_def
      IsViewerOfCluster_def demoClusters_def newSaContainer_def)

theorem strongest_role_listed_witness:
  "\<exists>p st. genNamespaces demoSpaceEnv (snd (rbw_join demoBinding NewRoleBindingWatcher)) demoClusters 1
       ''test'' ''ann'' ''sa-ann'' [demoSpace 3 ''dev'', demoSpace 4 ''qa''] = (p, st) \<and>
     distinct (map ns_Namespace (gs_nss st)) \<and>
     nsEntry DevSpaceOwnTypeCooperator ''dev'' (demoSpace 3 ''dev'') \<in> set (gs_nss st) \<and>
     nsEntry DevSpaceOwnTypeViewer ''qa'' (demoSpace 4 ''qa'') \<in> set (gs_nss st)"
proof -
  let ?w = "snd (rbw_join demoBinding NewRoleBindingWatcher)"
  let ?spaces = "[demoSpace 3 ''dev'', demoSpace 4 ''qa'']"
  obtain p st where gen: "genNamespaces demoSpaceEnv ?w demoClusters 1 ''test'' ''ann'' ''sa-ann'' ?spaces = (p, st)"
    by (metis surj_pair)
  have ord: "\<forall>m. finite (dom m) \<longrightarrow> range_order m (sp_spaceOrder demoSpaceEnv m)"
    by (simp add: demoSpaceEnv_def svcEnv.extend_def range_order_def)
  have m: "devSpaceMapping ?spaces ''dev'' = Some (demoSpace 3 ''dev'')"
      "devSpaceMapping ?spaces ''qa'' = Some (demoSpace 4 ''qa'')"
    by (simp_all add: devSpaceMapping_def demoSpace_def v2_IsClusterAdmin_def)
  have listed: "nsEntry own ns cu \<in> set (gs_nss st)" if "devSpaceMapping ?spaces ns = Some cu"
      "strongestRole demoSpaceEnv ?w demoClusters 1 ''sa-ann'' ns = Some own" for ns cu own
    using that strongest_role_listed [OF gen ord, of "nsEntry own ns cu"] by blast
  have "distinct (map ns_Namespace (gs_nss st))" using strongest_role_listed [OF gen ord] by blast
  moreover have "nsEntry DevSpaceOwnTypeCooperator ''dev'' (demoSpace 3 ''dev'') \<in> set (gs_nss st)"
    by (rule listed [OF m(1)]) (simp del: One_nat_def add: demo_roles)
  moreover have "nsEntry DevSpaceOwnTypeViewer ''qa'' (demoSpace 4 ''qa'') \<in> set (gs_nss st)"
    by (rule listed [OF m(2)]) (simp del: One_nat_def add: demo_roles)
  ultimately show ?thesis using gen by blast
qed

end
