(* ===== verification/SpaceDb.thy ===== *)
theory SpaceDb
  imports DevSpace
begin

text \<open>
  The table of dev spaces and the cache in front of it
  (\<open>src/internal/nocalhost-api/repository/cluster_user\<close>,
  \<open>src/internal/nocalhost-api/service/cluster_user\<close>). The database is reached through the object
  mapper, whose calls are the fields of \<open>gormApi\<close>; the cache is a table of the process in which
  an item lives for five minutes after its last use, \<open>spaceCache\<close>. A dev space is cached under its
  id and under its cluster and namespace, and the whole list under a star.
\<close>

subsection \<open>The repository\<close>

text \<open>
  A row as a condition or as an update stands for its fields that are not zero. \<open>db_first\<close> is
  \<open>Where(&models).First\<close>, \<open>db_find\<close> is \<open>Where(&models).Find\<close> with the fixed order of the
  repository, whose error is not looked at, and \<open>db_like\<close> the same with a pattern for the name.
  \<open>db_update\<close> and \<open>db_kube\<close> return the number of rows they changed.
\<close>

record 'w gormApi =
  db_first :: "ClusterUserModel \<Rightarrow> 'w \<Rightarrow> gerr + ClusterUserModel"
  db_find :: "ClusterUserModel \<Rightarrow> 'w \<Rightarrow> ClusterUserModel list"
  db_like :: "ClusterUserModel \<Rightarrow> string \<Rightarrow> 'w \<Rightarrow> ClusterUserModel list"
  db_create :: "ClusterUserModel \<Rightarrow> 'w \<Rightarrow> (gerr + ClusterUserModel) \<times> 'w"
  db_update :: "nat \<Rightarrow> ClusterUserModel \<Rightarrow> 'w \<Rightarrow> nat \<times> 'w"
  db_kube :: "nat \<Rightarrow> string \<Rightarrow> 'w \<Rightarrow> nat \<times> 'w"
  db_delete :: "nat list \<Rightarrow> 'w \<Rightarrow> (nat \<times> gerr option) \<times> 'w"

definition zeroHeader :: Header where
  "zeroHeader = \<lparr>hd_TraceKey = [], hd_TraceValue = [], hd_TraceType = []\<rparr>"

definition zeroRow :: ClusterUserModel where
  "zeroRow =
     \<lparr>cu_ID = 0, cu_ApplicationId = 0, cu_UserId = 0, cu_SpaceName = [], cu_ClusterId = 0, cu_KubeConfig = [],
      cu_Memory = 0, cu_Cpu = 0, cu_SpaceResourceLimit = [], cu_Namespace = [], cu_Status = None,
      cu_ClusterAdmin = None, cu_Protected = False, cu_IsBaseSpace = False, cu_BaseDevSpaceId = 0,
      cu_TraceHeader = zeroHeader\<rparr>"

definition repo_GetFirst :: "'w gormApi \<Rightarrow> ClusterUserModel \<Rightarrow> 'w \<Rightarrow> gerr + ClusterUserModel" where
  "repo_GetFirst gm models w = db_first gm models w"

definition repo_GetList :: "'w gormApi \<Rightarrow> ClusterUserModel \<Rightarrow> 'w \<Rightarrow> gerr + ClusterUserModel list" where
  "repo_GetList gm models w =
     (let result = db_find gm models w
      in if length result > 0 then Inr result else Inl ''users cluster not found'')"

text \<open>The name is taken out of the condition, which the mapper reads when the query runs.\<close>

definition ListWithFuzzySpaceName :: "'w gormApi \<Rightarrow> ClusterUserModel \<Rightarrow> 'w \<Rightarrow> gerr + ClusterUserModel list" where
  "ListWithFuzzySpaceName gm models w =
     (let result = (if cu_SpaceName models \<noteq> []
                    then db_like gm (models\<lparr>cu_SpaceName := []\<rparr>) (''%'' @ cu_SpaceName models @ ''%'') w
                    else db_find gm models w)
      in if length result > 0 then Inr result else Inl ''users cluster not found'')"

definition repo_Create :: "'w gormApi \<Rightarrow> ClusterUserModel \<Rightarrow> 'w \<Rightarrow> (gerr + ClusterUserModel) \<times> 'w" where
  "repo_Create gm model w =
     (case db_create gm model w of
        (Inl err, w1) \<Rightarrow> (Inl (wrap ''[application_cluster_repo] create application_cluster error'' err), w1)
      | (Inr row, w1) \<Rightarrow> (Inr row, w1))"

text \<open>The row that must exist is any row of the user, not the one to be updated.\<close>

definition repo_Update :: "'w gormApi \<Rightarrow> ClusterUserModel \<Rightarrow> 'w \<Rightarrow> gerr option \<times> 'w" where
  "repo_Update gm models w =
     (case repo_GetFirst gm (zeroRow\<lparr>cu_ApplicationId := cu_ApplicationId models, cu_UserId := cu_UserId models\<rparr>) w of
        Inl err \<Rightarrow> (Some (wrap ''[clsuter_user_repo] get clsuter_user denied'' err), w)
      | Inr _ \<Rightarrow>
          (case db_update gm (cu_ID models) models w of (affectRow, w1) \<Rightarrow>
             if affectRow > 0 then (None, w1) else (Some ''update dev space err'', w1)))"

definition repo_UpdateKubeConfig :: "'w gormApi \<Rightarrow> ClusterUserModel \<Rightarrow> 'w \<Rightarrow> gerr option \<times> 'w" where
  "repo_UpdateKubeConfig gm models w =
     (case db_kube gm (cu_ID models) (cu_KubeConfig models) w of (affect, w1) \<Rightarrow>
        if affect > 0 then (None, w1) else (Some ''update fail'', w1))"

definition repo_BatchDelete :: "'w gormApi \<Rightarrow> nat list \<Rightarrow> 'w \<Rightarrow> gerr option \<times> 'w" where
  "repo_BatchDelete gm ids w =
     (case db_delete gm ids w of ((rows, err), w1) \<Rightarrow> if rows > 0 then (None, w1) else (err, w1))"

definition repo_Delete :: "'w gormApi \<Rightarrow> nat \<Rightarrow> 'w \<Rightarrow> gerr option \<times> 'w" where
  "repo_Delete gm i w =
     (case db_delete gm [i] w of ((rows, err), w1) \<Rightarrow> if rows > 0 then (None, w1) else (err, w1))"

subsection \<open>The cache\<close>

record spaceCache =
  sc_id :: "nat \<rightharpoonup> ClusterUserModel"
  sc_ns :: "string \<rightharpoonup> ClusterUserModel"
  sc_all :: "ClusterUserModel list option"

definition emptyCache :: spaceCache where
  "emptyCache = \<lparr>sc_id = Map.empty, sc_ns = Map.empty, sc_all = None\<rparr>"

text \<open>The state of a request: the cache of the process, and the world of database and clusters.\<close>

record 'w spaceWorld =
  sw_cache :: spaceCache
  sw_w :: 'w

definition onWorld :: "('w \<Rightarrow> 'a \<times> 'w) \<Rightarrow> 'w spaceWorld \<Rightarrow> 'a \<times> 'w spaceWorld" where
  "onWorld f st = (case f (sw_w st) of (r, w) \<Rightarrow> (r, st\<lparr>sw_w := w\<rparr>))"

definition keyForClusterAndNameSpace :: "nat \<Rightarrow> string \<Rightarrow> string" where
  "keyForClusterAndNameSpace clusterId namespace = ''A:'' @ itoa (int clusterId) @ ''-'' @ namespace"

definition rowKey :: "ClusterUserModel \<Rightarrow> string" where
  "rowKey cu = keyForClusterAndNameSpace (cu_ClusterId cu) (cu_Namespace cu)"

definition addRow :: "ClusterUserModel \<Rightarrow> spaceCache \<Rightarrow> spaceCache" where
  "addRow cu c = c\<lparr>sc_ns := (sc_ns c)(rowKey cu \<mapsto> cu), sc_id := (sc_id c)(cu_ID cu \<mapsto> cu)\<rparr>"

text \<open>The entry under cluster and namespace is found through the entry under the id.\<close>

definition Evict :: "nat \<Rightarrow> spaceCache \<Rightarrow> spaceCache" where
  "Evict i c =
     (case sc_id c i of
        Some cu \<Rightarrow> c\<lparr>sc_ns := map_delete (rowKey cu) (sc_ns c), sc_id := map_delete i (sc_id c), sc_all := None\<rparr>
      | None \<Rightarrow> c\<lparr>sc_all := None\<rparr>)"

definition evictIn :: "nat \<Rightarrow> 'w spaceWorld \<Rightarrow> 'w spaceWorld" where
  "evictIn i st = st\<lparr>sw_cache := Evict i (sw_cache st)\<rparr>"

subsection \<open>The service\<close>

definition GetAllCache :: "'w gormApi \<Rightarrow> 'w spaceWorld \<Rightarrow> ClusterUserModel list \<times> 'w spaceWorld" where
  "GetAllCache gm st =
     (case sc_all (sw_cache st) of
        Some cus \<Rightarrow> (cus, st)
      | None \<Rightarrow>
          (case repo_GetList gm zeroRow (sw_w st) of
             Inl _ \<Rightarrow> ([], st)
           | Inr cus \<Rightarrow> (cus, st\<lparr>sw_cache := fold addRow cus ((sw_cache st)\<lparr>sc_all := Some cus\<rparr>)\<rparr>)))"

definition GetCache :: "'w gormApi \<Rightarrow> nat \<Rightarrow> 'w spaceWorld \<Rightarrow> (gerr + ClusterUserModel) \<times> 'w spaceWorld" where
  "GetCache gm i st =
     (case sc_id (sw_cache st) i of
        Some cu \<Rightarrow> (Inr cu, st)
      | None \<Rightarrow>
          (case repo_GetFirst gm (zeroRow\<lparr>cu_ID := i\<rparr>) (sw_w st) of
             Inl err \<Rightarrow> (Inl (wrap ''GetCache users_cluster error'' err), st)
           | Inr cu \<Rightarrow> (Inr cu, st\<lparr>sw_cache := addRow cu (sw_cache st)\<rparr>)))"

definition GetCacheByClusterAndNameSpace ::
  "'w gormApi \<Rightarrow> nat \<Rightarrow> string \<Rightarrow> 'w spaceWorld \<Rightarrow> (gerr + ClusterUserModel) \<times> 'w spaceWorld" where
  "GetCacheByClusterAndNameSpace gm clusterId namespace st =
     (case sc_ns (sw_cache st) (keyForClusterAndNameSpace clusterId namespace) of
        Some cu \<Rightarrow> (Inr cu, st)
      | None \<Rightarrow>
          (case repo_GetFirst gm (zeroRow\<lparr>cu_ClusterId := clusterId, cu_Namespace := namespace\<rparr>) (sw_w st) of
             Inl err \<Rightarrow> (Inl (wrap ''GetCache users_cluster error'' err), st)
           | Inr cu \<Rightarrow> (Inr cu, st\<lparr>sw_cache := addRow cu (sw_cache st)\<rparr>)))"

definition toV2 :: "ClusterUserModel \<Rightarrow> ClusterUserV2" where
  "toV2 cu =
     \<lparr>v2_ID = cu_ID cu, v2_UserId = cu_UserId cu, v2_ClusterAdmin = cu_ClusterAdmin cu, v2_Namespace = cu_Namespace cu,
      v2_SpaceName = cu_SpaceName cu, v2_ClusterId = cu_ClusterId cu, v2_IsBaseSpace = cu_IsBaseSpace cu,
      v2_BaseDevSpaceId = cu_BaseDevSpaceId cu, v2_SpaceResourceLimit = cu_SpaceResourceLimit cu, v2_Ext = None\<rparr>"

definition ListV2 :: "'w gormApi \<Rightarrow> ClusterUserModel \<Rightarrow> 'w \<Rightarrow> gerr + ClusterUserV2 list" where
  "ListV2 gm models w =
     (case ListWithFuzzySpaceName gm models w of Inl err \<Rightarrow> Inl err | Inr cus \<Rightarrow> Inr (map toV2 cus))"

text \<open>Does not evict.\<close>

definition svc_UpdateKubeConfig :: "'w gormApi \<Rightarrow> ClusterUserModel \<Rightarrow> 'w spaceWorld \<Rightarrow> gerr option \<times> 'w spaceWorld" where
  "svc_UpdateKubeConfig gm models = onWorld (repo_UpdateKubeConfig gm models)"

definition svc_BatchDelete :: "'w gormApi \<Rightarrow> nat list \<Rightarrow> 'w spaceWorld \<Rightarrow> gerr option \<times> 'w spaceWorld" where
  "svc_BatchDelete gm ids st =
     (case onWorld (repo_BatchDelete gm ids) st of (r, st1) \<Rightarrow> (r, fold evictIn ids st1))"

definition svc_Delete :: "'w gormApi \<Rightarrow> nat \<Rightarrow> 'w spaceWorld \<Rightarrow> gerr option \<times> 'w spaceWorld" where
  "svc_Delete gm i st = (case onWorld (repo_Delete gm i) st of (r, st1) \<Rightarrow> (r, evictIn i st1))"

definition svc_Update :: "'w gormApi \<Rightarrow> ClusterUserModel \<Rightarrow> 'w spaceWorld \<Rightarrow> gerr option \<times> 'w spaceWorld" where
  "svc_Update gm models st =
     (case onWorld (repo_Update gm models) st of
        (Some err, st1) \<Rightarrow> (Some err, st1)
      | (None, st1) \<Rightarrow> (None, evictIn (cu_ID models) st1))"

definition svc_GetList :: "'w gormApi \<Rightarrow> ClusterUserModel \<Rightarrow> 'w spaceWorld \<Rightarrow> gerr + ClusterUserModel list" where
  "svc_GetList gm models st = repo_GetList gm models (sw_w st)"

definition svc_GetFirst :: "'w gormApi \<Rightarrow> ClusterUserModel \<Rightarrow> 'w spaceWorld \<Rightarrow> gerr + ClusterUserModel" where
  "svc_GetFirst gm models st =
     (case repo_GetFirst gm models (sw_w st) of
        Inl err \<Rightarrow> Inl (wrap ''GetFirst users_cluster error'' err)
      | Inr row \<Rightarrow> Inr row)"

definition createRow :: "'w gormApi \<Rightarrow> ClusterUserModel \<Rightarrow> 'w spaceWorld \<Rightarrow> (gerr + ClusterUserModel) \<times> 'w spaceWorld" where
  "createRow gm c st =
     (case onWorld (repo_Create gm c) st of
        (Inl err, st1) \<Rightarrow> (Inl (wrap ''create application_cluster'' err), st1)
      | (Inr row, st1) \<Rightarrow> (Inr row, evictIn (cu_ID row) st1))"

text \<open>The two numbers for memory and processor are arguments of the code and do not reach the row.\<close>

definition svc_Create ::
  "'w gormApi \<Rightarrow> nat \<Rightarrow> nat \<Rightarrow> nat \<Rightarrow> nat \<Rightarrow> string \<Rightarrow> string \<Rightarrow> string \<Rightarrow> string \<Rightarrow> bool \<Rightarrow> bool \<Rightarrow>
     'w spaceWorld \<Rightarrow> (gerr + ClusterUserModel) \<times> 'w spaceWorld" where
  "svc_Create gm clusterId userId memory cpu kubeConfig devNameSpace spaceName spaceResourceLimit isBaseName prot =
     createRow gm (zeroRow\<lparr>cu_ApplicationId := 0, cu_UserId := userId, cu_ClusterId := clusterId, cu_KubeConfig := kubeConfig,
       cu_Namespace := devNameSpace, cu_SpaceName := spaceName, cu_SpaceResourceLimit := spaceResourceLimit,
       cu_IsBaseSpace := isBaseName, cu_Protected := prot\<rparr>)"

definition CreateClusterAdminSpace ::
  "'w gormApi \<Rightarrow> nat \<Rightarrow> nat \<Rightarrow> string \<Rightarrow> 'w spaceWorld \<Rightarrow> (gerr + ClusterUserModel) \<times> 'w spaceWorld" where
  "CreateClusterAdminSpace gm clusterId userId spaceName =
     createRow gm (zeroRow\<lparr>cu_SpaceName := spaceName, cu_ClusterId := clusterId, cu_UserId := userId,
       cu_Namespace := ''*'', cu_ClusterAdmin := Some 1\<rparr>)"

end
