(* ===== verification/SpaceQuota.thy ===== *)
theory SpaceQuota
  imports DevSpace
begin

text \<open>
  The resource limits of a dev space: the format check of a request
  (\<open>src/pkg/nocalhost-api/app/api/v1/cluster_user/create.go\<close>) and the quota and limit range in the
  cluster (\<open>clientgo/client.go\<close>, \<open>setupcluster/clusterdevs.go\<close>). A quantity is kept as the text it is
  parsed from; \<open>quantityOk\<close> says which texts the parser of quantities accepts, and \<open>MustParse\<close>
  panics on the others.
\<close>

subsection \<open>The format check\<close>

text \<open>An optional sign and then one or more characters of a class: \<open>[+-]?[class]+\<close>.\<close>

definition signedOf :: "(char \<Rightarrow> bool) \<Rightarrow> string \<Rightarrow> bool" where
  "signedOf ok s =
     (let t = (case s of c # cs \<Rightarrow> if c = CHR ''+'' \<or> c = CHR ''-'' then cs else s | [] \<Rightarrow> [])
      in t \<noteq> [] \<and> list_all ok t)"

definition digitOrDot :: "char \<Rightarrow> bool" where
  "digitOrDot c \<longleftrightarrow> isDigitByte c \<or> c = CHR ''.''"

definition withUnit :: "string \<Rightarrow> string \<Rightarrow> bool" where
  "withUnit unit s \<longleftrightarrow> hasSuffix s unit \<and> signedOf digitOrDot (take (length s - length unit) s)"

definition regMem :: "string \<Rightarrow> bool" where "regMem = withUnit ''Mi''"
definition regCpu :: "string \<Rightarrow> bool" where "regCpu = signedOf digitOrDot"
definition regStorage :: "string \<Rightarrow> bool" where "regStorage = withUnit ''Gi''"
definition numReg :: "string \<Rightarrow> bool" where "numReg = signedOf isDigitByte"

definition appendWhileMatch :: "string \<Rightarrow> string \<Rightarrow> (string \<Rightarrow> bool) \<Rightarrow> string list \<Rightarrow> string list" where
  "appendWhileMatch val key reg l = (if length val > 0 \<and> \<not> reg val then l @ [key] else l)"

definition limitMessages :: "SpaceResourceLimit \<Rightarrow> string list" where
  "limitMessages r =
     (appendWhileMatch (rl_ContainerLimitsCpu r) ''container_limits_cpu'' regCpu \<circ>
      appendWhileMatch (rl_ContainerLimitsMem r) ''container_limits_mem'' regMem \<circ>
      appendWhileMatch (rl_ContainerReqCpu r) ''container_req_cpu'' regCpu \<circ>
      appendWhileMatch (rl_ContainerReqMem r) ''container_req_mem'' regMem \<circ>
      appendWhileMatch (rl_SpaceStorageCapacity r) ''space_storage_capacity'' regStorage \<circ>
      appendWhileMatch (rl_SpacePvcCount r) ''space_pvc_count'' numReg \<circ>
      appendWhileMatch (rl_SpaceLbCount r) ''space_lb_count'' numReg \<circ>
      appendWhileMatch (rl_SpaceLimitsCpu r) ''space_limits_cpu'' regCpu \<circ>
      appendWhileMatch (rl_SpaceReqCpu r) ''space_req_cpu'' regCpu \<circ>
      appendWhileMatch (rl_SpaceLimitsMem r) ''space_limits_mem'' regMem \<circ>
      appendWhileMatch (rl_SpaceReqMem r) ''space_req_mem'' regMem) []"

definition ValidSpaceResourceLimit :: "SpaceResourceLimit \<Rightarrow> bool \<times> string" where
  "ValidSpaceResourceLimit r =
     (let message = limitMessages r in (if length message > 0 then False else True, join message '',''))"

subsection \<open>Quotas and limit ranges\<close>

text \<open>\<open>list[name] = resource.MustParse(text)\<close> for a text that is not empty.\<close>

fun parseLimits :: "(string \<Rightarrow> bool) \<Rightarrow> (string \<times> string) list \<Rightarrow> (string \<rightharpoonup> string) \<Rightarrow> (string \<rightharpoonup> string) outcome" where
  "parseLimits quantityOk [] m = Ret m"
| "parseLimits quantityOk ((name, val) # rest) m =
     (if length val > 0 then
        if quantityOk val then parseLimits quantityOk rest (m(name \<mapsto> val))
        else Panic (''cannot parse '' @ val)
      else parseLimits quantityOk rest m)"

text \<open>The map is empty exactly when no text was given.\<close>

definition noLimits :: "(string \<times> string) list \<Rightarrow> bool" where
  "noLimits kvs \<longleftrightarrow> list_all (\<lambda>(_, val). val = []) kvs"

definition quotaTexts :: "SpaceResourceLimit \<Rightarrow> (string \<times> string) list" where
  "quotaTexts r =
     [(''requests.memory'', rl_SpaceReqMem r), (''requests.cpu'', rl_SpaceReqCpu r),
      (''limits.memory'', rl_SpaceLimitsMem r), (''limits.cpu'', rl_SpaceLimitsCpu r),
      (''requests.storage'', rl_SpaceStorageCapacity r), (''ephemeral-storage'', rl_SpaceEphemeralStorage r),
      (''persistentvolumeclaims'', rl_SpacePvcCount r), (''services.loadbalancers'', rl_SpaceLbCount r)]"

definition CreateResourceQuota ::
  "(string \<Rightarrow> bool) \<Rightarrow> 'w rbacApi \<Rightarrow> string \<Rightarrow> string \<Rightarrow> SpaceResourceLimit \<Rightarrow> 'w \<Rightarrow> (bool \<times> apierr option) outcome \<times> 'w" where
  "CreateResourceQuota quantityOk api name ns r w =
     (case parseLimits quantityOk (quotaTexts r) Map.empty of
        Panic p \<Rightarrow> (Panic p, w)
      | Ret resourceList \<Rightarrow>
          if noLimits (quotaTexts r) then (Ret (True, None), w)
          else (case quotaCreate api ns name resourceList w of
                  (Some err, w1) \<Rightarrow> (Ret (False, Some err), w1)
                | (None, w1) \<Rightarrow> (Ret (True, None), w1)))"

definition DeleteResourceQuota :: "'w rbacApi \<Rightarrow> string \<Rightarrow> string \<Rightarrow> 'w \<Rightarrow> (bool \<times> apierr option) \<times> 'w" where
  "DeleteResourceQuota api name ns w =
     (case quotaDelete api ns name w of
        (Some err, w1) \<Rightarrow> ((False, Some err), w1)
      | (None, w1) \<Rightarrow> ((True, None), w1))"

definition limitTexts :: "SpaceResourceLimit \<Rightarrow> (string \<times> string) list" where
  "limitTexts r =
     [(''memory'', rl_ContainerLimitsMem r), (''cpu'', rl_ContainerLimitsCpu r),
      (''ephemeral-storage'', rl_ContainerEphemeralStorage r)]"

definition requestTexts :: "SpaceResourceLimit \<Rightarrow> (string \<times> string) list" where
  "requestTexts r = [(''memory'', rl_ContainerReqMem r), (''cpu'', rl_ContainerReqCpu r)]"

definition CreateLimitRange ::
  "(string \<Rightarrow> bool) \<Rightarrow> 'w rbacApi \<Rightarrow> string \<Rightarrow> string \<Rightarrow> SpaceResourceLimit \<Rightarrow> 'w \<Rightarrow> (bool \<times> apierr option) outcome \<times> 'w" where
  "CreateLimitRange quantityOk api name ns r w =
     (case parseLimits quantityOk (limitTexts r) Map.empty of
        Panic p \<Rightarrow> (Panic p, w)
      | Ret limits \<Rightarrow>
          (case parseLimits quantityOk (requestTexts r) Map.empty of
             Panic p \<Rightarrow> (Panic p, w)
           | Ret requests \<Rightarrow>
               if noLimits (limitTexts r) \<and> noLimits (requestTexts r) then (Ret (True, None), w)
               else (case limitCreate api ns name limits requests w of
                       (Some err, w1) \<Rightarrow> (Ret (False, Some err), w1)
                     | (None, w1) \<Rightarrow> (Ret (True, None), w1))))"

definition DeleteLimitRange :: "'w rbacApi \<Rightarrow> string \<Rightarrow> string \<Rightarrow> 'w \<Rightarrow> (bool \<times> apierr option) \<times> 'w" where
  "DeleteLimitRange api name ns w =
     (case limitDelete api ns name w of
        (Some err, w1) \<Rightarrow> ((False, Some err), w1)
      | (None, w1) \<Rightarrow> ((True, None), w1))"

subsection \<open>The set-up of a dev space\<close>

text \<open>The last error of the chained calls; nobody reads it.\<close>

datatype setUpErr = ErrCreateResourceQuota | ErrDeleteResourceQuota | ErrCreateLimitRange | ErrDeleteLimitRange

record clusterDevsSetUp =
  su_err :: "apierr option"
  su_errCode :: "setUpErr option"

definition NewClusterDevsSetUp :: clusterDevsSetUp where
  "NewClusterDevsSetUp = \<lparr>su_err = None, su_errCode = None\<rparr>"

definition noteErr :: "setUpErr \<Rightarrow> apierr option \<Rightarrow> clusterDevsSetUp \<Rightarrow> clusterDevsSetUp" where
  "noteErr code err c = (case err of None \<Rightarrow> c | Some e \<Rightarrow> c\<lparr>su_err := Some e, su_errCode := Some code\<rparr>)"

definition su_CreateResourceQuota ::
  "(string \<Rightarrow> bool) \<Rightarrow> 'w rbacApi \<Rightarrow> string \<Rightarrow> string \<Rightarrow> SpaceResourceLimit \<Rightarrow> clusterDevsSetUp \<Rightarrow> 'w \<Rightarrow>
     clusterDevsSetUp outcome \<times> 'w" where
  "su_CreateResourceQuota quantityOk api name ns r c w =
     (case CreateResourceQuota quantityOk api name ns r w of
        (Panic p, w1) \<Rightarrow> (Panic p, w1)
      | (Ret (_, err), w1) \<Rightarrow> (Ret (noteErr ErrCreateResourceQuota err c), w1))"

definition su_DeleteResourceQuota ::
  "'w rbacApi \<Rightarrow> string \<Rightarrow> string \<Rightarrow> clusterDevsSetUp \<Rightarrow> 'w \<Rightarrow> clusterDevsSetUp \<times> 'w" where
  "su_DeleteResourceQuota api name ns c w =
     (case DeleteResourceQuota api name ns w of ((_, err), w1) \<Rightarrow> (noteErr ErrDeleteResourceQuota err c, w1))"

definition su_CreateLimitRange ::
  "(string \<Rightarrow> bool) \<Rightarrow> 'w rbacApi \<Rightarrow> string \<Rightarrow> string \<Rightarrow> SpaceResourceLimit \<Rightarrow> clusterDevsSetUp \<Rightarrow> 'w \<Rightarrow>
     clusterDevsSetUp outcome \<times> 'w" where
  "su_CreateLimitRange quantityOk api name ns r c w =
     (case CreateLimitRange quantityOk api name ns r w of
        (Panic p, w1) \<Rightarrow> (Panic p, w1)
      | (Ret (_, err), w1) \<Rightarrow> (Ret (noteErr ErrCreateLimitRange err c), w1))"

definition su_DeleteLimitRange ::
  "'w rbacApi \<Rightarrow> string \<Rightarrow> string \<Rightarrow> clusterDevsSetUp \<Rightarrow> 'w \<Rightarrow> clusterDevsSetUp \<times> 'w" where
  "su_DeleteLimitRange api name ns c w =
     (case DeleteLimitRange api name ns w of ((_, err), w1) \<Rightarrow> (noteErr ErrDeleteLimitRange err c, w1))"

text \<open>Quota, then limit range, as creation and update of a dev space call them.\<close>

definition createLimits ::
  "(string \<Rightarrow> bool) \<Rightarrow> 'w rbacApi \<Rightarrow> string \<Rightarrow> SpaceResourceLimit \<Rightarrow> clusterDevsSetUp \<Rightarrow> 'w \<Rightarrow> unit outcome \<times> 'w" where
  "createLimits quantityOk api ns r c w =
     (case su_CreateResourceQuota quantityOk api (''rq-'' @ ns) ns r c w of
        (Panic p, w1) \<Rightarrow> (Panic p, w1)
      | (Ret c1, w1) \<Rightarrow>
          (case su_CreateLimitRange quantityOk api (''lr-'' @ ns) ns r c1 w1 of
             (Panic p, w2) \<Rightarrow> (Panic p, w2)
           | (Ret _, w2) \<Rightarrow> (Ret (), w2)))"

end
