(* ===== verification/SpaceLife.thy ===== *)
theory SpaceLife
  imports SpaceDb SpaceQuota
begin

text \<open>
  The life of a dev space on the API server: creation, deletion, re-creation and updates
  (\<open>src/pkg/nocalhost-api/app/api/v1/cluster_user\<close>, files \<open>dev_space.go\<close>, \<open>create.go\<close>, \<open>delete.go\<close>,
  \<open>update.go\<close>, \<open>cluster_user.go\<close> and \<open>common.go\<close>). A step may fail with an error or panic; what it has done
  before stays done, so the state is returned in all three cases. The mesh manager is the four
  operations of \<open>lifeEnv\<close> that take a \<open>MeshDevInfo\<close>; its private bookkeeping there is part of
  the world.
\<close>

subsection \<open>Requests\<close>

record MeshDevWorkload =
  mw_Kind :: string
  mw_Name :: string
  mw_Status :: int

record MeshDevApp =
  ma_Name :: string
  ma_Workloads :: "MeshDevWorkload list"

record MeshDevInfo =
  mi_BaseNamespace :: string
  mi_MeshDevNamespace :: string
  mi_IsUpdateHeader :: bool
  mi_Header :: Header
  mi_Apps :: "MeshDevApp list"
  mi_ReCreate :: bool

record ClusterUserCreateRequest =
  rq_ID :: "nat option"
  rq_ClusterId :: "nat option"
  rq_UserId :: "nat option"
  rq_SpaceName :: string
  rq_Memory :: "nat option"
  rq_Cpu :: "nat option"
  rq_ApplicationId :: "nat option"
  rq_ClusterAdmin :: "nat option"
  rq_NameSpace :: string
  rq_SpaceResourceLimit :: "SpaceResourceLimit option"
  rq_BaseDevSpaceId :: nat
  rq_MeshDevInfo :: "MeshDevInfo option"
  rq_IsBaseSpace :: bool
  rq_Protected :: bool

record userRec =
  ur_ID :: nat
  ur_Name :: string

record clusterModel =
  cl_ID :: nat
  cl_Name :: string
  cl_KubeConfig :: string

text \<open>
  The rest of what a request finds outside: the database, the users and clusters of the other
  tables, which errors of a new client are errors of the package \<open>errno\<close>, the parser of
  quantities, the rule for DNS labels, the printer of limits, the random numbers of the \<open>n\<close>-th call, and the
  mesh manager of a kubeconfig.
\<close>

record 'w lifeEnv = "'w spaceEnv" +
  le_gorm :: "'w gormApi"
  le_user :: "nat \<Rightarrow> gerr + userRec"
  le_clusterGet :: "nat \<Rightarrow> gerr + clusterModel"
  le_adminErr :: "gerr \<Rightarrow> errno option"
  le_quantityOk :: "string \<Rightarrow> bool"
  le_dnsLabel :: "string \<Rightarrow> bool"
  le_limitText :: "SpaceResourceLimit \<Rightarrow> string"
  le_letters :: "nat \<Rightarrow> nat list"
  le_insertAppUser :: "nat \<Rightarrow> nat list \<Rightarrow> 'w \<Rightarrow> gerr option \<times> 'w"
  le_manager :: "string \<Rightarrow> 'w \<Rightarrow> gerr option \<times> 'w"
  le_InitMeshDevSpace :: "string \<Rightarrow> MeshDevInfo \<Rightarrow> 'w \<Rightarrow> (gerr option \<times> MeshDevInfo) \<times> 'w"
  le_UpdateMeshDevSpace :: "string \<Rightarrow> MeshDevInfo \<Rightarrow> 'w \<Rightarrow> (gerr option \<times> MeshDevInfo) \<times> 'w"
  le_DeleteTracingHeader :: "string \<Rightarrow> MeshDevInfo \<Rightarrow> 'w \<Rightarrow> (gerr option \<times> MeshDevInfo) \<times> 'w"
  le_Rollback :: "string \<Rightarrow> MeshDevInfo \<Rightarrow> 'w \<Rightarrow> (gerr option \<times> MeshDevInfo) \<times> 'w"

type_synonym ('a, 'w) lifeStep = "(errno + 'a) outcome \<times> 'w spaceWorld"

definition andThen :: "('a, 'w) lifeStep \<Rightarrow> ('a \<Rightarrow> 'w spaceWorld \<Rightarrow> ('b, 'w) lifeStep) \<Rightarrow> ('b, 'w) lifeStep" where
  "andThen r f =
     (case r of
        (Panic p, st) \<Rightarrow> (Panic p, st)
      | (Ret (Inl e), st) \<Rightarrow> (Ret (Inl e), st)
      | (Ret (Inr a), st) \<Rightarrow> f a st)"

definition fails :: "errno \<Rightarrow> 'w spaceWorld \<Rightarrow> ('a, 'w) lifeStep" where
  "fails e st = (Ret (Inl e), st)"

definition gives :: "'a \<Rightarrow> 'w spaceWorld \<Rightarrow> ('a, 'w) lifeStep" where
  "gives a st = (Ret (Inr a), st)"

text \<open>A call whose error, if there is one, is returned.\<close>

definition orFail :: "errno option \<times> 'w spaceWorld \<Rightarrow> (unit, 'w) lifeStep" where
  "orFail r = (case r of (Some e, st) \<Rightarrow> fails e st | (None, st) \<Rightarrow> gives () st)"

definition adminClient :: "('w, 'z) lifeEnv_scheme \<Rightarrow> string \<Rightarrow> errno + 'w rbacApi" where
  "adminClient ev kubeConfig =
     (case ev_client ev kubeConfig of
        Inr api \<Rightarrow> Inr api
      | Inl err \<Rightarrow> Inl (case le_adminErr ev err of Some e \<Rightarrow> e | None \<Rightarrow> ErrClusterKubeErr))"

definition mesh_Validate :: "('w, 'z) lifeEnv_scheme \<Rightarrow> MeshDevInfo \<Rightarrow> bool" where
  "mesh_Validate ev info \<longleftrightarrow>
     hd_TraceKey (mi_Header info) \<noteq> [] \<and> hd_TraceValue (mi_Header info) \<noteq> [] \<and> le_dnsLabel ev (mi_MeshDevNamespace info)"

definition toUint64 :: "nat option \<Rightarrow> nat" where
  "toUint64 p = (case p of None \<Rightarrow> 0 | Some n \<Rightarrow> n)"

definition rq_Validate :: "('w, 'z) lifeEnv_scheme \<Rightarrow> ClusterUserCreateRequest \<Rightarrow> 'w \<Rightarrow> errno option" where
  "rq_Validate ev cu w =
     (if (case rq_SpaceResourceLimit cu of None \<Rightarrow> False | Some l \<Rightarrow> \<not> fst (ValidSpaceResourceLimit l))
      then Some ErrFormatResourceLimitParam
      else if (case rq_SpaceResourceLimit cu of None \<Rightarrow> False | Some l \<Rightarrow> \<not> limit_Validate l)
      then Some ErrValidateResourceQuota
      else if rq_BaseDevSpaceId cu > 0 \<and> rq_IsBaseSpace cu then Some ErrAsBothBaseSpaceAndMeshSpace
      else if rq_BaseDevSpaceId cu > 0 \<and> rq_MeshDevInfo cu = None then Some ErrMeshInfoRequired
      else if rq_BaseDevSpaceId cu > 0 \<and> (case rq_MeshDevInfo cu of None \<Rightarrow> False | Some i \<Rightarrow> \<not> mesh_Validate ev i)
      then Some ErrValidateMeshInfo
      else if rq_IsBaseSpace cu then
        (case le_clusterGet ev (toUint64 (rq_ClusterId cu)) of
           Inl _ \<Rightarrow> Some ErrClusterNotFound
         | Inr cluster \<Rightarrow>
             (case adminClient ev (cl_KubeConfig cluster) of
                Inl e \<Rightarrow> Some e
              | Inr api \<Rightarrow> (case istioGet api w of Some _ \<Rightarrow> Some ErrIstioNotFound | None \<Rightarrow> None)))
      else None)"

subsection \<open>Deletion\<close>

record DevSpace =
  ds_Params :: ClusterUserCreateRequest
  ds_KubeConfig :: string

definition NewDevSpace :: "ClusterUserCreateRequest \<Rightarrow> string \<Rightarrow> DevSpace" where
  "NewDevSpace params kubeConfig = \<lparr>ds_Params = params, ds_KubeConfig = kubeConfig\<rparr>"

definition setInfo :: "MeshDevInfo \<Rightarrow> DevSpace \<Rightarrow> DevSpace" where
  "setInfo info d = d\<lparr>ds_Params := (ds_Params d)\<lparr>rq_MeshDevInfo := Some info\<rparr>\<rparr>"

text \<open>The mesh info is shared by pointer, so the dev space comes back with what was written to it.\<close>

definition deleteTracingHeader ::
  "('w, 'z) lifeEnv_scheme \<Rightarrow> DevSpace \<Rightarrow> 'w spaceWorld \<Rightarrow> (gerr option \<times> DevSpace) outcome \<times> 'w spaceWorld" where
  "deleteTracingHeader ev d st =
     (if rq_BaseDevSpaceId (ds_Params d) = 0 then (Ret (None, d), st)
      else (case svc_GetFirst (le_gorm ev) (zeroRow\<lparr>cu_ID := rq_BaseDevSpaceId (ds_Params d)\<rparr>) st of
          Inl _ \<Rightarrow> (Ret (None, d), st)
        | Inr baseDevspace \<Rightarrow>
            if cu_Namespace baseDevspace = ''*'' \<or> cu_Namespace baseDevspace = [] then (Ret (None, d), st)
            else (case rq_MeshDevInfo (ds_Params d) of
                None \<Rightarrow> (Panic nilDeref, st)
              | Some info \<Rightarrow>
                  let info1 = info\<lparr>mi_MeshDevNamespace := rq_NameSpace (ds_Params d),
                                   mi_BaseNamespace := cu_Namespace baseDevspace\<rparr>
                  in case onWorld (le_manager ev (ds_KubeConfig d)) st of
                       (Some err, st1) \<Rightarrow> (Ret (Some err, setInfo info1 d), st1)
                     | (None, st1) \<Rightarrow>
                         (case onWorld (le_DeleteTracingHeader ev (ds_KubeConfig d) info1) st1 of
                            ((err, info2), st2) \<Rightarrow> (Ret (err, setInfo info2 d), st2)))))"

definition ds_Delete :: "('w, 'z) lifeEnv_scheme \<Rightarrow> DevSpace \<Rightarrow> 'w spaceWorld \<Rightarrow> (DevSpace, 'w) lifeStep" where
  "ds_Delete ev d st =
     (case adminClient ev (ds_KubeConfig d) of
        Inl e \<Rightarrow> fails e st
      | Inr goClient \<Rightarrow>
          (case (if rq_BaseDevSpaceId (ds_Params d) > 0 then deleteTracingHeader ev d st else (Ret (None, d), st)) of
             (Panic p, st1) \<Rightarrow> (Panic p, st1)
           | (Ret (Some _, _), st1) \<Rightarrow> fails ErrDeleteTracingHeaderFailed st1
           | (Ret (None, d1), st1) \<Rightarrow>
               let st2 = snd (onWorld (DeleteNS goClient (rq_NameSpace (ds_Params d1))) st1)
               in case rq_ID (ds_Params d1) of
                    None \<Rightarrow> (Panic nilDeref, st2)
                  | Some i \<Rightarrow>
                      (case svc_Delete (le_gorm ev) i st2 of
                         (Some _, st3) \<Rightarrow> fails ErrDeletedClusterButDatabaseFail st3
                       | (None, st3) \<Rightarrow> gives d1 st3)))"

subsection \<open>Creation\<close>

definition letterRunes :: string where
  "letterRunes = ''abcdefghijklmnopqrstuvwxyz''"

definition random :: "nat list \<Rightarrow> string" where
  "random ns = map (\<lambda>n. letterRunes ! (n mod 26)) (take 4 ns)"

definition GenerateNsName :: "nat list \<Rightarrow> nat \<Rightarrow> string" where
  "GenerateNsName ns userId = ''nh'' @ itoa (int userId) @ random ns"

definition spaceNamed :: "('w, 'z) lifeEnv_scheme \<Rightarrow> string \<Rightarrow> 'w spaceWorld \<Rightarrow> bool" where
  "spaceNamed ev name st =
     (case svc_GetFirst (le_gorm ev) (zeroRow\<lparr>cu_SpaceName := name\<rparr>) st of Inl _ \<Rightarrow> False | Inr _ \<Rightarrow> True)"

function getUnDuplicateName ::
  "('w, 'z) lifeEnv_scheme \<Rightarrow> nat \<Rightarrow> string \<Rightarrow> 'w spaceWorld \<Rightarrow> errno + string" where
  "getUnDuplicateName ev tries name st =
     (let spaceName = (if tries > 0 then name @ random (le_letters ev tries) else name)
      in if spaceNamed ev spaceName st then
           (if tries < 3 then getUnDuplicateName ev (tries + 1) name st else Inl ErrSpaceNameAlreadyExists)
         else Inr spaceName)"
  by pat_completeness auto
termination
  by (relation "measure (\<lambda>(ev, tries, name, st). 3 - tries)") simp_all

definition createClusterDevSpace ::
  "('w, 'z) lifeEnv_scheme \<Rightarrow> DevSpace \<Rightarrow> clusterModel \<Rightarrow> userRec \<Rightarrow> 'w spaceWorld \<Rightarrow> (ClusterUserModel, 'w) lifeStep" where
  "createClusterDevSpace ev d clusterRecord usersRecord st =
     (case svc_GetList (le_gorm ev) (zeroRow\<lparr>cu_ClusterId := cl_ID clusterRecord, cu_UserId := ur_ID usersRecord,
             cu_ClusterAdmin := Some 1\<rparr>) st of
        Inr (_ # _) \<Rightarrow> fails ErrAlreadyExist st
      | _ \<Rightarrow>
          (case CreateClusterAdminSpace (le_gorm ev) (cl_ID clusterRecord) (ur_ID usersRecord)
                  (rq_SpaceName (ds_Params d)) st of
             (Inl _, st1) \<Rightarrow> fails ErrBindApplicationClsuter st1
           | (Inr result, st1) \<Rightarrow>
               andThen (orFail (onWorld (AuthorizeClusterToUser ev (cl_ID clusterRecord) (ur_ID usersRecord)) st1))
                 (\<lambda>_. gives result)))"

text \<open>The labels for the side-cars of the mesh, and the header that some tracers prescribe.\<close>

definition meshHeader :: "string \<Rightarrow> Header \<Rightarrow> Header" where
  "meshHeader devNamespace h =
     (let h1 = (if hd_TraceType h = ''jaeger'' then h\<lparr>hd_TraceKey := ''uberctx-trace'', hd_TraceValue := devNamespace\<rparr> else h)
      in if hd_TraceType h1 = ''zipkin'' then h1\<lparr>hd_TraceKey := ''baggage-trace'', hd_TraceValue := devNamespace\<rparr> else h1)"

definition spaceLabels :: "ClusterUserCreateRequest \<Rightarrow> string \<rightharpoonup> string" where
  "spaceLabels p =
     (let l1 = (if rq_BaseDevSpaceId p > 0 then [''istio-injection'' \<mapsto> ''enabled'', ''nocalhost.dev/devspace'' \<mapsto> ''share'']
                else Map.empty)
      in if rq_IsBaseSpace p then l1(''istio-injection'' \<mapsto> ''enabled'', ''nocalhost.dev/devspace'' \<mapsto> ''base'') else l1)"

text \<open>
  The namespace of the new dev space: the one of the request, for which no namespace is created
  here, or a generated one; then, unless it is created anew, the one of the mesh info.
\<close>

definition chooseNamespace ::
  "('w, 'z) lifeEnv_scheme \<Rightarrow> 'w rbacApi \<Rightarrow> ClusterUserCreateRequest \<Rightarrow> userRec \<Rightarrow> 'w spaceWorld \<Rightarrow> errno + string \<times> bool" where
  "chooseNamespace ev goClient p usersRecord st =
     (if rq_NameSpace p \<noteq> [] then
        (case nsGet goClient (rq_NameSpace p) (sw_w st) of
           Inl (NotFound _) \<Rightarrow> Inr (rq_NameSpace p, False)
         | Inl err \<Rightarrow> Inl (ErrOther (apiMsg err))
         | Inr _ \<Rightarrow> Inr (rq_NameSpace p, False))
      else Inr (GenerateNsName (le_letters ev 0) (ur_ID usersRecord), True))"

definition meshNamespace :: "ClusterUserCreateRequest \<Rightarrow> string \<Rightarrow> errno + string \<times> ClusterUserCreateRequest" where
  "meshNamespace p ns =
     (if rq_BaseDevSpaceId p > 0 then
        (case rq_MeshDevInfo p of
           None \<Rightarrow> Inl ErrMeshInfoRequired
         | Some info \<Rightarrow>
             let ns1 = (if mi_MeshDevNamespace info \<noteq> [] \<and> \<not> mi_ReCreate info then mi_MeshDevNamespace info else ns)
             in Inr (ns1, p\<lparr>rq_MeshDevInfo := Some (info\<lparr>mi_Header := meshHeader ns1 (mi_Header info)\<rparr>)\<rparr>))
      else Inr (ns, p))"

definition spaceLimit :: "ClusterUserCreateRequest \<Rightarrow> SpaceResourceLimit" where
  "spaceLimit p =
     (case rq_SpaceResourceLimit p of
        Some res \<Rightarrow> res
      | None \<Rightarrow>
          \<lparr>rl_SpaceReqMem = [], rl_SpaceReqCpu = [], rl_SpaceLimitsMem = [], rl_SpaceLimitsCpu = [], rl_SpaceLbCount = [],
           rl_SpacePvcCount = [], rl_SpaceStorageCapacity = [], rl_SpaceEphemeralStorage = [], rl_ContainerReqMem = [],
           rl_ContainerReqCpu = [], rl_ContainerLimitsMem = [], rl_ContainerLimitsCpu = [],
           rl_ContainerEphemeralStorage = []\<rparr>)"

text \<open>A dev space of any cluster with that namespace is taken for the one to be created.\<close>

definition findOrCreateRow ::
  "('w, 'z) lifeEnv_scheme \<Rightarrow> ClusterUserCreateRequest \<Rightarrow> userRec \<Rightarrow> string \<Rightarrow> 'w spaceWorld \<Rightarrow> (ClusterUserModel, 'w) lifeStep" where
  "findOrCreateRow ev p usersRecord devNamespace st =
     (case svc_GetFirst (le_gorm ev) (zeroRow\<lparr>cu_Namespace := devNamespace\<rparr>) st of
        Inr found \<Rightarrow> gives found st
      | Inl _ \<Rightarrow>
          (case (rq_ClusterId p, rq_Memory p, rq_Cpu p) of
             (Some clusterId, Some memory, Some cpu) \<Rightarrow>
               (case svc_Create (le_gorm ev) clusterId (ur_ID usersRecord) memory cpu [] devNamespace (rq_SpaceName p)
                       (le_limitText ev (spaceLimit p)) (rq_IsBaseSpace p) (rq_Protected p) st of
                  (Inl _, st1) \<Rightarrow> fails ErrBindApplicationClsuter st1
                | (Inr row, st1) \<Rightarrow> gives row st1)
           | _ \<Rightarrow> (Panic nilDeref, st)))"

definition makeNamespace :: "'w rbacApi \<Rightarrow> string \<Rightarrow> (string \<rightharpoonup> string) \<Rightarrow> 'w spaceWorld \<Rightarrow> (unit, 'w) lifeStep" where
  "makeNamespace goClient devNamespace labels st =
     (case onWorld (CreateNS goClient devNamespace (Some labels)) st of
        ((_, Some _), st1) \<Rightarrow> fails ErrNameSpaceCreate st1
      | ((_, None), st1) \<Rightarrow> gives () st1)"

definition makeLimits ::
  "('w, 'z) lifeEnv_scheme \<Rightarrow> 'w rbacApi \<Rightarrow> string \<Rightarrow> SpaceResourceLimit \<Rightarrow> 'w spaceWorld \<Rightarrow> (unit, 'w) lifeStep" where
  "makeLimits ev goClient devNamespace res st =
     (case onWorld (createLimits (le_quantityOk ev) goClient devNamespace res NewClusterDevsSetUp) st of
        (Panic e, st1) \<Rightarrow> (Panic e, st1)
      | (Ret _, st1) \<Rightarrow> gives () st1)"

definition authorizeSpace ::
  "('w, 'z) lifeEnv_scheme \<Rightarrow> clusterModel \<Rightarrow> userRec \<Rightarrow> string \<Rightarrow> 'w spaceWorld \<Rightarrow> (unit, 'w) lifeStep" where
  "authorizeSpace ev clusterRecord usersRecord ns st =
     andThen (orFail (onWorld (AuthorizeNsToUser ev (cl_ID clusterRecord) (ur_ID usersRecord) ns) st)) (\<lambda>_ st1.
       orFail (onWorld (AuthorizeNsToDefaultSa ev (cl_ID clusterRecord) (ur_ID usersRecord) ns) st1))"

definition createDevSpace ::
  "('w, 'z) lifeEnv_scheme \<Rightarrow> DevSpace \<Rightarrow> clusterModel \<Rightarrow> userRec \<Rightarrow> 'w spaceWorld \<Rightarrow>
     (ClusterUserModel \<times> DevSpace, 'w) lifeStep" where
  "createDevSpace ev d clusterRecord usersRecord st =
     (case adminClient ev (cl_KubeConfig clusterRecord) of
        Inl e \<Rightarrow> fails e st
      | Inr goClient \<Rightarrow>
          (case chooseNamespace ev goClient (ds_Params d) usersRecord st of
             Inl e \<Rightarrow> fails e st
           | Inr (ns, needCreateNamespace) \<Rightarrow>
               (case meshNamespace (ds_Params d) ns of
                  Inl e \<Rightarrow> fails e st
                | Inr (devNamespace, p) \<Rightarrow>
                    andThen (if needCreateNamespace then makeNamespace goClient devNamespace (spaceLabels p) st else gives () st)
                      (\<lambda>_ st1.
                    andThen (makeLimits ev goClient devNamespace (spaceLimit p) st1) (\<lambda>_ st2.
                    andThen (findOrCreateRow ev p usersRecord devNamespace st2) (\<lambda>result st3.
                      let st4 = snd (onWorld (le_insertAppUser ev (toUint64 (rq_ApplicationId p)) [ur_ID usersRecord]) st3) in
                    andThen (authorizeSpace ev clusterRecord usersRecord (cu_Namespace result) st4) (\<lambda>_.
                    gives (result, d\<lparr>ds_Params := p\<rparr>))))))))"

text \<open>The error, if there is one, and the row with what was written to it.\<close>

definition initMeshDevSpace ::
  "('w, 'z) lifeEnv_scheme \<Rightarrow> DevSpace \<Rightarrow> clusterModel \<Rightarrow> ClusterUserModel \<Rightarrow> ClusterUserModel \<Rightarrow> 'w spaceWorld \<Rightarrow>
     (gerr option \<times> ClusterUserModel \<times> DevSpace) outcome \<times> 'w spaceWorld" where
  "initMeshDevSpace ev d clusterRecord clusterUser baseClusterUser st =
     (case rq_MeshDevInfo (ds_Params d) of
        None \<Rightarrow> (Panic nilDeref, st)
      | Some info \<Rightarrow>
          let info1 = info\<lparr>mi_MeshDevNamespace := cu_Namespace clusterUser, mi_BaseNamespace := cu_Namespace baseClusterUser\<rparr>;
              kube = cl_KubeConfig clusterRecord
          in case onWorld (le_manager ev kube) st of
               (Some err, st1) \<Rightarrow> (Ret (Some err, clusterUser, setInfo info1 d), st1)
             | (None, st1) \<Rightarrow>
                 (case onWorld (le_InitMeshDevSpace ev kube info1) st1 of
                    ((Some err, info2), st2) \<Rightarrow>
                      (case onWorld (le_Rollback ev kube info2) st2 of
                         ((_, info3), st3) \<Rightarrow> (Ret (Some err, clusterUser, setInfo info3 d), st3))
                  | ((None, info2), st2) \<Rightarrow>
                      let row = clusterUser\<lparr>cu_TraceHeader := mi_Header info2, cu_BaseDevSpaceId := rq_BaseDevSpaceId (ds_Params d)\<rparr>
                      in case svc_Update (le_gorm ev) row st2 of (err, st3) \<Rightarrow> (Ret (err, row, setInfo info2 d), st3)))"

definition baseSpaceOf :: "('w, 'z) lifeEnv_scheme \<Rightarrow> ClusterUserCreateRequest \<Rightarrow> 'w spaceWorld \<Rightarrow> errno + ClusterUserModel" where
  "baseSpaceOf ev p st =
     (if rq_BaseDevSpaceId p > 0 then
        (case svc_GetFirst (le_gorm ev) (zeroRow\<lparr>cu_ID := rq_BaseDevSpaceId p\<rparr>) st of
           Inl _ \<Rightarrow> Inl ErrMeshClusterUserNotFound
         | Inr base \<Rightarrow>
             if cu_BaseDevSpaceId base > 0 then Inl ErrUseAsBaseSpace
             else if cu_Namespace base = ''*'' \<or> cu_Namespace base = [] then Inl ErrMeshClusterUserNamespaceNotFound
             else Inr base)
      else Inr zeroRow)"

definition chooseSpaceName ::
  "('w, 'z) lifeEnv_scheme \<Rightarrow> string \<Rightarrow> clusterModel \<Rightarrow> userRec \<Rightarrow> 'w spaceWorld \<Rightarrow> errno + string" where
  "chooseSpaceName ev wanted clusterRecord usersRecord st =
     (if wanted = [] then getUnDuplicateName ev 0 (cl_Name clusterRecord @ ''['' @ ur_Name usersRecord @ '']'') st
      else if spaceNamed ev wanted st then Inl ErrSpaceNameAlreadyExists
      else Inr wanted)"

text \<open>The dev space of the rollback, which is deleted whatever comes of that.\<close>

definition rollbackSpace :: "clusterModel \<Rightarrow> ClusterUserModel \<Rightarrow> DevSpace \<Rightarrow> DevSpace" where
  "rollbackSpace clusterRecord row d =
     d\<lparr>ds_KubeConfig := cl_KubeConfig clusterRecord,
       ds_Params := (ds_Params d)\<lparr>rq_NameSpace := cu_Namespace row, rq_SpaceName := cu_SpaceName row, rq_ID := Some (cu_ID row)\<rparr>\<rparr>"

definition ds_Create :: "('w, 'z) lifeEnv_scheme \<Rightarrow> DevSpace \<Rightarrow> 'w spaceWorld \<Rightarrow> (ClusterUserModel, 'w) lifeStep" where
  "ds_Create ev d st =
     (case le_user ev (toUint64 (rq_UserId (ds_Params d))) of
        Inl _ \<Rightarrow> fails ErrUserNotFound st
      | Inr usersRecord \<Rightarrow>
     (case le_clusterGet ev (toUint64 (rq_ClusterId (ds_Params d))) of
        Inl _ \<Rightarrow> fails ErrClusterNotFound st
      | Inr clusterRecord \<Rightarrow>
     (case chooseSpaceName ev (rq_SpaceName (ds_Params d)) clusterRecord usersRecord st of
        Inl e \<Rightarrow> fails e st
      | Inr name \<Rightarrow>
     (let d1 = d\<lparr>ds_Params := (ds_Params d)\<lparr>rq_SpaceName := name\<rparr>\<rparr> in
      case baseSpaceOf ev (ds_Params d1) st of
        Inl e \<Rightarrow> fails e st
      | Inr baseClusterUser \<Rightarrow>
          andThen
            (if rq_ClusterAdmin (ds_Params d1) = None \<or> rq_ClusterAdmin (ds_Params d1) = Some 0
             then createDevSpace ev d1 clusterRecord usersRecord st
             else andThen (createClusterDevSpace ev d1 clusterRecord usersRecord st) (\<lambda>row. gives (row, d1)))
          (\<lambda>(row, d2) st2.
            if rq_BaseDevSpaceId (ds_Params d2) > 0 then
              (case initMeshDevSpace ev d2 clusterRecord row baseClusterUser st2 of
                 (Panic p, st3) \<Rightarrow> (Panic p, st3)
               | (Ret (None, row1, _), st3) \<Rightarrow> gives row1 st3
               | (Ret (Some _, row1, d3), st3) \<Rightarrow>
                   (case ds_Delete ev (rollbackSpace clusterRecord row1 d3) st3 of
                      (Panic p, st4) \<Rightarrow> (Panic p, st4)
                    | (Ret _, st4) \<Rightarrow> fails ErrInitMeshSpaceFailed st4))
            else gives row st2)))))"

subsection \<open>The handlers\<close>

text \<open>A response: the error if there is one, and the data.\<close>

type_synonym 'w response = "(errno option \<times> ClusterUserModel option) outcome \<times> 'w spaceWorld"

definition respond :: "(ClusterUserModel, 'w) lifeStep \<Rightarrow> 'w response" where
  "respond r =
     (case r of
        (Panic p, st) \<Rightarrow> (Panic p, st)
      | (Ret (Inl e), st) \<Rightarrow> (Ret (Some e, None), st)
      | (Ret (Inr row), st) \<Rightarrow> (Ret (None, Some row), st))"

definition h_Create ::
  "('w, 'z) lifeEnv_scheme \<Rightarrow> gerr + ClusterUserCreateRequest \<Rightarrow> 'w spaceWorld \<Rightarrow> 'w response" where
  "h_Create ev body st =
     (case body of
        Inl _ \<Rightarrow> (Ret (Some ErrBind, None), st)
      | Inr req \<Rightarrow>
          (case rq_Validate ev req (sw_w st) of
             Some e \<Rightarrow> (Ret (Some e, None), st)
           | None \<Rightarrow> respond (ds_Create ev (NewDevSpace (req\<lparr>rq_ApplicationId := Some 0\<rparr>) []) st)))"

definition deleteReq :: "ClusterUserModel \<Rightarrow> ClusterUserCreateRequest" where
  "deleteReq cu =
     \<lparr>rq_ID = Some (cu_ID cu), rq_ClusterId = None, rq_UserId = None, rq_SpaceName = [], rq_Memory = None, rq_Cpu = None,
      rq_ApplicationId = None, rq_ClusterAdmin = None, rq_NameSpace = cu_Namespace cu, rq_SpaceResourceLimit = None,
      rq_BaseDevSpaceId = cu_BaseDevSpaceId cu,
      rq_MeshDevInfo = Some \<lparr>mi_BaseNamespace = [], mi_MeshDevNamespace = [], mi_IsUpdateHeader = False,
        mi_Header = cu_TraceHeader cu, mi_Apps = [], mi_ReCreate = False\<rparr>,
      rq_IsBaseSpace = cu_IsBaseSpace cu, rq_Protected = False\<rparr>"

text \<open>The share spaces of a base space are deleted one after the other, errors or not.\<close>

fun deleteSpaces :: "('w, 'z) lifeEnv_scheme \<Rightarrow> ClusterUserModel list \<Rightarrow> 'w spaceWorld \<Rightarrow> unit outcome \<times> 'w spaceWorld" where
  "deleteSpaces ev [] st = (Ret (), st)"
| "deleteSpaces ev (space # rest) st =
     (case ev_cluster ev (cu_ClusterId space) of
        Inl _ \<Rightarrow> deleteSpaces ev rest st
      | Inr kube \<Rightarrow>
          (case ds_Delete ev (NewDevSpace ((deleteReq space)\<lparr>rq_IsBaseSpace := False\<rparr>) kube) st of
             (Panic p, st1) \<Rightarrow> (Panic p, st1)
           | (Ret _, st1) \<Rightarrow> deleteSpaces ev rest st1))"

definition deleteShareSpaces :: "('w, 'z) lifeEnv_scheme \<Rightarrow> nat \<Rightarrow> 'w spaceWorld \<Rightarrow> unit outcome \<times> 'w spaceWorld" where
  "deleteShareSpaces ev baseSpaceId st =
     (case svc_GetList (le_gorm ev) (zeroRow\<lparr>cu_BaseDevSpaceId := baseSpaceId\<rparr>) st of
        Inl _ \<Rightarrow> (Ret (), st)
      | Inr shareSpaces \<Rightarrow> deleteSpaces ev shareSpaces st)"

text \<open>The dev space of the request is read through the cache.\<close>

definition withPrivilege ::
  "('w, 'z) lifeEnv_scheme \<Rightarrow> nat option \<Rightarrow> bool \<Rightarrow> nat \<Rightarrow> 'w spaceWorld \<Rightarrow> (ClusterUserModel, 'w) lifeStep" where
  "withPrivilege ev login ctxAdmin devSpaceId st =
     (case GetCache (le_gorm ev) devSpaceId st of (r, st1) \<Rightarrow>
        (Ret (HasPrivilegeToSomeDevSpace (ev\<lparr>sp_devSpace := \<lambda>_. r\<rparr>) login ctxAdmin devSpaceId), st1))"

definition withModify ::
  "('w, 'z) lifeEnv_scheme \<Rightarrow> nsWatchers \<Rightarrow> nat option \<Rightarrow> nat \<Rightarrow> 'w spaceWorld \<Rightarrow> (ClusterUserModel, 'w) lifeStep" where
  "withModify ev nw login devSpaceId st =
     (case login of
        None \<Rightarrow> fails ErrPermissionDenied st
      | Some _ \<Rightarrow>
          (case GetCache (le_gorm ev) devSpaceId st of (r, st1) \<Rightarrow>
             (Ret (LoginUserHasModifyPermissionToSomeDevSpace (ev\<lparr>sp_devSpace := \<lambda>_. r\<rparr>) nw login devSpaceId), st1)))"

definition deleteAdminSpace ::
  "('w, 'z) lifeEnv_scheme \<Rightarrow> clusterWatchers \<Rightarrow> nat \<Rightarrow> ClusterUserModel \<Rightarrow> 'w spaceWorld \<Rightarrow> (unit, 'w) lifeStep" where
  "deleteAdminSpace ev cw devSpaceId cu st =
     andThen (orFail (onWorld (RemoveAllFromViewer (sp_arr ev) ev cw (cu_ClusterId cu) (cu_UserId cu)) st)) (\<lambda>_ st1.
     andThen (orFail (onWorld (RemoveAllFromCooperator (sp_arr ev) ev cw (cu_ClusterId cu) (cu_UserId cu)) st1)) (\<lambda>_ st2.
     andThen (orFail (onWorld (UnAuthorizeClusterToUser ev (cu_ClusterId cu) (cu_UserId cu)) st2)) (\<lambda>_ st3.
     (case svc_Delete (le_gorm ev) devSpaceId st3 of
        (Some _, st4) \<Rightarrow> fails ErrDeletedClusterButDatabaseFail st4
      | (None, st4) \<Rightarrow> gives () st4))))"

definition deleteNsSpace ::
  "('w, 'z) lifeEnv_scheme \<Rightarrow> nat \<Rightarrow> ClusterUserModel \<Rightarrow> 'w spaceWorld \<Rightarrow> (unit, 'w) lifeStep" where
  "deleteNsSpace ev devSpaceId cu st =
     (case le_clusterGet ev (cu_ClusterId cu) of
        Inl _ \<Rightarrow> fails ErrClusterNotFound st
      | Inr clusterData \<Rightarrow>
          andThen (ds_Delete ev (NewDevSpace (deleteReq cu) (cl_KubeConfig clusterData)) st) (\<lambda>_ st1.
            if cu_IsBaseSpace cu then
              (case deleteShareSpaces ev devSpaceId st1 of (Panic p, st2) \<Rightarrow> (Panic p, st2) | (Ret _, st2) \<Rightarrow> gives () st2)
            else gives () st1))"

definition h_Delete ::
  "('w, 'z) lifeEnv_scheme \<Rightarrow> clusterWatchers \<Rightarrow> nat option \<Rightarrow> bool \<Rightarrow> nat \<Rightarrow> 'w spaceWorld \<Rightarrow> (unit, 'w) lifeStep" where
  "h_Delete ev cw login ctxAdmin devSpaceId st =
     andThen (withPrivilege ev login ctxAdmin devSpaceId st) (\<lambda>cu st1.
       if cu_Protected cu then fails ErrProtectedSpaceReSet st1
       else if IsClusterAdmin cu then deleteAdminSpace ev cw devSpaceId cu st1
       else deleteNsSpace ev devSpaceId cu st1)"

definition reCreateReq :: "('w, 'z) lifeEnv_scheme \<Rightarrow> ClusterUserModel \<Rightarrow> ClusterUserCreateRequest" where
  "reCreateReq ev cu =
     \<lparr>rq_ID = Some (cu_ID cu), rq_ClusterId = Some (cu_ClusterId cu), rq_UserId = Some (cu_UserId cu),
      rq_SpaceName = cu_SpaceName cu, rq_Memory = Some (cu_Memory cu), rq_Cpu = Some (cu_Cpu cu),
      rq_ApplicationId = Some (cu_ApplicationId cu), rq_ClusterAdmin = None, rq_NameSpace = cu_Namespace cu,
      rq_SpaceResourceLimit = Some (sp_limitOf ev (cu_SpaceResourceLimit cu)), rq_BaseDevSpaceId = cu_BaseDevSpaceId cu,
      rq_MeshDevInfo = Some \<lparr>mi_BaseNamespace = [], mi_MeshDevNamespace = [], mi_IsUpdateHeader = False,
        mi_Header = cu_TraceHeader cu, mi_Apps = [], mi_ReCreate = True\<rparr>,
      rq_IsBaseSpace = cu_IsBaseSpace cu, rq_Protected = False\<rparr>"

text \<open>The roles of the old dev space are given again; what comes of that is not looked at.\<close>

definition shareAgain ::
  "('w, 'z) lifeEnv_scheme \<Rightarrow> ClusterUserExt \<Rightarrow> ClusterUserModel \<Rightarrow> 'w spaceWorld \<Rightarrow> 'w spaceWorld" where
  "shareAgain ev ext result st =
     fold (\<lambda>u st. snd (onWorld (ns_AsCooperator ev (cu_ClusterId result) (us_ID u) (cu_Namespace result)) st)) (ex_CooperUser ext)
       (fold (\<lambda>u st. snd (onWorld (ns_AsViewer ev (cu_ClusterId result) (us_ID u) (cu_Namespace result)) st)) (ex_ViewerUser ext) st)"

text \<open>
  A failed list and a failed deletion are answered without an error and without data: the first
  because the wrong error variable is sent, the second because none is.
\<close>

definition reCreateListed ::
  "('w, 'z) lifeEnv_scheme \<Rightarrow> ClusterUserModel \<Rightarrow> ClusterUserV2 \<Rightarrow> string \<Rightarrow> 'w spaceWorld \<Rightarrow> 'w response" where
  "reCreateListed ev clusterUser cu kube st =
     (case ds_Delete ev (NewDevSpace (reCreateReq ev clusterUser) kube) st of
        (Panic p, st1) \<Rightarrow> (Panic p, st1)
      | (Ret (Inl _), st1) \<Rightarrow> (Ret (None, None), st1)
      | (Ret (Inr d), st1) \<Rightarrow>
          respond (andThen (ds_Create ev (d\<lparr>ds_Params := (ds_Params d)\<lparr>rq_NameSpace := []\<rparr>\<rparr>) st1) (\<lambda>result st2.
            andThen (orFail (onWorld (AuthorizeNsToUser ev (cu_ClusterId result) (cu_UserId result) (cu_Namespace result)) st2)) (\<lambda>_ st3.
            andThen (orFail (onWorld (AuthorizeNsToDefaultSa ev (cu_ClusterId result) (cu_UserId result) (cu_Namespace result)) st3)) (\<lambda>_ st4.
              (case v2_Ext cu of
                 None \<Rightarrow> (Panic nilDeref, st4)
               | Some ext \<Rightarrow> gives result (shareAgain ev ext result st4)))))))"

definition h_ReCreate ::
  "('w, 'z) lifeEnv_scheme \<Rightarrow> nsWatchers \<Rightarrow> clusterWatchers \<Rightarrow> nat option \<Rightarrow> bool \<Rightarrow> nat \<Rightarrow> 'w spaceWorld \<Rightarrow> 'w response" where
  "h_ReCreate ev nw cw login ctxAdmin devSpaceId st =
     (case login of
        None \<Rightarrow> (Ret (Some ErrPermissionDenied, None), st)
      | Some user \<Rightarrow>
          (case withModify ev nw login devSpaceId st of
             (Panic p, st1) \<Rightarrow> (Panic p, st1)
           | (Ret (Inl e), st1) \<Rightarrow> (Ret (Some e, None), st1)
           | (Ret (Inr clusterUser), st1) \<Rightarrow>
               if cu_Protected clusterUser then (Ret (Some ErrProtectedSpaceReSet, None), st1)
               else if cu_IsBaseSpace clusterUser then (Ret (Some ErrBaseSpaceReSet, None), st1)
               else (case ev_cluster ev (cu_ClusterId clusterUser) of
                   Inl _ \<Rightarrow> (Ret (Some ErrClusterNotFound, None), st1)
                 | Inr kube \<Rightarrow>
                     (case DoList ev nw cw (ListV2 (le_gorm ev) (zeroRow\<lparr>cu_ID := devSpaceId\<rparr>) (sw_w st1)) user ctxAdmin False of
                        Panic p \<Rightarrow> (Panic p, st1)
                      | Ret (Inl _) \<Rightarrow> (Ret (None, None), st1)
                      | Ret (Inr [cu]) \<Rightarrow>
                          if v2_IsClusterAdmin cu then (Ret (None, None), st1)
                          else reCreateListed ev clusterUser cu kube st1
                      | Ret (Inr _) \<Rightarrow> (Ret (Some ErrClusterUserNotFound, None), st1)))))"

definition h_PluginReCreate ::
  "('w, 'z) lifeEnv_scheme \<Rightarrow> nsWatchers \<Rightarrow> clusterWatchers \<Rightarrow> nat option \<Rightarrow> bool \<Rightarrow> nat \<Rightarrow> 'w spaceWorld \<Rightarrow> 'w response" where
  "h_PluginReCreate ev nw cw login ctxAdmin devSpaceId st =
     (case svc_GetFirst (le_gorm ev) (zeroRow\<lparr>cu_ID := devSpaceId\<rparr>) st of
        Inl _ \<Rightarrow> (Ret (Some ErrClusterUserNotFound, None), st)
      | Inr _ \<Rightarrow> h_ReCreate ev nw cw login ctxAdmin devSpaceId st)"

subsection \<open>Updates\<close>

text \<open>\<open>decoded\<close> is the kubeconfig of the request out of its base 64. Nothing is asked of the user.\<close>

definition h_Update ::
  "('w, 'z) lifeEnv_scheme \<Rightarrow> gerr + ((gerr + string) \<times> string) \<Rightarrow> nat \<Rightarrow> 'w spaceWorld \<Rightarrow> 'w response" where
  "h_Update ev body devSpaceId st =
     (case body of
        Inl _ \<Rightarrow> (Ret (Some ErrBind, None), st)
      | Inr (Inl _, _) \<Rightarrow> (Ret (Some ErrBind, None), st)
      | Inr (Inr decoded, name) \<Rightarrow>
          let cu = zeroRow\<lparr>cu_ID := devSpaceId, cu_KubeConfig := decoded, cu_SpaceName := name\<rparr>
          in case svc_Update (le_gorm ev) cu st of
               (Some _, st1) \<Rightarrow> (Ret (None, None), st1)
             | (None, st1) \<Rightarrow> (Ret (None, Some cu), st1))"

definition recreateLimits ::
  "('w, 'z) lifeEnv_scheme \<Rightarrow> 'w rbacApi \<Rightarrow> string \<Rightarrow> SpaceResourceLimit \<Rightarrow> 'w \<Rightarrow> unit outcome \<times> 'w" where
  "recreateLimits ev api ns req w =
     (case su_DeleteResourceQuota api (''rq-'' @ ns) ns NewClusterDevsSetUp w of (c1, w1) \<Rightarrow>
     (case su_CreateResourceQuota (le_quantityOk ev) api (''rq-'' @ ns) ns req c1 w1 of
        (Panic p, w2) \<Rightarrow> (Panic p, w2)
      | (Ret c2, w2) \<Rightarrow>
          (case su_DeleteLimitRange api (''lr-'' @ ns) ns c2 w2 of (c3, w3) \<Rightarrow>
          (case su_CreateLimitRange (le_quantityOk ev) api (''lr-'' @ ns) ns req c3 w3 of
             (Panic p, w4) \<Rightarrow> (Panic p, w4)
           | (Ret _, w4) \<Rightarrow> (Ret (), w4)))))"

definition h_UpdateResourceLimit ::
  "('w, 'z) lifeEnv_scheme \<Rightarrow> gerr + SpaceResourceLimit \<Rightarrow> nat option \<Rightarrow> bool \<Rightarrow> nat \<Rightarrow> 'w spaceWorld \<Rightarrow> 'w response" where
  "h_UpdateResourceLimit ev body login ctxAdmin devSpaceId st =
     (case body of
        Inl _ \<Rightarrow> (Ret (Some ErrBind, None), st)
      | Inr req \<Rightarrow>
          (case withPrivilege ev login ctxAdmin devSpaceId st of
             (Panic p, st1) \<Rightarrow> (Panic p, st1)
           | (Ret (Inl e), st1) \<Rightarrow> (Ret (Some e, None), st1)
           | (Ret (Inr _), st1) \<Rightarrow>
               if \<not> fst (ValidSpaceResourceLimit req) then (Ret (Some ErrFormatResourceLimitParam, None), st1)
               else (case svc_GetFirst (le_gorm ev) (zeroRow\<lparr>cu_ID := devSpaceId\<rparr>) st1 of
                   Inl _ \<Rightarrow> (Ret (Some ErrClusterUserNotFound, None), st1)
                 | Inr devspace \<Rightarrow>
                     (case le_clusterGet ev (cu_ClusterId devspace) of
                        Inl _ \<Rightarrow> (Ret (Some ErrPermissionCluster, None), st1)
                      | Inr clusterData \<Rightarrow>
                          (case adminClient ev (cl_KubeConfig clusterData) of
                             Inl e \<Rightarrow> (Ret (Some e, None), st1)
                           | Inr goClient \<Rightarrow>
                               if \<not> limit_Validate req then (Ret (Some ErrValidateResourceQuota, None), st1)
                               else (case onWorld (recreateLimits ev goClient (cu_Namespace devspace) req) st1 of
                                   (Panic p, st2) \<Rightarrow> (Panic p, st2)
                                 | (Ret _, st2) \<Rightarrow>
                                     let row = devspace\<lparr>cu_SpaceResourceLimit := le_limitText ev req\<rparr>
                                     in case svc_Update (le_gorm ev) row st2 of
                                          (Some _, st3) \<Rightarrow> (Ret (None, None), st3)
                                        | (None, st3) \<Rightarrow> (Ret (None, Some row), st3)))))))"

text \<open>The header is compared with that of the base space, and nothing is asked of the user.\<close>

definition updateInfo :: "MeshDevInfo \<Rightarrow> ClusterUserModel \<Rightarrow> ClusterUserModel \<Rightarrow> MeshDevInfo" where
  "updateInfo req devspace basespace =
     req\<lparr>mi_MeshDevNamespace := cu_Namespace devspace, mi_BaseNamespace := cu_Namespace basespace,
         mi_IsUpdateHeader := hd_TraceKey (cu_TraceHeader basespace) \<noteq> hd_TraceKey (mi_Header req) \<or>
                              hd_TraceValue (cu_TraceHeader basespace) \<noteq> hd_TraceValue (mi_Header req)\<rparr>"

definition h_UpdateMeshDevSpaceInfo ::
  "('w, 'z) lifeEnv_scheme \<Rightarrow> gerr + MeshDevInfo \<Rightarrow> nat \<Rightarrow> 'w spaceWorld \<Rightarrow> 'w response" where
  "h_UpdateMeshDevSpaceInfo ev body devSpaceId st =
     (case body of
        Inl _ \<Rightarrow> (Ret (Some ErrBind, None), st)
      | Inr req \<Rightarrow>
          (case svc_GetFirst (le_gorm ev) (zeroRow\<lparr>cu_ID := devSpaceId\<rparr>) st of
             Inl _ \<Rightarrow> (Ret (Some ErrClusterUserNotFound, None), st)
           | Inr devspace \<Rightarrow>
               if cu_BaseDevSpaceId devspace = 0 then (Ret (Some ErrUpdateBaseSpace, None), st)
               else (case svc_GetFirst (le_gorm ev) (zeroRow\<lparr>cu_ID := cu_BaseDevSpaceId devspace\<rparr>) st of
                   Inl _ \<Rightarrow> (Ret (Some ErrMeshClusterUserNotFound, None), st)
                 | Inr basespace \<Rightarrow>
                     (case le_clusterGet ev (cu_ClusterId devspace) of
                        Inl _ \<Rightarrow> (Ret (Some ErrPermissionCluster, None), st)
                      | Inr clusterData \<Rightarrow>
                          let kube = cl_KubeConfig clusterData; info = updateInfo req devspace basespace
                          in case onWorld (le_manager ev kube) st of
                               (Some _, st1) \<Rightarrow> (Ret (Some ErrUpdateMeshSpaceFailed, None), st1)
                             | (None, st1) \<Rightarrow>
                                 (case onWorld (le_UpdateMeshDevSpace ev kube info) st1 of
                                    ((Some _, info1), st2) \<Rightarrow>
                                      (Ret (Some ErrUpdateMeshSpaceFailed, None), snd (onWorld (le_Rollback ev kube info1) st2))
                                  | ((None, info1), st2) \<Rightarrow>
                                      let row = devspace\<lparr>cu_TraceHeader := mi_Header info1\<rparr>
                                      in case svc_Update (le_gorm ev) row st2 of
                                           (Some _, st3) \<Rightarrow> (Ret (Some ErrUpdateMeshSpaceFailed, None), st3)
                                         | (None, st3) \<Rightarrow> (Ret (None, Some row), st3))))))"

end
