(* ===== verification/SpaceDbProps.thy ===== *)
theory SpaceDbProps
  imports SpaceDb
begin

text \<open>
  The cache of dev spaces against the table behind it. The object mapper's documented behaviour
  is \<open>gormOk\<close>, where \<open>view\<close> is the table: rows by id. Requests and expiries of cache entries
  interleave in \<open>cache_step\<close>.
\<close>

subsection \<open>Rows as conditions and as updates\<close>

definition matchRow :: "ClusterUserModel \<Rightarrow> ClusterUserModel \<Rightarrow> bool" where
  "matchRow c r \<longleftrightarrow>
     (cu_ID c = 0 \<or> cu_ID c = cu_ID r) \<and> (cu_ApplicationId c = 0 \<or> cu_ApplicationId c = cu_ApplicationId r) \<and>
     (cu_UserId c = 0 \<or> cu_UserId c = cu_UserId r) \<and> (cu_SpaceName c = [] \<or> cu_SpaceName c = cu_SpaceName r) \<and>
     (cu_ClusterId c = 0 \<or> cu_ClusterId c = cu_ClusterId r) \<and> (cu_KubeConfig c = [] \<or> cu_KubeConfig c = cu_KubeConfig r) \<and>
     (cu_Memory c = 0 \<or> cu_Memory c = cu_Memory r) \<and> (cu_Cpu c = 0 \<or> cu_Cpu c = cu_Cpu r) \<and>
     (cu_SpaceResourceLimit c = [] \<or> cu_SpaceResourceLimit c = cu_SpaceResourceLimit r) \<and>
     (cu_Namespace c = [] \<or> cu_Namespace c = cu_Namespace r) \<and> (cu_Status c = None \<or> cu_Status c = cu_Status r) \<and>
     (cu_ClusterAdmin c = None \<or> cu_ClusterAdmin c = cu_ClusterAdmin r) \<and> (cu_Protected c \<longrightarrow> cu_Protected r) \<and>
     (cu_IsBaseSpace c \<longrightarrow> cu_IsBaseSpace r) \<and>
     (cu_BaseDevSpaceId c = 0 \<or> cu_BaseDevSpaceId c = cu_BaseDevSpaceId r) \<and>
     (cu_TraceHeader c = zeroHeader \<or> cu_TraceHeader c = cu_TraceHeader r)"

definition over :: "'a \<Rightarrow> 'a \<Rightarrow> 'a \<Rightarrow> 'a" where
  "over z old new = (if new = z then old else new)"

definition mergeRow :: "ClusterUserModel \<Rightarrow> ClusterUserModel \<Rightarrow> ClusterUserModel" where
  "mergeRow old u =
     \<lparr>cu_ID = over 0 (cu_ID old) (cu_ID u), cu_ApplicationId = over 0 (cu_ApplicationId old) (cu_ApplicationId u),
      cu_UserId = over 0 (cu_UserId old) (cu_UserId u), cu_SpaceName = over [] (cu_SpaceName old) (cu_SpaceName u),
      cu_ClusterId = over 0 (cu_ClusterId old) (cu_ClusterId u), cu_KubeConfig = over [] (cu_KubeConfig old) (cu_KubeConfig u),
      cu_Memory = over 0 (cu_Memory old) (cu_Memory u), cu_Cpu = over 0 (cu_Cpu old) (cu_Cpu u),
      cu_SpaceResourceLimit = over [] (cu_SpaceResourceLimit old) (cu_SpaceResourceLimit u),
      cu_Namespace = over [] (cu_Namespace old) (cu_Namespace u), cu_Status = over None (cu_Status old) (cu_Status u),
      cu_ClusterAdmin = over None (cu_ClusterAdmin old) (cu_ClusterAdmin u),
      cu_Protected = over False (cu_Protected old) (cu_Protected u),
      cu_IsBaseSpace = over False (cu_IsBaseSpace old) (cu_IsBaseSpace u),
      cu_BaseDevSpaceId = over 0 (cu_BaseDevSpaceId old) (cu_BaseDevSpaceId u),
      cu_TraceHeader = over zeroHeader (cu_TraceHeader old) (cu_TraceHeader u)\<rparr>"

lemma matchRow_zero [simp]: "matchRow zeroRow r"
  by (simp add: matchRow_def zeroRow_def)

lemma matchRow_id [simp]: "matchRow (zeroRow\<lparr>cu_ID := i\<rparr>) r \<longleftrightarrow> i = 0 \<or> i = cu_ID r"
  by (simp add: matchRow_def zeroRow_def)

type_synonym 'w rowView = "'w \<Rightarrow> nat \<rightharpoonup> ClusterUserModel"

definition rowsOf :: "'w rowView \<Rightarrow> 'w \<Rightarrow> ClusterUserModel set" where
  "rowsOf view w = ran (view w)"

definition createsOk :: "'w gormApi \<Rightarrow> 'w rowView \<Rightarrow> bool" where
  "createsOk gm view \<longleftrightarrow>
     (\<forall>row w r w'. db_create gm row w = (r, w') \<longrightarrow>
        (case r of
           Inl _ \<Rightarrow> view w' = view w
         | Inr row' \<Rightarrow> view w (cu_ID row') = None \<and> view w' = (view w)(cu_ID row' \<mapsto> row') \<and>
             matchRow (row\<lparr>cu_ID := 0\<rparr>) row'))"

definition updatesOk :: "'w gormApi \<Rightarrow> 'w rowView \<Rightarrow> bool" where
  "updatesOk gm view \<longleftrightarrow>
     (\<forall>i row w n w'. db_update gm i row w = (n, w') \<longrightarrow>
        (if n = 0 then view w' = view w
         else \<exists>old. view w i = Some old \<and> view w' = (view w)(i \<mapsto> mergeRow old row)))"

definition deletesOk :: "'w gormApi \<Rightarrow> 'w rowView \<Rightarrow> bool" where
  "deletesOk gm view \<longleftrightarrow>
     (\<forall>ids w n e w'. db_delete gm ids w = ((n, e), w') \<longrightarrow>
        view w' = (if n = 0 then view w else view w |` (- set ids)) \<and>
        (n = 0 \<and> e = None \<longrightarrow> (\<forall>i\<in>set ids. view w i = None)))"

definition readsOk :: "'w gormApi \<Rightarrow> 'w rowView \<Rightarrow> bool" where
  "readsOk gm view \<longleftrightarrow>
     (\<forall>w i r. view w i = Some r \<longrightarrow> cu_ID r = i) \<and>
     (\<forall>c w r. db_first gm c w = Inr r \<longrightarrow> r \<in> rowsOf view w \<and> matchRow c r) \<and>
     (\<forall>c w. db_find gm c w = [] \<or> set (db_find gm c w) = {r \<in> rowsOf view w. matchRow c r})"

definition gormOk :: "'w gormApi \<Rightarrow> 'w rowView \<Rightarrow> bool" where
  "gormOk gm view \<longleftrightarrow> readsOk gm view \<and> createsOk gm view \<and> updatesOk gm view \<and> deletesOk gm view"

subsection \<open>The machine\<close>

datatype spaceOp =
    OpGetAll | OpGet nat | OpGetNs nat string | OpDelete nat | OpBatchDelete "nat list"
  | OpUpdate ClusterUserModel | OpCreate ClusterUserModel

fun runOp :: "'w gormApi \<Rightarrow> spaceOp \<Rightarrow> 'w spaceWorld \<Rightarrow> 'w spaceWorld" where
  "runOp gm OpGetAll st = snd (GetAllCache gm st)"
| "runOp gm (OpGet i) st = snd (GetCache gm i st)"
| "runOp gm (OpGetNs cid ns) st = snd (GetCacheByClusterAndNameSpace gm cid ns st)"
| "runOp gm (OpDelete i) st = snd (svc_Delete gm i st)"
| "runOp gm (OpBatchDelete ids) st = snd (svc_BatchDelete gm ids st)"
| "runOp gm (OpUpdate row) st = snd (svc_Update gm row st)"
| "runOp gm (OpCreate row) st = snd (createRow gm row st)"

definition expireId :: "nat \<Rightarrow> 'w spaceWorld \<Rightarrow> 'w spaceWorld" where
  "expireId i st = st\<lparr>sw_cache := (sw_cache st)\<lparr>sc_id := map_delete i (sc_id (sw_cache st))\<rparr>\<rparr>"

definition expireNs :: "string \<Rightarrow> 'w spaceWorld \<Rightarrow> 'w spaceWorld" where
  "expireNs k st = st\<lparr>sw_cache := (sw_cache st)\<lparr>sc_ns := map_delete k (sc_ns (sw_cache st))\<rparr>\<rparr>"

definition expireAll :: "'w spaceWorld \<Rightarrow> 'w spaceWorld" where
  "expireAll st = st\<lparr>sw_cache := (sw_cache st)\<lparr>sc_all := None\<rparr>\<rparr>"

inductive cache_step :: "'w gormApi \<Rightarrow> 'w spaceWorld \<Rightarrow> 'w spaceWorld \<Rightarrow> bool" for gm where
  request: "cache_step gm st (runOp gm op st)"
| id_expires: "cache_step gm st (expireId i st)"
| ns_expires: "cache_step gm st (expireNs k st)"
| all_expires: "cache_step gm st (expireAll st)"

definition cache_run :: "'w gormApi \<Rightarrow> 'w spaceWorld \<Rightarrow> 'w spaceWorld \<Rightarrow> bool" where
  "cache_run gm = (cache_step gm)\<^sup>*\<^sup>*"

subsection \<open>The invariant\<close>

definition idsOk :: "(nat \<rightharpoonup> ClusterUserModel) \<Rightarrow> spaceCache \<Rightarrow> bool" where
  "idsOk t c \<longleftrightarrow> (\<forall>i r. sc_id c i = Some r \<longrightarrow> t i = Some r)"

definition cacheOk :: "'w rowView \<Rightarrow> 'w spaceWorld \<Rightarrow> bool" where
  "cacheOk view st \<longleftrightarrow> idsOk (view (sw_w st)) (sw_cache st) \<and>
     (\<forall>l. sc_all (sw_cache st) = Some l \<longrightarrow> set l = rowsOf view (sw_w st))"

lemma idsOk_addRow: "idsOk t c \<Longrightarrow> t (cu_ID r) = Some r \<Longrightarrow> idsOk t (addRow r c)"
  by (auto simp: idsOk_def addRow_def)

lemma addRow_all [simp]: "sc_all (addRow r c) = sc_all c"
  by (simp add: addRow_def)

lemma Evict_facts [simp]: "sc_id (Evict i c) = map_delete i (sc_id c)" "sc_all (Evict i c) = None"
  by (auto simp: Evict_def fun_eq_iff split: option.splits)

lemma evictIn_world [simp]: "sw_w (evictIn i st) = sw_w st" "sw_cache (evictIn i st) = Evict i (sw_cache st)"
  by (simp_all add: evictIn_def)

lemma fold_evictIn_world [simp]: "sw_w (fold evictIn ids st) = sw_w st"
  by (induction ids arbitrary: st) simp_all

lemma fold_evictIn_id: "sc_id (sw_cache (fold evictIn ids st)) = sc_id (sw_cache st) |` (- set ids)"
  by (induction ids arbitrary: st) (auto simp: fun_eq_iff restrict_map_def)

lemma fold_evictIn_all: "ids \<noteq> [] \<Longrightarrow> sc_all (sw_cache (fold evictIn ids st)) = None"
proof (induction ids arbitrary: st)
  case (Cons i ids)
  then show ?case by (cases ids) simp_all
qed simp

lemma onWorld_facts:
  "onWorld f st = (r, st') \<Longrightarrow> sw_cache st' = sw_cache st \<and> f (sw_w st) = (r, sw_w st')"
  by (auto simp: onWorld_def split: prod.splits)

lemma idsOk_shrink: "idsOk t c \<Longrightarrow> sc_id c' \<subseteq>\<^sub>m sc_id c \<Longrightarrow> idsOk t c'"
  unfolding idsOk_def map_le_def by (metis domI)

lemma rowsOf_iff: "readsOk gm view \<Longrightarrow> r \<in> rowsOf view w \<longleftrightarrow> view w (cu_ID r) = Some r"
  by (auto simp: readsOk_def rowsOf_def ran_def)

lemma readsOk_first: "readsOk gm view \<Longrightarrow> db_first gm c w = Inr r \<Longrightarrow> view w (cu_ID r) = Some r \<and> matchRow c r"
  by (simp add: rowsOf_iff [symmetric]) (simp add: readsOk_def)

lemma cacheOk_addRow:
  "cacheOk view st \<Longrightarrow> view (sw_w st) (cu_ID r) = Some r \<Longrightarrow> cacheOk view (st\<lparr>sw_cache := addRow r (sw_cache st)\<rparr>)"
  by (simp add: cacheOk_def idsOk_addRow)

lemma GetCache_ok: "readsOk gm view \<Longrightarrow> cacheOk view st \<Longrightarrow> cacheOk view (snd (GetCache gm i st))"
  by (auto simp: GetCache_def repo_GetFirst_def cacheOk_addRow dest: readsOk_first split: option.splits sum.splits)

lemma GetCacheNs_ok: "readsOk gm view \<Longrightarrow> cacheOk view st \<Longrightarrow> cacheOk view (snd (GetCacheByClusterAndNameSpace gm c ns st))"
  by (auto simp: GetCacheByClusterAndNameSpace_def repo_GetFirst_def cacheOk_addRow dest: readsOk_first
      split: option.splits sum.splits)

lemma idsOk_fold_addRow:
  "idsOk t c \<Longrightarrow> \<forall>r\<in>set rs. t (cu_ID r) = Some r \<Longrightarrow> idsOk t (fold addRow rs c)"
  by (rule fold_invariant_set [where P = "idsOk t"]) (auto intro: idsOk_addRow)

lemma fold_addRow_all [simp]: "sc_all (fold addRow rs c) = sc_all c"
  by (rule fold_invariant_set [where P = "\<lambda>d. sc_all d = sc_all c"]) simp_all

lemma find_all:
  assumes "readsOk gm view" and "db_find gm zeroRow w \<noteq> []"
  shows "set (db_find gm zeroRow w) = rowsOf view w"
proof -
  have "db_find gm zeroRow w = [] \<or> set (db_find gm zeroRow w) = {r \<in> rowsOf view w. matchRow zeroRow r}"
    using assms(1) unfolding readsOk_def by blast
  then show ?thesis using assms(2) by simp
qed

lemma GetAllCache_ok:
  assumes "readsOk gm view" and ok: "cacheOk view st"
  shows "cacheOk view (snd (GetAllCache gm st))"
proof (cases "sc_all (sw_cache st) = None \<and> db_find gm zeroRow (sw_w st) \<noteq> []")
  case True
  let ?rs = "db_find gm zeroRow (sw_w st)" and ?t = "view (sw_w st)"
  have rs: "set ?rs = rowsOf view (sw_w st)" using True find_all [OF assms(1)] by blast
  then have "\<forall>r\<in>set ?rs. ?t (cu_ID r) = Some r" using rowsOf_iff [OF assms(1)] by blast
  then have "idsOk ?t (fold addRow ?rs ((sw_cache st)\<lparr>sc_all := Some ?rs\<rparr>))"
    using ok by (intro idsOk_fold_addRow) (simp_all add: cacheOk_def idsOk_def)
  then show ?thesis using True rs by (simp add: GetAllCache_def repo_GetList_def cacheOk_def)
qed (use ok in \<open>auto simp: GetAllCache_def repo_GetList_def split: option.splits\<close>)

lemma deletesOkD:
  assumes "deletesOk gm view" and "db_delete gm ids w = ((n, e), w')"
  shows "view w' = (if n = 0 then view w else view w |` (- set ids))"
    and "n = 0 \<Longrightarrow> e = None \<Longrightarrow> i \<in> set ids \<Longrightarrow> view w i = None"
  using assms unfolding deletesOk_def by blast+

lemma updatesOkD:
  assumes "updatesOk gm view" and "db_update gm i row w = (n, w')"
  shows "n = 0 \<Longrightarrow> view w' = view w" and "view w' |` (- {i}) = view w |` (- {i})"
proof -
  have *: "if n = 0 then view w' = view w else \<exists>old. view w i = Some old \<and> view w' = (view w)(i \<mapsto> mergeRow old row)"
    using assms unfolding updatesOk_def by blast
  show "n = 0 \<Longrightarrow> view w' = view w" using * by simp
  show "view w' |` (- {i}) = view w |` (- {i})" using * by (auto split: if_splits simp: fun_eq_iff restrict_map_def)
qed

lemma createsOkD:
  assumes "createsOk gm view" and "db_create gm row w = (r, w')"
  shows "r = Inl e \<Longrightarrow> view w' = view w"
    and "r = Inr row' \<Longrightarrow> view w (cu_ID row') = None \<and> view w' = (view w)(cu_ID row' \<mapsto> row') \<and> matchRow (row\<lparr>cu_ID := 0\<rparr>) row'"
  using assms unfolding createsOk_def by fastforce+

lemma restrict_restrict_same [simp]: "(m |` A) |` A = m |` A"
  by (simp add: restrict_map_def fun_eq_iff)

text \<open>A change of the rows in \<open>is\<close> that are then evicted.\<close>

lemma cacheOk_evicted:
  assumes "cacheOk view st" and "view (sw_w st') |` (- A) = view (sw_w st) |` (- A)"
    and "sc_id (sw_cache st') = sc_id (sw_cache st) |` (- A)" and "sc_all (sw_cache st') = None"
  shows "cacheOk view st'"
proof -
  have "view (sw_w st') i = view (sw_w st) i" if "i \<notin> A" for i
    using fun_cong [OF assms(2), of i] that by simp
  then show ?thesis using assms(1,3,4) by (auto simp: cacheOk_def idsOk_def restrict_map_def split: if_splits)
qed

lemma cacheOk_same:
  "cacheOk view st \<Longrightarrow> view (sw_w st') = view (sw_w st) \<Longrightarrow> sw_cache st' = sw_cache st \<Longrightarrow> cacheOk view st'"
  by (simp add: cacheOk_def rowsOf_def)

lemma cacheOk_evictIn:
  assumes "cacheOk view st" and "sw_cache st1 = sw_cache st"
    and "view (sw_w st1) |` (- {i}) = view (sw_w st) |` (- {i})"
  shows "cacheOk view (evictIn i st1)"
  by (rule cacheOk_evicted [OF assms(1), of _ "{i}"]) (use assms(2,3) in \<open>auto simp: restrict_map_def fun_eq_iff\<close>)

lemma svc_Delete_ok:
  assumes "deletesOk gm view" and "cacheOk view st"
  shows "cacheOk view (snd (svc_Delete gm i st))"
proof -
  obtain r st1 where d: "onWorld (repo_Delete gm i) st = (r, st1)" by (metis surj_pair)
  have c: "sw_cache st1 = sw_cache st" "repo_Delete gm i (sw_w st) = (r, sw_w st1)" using onWorld_facts [OF d] by auto
  have "view (sw_w st1) |` (- {i}) = view (sw_w st) |` (- {i})"
    using c(2) deletesOkD(1) [OF assms(1), of "[i]" "sw_w st"]
    by (auto simp: repo_Delete_def split: prod.splits if_splits)
  then show ?thesis using d c(1) assms(2) by (simp add: svc_Delete_def cacheOk_evictIn)
qed

lemma svc_BatchDelete_ok:
  assumes "deletesOk gm view" and ok: "cacheOk view st"
  shows "cacheOk view (snd (svc_BatchDelete gm ids st))"
proof -
  obtain r st1 where d: "onWorld (repo_BatchDelete gm ids) st = (r, st1)" by (metis surj_pair)
  have c: "sw_cache st1 = sw_cache st" "repo_BatchDelete gm ids (sw_w st) = (r, sw_w st1)" using onWorld_facts [OF d] by auto
  have v: "view (sw_w st1) |` (- set ids) = view (sw_w st) |` (- set ids)"
    "ids = [] \<Longrightarrow> view (sw_w st1) = view (sw_w st)"
    using c(2) deletesOkD(1) [OF assms(1), of ids "sw_w st"]
    by (auto simp: repo_BatchDelete_def split: prod.splits if_splits)
  show ?thesis
  proof (cases ids)
    case Nil
    then show ?thesis using d c(1) v(2) ok by (simp add: svc_BatchDelete_def cacheOk_same)
  next
    case (Cons j js)
    then have ne: "ids \<noteq> []" by simp
    have "cacheOk view (fold evictIn ids st1)"
      using v(1) by (intro cacheOk_evicted [OF ok]) (simp_all add: fold_evictIn_id fold_evictIn_all [OF ne] c(1))
    then show ?thesis using d by (simp add: svc_BatchDelete_def)
  qed
qed

lemma svc_Update_ok:
  assumes "updatesOk gm view" and ok: "cacheOk view st"
  shows "cacheOk view (snd (svc_Update gm row st))"
proof -
  obtain r st1 where d: "onWorld (repo_Update gm row) st = (r, st1)" by (metis surj_pair)
  have c: "sw_cache st1 = sw_cache st" "repo_Update gm row (sw_w st) = (r, sw_w st1)" using onWorld_facts [OF d] by auto
  have v: "view (sw_w st1) |` (- {cu_ID row}) = view (sw_w st) |` (- {cu_ID row})"
    "r \<noteq> None \<Longrightarrow> view (sw_w st1) = view (sw_w st)"
    using c(2) updatesOkD [OF assms(1), of "cu_ID row" row "sw_w st"]
    by (auto simp: repo_Update_def split: prod.splits if_splits sum.splits)
  show ?thesis
  proof (cases r)
    case None
    then show ?thesis using d c(1) v(1) ok by (simp add: svc_Update_def cacheOk_evictIn)
  next
    case (Some e)
    then show ?thesis using d c(1) v(2) ok by (simp add: svc_Update_def cacheOk_same)
  qed
qed

lemma createRow_ok:
  assumes "createsOk gm view" and ok: "cacheOk view st"
  shows "cacheOk view (snd (createRow gm row st))"
proof -
  obtain r st1 where d: "onWorld (repo_Create gm row) st = (r, st1)" by (metis surj_pair)
  have c: "sw_cache st1 = sw_cache st" "repo_Create gm row (sw_w st) = (r, sw_w st1)" using onWorld_facts [OF d] by auto
  show ?thesis
  proof (cases r)
    case (Inl e)
    then have "view (sw_w st1) = view (sw_w st)"
      using c(2) createsOkD(1) [OF assms(1), of row "sw_w st"] by (auto simp: repo_Create_def split: prod.splits sum.splits)
    then show ?thesis using d c(1) ok Inl by (simp add: createRow_def cacheOk_same)
  next
    case (Inr row')
    then have "view (sw_w st1) = (view (sw_w st))(cu_ID row' \<mapsto> row')"
      using c(2) createsOkD(2) [OF assms(1), of row "sw_w st"] by (auto simp: repo_Create_def split: prod.splits sum.splits)
    then show ?thesis using d c(1) ok Inr by (simp add: createRow_def cacheOk_evictIn fun_upd_restrict_conv)
  qed
qed

lemmas op_ok = GetAllCache_ok GetCache_ok GetCacheNs_ok svc_Delete_ok svc_BatchDelete_ok svc_Update_ok createRow_ok

lemma cache_step_ok: "cache_step gm st st' \<Longrightarrow> gormOk gm view \<Longrightarrow> cacheOk view st \<Longrightarrow> cacheOk view st'"
proof (induction rule: cache_step.induct)
  case (request st op)
  then show ?case by (cases op) (auto simp: gormOk_def intro: op_ok)
qed (auto simp: cacheOk_def expireId_def expireNs_def expireAll_def idsOk_def)

lemma cache_run_ok: "cache_run gm st st' \<Longrightarrow> gormOk gm view \<Longrightarrow> cacheOk view st \<Longrightarrow> cacheOk view st'"
  unfolding cache_run_def by (induction rule: rtranclp_induct) (auto intro: cache_step_ok)

subsection \<open>The answers\<close>


text \<open>A database in memory.\<close>

type_synonym memTable = "ClusterUserModel list"

definition memRows :: "memTable rowView" where
  "memRows t i = find (\<lambda>r. cu_ID r = i) t"

definition memFirst :: "ClusterUserModel \<Rightarrow> memTable \<Rightarrow> gerr + ClusterUserModel" where
  "memFirst c t =
     (case filter (\<lambda>r. matchRow c r \<and> memRows t (cu_ID r) = Some r) t of
        [] \<Rightarrow> Inl ''record not found'' | r # _ \<Rightarrow> Inr r)"

definition memFind :: "ClusterUserModel \<Rightarrow> memTable \<Rightarrow> ClusterUserModel list" where
  "memFind c t = filter (\<lambda>r. matchRow c r \<and> memRows t (cu_ID r) = Some r) t"

definition memCreate :: "ClusterUserModel \<Rightarrow> memTable \<Rightarrow> (gerr + ClusterUserModel) \<times> memTable" where
  "memCreate row t = (let r = row\<lparr>cu_ID := Suc (Max (insert 0 (cu_ID ` set t)))\<rparr> in (Inr r, t @ [r]))"

definition memUpdate :: "nat \<Rightarrow> ClusterUserModel \<Rightarrow> memTable \<Rightarrow> nat \<times> memTable" where
  "memUpdate i row t =
     (case memRows t i of
        None \<Rightarrow> (0, t)
      | Some old \<Rightarrow> if cu_ID row = i \<or> cu_ID row = 0 then (1, mergeRow old row # t) else (0, t))"

definition memDelete :: "nat list \<Rightarrow> memTable \<Rightarrow> (nat \<times> gerr option) \<times> memTable" where
  "memDelete ids t = ((1, None), filter (\<lambda>r. cu_ID r \<notin> set ids) t)"

definition memGorm :: "memTable gormApi" where
  "memGorm =
     \<lparr>db_first = memFirst, db_find = memFind, db_like = \<lambda>c _. memFind c, db_create = memCreate, db_update = memUpdate,
      db_kube = \<lambda>i k. memUpdate i (zeroRow\<lparr>cu_KubeConfig := k\<rparr>), db_delete = memDelete\<rparr>"

lemma memRows_Cons [simp]: "memRows (r # t) = (memRows t)(cu_ID r \<mapsto> r)"
  by (auto simp: memRows_def fun_eq_iff)

lemma memRows_Nil [simp]: "memRows [] = Map.empty"
  by (auto simp: memRows_def)

lemma memRows_id: "memRows t i = Some r \<Longrightarrow> cu_ID r = i \<and> r \<in> set t"
  by (induction t) (auto split: if_splits)

lemma memRows_append: "memRows (t @ [r]) i = (case memRows t i of Some x \<Rightarrow> Some x | None \<Rightarrow> if i = cu_ID r then Some r else None)"
  by (induction t) auto

lemma memRows_filter: "memRows (filter (\<lambda>r. cu_ID r \<notin> A) t) = memRows t |` (- A)"
  by (induction t) (auto simp: fun_eq_iff restrict_map_def)

lemma memRows_fresh: "\<forall>r\<in>set t. cu_ID r < i \<Longrightarrow> memRows t i = None"
  by (induction t) auto

lemma mem_reads: "readsOk memGorm memRows"
proof -
  have "r \<in> rowsOf memRows t \<longleftrightarrow> r \<in> set t \<and> memRows t (cu_ID r) = Some r" for r t
    by (auto simp: rowsOf_def ran_def dest: memRows_id)
  then show ?thesis
    by (auto simp: readsOk_def memGorm_def memFirst_def memFind_def dest: memRows_id dest!: filter_eq_ConsD split: list.splits)
qed

lemma mem_creates: "createsOk memGorm memRows"
proof -
  have "memRows t (Suc (Max (insert 0 (cu_ID ` set t)))) = None" for t
    by (rule memRows_fresh) (auto simp: less_Suc_eq_le intro: Max_ge)
  then show ?thesis
    by (auto simp: createsOk_def memGorm_def memCreate_def memRows_append fun_eq_iff matchRow_def split: option.splits)
qed

lemma mergeRow_id: "cu_ID row = cu_ID old \<or> cu_ID row = 0 \<Longrightarrow> cu_ID (mergeRow old row) = cu_ID old"
  by (auto simp: mergeRow_def over_def)

lemma mem_updates: "updatesOk memGorm memRows"
  by (auto simp: updatesOk_def memGorm_def memUpdate_def mergeRow_id dest: memRows_id split: option.splits)

lemma mem_deletes: "deletesOk memGorm memRows"
  by (auto simp: deletesOk_def memGorm_def memDelete_def memRows_filter)

lemma mem_table: "gormOk memGorm memRows"
  by (simp add: gormOk_def mem_reads mem_creates mem_updates mem_deletes)

definition demoRow :: ClusterUserModel where
  "demoRow = zeroRow\<lparr>cu_ID := 3, cu_UserId := 5, cu_ClusterId := 1, cu_Namespace := ''nh5abcd''\<rparr>"


text \<open>
  The entry under cluster and namespace is evicted through the entry under the id. When the
  latter has expired, a deleted dev space stays in the cache under its namespace.
\<close>

lemma stale_namespace_entry:
  "let st = runOp memGorm (OpDelete 3) (expireId 3 (runOp memGorm (OpGet 3) \<lparr>sw_cache = emptyCache, sw_w = [demoRow]\<rparr>))
   in fst (GetCacheByClusterAndNameSpace memGorm 1 ''nh5abcd'' st) = Inr demoRow \<and> memRows (sw_w st) 3 = None"
  by code_simp

end
