(* ===== verification/SpaceLifeProps.thy ===== *)
theory SpaceLifeProps
  imports SpaceLife SpaceDbProps RbacProps
begin

text \<open>
  What creation and deletion of a dev space do to the table of dev spaces and to the role bindings
  of the cluster. Operations on the cluster leave the table as it is and operations on the table
  leave the cluster as it is; \<open>clusterFrame\<close> says so of the operations of a client.
\<close>

subsection \<open>What a step keeps\<close>

definition clusterFrame :: "'w rbacApi \<Rightarrow> ('w \<Rightarrow> 'v) \<Rightarrow> bool" where
  "clusterFrame api v \<longleftrightarrow>
     (\<forall>ns n l. keeps v (saCreate api ns n l)) \<and> (\<forall>ns n s l. keeps v (tokenCreate api ns n s l)) \<and>
     (\<forall>n l rs. keeps v (crCreate api n l rs)) \<and> (\<forall>n rs. keeps v (crUpdate api n rs)) \<and>
     (\<forall>ns l. keeps v (nsCreate api ns l)) \<and> (\<forall>ns. keeps v (nsDelete api ns)) \<and>
     (\<forall>ns rb. keeps v (rbCreate api ns rb)) \<and> (\<forall>ns rb. keeps v (rbUpdate api ns rb))"

definition limitFrame :: "'w rbacApi \<Rightarrow> ('w \<Rightarrow> 'v) \<Rightarrow> bool" where
  "limitFrame api v \<longleftrightarrow>
     (\<forall>ns n l. keeps v (quotaCreate api ns n l)) \<and> (\<forall>ns n l r. keeps v (limitCreate api ns n l r))"

lemma keeps_snd: "keeps v f \<Longrightarrow> v (snd (f w)) = v w"
  by (simp add: keeps_def)

lemma onWorld_keeps: "keeps v f \<Longrightarrow> onWorld f st = (r, st') \<Longrightarrow> v (sw_w st') = v (sw_w st)"
  using onWorld_facts by (metis keepsD)

lemma snd_onWorld_keeps: "keeps v f \<Longrightarrow> v (sw_w (snd (onWorld f st))) = v (sw_w st)"
  by (metis onWorld_keeps surjective_pairing)

lemma CreateNS_keeps: "(\<And>ns l. keeps v (nsCreate api ns l)) \<Longrightarrow> keeps v (CreateNS api ns labels)"
  unfolding keeps_def CreateNS_def by (auto split: prod.splits option.splits) (metis snd_conv)+

lemma DeleteNS_keeps: "keeps v (nsDelete api ns) \<Longrightarrow> keeps v (DeleteNS api ns)"
  unfolding keeps_def DeleteNS_def by (auto split: prod.splits option.splits) (metis snd_conv)+

lemma AppendRoleBinding_keeps:
  "(\<And>ns rb. keeps v (rbCreate api ns rb)) \<Longrightarrow> (\<And>ns rb. keeps v (rbUpdate api ns rb)) \<Longrightarrow>
     keeps v (AppendRoleBinding api b ns role sa sans)"
  unfolding keeps_def AppendRoleBinding_def by (auto split: sum.splits apierr.splits)

lemma clusterFrameD:
  assumes "clusterFrame api v"
  shows "keeps v (saCreate api ns n l)" "keeps v (tokenCreate api ns n s l)" "keeps v (crCreate api n l rs)"
    "keeps v (crUpdate api n rs)" "keeps v (nsCreate api ns l)" "keeps v (nsDelete api ns)" "keeps v (rbCreate api ns rb)"
    "keeps v (rbUpdate api ns rb)"
  using assms unfolding clusterFrame_def by blast+

lemma prepared_keeps:
  assumes "clusterFrame api v" and "requestOk ev cid uid api sa"
    and "PrepareServiceAccountAndClientGo ev cid uid w = (r, w')"
  shows "v w' = v w" and "r = Inr (api', name') \<Longrightarrow> api' = api \<and> name' = sa"
proof -
  note f = clusterFrameD [OF assms(1)]
  obtain kube where ev: "ev_cluster ev cid = Inr kube" "ev_client ev kube = Inr api" "ev_user ev uid = Inr sa"
    using assms(2) by (auto simp: requestOk_def)
  show "v w' = v w" by (rule prepare_keeps(1) [OF f(1-4) ev assms(3)])
  show "r = Inr (api', name') \<Longrightarrow> api' = api \<and> name' = sa" by (rule prepare_keeps(2) [OF f(1-4) ev assms(3)])
qed

text \<open>Both authorisations: an account, which may depend on that of the user, is bound as owner.\<close>

definition grantOwner ::
  "('w, 'z) svcEnv_scheme \<Rightarrow> nat \<Rightarrow> nat \<Rightarrow> string \<Rightarrow> (string \<Rightarrow> string) \<Rightarrow> string \<Rightarrow> 'w \<Rightarrow> errno option \<times> 'w" where
  "grantOwner ev cid uid ns f sans w =
     (case PrepareServiceAccountAndClientGo ev cid uid w of
        (Inl err, w1) \<Rightarrow> (Some err, w1)
      | (Inr (api, saName), w1) \<Rightarrow>
          (case CreateNamespaceINE api ns w1 of
             (Some _, w2) \<Rightarrow> (Some ErrNameSpaceCreate, w2)
           | (None, w2) \<Rightarrow> errnoOf ErrRoleBindingCreate
               (AppendRoleBinding api NocalhostDefaultRoleBinding ns NocalhostDevRoleName (f saName) sans w2)))"

lemma authorize_grants:
  "AuthorizeNsToUser ev cid uid ns = grantOwner ev cid uid ns (\<lambda>x. x) NocalhostDefaultSaNs"
  "AuthorizeNsToDefaultSa ev cid uid ns = grantOwner ev cid uid ns (\<lambda>_. ''default'') ns"
  unfolding grantOwner_def AuthorizeNsToUser_def AuthorizeNsToDefaultSa_def CreateOrUpdateRoleBindingINE_def by (rule refl)+

lemma grantOwner_keeps:
  assumes fr: "clusterFrame api v" and rq: "requestOk ev cid uid api sa"
  shows "keeps v (grantOwner ev cid uid ns f sans)"
  unfolding keeps_def
proof
  fix w
  let ?b = NocalhostDefaultRoleBinding and ?role = NocalhostDevRoleName
  have ns: "keeps v (CreateNamespaceINE api ns)" by (rule createNs_keeps) (rule clusterFrameD(5) [OF fr])
  have app: "keeps v (AppendRoleBinding api ?b ns ?role (f sa) sans)"
    by (rule AppendRoleBinding_keeps) (rule clusterFrameD [OF fr])+
  obtain r1 w1 where p: "PrepareServiceAccountAndClientGo ev cid uid w = (r1, w1)" by (metis surj_pair)
  note q = prepared_keeps [OF fr rq p]
  show "v (snd (grantOwner ev cid uid ns f sans w)) = v w"
  proof (cases r1)
    case (Inl e)
    then show ?thesis using p q(1) by (simp add: grantOwner_def)
  next
    case (Inr x)
    then have x: "x = (api, sa)" using q(2) by (cases x) simp
    obtain e2 w2 where n: "CreateNamespaceINE api ns w1 = (e2, w2)" by (metis surj_pair)
    have "v w2 = v w1" by (rule keepsD [OF ns n])
    moreover have "v (snd (AppendRoleBinding api ?b ns ?role (f sa) sans w2)) = v w2" by (rule keeps_snd [OF app])
    ultimately show ?thesis using p q(1) Inr x n by (simp add: grantOwner_def errnoOf_def split: option.splits)
  qed
qed

lemma grantOwner_effect:
  assumes st: "rbStores api view" and rq: "requestOk ev cid uid api sa" and sa: "f sa \<noteq> []"
    and run: "grantOwner ev cid uid ns f sans w = (None, w')"
  shows "f sa \<in> snd ` set (boundTo (view w' ns) NocalhostDefaultRoleBinding)"
    and "x \<in> set (boundTo (view w ns) NocalhostDefaultRoleBinding) \<Longrightarrow> snd x \<in> snd ` set (boundTo (view w' ns) NocalhostDefaultRoleBinding)"
proof -
  let ?b = NocalhostDefaultRoleBinding
  obtain r1 w1 where p: "PrepareServiceAccountAndClientGo ev cid uid w = (r1, w1)" by (metis surj_pair)
  note q = prepared [OF st rq p]
  obtain api1 sa1 where r1: "r1 = Inr (api1, sa1)" using run p by (cases r1) (auto simp: grantOwner_def)
  have e: "api1 = api" "sa1 = sa" using q(2) [OF r1] by simp_all
  obtain e2 w2 where n: "CreateNamespaceINE api ns w1 = (e2, w2)" by (metis surj_pair)
  have v: "view w2 = view w"
    using keepsD [OF createNs_keeps [OF rb_keeps(5) [OF st]] n] q(1) by simp
  have a: "AppendRoleBinding api ?b ns NocalhostDevRoleName (f sa) sans w2 = (None, w')"
    using run p n by (cases e2) (simp_all add: grantOwner_def r1 e errnoOf_None)
  note eff = append_effect [OF st a sa]
  show one: "f sa \<in> snd ` set (boundTo (view w' ns) ?b)" by (rule eff(1))
  show "x \<in> set (boundTo (view w ns) ?b) \<Longrightarrow> snd x \<in> snd ` set (boundTo (view w' ns) ?b)"
    using eff(2) [of x] one v by (cases "x = (sans, f sa)") auto
qed

subsection \<open>Creation\<close>

lemma parseLimits_panics:
  "(n, t) \<in> set kvs \<Longrightarrow> t \<noteq> [] \<Longrightarrow> \<not> quantityOk t \<Longrightarrow> \<exists>p. parseLimits quantityOk kvs m = Panic p"
  by (induction quantityOk kvs m rule: parseLimits.induct) auto

lemma quota_keeps:
  assumes "limitFrame api v"
  shows "keeps v (createLimits quantityOk api ns r c)"
proof -
  have q: "keeps v (quotaCreate api ns n l)" and l: "keeps v (limitCreate api ns n l k)" for n l k
    using assms by (auto simp: limitFrame_def)
  have rq: "keeps v (CreateResourceQuota quantityOk api n ns r)" for n
    unfolding keeps_def CreateResourceQuota_def using keepsD [OF q] by (auto split: outcome.splits prod.splits option.splits)
  have lr: "keeps v (CreateLimitRange quantityOk api n ns r)" for n
    unfolding keeps_def CreateLimitRange_def using keepsD [OF l] by (auto split: outcome.splits prod.splits option.splits)
  have srq: "keeps v (su_CreateResourceQuota quantityOk api n ns r c)" for n c
    unfolding keeps_def su_CreateResourceQuota_def using keepsD [OF rq] by (auto split: outcome.splits prod.splits)
  have slr: "keeps v (su_CreateLimitRange quantityOk api n ns r c)" for n c
    unfolding keeps_def su_CreateLimitRange_def using keepsD [OF lr] by (auto split: outcome.splits prod.splits)
  show ?thesis
    unfolding keeps_def createLimits_def using keepsD [OF srq] keepsD [OF slr]
    by (fastforce split: outcome.splits prod.splits)
qed

lemma andThen_Inr:
  "andThen r f = (Ret (Inr b), st') \<longleftrightarrow> (\<exists>a st. r = (Ret (Inr a), st) \<and> f a st = (Ret (Inr b), st'))"
  by (auto simp: andThen_def split: prod.splits outcome.splits sum.splits)

lemma orFail_Inr: "orFail r = (Ret (Inr u), st') \<longleftrightarrow> r = (None, st')"
  by (cases r) (auto simp: orFail_def fails_def gives_def split: option.splits)

lemma step_Inr [simp]:
  "fails e st \<noteq> (Ret (Inr a), st')" "gives a st = (Ret (Inr b), st') \<longleftrightarrow> a = b \<and> st = st'"
  by (auto simp: fails_def gives_def)

lemmas success = andThen_Inr orFail_Inr

definition wantedNamespace :: "('w, 'z) lifeEnv_scheme \<Rightarrow> ClusterUserCreateRequest \<Rightarrow> userRec \<Rightarrow> string" where
  "wantedNamespace ev p u = (if rq_NameSpace p \<noteq> [] then rq_NameSpace p else GenerateNsName (le_letters ev 0) (ur_ID u))"

lemma wantedNamespace_nonempty [simp]: "wantedNamespace ev p u \<noteq> []"
  by (simp add: wantedNamespace_def GenerateNsName_def)

lemma chooseNamespace_wanted:
  "chooseNamespace ev api p u st = Inr (ns, need) \<Longrightarrow> ns = wantedNamespace ev p u \<and> (need \<longleftrightarrow> rq_NameSpace p = [])"
  by (auto simp: chooseNamespace_def wantedNamespace_def split: if_splits sum.splits apierr.splits)

lemma createDevSpace_steps:
  assumes run: "createDevSpace ev d c u st = (Ret (Inr (row, d')), st')" and base: "rq_BaseDevSpaceId (ds_Params d) = 0"
    and api: "ev_client ev (cl_KubeConfig c) = Inr api"
  obtains st1 st2 st3 where
    "st1 = st \<or> (\<exists>l. makeNamespace api (wantedNamespace ev (ds_Params d) u) l st = (Ret (Inr ()), st1))"
    "makeLimits ev api (wantedNamespace ev (ds_Params d) u) (spaceLimit (ds_Params d)) st1 = (Ret (Inr ()), st2)"
    "findOrCreateRow ev (ds_Params d) u (wantedNamespace ev (ds_Params d) u) st2 = (Ret (Inr row), st3)"
    "authorizeSpace ev c u (cu_Namespace row)
       (snd (onWorld (le_insertAppUser ev (toUint64 (rq_ApplicationId (ds_Params d))) [ur_ID u]) st3)) = (Ret (Inr ()), st')"
    "d' = d"
proof -
  have cl: "adminClient ev (cl_KubeConfig c) = Inr api" using api by (simp add: adminClient_def)
  obtain ns need where ch: "chooseNamespace ev api (ds_Params d) u st = Inr (ns, need)"
    using run cl by (cases "chooseNamespace ev api (ds_Params d) u st") (auto simp: createDevSpace_def)
  have ns: "ns = wantedNamespace ev (ds_Params d) u" using chooseNamespace_wanted [OF ch] by simp
  have mesh: "meshNamespace (ds_Params d) n = Inr (n, ds_Params d)" for n using base by (simp add: meshNamespace_def)
  show ?thesis
    using run by (auto simp: createDevSpace_def cl ch mesh ns andThen_Inr intro: that split: if_splits)
qed

definition spaceFrame :: "('w, 'z) lifeEnv_scheme \<Rightarrow> 'w rbacApi \<Rightarrow> 'w rowView \<Rightarrow> 'w nsView \<Rightarrow> bool" where
  "spaceFrame ev api rows view \<longleftrightarrow>
     clusterFrame api rows \<and> limitFrame api rows \<and> limitFrame api view \<and>
     (\<forall>row. keeps view (db_create (le_gorm ev) row)) \<and>
     (\<forall>a us. keeps rows (le_insertAppUser ev a us) \<and> keeps view (le_insertAppUser ev a us))"

lemma makeNamespace_keeps:
  assumes "\<And>ns l. keeps v (nsCreate api ns l)" and "makeNamespace api ns l st = (Ret (Inr ()), st')"
  shows "v (sw_w st') = v (sw_w st)"
  using assms(2) onWorld_keeps [OF CreateNS_keeps [OF assms(1)]]
  by (fastforce simp: makeNamespace_def split: prod.splits option.splits)

lemma makeLimits_keeps:
  assumes "limitFrame api v" and "makeLimits ev api ns res st = (Ret (Inr ()), st')"
  shows "v (sw_w st') = v (sw_w st)"
  using assms(2) onWorld_keeps [OF quota_keeps [OF assms(1)]]
  by (fastforce simp: makeLimits_def split: prod.splits outcome.splits)

lemma authorizeSpace_facts:
  assumes run: "authorizeSpace ev c u ns st = (Ret (Inr ()), st')"
    and rows: "clusterFrame api rows" and bind: "rbStores api view" and rq: "requestOk ev (cl_ID c) (ur_ID u) api sa" and sa: "sa \<noteq> []"
  shows "rows (sw_w st') = rows (sw_w st)" and "sa \<in> snd ` set (boundTo (view (sw_w st') ns) NocalhostDefaultRoleBinding)"
proof -
  obtain st1 where a: "onWorld (AuthorizeNsToUser ev (cl_ID c) (ur_ID u) ns) st = (None, st1)"
    and b: "onWorld (AuthorizeNsToDefaultSa ev (cl_ID c) (ur_ID u) ns) st1 = (None, st')"
    using run by (auto simp: authorizeSpace_def success)
  have k: "keeps rows (grantOwner ev (cl_ID c) (ur_ID u) ns f sans)" for f sans by (rule grantOwner_keeps [OF rows rq])
  show "rows (sw_w st') = rows (sw_w st)"
    using onWorld_keeps [OF k a [unfolded authorize_grants]] onWorld_keeps [OF k b [unfolded authorize_grants]] by simp
  note a1 = onWorld_facts [OF a, unfolded authorize_grants, THEN conjunct2]
  note b1 = onWorld_facts [OF b, unfolded authorize_grants, THEN conjunct2]
  have "sa \<in> snd ` set (boundTo (view (sw_w st1) ns) NocalhostDefaultRoleBinding)"
    by (rule grantOwner_effect(1) [OF bind rq sa a1])
  then show "sa \<in> snd ` set (boundTo (view (sw_w st') ns) NocalhostDefaultRoleBinding)"
    using grantOwner_effect(2) [OF bind rq _ b1] by auto
qed

lemma findOrCreateRow_facts:
  assumes tab: "gormOk (le_gorm ev) rows" and ns: "ns \<noteq> []"
    and run: "findOrCreateRow ev p u ns st = (Ret (Inr row), st')"
  shows "rows (sw_w st') (cu_ID row) = Some row" and "cu_Namespace row = ns"
    and "rows (sw_w st') = rows (sw_w st) \<or>
      rows (sw_w st) (cu_ID row) = None \<and> rows (sw_w st') = (rows (sw_w st))(cu_ID row \<mapsto> row) \<and>
      (rq_ClusterId p = Some 0 \<or> rq_ClusterId p = Some (cu_ClusterId row)) \<and> (ur_ID u = 0 \<or> cu_UserId row = ur_ID u)"
    and "(\<And>r. keeps view (db_create (le_gorm ev) r)) \<Longrightarrow> view (sw_w st') = view (sw_w st)"
proof -
  let ?gm = "le_gorm ev"
  have rd: "readsOk ?gm rows" and cr: "createsOk ?gm rows" using tab by (simp_all add: gormOk_def)
  have *: "rows (sw_w st') (cu_ID row) = Some row \<and> cu_Namespace row = ns \<and>
      (rows (sw_w st') = rows (sw_w st) \<or>
        rows (sw_w st) (cu_ID row) = None \<and> rows (sw_w st') = (rows (sw_w st))(cu_ID row \<mapsto> row) \<and>
        (rq_ClusterId p = Some 0 \<or> rq_ClusterId p = Some (cu_ClusterId row)) \<and> (ur_ID u = 0 \<or> cu_UserId row = ur_ID u)) \<and>
      ((\<forall>r. keeps view (db_create ?gm r)) \<longrightarrow> view (sw_w st') = view (sw_w st))"
  proof (cases "db_first ?gm (zeroRow\<lparr>cu_Namespace := ns\<rparr>) (sw_w st)")
    case (Inr found)
    then have "row = found" "st' = st" using run by (auto simp: findOrCreateRow_def svc_GetFirst_def repo_GetFirst_def)
    then show ?thesis using readsOk_first [OF rd Inr] ns by (simp add: matchRow_def zeroRow_def)
  next
    case (Inl e)
    obtain cid mem cpu where some: "rq_ClusterId p = Some cid" "rq_Memory p = Some mem" "rq_Cpu p = Some cpu"
      using run Inl by (auto simp: findOrCreateRow_def svc_GetFirst_def repo_GetFirst_def split: option.splits)
    let ?t = "zeroRow\<lparr>cu_ApplicationId := 0, cu_UserId := ur_ID u, cu_ClusterId := cid, cu_KubeConfig := [],
       cu_Namespace := ns, cu_SpaceName := rq_SpaceName p, cu_SpaceResourceLimit := le_limitText ev (spaceLimit p),
       cu_IsBaseSpace := rq_IsBaseSpace p, cu_Protected := rq_Protected p\<rparr>"
    have c: "createRow ?gm ?t st = (Inr row, st')"
      using run Inl some by (auto simp: findOrCreateRow_def svc_GetFirst_def repo_GetFirst_def svc_Create_def
          split: prod.splits sum.splits)
    obtain st1 where o: "onWorld (repo_Create ?gm ?t) st = (Inr row, st1)" and e: "st' = evictIn (cu_ID row) st1"
      using c by (auto simp: createRow_def split: prod.splits sum.splits)
    have db: "db_create ?gm ?t (sw_w st) = (Inr row, sw_w st1)"
      using onWorld_facts [OF o] by (auto simp: repo_Create_def split: prod.splits sum.splits)
    have "keeps view (db_create ?gm ?t) \<Longrightarrow> view (sw_w st1) = view (sw_w st)" using db by (metis keepsD)
    then show ?thesis
      using createsOkD(2) [OF cr db refl] e ns some by (auto simp: matchRow_def zeroRow_def)
  qed
  from * show "rows (sw_w st') (cu_ID row) = Some row" "cu_Namespace row = ns"
    "rows (sw_w st') = rows (sw_w st) \<or>
      rows (sw_w st) (cu_ID row) = None \<and> rows (sw_w st') = (rows (sw_w st))(cu_ID row \<mapsto> row) \<and>
      (rq_ClusterId p = Some 0 \<or> rq_ClusterId p = Some (cu_ClusterId row)) \<and> (ur_ID u = 0 \<or> cu_UserId row = ur_ID u)"
    "(\<And>r. keeps view (db_create ?gm r)) \<Longrightarrow> view (sw_w st') = view (sw_w st)"
    by blast+
qed

lemma meshNamespace_base: "meshNamespace p ns = Inr (ns', p') \<Longrightarrow> rq_BaseDevSpaceId p' = rq_BaseDevSpaceId p"
  by (auto simp: meshNamespace_def split: if_splits option.splits)

lemma ds_Create_plain:
  assumes run: "ds_Create ev d st = (Ret (Inr row), st')" and base: "rq_BaseDevSpaceId (ds_Params d) = 0"
    and adm: "rq_ClusterAdmin (ds_Params d) = None"
    and u: "le_user ev (toUint64 (rq_UserId (ds_Params d))) = Inr u"
    and c: "le_clusterGet ev (toUint64 (rq_ClusterId (ds_Params d))) = Inr c"
  obtains name d' where
    "createDevSpace ev (d\<lparr>ds_Params := (ds_Params d)\<lparr>rq_SpaceName := name\<rparr>\<rparr>) c u st = (Ret (Inr (row, d')), st')"
    "rq_BaseDevSpaceId (ds_Params d') = 0"
proof -
  obtain name where n: "chooseSpaceName ev (rq_SpaceName (ds_Params d)) c u st = Inr name"
    using run u c by (cases "chooseSpaceName ev (rq_SpaceName (ds_Params d)) c u st") (auto simp: ds_Create_def)
  let ?d = "d\<lparr>ds_Params := (ds_Params d)\<lparr>rq_SpaceName := name\<rparr>\<rparr>"
  have b: "baseSpaceOf ev (ds_Params ?d) st = Inr zeroRow" using base by (simp add: baseSpaceOf_def)
  obtain r d2 st2 where r: "createDevSpace ev ?d c u st = (Ret (Inr (r, d2)), st2)"
    and f: "(if rq_BaseDevSpaceId (ds_Params d2) > 0 then
              (case initMeshDevSpace ev d2 c r zeroRow st2 of
                 (Panic p, st3) \<Rightarrow> (Panic p, st3)
               | (Ret (None, row1, _), st3) \<Rightarrow> gives row1 st3
               | (Ret (Some _, row1, d3), st3) \<Rightarrow>
                   (case ds_Delete ev (rollbackSpace c row1 d3) st3 of
                      (Panic p, st4) \<Rightarrow> (Panic p, st4)
                    | (Ret _, st4) \<Rightarrow> fails ErrInitMeshSpaceFailed st4))
            else gives r st2) = (Ret (Inr row), st')"
    using run u c n b adm by (auto simp: ds_Create_def andThen_Inr)
  have "rq_BaseDevSpaceId (ds_Params d2) = 0"
    using r base by (auto simp: createDevSpace_def andThen_Inr dest!: meshNamespace_base split: sum.splits prod.splits)
  with r f show ?thesis by (auto intro: that)
qed


subsection \<open>Limits that are not quantities\<close>

lemma ephemeral_not_checked [simp]:
  "ValidSpaceResourceLimit (l\<lparr>rl_SpaceEphemeralStorage := t\<rparr>) = ValidSpaceResourceLimit l"
  "limit_Validate (l\<lparr>rl_SpaceEphemeralStorage := t\<rparr>) = limit_Validate l"
  by (simp_all add: ValidSpaceResourceLimit_def limitMessages_def limit_Validate_def)

lemma makeLimits_panics:
  assumes "t \<noteq> []" and "\<not> le_quantityOk ev t"
  shows "\<exists>p. makeLimits ev api ns (l\<lparr>rl_SpaceEphemeralStorage := t\<rparr>) st = (Panic p, st)"
proof -
  have "(''ephemeral-storage'', t) \<in> set (quotaTexts (l\<lparr>rl_SpaceEphemeralStorage := t\<rparr>))" by (simp add: quotaTexts_def)
  then obtain p where "parseLimits (le_quantityOk ev) (quotaTexts (l\<lparr>rl_SpaceEphemeralStorage := t\<rparr>)) Map.empty = Panic p"
    using parseLimits_panics assms by metis
  then show ?thesis
    by (simp add: makeLimits_def createLimits_def su_CreateResourceQuota_def CreateResourceQuota_def onWorld_def)
qed

text \<open>C40: A request to create a dev space whose limit for ephemeral storage is no quantity passes the
  validation, and then the creation panics: nothing checks that field before \<open>MustParse\<close>. The
  namespace has been created by then and is left behind, without a dev space and without an owner.\<close>

theorem unchecked_limit_leaves_namespace:
  assumes t: "t \<noteq> []" "\<not> le_quantityOk ev t" and l: "fst (ValidSpaceResourceLimit l)" "limit_Validate l"
    and req: "rq_SpaceResourceLimit req = Some (l\<lparr>rl_SpaceEphemeralStorage := t\<rparr>)" "rq_BaseDevSpaceId req = 0"
      "\<not> rq_IsBaseSpace req" "rq_ClusterAdmin req = None" "rq_NameSpace req = []" "rq_SpaceName req \<noteq> []"
    and name: "\<not> spaceNamed ev (rq_SpaceName req) st"
    and env: "le_user ev (toUint64 (rq_UserId req)) = Inr u" "le_clusterGet ev (toUint64 (rq_ClusterId req)) = Inr c"
      "ev_client ev (cl_KubeConfig c) = Inr api"
    and ns: "CreateNS api (wantedNamespace ev req u) (Some Map.empty) (sw_w st) = ((True, None), w')"
  shows "\<exists>p. h_Create ev (Inr req) st = (Panic p, st\<lparr>sw_w := w'\<rparr>)"
proof -
  let ?r = "req\<lparr>rq_ApplicationId := Some 0\<rparr>" and ?ns = "wantedNamespace ev req u"
  let ?d = "NewDevSpace ?r []"
  have d: "?d\<lparr>ds_Params := (ds_Params ?d)\<lparr>rq_SpaceName := rq_SpaceName req\<rparr>\<rparr> = ?d" by (simp add: NewDevSpace_def)
  have v: "rq_Validate ev req (sw_w st) = None" using l req by (simp add: rq_Validate_def)
  have cl: "adminClient ev (cl_KubeConfig c) = Inr api" using env(3) by (simp add: adminClient_def)
  have ch: "chooseNamespace ev api ?r u st = Inr (?ns, True)" using req(5) by (simp add: chooseNamespace_def wantedNamespace_def)
  have mesh: "meshNamespace ?r ?ns = Inr (?ns, ?r)" using req(2) by (simp add: meshNamespace_def)
  have mk: "makeNamespace api ?ns (spaceLabels ?r) st = (Ret (Inr ()), st\<lparr>sw_w := w'\<rparr>)"
    using ns req(2,3) by (simp add: makeNamespace_def spaceLabels_def onWorld_def gives_def)
  obtain p where p: "makeLimits ev api ?ns (spaceLimit ?r) (st\<lparr>sw_w := w'\<rparr>) = (Panic p, st\<lparr>sw_w := w'\<rparr>)"
    using makeLimits_panics [OF t, of api ?ns l "st\<lparr>sw_w := w'\<rparr>"] req(1) by (auto simp: spaceLimit_def)
  have "createDevSpace ev ?d c u st = (Panic p, st\<lparr>sw_w := w'\<rparr>)"
    using cl ch mesh mk p by (simp add: createDevSpace_def NewDevSpace_def andThen_def)
  moreover have "chooseSpaceName ev (rq_SpaceName req) c u st = Inr (rq_SpaceName req)"
    using req(6) name by (simp add: chooseSpaceName_def)
  ultimately have "ds_Create ev ?d st = (Panic p, st\<lparr>sw_w := w'\<rparr>)"
    using env(1,2) req(2,4) d by (simp add: ds_Create_def NewDevSpace_def baseSpaceOf_def andThen_def)
  then show ?thesis using v by (simp add: h_Create_def respond_def)
qed

subsection \<open>Deletion\<close>

definition deleteFrame :: "('w, 'z) lifeEnv_scheme \<Rightarrow> ('w \<Rightarrow> 'v) \<Rightarrow> bool" where
  "deleteFrame ev v \<longleftrightarrow>
     (\<forall>kube api ns. ev_client ev kube = Inr api \<longrightarrow> keeps v (nsDelete api ns)) \<and>
     (\<forall>kube. keeps v (le_manager ev kube)) \<and> (\<forall>kube i. keeps v (le_DeleteTracingHeader ev kube i))"

lemma svc_Delete_rows:
  assumes "deletesOk gm rows" and "svc_Delete gm i st = (r, st')"
  shows "rows (sw_w st') = rows (sw_w st) \<or> rows (sw_w st') = rows (sw_w st) |` (- {i})"
    and "r = None \<Longrightarrow> rows (sw_w st') = rows (sw_w st) |` (- {i})"
proof -
  obtain n e w' where d: "db_delete gm [i] (sw_w st) = ((n, e), w')" by (metis surj_pair)
  have w: "sw_w st' = w'" "r = (if n > 0 then None else e)"
    using assms(2) d by (auto simp: svc_Delete_def repo_Delete_def onWorld_def split: if_splits)
  note f = deletesOkD [OF assms(1) d]
  show "rows (sw_w st') = rows (sw_w st) \<or> rows (sw_w st') = rows (sw_w st) |` (- {i})" using f(1) w by auto
  have gone: "rows (sw_w st) = rows (sw_w st) |` (- {i})" if "rows (sw_w st) i = None"
    using that by (auto simp: fun_eq_iff restrict_map_def)
  show "r = None \<Longrightarrow> rows (sw_w st') = rows (sw_w st) |` (- {i})"
    using f(1) f(2) [of i] gone w by (auto split: if_splits)
qed

lemma deleteTracingHeader_keeps:
  assumes "deleteFrame ev v" and "deleteTracingHeader ev d st = (r, st')"
  shows "v (sw_w st') = v (sw_w st)"
    and "r = Ret (e, d') \<Longrightarrow> rq_ID (ds_Params d') = rq_ID (ds_Params d) \<and> rq_NameSpace (ds_Params d') = rq_NameSpace (ds_Params d)"
proof -
  have m: "keeps v (le_manager ev kube)" "keeps v (le_DeleteTracingHeader ev kube i)" for kube i
    using assms(1) by (auto simp: deleteFrame_def)
  have s: "rq_ID (ds_Params (setInfo i d)) = rq_ID (ds_Params d)" "rq_NameSpace (ds_Params (setInfo i d)) = rq_NameSpace (ds_Params d)" for i
    by (simp_all add: setInfo_def)
  show "v (sw_w st') = v (sw_w st)"
    using assms(2) onWorld_keeps [OF m(1)] onWorld_keeps [OF m(2)]
    by (fastforce simp: deleteTracingHeader_def split: if_splits sum.splits option.splits prod.splits)
  show "r = Ret (e, d') \<Longrightarrow> rq_ID (ds_Params d') = rq_ID (ds_Params d) \<and> rq_NameSpace (ds_Params d') = rq_NameSpace (ds_Params d)"
    using assms(2) s by (auto simp: deleteTracingHeader_def split: if_splits sum.splits option.splits prod.splits)
qed

lemma ds_Delete_rows:
  assumes del: "deletesOk (le_gorm ev) rows" and fr: "deleteFrame ev rows" and i: "rq_ID (ds_Params d) = Some i"
    and run: "ds_Delete ev d st = (r, st')"
  shows "rows (sw_w st') = rows (sw_w st) \<or> rows (sw_w st') = rows (sw_w st) |` (- {i})"
    and "r = Ret (Inr d') \<Longrightarrow> rows (sw_w st') = rows (sw_w st) |` (- {i})"
proof -
  have *: "(rows (sw_w st') = rows (sw_w st) \<or> rows (sw_w st') = rows (sw_w st) |` (- {i})) \<and>
      (\<forall>d'. r = Ret (Inr d') \<longrightarrow> rows (sw_w st') = rows (sw_w st) |` (- {i}))"
  proof (cases "adminClient ev (ds_KubeConfig d)")
    case (Inl e)
    then show ?thesis using run by (auto simp: ds_Delete_def fails_def)
  next
    case (Inr api)
    then have api: "ev_client ev (ds_KubeConfig d) = Inr api" by (auto simp: adminClient_def split: sum.splits)
    obtain r1 st1 where h: "(if rq_BaseDevSpaceId (ds_Params d) > 0 then deleteTracingHeader ev d st else (Ret (None, d), st)) = (r1, st1)"
      by (metis surj_pair)
    have k1: "rows (sw_w st1) = rows (sw_w st)"
      using h deleteTracingHeader_keeps(1) [OF fr] by (auto split: if_splits)
    have id: "rq_ID (ds_Params d1) = Some i" if "r1 = Ret (e, d1)" for e d1
      using h i that deleteTracingHeader_keeps(2) [OF fr, of d st _ _ e d1] by (auto split: if_splits)
    show ?thesis
    proof (cases r1)
      case (Panic p)
      then show ?thesis using run Inr h k1 by (auto simp: ds_Delete_def)
    next
      case (Ret x)
      obtain e d1 where x: "x = (e, d1)" by (cases x)
      show ?thesis
      proof (cases e)
        case (Some m)
        then show ?thesis using run Inr h k1 Ret x by (auto simp: ds_Delete_def fails_def)
      next
        case None
        let ?st2 = "snd (onWorld (DeleteNS api (rq_NameSpace (ds_Params d1))) st1)"
        have "keeps rows (nsDelete api ns)" for ns using fr api by (auto simp: deleteFrame_def)
        then have k2: "rows (sw_w ?st2) = rows (sw_w st)" using k1 snd_onWorld_keeps [OF DeleteNS_keeps] by metis
        obtain r3 st3 where s: "svc_Delete (le_gorm ev) i ?st2 = (r3, st3)" by (metis surj_pair)
        have "rq_ID (ds_Params d1) = Some i" using id Ret x by blast
        then have "st' = st3 \<and> (\<forall>d'. r = Ret (Inr d') \<longrightarrow> r3 = None)"
          using run Inr h Ret x None s by (auto simp: ds_Delete_def fails_def gives_def split: option.splits)
        then show ?thesis using svc_Delete_rows [OF del s] k2 by auto
      qed
    qed
  qed
  then show "rows (sw_w st') = rows (sw_w st) \<or> rows (sw_w st') = rows (sw_w st) |` (- {i})"
    "r = Ret (Inr d') \<Longrightarrow> rows (sw_w st') = rows (sw_w st) |` (- {i})" by blast+
qed

lemma deleteSpaces_rows:
  assumes "deletesOk (le_gorm ev) rows" and "deleteFrame ev rows" and "deleteSpaces ev spaces st = (r, st')"
  shows "rows (sw_w st') j = rows (sw_w st) j \<or> rows (sw_w st') j = None \<and> j \<in> cu_ID ` set spaces"
  using assms(3)
proof (induction spaces arbitrary: st)
  case (Cons space rest)
  show ?case
  proof (cases "ev_cluster ev (cu_ClusterId space)")
    case (Inl e)
    then show ?thesis using Cons by auto
  next
    case (Inr kube)
    let ?d = "NewDevSpace ((deleteReq space)\<lparr>rq_IsBaseSpace := False\<rparr>) kube"
    obtain r1 st1 where d: "ds_Delete ev ?d st = (r1, st1)" by (metis surj_pair)
    have "rows (sw_w st1) = rows (sw_w st) \<or> rows (sw_w st1) = rows (sw_w st) |` (- {cu_ID space})"
      by (rule ds_Delete_rows(1) [OF assms(1,2) _ d]) (simp add: NewDevSpace_def deleteReq_def)
    then have one: "rows (sw_w st1) j = rows (sw_w st) j \<or> rows (sw_w st1) j = None \<and> j = cu_ID space"
      by (auto simp: restrict_map_def split: if_splits)
    show ?thesis
    proof (cases r1)
      case (Panic p)
      then show ?thesis using Cons.prems Inr d one by auto
    next
      case (Ret x)
      then have "deleteSpaces ev rest st1 = (r, st')" using Cons.prems Inr d by simp
      from Cons.IH [OF this] one show ?thesis by auto
    qed
  qed
qed simp

lemma deleteShareSpaces_rows:
  assumes del: "deletesOk (le_gorm ev) rows" and rd: "readsOk (le_gorm ev) rows" and fr: "deleteFrame ev rows" and i: "i \<noteq> 0"
    and run: "deleteShareSpaces ev i st = (r, st')"
  shows "rows (sw_w st') j = rows (sw_w st) j \<or>
    rows (sw_w st') j = None \<and> (\<exists>x. rows (sw_w st) j = Some x \<and> cu_BaseDevSpaceId x = i)"
proof (cases "svc_GetList (le_gorm ev) (zeroRow\<lparr>cu_BaseDevSpaceId := i\<rparr>) st")
  case (Inl e)
  then show ?thesis using run by (simp add: deleteShareSpaces_def)
next
  case (Inr spaces)
  let ?c = "zeroRow\<lparr>cu_BaseDevSpaceId := i\<rparr>"
  have "deleteSpaces ev spaces st = (r, st')" using run Inr by (simp add: deleteShareSpaces_def)
  note * = deleteSpaces_rows [OF del fr this, of j]
  have "db_find (le_gorm ev) ?c (sw_w st) = [] \<or>
      set (db_find (le_gorm ev) ?c (sw_w st)) = {r \<in> rowsOf rows (sw_w st). matchRow ?c r}"
    using rd unfolding readsOk_def by blast
  then have "set spaces \<subseteq> {r \<in> rowsOf rows (sw_w st). matchRow ?c r}"
    using Inr by (auto simp: svc_GetList_def repo_GetList_def split: if_splits)
  then have "rows (sw_w st) (cu_ID x) = Some x \<and> cu_BaseDevSpaceId x = i" if "x \<in> set spaces" for x
    using that rowsOf_iff [OF rd] i by (auto simp: matchRow_def zeroRow_def)
  with * show ?thesis by (auto simp: image_iff)
qed

lemma GetCache_row:
  assumes "readsOk gm rows" and "cacheOk rows st" and "i \<noteq> 0" and "GetCache gm i st = (Inr cu, st1)"
  shows "rows (sw_w st) i = Some cu" and "cu_ID cu = i" and "sw_w st1 = sw_w st"
proof -
  show r: "rows (sw_w st) i = Some cu"
    using assms readsOk_first [OF assms(1), of "zeroRow\<lparr>cu_ID := i\<rparr>" "sw_w st"]
    by (auto simp: GetCache_def repo_GetFirst_def cacheOk_def idsOk_def split: option.splits sum.splits)
  then show "cu_ID cu = i" using assms(1) unfolding readsOk_def by blast
  show "sw_w st1 = sw_w st"
    using assms(4) by (auto simp: GetCache_def repo_GetFirst_def split: option.splits sum.splits)
qed

lemma deleteNsSpace_rows:
  assumes tab: "gormOk (le_gorm ev) rows" and fr: "deleteFrame ev rows" and i: "i \<noteq> 0" "cu_ID cu = i"
    and run: "deleteNsSpace ev i cu st = (Ret (Inr ()), st')"
  shows "rows (sw_w st') i = None"
    and "j \<noteq> i \<Longrightarrow> rows (sw_w st') j = rows (sw_w st) j \<or>
      rows (sw_w st') j = None \<and> cu_IsBaseSpace cu \<and> (\<exists>x. rows (sw_w st) j = Some x \<and> cu_BaseDevSpaceId x = i)"
proof -
  have del: "deletesOk (le_gorm ev) rows" and rd: "readsOk (le_gorm ev) rows" using tab by (simp_all add: gormOk_def)
  obtain c where c: "le_clusterGet ev (cu_ClusterId cu) = Inr c"
    using run by (auto simp: deleteNsSpace_def split: sum.splits)
  obtain d' st1 where d: "ds_Delete ev (NewDevSpace (deleteReq cu) (cl_KubeConfig c)) st = (Ret (Inr d'), st1)"
    and s: "(if cu_IsBaseSpace cu then
               (case deleteShareSpaces ev i st1 of (Panic p, st2) \<Rightarrow> (Panic p, st2) | (Ret _, st2) \<Rightarrow> gives () st2)
             else gives () st1) = (Ret (Inr ()), st')"
    using run c by (auto simp: deleteNsSpace_def andThen_Inr)
  have one: "rows (sw_w st1) = rows (sw_w st) |` (- {i})"
    by (rule ds_Delete_rows(2) [OF del fr _ d]) (simp_all add: NewDevSpace_def deleteReq_def i)
  have rest: "rows (sw_w st') k = rows (sw_w st1) k \<or>
      rows (sw_w st') k = None \<and> cu_IsBaseSpace cu \<and> (\<exists>x. rows (sw_w st1) k = Some x \<and> cu_BaseDevSpaceId x = i)" for k
  proof (cases "cu_IsBaseSpace cu")
    case True
    obtain r2 st2 where sh: "deleteShareSpaces ev i st1 = (r2, st2)" by (metis surj_pair)
    have "st2 = st'" using s True sh by (cases r2) auto
    then show ?thesis using deleteShareSpaces_rows [OF del rd fr i(1) sh, of k] True by auto
  next
    case False
    then show ?thesis using s by simp
  qed
  show "rows (sw_w st') i = None" using rest [of i] one by auto
  show "j \<noteq> i \<Longrightarrow> rows (sw_w st') j = rows (sw_w st) j \<or>
      rows (sw_w st') j = None \<and> cu_IsBaseSpace cu \<and> (\<exists>x. rows (sw_w st) j = Some x \<and> cu_BaseDevSpaceId x = i)"
    using rest [of j] one by auto
qed

text \<open>C9: When a request to delete a dev space of a namespace is answered without an error, the
  user was logged in and is an administrator or the creator of the cluster, the dev space was not
  protected, and its row is gone. No other row changes except that the share spaces of a deleted
  base space may go with it.\<close>

theorem deleted_space_is_gone:
  assumes tab: "gormOk (le_gorm ev) rows" and fr: "deleteFrame ev rows" and ok: "cacheOk rows st" and i: "i \<noteq> 0"
    and row: "rows (sw_w st) i = Some cu" "\<not> IsClusterAdmin cu"
    and run: "h_Delete ev cw login ctxAdmin i st = (Ret (Inr ()), st')"
  shows "\<not> cu_Protected cu \<and> (\<exists>u. login = Some u \<and> (ctxAdmin \<or> sp_creator ev (cu_ClusterId cu) = Inr u)) \<and>
    rows (sw_w st') i = None \<and>
    (\<forall>j. j \<noteq> i \<longrightarrow> rows (sw_w st') j = rows (sw_w st) j \<or>
       rows (sw_w st') j = None \<and> cu_IsBaseSpace cu \<and> (\<exists>x. rows (sw_w st) j = Some x \<and> cu_BaseDevSpaceId x = i))"
proof -
  have rd: "readsOk (le_gorm ev) rows" using tab by (simp add: gormOk_def)
  obtain g st1 where g: "GetCache (le_gorm ev) i st = (g, st1)" by (metis surj_pair)
  obtain cu1 where g1: "g = Inr cu1"
    and p: "\<exists>u. login = Some u \<and> (ctxAdmin \<or> sp_creator ev (cu_ClusterId cu1) = Inr u)"
    and d: "(if cu_Protected cu1 then fails ErrProtectedSpaceReSet st1
       else if IsClusterAdmin cu1 then deleteAdminSpace ev cw i cu1 st1
       else deleteNsSpace ev i cu1 st1) = (Ret (Inr ()), st')"
    using run g by (auto simp: h_Delete_def andThen_Inr withPrivilege_def HasPrivilegeToSomeDevSpace_def
        split: sum.splits option.splits if_splits)
  note c = GetCache_row [OF rd ok i g [unfolded g1]]
  have e: "cu1 = cu" using c(1) row(1) by simp
  then have n: "deleteNsSpace ev i cu st1 = (Ret (Inr ()), st')" "\<not> cu_Protected cu"
    using d row(2) by (auto split: if_splits)
  note f = deleteNsSpace_rows [OF tab fr i _ n(1)]
  show ?thesis using f c(2,3) e p n(2) by simp
qed

subsection \<open>A cluster and a table in memory\<close>

type_synonym memLife = "memCluster \<times> memTable"

definition onFst :: "('a \<Rightarrow> 'r \<times> 'a) \<Rightarrow> 'a \<times> 'b \<Rightarrow> 'r \<times> 'a \<times> 'b" where
  "onFst f w = (case f (fst w) of (r, a) \<Rightarrow> (r, a, snd w))"

definition onSnd :: "('b \<Rightarrow> 'r \<times> 'b) \<Rightarrow> 'a \<times> 'b \<Rightarrow> 'r \<times> 'a \<times> 'b" where
  "onSnd f w = (case f (snd w) of (r, b) \<Rightarrow> (r, fst w, b))"

definition lifeRbac :: "memLife rbacApi" where
  "lifeRbac =
     \<lparr>rbGet = \<lambda>ns n w. rbGet memRbac ns n (fst w), rbCreate = \<lambda>ns rb. onFst (memPut ns rb),
      rbUpdate = \<lambda>ns rb. onFst (memPut ns rb), crbGet = \<lambda>n w. crbGet memRbac n (fst w),
      crbCreate = \<lambda>rb. onFst (memPutCluster rb), crbUpdate = \<lambda>rb. onFst (memPutCluster rb),
      roleGet = \<lambda>_ _ _. Inr [], roleCreate = \<lambda>_ _ _ w. (None, w), roleUpdate = \<lambda>_ _ _ w. (None, w),
      crGet = \<lambda>_ _. Inr [], crCreate = \<lambda>_ _ _ w. (None, w), crUpdate = \<lambda>_ _ w. (None, w),
      saGet = \<lambda>_ _ _. Inr None, saCreate = \<lambda>_ _ _ w. (None, w), saUpdate = \<lambda>_ _ _ w. (None, w),
      tokenCreate = \<lambda>_ _ _ _ w. (None, w), nsCreate = \<lambda>_ _ w. (None, w), nsDelete = \<lambda>_ w. (None, w),
      saDelete = \<lambda>_ _ w. (None, w), nsGet = \<lambda>_ _. Inr None, quotaCreate = \<lambda>_ _ _ w. (None, w),
      quotaDelete = \<lambda>_ _ w. (None, w), limitCreate = \<lambda>_ _ _ _ w. (None, w), limitDelete = \<lambda>_ _ w. (None, w),
      istioGet = \<lambda>_. None, nowStamp = \<lambda>_. ''20220501100000''\<rparr>"

definition lifeGorm :: "memLife gormApi" where
  "lifeGorm =
     \<lparr>db_first = \<lambda>c w. memFirst c (snd w), db_find = \<lambda>c w. memFind c (snd w), db_like = \<lambda>c _ w. memFind c (snd w),
      db_create = \<lambda>row. onSnd (memCreate row), db_update = \<lambda>i row. onSnd (memUpdate i row),
      db_kube = \<lambda>i k. onSnd (memUpdate i (zeroRow\<lparr>cu_KubeConfig := k\<rparr>)), db_delete = \<lambda>ids. onSnd (memDelete ids)\<rparr>"

definition lifeRows :: "memLife rowView" where
  "lifeRows w = memRows (snd w)"

definition lifeView :: "memLife nsView" where
  "lifeView w = memView (fst w)"

lemma onSnd_world: "onSnd f w = (r, w') \<longleftrightarrow> fst w' = fst w \<and> f (snd w) = (r, snd w')"
  by (cases w') (auto simp: onSnd_def split: prod.splits)

lemma onFst_world: "onFst f w = (r, w') \<longleftrightarrow> snd w' = snd w \<and> f (fst w) = (r, fst w')"
  by (cases w') (auto simp: onFst_def split: prod.splits)

lemma life_table: "gormOk lifeGorm lifeRows"
proof -
  have "readsOk lifeGorm lifeRows"
    using mem_reads by (simp add: readsOk_def lifeGorm_def lifeRows_def rowsOf_def memGorm_def)
  moreover have "createsOk lifeGorm lifeRows"
    using mem_creates unfolding createsOk_def lifeGorm_def lifeRows_def memGorm_def gormApi.simps onSnd_world by blast
  moreover have "updatesOk lifeGorm lifeRows"
    using mem_updates by (simp add: updatesOk_def lifeGorm_def lifeRows_def memGorm_def onSnd_world)
  moreover have "deletesOk lifeGorm lifeRows"
    using mem_deletes by (simp add: deletesOk_def lifeGorm_def lifeRows_def memGorm_def onSnd_world)
  ultimately show ?thesis by (simp add: gormOk_def)
qed

lemma life_bindings: "rbStores lifeRbac lifeView"
  by (auto simp: rbStores_def lifeRbac_def memRbac_def memPut_def memView_def lifeView_def onFst_def fun_eq_iff
      split: option.splits)

definition demoReq :: ClusterUserCreateRequest where
  "demoReq =
     \<lparr>rq_ID = None, rq_ClusterId = Some 1, rq_UserId = Some 5, rq_SpaceName = ''space'', rq_Memory = Some 0, rq_Cpu = Some 0,
      rq_ApplicationId = None, rq_ClusterAdmin = None, rq_NameSpace = [], rq_SpaceResourceLimit = None,
      rq_BaseDevSpaceId = 0, rq_MeshDevInfo = None, rq_IsBaseSpace = False, rq_Protected = False\<rparr>"

text \<open>Bob creates a dev space in the one cluster; texts of digits are quantities.\<close>

definition demoLife :: "memLife lifeEnv" where
  "demoLife = spaceEnv.extend (svcEnv.extend
     \<lparr>ev_cluster = \<lambda>_. Inr ''kube'', ev_client = \<lambda>_. Inr lifeRbac, ev_user = \<lambda>u. Inr (if u = 7 then ''sa-ann'' else ''sa-bob''),
      ev_order = [DevRole, CooperatorRole, ViewerRole], ev_takesErr = True\<rparr>
     \<lparr>sp_devSpace = \<lambda>_. Inl ''record not found'', sp_creator = \<lambda>_. Inr 5, sp_isAdmin = \<lambda>_. Inr None,
      sp_nsOrder = \<lambda>_. [], sp_saOrder = \<lambda>_. [],
      sp_arr = \<lambda>_. [], sp_userBySa = \<lambda>_. Inl ''record not found'',
      sp_userById = \<lambda>_. Inl ''record not found'', sp_clusters = Inr [], sp_limitOf = \<lambda>_. spaceLimit demoReq,
      sp_sortSpaces = \<lambda>_ cus. Ret cus, sp_sortNs = \<lambda>_ nss. nss, sp_sortCtx = \<lambda>_ cs. cs,
      sp_spaceOrder = \<lambda>_. []\<rparr>)
     \<lparr>le_gorm = lifeGorm, le_user = \<lambda>u. Inr \<lparr>ur_ID = u, ur_Name = ''bob''\<rparr>,
      le_clusterGet = \<lambda>c. Inr \<lparr>cl_ID = c, cl_Name = ''test'', cl_KubeConfig = ''kube''\<rparr>, le_adminErr = \<lambda>_. None,
      le_quantityOk = list_all (\<lambda>c. c \<in> set ''0123456789''), le_dnsLabel = \<lambda>_. True, le_limitText = rl_SpaceReqMem,
      le_letters = \<lambda>n. [n, 1, 2, 3], le_insertAppUser = \<lambda>_ _ w. (None, w), le_manager = \<lambda>_ w. (None, w),
      le_InitMeshDevSpace = \<lambda>_ i w. ((None, i), w), le_UpdateMeshDevSpace = \<lambda>_ i w. ((None, i), w),
      le_DeleteTracingHeader = \<lambda>_ i w. ((None, i), w), le_Rollback = \<lambda>_ i w. ((None, i), w)\<rparr>"

lemma demo_life [simp]:
  "le_gorm demoLife = lifeGorm" "ev_client demoLife k = Inr lifeRbac"
  "le_user demoLife u = Inr \<lparr>ur_ID = u, ur_Name = ''bob''\<rparr>"
  "le_clusterGet demoLife c = Inr \<lparr>cl_ID = c, cl_Name = ''test'', cl_KubeConfig = ''kube''\<rparr>"
  "requestOk demoLife c 5 lifeRbac ''sa-bob''"
  by (simp_all add: demoLife_def spaceEnv.extend_def svcEnv.extend_def requestOk_def)

lemma onFst_keeps [simp]: "keeps v f \<Longrightarrow> keeps (\<lambda>w. v (fst w)) (onFst f)" "keeps (\<lambda>w. v (snd w)) (onFst g)"
  by (auto simp: keeps_def onFst_def split: prod.splits) (metis snd_conv)

lemma onSnd_keeps [simp]: "keeps (\<lambda>w. v (fst w)) (onSnd g)"
  by (auto simp: keeps_def onSnd_def split: prod.splits)

lemma keeps_Pair [simp]: "keeps v (Pair r)"
  by (simp add: keeps_def)

lemma demo_frames: "spaceFrame demoLife lifeRbac lifeRows lifeView" "deleteFrame demoLife lifeRows"
proof -
  have v: "lifeView = (\<lambda>w. memView (fst w))" and r: "lifeRows = (\<lambda>w. memRows (snd w))"
    by (simp_all add: fun_eq_iff lifeView_def lifeRows_def)
  show "spaceFrame demoLife lifeRbac lifeRows lifeView"
    unfolding v r spaceFrame_def clusterFrame_def limitFrame_def
    by (simp add: lifeRbac_def lifeGorm_def) (simp add: demoLife_def spaceEnv.extend_def svcEnv.extend_def)
  show "deleteFrame demoLife lifeRows"
    unfolding r deleteFrame_def
    by (simp add: lifeRbac_def) (simp add: demoLife_def spaceEnv.extend_def svcEnv.extend_def)
qed

definition lifeStart :: "memTable \<Rightarrow> memLife spaceWorld" where
  "lifeStart t = \<lparr>sw_cache = emptyCache, sw_w = (\<lparr>mc_rb = \<lambda>_. Map.empty, mc_crb = Map.empty\<rparr>, t)\<rparr>"


text \<open>The row of another user in another cluster, when it has the namespace that is asked for.\<close>

lemma foreign_space_is_taken:
  "fst (ds_Create demoLife (NewDevSpace (demoReq\<lparr>rq_NameSpace := ''nh5abcd''\<rparr>) [])
     (lifeStart [demoRow\<lparr>cu_ClusterId := 2, cu_UserId := 9\<rparr>])) = Ret (Inr (demoRow\<lparr>cu_ClusterId := 2, cu_UserId := 9\<rparr>))"
  by code_simp

theorem unchecked_limit_leaves_namespace_witness:
  "\<exists>p st'. h_Create demoLife (Inr (demoReq\<lparr>rq_SpaceResourceLimit :=
     Some ((spaceLimit demoReq)\<lparr>rl_SpaceEphemeralStorage := ''much''\<rparr>)\<rparr>)) (lifeStart []) = (Panic p, st')"
proof -
  let ?l = "(spaceLimit demoReq)\<lparr>rl_SpaceEphemeralStorage := ''much''\<rparr>"
  let ?req = "demoReq\<lparr>rq_SpaceResourceLimit := Some ?l\<rparr>"
  have t: "''much'' \<noteq> []" "\<not> le_quantityOk demoLife ''much''" by simp code_simp
  have l: "fst (ValidSpaceResourceLimit (spaceLimit demoReq))" "limit_Validate (spaceLimit demoReq)" by code_simp+
  have name: "\<not> spaceNamed demoLife (rq_SpaceName ?req) (lifeStart [])" by code_simp
  have ns: "CreateNS lifeRbac (wantedNamespace demoLife ?req \<lparr>ur_ID = 5, ur_Name = ''bob''\<rparr>) (Some Map.empty) (sw_w (lifeStart [])) =
      ((True, None), sw_w (lifeStart []))"
    by (simp add: CreateNS_def lifeRbac_def)
  show ?thesis
    using unchecked_limit_leaves_namespace [OF t l _ _ _ _ _ _ name _ _ _ ns]
    by (simp add: demoReq_def toUint64_def) blast
qed

text \<open>The creator of the cluster deletes a base space, which takes its share space with it.\<close>

theorem deleted_space_is_gone_witness:
  "let base = demoRow\<lparr>cu_IsBaseSpace := True\<rparr>; share = demoRow\<lparr>cu_ID := 4, cu_Namespace := ''nh5efgh'', cu_BaseDevSpaceId := 3\<rparr>;
       other = demoRow\<lparr>cu_ID := 6, cu_Namespace := ''nh5ijkl''\<rparr>
   in \<exists>st'. h_Delete demoLife (\<lambda>_. Map.empty) (Some 5) False 3 (lifeStart [base, share, other]) = (Ret (Inr ()), st') \<and>
        lifeRows (sw_w st') 3 = None \<and> lifeRows (sw_w st') 6 = Some other"
proof -
  let ?base = "demoRow\<lparr>cu_IsBaseSpace := True\<rparr>" and ?other = "demoRow\<lparr>cu_ID := 6, cu_Namespace := ''nh5ijkl''\<rparr>"
  let ?st = "lifeStart [?base, demoRow\<lparr>cu_ID := 4, cu_Namespace := ''nh5efgh'', cu_BaseDevSpaceId := 3\<rparr>, ?other]"
  have "fst (h_Delete demoLife (\<lambda>_. Map.empty) (Some 5) False 3 ?st) = Ret (Inr ())" by code_simp
  then obtain st' where run: "h_Delete demoLife (\<lambda>_. Map.empty) (Some 5) False 3 ?st = (Ret (Inr ()), st')"
    by (metis prod.collapse)
  have row: "lifeRows (sw_w ?st) 3 = Some ?base" "\<not> IsClusterAdmin ?base" and other: "lifeRows (sw_w ?st) 6 = Some ?other"
    by code_simp+
  have ok: "cacheOk lifeRows ?st" by (simp add: cacheOk_def idsOk_def lifeStart_def emptyCache_def)
  have six: "cu_BaseDevSpaceId ?other = 0" by (simp add: demoRow_def zeroRow_def)
  have "(3::nat) \<noteq> 0" by simp
  note gone = deleted_space_is_gone [OF life_table [folded demo_life(1)] demo_frames(2) ok this row run]
  have "lifeRows (sw_w st') 6 = Some ?other"
    using gone [THEN conjunct2, THEN conjunct2, THEN conjunct2, rule_format, of 6] other six by auto
  then show ?thesis using gone run by (simp add: Let_def)
qed

end
