(* ===== verification/Users.thy ===== *)
theory Users
  imports GoStrings
begin

text \<open>
  The users of the API server: their table (\<open>src/internal/nocalhost-api/repository/user\<close>), the service
  with its cache (\<open>src/internal/nocalhost-api/service/user/user_service.go\<close>) and the pool of connections
  to an LDAP server (\<open>src/internal/nocalhost-api/service/ldap/ldap_worker_service.go\<close>). The object mapper,
  the hash of passwords and the LDAP client are parameters. Times of creation and update are left out.
\<close>

subsection \<open>Users and their table\<close>

record UserBaseModel =
  u_ID :: nat
  u_Uuid :: string
  u_SaName :: string
  u_Name :: string
  u_Username :: string
  u_Password :: string
  u_Phone :: int
  u_Email :: string
  u_LdapDN :: string
  u_LdapGen :: nat
  u_IsAdmin :: "nat option"
  u_Status :: "nat option"
  u_ClusterAdmin :: "nat option"
  u_Avatar :: string

definition zeroUser :: UserBaseModel where
  "zeroUser =
     \<lparr>u_ID = 0, u_Uuid = [], u_SaName = [], u_Name = [], u_Username = [], u_Password = [], u_Phone = 0, u_Email = [],
      u_LdapDN = [], u_LdapGen = 0, u_IsAdmin = None, u_Status = None, u_ClusterAdmin = None, u_Avatar = []\<rparr>"

text \<open>
  A read finds a row, finds none or fails. \<open>ud_update k u\<close> writes the fields of \<open>u\<close> that are set to
  the row with key \<open>k\<close>. \<open>ud_after i n\<close> are the first \<open>n\<close> rows with larger ids, \<open>ud_setGen\<close> and
  \<open>ud_disable\<close> the statements of the LDAP synchronisation. The last four are the hash, its comparison, the random letters of a service
  account and a new UUID.
\<close>

record 'w userApi =
  ud_byId :: "nat \<Rightarrow> 'w \<Rightarrow> gerr + UserBaseModel option"
  ud_bySa :: "string \<Rightarrow> 'w \<Rightarrow> gerr + UserBaseModel option"
  ud_byEmail :: "string \<Rightarrow> 'w \<Rightarrow> gerr + UserBaseModel option"
  ud_create :: "UserBaseModel \<Rightarrow> 'w \<Rightarrow> (gerr + UserBaseModel) \<times> 'w"
  ud_update :: "nat \<Rightarrow> UserBaseModel \<Rightarrow> 'w \<Rightarrow> gerr option \<times> 'w"
  ud_delete :: "nat \<Rightarrow> 'w \<Rightarrow> nat \<times> 'w"
  ud_setSa :: "nat \<Rightarrow> string \<Rightarrow> 'w \<Rightarrow> gerr option \<times> 'w"
  ud_after :: "nat \<Rightarrow> nat \<Rightarrow> 'w \<Rightarrow> UserBaseModel list"
  ud_setGen :: "nat list \<Rightarrow> nat \<Rightarrow> 'w \<Rightarrow> nat \<times> 'w"
  ud_creates :: "UserBaseModel list \<Rightarrow> 'w \<Rightarrow> gerr option \<times> 'w"
  ud_disable :: "nat \<Rightarrow> 'w \<Rightarrow> (gerr + nat) \<times> 'w"
  ud_hash :: "string \<Rightarrow> gerr + string"
  ud_compare :: "string \<Rightarrow> string \<Rightarrow> gerr option"
  ud_saLetters :: "'w \<Rightarrow> nat list"
  ud_uuid :: "'w \<Rightarrow> string"

definition recordNotFound :: gerr where
  "recordNotFound = ''record not found''"

text \<open>The row that is not there is the zero row, without an error.\<close>

definition ur_GetUserByID :: "'w userApi \<Rightarrow> nat \<Rightarrow> 'w \<Rightarrow> gerr + UserBaseModel" where
  "ur_GetUserByID db uid w =
     (case ud_byId db uid w of
        Inl err \<Rightarrow> Inl (wrap ''[repo.user_base] get user data err'' err)
      | Inr None \<Rightarrow> Inr zeroUser
      | Inr (Some u) \<Rightarrow> Inr u)"

definition ur_GetUserBySa :: "'w userApi \<Rightarrow> string \<Rightarrow> 'w \<Rightarrow> gerr + UserBaseModel" where
  "ur_GetUserBySa db sa w =
     (case ud_bySa db sa w of
        Inl err \<Rightarrow> Inl (wrap ''[user_repo] get user err by sa_name'' err)
      | Inr None \<Rightarrow> Inl (wrap ''[user_repo] get user err by sa_name'' recordNotFound)
      | Inr (Some u) \<Rightarrow> Inr u)"

definition ur_GetUserByEmail :: "'w userApi \<Rightarrow> string \<Rightarrow> 'w \<Rightarrow> gerr + UserBaseModel" where
  "ur_GetUserByEmail db email w =
     (case ud_byEmail db email w of
        Inl err \<Rightarrow> Inl err
      | Inr None \<Rightarrow> Inl recordNotFound
      | Inr (Some u) \<Rightarrow> Inr u)"

definition ur_Create :: "'w userApi \<Rightarrow> UserBaseModel \<Rightarrow> 'w \<Rightarrow> (gerr + UserBaseModel) \<times> 'w" where
  "ur_Create db user w =
     (case ud_create db user w of
        (Inl err, w1) \<Rightarrow> (Inl (wrap ''[user_repo] create user err'' err), w1)
      | (Inr u, w1) \<Rightarrow> (Inr u, w1))"

text \<open>A failed read is a nil pointer whose id is compared.\<close>

definition nilUser :: string where
  "nilUser = ''invalid memory address or nil pointer dereference''"

definition ur_Update :: "'w userApi \<Rightarrow> nat \<Rightarrow> UserBaseModel \<Rightarrow> 'w \<Rightarrow> gerr option outcome \<times> 'w" where
  "ur_Update db i userMap w =
     (case ur_GetUserByID db i w of
        Inl _ \<Rightarrow> (Panic nilUser, w)
      | Inr user \<Rightarrow>
          if u_ID user \<noteq> i then (Ret (Some ''[user_repo] user is not exsit.''), w)
          else (case ud_update db (u_ID user) userMap w of
              (Some err, w1) \<Rightarrow> (Ret (Some (wrap ''[user_repo] update user data error'' err)), w1)
            | (None, w1) \<Rightarrow> (Ret None, w1)))"

definition ur_Delete :: "'w userApi \<Rightarrow> nat \<Rightarrow> 'w \<Rightarrow> gerr option \<times> 'w" where
  "ur_Delete db i w = (case ud_delete db i w of (n, w1) \<Rightarrow> (if n > 0 then None else Some ''user delete fail'', w1))"

definition UpdateUsersLdapGen :: "'w userApi \<Rightarrow> UserBaseModel list \<Rightarrow> nat \<Rightarrow> 'w \<Rightarrow> bool \<times> 'w" where
  "UpdateUsersLdapGen db us gen w =
     (if us = [] then (True, w) else (case ud_setGen db (map u_ID us) gen w of (n, w1) \<Rightarrow> (n > 0, w1)))"

definition ur_Creates :: "'w userApi \<Rightarrow> UserBaseModel list \<Rightarrow> 'w \<Rightarrow> gerr option \<times> 'w" where
  "ur_Creates db users w = (if users = [] then (None, w) else ud_creates db users w)"

definition DeleteOutOfSyncLdapUser :: "'w userApi \<Rightarrow> nat \<Rightarrow> 'w \<Rightarrow> (gerr + nat) \<times> 'w" where
  "DeleteOutOfSyncLdapUser db ldapGen = ud_disable db ldapGen"

definition BatchListByUserId :: "'w userApi \<Rightarrow> nat \<Rightarrow> 'w \<Rightarrow> UserBaseModel list" where
  "BatchListByUserId db userIdStart = ud_after db userIdStart 500"

subsection \<open>The service and its cache\<close>

record 'w userWorld =
  uw_id :: "nat \<rightharpoonup> UserBaseModel"
  uw_sa :: "string \<rightharpoonup> UserBaseModel"
  uw_w :: 'w

definition onUsers :: "('w \<Rightarrow> 'a \<times> 'w) \<Rightarrow> 'w userWorld \<Rightarrow> 'a \<times> 'w userWorld" where
  "onUsers f st = (case f (uw_w st) of (r, w) \<Rightarrow> (r, st\<lparr>uw_w := w\<rparr>))"

definition us_Evict :: "nat \<Rightarrow> 'w userWorld \<Rightarrow> 'w userWorld" where
  "us_Evict i st =
     (case uw_id st i of
        None \<Rightarrow> st
      | Some u \<Rightarrow> st\<lparr>uw_id := map_delete i (uw_id st), uw_sa := map_delete (u_SaName u) (uw_sa st)\<rparr>)"

definition us_add :: "UserBaseModel \<Rightarrow> 'w userWorld \<Rightarrow> 'w userWorld" where
  "us_add u st = st\<lparr>uw_id := (uw_id st)(u_ID u \<mapsto> u), uw_sa := (uw_sa st)(u_SaName u \<mapsto> u)\<rparr>"

definition us_GetUserByID :: "'w userApi \<Rightarrow> nat \<Rightarrow> 'w userWorld \<Rightarrow> gerr + UserBaseModel" where
  "us_GetUserByID db i st =
     (case ur_GetUserByID db i (uw_w st) of
        Inl err \<Rightarrow> Inl (wrap (''get user info err from db by id: '' @ itoa (int i)) err)
      | Inr u \<Rightarrow> Inr u)"

definition us_GetCacheBySa :: "'w userApi \<Rightarrow> string \<Rightarrow> 'w userWorld \<Rightarrow> (gerr + UserBaseModel) \<times> 'w userWorld" where
  "us_GetCacheBySa db sa st =
     (case uw_sa st sa of
        Some u \<Rightarrow> (Inr u, st)
      | None \<Rightarrow>
          (case ur_GetUserBySa db sa (uw_w st) of
             Inl err \<Rightarrow> (Inl (wrap ''get user'' err), st)
           | Inr u \<Rightarrow> (Inr u, us_add u st)))"

definition us_GetCache :: "'w userApi \<Rightarrow> nat \<Rightarrow> 'w userWorld \<Rightarrow> (gerr + UserBaseModel) \<times> 'w userWorld" where
  "us_GetCache db i st =
     (case uw_id st i of
        Some u \<Rightarrow> (Inr u, st)
      | None \<Rightarrow>
          (case us_GetUserByID db i st of
             Inl err \<Rightarrow> (Inl (wrap ''get user'' err), st)
           | Inr u \<Rightarrow> (Inr u, us_add u st)))"

definition us_GetUserByEmail :: "'w userApi \<Rightarrow> string \<Rightarrow> 'w userWorld \<Rightarrow> gerr + UserBaseModel" where
  "us_GetUserByEmail db email st = ur_GetUserByEmail db email (uw_w st)"

definition us_Delete :: "'w userApi \<Rightarrow> nat \<Rightarrow> 'w userWorld \<Rightarrow> gerr option \<times> 'w userWorld" where
  "us_Delete db i st =
     (case onUsers (ur_Delete db i) st of
        (Some err, st1) \<Rightarrow> (Some (wrap ''delete user fail'' err), st1)
      | (None, st1) \<Rightarrow> (None, us_Evict i st1))"

definition saRunes :: string where
  "saRunes = ''abcdefghijklmnopqrstuvwxyz''"

definition GenerateSaName :: "nat list \<Rightarrow> string" where
  "GenerateSaName ns = ''nhsa'' @ map (\<lambda>n. saRunes ! (n mod 26)) (take 10 ns)"

definition us_insert :: "'w userApi \<Rightarrow> UserBaseModel \<Rightarrow> 'w userWorld \<Rightarrow> (gerr + UserBaseModel) \<times> 'w userWorld" where
  "us_insert db u st =
     (case onUsers (ur_Create db u) st of
        (Inl err, st1) \<Rightarrow> (Inl (wrap ''create user'' err), st1)
      | (Inr u1, st1) \<Rightarrow> (Inr u1, us_Evict (u_ID u1) st1))"

definition us_Create ::
  "'w userApi \<Rightarrow> string \<Rightarrow> string \<Rightarrow> string \<Rightarrow> string \<Rightarrow> nat \<Rightarrow> nat option \<Rightarrow> nat option \<Rightarrow> 'w userWorld \<Rightarrow>
     (gerr + UserBaseModel) \<times> 'w userWorld" where
  "us_Create db email password name ldapDN ldapGen status isAdmin st =
     (case ud_hash db password of
        Inl err \<Rightarrow> (Inl (wrap ''encrypt password err'' err), st)
      | Inr pwd \<Rightarrow>
          us_insert db (zeroUser\<lparr>u_SaName := GenerateSaName (ud_saLetters db (uw_w st)), u_Password := pwd, u_Email := email,
            u_Name := name, u_Status := status, u_IsAdmin := isAdmin, u_LdapDN := ldapDN, u_LdapGen := ldapGen,
            u_Uuid := ud_uuid db (uw_w st)\<rparr>) st)"

text \<open>No service account, no status and no flag of an administrator.\<close>

definition us_Register :: "'w userApi \<Rightarrow> string \<Rightarrow> string \<Rightarrow> 'w userWorld \<Rightarrow> gerr option \<times> 'w userWorld" where
  "us_Register db email password st =
     (case ud_hash db password of
        Inl err \<Rightarrow> (Some (wrap ''encrypt password err'' err), st)
      | Inr pwd \<Rightarrow>
          (case us_insert db (zeroUser\<lparr>u_Password := pwd, u_Email := email, u_Uuid := ud_uuid db (uw_w st)\<rparr>) st of
             (Inl err, st1) \<Rightarrow> (Some err, st1)
           | (Inr _, st1) \<Rightarrow> (None, st1)))"

definition us_EmailLogin :: "'w userApi \<Rightarrow> string \<Rightarrow> string \<Rightarrow> 'w userWorld \<Rightarrow> gerr option outcome" where
  "us_EmailLogin db email password st =
     (case us_GetUserByEmail db email st of
        Inl err \<Rightarrow> Ret (Some (wrap ''get user info err by email'' err))
      | Inr u \<Rightarrow>
          (case ud_compare db (u_Password u) password of
             Some err \<Rightarrow> Ret (Some (wrap ''password compare err'' err))
           | None \<Rightarrow>
               (case u_Status u of
                  None \<Rightarrow> Panic nilUser
                | Some s \<Rightarrow> Ret (if s = 0 then Some ''user not allow'' else None))))"

definition us_UpdateUser :: "'w userApi \<Rightarrow> nat \<Rightarrow> UserBaseModel \<Rightarrow> 'w userWorld \<Rightarrow> gerr option outcome \<times> 'w userWorld" where
  "us_UpdateUser db i user st =
     (case onUsers (ur_Update db i user) st of
        (Panic p, st1) \<Rightarrow> (Panic p, st1)
      | (Ret (Some err), st1) \<Rightarrow> (Ret (Some err), st1)
      | (Ret None, st1) \<Rightarrow> (Ret None, us_Evict i st1))"

definition us_UpdateServiceAccountName :: "'w userApi \<Rightarrow> nat \<Rightarrow> string \<Rightarrow> 'w userWorld \<Rightarrow> gerr option \<times> 'w userWorld" where
  "us_UpdateServiceAccountName db i saName st =
     (case onUsers (ud_setSa db i saName) st of (r, st1) \<Rightarrow> (r, us_Evict i st1))"

definition BoolToUint64Pointer :: "bool \<Rightarrow> nat option" where
  "BoolToUint64Pointer b = Some (if b then 1 else 0)"

definition ldapUser :: "UserBaseModel \<Rightarrow> string \<Rightarrow> string \<Rightarrow> nat \<Rightarrow> bool \<Rightarrow> UserBaseModel" where
  "ldapUser before userName ldapDN ldapGen admin =
     (let b = (if userName \<noteq> [] then before\<lparr>u_Username := userName, u_Name := userName\<rparr> else before)
      in b\<lparr>u_IsAdmin := BoolToUint64Pointer admin, u_LdapDN := ldapDN, u_LdapGen := ldapGen, u_Status := BoolToUint64Pointer True\<rparr>)"

definition us_UpdateUserByModelWithLdap ::
  "'w userApi \<Rightarrow> UserBaseModel \<Rightarrow> string \<Rightarrow> string \<Rightarrow> nat \<Rightarrow> bool \<Rightarrow> 'w userWorld \<Rightarrow> UserBaseModel outcome \<times> 'w userWorld" where
  "us_UpdateUserByModelWithLdap db before userName ldapDN ldapGen admin st =
     (let u = ldapUser before userName ldapDN ldapGen admin
      in case us_UpdateUser db (u_ID u) u st of
           (Panic p, st1) \<Rightarrow> (Panic p, st1)
         | (Ret _, st1) \<Rightarrow> (Ret u, st1))"

definition NeedToUpdateProfileInLdap :: "UserBaseModel \<Rightarrow> string \<Rightarrow> string \<Rightarrow> bool \<Rightarrow> bool" where
  "NeedToUpdateProfileInLdap u userName ldapDN admin \<longleftrightarrow>
     u_IsAdmin u \<noteq> BoolToUint64Pointer admin \<or> u_LdapDN u \<noteq> ldapDN \<or> u_Status u \<noteq> BoolToUint64Pointer True \<or>
     (userName \<noteq> [] \<and> u_Name u \<noteq> userName)"

subsection \<open>The pool of LDAP connections\<close>

record ldapEntry =
  en_DN :: string
  en_attr :: "string \<Rightarrow> string"

text \<open>\<open>ld_search\<close> takes the connection, which may be nil, the base and the filter.\<close>

record 'c ldapApi =
  ld_dial :: "string \<Rightarrow> gerr + 'c"
  ld_startTLS :: "'c \<Rightarrow> gerr option"
  ld_md5Bind :: "'c \<Rightarrow> string \<Rightarrow> string \<Rightarrow> string \<Rightarrow> gerr option"
  ld_bind :: "'c \<Rightarrow> string \<Rightarrow> string \<Rightarrow> gerr option"
  ld_isClosing :: "'c \<Rightarrow> bool"
  ld_closeNil :: "string option"
  ld_search :: "'c option \<Rightarrow> string \<Rightarrow> string \<Rightarrow> (gerr + ldapEntry list) outcome"

type_synonym 'c ldapPool = "string \<rightharpoonup> 'c"

definition boolText :: "bool \<Rightarrow> string" where
  "boolText b = (if b then ''true'' else ''false'')"

definition genKey :: "string \<Rightarrow> bool \<Rightarrow> bool \<Rightarrow> string \<Rightarrow> string \<Rightarrow> string" where
  "genKey ldapServer enableTls md5 username password =
     ldapServer @ ''-'' @ boolText enableTls @ ''-'' @ boolText md5 @ ''-'' @ username @ ''-'' @ password"

text \<open>
  Of a new connection. A refused simple bind returns a wrapped \<open>err\<close>, which is the variable of the
  dial and nil: neither a connection nor an error. A connection that could not be dialled is
  closed all the same; \<open>ld_closeNil\<close> is the panic that comes of that, if one does.
\<close>

definition newConn :: "'c ldapApi \<Rightarrow> string \<Rightarrow> bool \<Rightarrow> bool \<Rightarrow> string \<Rightarrow> string \<Rightarrow> (gerr + 'c option) outcome" where
  "newConn ld ldapServer enableTls md5 username password =
     (case ld_dial ld ldapServer of
        Inl err \<Rightarrow>
          (case ld_closeNil ld of
             Some p \<Rightarrow> Panic p
           | None \<Rightarrow> Ret (Inl (wrap ''Error when connect to ldap server '' err)))
      | Inr conn \<Rightarrow>
          (case (if enableTls then ld_startTLS ld conn else None) of
             Some err \<Rightarrow> Ret (Inl (wrap ''Error when tls hand shacks to ldap server '' err))
           | None \<Rightarrow>
               if md5 then
                 (case ld_md5Bind ld conn ldapServer username password of
                    Some err \<Rightarrow> Ret (Inl (wrap ''Md5 bind failed '' err))
                  | None \<Rightarrow> Ret (Inr (Some conn)))
               else if ld_bind ld conn username password \<noteq> None then Ret (Inr None)
               else Ret (Inr (Some conn))))"

definition GetOrNewFromPool ::
  "'c ldapApi \<Rightarrow> string \<Rightarrow> bool \<Rightarrow> bool \<Rightarrow> string \<Rightarrow> string \<Rightarrow> 'c ldapPool \<Rightarrow> (gerr + 'c option) outcome \<times> 'c ldapPool" where
  "GetOrNewFromPool ld ldapServer enableTls md5 username password pool =
     (let key = genKey ldapServer enableTls md5 username password
      in case pool key of
           Some conn \<Rightarrow>
             if \<not> ld_isClosing ld conn then (Ret (Inr (Some conn)), pool)
             else (case newConn ld ldapServer enableTls md5 username password of
                 Ret (Inr (Some c)) \<Rightarrow> (Ret (Inr (Some c)), pool(key \<mapsto> c))
               | r \<Rightarrow> (r, map_delete key pool))
         | None \<Rightarrow>
             (case newConn ld ldapServer enableTls md5 username password of
                Ret (Inr (Some c)) \<Rightarrow> (Ret (Inr (Some c)), pool(key \<mapsto> c))
              | r \<Rightarrow> (r, pool)))"

text \<open>\<open>onErr\<close> is the return of the error or the panic in the result type of \<open>f\<close>.\<close>

definition ConnectAndThen ::
  "'c ldapApi \<Rightarrow> string \<Rightarrow> bool \<Rightarrow> bool \<Rightarrow> string \<Rightarrow> string \<Rightarrow> (gerr outcome \<Rightarrow> 'r) \<Rightarrow> ('c option \<Rightarrow> 'r) \<Rightarrow> 'c ldapPool \<Rightarrow>
     'r \<times> 'c ldapPool" where
  "ConnectAndThen ld ldapServer enableTls md5 username password onErr f pool =
     (case GetOrNewFromPool ld ldapServer enableTls md5 username password pool of
        (Panic p, pool1) \<Rightarrow> (onErr (Panic p), pool1)
      | (Ret (Inl err), pool1) \<Rightarrow> (onErr (Ret err), pool1)
      | (Ret (Inr conn), pool1) \<Rightarrow> (f conn, pool1))"

definition DoBindForLDAP ::
  "'c ldapApi \<Rightarrow> string \<Rightarrow> bool \<Rightarrow> bool \<Rightarrow> string \<Rightarrow> string \<Rightarrow> 'c ldapPool \<Rightarrow> gerr option outcome \<times> 'c ldapPool" where
  "DoBindForLDAP ld ldapServer tls md5 username password =
     ConnectAndThen ld ldapServer tls md5 username password
       (\<lambda>r. case r of Panic p \<Rightarrow> Panic p | Ret err \<Rightarrow> Ret (Some err)) (\<lambda>_. Ret None)"

end
