(* ===== verification/ApiAuth.thy ===== *)
theory ApiAuth
  imports Users "HOL-Library.Log_Nat"
begin

text \<open>
  Who may do what on the API server: tokens (\<open>src/pkg/nocalhost-api/pkg/token/token.go\<close>), login and the
  update of users (\<open>src/pkg/nocalhost-api/app/api/v1/user\<close>), the middlewares that every request passes
  (\<open>src/pkg/nocalhost-api/app/router/middleware\<close>) and the groups of routes with their middlewares
  (\<open>src/pkg/nocalhost-api/app/router/api.go\<close>). The library of web tokens is a parameter.
\<close>

subsection \<open>Tokens\<close>

record Context =
  tc_UserID :: nat
  tc_Username :: string
  tc_Uuid :: string
  tc_Email :: string
  tc_IsAdmin :: nat

definition zeroContext :: Context where
  "zeroContext = \<lparr>tc_UserID = 0, tc_Username = [], tc_Uuid = [], tc_Email = [], tc_IsAdmin = 0\<rparr>"

datatype claimValue = JNum nat | JStr string | JOther

type_synonym claims = "string \<rightharpoonup> claimValue"

record jwtToken =
  jt_hmac :: bool
  jt_claims :: claims
  jt_valid :: bool

text \<open>
  \<open>jw_sign\<close> signs with HMAC and SHA-256; \<open>jw_parse\<close> takes the time, the text and the function that
  gives the key for a method, and returns the token, if there is one, and the error, if there is
  one. \<open>jw_addDays\<close> is the calendar. Numbers of claims travel as JSON and come back as floats.
\<close>

record jwtApi =
  jw_sign :: "claims \<Rightarrow> string \<Rightarrow> gerr + string"
  jw_parse :: "nat \<Rightarrow> string \<Rightarrow> (bool \<Rightarrow> gerr + string) \<Rightarrow> jwtToken option \<times> gerr option"
  jw_addDays :: "nat \<Rightarrow> nat \<Rightarrow> nat"
  jw_secret :: string
  jw_refreshSecret :: string

definition toFloat64 :: "nat \<Rightarrow> nat" where
  "toFloat64 n =
     (if n < 2 ^ 53 then n
      else let e = floorlog 2 n - 53; q = n div 2 ^ e; r = n mod 2 ^ e; half = 2 ^ (e - 1)
           in if r < half \<or> r = half \<and> even q then q * 2 ^ e else (q + 1) * 2 ^ e)"

fun floatClaim :: "claimValue \<Rightarrow> claimValue" where
  "floatClaim (JNum n) = JNum (toFloat64 n)"
| "floatClaim v = v"

definition secretFunc :: "string \<Rightarrow> bool \<Rightarrow> gerr + string" where
  "secretFunc secret hmac = (if \<not> hmac then Inl ''signature is invalid'' else Inr secret)"

definition badAssertion :: string where
  "badAssertion = ''interface conversion''"

fun claimNum :: "claimValue option \<Rightarrow> nat outcome" where
  "claimNum (Some (JNum n)) = Ret n"
| "claimNum _ = Panic badAssertion"

fun claimStr :: "claimValue option \<Rightarrow> string outcome" where
  "claimStr (Some (JStr s)) = Ret s"
| "claimStr _ = Panic badAssertion"

definition contextOf :: "claims \<Rightarrow> Context outcome" where
  "contextOf cl =
     (case (claimNum (cl ''user_id''), claimStr (cl ''username''), claimStr (cl ''uuid''), claimStr (cl ''email''),
            claimNum (cl ''is_admin'')) of
        (Ret i, Ret n, Ret u, Ret m, Ret a) \<Rightarrow>
          Ret \<lparr>tc_UserID = i, tc_Username = n, tc_Uuid = u, tc_Email = m, tc_IsAdmin = a\<rparr>
      | _ \<Rightarrow> Panic badAssertion)"

definition tk_Parse :: "jwtApi \<Rightarrow> nat \<Rightarrow> string \<Rightarrow> string \<Rightarrow> bool \<Rightarrow> (gerr + Context) outcome" where
  "tk_Parse jw now tokenString secret skipValidation =
     (case jw_parse jw now tokenString (secretFunc secret) of
        (token, err) \<Rightarrow>
          if \<not> skipValidation \<and> err \<noteq> None then Ret (Inl (the err))
          else (case token of
              None \<Rightarrow> Ret (Inl ''Token can't not be parsed correctly '')
            | Some t \<Rightarrow>
                if skipValidation \<or> jt_valid t then
                  (case contextOf (jt_claims t) of Panic p \<Rightarrow> Panic p | Ret ctx \<Rightarrow> Ret (Inr ctx))
                else Ret (case err of Some e \<Rightarrow> Inl e | None \<Rightarrow> Inr zeroContext)))"

text \<open>\<open>Sscanf\<close> with the format \<open>Bearer %s\<close>; what does not scan leaves the text empty.\<close>

definition bearer :: "string \<Rightarrow> string" where
  "bearer header =
     (let rest = drop 6 header
      in if hasPrefix header ''Bearer'' \<and> rest \<noteq> [] \<and> isSpaceByte (hd rest)
         then takeWhile (\<lambda>c. \<not> isSpaceByte c) (dropWhile isSpaceByte rest) else [])"

definition ErrMissingHeader :: gerr where
  "ErrMissingHeader = ''the length of the `Authorization` header is zero''"

record httpRequest =
  ht_Method :: string
  ht_RequestURI :: string
  ht_Authorization :: string
  ht_Reraeb :: string

definition ParseRequest :: "jwtApi \<Rightarrow> nat \<Rightarrow> httpRequest \<Rightarrow> (gerr + Context) outcome" where
  "ParseRequest jw now rq =
     (if ht_Authorization rq = [] then Ret (Inl ErrMissingHeader)
      else tk_Parse jw now (bearer (ht_Authorization rq)) (jw_secret jw) False)"

definition claimsOf :: "jwtApi \<Rightarrow> nat \<Rightarrow> Context \<Rightarrow> nat \<Rightarrow> claims" where
  "claimsOf jw now c expDays =
     [''user_id'' \<mapsto> JNum (tc_UserID c), ''username'' \<mapsto> JStr (tc_Username c), ''uuid'' \<mapsto> JStr (tc_Uuid c),
      ''email'' \<mapsto> JStr (tc_Email c), ''is_admin'' \<mapsto> JNum (tc_IsAdmin c), ''nbf'' \<mapsto> JNum now, ''iat'' \<mapsto> JNum now,
      ''exp'' \<mapsto> JNum (jw_addDays jw now expDays)]"

definition tk_sign :: "jwtApi \<Rightarrow> nat \<Rightarrow> Context \<Rightarrow> string \<Rightarrow> nat \<Rightarrow> gerr + string" where
  "tk_sign jw now c secret expDays = jw_sign jw (claimsOf jw now c expDays) secret"

definition SignToken :: "jwtApi \<Rightarrow> nat \<Rightarrow> Context \<Rightarrow> gerr + string" where
  "SignToken jw now ctx = tk_sign jw now ctx (jw_secret jw) 1"

definition SignRefreshToken :: "jwtApi \<Rightarrow> nat \<Rightarrow> Context \<Rightarrow> gerr + string" where
  "SignRefreshToken jw now ctx = tk_sign jw now ctx (jw_refreshSecret jw) 14"

definition Sign :: "jwtApi \<Rightarrow> nat \<Rightarrow> Context \<Rightarrow> gerr + string \<times> string" where
  "Sign jw now ctx =
     (case SignToken jw now ctx of
        Inl err \<Rightarrow> Inl err
      | Inr signToken \<Rightarrow>
          (case SignRefreshToken jw now ctx of Inl err \<Rightarrow> Inl err | Inr refreshToken \<Rightarrow> Inr (signToken, refreshToken)))"

text \<open>The token is not validated here, the refresh token is.\<close>

definition refreshToken :: "jwtApi \<Rightarrow> nat \<Rightarrow> string \<Rightarrow> string \<Rightarrow> (gerr + string \<times> string) outcome" where
  "refreshToken jw now signTok refreshTok =
     (case tk_Parse jw now signTok (jw_secret jw) True of
        Panic p \<Rightarrow> Panic p
      | Ret (Inl err) \<Rightarrow> Ret (Inl err)
      | Ret (Inr signCtx) \<Rightarrow>
          (case tk_Parse jw now refreshTok (jw_refreshSecret jw) False of
             Panic p \<Rightarrow> Panic p
           | Ret (Inl err) \<Rightarrow> Ret (Inl err)
           | Ret (Inr refreshCtx) \<Rightarrow>
               if signCtx = refreshCtx then Ret (Sign jw now refreshCtx)
               else Ret (Inl ''Current refreshToken is not the corresponding token of signToken '')))"

definition RefreshFromRequest :: "jwtApi \<Rightarrow> nat \<Rightarrow> httpRequest \<Rightarrow> (gerr + string \<times> string) outcome" where
  "RefreshFromRequest jw now rq =
     (if ht_Authorization rq = [] then Ret (Inl ErrMissingHeader)
      else refreshToken jw now (bearer (ht_Authorization rq)) (ht_Reraeb rq))"

subsection \<open>Handlers of users\<close>

datatype authErr = TokenInvalid | LostPermissionFlag | PermissionDenied | UserNotAllow | RefreshTokenInvalidOrNotMatch
  | Bind | Param | EmailOrPassword | InternalServerError | TwicePasswordNotMatch | RegisterFailed

definition h_RefreshToken :: "jwtApi \<Rightarrow> nat \<Rightarrow> httpRequest \<Rightarrow> (authErr + string \<times> string) outcome" where
  "h_RefreshToken jw now rq =
     (case RefreshFromRequest jw now rq of
        Panic p \<Rightarrow> Panic p
      | Ret (Inl err) \<Rightarrow> Ret (Inl (if contains err ''allow'' then UserNotAllow else RefreshTokenInvalidOrNotMatch))
      | Ret (Inr ts) \<Rightarrow> Ret (Inr ts))"

definition issueTokens :: "jwtApi \<Rightarrow> nat \<Rightarrow> UserBaseModel \<Rightarrow> (authErr + string \<times> string) outcome" where
  "issueTokens jw now usr =
     (case u_IsAdmin usr of
        None \<Rightarrow> Panic nilUser
      | Some a \<Rightarrow>
          (case Sign jw now \<lparr>tc_UserID = u_ID usr, tc_Username = u_Username usr, tc_Uuid = u_Uuid usr, tc_Email = u_Email usr,
                  tc_IsAdmin = a\<rparr> of
             Inl _ \<Rightarrow> Ret (Inl InternalServerError)
           | Inr ts \<Rightarrow> Ret (Inr ts)))"

definition ldapBind :: "'c ldapApi \<Rightarrow> UserBaseModel \<Rightarrow> string \<Rightarrow> 'c ldapPool \<Rightarrow> bool outcome \<times> 'c ldapPool" where
  "ldapBind ld usr password pool =
     (if u_LdapDN usr = [] then (Ret False, pool)
      else (case DoBindForLDAP ld ''ldap://localhost'' False False (u_LdapDN usr) password pool of
          (Panic p, pool1) \<Rightarrow> (Panic p, pool1)
        | (Ret err, pool1) \<Rightarrow> (Ret (err = None), pool1)))"

definition h_Login ::
  "'w userApi \<Rightarrow> jwtApi \<Rightarrow> 'c ldapApi \<Rightarrow> nat \<Rightarrow> gerr + string \<times> string \<Rightarrow> 'c ldapPool \<Rightarrow> 'w userWorld \<Rightarrow>
     (authErr + string \<times> string) outcome \<times> 'c ldapPool" where
  "h_Login db jw ld now body pool st =
     (case body of
        Inl _ \<Rightarrow> (Ret (Inl Bind), pool)
      | Inr (email, password) \<Rightarrow>
          if email = [] \<or> password = [] then (Ret (Inl Param), pool)
          else (case us_GetUserByEmail db email st of
              Inl _ \<Rightarrow> (Ret (Inl EmailOrPassword), pool)
            | Inr usr \<Rightarrow>
                (case ldapBind ld usr password pool of
                   (Panic p, pool1) \<Rightarrow> (Panic p, pool1)
                 | (Ret True, pool1) \<Rightarrow> (issueTokens jw now usr, pool1)
                 | (Ret False, pool1) \<Rightarrow>
                     (case us_EmailLogin db email password st of
                        Panic p \<Rightarrow> (Panic p, pool1)
                      | Ret (Some err) \<Rightarrow> (Ret (Inl (if contains err ''allow'' then UserNotAllow else EmailOrPassword)), pool1)
                      | Ret None \<Rightarrow> (issueTokens jw now usr, pool1)))))"

record RegisterRequest =
  rr_Email :: string
  rr_Password :: string
  rr_ConfirmPassword :: string

definition h_Register ::
  "'w userApi \<Rightarrow> gerr + RegisterRequest \<Rightarrow> 'w userWorld \<Rightarrow> authErr option \<times> 'w userWorld" where
  "h_Register db body st =
     (case body of
        Inl _ \<Rightarrow> (Some Bind, st)
      | Inr req \<Rightarrow>
          if rr_Email req = [] \<or> rr_Password req = [] then (Some Param, st)
          else if rr_Password req \<noteq> rr_ConfirmPassword req then (Some TwicePasswordNotMatch, st)
          else (case us_Register db (rr_Email req) (rr_Password req) st of
              (Some _, st1) \<Rightarrow> (Some RegisterFailed, st1)
            | (None, st1) \<Rightarrow> (None, st1)))"

record CreateUserRequest =
  cr_Email :: string
  cr_Name :: string
  cr_Password :: string
  cr_ConfirmPassword :: string
  cr_Status :: "nat option"
  cr_IsAdmin :: "nat option"

definition h_CreateUser ::
  "'w userApi \<Rightarrow> gerr + CreateUserRequest \<Rightarrow> 'w userWorld \<Rightarrow> (authErr + UserBaseModel) \<times> 'w userWorld" where
  "h_CreateUser db body st =
     (case body of
        Inl _ \<Rightarrow> (Inl Bind, st)
      | Inr req \<Rightarrow>
          if cr_Password req \<noteq> cr_ConfirmPassword req then (Inl TwicePasswordNotMatch, st)
          else (case us_Create db (cr_Email req) (cr_Password req) (cr_Name req) [] 0 (cr_Status req) (cr_IsAdmin req) st of
              (Inl _, st1) \<Rightarrow> (Inl RegisterFailed, st1)
            | (Inr u, st1) \<Rightarrow> (Inr u, st1)))"

record UpdateUserRequest =
  upd_Email :: string
  upd_Name :: string
  upd_Password :: string
  upd_Status :: "nat option"
  upd_IsAdmin :: "nat option"

text \<open>Fields that are not given stay zero, which the update leaves alone.\<close>

definition userMapOf :: "UpdateUserRequest \<Rightarrow> string \<Rightarrow> bool \<Rightarrow> UserBaseModel" where
  "userMapOf req pwd admin =
     zeroUser\<lparr>u_Email := upd_Email req, u_Name := upd_Name req, u_Password := pwd,
       u_IsAdmin := (if admin then upd_IsAdmin req else None), u_Status := (if admin then upd_Status req else None)\<rparr>"

definition h_UpdateUser ::
  "'w userApi \<Rightarrow> Context \<Rightarrow> nat \<Rightarrow> gerr + UpdateUserRequest \<Rightarrow> 'w userWorld \<Rightarrow> (authErr + UserBaseModel) outcome \<times> 'w userWorld" where
  "h_UpdateUser db ctx userId body st =
     (case body of
        Inl _ \<Rightarrow> (Ret (Inl Bind), st)
      | Inr req \<Rightarrow>
          (case (if upd_Password req \<noteq> [] then ud_hash db (upd_Password req) else Inr []) of
             Inl _ \<Rightarrow> (Ret (Inl InternalServerError), st)
           | Inr pwd \<Rightarrow>
               if tc_IsAdmin ctx \<noteq> 1 \<and> tc_UserID ctx \<noteq> userId then (Ret (Inl PermissionDenied), st)
               else let userMap = userMapOf req pwd (tc_IsAdmin ctx = 1)
                    in case us_UpdateUser db userId userMap st of
                         (Panic p, st1) \<Rightarrow> (Panic p, st1)
                       | (Ret (Some _), st1) \<Rightarrow> (Ret (Inl InternalServerError), st1)
                       | (Ret None, st1) \<Rightarrow> (Ret (Inr userMap), st1)))"

subsection \<open>Middlewares\<close>

text \<open>The values that the request carries on; here, the context of its token.\<close>

definition AuthMiddleware :: "jwtApi \<Rightarrow> nat \<Rightarrow> httpRequest \<Rightarrow> (authErr + Context) outcome" where
  "AuthMiddleware jw now rq =
     (case ParseRequest jw now rq of
        Panic p \<Rightarrow> Panic p
      | Ret (Inl _) \<Rightarrow> Ret (Inl TokenInvalid)
      | Ret (Inr ctx) \<Rightarrow> Ret (Inr ctx))"

text \<open>The regular expressions of the white list: texts and runs of digits, found anywhere.\<close>

datatype rePiece = Lit string | Digits

fun matchHere :: "rePiece list \<Rightarrow> string \<Rightarrow> bool" where
  "matchHere [] s = True"
| "matchHere (Lit t # ps) s = (hasPrefix s t \<and> matchHere ps (drop (length t) s))"
| "matchHere (Digits # ps) [] = False"
| "matchHere (Digits # ps) (c # s) = (isDigitByte c \<and> (matchHere ps s \<or> matchHere (Digits # ps) s))"

fun MatchString :: "rePiece list \<Rightarrow> string \<Rightarrow> bool" where
  "MatchString ps [] = matchHere ps []"
| "MatchString ps (c # s) = (matchHere ps (c # s) \<or> MatchString ps s)"

definition permissions :: "(rePiece list \<times> string) list" where
  "permissions =
     [([Lit ''/v1/users''], ''GET''),
      ([Lit ''/v1/users/'', Digits], ''PUT''),
      ([Lit ''/v1/users/'', Digits, Lit ''/dev_space_list''], ''GET''),
      ([Lit ''/v1/users/'', Digits, Lit ''/applications''], ''GET''),
      ([Lit ''/v1/users/'', Digits, Lit ''/dev_spaces''], ''GET''),
      ([Lit ''/v1/dev_space/'', Digits, Lit ''/detail''], ''GET''),
      ([Lit ''/v1/dev_space/'', Digits, Lit ''/recreate''], ''POST''),
      ([Lit ''/v1/application/'', Digits], ''GET,PUT,DELETE''),
      ([Lit ''/v1/nocalhost/templates''], ''GET''),
      ([Lit ''/v1/nocalhost/version/upgrade_info''], ''GET''),
      ([Lit ''/v1/dev_space''], ''GET,POST''),
      ([Lit ''/v1/application''], ''GET,POST''),
      ([Lit ''/v1/cluster''], ''POST,GET''),
      ([Lit ''/v1/cluster/'', Digits], ''PUT,DELETE''),
      ([Lit ''/v1/cluster/'', Digits, Lit ''/storage_class''], ''PUT,DELETE''),
      ([Lit ''/v1/cluster/'', Digits, Lit ''/gen_namespace''], ''GET''),
      ([Lit ''/v1/cluster/'', Digits, Lit ''/migrate''], ''POST''),
      ([Lit ''/v1/dev_space/'', Digits, Lit ''/update_resource_limit''], ''PUT''),
      ([Lit ''/v1/dev_space/'', Digits], ''PUT,DELETE''),
      ([Lit ''/v2/dev_space''], ''GET''),
      ([Lit ''/v2/dev_space/cluster''], ''GET''),
      ([Lit ''/v2/dev_space/share''], ''POST''),
      ([Lit ''/v2/dev_space/unshare''], ''POST'')]"

definition whiteList :: "string \<Rightarrow> string \<Rightarrow> bool" where
  "whiteList httpMethod path \<longleftrightarrow> (\<exists>(reg, med)\<in>set permissions. MatchString reg path \<and> contains med httpMethod)"

definition mw_IsAdmin :: "nat option \<Rightarrow> authErr + bool" where
  "mw_IsAdmin flag = (case flag of None \<Rightarrow> Inl LostPermissionFlag | Some n \<Rightarrow> Inr (n = 1))"

definition PermissionMiddleware :: "nat option \<Rightarrow> httpRequest \<Rightarrow> authErr option" where
  "PermissionMiddleware flag rq =
     (case mw_IsAdmin flag of
        Inl e \<Rightarrow> Some e
      | Inr admin \<Rightarrow> if \<not> admin \<and> \<not> whiteList (ht_Method rq) (ht_RequestURI rq) then Some PermissionDenied else None)"

text \<open>The middlewares of a group: a token always, the white list for all groups but two.\<close>

definition passGroup :: "jwtApi \<Rightarrow> nat \<Rightarrow> bool \<Rightarrow> httpRequest \<Rightarrow> (authErr + Context) outcome" where
  "passGroup jw now permission rq =
     (case AuthMiddleware jw now rq of
        Panic p \<Rightarrow> Panic p
      | Ret (Inl e) \<Rightarrow> Ret (Inl e)
      | Ret (Inr ctx) \<Rightarrow>
          (if permission then
             (case PermissionMiddleware (Some (tc_IsAdmin ctx)) rq of Some e \<Rightarrow> Ret (Inl e) | None \<Rightarrow> Ret (Inr ctx))
           else Ret (Inr ctx)))"

text \<open>The groups of \<open>Load\<close>: prefix, whether the white list applies, and the routes in the group.\<close>

definition apiGroups :: "(string \<times> bool \<times> (string \<times> string) list) list" where
  "apiGroups =
     [(''/v1/users'', True,
       [(''GET'', ''/:id''), (''GET'', []), (''POST'', []), (''PUT'', ''/:id''), (''POST'', ''/import''),
        (''GET'', ''/import_status/:id''), (''DELETE'', ''/:id''), (''GET'', ''/:id/dev_space_list''),
        (''GET'', ''/:id/applications''), (''GET'', ''/:id/dev_spaces''), (''GET'', ''/:id/clusters'')]),
      (''/v1/me'', False, [(''GET'', [])]),
      (''/v1/cluster'', True,
       [(''POST'', []), (''GET'', []), (''GET'', ''/:id/dev_space''), (''GET'', ''/:id/dev_space/:space_id/detail''),
        (''GET'', ''/:id/detail''), (''DELETE'', ''/:id''), (''GET'', ''/:id/storage_class''), (''POST'', ''/:id/storage_class''),
        (''PUT'', ''/:id''), (''GET'', ''/:id/gen_namespace''), (''PUT'', ''/:id/migrate'')]),
      (''/v1/application'', True,
       [(''POST'', []), (''GET'', []), (''GET'', ''/:id''), (''DELETE'', ''/:id''), (''PUT'', ''/:id''), (''PUT'', ''/:id/public''),
        (''POST'', ''/:id/bind_cluster''), (''GET'', ''/:id/bound_cluster''), (''GET'', ''/:id/dev_space''),
        (''GET'', ''/:id/dev_space/:space_id/detail''), (''GET'', ''/:id/dev_space_list''), (''GET'', ''/:id/cluster/:clusterId''),
        (''GET'', ''/:id/users''), (''GET'', ''/:id/!users''), (''POST'', ''/:id/users''), (''DELETE'', ''/:id/users'')]),
      (''/v1/nocalhost'', True, [(''GET'', ''/templates''), (''GET'', ''/version/upgrade_info'')]),
      (''/v2/dev_space'', True,
       [(''GET'', []), (''GET'', ''/cluster''), (''GET'', ''/detail''), (''GET'', ''/ns_list''), (''POST'', ''/ns_import''),
        (''POST'', ''/ns_batch_import''), (''GET'', ''/ns_import_status/:id''), (''POST'', ''/share''), (''POST'', ''/unshare'')]),
      (''/v1/dev_space'', True,
       [(''POST'', []), (''GET'', []), (''DELETE'', ''/:id''), (''PUT'', ''/:id''), (''POST'', ''/:id/recreate''),
        (''GET'', ''/:id/detail''), (''PUT'', ''/:id/update_resource_limit''), (''PUT'', ''/:id/update_mesh_dev_space_info''),
        (''GET'', ''/:id/mesh_apps_info'')]),
      (''/v1/ldap'', True,
       [(''GET'', ''/config''), (''PUT'', ''/config/set''), (''PUT'', ''/config/disable''), (''PUT'', ''/bind''), (''PUT'', ''/search''),
        (''POST'', ''/trigger'')]),
      (''/v1/plugin'', False,
       [(''GET'', ''/service_accounts''), (''GET'', ''/dev_space''), (''POST'', ''/:id/recreate''),
        (''PUT'', ''/application/:id/dev_space/:spaceId/plugin_sync'')])]"

end
