(* ===== verification/ApiAuthProps.thy ===== *)
theory ApiAuthProps
  imports ApiAuth
begin

text \<open>
  Login and the tokens it gives, the white list against its regular expressions, and what a user
  may change. The library of web tokens is \<open>jwtOk\<close>, the table of users \<open>usersOk\<close>.
\<close>

subsection \<open>Numbers and headers\<close>

lemma toFloat64_exact [simp]: "n < 2 ^ 53 \<Longrightarrow> toFloat64 n = n"
  by (simp add: toFloat64_def)

definition plainToken :: "string \<Rightarrow> bool" where
  "plainToken t \<longleftrightarrow> t \<noteq> [] \<and> list_all (\<lambda>c. \<not> isSpaceByte c) t"

lemma bearer_token [simp]: "plainToken t \<Longrightarrow> bearer (''Bearer '' @ t) = t"
  by (cases t) (auto simp: bearer_def plainToken_def hasPrefix_def isSpaceByte_def list_all_iff)

subsection \<open>Tokens\<close>

text \<open>
  A signed text has no blanks. Parsed with the key it was signed with, between \<open>nbf\<close> and \<open>exp\<close>, it
  is valid; its claims are there in any case.
\<close>

definition jwtOk :: "jwtApi \<Rightarrow> bool" where
  "jwtOk jw \<longleftrightarrow>
     (\<forall>cl k s. jw_sign jw cl k = Inr s \<longrightarrow> plainToken s \<and>
        (\<forall>now kf. \<exists>v e. jw_parse jw now s kf = (Some \<lparr>jt_hmac = True, jt_claims = map_option floatClaim \<circ> cl, jt_valid = v\<rparr>, e) \<and>
           (\<forall>a b. kf True = Inr k \<longrightarrow> cl ''nbf'' = Some (JNum a) \<longrightarrow> cl ''exp'' = Some (JNum b) \<longrightarrow> a \<le> now \<longrightarrow> now < b \<longrightarrow>
              b < 2 ^ 53 \<longrightarrow> v \<and> e = None)))"

definition smallContext :: "Context \<Rightarrow> bool" where
  "smallContext c \<longleftrightarrow> tc_UserID c < 2 ^ 53 \<and> tc_IsAdmin c < 2 ^ 53"

lemma contextOf_claims [simp]: "smallContext c \<Longrightarrow> contextOf (map_option floatClaim \<circ> claimsOf jw now c d) = Ret c"
  by (simp add: contextOf_def claimsOf_def smallContext_def)

lemma signed_parses:
  assumes ok: "jwtOk jw" and sign: "tk_sign jw now c secret d = Inr s" and small: "smallContext c"
  shows "plainToken s" and "tk_Parse jw later s k True = Ret (Inr c)"
    and "now \<le> later \<Longrightarrow> later < jw_addDays jw now d \<Longrightarrow> jw_addDays jw now d < 2 ^ 53 \<Longrightarrow> tk_Parse jw later s secret False = Ret (Inr c)"
proof -
  let ?cl = "claimsOf jw now c d"
  have s: "jw_sign jw ?cl secret = Inr s" using sign by (simp add: tk_sign_def)
  have cl: "?cl ''nbf'' = Some (JNum now)" "?cl ''exp'' = Some (JNum (jw_addDays jw now d))" by (simp_all add: claimsOf_def)
  from ok s have *: "plainToken s \<and>
        (\<forall>now kf. \<exists>v e. jw_parse jw now s kf = (Some \<lparr>jt_hmac = True, jt_claims = map_option floatClaim \<circ> ?cl, jt_valid = v\<rparr>, e) \<and>
           (\<forall>a b. kf True = Inr secret \<longrightarrow> ?cl ''nbf'' = Some (JNum a) \<longrightarrow> ?cl ''exp'' = Some (JNum b) \<longrightarrow> a \<le> now \<longrightarrow> now < b \<longrightarrow>
              b < 2 ^ 53 \<longrightarrow> v \<and> e = None))"
    unfolding jwtOk_def by blast
  then show "plainToken s" by blast
  obtain v e where "jw_parse jw later s (secretFunc k) = (Some \<lparr>jt_hmac = True, jt_claims = map_option floatClaim \<circ> ?cl, jt_valid = v\<rparr>, e)"
    using * by blast
  then show "tk_Parse jw later s k True = Ret (Inr c)" using small by (simp add: tk_Parse_def)
  show "tk_Parse jw later s secret False = Ret (Inr c)"
    if t: "now \<le> later" "later < jw_addDays jw now d" "jw_addDays jw now d < 2 ^ 53"
  proof -
    obtain v e where p: "jw_parse jw later s (secretFunc secret) = (Some \<lparr>jt_hmac = True, jt_claims = map_option floatClaim \<circ> ?cl, jt_valid = v\<rparr>, e)"
      and q: "\<And>a b. secretFunc secret True = Inr secret \<Longrightarrow> ?cl ''nbf'' = Some (JNum a) \<Longrightarrow> ?cl ''exp'' = Some (JNum b) \<Longrightarrow>
        a \<le> later \<Longrightarrow> later < b \<Longrightarrow> b < 2 ^ 53 \<Longrightarrow> v \<and> e = None"
      using * by blast
    have "v \<and> e = None" by (rule q [OF _ cl t]) (simp add: secretFunc_def)
    then show ?thesis using p small by (simp add: tk_Parse_def)
  qed
qed

lemma Sign_Inr: "Sign jw now c = Inr (t, rt) \<longleftrightarrow> SignToken jw now c = Inr t \<and> SignRefreshToken jw now c = Inr rt"
  by (auto simp: Sign_def split: sum.splits)

definition contextOfUser :: "UserBaseModel \<Rightarrow> Context" where
  "contextOfUser u = \<lparr>tc_UserID = u_ID u, tc_Username = u_Username u, tc_Uuid = u_Uuid u, tc_Email = u_Email u,
     tc_IsAdmin = (case u_IsAdmin u of None \<Rightarrow> 0 | Some a \<Rightarrow> a)\<rparr>"

lemma issueTokens_Inr:
  "issueTokens jw now u = Ret (Inr ts) \<longleftrightarrow> u_IsAdmin u \<noteq> None \<and> Sign jw now (contextOfUser u) = Inr ts"
  by (auto simp: issueTokens_def contextOfUser_def split: option.splits sum.splits)

lemma login_tokens:
  assumes "h_Login db jw ld now (Inr (email, password)) pool st = (Ret (Inr ts), pool')"
  shows "\<exists>u. us_GetUserByEmail db email st = Inr u \<and> issueTokens jw now u = Ret (Inr ts) \<and>
    (ldapBind ld u password pool = (Ret True, pool') \<or> us_EmailLogin db email password st = Ret None)"
  using assms by (auto simp: h_Login_def split: if_splits sum.splits prod.splits outcome.splits bool.splits option.splits)

text \<open>C6: The token of a login identifies the user: for a day, each request that carries it passes
  the authentication as the user with the email of the login, with the id and the flag of an
  administrator of the table. With the refresh token the user gets new tokens for the same
  identity, for fourteen days and also when the first token has expired. Nobody gets a token
  without the password of the account or a bind at the LDAP server that gave no error.\<close>

theorem login_token_identifies_user:
  assumes jwt: "jwtOk jw" and login: "h_Login db jw ld now (Inr (email, password)) pool st = (Ret (Inr (t, rt)), pool')"
    and u: "us_GetUserByEmail db email st = Inr u" and small: "smallContext (contextOfUser u)"
    and days: "jw_addDays jw now 1 < 2 ^ 53" "jw_addDays jw now 14 < 2 ^ 53" and auth: "ht_Authorization rq = ''Bearer '' @ t"
  shows "(\<forall>later. now \<le> later \<and> later < jw_addDays jw now 1 \<longrightarrow> AuthMiddleware jw later rq = Ret (Inr (contextOfUser u))) \<and>
    (\<forall>later. now \<le> later \<and> later < jw_addDays jw now 14 \<and> ht_Reraeb rq = rt \<longrightarrow>
       RefreshFromRequest jw later rq = Ret (Sign jw later (contextOfUser u))) \<and>
    (ldapBind ld u password pool = (Ret True, pool') \<or> us_EmailLogin db email password st = Ret None)"
proof -
  from login_tokens [OF login] u have s: "Sign jw now (contextOfUser u) = Inr (t, rt)"
    and how: "ldapBind ld u password pool = (Ret True, pool') \<or> us_EmailLogin db email password st = Ret None"
    by (auto simp: issueTokens_Inr)
  have t: "tk_sign jw now (contextOfUser u) (jw_secret jw) 1 = Inr t" "tk_sign jw now (contextOfUser u) (jw_refreshSecret jw) 14 = Inr rt"
    using s by (auto simp: Sign_Inr SignToken_def SignRefreshToken_def)
  note p = signed_parses [OF jwt t(1) small] and q = signed_parses [OF jwt t(2) small]
  have h: "ht_Authorization rq \<noteq> []" "bearer (ht_Authorization rq) = t"
    unfolding auth by simp (rule bearer_token [OF p(1)])
  show ?thesis using p(2,3) q(3) h days how
    by (simp add: AuthMiddleware_def ParseRequest_def RefreshFromRequest_def refreshToken_def)
qed

subsection \<open>LDAP\<close>

text \<open>C14: An LDAP user logs in with any password as long as the LDAP server can be reached: the
  answer to a refused bind is neither a connection nor an error, and no error counts as a bind.
  The status of the user is not looked at either.\<close>

theorem ldap_login_takes_any_password:
  assumes u: "us_GetUserByEmail db email st = Inr u" and dn: "u_LdapDN u \<noteq> []" and server: "ld_dial ld ''ldap://localhost'' = Inr conn"
    and given: "email \<noteq> []" "password \<noteq> []"
  shows "fst (h_Login db jw ld now (Inr (email, password)) pool st) = issueTokens jw now u"
proof -
  let ?key = "genKey ''ldap://localhost'' False False (u_LdapDN u) password"
  let ?new = "newConn ld ''ldap://localhost'' False False (u_LdapDN u) password"
  have "?new = Ret (Inr None) \<or> ?new = Ret (Inr (Some conn))" using server by (auto simp: newConn_def)
  then have "\<exists>c pool1. GetOrNewFromPool ld ''ldap://localhost'' False False (u_LdapDN u) password pool = (Ret (Inr c), pool1)"
    by (cases "pool ?key") (auto simp: GetOrNewFromPool_def)
  then obtain pool1 where "ldapBind ld u password pool = (Ret True, pool1)"
    using dn by (auto simp: ldapBind_def DoBindForLDAP_def ConnectAndThen_def)
  then show ?thesis using u given by (simp add: h_Login_def)
qed

text \<open>Two accounts share an entry of the pool when their names and passwords run together.\<close>

lemma genKey_collides:
  "genKey s tls md5 (dn @ ''-'' @ x) y = genKey s tls md5 dn (x @ ''-'' @ y)"
  by (simp add: genKey_def)

subsection \<open>The white list\<close>

fun lang :: "rePiece list \<Rightarrow> string set" where
  "lang [] = {[]}"
| "lang (Lit t # ps) = {t @ s | s. s \<in> lang ps}"
| "lang (Digits # ps) = {ds @ s | ds s. ds \<noteq> [] \<and> list_all isDigitByte ds \<and> s \<in> lang ps}"

lemma lang_DigitsI: "ds \<noteq> [] \<Longrightarrow> list_all isDigitByte ds \<Longrightarrow> x \<in> lang ps \<Longrightarrow> ds @ x \<in> lang (Digits # ps)"
  by auto

lemma matchHere_lang: "matchHere ps s \<longleftrightarrow> (\<exists>m post. s = m @ post \<and> m \<in> lang ps)"
proof (induction ps s rule: matchHere.induct)
  case (2 t ps s)
  show ?case
  proof (cases "hasPrefix s t")
    case True
    then obtain r where s: "s = t @ r" by (metis append_take_drop_id hasPrefix_def)
    have "(\<exists>m post. s = m @ post \<and> m \<in> lang (Lit t # ps)) \<longleftrightarrow> (\<exists>m post. r = m @ post \<and> m \<in> lang ps)"
      unfolding s lang.simps mem_Collect_eq by (metis append.assoc same_append_eq)
    then show ?thesis using 2 True s by simp
  next
    case False
    then have "\<not> (\<exists>r. s = t @ r)" by (auto simp: hasPrefix_def)
    then show ?thesis using False by auto
  qed
next
  case (4 ps c s)
  have "(\<exists>m post. c # s = m @ post \<and> m \<in> lang (Digits # ps)) \<longleftrightarrow>
      isDigitByte c \<and> ((\<exists>m post. s = m @ post \<and> m \<in> lang ps) \<or> (\<exists>m post. s = m @ post \<and> m \<in> lang (Digits # ps)))"
    (is "?l \<longleftrightarrow> ?r")
  proof
    assume ?l
    then obtain ds x post where *: "c # s = (ds @ x) @ post" "ds \<noteq> []" "list_all isDigitByte ds" "x \<in> lang ps" by auto
    then obtain ds1 where ds: "ds = c # ds1" by (cases ds) auto
    show ?r
    proof (cases ds1)
      case Nil
      then show ?thesis using * ds by auto
    next
      case (Cons a b)
      then have "ds1 @ x \<in> lang (Digits # ps)" using * ds by (intro lang_DigitsI) simp_all
      moreover have "s = (ds1 @ x) @ post" "isDigitByte c" using * ds by simp_all
      ultimately show ?thesis by blast
    qed
  next
    assume r: ?r
    then show ?l
    proof (elim conjE disjE exE)
      fix m post assume "isDigitByte c" "s = m @ post" "m \<in> lang ps"
      then have "c # s = ([c] @ m) @ post" "[c] @ m \<in> lang (Digits # ps)" by (simp, intro lang_DigitsI) simp_all
      then show ?l by blast
    next
      fix m post assume *: "isDigitByte c" "s = m @ post" "m \<in> lang (Digits # ps)"
      then obtain ds x where "m = ds @ x" "ds \<noteq> []" "list_all isDigitByte ds" "x \<in> lang ps" by auto
      then have "c # s = ((c # ds) @ x) @ post" "(c # ds) @ x \<in> lang (Digits # ps)" using * by (simp, intro lang_DigitsI) simp_all
      then show ?l by blast
    qed
  qed
  then show ?case using 4 by auto
qed auto

lemma MatchString_lang: "MatchString ps s \<longleftrightarrow> (\<exists>pre m post. s = pre @ m @ post \<and> m \<in> lang ps)"
proof (induction s)
  case Nil
  then show ?case by (auto simp: matchHere_lang)
next
  case (Cons c s)
  have "(\<exists>pre m post. c # s = pre @ m @ post \<and> m \<in> lang ps) \<longleftrightarrow>
      (\<exists>m post. c # s = m @ post \<and> m \<in> lang ps) \<or> (\<exists>pre m post. s = pre @ m @ post \<and> m \<in> lang ps)"
    (is "?l \<longleftrightarrow> ?a \<or> ?b")
  proof
    assume ?l
    then obtain pre m post where *: "c # s = pre @ m @ post" "m \<in> lang ps" by blast
    then show "?a \<or> ?b" by (cases pre) auto
  next
    assume "?a \<or> ?b"
    then show ?l by (metis append_Cons append_Nil)
  qed
  then show ?case using Cons by (simp add: matchHere_lang)
qed

lemma MatchString_mid: "m \<in> lang ps \<Longrightarrow> MatchString ps (pre @ m @ post)"
  by (auto simp: MatchString_lang)

text \<open>C15: The white list keeps nobody out: it is searched for anywhere in the target of the request,
  the query included. Whoever has a token of any user passes it for every path and every method,
  by asking for the path with a query that has a listed path in it.\<close>

theorem white_list_is_open:
  assumes token: "AuthMiddleware jw now rq = Ret (Inr ctx)" and m: "ht_Method rq \<in> {''GET'', ''POST'', ''PUT'', ''DELETE''}"
    and uri: "ht_RequestURI rq = path @ ''?/v1/application/1''"
  shows "passGroup jw now permission rq = Ret (Inr ctx)"
proof -
  have q: "MatchString [Lit ''/v1/application/'', Digits] (ht_RequestURI rq)"
    using MatchString_mid [of "''/v1/application/1''" "[Lit ''/v1/application/'', Digits]" "path @ ''?''" "[]"] uri
    by (auto simp: isDigitByte_def)
  have p: "MatchString [Lit ''/v1/application''] (ht_RequestURI rq)"
    using MatchString_mid [of "''/v1/application''" "[Lit ''/v1/application'']" "path @ ''?''" "''/1''"] uri by simp
  have "whiteList (ht_Method rq) (ht_RequestURI rq)"
  proof (cases "ht_Method rq = ''POST''")
    case True
    have "contains ''GET,POST'' ''POST''" by code_simp
    moreover have "([Lit ''/v1/application''], ''GET,POST'') \<in> set permissions" by (simp add: permissions_def)
    ultimately show ?thesis using p True unfolding whiteList_def by force
  next
    case False
    have "contains ''GET,PUT,DELETE'' ''GET''" "contains ''GET,PUT,DELETE'' ''PUT''" "contains ''GET,PUT,DELETE'' ''DELETE''" by code_simp+
    moreover have "([Lit ''/v1/application/'', Digits], ''GET,PUT,DELETE'') \<in> set permissions" by (simp add: permissions_def)
    ultimately show ?thesis using q False m unfolding whiteList_def by force
  qed
  then show ?thesis using token by (simp add: passGroup_def PermissionMiddleware_def mw_IsAdmin_def)
qed

subsection \<open>What users change\<close>

definition mergeUser :: "UserBaseModel \<Rightarrow> UserBaseModel \<Rightarrow> UserBaseModel" where
  "mergeUser old u =
     \<lparr>u_ID = (if u_ID u = 0 then u_ID old else u_ID u), u_Uuid = (if u_Uuid u = [] then u_Uuid old else u_Uuid u),
      u_SaName = (if u_SaName u = [] then u_SaName old else u_SaName u), u_Name = (if u_Name u = [] then u_Name old else u_Name u),
      u_Username = (if u_Username u = [] then u_Username old else u_Username u),
      u_Password = (if u_Password u = [] then u_Password old else u_Password u),
      u_Phone = (if u_Phone u = 0 then u_Phone old else u_Phone u), u_Email = (if u_Email u = [] then u_Email old else u_Email u),
      u_LdapDN = (if u_LdapDN u = [] then u_LdapDN old else u_LdapDN u),
      u_LdapGen = (if u_LdapGen u = 0 then u_LdapGen old else u_LdapGen u),
      u_IsAdmin = (if u_IsAdmin u = None then u_IsAdmin old else u_IsAdmin u),
      u_Status = (if u_Status u = None then u_Status old else u_Status u),
      u_ClusterAdmin = (if u_ClusterAdmin u = None then u_ClusterAdmin old else u_ClusterAdmin u),
      u_Avatar = (if u_Avatar u = [] then u_Avatar old else u_Avatar u)\<rparr>"

text \<open>An update without a key is an update of all rows.\<close>

definition usersOk :: "'w userApi \<Rightarrow> ('w \<Rightarrow> nat \<rightharpoonup> UserBaseModel) \<Rightarrow> bool" where
  "usersOk db rows \<longleftrightarrow>
     (\<forall>i w. case ud_byId db i w of Inr (Some u) \<Rightarrow> rows w i = Some u \<and> u_ID u = i | _ \<Rightarrow> True) \<and>
     (\<forall>k u w r w'. ud_update db k u w = (r, w') \<longrightarrow>
        rows w' = rows w \<or>
        (if k = 0 then rows w' = (\<lambda>j. map_option (\<lambda>old. mergeUser old u) (rows w j))
         else \<exists>old. rows w k = Some old \<and> rows w' = (rows w)(k \<mapsto> mergeUser old u)))"

lemma us_Evict_world [simp]: "uw_w (us_Evict i st) = uw_w st"
  by (simp add: us_Evict_def split: option.splits)

lemma UpdateUser_rows:
  assumes ok: "usersOk db rows" and i: "i \<noteq> 0" and run: "us_UpdateUser db i u st = (r, st')"
  shows "rows (uw_w st') = rows (uw_w st) \<or>
    (\<exists>old. rows (uw_w st) i = Some old \<and> rows (uw_w st') = (rows (uw_w st))(i \<mapsto> mergeUser old u))"
proof -
  obtain r1 w1 where c: "ur_Update db i u (uw_w st) = (r1, w1)" by (metis surj_pair)
  have w: "uw_w st' = w1"
    using run c by (auto simp: us_UpdateUser_def onUsers_def split: outcome.splits option.splits)
  have "w1 = uw_w st \<or> (\<exists>e. ud_update db i u (uw_w st) = (e, w1))"
    using c by (auto simp: ur_Update_def split: sum.splits if_splits prod.splits option.splits)
  then show ?thesis using ok i w unfolding usersOk_def by fastforce
qed

text \<open>C13: Who is not an administrator changes no other user, and never the flag of an administrator
  nor the status of the own account, whatever the request says and whatever comes of it.\<close>

theorem plain_user_changes_own_profile:
  assumes ok: "usersOk db rows" and ctx: "tc_IsAdmin ctx \<noteq> 1" "tc_UserID ctx \<noteq> 0"
    and run: "h_UpdateUser db ctx userId body st = (r, st')" and old: "rows (uw_w st) j = Some u"
  shows "\<exists>u'. rows (uw_w st') j = Some u' \<and> u_IsAdmin u' = u_IsAdmin u \<and> u_Status u' = u_Status u \<and>
    (j \<noteq> tc_UserID ctx \<longrightarrow> u' = u)"
proof (cases "st' = st")
  case True
  then show ?thesis using old by simp
next
  case False
  then obtain req pwd r1 where up: "us_UpdateUser db userId (userMapOf req pwd False) st = (r1, st')" and id: "tc_UserID ctx = userId"
    using run ctx by (auto simp: h_UpdateUser_def split: sum.splits if_splits outcome.splits option.splits prod.splits)
  have "userId \<noteq> 0" using ctx id by simp
  from UpdateUser_rows [OF ok this up] old id show ?thesis
    by (auto simp: mergeUser_def userMapOf_def zeroUser_def)
qed

text \<open>The profile that comes from the LDAP server is up to date once it was written.\<close>

lemma ldap_profile_settles: "\<not> NeedToUpdateProfileInLdap (ldapUser u name dn gen admin) name dn admin"
  by (simp add: NeedToUpdateProfileInLdap_def ldapUser_def Let_def)

subsection \<open>An example\<close>

text \<open>Users in memory by id, passwords that are their own hash.\<close>

type_synonym memUsers = "nat \<rightharpoonup> UserBaseModel"

definition memUserRows :: "memUsers \<Rightarrow> nat \<rightharpoonup> UserBaseModel" where
  "memUserRows w i = (case w i of Some u \<Rightarrow> if u_ID u = i then Some u else None | None \<Rightarrow> None)"

definition memUserDb :: "memUsers userApi" where
  "memUserDb =
     \<lparr>ud_byId = \<lambda>i w. Inr (memUserRows w i), ud_bySa = \<lambda>_ _. Inr None,
      ud_byEmail = \<lambda>e w. Inr (find (\<lambda>u. u_Email u = e) (List.map_filter (memUserRows w) [0..<10])),
      ud_create = \<lambda>_ w. (Inl ''full'', w),
      ud_update = \<lambda>k u w. if u_ID u \<noteq> 0 then (Some ''key'', w)
        else if k = 0 then (None, \<lambda>j. map_option (\<lambda>old. mergeUser old u) (w j))
        else (None, w(k := map_option (\<lambda>old. mergeUser old u) (memUserRows w k))),
      ud_delete = \<lambda>i w. (1, w(i := None)), ud_setSa = \<lambda>_ _ w. (None, w),
      ud_after = \<lambda>i n w. take n (List.map_filter (memUserRows w) [Suc i..<10]), ud_setGen = \<lambda>_ _ w. (0, w),
      ud_creates = \<lambda>_ w. (Some ''full'', w), ud_disable = \<lambda>_ w. (Inr 0, w), ud_hash = Inr,
      ud_compare = \<lambda>h p. if h = p then None else Some ''mismatch'', ud_saLetters = \<lambda>_. [1, 2, 3], ud_uuid = \<lambda>_. ''u''\<rparr>"

lemma mergeUser_id: "u_ID u = 0 \<Longrightarrow> u_ID (mergeUser old u) = u_ID old"
  by (simp add: mergeUser_def)

lemma memUserRows_map:
  "u_ID u = 0 \<Longrightarrow> memUserRows (\<lambda>j. map_option (\<lambda>old. mergeUser old u) (w j)) =
     (\<lambda>j. map_option (\<lambda>old. mergeUser old u) (memUserRows w j))"
  by (rule ext) (simp add: memUserRows_def mergeUser_id split: option.splits)

lemma memUserRows_upd:
  "u_ID u = 0 \<Longrightarrow> memUserRows w k = Some old \<Longrightarrow>
     memUserRows (w(k \<mapsto> mergeUser old u)) = (memUserRows w)(k \<mapsto> mergeUser old u)"
  by (rule ext) (simp add: memUserRows_def mergeUser_id split: option.splits if_splits)

lemma memUserRows_none: "memUserRows w k = None \<Longrightarrow> memUserRows (w(k := None)) = memUserRows w"
  by (rule ext) (auto simp: memUserRows_def)

lemma memUserRows_id: "memUserRows w i = Some u \<Longrightarrow> u_ID u = i"
  by (simp add: memUserRows_def split: option.splits if_splits)

lemma mem_users: "usersOk memUserDb memUserRows"
proof -
  have "memUserRows w' = memUserRows w \<or>
      (if k = 0 then memUserRows w' = (\<lambda>j. map_option (\<lambda>old. mergeUser old u) (memUserRows w j))
       else \<exists>old. memUserRows w k = Some old \<and> memUserRows w' = (memUserRows w)(k \<mapsto> mergeUser old u))"
    if "ud_update memUserDb k u w = (r, w')" for k u w r w'
  proof (cases "u_ID u = 0 \<and> k \<noteq> 0")
    case True
    then show ?thesis using that memUserRows_upd memUserRows_none
      by (cases "memUserRows w k") (auto simp: memUserDb_def)
  next
    case False
    then show ?thesis using that memUserRows_map by (auto simp: memUserDb_def split: if_splits)
  qed
  moreover have "case ud_byId memUserDb i w of Inr (Some u) \<Rightarrow> memUserRows w i = Some u \<and> u_ID u = i | _ \<Rightarrow> True" for i w
    by (simp add: memUserDb_def memUserRows_id split: option.splits)
  ultimately show ?thesis unfolding usersOk_def by blast
qed

definition annUser :: UserBaseModel where
  "annUser = zeroUser\<lparr>u_ID := 7, u_Email := ''ann@dev'', u_Password := ''secret'', u_LdapDN := ''cn=ann'', u_IsAdmin := Some 0, u_Status := Some 0\<rparr>"

definition bobUser :: UserBaseModel where
  "bobUser = zeroUser\<lparr>u_ID := 5, u_Email := ''bob@dev'', u_Password := ''hidden'', u_IsAdmin := Some 1, u_Status := Some 1\<rparr>"

definition demoUsers :: "memUsers userWorld" where
  "demoUsers = \<lparr>uw_id = Map.empty, uw_sa = Map.empty, uw_w = [5 \<mapsto> bobUser, 7 \<mapsto> annUser]\<rparr>"

text \<open>A library of tokens that signs for Bob at one moment.\<close>

definition bobClaims :: "nat \<Rightarrow> claims" where
  "bobClaims d = [''user_id'' \<mapsto> JNum 5, ''username'' \<mapsto> JStr [], ''uuid'' \<mapsto> JStr [],
     ''email'' \<mapsto> JStr ''bob@dev'', ''is_admin'' \<mapsto> JNum 1, ''nbf'' \<mapsto> JNum 1000, ''iat'' \<mapsto> JNum 1000,
     ''exp'' \<mapsto> JNum (1000 + 86400 * d)]"

definition demoToken :: "nat \<Rightarrow> nat \<Rightarrow> string \<Rightarrow> (bool \<Rightarrow> gerr + string) \<Rightarrow> jwtToken option \<times> gerr option" where
  "demoToken d now k kf =
     (let v = (kf True = Inr k \<and> 1000 \<le> now \<and> now < 1000 + 86400 * d)
      in (Some \<lparr>jt_hmac = True, jt_claims = map_option floatClaim \<circ> bobClaims d, jt_valid = v\<rparr>, if v then None else Some ''invalid''))"

definition demoJwt :: jwtApi where
  "demoJwt =
     \<lparr>jw_sign = \<lambda>cl k. if cl = bobClaims 1 \<and> k = ''key'' then Inr ''a.b.c'' else if cl = bobClaims 14 \<and> k = ''other'' then Inr ''d.e.f''
        else Inl ''no'',
      jw_parse = \<lambda>now s kf. if s = ''a.b.c'' then demoToken 1 now ''key'' kf else if s = ''d.e.f'' then demoToken 14 now ''other'' kf
        else (None, Some ''malformed''),
      jw_addDays = \<lambda>now d. now + 86400 * d, jw_secret = ''key'', jw_refreshSecret = ''other''\<rparr>"

lemma demo_jwt: "jwtOk demoJwt"
proof -
  have nbf: "bobClaims d ''nbf'' = Some (JNum 1000)" "bobClaims d ''exp'' = Some (JNum (1000 + 86400 * d))" for d
    by (simp_all add: bobClaims_def)
  have "plainToken ''a.b.c''" "plainToken ''d.e.f''" by (simp_all add: plainToken_def isSpaceByte_def)
  then show ?thesis unfolding jwtOk_def demoJwt_def
    by (auto simp: demoToken_def Let_def nbf simp del: One_nat_def split: if_splits)
qed

lemma demo_sign: "Sign demoJwt 1000 (contextOfUser bobUser) = Inr (''a.b.c'', ''d.e.f'')"
proof -
  have "claimsOf demoJwt 1000 (contextOfUser bobUser) d = bobClaims d" for d
    by (simp add: claimsOf_def bobClaims_def demoJwt_def contextOfUser_def bobUser_def zeroUser_def)
  moreover have "bobClaims 14 \<noteq> bobClaims 1"
  proof
    assume "bobClaims 14 = bobClaims 1"
    then have "bobClaims 14 ''exp'' = bobClaims 1 ''exp''" by simp
    then show False by (simp add: bobClaims_def)
  qed
  ultimately show ?thesis by (simp add: Sign_def SignToken_def SignRefreshToken_def tk_sign_def demoJwt_def)
qed

definition demoLdap :: "unit ldapApi" where
  "demoLdap = \<lparr>ld_dial = \<lambda>_. Inr (), ld_startTLS = \<lambda>_. None, ld_md5Bind = \<lambda>_ _ _ _. Some ''invalid credentials'',
     ld_bind = \<lambda>_ _ _. Some ''invalid credentials'', ld_isClosing = \<lambda>_. False, ld_closeNil = Some nilUser,
     ld_search = \<lambda>_ _ _. Ret (Inr [])\<rparr>"

lemma demo_users:
  "us_GetUserByEmail memUserDb ''bob@dev'' demoUsers = Inr bobUser" "us_GetUserByEmail memUserDb ''ann@dev'' demoUsers = Inr annUser"
  by code_simp+

theorem login_token_identifies_user_witness:
  "h_Login memUserDb demoJwt demoLdap 1000 (Inr (''bob@dev'', ''hidden'')) Map.empty demoUsers =
     (Ret (Inr (''a.b.c'', ''d.e.f'')), Map.empty) \<and>
   AuthMiddleware demoJwt 2000 \<lparr>ht_Method = ''GET'', ht_RequestURI = ''/v1/me'', ht_Authorization = ''Bearer a.b.c'', ht_Reraeb = ''d.e.f''\<rparr> =
     Ret (Inr (contextOfUser bobUser))"
proof -
  let ?rq = "\<lparr>ht_Method = ''GET'', ht_RequestURI = ''/v1/me'', ht_Authorization = ''Bearer a.b.c'', ht_Reraeb = ''d.e.f''\<rparr>"
  have "us_EmailLogin memUserDb ''bob@dev'' ''hidden'' demoUsers = Ret None" by code_simp
  moreover have "u_LdapDN bobUser = []" "u_IsAdmin bobUser \<noteq> None" by (simp_all add: bobUser_def zeroUser_def)
  ultimately have login: "h_Login memUserDb demoJwt demoLdap 1000 (Inr (''bob@dev'', ''hidden'')) Map.empty demoUsers =
      (Ret (Inr (''a.b.c'', ''d.e.f'')), Map.empty)"
    using demo_users demo_sign by (simp add: h_Login_def ldapBind_def issueTokens_Inr)
  have "smallContext (contextOfUser bobUser)" by (simp add: smallContext_def contextOfUser_def bobUser_def zeroUser_def)
  then have "\<forall>later. 1000 \<le> later \<and> later < jw_addDays demoJwt 1000 1 \<longrightarrow> AuthMiddleware demoJwt later ?rq = Ret (Inr (contextOfUser bobUser))"
    using login_token_identifies_user [OF demo_jwt login demo_users(1), of ?rq] by (simp add: demoJwt_def)
  then show ?thesis using login by (auto simp: demoJwt_def)
qed

theorem ldap_login_takes_any_password_witness:
  "u_Status annUser = Some 0 \<and> ld_bind demoLdap () ''cn=ann'' ''wrong'' \<noteq> None \<and>
   fst (h_Login memUserDb demoJwt demoLdap 1000 (Inr (''ann@dev'', ''wrong'')) Map.empty demoUsers) = issueTokens demoJwt 1000 annUser"
  using ldap_login_takes_any_password [OF demo_users(2), of demoLdap "()" "''wrong''"]
  by (simp add: annUser_def zeroUser_def demoLdap_def)

theorem white_list_is_open_witness:
  "\<not> whiteList ''DELETE'' ''/v1/users/5'' \<and>
   passGroup demoJwt 2000 True \<lparr>ht_Method = ''DELETE'', ht_RequestURI = ''/v1/users/5?/v1/application/1'',
     ht_Authorization = ''Bearer a.b.c'', ht_Reraeb = []\<rparr> = Ret (Inr (contextOfUser bobUser))"
proof -
  let ?rq = "\<lparr>ht_Method = ''DELETE'', ht_RequestURI = ''/v1/users/5?/v1/application/1'', ht_Authorization = ''Bearer a.b.c'', ht_Reraeb = []\<rparr>"
  have "tk_sign demoJwt 1000 (contextOfUser bobUser) (jw_secret demoJwt) 1 = Inr ''a.b.c''"
    using demo_sign by (simp add: Sign_Inr SignToken_def)
  then have "tk_Parse demoJwt 2000 ''a.b.c'' (jw_secret demoJwt) False = Ret (Inr (contextOfUser bobUser))"
    by (rule signed_parses(3) [OF demo_jwt]) (simp_all add: smallContext_def contextOfUser_def bobUser_def zeroUser_def demoJwt_def)
  moreover have "bearer ''Bearer a.b.c'' = ''a.b.c''" by code_simp
  ultimately have a: "AuthMiddleware demoJwt 2000 ?rq = Ret (Inr (contextOfUser bobUser))"
    by (simp add: AuthMiddleware_def ParseRequest_def)
  have "\<not> whiteList ''DELETE'' ''/v1/users/5''" by code_simp
  then show ?thesis using white_list_is_open [OF a, of "''/v1/users/5''" True] by simp
qed

text \<open>Ann asks to be an administrator.\<close>

theorem plain_user_changes_own_profile_witness:
  "\<exists>r st' u'. h_UpdateUser memUserDb (contextOfUser annUser) 7 (Inr \<lparr>upd_Email = [], upd_Name = ''Ann'', upd_Password = [],
     upd_Status = Some 1, upd_IsAdmin = Some 1\<rparr>) demoUsers = (r, st') \<and> memUserRows (uw_w st') 7 = Some u' \<and> u_IsAdmin u' = Some 0"
proof -
  obtain r st' where run: "h_UpdateUser memUserDb (contextOfUser annUser) 7 (Inr \<lparr>upd_Email = [], upd_Name = ''Ann'', upd_Password = [],
     upd_Status = Some 1, upd_IsAdmin = Some 1\<rparr>) demoUsers = (r, st')" by (metis surj_pair)
  have old: "memUserRows (uw_w demoUsers) 7 = Some annUser" by code_simp
  have "tc_IsAdmin (contextOfUser annUser) \<noteq> 1" "tc_UserID (contextOfUser annUser) \<noteq> 0" "u_IsAdmin annUser = Some 0"
    by (simp_all add: contextOfUser_def annUser_def zeroUser_def)
  then show ?thesis using plain_user_changes_own_profile [where rows = memUserRows and j = 7, OF mem_users _ _ run old] run by auto
qed

text \<open>An administrator who updates the user without an id, or with one that is no number, updates all.\<close>

lemma update_without_id_changes_all:
  "let st = snd (h_UpdateUser memUserDb (contextOfUser bobUser) 0 (Inr \<lparr>upd_Email = [], upd_Name = [], upd_Password = ''new'',
     upd_Status = None, upd_IsAdmin = None\<rparr>) demoUsers)
   in map_option u_Password (memUserRows (uw_w st) 5) = Some ''new'' \<and> map_option u_Password (memUserRows (uw_w st) 7) = Some ''new''"
  by code_simp

text \<open>The routes that refuse a plain user who asks for them as they are, with one for every id.\<close>

definition fillIds :: "string \<Rightarrow> string" where
  "fillIds p = concat (map (\<lambda>seg. ''/'' @ (if hasPrefix seg '':'' then ''1'' else seg)) (tl (split p ''/'')))"

lemma refused_routes:
  "concat (map (\<lambda>(prefix, permission, routes).
      map (\<lambda>(m, p). (m, prefix @ p)) (filter (\<lambda>(m, p). permission \<and> \<not> whiteList m (prefix @ fillIds p)) routes)) apiGroups) =
   [(''POST'', ''/v1/users''), (''POST'', ''/v1/users/import''), (''DELETE'', ''/v1/users/:id''),
    (''POST'', ''/v2/dev_space/ns_import''), (''POST'', ''/v2/dev_space/ns_batch_import''),
    (''GET'', ''/v1/ldap/config''), (''PUT'', ''/v1/ldap/config/set''), (''PUT'', ''/v1/ldap/config/disable''),
    (''PUT'', ''/v1/ldap/bind''), (''PUT'', ''/v1/ldap/search''), (''POST'', ''/v1/ldap/trigger'')]"
  by code_simp

end
