(* ===== verification/LdapSync.thy ===== *)
theory LdapSync
  imports Users "HOL-Library.AList"
begin

text \<open>
  The synchronisation of users with an LDAP server
  (\<open>src/internal/nocalhost-api/service/job.go\<close>, \<open>src/internal/nocalhost-api/repository/ldap\<close>,
  \<open>IsEmail\<close> of \<open>src/pkg/nocalhost-api/pkg/utils/utils.go\<close>). The map from addresses to entries is an association
  list with distinct keys; \<open>walk\<close> is the order in which it is ranged over. The loop over the users
  is a partial function, since it ends when the table has no more rows.
\<close>

subsection \<open>Addresses\<close>

datatype re = NoMatch | Empty | Cls "char \<Rightarrow> bool" | Seq re re | Alt re re | Rep re

fun nullable :: "re \<Rightarrow> bool" where
  "nullable NoMatch = False"
| "nullable Empty = True"
| "nullable (Cls p) = False"
| "nullable (Seq r s) = (nullable r \<and> nullable s)"
| "nullable (Alt r s) = (nullable r \<or> nullable s)"
| "nullable (Rep r) = True"

fun deriv :: "char \<Rightarrow> re \<Rightarrow> re" where
  "deriv c NoMatch = NoMatch"
| "deriv c Empty = NoMatch"
| "deriv c (Cls p) = (if p c then Empty else NoMatch)"
| "deriv c (Seq r s) = (if nullable r then Alt (Seq (deriv c r) s) (deriv c s) else Seq (deriv c r) s)"
| "deriv c (Alt r s) = Alt (deriv c r) (deriv c s)"
| "deriv c (Rep r) = Seq (deriv c r) (Rep r)"

definition matchesRe :: "re \<Rightarrow> string \<Rightarrow> bool" where
  "matchesRe r s = nullable (fold deriv s r)"

definition anything :: re where
  "anything = Rep (Cls (\<lambda>_. True))"

definition byteIn :: "nat \<Rightarrow> nat \<Rightarrow> char \<Rightarrow> bool" where
  "byteIn a b c \<longleftrightarrow> a \<le> of_char c \<and> of_char c \<le> b"

definition oneOrMore :: "re \<Rightarrow> re" where
  "oneOrMore r = Seq r (Rep r)"

definition optional :: "re \<Rightarrow> re" where
  "optional r = Alt Empty r"

definition oneChar :: "char \<Rightarrow> re" where
  "oneChar c = Cls (\<lambda>d. d = c)"

definition alnum :: "char \<Rightarrow> bool" where
  "alnum c \<longleftrightarrow> byteIn 97 122 c \<or> byteIn 48 57 c"

definition atomRe :: re where
  "atomRe = oneOrMore (Cls (\<lambda>c. alnum c \<or> c \<in> set ''!#$%&*+/=?^_`{|}~-'' \<or> of_char c = (39 :: nat)))"

definition quotedRe :: re where
  "quotedRe = Seq (Cls (byteIn 34 34)) (Seq (Rep (Alt
     (Cls (\<lambda>c. byteIn 1 8 c \<or> byteIn 11 12 c \<or> byteIn 14 31 c \<or> byteIn 33 33 c \<or> byteIn 35 91 c \<or> byteIn 93 127 c))
     (Seq (Cls (byteIn 92 92)) (Cls (\<lambda>c. byteIn 1 9 c \<or> byteIn 11 12 c \<or> byteIn 14 127 c))))) (Cls (byteIn 34 34)))"

definition labelRe :: re where
  "labelRe = Seq (Cls alnum) (optional (Seq (Rep (Cls (\<lambda>c. alnum c \<or> c = CHR ''-''))) (Cls alnum)))"

definition octetRe :: re where
  "octetRe = Alt (Seq (oneChar CHR ''2'') (Alt (Seq (oneChar CHR ''5'') (Cls (byteIn 48 53))) (Seq (Cls (byteIn 48 52)) (Cls (byteIn 48 57)))))
     (Alt (Seq (oneChar CHR ''1'') (Seq (Cls (byteIn 48 57)) (Cls (byteIn 48 57)))) (Seq (optional (Cls (byteIn 49 57))) (Cls (byteIn 48 57))))"

definition literalRe :: re where
  "literalRe = Seq (oneChar CHR ''['') (Seq (Seq octetRe (oneChar CHR ''.'')) (Seq (Seq octetRe (oneChar CHR ''.'')) (Seq (Seq octetRe (oneChar CHR ''.''))
     (Seq (Alt octetRe
       (Seq (Rep (Cls (\<lambda>c. alnum c \<or> c = CHR ''-''))) (Seq (Cls alnum) (Seq (oneChar CHR '':'') (oneOrMore (Alt
         (Cls (\<lambda>c. byteIn 1 8 c \<or> byteIn 11 12 c \<or> byteIn 14 31 c \<or> byteIn 33 90 c \<or> byteIn 83 127 c))
         (Seq (Cls (byteIn 92 92)) (Cls (\<lambda>c. byteIn 1 9 c \<or> byteIn 11 12 c \<or> byteIn 14 127 c)))))))))
     (oneChar CHR '']'')))))"

definition emailReg :: re where
  "emailReg = Seq (Alt (Seq atomRe (Rep (Seq (oneChar CHR ''.'') atomRe))) quotedRe)
     (Seq (oneChar CHR ''@'') (Alt (Seq (oneOrMore (Seq labelRe (oneChar CHR ''.''))) labelRe) literalRe))"

text \<open>The expression is looked for anywhere in the text.\<close>

definition IsEmail :: "string \<Rightarrow> bool" where
  "IsEmail email = matchesRe (Seq anything (Seq emailReg anything)) (toLower email)"

subsection \<open>Entries and users\<close>

type_synonym entries = "(string \<times> ldapEntry) list"

definition ToMailMapping :: "ldapEntry list \<Rightarrow> string \<Rightarrow> entries" where
  "ToMailMapping es emailAttr =
     fold (\<lambda>e m. if en_attr e emailAttr \<noteq> [] then AList.update (en_attr e emailAttr) e m else m) es []"

definition doSearch :: "'c ldapApi \<Rightarrow> string \<Rightarrow> string \<Rightarrow> string \<Rightarrow> 'c option \<Rightarrow> (gerr + entries) outcome" where
  "doSearch ld baseDN filt emailAttr conn =
     (case ld_search ld conn baseDN filt of
        Panic p \<Rightarrow> Panic p
      | Ret (Inl err) \<Rightarrow> Ret (Inl (wrap ''Error when sending search request to ldap server '' err))
      | Ret (Inr es) \<Rightarrow> Ret (Inr (ToMailMapping es emailAttr)))"

record 'w syncState =
  sy_entries :: entries
  sy_temp :: "UserBaseModel list"
  sy_now :: nat
  sy_updates :: nat
  sy_success :: nat
  sy_world :: "'w userWorld"

definition syncUser ::
  "'w userApi \<Rightarrow> string \<Rightarrow> string list \<Rightarrow> nat \<Rightarrow> UserBaseModel \<Rightarrow> 'w syncState \<Rightarrow> unit outcome \<times> 'w syncState" where
  "syncUser db userNameAttr admins ldapGen user st =
     (let seen = (\<lambda>st. st\<lparr>sy_now := max (sy_now st) (u_ID user)\<rparr>)
      in case map_of (sy_entries st) (u_Email user) of
           None \<Rightarrow> (Ret (), seen st)
         | Some entry \<Rightarrow>
             let usrName = en_attr entry userNameAttr; isAdmin = (u_Email user \<in> set admins);
                 rest = AList.delete (u_Email user) (sy_entries st)
             in if NeedToUpdateProfileInLdap user usrName (en_DN entry) isAdmin then
                  (case us_UpdateUserByModelWithLdap db user usrName (en_DN entry) ldapGen isAdmin (sy_world st) of
                     (Panic p, w) \<Rightarrow> (Panic p, st\<lparr>sy_world := w\<rparr>)
                   | (Ret _, w) \<Rightarrow>
                       (Ret (), seen (st\<lparr>sy_world := w, sy_success := sy_success st + 1, sy_updates := sy_updates st + 1,
                          sy_entries := rest\<rparr>)))
                else (Ret (), seen (st\<lparr>sy_temp := sy_temp st @ [user], sy_entries := rest\<rparr>)))"

fun syncBatch ::
  "'w userApi \<Rightarrow> string \<Rightarrow> string list \<Rightarrow> nat \<Rightarrow> UserBaseModel list \<Rightarrow> 'w syncState \<Rightarrow> unit outcome \<times> 'w syncState" where
  "syncBatch db userNameAttr admins ldapGen [] st = (Ret (), st)"
| "syncBatch db userNameAttr admins ldapGen (user # us) st =
     (case syncUser db userNameAttr admins ldapGen user st of
        (Panic p, st1) \<Rightarrow> (Panic p, st1)
      | (Ret _, st1) \<Rightarrow> syncBatch db userNameAttr admins ldapGen us st1)"

definition batchGen :: "'w userApi \<Rightarrow> nat \<Rightarrow> 'w syncState \<Rightarrow> 'w syncState" where
  "batchGen db ldapGen st =
     (case onUsers (UpdateUsersLdapGen db (sy_temp st) ldapGen) (sy_world st) of
        (ok, w) \<Rightarrow> st\<lparr>sy_world := w, sy_temp := [], sy_success := sy_success st + (if ok then length (sy_temp st) else 0)\<rparr>)"

partial_function (option) syncExisting ::
  "'w userApi \<Rightarrow> string \<Rightarrow> string list \<Rightarrow> nat \<Rightarrow> 'w syncState \<Rightarrow> (unit outcome \<times> 'w syncState) option" where
  "syncExisting db userNameAttr admins ldapGen st =
     (case BatchListByUserId db (sy_now st) (uw_w (sy_world st)) of
        [] \<Rightarrow> Some (Ret (), st)
      | user # us \<Rightarrow>
          (case syncBatch db userNameAttr admins ldapGen (user # us) st of
             (Panic p, st1) \<Rightarrow> Some (Panic p, st1)
           | (Ret _, st1) \<Rightarrow> syncExisting db userNameAttr admins ldapGen (batchGen db ldapGen st1)))"

declare syncExisting.simps [code]

definition CreateUsers :: "'w userApi \<Rightarrow> UserBaseModel list \<Rightarrow> 'w userWorld \<Rightarrow> nat \<times> 'w userWorld" where
  "CreateUsers db us st =
     (case onUsers (ur_Creates db us) st of (Some _, st1) \<Rightarrow> (0, st1) | (None, st1) \<Rightarrow> (length us, st1))"

definition newLdapUser :: "'w userApi \<Rightarrow> ('w \<Rightarrow> string) \<Rightarrow> string \<Rightarrow> string \<Rightarrow> ldapEntry \<Rightarrow> nat \<Rightarrow> bool \<Rightarrow> 'w \<Rightarrow> UserBaseModel" where
  "newLdapUser db RandomStr email userName entry ldapGen isAdmin w =
     zeroUser\<lparr>u_Email := email, u_Username := userName, u_Name := userName, u_LdapDN := en_DN entry, u_LdapGen := ldapGen,
       u_IsAdmin := BoolToUint64Pointer isAdmin, u_SaName := GenerateSaName (ud_saLetters db w),
       u_Status := BoolToUint64Pointer True, u_Uuid := ud_uuid db w, u_Password := RandomStr w\<rparr>"

definition sliceErr :: string where
  "sliceErr = ''slice bounds out of byteIn [:-1]''"

text \<open>The entries that are left, in hundreds; the state is the list so far, the counter and the world.\<close>

fun insertNew ::
  "'w userApi \<Rightarrow> ('w \<Rightarrow> string) \<Rightarrow> string \<Rightarrow> string \<Rightarrow> string list \<Rightarrow> nat \<Rightarrow> entries \<Rightarrow> UserBaseModel list \<Rightarrow> nat \<Rightarrow> 'w userWorld \<Rightarrow>
     (UserBaseModel list \<times> nat) outcome \<times> 'w userWorld" where
  "insertNew db rs emailAttr userNameAttr admins ldapGen [] temp inserts st = (Ret (temp, inserts), st)"
| "insertNew db rs emailAttr userNameAttr admins ldapGen ((_, entry) # es) temp inserts st =
     (let email = en_attr entry emailAttr; name = en_attr entry userNameAttr
      in if email = [] \<or> \<not> IsEmail email then insertNew db rs emailAttr userNameAttr admins ldapGen es temp inserts st
         else case (if name = [] then map_option (\<lambda>i. take i email) (index email ''@'') else Some name) of
             None \<Rightarrow> (Panic sliceErr, st)
           | Some userName \<Rightarrow>
               let temp1 = temp @ [newLdapUser db rs email userName entry ldapGen (email \<in> set admins) (uw_w st)]
               in if length temp1 = 100 then
                    (case CreateUsers db temp1 st of (n, st1) \<Rightarrow>
                       insertNew db rs emailAttr userNameAttr admins ldapGen es [] (inserts + n) st1)
                  else insertNew db rs emailAttr userNameAttr admins ldapGen es temp1 inserts st)"

record Report =
  rp_Entries :: nat
  rp_Inserts :: nat
  rp_Updates :: nat
  rp_Deletes :: nat
  rp_Fails :: int

record LdapModel =
  lm_ID :: nat
  lm_Server :: string
  lm_Tls :: "nat option"
  lm_Md5 :: "nat option"
  lm_BindDn :: string
  lm_Password :: string
  lm_BaseDn :: string
  lm_Filter :: string
  lm_AdminBaseDn :: string
  lm_AdminFilter :: string
  lm_EmailAttr :: string
  lm_UserNameAttr :: string
  lm_Enable :: "nat option"
  lm_SyncGen :: nat
  lm_SyncProtectionTs :: int
  lm_Inserts :: nat
  lm_Updates :: nat
  lm_Deletes :: nat

definition Uint64PointerToBool :: "nat option \<Rightarrow> bool" where
  "Uint64PointerToBool v \<longleftrightarrow> v \<noteq> None \<and> v \<noteq> Some 0"

definition orAll :: "string \<Rightarrow> string" where
  "orAll filt = (if filt = [] then ''(objectClass=*)'' else filt)"

text \<open>The entries of both searches and the addresses of administrators.\<close>

definition searchAll :: "'c ldapApi \<Rightarrow> LdapModel \<Rightarrow> 'c option \<Rightarrow> (gerr + entries \<times> string list) outcome" where
  "searchAll ld m conn =
     (case doSearch ld (lm_BaseDn m) (orAll (lm_Filter m)) (lm_EmailAttr m) conn of
        Panic p \<Rightarrow> Panic p
      | Ret (Inl err) \<Rightarrow> Ret (Inl err)
      | Ret (Inr es) \<Rightarrow>
          if lm_AdminBaseDn m = [] then Ret (Inr (es, []))
          else (case doSearch ld (lm_AdminBaseDn m) (orAll (lm_AdminFilter m)) (lm_EmailAttr m) conn of
              Panic p \<Rightarrow> Panic p
            | Ret (Inl err) \<Rightarrow> Ret (Inl err)
            | Ret (Inr adm) \<Rightarrow> Ret (Inr (fold (\<lambda>(k, e). AList.update k e) adm es, map fst adm))))"

type_synonym 'w syncResult = "((gerr + Report) outcome \<times> 'w userWorld) option"

definition finishSync :: "'w userApi \<Rightarrow> nat \<Rightarrow> nat \<Rightarrow> 'w syncState \<Rightarrow> nat \<Rightarrow> 'w userWorld \<Rightarrow> (gerr + Report) outcome \<times> 'w userWorld" where
  "finishSync db ldapGen allEntriesCount st inserts w =
     (case onUsers (DeleteOutOfSyncLdapUser db ldapGen) w of
        (Inl err, w1) \<Rightarrow> (Ret (Inl (wrap ''Error while set out date user status as 0 after ldap sync'' err)), w1)
      | (Inr deletes, w1) \<Rightarrow>
          (Ret (Inr \<lparr>rp_Entries = allEntriesCount, rp_Inserts = inserts, rp_Updates = sy_updates st, rp_Deletes = deletes,
             rp_Fails = int allEntriesCount - int (sy_success st + inserts)\<rparr>), w1))"

definition syncWith ::
  "'w userApi \<Rightarrow> 'c ldapApi \<Rightarrow> ('w \<Rightarrow> string) \<Rightarrow> (entries \<Rightarrow> entries) \<Rightarrow> LdapModel \<Rightarrow> 'w userWorld \<Rightarrow> 'c option \<Rightarrow> 'w syncResult" where
  "syncWith db ld rs walk m w conn =
     (case searchAll ld m conn of
        Panic p \<Rightarrow> Some (Panic p, w)
      | Ret (Inl err) \<Rightarrow> Some (Ret (Inl err), w)
      | Ret (Inr (es, admins)) \<Rightarrow>
          (case syncExisting db (lm_UserNameAttr m) admins (lm_SyncGen m)
                  \<lparr>sy_entries = es, sy_temp = [], sy_now = 0, sy_updates = 0, sy_success = 0, sy_world = w\<rparr> of
             None \<Rightarrow> None
           | Some (Panic p, st) \<Rightarrow> Some (Panic p, sy_world st)
           | Some (Ret _, st) \<Rightarrow>
               (case insertNew db rs (lm_EmailAttr m) (lm_UserNameAttr m) admins (lm_SyncGen m) (walk (sy_entries st)) [] 0 (sy_world st) of
                  (Panic p, w1) \<Rightarrow> Some (Panic p, w1)
                | (Ret (temp, inserts), w1) \<Rightarrow>
                    (case CreateUsers db temp w1 of (n, w2) \<Rightarrow>
                       Some (finishSync db (lm_SyncGen m) (length es) st (inserts + n) w2)))))"

definition DoSyncFromLDAP ::
  "'w userApi \<Rightarrow> 'c ldapApi \<Rightarrow> ('w \<Rightarrow> string) \<Rightarrow> (entries \<Rightarrow> entries) \<Rightarrow> LdapModel \<Rightarrow> 'c ldapPool \<Rightarrow> 'w userWorld \<Rightarrow>
     'w syncResult \<times> 'c ldapPool" where
  "DoSyncFromLDAP db ld rs walk m pool w =
     ConnectAndThen ld (lm_Server m) (Uint64PointerToBool (lm_Tls m)) (Uint64PointerToBool (lm_Md5 m)) (lm_BindDn m) (lm_Password m)
       (\<lambda>r. Some (case r of Panic p \<Rightarrow> Panic p | Ret err \<Rightarrow> Ret (Inl err), w)) (syncWith db ld rs walk m w) pool"

definition doCronJob ::
  "'w userApi \<Rightarrow> 'c ldapApi \<Rightarrow> ('w \<Rightarrow> string) \<Rightarrow> (entries \<Rightarrow> entries) \<Rightarrow> LdapModel \<Rightarrow> 'c ldapPool \<Rightarrow> 'w userWorld \<Rightarrow>
     'w syncResult \<times> 'c ldapPool" where
  "doCronJob db ld rs walk m pool w =
     (case DoSyncFromLDAP db ld rs walk m pool w of
        (Some (Ret (Inl err), w1), pool1) \<Rightarrow> (Some (Ret (Inl (wrap ''Error when sync from ldap '' err)), w1), pool1)
      | r \<Rightarrow> r)"

subsection \<open>The job\<close>

record 'w ldapDb =
  lb_first :: "'w \<Rightarrow> gerr + LdapModel option"
  lb_tryLock :: "nat \<Rightarrow> int \<Rightarrow> int \<Rightarrow> 'w \<Rightarrow> nat \<times> 'w"
  lb_unlock :: "nat \<Rightarrow> int \<Rightarrow> 'w \<Rightarrow> 'w"
  lb_markError :: "nat \<Rightarrow> nat \<Rightarrow> gerr \<Rightarrow> 'w \<Rightarrow> nat \<times> 'w"
  lb_updateGen :: "nat \<Rightarrow> nat \<Rightarrow> Report \<Rightarrow> 'w \<Rightarrow> gerr option \<times> 'w"

definition TryGetLock :: "'w ldapDb \<Rightarrow> nat \<Rightarrow> int \<Rightarrow> int \<Rightarrow> 'w \<Rightarrow> bool \<times> 'w" where
  "TryGetLock lb i newTs oldTs w = (case lb_tryLock lb i newTs oldTs w of (n, w1) \<Rightarrow> (n > 0, w1))"

definition ActivateSync :: "nat \<Rightarrow> nat \<Rightarrow> nat \<Rightarrow> Report \<Rightarrow> Report" where
  "ActivateSync deletes inserts updates r =
     (if rp_Deletes r = 0 \<and> rp_Inserts r = 0 \<and> rp_Updates r = 0
      then r\<lparr>rp_Deletes := deletes, rp_Inserts := inserts, rp_Updates := updates\<rparr> else r)"

text \<open>
  Go's conjunction binds closer than its disjunction: an enabled configuration is synchronised
  without the lock, and one that is not enabled as soon as the lock can be had.
\<close>

definition syncGuard :: "'w ldapDb \<Rightarrow> LdapModel \<Rightarrow> int \<Rightarrow> int \<Rightarrow> 'w \<Rightarrow> bool \<times> 'w" where
  "syncGuard lb m newTs now w =
     (if Uint64PointerToBool (lm_Enable m) then (True, w)
      else if lm_SyncProtectionTs m < now then TryGetLock lb (lm_ID m) newTs (lm_SyncProtectionTs m) w
      else (False, w))"

text \<open>\<open>newTs\<close> is ten minutes from now. The third component says whether the synchronisation ran.\<close>

definition cronJobTrigger ::
  "'w userApi \<Rightarrow> 'w ldapDb \<Rightarrow> 'c ldapApi \<Rightarrow> ('w \<Rightarrow> string) \<Rightarrow> (entries \<Rightarrow> entries) \<Rightarrow> int \<Rightarrow> int \<Rightarrow> bool \<Rightarrow> 'c ldapPool \<Rightarrow> 'w userWorld \<Rightarrow>
     (unit outcome \<times> bool \<times> 'c ldapPool \<times> 'w userWorld) option" where
  "cronJobTrigger db lb ld rs walk newTs now running pool w =
     (if running then Some (Ret (), False, pool, w)
      else (case lb_first lb (uw_w w) of
          Inl err \<Rightarrow> Some (Ret (), False, pool, w\<lparr>uw_w := snd (lb_markError lb 0 0 err (uw_w w))\<rparr>)
        | Inr None \<Rightarrow> Some (Ret (), False, pool, w)
        | Inr (Some m) \<Rightarrow>
            (case onUsers (syncGuard lb m newTs now) w of
               (False, w1) \<Rightarrow> Some (Ret (), False, pool, w1)
             | (True, w1) \<Rightarrow>
                 (case doCronJob db ld rs walk m pool w1 of
                    (None, _) \<Rightarrow> None
                  | (Some (Panic p, w2), pool1) \<Rightarrow> Some (Panic p, True, pool1, w2)
                  | (Some (Ret (Inl err), w2), pool1) \<Rightarrow>
                      let x = snd (lb_markError lb (lm_ID m) (lm_SyncGen m) err (uw_w w2))
                      in Some (Ret (), True, pool1, w2\<lparr>uw_w := lb_unlock lb (lm_ID m) newTs x\<rparr>)
                  | (Some (Ret (Inr report), w2), pool1) \<Rightarrow>
                      (case onUsers (lb_updateGen lb (lm_ID m) (lm_SyncGen m + 1)
                               (ActivateSync (lm_Deletes m) (lm_Inserts m) (lm_Updates m) report)) w2 of
                         (Some _, w3) \<Rightarrow> Some (Ret (), True, pool1, w3)
                       | (None, w3) \<Rightarrow> Some (Ret (), True, pool1, w3\<lparr>uw_w := lb_unlock lb (lm_ID m) newTs (uw_w w3)\<rparr>))))))"

end
