(* ===== verification/LdapSyncProps.thy ===== *)
theory LdapSyncProps
  imports LdapSync ApiAuthProps
begin

text \<open>
  The expression for addresses against its language, and what a synchronisation with LDAP does:
  that it ends, and what becomes of the accounts that the server does not list.
\<close>

subsection \<open>Addresses\<close>

inductive_set star :: "string set \<Rightarrow> string set" for A where
  star_Nil: "[] \<in> star A"
| star_app: "x \<in> A \<Longrightarrow> y \<in> star A \<Longrightarrow> x @ y \<in> star A"

fun reLang :: "re \<Rightarrow> string set" where
  "reLang NoMatch = {}"
| "reLang Empty = {[]}"
| "reLang (Cls p) = {[c] | c. p c}"
| "reLang (Seq r s) = {x @ y | x y. x \<in> reLang r \<and> y \<in> reLang s}"
| "reLang (Alt r s) = reLang r \<union> reLang s"
| "reLang (Rep r) = star (reLang r)"

lemma nullable_iff: "nullable r \<longleftrightarrow> [] \<in> reLang r"
  by (induction r) (auto intro: star_Nil)

lemma star_ConsD: "w \<in> star A \<Longrightarrow> w = c # v \<Longrightarrow> \<exists>x y. c # x \<in> A \<and> y \<in> star A \<and> v = x @ y"
proof (induction arbitrary: v rule: star.induct)
  case (star_app x y)
  then show ?case by (cases x) auto
qed simp

lemma star_Cons: "c # v \<in> star A \<longleftrightarrow> (\<exists>x y. c # x \<in> A \<and> y \<in> star A \<and> v = x @ y)"
  using star_ConsD star_app [of "c # _" A] by fastforce

lemma seq_Cons:
  "c # v \<in> {x @ y | x y. x \<in> A \<and> y \<in> B} \<longleftrightarrow>
     (\<exists>x y. c # x \<in> A \<and> y \<in> B \<and> v = x @ y) \<or> [] \<in> A \<and> c # v \<in> B" (is "?l \<longleftrightarrow> ?r")
proof
  assume ?l
  then obtain x y where *: "c # v = x @ y" "x \<in> A" "y \<in> B" by auto
  then show ?r by (cases x) auto
next
  assume ?r
  then show ?l
  proof (elim disjE exE conjE)
    fix x y assume "c # x \<in> A" "y \<in> B" "v = x @ y"
    then show ?l by (intro CollectI exI [of _ "c # x"] exI [of _ y]) simp
  next
    assume "[] \<in> A" "c # v \<in> B"
    then show ?l by (intro CollectI exI [of _ "[]"] exI [of _ "c # v"]) simp
  qed
qed

lemma deriv_iff: "v \<in> reLang (deriv c r) \<longleftrightarrow> c # v \<in> reLang r"
proof (induction r arbitrary: v)
  case (Seq r s)
  show ?case unfolding reLang.simps seq_Cons using Seq by (auto simp: nullable_iff)
next
  case (Rep r)
  then show ?case by (auto simp: star_Cons)
qed auto

lemma matchesRe_iff: "matchesRe r s \<longleftrightarrow> s \<in> reLang r"
proof (induction s arbitrary: r)
  case Nil
  then show ?case by (simp add: matchesRe_def nullable_iff)
next
  case (Cons c s)
  then show ?case using deriv_iff by (simp add: matchesRe_def)
qed

lemma toLowerByte_at: "toLowerByte c = CHR ''@'' \<Longrightarrow> c = CHR ''@''"
proof (rule ccontr)
  assume at: "toLowerByte c = CHR ''@''" and ne: "c \<noteq> CHR ''@''"
  then have up: "65 \<le> (of_char c :: nat)" "(of_char c :: nat) \<le> 90" by (auto simp: toLowerByte_def split: if_splits)
  have "of_char (toLowerByte c) = (64 :: nat)" unfolding at by simp
  then show False using up by (simp add: toLowerByte_def of_char_of)
qed

lemma IsEmail_at: "IsEmail email \<Longrightarrow> CHR ''@'' \<in> set email"
proof -
  assume "IsEmail email"
  then have "toLower email \<in> reLang (Seq anything (Seq emailReg anything))" by (simp add: IsEmail_def matchesRe_iff)
  then have "CHR ''@'' \<in> set (toLower email)" by (auto simp: emailReg_def oneChar_def)
  then obtain c where "c \<in> set email" "toLowerByte c = CHR ''@''" by (auto simp: toLower_def)
  then show ?thesis using toLowerByte_at [of c] by simp
qed

lemma index_at: "c \<in> set s \<Longrightarrow> index s [c] \<noteq> None"
  by (induction s) (auto simp: hasPrefix_def)

text \<open>The name in front of the address is always there.\<close>

lemma insertNew_returns:
  "\<exists>temp' n st'. insertNew db rs ea na admins gen es temp inserts st = (Ret (temp', n), st')"
proof (induction db rs ea na admins gen es temp inserts st rule: insertNew.induct)
  case (2 db rs ea na admins gen k entry es temp inserts st)
  let ?e = "en_attr entry ea" and ?n = "en_attr entry na"
  show ?case
  proof (cases "?e = [] \<or> \<not> IsEmail ?e")
    case True
    then show ?thesis using 2(1) by simp
  next
    case False
    then have "index ?e ''@'' \<noteq> None" using IsEmail_at index_at by blast
    then obtain i where i: "index ?e ''@'' = Some i" by blast
    then obtain name where "(if ?n = [] then map_option (\<lambda>i. take i ?e) (index ?e ''@'') else Some ?n) = Some name"
      by (cases "?n = []") simp_all
    then show ?thesis using False 2(2,3) by (auto simp: Let_def split: prod.splits)
  qed
qed simp

subsection \<open>The table\<close>

definition syncOk :: "'w userApi \<Rightarrow> ('w \<Rightarrow> nat \<rightharpoonup> UserBaseModel) \<Rightarrow> ('w \<Rightarrow> nat set) \<Rightarrow> bool" where
  "syncOk db rows dns \<longleftrightarrow> usersOk db rows \<and>
     (\<forall>w. finite (dom (rows w))) \<and>
     (\<forall>i n w. \<forall>u\<in>set (ud_after db i n w). rows w (u_ID u) = Some u \<and> i < u_ID u) \<and>
     (\<forall>k u w. dns w \<subseteq> dns (snd (ud_update db k u w))) \<and>
     (\<forall>ids g w. dns w \<subseteq> dns (snd (ud_setGen db ids g w)) \<and> dom (rows (snd (ud_setGen db ids g w))) = dom (rows w) \<and>
        (\<forall>j. j \<notin> set ids \<longrightarrow> rows (snd (ud_setGen db ids g w)) j = rows w j)) \<and>
     (\<forall>us w. dns w \<subseteq> dns (snd (ud_creates db us w)) \<and> rows w \<subseteq>\<^sub>m rows (snd (ud_creates db us w))) \<and>
     (\<forall>g w n w'. ud_disable db g w = (Inr n, w') \<longrightarrow>
        rows w' = (\<lambda>j. map_option (\<lambda>u. if u_LdapGen u < g \<and> j \<in> dns w then u\<lparr>u_Status := Some 0\<rparr> else u) (rows w j)))"

lemma syncOkD:
  assumes "syncOk db rows dns"
  shows "usersOk db rows" "finite (dom (rows w))"
    "u \<in> set (ud_after db i n w) \<Longrightarrow> rows w (u_ID u) = Some u \<and> i < u_ID u"
    "dns w \<subseteq> dns (snd (ud_update db k u w))"
    "dns w \<subseteq> dns (snd (ud_setGen db ids g w))" "dom (rows (snd (ud_setGen db ids g w))) = dom (rows w)"
    "j \<notin> set ids \<Longrightarrow> rows (snd (ud_setGen db ids g w)) j = rows w j"
    "dns w \<subseteq> dns (snd (ud_creates db us w))" "rows w \<subseteq>\<^sub>m rows (snd (ud_creates db us w))"
    "ud_disable db g w = (Inr m, w') \<Longrightarrow>
       rows w' = (\<lambda>j. map_option (\<lambda>u. if u_LdapGen u < g \<and> j \<in> dns w then u\<lparr>u_Status := Some 0\<rparr> else u) (rows w j))"
  using assms unfolding syncOk_def by (elim conjE, simp)+

text \<open>An account that no entry names is left alone, and its row stays where it is.\<close>

definition alone :: "('w \<Rightarrow> nat \<rightharpoonup> UserBaseModel) \<Rightarrow> ('w \<Rightarrow> nat set) \<Rightarrow> nat \<Rightarrow> UserBaseModel \<Rightarrow> 'w userWorld \<Rightarrow> bool" where
  "alone rows dns j u w \<longleftrightarrow> rows (uw_w w) j = Some u \<and> j \<in> dns (uw_w w)"

definition aside :: "('w \<Rightarrow> nat \<rightharpoonup> UserBaseModel) \<Rightarrow> ('w \<Rightarrow> nat set) \<Rightarrow> nat \<Rightarrow> UserBaseModel \<Rightarrow> 'w syncState \<Rightarrow> bool" where
  "aside rows dns j u st \<longleftrightarrow> alone rows dns j u (sy_world st) \<and> u_Email u \<notin> fst ` set (sy_entries st) \<and> j \<notin> u_ID ` set (sy_temp st)"

lemma UpdateUser_dns:
  assumes ok: "syncOk db rows dns" and run: "us_UpdateUser db i u st = (r, st')"
  shows "dns (uw_w st) \<subseteq> dns (uw_w st')"
proof -
  obtain r1 w1 where c: "ur_Update db i u (uw_w st) = (r1, w1)" by (metis surj_pair)
  have w: "uw_w st' = w1"
    using run c by (auto simp: us_UpdateUser_def onUsers_def split: outcome.splits option.splits)
  have "w1 = uw_w st \<or> (\<exists>e. ud_update db i u (uw_w st) = (e, w1))"
    using c by (auto simp: ur_Update_def split: sum.splits if_splits prod.splits option.splits)
  then show ?thesis using syncOkD(4) [OF ok, of "uw_w st" i u] w by auto
qed

lemma ldapUser_id [simp]: "u_ID (ldapUser u name dn gen admin) = u_ID u"
  by (simp add: ldapUser_def Let_def)

lemma updateLdap_facts:
  assumes ok: "syncOk db rows dns" and id: "u_ID user \<noteq> 0"
    and run: "us_UpdateUserByModelWithLdap db user name dn gen admin w = (r, w')"
  shows "dom (rows (uw_w w')) = dom (rows (uw_w w))"
    and "u_ID user \<noteq> j \<Longrightarrow> alone rows dns j u w \<Longrightarrow> alone rows dns j u w'"
proof -
  let ?u = "ldapUser user name dn gen admin"
  obtain r1 where up: "us_UpdateUser db (u_ID user) ?u w = (r1, w')"
    using run by (auto simp: us_UpdateUserByModelWithLdap_def Let_def split: prod.splits outcome.splits)
  note f = UpdateUser_rows [OF syncOkD(1) [OF ok] id up] UpdateUser_dns [OF ok up]
  show "dom (rows (uw_w w')) = dom (rows (uw_w w))" using f(1) by (elim disjE exE) (simp_all add: insert_absorb domI)
  show "u_ID user \<noteq> j \<Longrightarrow> alone rows dns j u w \<Longrightarrow> alone rows dns j u w'" using f by (auto simp: alone_def)
qed

lemma syncUser_world:
  assumes "syncUser db na admins gen user st = (r, st')"
  shows "sy_world st' = sy_world st \<or> (\<exists>name dn admin r1.
    us_UpdateUserByModelWithLdap db user name dn gen admin (sy_world st) = (r1, sy_world st'))"
  using assms by (auto simp: syncUser_def Let_def split: option.splits if_splits prod.splits outcome.splits)

lemma syncUser_facts:
  assumes ok: "syncOk db rows dns" and id: "u_ID user \<noteq> 0" and run: "syncUser db na admins gen user st = (r, st')"
  shows "dom (rows (uw_w (sy_world st'))) = dom (rows (uw_w (sy_world st)))"
    and "r = Ret x \<Longrightarrow> sy_now st' = max (sy_now st) (u_ID user)"
    and "(u_ID user = j \<Longrightarrow> user = u) \<Longrightarrow> aside rows dns j u st \<Longrightarrow> aside rows dns j u st'"
proof -
  show "dom (rows (uw_w (sy_world st'))) = dom (rows (uw_w (sy_world st)))"
    using syncUser_world [OF run] updateLdap_facts(1) [OF ok id] by metis
  show "r = Ret x \<Longrightarrow> sy_now st' = max (sy_now st) (u_ID user)"
    using run by (auto simp: syncUser_def Let_def split: option.splits if_splits prod.splits outcome.splits)
  show "aside rows dns j u st'" if u: "u_ID user = j \<Longrightarrow> user = u" and a: "aside rows dns j u st"
  proof (cases "map_of (sy_entries st) (u_Email user)")
    case None
    then show ?thesis using run a by (auto simp: syncUser_def aside_def Let_def)
  next
    case (Some e)
    then have ne: "u_ID user \<noteq> j" using u a by (force simp: aside_def dest: map_of_SomeD)
    then have al: "alone rows dns j u (sy_world st')"
      using a syncUser_world [OF run] updateLdap_facts(2) [OF ok id] unfolding aside_def by metis
    have e: "sy_entries st' = sy_entries st \<or> sy_entries st' = AList.delete (u_Email user) (sy_entries st)"
        "set (sy_temp st') \<subseteq> insert user (set (sy_temp st))"
      using run Some by (auto simp: syncUser_def Let_def split: if_splits prod.splits outcome.splits)
    have "fst ` set (sy_entries st') \<subseteq> fst ` set (sy_entries st)"
      using e(1) by (rule disjE) (simp_all only: subset_refl AList.dom_delete_subset)
    then have "u_Email u \<notin> fst ` set (sy_entries st')" using a unfolding aside_def by (metis subsetD)
    moreover have "j \<notin> u_ID ` set (sy_temp st')" using a e(2) ne by (auto simp: aside_def)
    ultimately show ?thesis using al by (simp add: aside_def)
  qed
qed

lemma syncBatch_facts:
  assumes ok: "syncOk db rows dns"
  shows "\<forall>x\<in>set us. u_ID x \<noteq> 0 \<and> (u_ID x = j \<longrightarrow> x = u) \<Longrightarrow> syncBatch db na admins gen us st = (r, st') \<Longrightarrow>
    dom (rows (uw_w (sy_world st'))) = dom (rows (uw_w (sy_world st))) \<and>
    (r = Ret () \<longrightarrow> sy_now st \<le> sy_now st' \<and> (\<forall>x\<in>set us. u_ID x \<le> sy_now st')) \<and>
    (aside rows dns j u st \<longrightarrow> aside rows dns j u st')"
proof (induction us arbitrary: st)
  case (Cons user us)
  obtain r1 st1 where s: "syncUser db na admins gen user st = (r1, st1)" by (metis surj_pair)
  have id: "u_ID user \<noteq> 0" "u_ID user = j \<Longrightarrow> user = u" using Cons.prems(1) by auto
  note f = syncUser_facts [OF ok id(1) s]
  show ?case
  proof (cases r1)
    case (Panic p)
    then show ?thesis using Cons.prems(2) s f(1) f(3) [of j u] id(2) by auto
  next
    case (Ret x)
    then have b: "syncBatch db na admins gen us st1 = (r, st')" using Cons.prems(2) s by simp
    have "\<forall>x\<in>set us. u_ID x \<noteq> 0 \<and> (u_ID x = j \<longrightarrow> x = u)" using Cons.prems(1) by simp
    note g = Cons.IH [OF this b]
    show ?thesis using g f(1) f(2) [OF Ret] f(3) [of j u] id(2) by auto
  qed
qed auto

lemma batchGen_facts:
  assumes ok: "syncOk db rows dns"
  shows "dom (rows (uw_w (sy_world (batchGen db gen st)))) = dom (rows (uw_w (sy_world st)))" "sy_now (batchGen db gen st) = sy_now st"
    and "aside rows dns j u st \<Longrightarrow> aside rows dns j u (batchGen db gen st)"
proof -
  let ?w = "uw_w (sy_world st)" and ?ids = "map u_ID (sy_temp st)"
  have w: "uw_w (sy_world (batchGen db gen st)) = (if sy_temp st = [] then ?w else snd (ud_setGen db ?ids gen ?w))"
    by (simp add: batchGen_def onUsers_def UpdateUsersLdapGen_def split: prod.splits)
  show "dom (rows (uw_w (sy_world (batchGen db gen st)))) = dom (rows ?w)" unfolding w using syncOkD(6) [OF ok] by simp
  show "sy_now (batchGen db gen st) = sy_now st" by (simp add: batchGen_def split: prod.splits)
  have e: "sy_entries (batchGen db gen st) = sy_entries st" "sy_temp (batchGen db gen st) = []"
    by (simp_all add: batchGen_def split: prod.splits)
  show "aside rows dns j u st \<Longrightarrow> aside rows dns j u (batchGen db gen st)"
    using syncOkD(5) [OF ok, of ?w ?ids gen] syncOkD(7) [OF ok, of j ?ids gen ?w] e
    by (auto simp: aside_def alone_def w)
qed

text \<open>The loop over the users: every round reads rows with larger ids, of which there are finitely many.\<close>

lemma syncExisting_returns:
  assumes ok: "syncOk db rows dns"
  shows "\<exists>r st'. syncExisting db na admins gen st = Some (r, st') \<and> (\<forall>j u. aside rows dns j u st \<longrightarrow> aside rows dns j u st')"
proof (induction "card {k \<in> dom (rows (uw_w (sy_world st))). sy_now st < k}" arbitrary: st rule: less_induct)
  case less
  let ?w = "uw_w (sy_world st)"
  show ?case
  proof (cases "BatchListByUserId db (sy_now st) ?w")
    case Nil
    then have "syncExisting db na admins gen st = Some (Ret (), st)" by (simp add: syncExisting.simps)
    then show ?thesis by simp
  next
    case (Cons user us)
    have read: "rows ?w (u_ID x) = Some x \<and> sy_now st < u_ID x" if "x \<in> set (user # us)" for x
      using that Cons syncOkD(3) [OF ok, of x "sy_now st" 500 ?w] by (simp add: BatchListByUserId_def)
    obtain r1 st1 where b: "syncBatch db na admins gen (user # us) st = (r1, st1)" by (metis surj_pair)
    have f: "dom (rows (uw_w (sy_world st1))) = dom (rows ?w) \<and>
        (r1 = Ret () \<longrightarrow> sy_now st \<le> sy_now st1 \<and> (\<forall>x\<in>set (user # us). u_ID x \<le> sy_now st1)) \<and>
        (aside rows dns j u st \<longrightarrow> aside rows dns j u st1)"
      if "aside rows dns j u st \<or> j = 0" for j u
    proof (rule syncBatch_facts [OF ok _ b], intro ballI conjI impI)
      fix x assume x: "x \<in> set (user # us)"
      show "u_ID x \<noteq> 0" using read [OF x] by simp
      show "x = u" if "u_ID x = j" using that \<open>aside rows dns j u st \<or> j = 0\<close> read [OF x] by (auto simp: aside_def alone_def)
    qed
    show ?thesis
    proof (cases r1)
      case (Panic p)
      then have "syncExisting db na admins gen st = Some (Panic p, st1)" using Cons b by (subst syncExisting.simps) simp
      then show ?thesis using f by blast
    next
      case (Ret x)
      let ?st = "batchGen db gen st1"
      have step: "syncExisting db na admins gen st = syncExisting db na admins gen ?st"
        using Cons b Ret by (subst syncExisting.simps) simp
      have now: "u_ID user \<le> sy_now ?st" "dom (rows (uw_w (sy_world ?st))) = dom (rows ?w)" "sy_now st \<le> sy_now ?st"
        using f [of 0] Ret batchGen_facts(1,2) [OF ok] by auto
      have "{k \<in> dom (rows (uw_w (sy_world ?st))). sy_now ?st < k} \<subset> {k \<in> dom (rows ?w). sy_now st < k}"
      proof
        show "{k \<in> dom (rows (uw_w (sy_world ?st))). sy_now ?st < k} \<subseteq> {k \<in> dom (rows ?w). sy_now st < k}" using now by auto
        have "u_ID user \<in> {k \<in> dom (rows ?w). sy_now st < k}" "u_ID user \<notin> {k \<in> dom (rows (uw_w (sy_world ?st))). sy_now ?st < k}"
          using now(1) read [of user] by auto
        then show "{k \<in> dom (rows (uw_w (sy_world ?st))). sy_now ?st < k} \<noteq> {k \<in> dom (rows ?w). sy_now st < k}" by blast
      qed
      then have "card {k \<in> dom (rows (uw_w (sy_world ?st))). sy_now ?st < k} < card {k \<in> dom (rows ?w). sy_now st < k}"
        using syncOkD(2) [OF ok, of ?w] by (intro psubset_card_mono) auto
      from less [OF this] obtain r st' where "syncExisting db na admins gen ?st = Some (r, st')"
        "\<forall>j u. aside rows dns j u ?st \<longrightarrow> aside rows dns j u st'" by blast
      then show ?thesis using step f batchGen_facts(3) [OF ok] by metis
    qed
  qed
qed

lemma CreateUsers_alone:
  assumes ok: "syncOk db rows dns" and "alone rows dns j u w"
  shows "alone rows dns j u (snd (CreateUsers db us w))"
proof -
  have w: "uw_w (snd (CreateUsers db us w)) = (if us = [] then uw_w w else snd (ud_creates db us (uw_w w)))"
    by (simp add: CreateUsers_def onUsers_def ur_Creates_def split: prod.splits option.splits)
  show ?thesis using assms(2) syncOkD(8) [OF ok, of "uw_w w" us] syncOkD(9) [OF ok, of "uw_w w" us]
    by (auto simp: alone_def w map_le_def dom_def)
qed

lemma insertNew_alone:
  assumes ok: "syncOk db rows dns"
  shows "alone rows dns j u w \<Longrightarrow> alone rows dns j u (snd (insertNew db rs ea na admins gen es temp inserts w))"
proof (induction es arbitrary: temp inserts w)
  case (Cons x es)
  obtain k entry where x: "x = (k, entry)" by (cases x)
  have c: "alone rows dns j u (snd (insertNew db rs ea na admins gen es [] i (snd (CreateUsers db us w))))" for i us
    using Cons.IH [OF CreateUsers_alone [OF ok Cons.prems]] .
  show ?case
    using Cons.prems Cons.IH [OF Cons.prems] c
    by (auto simp: x Let_def case_prod_unfold split: option.splits)
qed simp

subsection \<open>The synchronisation\<close>

text \<open>C16: A synchronisation with LDAP always ends, whatever users the table has. When it succeeds, every account whose
  address is not among the entries, whose generation is an older one and whose distinguished
  name is not null is disabled. That holds for local accounts too, since their distinguished
  name is stored as the empty text.\<close>

theorem sync_disables_unlisted_accounts:
  assumes ok: "syncOk db rows dns" and found: "searchAll ld m conn = Ret (Inr (es, admins))"
  shows "\<exists>r w'. syncWith db ld rs walk m w conn = Some (r, w') \<and>
    (\<forall>report j u. r = Ret (Inr report) \<and> rows (uw_w w) j = Some u \<and> j \<in> dns (uw_w w) \<and> u_Email u \<notin> fst ` set es \<and>
       u_LdapGen u < lm_SyncGen m \<longrightarrow> rows (uw_w w') j = Some (u\<lparr>u_Status := Some 0\<rparr>))"
proof -
  let ?st = "\<lparr>sy_entries = es, sy_temp = [], sy_now = 0, sy_updates = 0, sy_success = 0, sy_world = w\<rparr>"
  obtain r1 st1 where x: "syncExisting db (lm_UserNameAttr m) admins (lm_SyncGen m) ?st = Some (r1, st1)"
    and keep: "\<forall>j u. aside rows dns j u ?st \<longrightarrow> aside rows dns j u st1"
    using syncExisting_returns [OF ok] by blast
  show ?thesis
  proof (cases r1)
    case (Panic p)
    then show ?thesis using x found by (simp add: syncWith_def)
  next
    case (Ret y)
    obtain temp n w1 where i: "insertNew db rs (lm_EmailAttr m) (lm_UserNameAttr m) admins (lm_SyncGen m) (walk (sy_entries st1)) [] 0 (sy_world st1) =
        (Ret (temp, n), w1)" using insertNew_returns by metis
    obtain k w2 where c: "CreateUsers db temp w1 = (k, w2)" by (metis surj_pair)
    obtain d w3 where d: "ud_disable db (lm_SyncGen m) (uw_w w2) = (d, w3)" by (metis surj_pair)
    let ?fin = "finishSync db (lm_SyncGen m) (length es) st1 (n + k) w2"
    have run: "syncWith db ld rs walk m w conn = Some ?fin" using x found Ret i c by (simp add: syncWith_def)
    have "rows (uw_w (snd ?fin)) j = Some (u\<lparr>u_Status := Some 0\<rparr>)"
      if a: "fst ?fin = Ret (Inr report)" "rows (uw_w w) j = Some u" "j \<in> dns (uw_w w)" "u_Email u \<notin> fst ` set es" "u_LdapGen u < lm_SyncGen m"
      for report j u
    proof -
      obtain q where q: "d = Inr q" "uw_w (snd ?fin) = w3"
        using a(1) d by (cases d) (auto simp: finishSync_def onUsers_def DeleteOutOfSyncLdapUser_def)
      have "aside rows dns j u ?st" using a(2-4) by (simp add: aside_def alone_def)
      then have "alone rows dns j u (sy_world st1)" using keep by (simp add: aside_def)
      then have "alone rows dns j u w1" using insertNew_alone [OF ok] i by (metis snd_conv)
      then have "alone rows dns j u w2" using CreateUsers_alone [OF ok] c by (metis snd_conv)
      then show ?thesis using syncOkD(10) [OF ok] d q a(5) by (simp add: alone_def)
    qed
    then show ?thesis using run by (metis prod.collapse)
  qed
qed

text \<open>
  The job runs for every enabled configuration, whoever holds the lock, and for one that is not
  enabled as soon as nobody holds it.
\<close>

lemma sync_ignores_lock_and_switch:
  assumes "lb_first lb (uw_w w) = Inr (Some m)" and "Uint64PointerToBool (lm_Enable m) \<or>
      lm_SyncProtectionTs m < now \<and> fst (TryGetLock lb (lm_ID m) newTs (lm_SyncProtectionTs m) (uw_w w))"
    and "cronJobTrigger db lb ld rs walk newTs now False pool w = Some (r, did, pool', w')"
  shows did
  using assms by (auto simp: cronJobTrigger_def syncGuard_def onUsers_def Let_def
      split: prod.splits sum.splits option.splits outcome.splits if_splits bool.splits)

subsection \<open>An example\<close>

text \<open>Users in memory with ids below ten, and a server that lists Ann.\<close>

definition syncRows :: "memUsers \<Rightarrow> nat \<rightharpoonup> UserBaseModel" where
  "syncRows w j = (if j < 10 then memUserRows w j else None)"

definition eachUser :: "(nat \<Rightarrow> UserBaseModel \<Rightarrow> UserBaseModel) \<Rightarrow> memUsers \<Rightarrow> memUsers" where
  "eachUser f w = (\<lambda>j. map_option (f j) (w j))"

definition syncDb :: "memUsers userApi" where
  "syncDb = memUserDb\<lparr>ud_byId := \<lambda>i w. Inr (syncRows w i), ud_after := \<lambda>i n w. take n (List.map_filter (syncRows w) [Suc i..<10]),
     ud_setGen := \<lambda>ids g w. (length ids, eachUser (\<lambda>j u. if j \<in> set ids then u\<lparr>u_LdapGen := g\<rparr> else u) w),
     ud_disable := \<lambda>g w. (Inr 1, eachUser (\<lambda>_ u. if u_LdapGen u < g then u\<lparr>u_Status := Some 0\<rparr> else u) w)\<rparr>"

lemma syncRows_each: "(\<And>j u. u_ID (f j u) = u_ID u) \<Longrightarrow> syncRows (eachUser f w) = (\<lambda>j. map_option (f j) (syncRows w j))"
  by (rule ext) (simp add: syncRows_def memUserRows_def eachUser_def split: option.splits)

lemma syncRows_id: "syncRows w k = Some u \<Longrightarrow> u_ID u = k"
  by (simp add: syncRows_def memUserRows_id split: if_splits)

lemma sync_users: "usersOk syncDb syncRows"
proof -
  have "syncRows w' = syncRows w \<or>
      (if k = 0 then syncRows w' = (\<lambda>j. map_option (\<lambda>old. mergeUser old u) (syncRows w j))
       else \<exists>old. syncRows w k = Some old \<and> syncRows w' = (syncRows w)(k \<mapsto> mergeUser old u))"
    if "ud_update syncDb k u w = (r, w')" for k u w r w'
  proof -
    have "ud_update memUserDb k u w = (r, w')" using that by (simp add: syncDb_def)
    then have "memUserRows w' = memUserRows w \<or>
        (if k = 0 then memUserRows w' = (\<lambda>j. map_option (\<lambda>old. mergeUser old u) (memUserRows w j))
         else \<exists>old. memUserRows w k = Some old \<and> memUserRows w' = (memUserRows w)(k \<mapsto> mergeUser old u))"
      using mem_users unfolding usersOk_def by blast
    then show ?thesis by (auto simp: syncRows_def [abs_def] fun_eq_iff split: if_splits)
  qed
  moreover have "case ud_byId syncDb i w of Inr (Some u) \<Rightarrow> syncRows w i = Some u \<and> u_ID u = i | _ \<Rightarrow> True" for i w
    by (simp add: syncDb_def syncRows_id split: option.splits)
  ultimately show ?thesis unfolding usersOk_def by blast
qed

lemma sync_db: "syncOk syncDb syncRows (\<lambda>_. UNIV)"
proof -
  have "finite (dom (syncRows w))" for w
    by (rule finite_subset [of _ "{..<10}"]) (auto simp: syncRows_def split: if_splits)
  moreover have "syncRows w (u_ID u) = Some u \<and> i < u_ID u" if "u \<in> set (ud_after syncDb i n w)" for i n w u
  proof -
    have "u \<in> set (List.map_filter (syncRows w) [Suc i..<10])" using that by (auto simp: syncDb_def dest: in_set_takeD)
    then obtain k where k: "syncRows w k = Some u" "i < k" by (auto simp: List.map_filter_def)
    then show ?thesis using syncRows_id [OF k(1)] by simp
  qed
  moreover have "dom (syncRows (snd (ud_setGen syncDb ids g w))) = dom (syncRows w)"
      "j \<notin> set ids \<Longrightarrow> syncRows (snd (ud_setGen syncDb ids g w)) j = syncRows w j" for ids g w j
    by (auto simp: syncDb_def syncRows_each option.map_ident)
  moreover have "ud_disable syncDb g w = (Inr n, w') \<Longrightarrow>
      syncRows w' = (\<lambda>j. map_option (\<lambda>u. if u_LdapGen u < g \<and> j \<in> UNIV then u\<lparr>u_Status := Some 0\<rparr> else u) (syncRows w j))" for g w n w'
    by (auto simp: syncDb_def syncRows_each)
  moreover have "syncRows w \<subseteq>\<^sub>m syncRows (snd (ud_creates syncDb us w))" for us w by (simp add: syncDb_def memUserDb_def)
  ultimately show ?thesis using sync_users unfolding syncOk_def by simp
qed

definition annEntry :: ldapEntry where
  "annEntry = \<lparr>en_DN = ''cn=ann'', en_attr = (\<lambda>a. if a = ''mail'' then ''ann@dev'' else [])\<rparr>"

definition demoServer :: "unit ldapApi" where
  "demoServer = demoLdap\<lparr>ld_search := \<lambda>_ _ _. Ret (Inr [annEntry])\<rparr>"

definition demoConfig :: LdapModel where
  "demoConfig = \<lparr>lm_ID = 1, lm_Server = ''ldap://dir'', lm_Tls = None, lm_Md5 = None, lm_BindDn = [], lm_Password = [], lm_BaseDn = ''dc=dev'',
     lm_Filter = [], lm_AdminBaseDn = [], lm_AdminFilter = [], lm_EmailAttr = ''mail'', lm_UserNameAttr = ''cn'', lm_Enable = Some 1,
     lm_SyncGen = 1, lm_SyncProtectionTs = 0, lm_Inserts = 0, lm_Updates = 0, lm_Deletes = 0\<rparr>"

text \<open>Bob, the only administrator, has a local account and is locked out.\<close>

theorem sync_disables_unlisted_accounts_witness:
  "u_LdapDN bobUser = [] \<and> u_Status bobUser = Some 1 \<and>
   (\<exists>report w'. syncWith syncDb demoServer (\<lambda>_. ''pw'') (\<lambda>m. m) demoConfig demoUsers (Some ()) = Some (Ret (Inr report), w') \<and>
      syncRows (uw_w w') 5 = Some (bobUser\<lparr>u_Status := Some 0\<rparr>))"
proof -
  have found: "searchAll demoServer demoConfig (Some ()) = Ret (Inr ([(''ann@dev'', annEntry)], []))"
    by (simp add: searchAll_def demoServer_def demoLdap_def doSearch_def demoConfig_def ToMailMapping_def annEntry_def)
  obtain r w' where run: "syncWith syncDb demoServer (\<lambda>_. ''pw'') (\<lambda>m. m) demoConfig demoUsers (Some ()) = Some (r, w')"
    and all: "\<forall>report j u. r = Ret (Inr report) \<and> syncRows (uw_w demoUsers) j = Some u \<and> j \<in> UNIV \<and> u_Email u \<notin> fst ` set [(''ann@dev'', annEntry)] \<and>
       u_LdapGen u < lm_SyncGen demoConfig \<longrightarrow> syncRows (uw_w w') j = Some (u\<lparr>u_Status := Some 0\<rparr>)"
    using sync_disables_unlisted_accounts [OF sync_db found, of "\<lambda>_. ''pw''" "\<lambda>m. m" demoUsers] by blast
  have "syncRows (uw_w demoUsers) 5 = Some bobUser" "u_Email bobUser \<notin> fst ` set [(''ann@dev'', annEntry)]"
    "u_LdapGen bobUser < lm_SyncGen demoConfig"
    by code_simp (simp_all add: bobUser_def zeroUser_def demoConfig_def)
  then have five: "\<forall>report. r = Ret (Inr report) \<longrightarrow> syncRows (uw_w w') 5 = Some (bobUser\<lparr>u_Status := Some 0\<rparr>)" using all by blast
  let ?report = "\<lparr>rp_Entries = 1, rp_Inserts = 0, rp_Updates = 1, rp_Deletes = 1, rp_Fails = 0\<rparr>"
  have "map_option fst (syncWith syncDb demoServer (\<lambda>_. ''pw'') (\<lambda>m. m) demoConfig demoUsers (Some ())) = Some (Ret (Inr ?report))"
    by code_simp
  then have "r = Ret (Inr ?report)" using run by simp
  then show ?thesis using five run by (simp add: bobUser_def zeroUser_def)
qed

end
