(* ===== verification/Spec2Isabelle.thy ===== *)
theory Spec2Isabelle
  imports AppMetaProps ConfigProps DhcpProps DevDirProps EnvRender WebhookProps Validate MetaManagerProps ResCacheProps DevModeProps
    PfManagerProps RoleMachine CoopProps SpaceLifeProps ApiAuthProps LdapSyncProps
begin

text \<open>
  A verification development of nocalhost, a tool for developing services inside a
  Kubernetes cluster. The program is written in Go. Its parts: \<open>nhctl\<close>, the command line tool
  with its daemon, which installs applications, switches workloads into dev mode,
  forwards ports and synchronises files; \<open>nocalhost-dep\<close>, an admission webhook in the
  cluster; and \<open>nocalhost-api\<close>, a web server that manages users and clusters. The
  components share little state: an application is described by a Kubernetes secret
  (the application meta), its configuration comes from YAML texts passed through a template
  engine, and the developer's machine keeps a small database of which directory holds the
  sources of which service. Where a component follows the cluster it does so through a watch
  controller: the daemon follows the application secrets and the helm releases, the webhook the
  configurations and the service accounts, the web server the role bindings.

  \<^bold>\<open>How Go is modelled.\<close> A string is a list of bytes. A map is a partial function, and every
  operation that ranges over a map takes the order of the walk as an argument, so that the
  theorems hold for all orders. A pointer that may be nil is an option. An error is its
  message, and a fallible function returns \<open>gerr + 'a\<close>. A nil dereference or a write to a nil
  map is the value \<open>Panic\<close> of type \<open>outcome\<close>. An operation that changes the cluster, the
  database or the file system passes a world \<open>'w\<close> along; what it calls there is a field of a
  record of operations (\<open>'w api\<close>, \<open>'w cmApi\<close>, \<open>'w dirEnv\<close>, \<open>'w saApi\<close>, \<open>'w whEnv\<close>, \<open>'w mgrEnv\<close>, \<open>'w pvcApi\<close>,
  \<open>'w podApi\<close>, \<open>'w profApi\<close>, \<open>'w daemonApi\<close>, \<open>'w rbacApi\<close>, \<open>'w svcEnv\<close>, \<open>'w spaceEnv\<close>, \<open>'w gormApi\<close>, \<open>'w lifeEnv\<close>,
  \<open>'w userApi\<close>, \<open>jwtApi\<close>, \<open>'c ldapApi\<close>, \<open>'w ldapDb\<close>), so
  that nothing is assumed of the cluster but what a theorem states as a hypothesis. Integers
  that can wrap are words. Goroutines that share state are step relations (\<open>ctl_step\<close>, \<open>ev_run\<close>, \<open>roles_step\<close>)
  or step functions with runs (\<open>daemonStep\<close>, \<open>pf_run\<close>); a step is a single access to what is shared,
  and the runs are all interleavings of such steps. Requests and expiring cache entries are
  \<open>cache_step\<close>. Where a race is not modelled by steps its outcome is a parameter, as for the owner
  lookups of the webhook, or the other side may change the world arbitrarily between two
  requests, as between reading and patching the table of leases. The module is built as Go 1.16, so
  that the variable of a range loop is one variable for all rounds.

  \<^bold>\<open>Theories and sources.\<close> Paths are below \<open>src/internal/nhctl\<close> unless said otherwise.
  \<^item> \<open>Prelude\<close>: the conventions above, the interfaces \<open>codec\<close> (a printer undone by its parser)
    and \<open>keyed_store\<close> (a table written and read by key), generic lemmas.
  \<^item> \<open>GoStrings\<close>: the functions of the packages \<open>strings\<close> and \<open>strconv\<close> the program uses, with
    the laws of splitting and joining and the round trip of decimal numbers
    (interpretation \<open>itoa_codec\<close>).
  \<^item> \<open>SvcTypes\<close>: workload types, dev modes and the dev-mode actions of each type
    (\<open>common/base/base.go\<close>, \<open>common/base/svctype.go\<close>, \<open>nocalhost/svc_type.go\<close>).
  \<^item> \<open>Profile\<close>: the configuration structs and operations (\<open>profile/config_v1.go\<close>,
    \<open>profile/config_v2.go\<close>, \<open>profile/svc_config.go\<close>, \<open>profile/profile_v2.go\<close>) and the conversion
    of version 1 (\<open>app/config_converter.go\<close>); the store of service configurations is an
    instance of \<open>keyed_store\<close>. \<open>ConfigProps\<close> has its properties.
  \<^item> \<open>DevMeta\<close>: the table of who develops what and the events derived from two tables
    (\<open>appmeta/application_dev_meta.go\<close> and the dev-mode operations of
    \<open>appmeta/application_meta.go\<close>), with the interface \<open>dev_table\<close> and its interpretation
    \<open>replace_mode\<close>.
  \<^item> \<open>AppMeta\<close>: the application meta, its encoding in the secret, updates with retries,
    installation, deletion and uninstallation (\<open>appmeta/application_meta.go\<close>).
    \<open>AppMetaProps\<close> has the properties of both theories.
  \<^item> \<open>Dhcp\<close>: the addresses of the VPN, leased through a config map
    (\<open>vpn/remote/dhcp.go\<close>, \<open>vpn/util/util.go\<close>); renting is the two requests \<open>rentRead\<close> and
    \<open>rentPatch\<close>. \<open>DhcpProps\<close> has its properties.
  \<^item> \<open>DevDir\<close>: the directories associated with services (\<open>dev_dir/dev_dir_mapping.go\<close>,
    \<open>dev_dir/dev_dir_mapping_db.go\<close>). \<open>DevDirProps\<close> has its properties; the keys of the
    database are an instance of \<open>codec\<close>.
  \<^item> \<open>FilePath\<close>: paths, cached file handles and environment files (\<open>fp/filepath.go\<close>), with
    their properties.
  \<^item> \<open>EnvLex\<close>, \<open>EnvParse\<close>: the template engine, lexer, parser, nodes and the recursive
    rendering with includes (\<open>envsubst/envsubst.go\<close>, \<open>envsubst/parse\<close>). \<open>EnvProps\<close> and
    \<open>EnvRender\<close> have its properties.
  \<^item> \<open>CfgRender\<close>: from a configuration text or file to a configuration, with the environment files
    read in and duplicate services removed (\<open>app/build.go\<close>, loaders of \<open>app/application.go\<close>).
    \<open>RenderProps\<close> has its properties.
  \<^item> \<open>Validate\<close>: the validators of a configuration and the parser of port pairs
    (\<open>config_validate/config_validate.go\<close>, \<open>utils/util.go\<close>), with their properties.
  \<^item> \<open>Watch\<close>: the work queue of client-go, the watch controller (\<open>watcher/commonWatcher.go\<close>) and the
    two watchers of the webhook (\<open>src/internal/nocalhost-dep/cm\<close>,
    \<open>src/internal/nocalhost-dep/serviceaccount\<close>). \<open>WatchProps\<close> has the machine that interleaves
    them, the contract \<open>watcher_cache\<close> of a watcher with the invariant of the machine, its
    interpretation \<open>cm_watch\<close>, and the properties.
  \<^item> \<open>Webhook\<close>: the admission webhook, from a request to its JSON patch
    (\<open>src/internal/nocalhost-dep/webhook\<close>). \<open>WebhookProps\<close> states what a JSON patch means and what
    the patches of the webhook do.
  \<^item> \<open>ResCache\<close>: the daemon's cache of cluster objects, its resource types, queries and sets of
    application names (\<open>resouce_cache/search.go\<close>, \<open>resouce_cache/appcache.go\<close>). \<open>ResCacheProps\<close>
    has its properties.
  \<^item> \<open>MetaManager\<close>: the daemon's view of the applications, with the queue of dev-mode events, the
    watcher of application secrets, the supervisor and the helm watchers (\<open>appmeta_manager\<close>).
    \<open>MetaManagerProps\<close> interprets \<open>watcher_cache\<close> a second time (\<open>app_watch\<close>) and shows that the
    events rebuild the dev-mode tables of the cluster, which composes \<open>AppMeta\<close>, \<open>DevMeta\<close> and \<open>Watch\<close>.
  \<^item> \<open>DevPod\<close>: what a pod becomes in dev mode, with its volumes, claims, dev container and side-car
    (\<open>controller/dev_start.go\<close>, \<open>controller/config.go\<close>). \<open>DevPodProps\<close> shows the shape of the
    dev pod, that its mounts have volumes, and that the work directory is shared.
  \<^item> \<open>DevMode\<close>: the controllers of pods without owner, the search of the dev pod, the states of a
    workload and the end of dev mode (\<open>controller/raw_pod_controller.go\<close>,
    \<open>controller/duplicate_raw_pod_controller.go\<close>, \<open>controller/service.go\<close>,
    \<open>controller/dev_end.go\<close>). \<open>DevModeProps\<close> shows the way into dev mode and back, and composes
    the end of dev mode with the table of \<open>DevMeta\<close>.
  \<^item> \<open>PortForward\<close>: the records of port forwards in the profiles of \<open>Profile\<close> and the commands of the
    client (\<open>controller/profile.go\<close>, \<open>controller/port_forward.go\<close>).
  \<^item> \<open>PfManager\<close>: the daemon's manager of port forwards, its map, goroutines, markers and recovery
    (\<open>daemon_server/portforward_manager.go\<close>). A command is a thread, a list of program points; a
    point makes at most one access to the map, the goroutines, the database or the markers.
    \<open>PfManagerProps\<close> has the runs that interleave the threads and the goroutines, their
    invariant, the two ways in which a second start of a forward ends, and two starts at a time that
    record a forward twice.
  \<^item> \<open>Rbac\<close>: namespaces, service accounts, roles and role bindings, and the authorisation of users
    (\<open>src/pkg/nocalhost-api/pkg/clientgo/client.go\<close>,
    \<open>src/internal/nocalhost-api/service/service.go\<close>). \<open>RbacProps\<close> shows that the two roles of a
    namespace exclude each other and what the removal from cluster bindings does to errors.
    \<open>RoleMachine\<close> has the goroutines that create the cluster roles, under all schedules.
  \<^item> \<open>Coop\<close>: cooperators and viewers of namespaces and clusters, and the watchers of role bindings
    (\<open>src/internal/nocalhost-api/service/cooperator\<close>).
  \<^item> \<open>DevSpace\<close>: permissions on dev spaces, sharing, the list of dev spaces and the kubeconfig of a
    user (\<open>src/pkg/nocalhost-api/app/api/v1/cluster_user\<close>, \<open>service_account\<close>). \<open>CoopProps\<close> interprets
    \<open>watcher_cache\<close> a third time (\<open>rb_watch\<close>), so that the roles follow the cluster, and shows
    which namespaces a user is given under which role.
  \<^item> \<open>SpaceDb\<close>: the table of dev spaces and the service with its cache
    (\<open>src/internal/nocalhost-api/repository/cluster_user\<close>,
    \<open>src/internal/nocalhost-api/service/cluster_user\<close>). \<open>SpaceDbProps\<close> states what the object mapper
    promises and shows that the cache follows the table.
  \<^item> \<open>SpaceQuota\<close>: the limits of a dev space, their validation, quotas and limit ranges
    (\<open>create.go\<close> of \<open>cluster_user\<close>, \<open>clientgo/client.go\<close>, \<open>setupcluster/clusterdevs.go\<close>).
  \<^item> \<open>SpaceLife\<close>: creation, deletion, re-creation and updates of dev spaces, handlers included
    (\<open>dev_space.go\<close>, \<open>create.go\<close>, \<open>delete.go\<close>, \<open>update.go\<close>, \<open>common.go\<close> of \<open>cluster_user\<close>). \<open>SpaceLifeProps\<close>
    composes them with \<open>SpaceDb\<close>, \<open>Rbac\<close> and \<open>DevSpace\<close>: who owns a created dev space, what a
    deletion takes away, and what a limit that is no quantity does.
  \<^item> \<open>Users\<close>: the table of users, the service with its cache and the pool of LDAP connections
    (\<open>src/internal/nocalhost-api/repository/user\<close>, \<open>service/user\<close>, \<open>service/ldap\<close>).
  \<^item> \<open>ApiAuth\<close>: tokens, login, registration and update of users, the middlewares and the groups of
    routes (\<open>src/pkg/nocalhost-api/pkg/token\<close>, \<open>app/api/v1/user\<close>, \<open>app/router\<close>). \<open>ApiAuthProps\<close> shows that
    a token identifies the user who logged in, that users change only their own profile, and
    how far passwords of LDAP users and the white list of paths protect.
  \<^item> \<open>LdapSync\<close>: the synchronisation of users with an LDAP server and its job
    (\<open>src/internal/nocalhost-api/service/job.go\<close>). \<open>LdapSyncProps\<close> shows that it ends, what becomes
    of accounts the server does not list, and when the job runs; it composes \<open>Users\<close> with the
    language of the expression for addresses.

  \<^bold>\<open>Bounds and fuel.\<close> \<open>Update\<close> of the application meta retries at most
  \<open>DefaultRetrySteps = 5\<close> times, as the code does. \<open>probe\<close> counts the 254 iterations of the loop
  in \<open>getIP\<close>. \<open>Parse\<close> of the template engine takes a bound on the depth of nested includes;
  \<open>rendering_terminates\<close> shows that one more than the number of readable files is enough, for texts
  the parser returns on. The
  loops of the parser are partial functions whose value \<open>None\<close> means that the loop never
  returns; \<open>parse_returns\<close> shows when they return and
  \<open>parse_hangs_on_unfinished_substitution\<close> that there is a text on which they do not. The
  lexer's driver \<open>runLexer\<close> is guarded by \<open>lexOk\<close>, which every reachable lexer state satisfies.
  The walk over the owners of an object is a partial function as well, in \<open>PfManager\<close> and in
  \<open>ResCache\<close>, where \<open>query_selects_exactly\<close> shows exactly when queries for an application return:
  when the owners of the objects in scope come to an end, as they do when owners are older than what
  they own. A refused service account is created at most
  four times, and a name for a new dev space is tried four times; \<open>getUnDuplicateName\<close> counts
  up to three and needs no fuel. The loop of the LDAP synchronisation over the users is a
  partial function; \<open>syncExisting_returns\<close> shows that it ends. The controller gives
  up on a key after five retries, the wait for a claim lasts 30 rounds, and \<open>consume\<close> after five retries of a listener, as in the code.

  \<^bold>\<open>Not modelled.\<close> The database engine and the matching of routes of the HTTP API server, which are
  libraries, and the command line, which passes requests on; of that server also the tables of
  clusters and applications, and the import of users and namespaces; the patches that bring deployments and the other workload types into dev mode,
  which are built and applied by the generic JSON and patch libraries, and the set-up of service
  meshes; the daemon's sockets, the connections that carry the bytes of port forwards, the VPN and
  syncthing, which are input and output of the operating system; the LRU of searchers in the resource cache, whose entries are running informers; and
  the fork of the YAML library, which is a parameter like the other codecs.
\<close>

end
